(* ===== verification/Prelude.thy ===== *)
theory Prelude
  imports Main "HOL-Library.Char_ord" "HOL-Library.List_Lexorder" "HOL-Library.Product_Lexorder"
    "HOL-Library.Multiset"
begin

text \<open>
  Shared vocabulary of the development: Python exceptions as values of a sum type and the
  combinators that propagate them, Python dictionaries and canonical (sorted, duplicate
  free) lists, the ASCII text predicates that the validators of
  \<^verbatim>\<open>src/src/misscomputer_subnet\<close> apply, and the collections of facts that
  carry the component proofs.
\<close>

named_theorems res_simps \<open>inversion of successful and failing results\<close>
named_theorems text_simps \<open>text and digest predicates\<close>
named_theorems canon_simps \<open>canonical ordering\<close>

section \<open>Exceptions as values\<close>

text \<open>
  One constructor for each exception class the modelled code raises. The argument is the
  message (\<^verbatim>\<open>WeightPlanError\<close>, \<^verbatim>\<open>ValueError\<close>) or the error code
  (\<^verbatim>\<open>WeightExecutionError.code\<close>, \<^verbatim>\<open>OrganicScoringError.code\<close> and so on).
\<close>

datatype exn =
    WeightPlanError string
  | WeightPlanTargetError string
  | WeightExecutionError string
  | AuditStateError string
  | ScoringError string
  | AssignmentProbeError string
  | DecisionError string
  | ReconciliationError string
  | CheckpointRelayError string
  | ScoreContractError string
  | StaticPathError string
  | StaticScoringError string
  | ValueError string
  | KeyError string
  | TypeError string
  | OverflowError string
  | RuntimeError string
  | OSError string
  | CancelledError string

text \<open>
  \<^verbatim>\<open>except Exception\<close> lets cancellation and process-level exceptions pass.
\<close>

definition is_exception :: "exn \<Rightarrow> bool" where
  "is_exception e = (case e of CancelledError _ \<Rightarrow> False | _ \<Rightarrow> True)"

text \<open>
  The subclasses of \<^verbatim>\<open>ValueError\<close> among them: \<^verbatim>\<open>except ValueError\<close> catches these.
\<close>

definition is_value_error :: "exn \<Rightarrow> bool" where
  "is_value_error e = (case e of
     ValueError _ \<Rightarrow> True | ScoringError _ \<Rightarrow> True | AssignmentProbeError _ \<Rightarrow> True
   | DecisionError _ \<Rightarrow> True | WeightPlanError _ \<Rightarrow> True
   | CheckpointRelayError _ \<Rightarrow> True | ScoreContractError _ \<Rightarrow> True
   | StaticPathError _ \<Rightarrow> True | StaticScoringError _ \<Rightarrow> True
   | WeightPlanTargetError _ \<Rightarrow> True | _ \<Rightarrow> False)"

type_synonym 'a res = "exn + 'a"

fun res_bind :: "'e + 'a \<Rightarrow> ('a \<Rightarrow> 'e + 'b) \<Rightarrow> 'e + 'b" where
  "res_bind (Inl e) f = Inl e"
| "res_bind (Inr x) f = f x"

text \<open>\<^verbatim>\<open>if c: raise e\<close>, followed by the rest of the function.\<close>

definition reject_if :: "bool \<Rightarrow> 'e \<Rightarrow> 'e + 'a \<Rightarrow> 'e + 'a" where
  "reject_if c e k = (if c then Inl e else k)"

text \<open>A comprehension whose element expression may raise: the first exception wins.\<close>

fun mapM :: "('a \<Rightarrow> 'e + 'b) \<Rightarrow> 'a list \<Rightarrow> 'e + 'b list" where
  "mapM f [] = Inr []"
| "mapM f (x # xs) = res_bind (f x) (\<lambda>y. res_bind (mapM f xs) (\<lambda>ys. Inr (y # ys)))"

text \<open>A \<^verbatim>\<open>for\<close> loop over a list whose body updates a state and may raise.\<close>

fun foldM :: "('s \<Rightarrow> 'a \<Rightarrow> 'e + 's) \<Rightarrow> 's \<Rightarrow> 'a list \<Rightarrow> 'e + 's" where
  "foldM f s [] = Inr s"
| "foldM f s (x # xs) = res_bind (f s x) (\<lambda>s'. foldM f s' xs)"

lemma res_bind_Inr [simp, res_simps]:
  "res_bind r f = Inr y \<longleftrightarrow> (\<exists>x. r = Inr x \<and> f x = Inr y)"
  by (cases r) auto

lemma res_bind_Inl [res_simps]:
  "res_bind r f = Inl e \<longleftrightarrow> r = Inl e \<or> (\<exists>x. r = Inr x \<and> f x = Inl e)"
  by (cases r) auto

lemma reject_if_Inr [simp, res_simps]: "reject_if c e k = Inr y \<longleftrightarrow> \<not> c \<and> k = Inr y"
  by (simp add: reject_if_def)

lemma res_bindE: "res_bind r f = Inr y \<Longrightarrow> (\<And>x. r = Inr x \<Longrightarrow> f x = Inr y \<Longrightarrow> P) \<Longrightarrow> P"
  by auto

lemma reject_ifE: "reject_if c e k = Inr y \<Longrightarrow> (\<not> c \<Longrightarrow> k = Inr y \<Longrightarrow> P) \<Longrightarrow> P"
  by auto

lemma reject_if_Inl [res_simps]:
  "reject_if c e k = Inl d \<longleftrightarrow> (c \<and> d = e) \<or> (\<not> c \<and> k = Inl d)"
  by (auto simp: reject_if_def)

lemma reject_if_False [simp]: "reject_if False e k = k"
  and reject_if_True [simp]: "reject_if True e k = Inl e"
  by (simp_all add: reject_if_def)

lemma mapM_Inr_iff: "mapM f xs = Inr ys \<longleftrightarrow> list_all2 (\<lambda>x y. f x = Inr y) xs ys"
proof (induction xs arbitrary: ys)
  case Nil
  show ?case by (cases ys) auto
next
  case (Cons x xs)
  then show ?case by (cases ys) auto
qed

lemma mapM_total: "(\<And>x. x \<in> set xs \<Longrightarrow> f x = Inr (g x)) \<Longrightarrow> mapM f xs = Inr (map g xs)"
  by (induction xs) auto

lemma mapM_length: "mapM f xs = Inr ys \<Longrightarrow> length ys = length xs"
  by (simp add: mapM_Inr_iff list_all2_lengthD)

lemma mapM_map_of:
  assumes "mapM f xs = Inr ys" and "\<And>x y. f x = Inr y \<Longrightarrow> g y = h x"
  shows "map g ys = map h xs"
  using assms by (induction xs arbitrary: ys) auto

lemma mapM_in:
  assumes "mapM f xs = Inr ys" and "y \<in> set ys"
  obtains x where "x \<in> set xs" and "f x = Inr y"
  using assms by (fastforce simp: mapM_Inr_iff list_all2_conv_all_nth in_set_conv_nth)

lemma mapM_same:
  assumes "mapM f xs = Inr ys" and "\<And>x y. f x = Inr y \<Longrightarrow> y = x"
  shows "ys = xs" and "\<forall>x\<in>set xs. f x = Inr x"
proof -
  have "list_all2 (\<lambda>x y. f x = Inr y) xs ys" using assms(1) by (simp only: mapM_Inr_iff)
  then have "ys = xs \<and> (\<forall>x\<in>set xs. f x = Inr x)"
    using assms(2) by (induction rule: list_all2_induct) auto
  then show "ys = xs" "\<forall>x\<in>set xs. f x = Inr x" by blast+
qed

lemma mapM_id: "\<forall>x\<in>set xs. f x = Inr x \<Longrightarrow> mapM f xs = Inr xs"
  by (induction xs) auto

lemma mapM_same_iff:
  assumes "\<And>x y. f x = Inr y \<Longrightarrow> y = x"
  shows "mapM f xs = Inr ys \<longleftrightarrow> ys = xs \<and> (\<forall>x\<in>set xs. f x = Inr x)"
  using mapM_same [of f xs ys, OF _ assms] mapM_id [of xs f] by blast

text \<open>Induction principle of the loop: a relation between the state and the items read.\<close>

lemma foldM_invariant:
  assumes "foldM f s xs = Inr t" and "I [] s"
    and "\<And>ys y u u'. I ys u \<Longrightarrow> y \<in> set xs \<Longrightarrow> f u y = Inr u' \<Longrightarrow> I (ys @ [y]) u'"
  shows "I xs t"
proof -
  have "I (ys @ xs) t" if "foldM f u xs = Inr t" and "I ys u"
    and "\<And>ys y u u'. I ys u \<Longrightarrow> y \<in> set xs \<Longrightarrow> f u y = Inr u' \<Longrightarrow> I (ys @ [y]) u'" for ys u
    using that
  proof (induction xs arbitrary: ys u)
    case Nil
    then show ?case by simp
  next
    case (Cons x xs)
    from Cons.prems(1) obtain u' where u': "f u x = Inr u'" and rest: "foldM f u' xs = Inr t"
      by auto
    have "I (ys @ [x]) u'" using Cons.prems(2,3) u' by simp
    then have "I ((ys @ [x]) @ xs) t"
      using Cons.IH [OF rest] Cons.prems(3) by (meson list.set_intros(2))
    then show ?case by simp
  qed
  from this [of s "[]"] assms show ?thesis by simp
qed

lemma foldM_append: "foldM f s (xs @ ys) = res_bind (foldM f s xs) (\<lambda>t. foldM f t ys)"
proof (induction xs arbitrary: s)
  case Nil
  show ?case by simp
next
  case (Cons x xs)
  then show ?case by (cases "f s x") auto
qed

section \<open>Dictionaries and canonical lists\<close>

text \<open>
  \<^verbatim>\<open>{k(x): v(x) for x in xs}\<close>: a later item with the same key replaces an earlier
  one.
\<close>

definition dict_of :: "('k \<times> 'v) list \<Rightarrow> 'k \<rightharpoonup> 'v" where
  "dict_of kvs = map_of (rev kvs)"

lemma dict_of_distinct: "distinct (map fst kvs) \<Longrightarrow> dict_of kvs = map_of kvs"
  unfolding dict_of_def by (rule map_of_inject_set [THEN iffD2]) (simp_all add: rev_map [symmetric])

lemma dict_of_Some: "dict_of kvs k = Some v \<Longrightarrow> (k, v) \<in> set kvs"
  unfolding dict_of_def by (auto dest: map_of_SomeD)

lemma dict_of_None: "dict_of kvs k = None \<longleftrightarrow> k \<notin> fst ` set kvs"
  unfolding dict_of_def by (simp add: map_of_eq_None_iff)

text \<open>\<^verbatim>\<open>next((x for x in xs if p(x)), None)\<close>.\<close>

definition first_match :: "('a \<Rightarrow> bool) \<Rightarrow> 'a list \<Rightarrow> 'a option" where
  "first_match p xs = List.find p xs"

lemma first_match_dict:
  assumes "distinct (map f xs)"
  shows "first_match (\<lambda>x. f x = k) xs = dict_of (map (\<lambda>x. (f x, x)) xs) k"
proof -
  have "List.find (\<lambda>x. f x = k) xs = map_of (map (\<lambda>x. (f x, x)) xs) k"
    by (induction xs) auto
  then show ?thesis
    using assms by (simp add: first_match_def dict_of_distinct comp_def)
qed

text \<open>
  \<^verbatim>\<open>sorted(set(xs))\<close>. The contracts reject a list that differs from its own
  canonical form.
\<close>

definition sorted_set :: "'a::linorder list \<Rightarrow> 'a list" where
  "sorted_set xs = sort (remdups xs)"

lemma set_sorted_set [simp]: "set (sorted_set xs) = set xs"
  by (simp add: sorted_set_def)

lemma sorted_set_strict [canon_simps]: "sorted_wrt (<) (sorted_set xs)"
  by (simp add: sorted_set_def strict_sorted_iff)

lemma sorted_set_distinct [simp]: "distinct (sorted_set xs)"
  by (simp add: sorted_set_def)

lemma sorted_set_id_iff [canon_simps]: "xs = sorted_set xs \<longleftrightarrow> sorted_wrt (<) xs"
proof
  assume "xs = sorted_set xs"
  then show "sorted_wrt (<) xs" by (metis sorted_set_strict)
next
  assume "sorted_wrt (<) xs"
  then have "sorted xs" and "distinct xs" by (auto simp: strict_sorted_iff)
  then show "xs = sorted_set xs"
    by (simp add: sorted_set_def distinct_remdups_id sorted_sort_id)
qed

lemma sorted_set_cong: "set xs = set ys \<Longrightarrow> sorted_set xs = sorted_set ys"
  unfolding sorted_set_def
  by (metis distinct_remdups distinct_sort set_remdups set_sort sorted_distinct_set_unique sorted_sort)

text \<open>
  Stable sorting by a key that is injective on the list is a function of the multiset:
  this is why the order of inputs never reaches the sealed records.
\<close>

lemma sort_key_perm:
  assumes "mset xs = mset ys" and "inj_on f (set xs)"
  shows "sort_key f xs = sort_key f ys"
proof (rule properties_for_sort_key)
  show "mset (sort_key f ys) = mset xs" by (simp add: assms)
  fix k assume k: "k \<in> set (sort_key f ys)"
  have "set ys = set xs" using assms(1) by (metis set_mset_mset)
  then have same: "filter (\<lambda>x. f k = f x) zs = filter ((=) k) zs" if "set zs = set xs" for zs
    using k assms(2) that by (intro filter_cong) (auto dest: inj_onD)
  have "filter ((=) k) (sort_key f ys) = filter ((=) k) xs"
    by (metis assms(1) mset_sort replicate_count_mset_eq_filter_eq)
  then show "filter (\<lambda>x. f k = f x) (sort_key f ys) = filter (\<lambda>x. f k = f x) xs"
    using same [of xs] same [of "sort_key f ys"] \<open>set ys = set xs\<close> by simp
next
  show "sorted (map f (sort_key f ys))" by simp
qed

section \<open>Text predicates\<close>

abbreviation ord :: "char \<Rightarrow> nat" where
  "ord c \<equiv> of_char c"

text \<open>\<^verbatim>\<open>str.isspace\<close> restricted to the code points below 256.\<close>

definition is_space :: "char \<Rightarrow> bool" where
  "is_space c \<longleftrightarrow> (9 \<le> ord c \<and> ord c \<le> 13) \<or> (28 \<le> ord c \<and> ord c \<le> 32) \<or> ord c = 133 \<or> ord c = 160"

definition py_strip :: "string \<Rightarrow> string" where
  "py_strip s = rev (dropWhile is_space (rev (dropWhile is_space s)))"

definition is_ascii :: "string \<Rightarrow> bool" where
  "is_ascii s \<longleftrightarrow> list_all (\<lambda>c. ord c < 128) s"

definition graphic :: "char \<Rightarrow> bool" where
  "graphic c \<longleftrightarrow> 33 \<le> ord c \<and> ord c \<le> 126"

definition lower_hex :: "char \<Rightarrow> bool" where
  "lower_hex c \<longleftrightarrow> c \<in> set ''0123456789abcdef''"

text \<open>\<^verbatim>\<open>^[0-9a-f]{64}$\<close> under \<^verbatim>\<open>fullmatch\<close>.\<close>

definition digest_text :: "string \<Rightarrow> bool" where
  "digest_text s \<longleftrightarrow> length s = 64 \<and> list_all lower_hex s"

text \<open>The text test shared by \<^verbatim>\<open>_validate_text\<close> and \<^verbatim>\<open>_validate_public_text\<close>.\<close>

definition bad_text :: "nat \<Rightarrow> string \<Rightarrow> bool" where
  "bad_text maximum s \<longleftrightarrow>
     s = [] \<or> length s > maximum \<or> s \<noteq> py_strip s \<or> \<not> is_ascii s
     \<or> list_ex (\<lambda>c. ord c < 33 \<or> ord c > 126) s"

lemma dropWhile_is_space_graphic: "list_all graphic s \<Longrightarrow> dropWhile is_space s = s"
  by (cases s) (auto simp: graphic_def is_space_def)

lemma py_strip_graphic: "list_all graphic s \<Longrightarrow> py_strip s = s"
  by (simp add: py_strip_def dropWhile_is_space_graphic list_all_rev)

text \<open>The five disjuncts amount to: between 1 and the maximum printable ASCII characters.\<close>

lemma bad_text_iff [text_simps]:
  "\<not> bad_text maximum s \<longleftrightarrow> s \<noteq> [] \<and> length s \<le> maximum \<and> list_all graphic s"
proof -
  have "list_all graphic s \<Longrightarrow> is_ascii s"
    by (auto simp: is_ascii_def list_all_iff graphic_def)
  moreover have "list_all graphic s \<longleftrightarrow> \<not> list_ex (\<lambda>c. ord c < 33 \<or> ord c > 126) s"
    by (auto simp: list_all_iff list_ex_iff graphic_def not_less)
  ultimately show ?thesis
    by (auto simp: bad_text_def py_strip_graphic)
qed

lemma lower_hex_graphic: "lower_hex c \<Longrightarrow> graphic c"
  by (auto simp: lower_hex_def graphic_def)

lemma digest_text_not_bad [text_simps]:
  "digest_text s \<Longrightarrow> 64 \<le> maximum \<Longrightarrow> \<not> bad_text maximum s"
  by (auto simp: bad_text_iff digest_text_def list_all_iff lower_hex_graphic)

lemma is_ascii_Nil [simp]: "is_ascii []"
  and is_ascii_Cons [simp]: "is_ascii (c # s) \<longleftrightarrow> ord c < 128 \<and> is_ascii s"
  and is_ascii_append [simp]: "is_ascii (s @ t) \<longleftrightarrow> is_ascii s \<and> is_ascii t"
  by (auto simp: is_ascii_def)

lemma graphic_ascii: "list_all graphic s \<Longrightarrow> is_ascii s"
  by (auto simp: is_ascii_def list_all_iff graphic_def)

lemma not_bad_text_ascii [text_simps]: "\<not> bad_text m s \<Longrightarrow> is_ascii s"
  by (simp add: bad_text_iff graphic_ascii)

lemmas text_ascii [simp, text_simps] = not_bad_text_ascii [of 256]

lemma digest_ascii [text_simps]: "digest_text s \<Longrightarrow> is_ascii s"
  by (rule not_bad_text_ascii [of 64]) (simp add: digest_text_not_bad)

end
