(* ===== verification/PyFloat.thy ===== *)
theory PyFloat
  imports Prelude "HOL-Library.Log_Nat"
begin

text \<open>
  IEEE 754 binary64 arithmetic, as far as the weight pipeline uses it. A finite double is
  its exact rational value; every operation computes exactly and rounds once with
  \<open>rnd\<close>, round-half-to-even on 53 significant bits and on the subnormal grid. The
  operations are those of \<^verbatim>\<open>weight_plan.py\<close> and
  \<^verbatim>\<open>weight_executor.py\<close>: \<^verbatim>\<open>math.fsum\<close> (one correctly rounded sum), division,
  addition, \<^verbatim>\<open>math.isclose\<close>, \<^verbatim>\<open>float.hex\<close>, and the conversion of an
  \<^verbatim>\<open>int\<close> or \<^verbatim>\<open>Fraction\<close>. The sign of zero is not represented.

  The main result is the error analysis of the normalisation step shared by
  \<^verbatim>\<open>build_weight_plan\<close> and \<^verbatim>\<open>derive_execution_vector\<close>: divide by the rounded
  total, then move the residual into the largest entry.
\<close>

section \<open>Rounding\<close>

datatype pyfloat = Fin rat | PosInf | NegInf | NaN

text \<open>The binary exponent of a nonzero rational: the \<open>e\<close> with \<open>2 ^ e \<le> \<bar>q\<bar> < 2 ^ (e + 1)\<close>.\<close>

definition dbl_exp :: "rat \<Rightarrow> int" where
  "dbl_exp q = (let (n, d) = quotient_of \<bar>q\<bar>; k = bitlen n - bitlen d
                in if \<bar>q\<bar> < 2 powi k then k - 1 else k)"

definition round_half_even :: "rat \<Rightarrow> int" where
  "round_half_even x =
     (let f = \<lfloor>x\<rfloor>; r = x - of_int f
      in if r < 1 / 2 then f else if r > 1 / 2 then f + 1 else if even f then f else f + 1)"

definition ulp_exp :: "rat \<Rightarrow> int" where
  "ulp_exp q = max (dbl_exp q - 52) (- 1074)"

definition rnd :: "rat \<Rightarrow> rat" where
  "rnd q = (if q = 0 then 0
            else of_int (round_half_even (q / 2 powi ulp_exp q)) * 2 powi ulp_exp q)"

text \<open>Overflow: the rounded value would need an exponent above 1023.\<close>

definition to_double :: "rat \<Rightarrow> pyfloat" where
  "to_double q = (let r = rnd q in if r \<ge> 2 ^ 1024 then PosInf
                  else if r \<le> - (2 ^ 1024) then NegInf else Fin r)"

text \<open>\<^verbatim>\<open>float(n)\<close> for an int: OverflowError instead of an infinity.\<close>

definition float_of_int :: "int \<Rightarrow> pyfloat res" where
  "float_of_int n = (case to_double (of_int n) of
     Fin r \<Rightarrow> Inr (Fin r) | _ \<Rightarrow> Inl (OverflowError ''int too large to convert to float''))"

fun is_finite :: "pyfloat \<Rightarrow> bool" where
  "is_finite (Fin r) = True"
| "is_finite _ = False"

text \<open>\<^verbatim>\<open>math.fsum\<close> of finite doubles.\<close>

definition fsum :: "rat list \<Rightarrow> rat" where
  "fsum xs = rnd (sum_list xs)"

text \<open>\<^verbatim>\<open>math.isclose(a, b, rel_tol=0.0, abs_tol=t)\<close>.\<close>

definition is_close :: "rat \<Rightarrow> rat \<Rightarrow> rat \<Rightarrow> bool" where
  "is_close a b t \<longleftrightarrow> a = b \<or> rnd \<bar>b - a\<bar> \<le> 0 \<or> rnd \<bar>b - a\<bar> \<le> t"

text \<open>\<^verbatim>\<open>max(range(len(xs)), key=lambda i: xs[i])\<close>: the first index of the maximum.\<close>

fun argmax :: "rat list \<Rightarrow> nat" where
  "argmax [] = 0"
| "argmax [x] = 0"
| "argmax (x # y # ys) = (let j = argmax (y # ys) in if (y # ys) ! j > x then Suc j else 0)"

definition normalize_weights :: "rat list \<Rightarrow> rat list" where
  "normalize_weights ws =
     (let total = fsum ws;
          normalized = map (\<lambda>w. rnd (w / total)) ws;
          i = argmax normalized
      in normalized[i := rnd (normalized ! i + rnd (1 - fsum normalized))])"

section \<open>Exponents\<close>

lemma powi_less_iff: "(2::rat) powi a < 2 powi b \<longleftrightarrow> a < b"
  by (metis linorder_not_less one_less_numeral_iff power_int_increasing
      power_int_strict_increasing semiring_norm(76) less_imp_le)

lemma powi_le_iff: "(2::rat) powi a \<le> 2 powi b \<longleftrightarrow> a \<le> b"
  by (meson linorder_not_less powi_less_iff)

lemma dbl_exp_bounds:
  assumes "q \<noteq> 0"
  shows "2 powi dbl_exp q \<le> \<bar>q\<bar> \<and> \<bar>q\<bar> < 2 powi (dbl_exp q + 1)"
proof -
  obtain n d where nd: "quotient_of \<bar>q\<bar> = (n, d)" by fastforce
  then have d: "0 < d" and q: "\<bar>q\<bar> = of_int n / of_int d"
    by (simp_all add: quotient_of_denom_pos quotient_of_div)
  with assms have n: "0 < n"
    by (metis less_eq_rat_def of_int_0_less_iff zero_less_abs_iff zero_less_divide_iff
        of_int_pos not_less_iff_gr_or_eq)
  have pw: "rat_of_int (2 ^ nat i) = 2 powi i" if "0 \<le> i" for i
    using that by (simp add: power_int_def)
  have bl: "2 powi (bitlen x - 1) \<le> rat_of_int x \<and> rat_of_int x < 2 powi bitlen x" if "0 < x" for x
  proof -
    have "0 \<le> bitlen x - 1" using that by (smt (verit) bitlen_eq_zero_iff bitlen_nonneg)
    then show ?thesis
      using bitlen_bounds [OF that] pw [of "bitlen x - 1"] pw [of "bitlen x"]
      by (metis of_int_le_iff of_int_less_iff bitlen_nonneg)
  qed
  let ?k = "bitlen n - bitlen d"
  have dpos: "0 < rat_of_int d" using d by simp
  have "\<bar>q\<bar> < 2 powi (?k + 1)"
  proof -
    have "2 powi (?k + 1) * rat_of_int d \<ge> 2 powi (?k + 1) * 2 powi (bitlen d - 1)"
      using bl [OF d] by (intro mult_left_mono) auto
    also have "2 powi (?k + 1) * 2 powi (bitlen d - 1) = (2::rat) powi bitlen n"
      by (simp add: power_int_add [symmetric])
    finally show ?thesis using bl [OF n] dpos q by (simp add: divide_less_eq)
  qed
  moreover have "2 powi (?k - 1) \<le> \<bar>q\<bar>"
  proof -
    have "2 powi (?k - 1) * rat_of_int d \<le> 2 powi (?k - 1) * 2 powi bitlen d"
      using bl [OF d] by (intro mult_left_mono) auto
    also have "2 powi (?k - 1) * 2 powi bitlen d = (2::rat) powi (bitlen n - 1)"
      by (simp add: power_int_add [symmetric])
    finally show ?thesis using bl [OF n] dpos q by (simp add: le_divide_eq)
  qed
  ultimately show ?thesis
    by (auto simp: dbl_exp_def nd not_less Let_def)
qed

lemma dbl_exp_ge: "q \<noteq> 0 \<Longrightarrow> 2 powi e \<le> \<bar>q\<bar> \<Longrightarrow> e \<le> dbl_exp q"
  using dbl_exp_bounds [of q] powi_less_iff [of e "dbl_exp q + 1"] by auto

lemma dbl_exp_less: "q \<noteq> 0 \<Longrightarrow> \<bar>q\<bar> < 2 powi e \<Longrightarrow> dbl_exp q < e"
  using dbl_exp_bounds [of q] powi_less_iff [of "dbl_exp q" e] by auto

section \<open>Rounding to an integer\<close>

lemma round_half_even_error: "\<bar>of_int (round_half_even x) - x\<bar> \<le> 1 / 2"
  unfolding round_half_even_def Let_def
  using floor_correct [of x] by (auto simp: abs_le_iff algebra_simps)

lemma round_half_even_int [simp]: "round_half_even (of_int n) = n"
  by (simp add: round_half_even_def)

lemma round_half_even_between: "\<lfloor>x\<rfloor> \<le> round_half_even x \<and> round_half_even x \<le> \<lfloor>x\<rfloor> + 1"
  by (simp add: round_half_even_def Let_def)

lemma round_half_even_mono: "x \<le> y \<Longrightarrow> round_half_even x \<le> round_half_even y"
proof (cases "\<lfloor>x\<rfloor> = \<lfloor>y\<rfloor>")
  case True
  moreover assume "x \<le> y"
  ultimately show ?thesis by (auto simp: round_half_even_def Let_def)
next
  case False
  moreover assume "x \<le> y"
  ultimately have "\<lfloor>x\<rfloor> + 1 \<le> \<lfloor>y\<rfloor>" using floor_mono [of x y] by linarith
  then show ?thesis using round_half_even_between [of x] round_half_even_between [of y] by linarith
qed

lemma round_half_even_le: "x \<le> of_int n \<Longrightarrow> round_half_even x \<le> n"
  using round_half_even_mono [of x "of_int n"] by simp

lemma round_half_even_ge: "of_int n \<le> x \<Longrightarrow> n \<le> round_half_even x"
  using round_half_even_mono [of "of_int n" x] by simp

section \<open>Error bounds, monotonicity, exactness\<close>

lemma rnd_0 [simp]: "rnd 0 = 0"
  by (simp add: rnd_def)

lemma rnd_error_ulp: "q \<noteq> 0 \<Longrightarrow> \<bar>rnd q - q\<bar> \<le> 2 powi ulp_exp q / 2"
proof -
  assume q: "q \<noteq> 0"
  let ?p = "(2::rat) powi ulp_exp q"
  have p: "0 < ?p" by simp
  have "rnd q - q = (of_int (round_half_even (q / ?p)) - q / ?p) * ?p"
    using q p by (simp add: rnd_def algebra_simps)
  then have "\<bar>rnd q - q\<bar> = \<bar>of_int (round_half_even (q / ?p)) - q / ?p\<bar> * ?p"
    using p by (simp add: abs_mult)
  also have "\<dots> \<le> 1 / 2 * ?p"
    using round_half_even_error [of "q / ?p"] p by (intro mult_right_mono) auto
  finally show ?thesis by simp
qed

text \<open>Half a unit in the last place: relative \<open>2 ^ -53\<close>, or absolute \<open>2 ^ -1075\<close> below the normal range.\<close>

lemma rnd_error: "\<bar>rnd q - q\<bar> \<le> \<bar>q\<bar> / 2 ^ 53 + 1 / 2 ^ 1075"
proof (cases "q = 0")
  case False
  have err: "\<bar>rnd q - q\<bar> \<le> 2 powi ulp_exp q / 2" by (rule rnd_error_ulp [OF False])
  show ?thesis
  proof (cases "dbl_exp q - 52 \<ge> - 1074")
    case True
    then have "ulp_exp q = dbl_exp q - 52" by (simp add: ulp_exp_def)
    then have "2 powi ulp_exp q / 2 = (2::rat) powi dbl_exp q / 2 ^ 53"
      by (simp add: power_int_diff)
    also have "\<dots> \<le> \<bar>q\<bar> / 2 ^ 53" using dbl_exp_bounds [OF False] by (simp add: divide_right_mono)
    finally show ?thesis using err by (simp add: add_increasing2)
  next
    case False
    then have "ulp_exp q = - 1074" by (simp add: ulp_exp_def)
    then have "2 powi ulp_exp q / 2 = (1::rat) / 2 ^ 1075"
      by (simp add: power_int_def field_simps)
    then show ?thesis using err by (simp add: add_increasing)
  qed
qed simp

lemma rnd_rel_error:
  assumes "1 / 2 ^ 1022 \<le> \<bar>q\<bar>"
  shows "\<bar>rnd q - q\<bar> \<le> \<bar>q\<bar> / 2 ^ 53"
proof -
  have q: "q \<noteq> 0" using assms by auto
  have "2 powi (- 1022) \<le> \<bar>q\<bar>" using assms by (simp add: power_int_def field_simps)
  then have "- 1022 \<le> dbl_exp q" using dbl_exp_ge [OF q] by blast
  then have "ulp_exp q = dbl_exp q - 52" by (simp add: ulp_exp_def)
  then have "2 powi ulp_exp q / 2 = (2::rat) powi dbl_exp q / 2 ^ 53"
    by (simp add: power_int_diff)
  also have "\<dots> \<le> \<bar>q\<bar> / 2 ^ 53" using dbl_exp_bounds [OF q] by (simp add: divide_right_mono)
  finally show ?thesis using rnd_error_ulp [OF q] by linarith
qed

lemma rnd_nonneg: "0 \<le> q \<Longrightarrow> 0 \<le> rnd q"
  using round_half_even_ge [of 0 "q / 2 powi ulp_exp q"] by (auto simp: rnd_def)

lemma rnd_le_grid:
  assumes "0 < q" and "q \<le> of_int m * 2 powi ulp_exp q"
  shows "rnd q \<le> of_int m * 2 powi ulp_exp q"
proof -
  have "q / 2 powi ulp_exp q \<le> of_int m" using assms(2) by (simp add: divide_le_eq)
  then have "round_half_even (q / 2 powi ulp_exp q) \<le> m" by (rule round_half_even_le)
  then show ?thesis using assms(1) by (simp add: rnd_def)
qed

lemma rnd_ge_grid:
  assumes "0 < q" and "of_int m * 2 powi ulp_exp q \<le> q"
  shows "of_int m * 2 powi ulp_exp q \<le> rnd q"
proof -
  have "of_int m \<le> q / 2 powi ulp_exp q" using assms(2) by (simp add: le_divide_eq)
  then have "m \<le> round_half_even (q / 2 powi ulp_exp q)" by (rule round_half_even_ge)
  then show ?thesis using assms(1) by (simp add: rnd_def)
qed

lemma powi_grid: "b \<le> a \<Longrightarrow> (2::rat) powi a = of_int (2 ^ nat (a - b)) * 2 powi b"
proof -
  assume "b \<le> a"
  then have "rat_of_int (2 ^ nat (a - b)) = 2 powi (a - b)"
    by (simp add: power_int_def)
  then show ?thesis by (simp add: power_int_diff)
qed

lemma rnd_mono_pos:
  assumes "0 < p" and "p \<le> q"
  shows "rnd p \<le> rnd q"
proof -
  have q: "0 < q" using assms by linarith
  have "2 powi dbl_exp p \<le> \<bar>q\<bar>" using dbl_exp_bounds [of p] assms by auto
  then have le: "dbl_exp p \<le> dbl_exp q" using dbl_exp_ge [of q] q by auto
  show ?thesis
  proof (cases "ulp_exp p = ulp_exp q")
    case True
    have "p / 2 powi ulp_exp q \<le> q / 2 powi ulp_exp q" using assms(2) by (simp add: divide_right_mono)
    from round_half_even_mono [OF this] show ?thesis
      using True assms(1) q by (simp add: rnd_def)
  next
    case False
    then have lt: "dbl_exp p < dbl_exp q" and uq: "ulp_exp q = dbl_exp q - 52"
      and pq: "ulp_exp p \<le> dbl_exp q"
      using le by (auto simp: ulp_exp_def)
    have "p < 2 powi (dbl_exp p + 1)" using dbl_exp_bounds [of p] assms(1) by auto
    also have "\<dots> \<le> 2 powi dbl_exp q" using lt by (simp add: powi_le_iff)
    finally have "rnd p \<le> 2 powi dbl_exp q"
      using rnd_le_grid [OF assms(1), of "2 ^ nat (dbl_exp q - ulp_exp p)"] powi_grid [OF pq]
      by simp
    also have "\<dots> \<le> rnd q"
      using rnd_ge_grid [OF q, of "2 ^ nat (dbl_exp q - ulp_exp q)"]
        powi_grid [of "ulp_exp q" "dbl_exp q"] uq dbl_exp_bounds [of q] q
      by simp
    finally show ?thesis .
  qed
qed

lemma rnd_mono: "0 \<le> p \<Longrightarrow> p \<le> q \<Longrightarrow> rnd p \<le> rnd q"
  using rnd_mono_pos rnd_nonneg by (cases "p = 0") auto

text \<open>Values with at most 53 significant bits on the subnormal grid are exact.\<close>

lemma rnd_exact:
  assumes "\<bar>m\<bar> \<le> 2 ^ 53" and "- 1074 \<le> e"
  shows "rnd (of_int m * 2 powi e) = of_int m * 2 powi e"
proof (cases "m = 0")
  case False
  let ?q = "rat_of_int m * 2 powi e"
  have q0: "?q \<noteq> 0" using False by simp
  have exact: "rnd ?q = ?q" if "?q = of_int k * 2 powi ulp_exp ?q" for k
  proof -
    have "?q / 2 powi ulp_exp ?q = of_int k" using that by (simp add: field_simps)
    then show ?thesis using q0 that by (simp add: rnd_def)
  qed
  show ?thesis
  proof (cases "ulp_exp ?q \<le> e")
    case True
    have "?q = of_int (m * 2 ^ nat (e - ulp_exp ?q)) * 2 powi ulp_exp ?q"
      by (subst powi_grid [OF True]) simp
    then show ?thesis by (rule exact)
  next
    case False
    then have ge: "e + 53 \<le> dbl_exp ?q" using assms(2) by (auto simp: ulp_exp_def)
    have "\<bar>?q\<bar> \<le> 2 ^ 53 * 2 powi e"
      using assms(1) by (simp add: abs_mult mult_right_mono of_int_abs [symmetric] del: of_int_abs)
    also have "2 ^ 53 * 2 powi e = (2::rat) powi (e + 53)" by (simp add: power_int_add)
    finally have le: "\<bar>?q\<bar> \<le> 2 powi (e + 53)" .
    have "2 powi dbl_exp ?q \<le> \<bar>?q\<bar>" using dbl_exp_bounds [OF q0] by simp
    then have de: "dbl_exp ?q = e + 53" and aq: "\<bar>?q\<bar> = 2 powi (e + 53)"
      using le ge powi_le_iff [of "dbl_exp ?q" "e + 53"] powi_le_iff [of "e + 53" "dbl_exp ?q"]
      by (meson order_antisym order_trans)+
    have ue: "ulp_exp ?q = e + 1" using de assms(2) by (simp add: ulp_exp_def)
    have "?q = of_int (sgn m * 2 ^ 52) * 2 powi ulp_exp ?q"
    proof -
      have "rat_of_int m = of_int (sgn m) * of_int \<bar>m\<bar>" by (metis of_int_mult sgn_mult_abs)
      then have "?q = of_int (sgn m) * \<bar>?q\<bar>" by (simp add: abs_mult)
      also have "of_int (sgn m) * \<bar>?q\<bar> = of_int (sgn m * 2 ^ 52) * 2 powi (e + 1)"
        unfolding aq by (simp add: power_int_add)
      finally show ?thesis using ue by simp
    qed
    then show ?thesis by (rule exact)
  qed
qed simp

lemma rnd_one [simp]: "rnd 1 = 1"
  using rnd_exact [of 1 0] by simp

lemma rnd_le_one: "0 \<le> q \<Longrightarrow> q \<le> 1 \<Longrightarrow> rnd q \<le> 1"
  using rnd_mono [of q 1] by simp

text \<open>Rounding is a projection: its image is the set of doubles.\<close>

lemma rnd_rnd [simp]: "rnd (rnd q) = rnd q"
proof (cases "q = 0")
  case False
  let ?e = "ulp_exp q" and ?m = "round_half_even (q / 2 powi ulp_exp q)"
  have "\<bar>q\<bar> < 2 powi (dbl_exp q + 1)" using dbl_exp_bounds [OF False] by simp
  also have "\<dots> \<le> 2 powi (?e + 53)" by (simp add: powi_le_iff ulp_exp_def)
  also have "\<dots> = 2 ^ 53 * 2 powi ?e" by (simp add: power_int_add)
  finally have "\<bar>q\<bar> / 2 powi ?e \<le> 2 ^ 53" by (simp add: divide_le_eq)
  then have "q / 2 powi ?e \<le> of_int (2 ^ 53)" and "of_int (- (2 ^ 53)) \<le> q / 2 powi ?e"
    by (auto simp: abs_le_iff divide_le_eq le_divide_eq abs_if split: if_splits)
  then have "?m \<le> 2 ^ 53" and "- (2 ^ 53) \<le> ?m"
    by (blast intro: round_half_even_le round_half_even_ge)+
  then have "\<bar>?m\<bar> \<le> 2 ^ 53" by linarith
  moreover have "- 1074 \<le> ?e" by (simp add: ulp_exp_def)
  ultimately show ?thesis using rnd_exact [of ?m ?e] False by (simp add: rnd_def)
qed simp

section \<open>Normalisation of a weight vector\<close>

lemma argmax_bound: "xs \<noteq> [] \<Longrightarrow> argmax xs < length xs"
  by (induction xs rule: argmax.induct) (auto simp: Let_def)

lemma argmax_max: "x \<in> set xs \<Longrightarrow> x \<le> xs ! argmax xs"
proof (induction xs rule: argmax.induct)
  case (3 a b ys)
  then show ?case by (cases "x = a") (fastforce simp: Let_def)+
qed auto

lemma sum_list_upd: "i < length xs \<Longrightarrow> sum_list (xs[i := x]) = sum_list xs - xs ! i + (x::rat)"
  by (induction xs arbitrary: i) (auto split: nat.split simp: less_Suc_eq_0_disj)

lemma sum_list_abs_diff:
  assumes "\<And>w. w \<in> set ws \<Longrightarrow> \<bar>f w - g w\<bar> \<le> (h w :: rat)"
  shows "\<bar>sum_list (map f ws) - sum_list (map g ws)\<bar> \<le> sum_list (map h ws)"
  using assms
proof (induction ws)
  case (Cons w ws)
  have "\<bar>sum_list (map f ws) - sum_list (map g ws)\<bar> \<le> sum_list (map h ws)" using Cons by simp
  moreover have "\<bar>f w - g w\<bar> \<le> h w" using Cons.prems by simp
  ultimately show ?case by simp
qed simp

lemma sum_list_le_max:
  assumes "\<And>w. w \<in> set ws \<Longrightarrow> w \<le> (m::rat)"
  shows "sum_list ws \<le> of_nat (length ws) * m"
  using assms
proof (induction ws)
  case (Cons w ws)
  have "sum_list ws \<le> of_nat (length ws) * m" using Cons by simp
  moreover have "w \<le> m" using Cons.prems by simp
  ultimately show ?case by (simp add: algebra_simps)
qed simp

lemma member_le_sum: "w \<in> set ws \<Longrightarrow> \<forall>v \<in> set ws. 0 \<le> (v::rat) \<Longrightarrow> w \<le> sum_list ws"
  by (rule member_le_sum_list)  auto

text \<open>
  Weights the normalisation is analysed for: at most 65,536 doubles in \<open>(0, 1]\<close> that
  are not so small that a quotient can leave the normal range.
\<close>

definition min_weight :: rat where
  "min_weight = 1 / 2 ^ 1000"

definition normal_weights :: "rat list \<Rightarrow> bool" where
  "normal_weights ws \<longleftrightarrow> ws \<noteq> [] \<and> length ws \<le> 65536
     \<and> list_all (\<lambda>w. min_weight \<le> w \<and> w \<le> 1 \<and> rnd w = w) ws"

lemma u53: "(2::rat) ^ 53 = 9007199254740992"
  by simp

lemma err_pos: "\<bar>a - b\<bar> \<le> b / 2 ^ 53 \<Longrightarrow> 0 < b \<Longrightarrow> 0 < (a::rat)"
  unfolding u53 by linarith

lemma err_triangle:
  "\<bar>s - r\<bar> \<le> r / 2 ^ 53 \<Longrightarrow> \<bar>r - 1\<bar> \<le> r / 2 ^ 53 \<Longrightarrow> r \<le> 2 \<Longrightarrow> \<bar>s - (1::rat)\<bar> \<le> 4 / 2 ^ 53"
  unfolding u53 by linarith

lemma min_weight_pos: "0 < min_weight"
  by (simp add: min_weight_def)

lemma min_weight_normal: "min_weight / 2 ^ 17 \<le> q \<Longrightarrow> 1 / 2 ^ 1022 \<le> \<bar>q\<bar>"
proof -
  have "(1::rat) / 2 ^ 1022 \<le> min_weight / 2 ^ 17" by (simp add: min_weight_def)
  also assume "min_weight / 2 ^ 17 \<le> q"
  finally show ?thesis by linarith
qed

lemma normal_rel_error:
  assumes "min_weight / 2 ^ 17 \<le> q"
  shows "\<bar>rnd q - q\<bar> \<le> q / 2 ^ 53"
proof -
  have "0 < min_weight / 2 ^ 17" using min_weight_pos by simp
  then have "\<bar>q\<bar> = q" using assms by linarith
  then show ?thesis using rnd_rel_error [OF min_weight_normal [OF assms]] by simp
qed

lemma normal_weightD:
  assumes "normal_weights ws" and "w \<in> set ws"
  shows "min_weight \<le> w" and "w \<le> 1" and "rnd w = w" and "0 < w"
  using assms min_weight_pos by (force simp: normal_weights_def list_all_iff)+

lemma normal_total:
  assumes ws: "normal_weights ws"
  shows "min_weight \<le> sum_list ws" and "\<bar>fsum ws - sum_list ws\<bar> \<le> sum_list ws / 2 ^ 53"
    and "0 < fsum ws" and "fsum ws \<le> 2 ^ 17"
proof -
  obtain w where w: "w \<in> set ws" using ws by (cases ws) (auto simp: normal_weights_def)
  have nn: "\<forall>v \<in> set ws. 0 \<le> v" using normal_weightD(4) [OF ws] by (simp add: less_imp_le)
  show lo: "min_weight \<le> sum_list ws"
    using member_le_sum [OF w nn] normal_weightD(1) [OF ws w] by linarith
  have "sum_list ws \<le> of_nat (length ws) * 1"
    using normal_weightD(2) [OF ws] by (intro sum_list_le_max) auto
  moreover have "rat_of_nat (length ws) \<le> of_nat 65536"
    using ws unfolding normal_weights_def by (intro of_nat_mono) auto
  ultimately have hi: "sum_list ws \<le> 65536" by simp
  have "min_weight / 2 ^ 17 \<le> sum_list ws"
    using lo min_weight_pos by (simp add: field_simps)
  then show err: "\<bar>fsum ws - sum_list ws\<bar> \<le> sum_list ws / 2 ^ 53"
    unfolding fsum_def by (rule normal_rel_error)
  have pos: "0 < sum_list ws" using lo min_weight_pos by linarith
  then show "0 < fsum ws" by (rule err_pos [OF err])
  have "fsum ws \<le> 131072" using err hi pos unfolding u53 by linarith
  then show "fsum ws \<le> 2 ^ 17" by simp
qed

lemma normal_quotient:
  assumes ws: "normal_weights ws" and w: "w \<in> set ws"
  shows "\<bar>rnd (w / fsum ws) - w / fsum ws\<bar> \<le> w / fsum ws / 2 ^ 53"
    and "0 < rnd (w / fsum ws)" and "rnd (w / fsum ws) \<le> 1"
proof -
  note t = normal_total [OF ws] and wd = normal_weightD [OF ws w]
  have nn: "\<forall>v \<in> set ws. 0 \<le> v" using normal_weightD(4) [OF ws] by (simp add: less_imp_le)
  have "min_weight / 2 ^ 17 \<le> w / fsum ws"
    using t(3,4) wd(1) min_weight_pos by (intro frac_le) auto
  then show err: "\<bar>rnd (w / fsum ws) - w / fsum ws\<bar> \<le> w / fsum ws / 2 ^ 53"
    by (rule normal_rel_error)
  have "0 < w / fsum ws" using t(3) wd(4) by simp
  then show "0 < rnd (w / fsum ws)" by (rule err_pos [OF err])
  have "rnd w \<le> fsum ws"
    unfolding fsum_def using wd(4) member_le_sum [OF w nn] by (intro rnd_mono) auto
  then have "w / fsum ws \<le> 1" using wd(3) t(3) by simp
  then show "rnd (w / fsum ws) \<le> 1" using t(3) wd(4) by (intro rnd_le_one) auto
qed

text \<open>The rounded quotients add up to one within four units of roundoff.\<close>

lemma normal_quotient_sum:
  assumes ws: "normal_weights ws"
  shows "\<bar>sum_list (map (\<lambda>w. rnd (w / fsum ws)) ws) - 1\<bar> \<le> 4 / 2 ^ 53"
proof -
  let ?t = "fsum ws" and ?T = "sum_list ws"
  note t = normal_total [OF ws]
  have div: "sum_list (map (\<lambda>w. w / c) xs) = sum_list xs / c" for c :: rat and xs
    by (induction xs) (auto simp: add_divide_distrib)
  have "\<bar>sum_list (map (\<lambda>w. rnd (w / ?t)) ws) - sum_list (map (\<lambda>w. w / ?t) ws)\<bar>
      \<le> sum_list (map (\<lambda>w. w / ?t / 2 ^ 53) ws)"
    by (rule sum_list_abs_diff) (rule normal_quotient(1) [OF ws])
  also have "sum_list (map (\<lambda>w. w / ?t / 2 ^ 53) ws) = ?T / ?t / 2 ^ 53"
    using div [of "?t * 2 ^ 53" ws] by simp
  finally have e1: "\<bar>sum_list (map (\<lambda>w. rnd (w / ?t)) ws) - ?T / ?t\<bar> \<le> ?T / ?t / 2 ^ 53"
    by (simp add: div)
  have T: "0 < ?T" using t(1) min_weight_pos by linarith
  have "?T \<le> 2 * ?t" using t(2) T unfolding u53 by linarith
  then have r2: "?T / ?t \<le> 2" using t(3) by (simp add: divide_le_eq)
  have "\<bar>?T / ?t - 1\<bar> = \<bar>?t - ?T\<bar> / ?t" using t(3) by (simp add: abs_if field_simps)
  also have "\<dots> \<le> ?T / 2 ^ 53 / ?t" using t(2,3) by (intro divide_right_mono) auto
  finally have e2: "\<bar>?T / ?t - 1\<bar> \<le> ?T / ?t / 2 ^ 53" by (simp add: mult.commute)
  show ?thesis by (rule err_triangle [OF e1 e2 r2])
qed

text \<open>
  The correction keeps every entry in \<open>(0, 1]\<close> and brings the rounded sum within
  \<open>7 * 2 ^ -53\<close> of one, well inside the tolerance \<^verbatim>\<open>1e-15\<close> of the plan.
\<close>

lemma rnd_one_plus: "0 \<le> q \<Longrightarrow> q \<le> 1 + 1 / 2 ^ 53 \<Longrightarrow> rnd q \<le> 1"
proof -
  have "rnd (1 + 1 / 2 ^ 53) = 1" by code_simp
  moreover assume "0 \<le> q" and "q \<le> 1 + 1 / 2 ^ 53"
  ultimately show ?thesis using rnd_mono [of q "1 + 1 / 2 ^ 53"] by simp
qed

lemma correction_arith:
  fixes \<sigma> S m c r :: rat
  assumes "\<bar>\<sigma> - 1\<bar> \<le> 4 / 2 ^ 53" and "\<bar>S - \<sigma>\<bar> \<le> \<sigma> / 2 ^ 53"
    and "\<bar>c - (1 - S)\<bar> \<le> \<bar>1 - S\<bar> / 2 ^ 53 + 1 / 2 ^ 60"
    and "\<sigma> \<le> 65536 * m" and "m \<le> S"
  shows "1 / 2 ^ 17 \<le> m + c" and "m + c \<le> 1 + 1 / 2 ^ 53"
    and "\<bar>r - (m + c)\<bar> \<le> (m + c) / 2 ^ 53 \<Longrightarrow> \<bar>\<sigma> - m + r - 1\<bar> \<le> 5 / 2 ^ 53"
proof -
  have n: "(2::rat) ^ 60 = 1152921504606846976" "(2::rat) ^ 17 = 131072" by simp_all
  have S: "\<bar>1 - S\<bar> \<le> 6 / 9007199254740992"
    using assms(1,2) unfolding u53 by linarith
  then have "\<bar>1 - S\<bar> / 2 ^ 53 \<le> 6 / 9007199254740992 / 2 ^ 53"
    by (intro divide_right_mono) auto
  moreover have "(6::rat) / 9007199254740992 / 2 ^ 53 + 1 / 2 ^ 60 \<le> 1 / 16 / 9007199254740992"
    by simp
  ultimately have c: "\<bar>c - (1 - S)\<bar> \<le> 1 / 16 / 9007199254740992"
    using assms(3) by linarith
  show lo: "1 / 2 ^ 17 \<le> m + c" using assms(1,4) S c unfolding u53 n by linarith
  show hi: "m + c \<le> 1 + 1 / 2 ^ 53" using assms(5) c unfolding u53 by linarith
  show "\<bar>\<sigma> - m + r - 1\<bar> \<le> 5 / 2 ^ 53" if "\<bar>r - (m + c)\<bar> \<le> (m + c) / 2 ^ 53"
  proof -
    have "(m + c) / 2 ^ 53 \<le> (1 + 1 / 2 ^ 53) / 2 ^ 53" using hi by (intro divide_right_mono) auto
    also have "(1 + 1 / 2 ^ 53) / 2 ^ 53 \<le> (2::rat) / 9007199254740992" by simp
    finally have "\<bar>r - (m + c)\<bar> \<le> 2 / 9007199254740992" using that by linarith
    moreover have "\<bar>S - \<sigma>\<bar> \<le> 2 / 9007199254740992" using assms(1,2) unfolding u53 by linarith
    ultimately show ?thesis using c unfolding u53 by linarith
  qed
qed

lemma normal_correction:
  assumes ws: "normal_weights ws"
  defines "ns \<equiv> map (\<lambda>w. rnd (w / fsum ws)) ws"
  defines "m \<equiv> ns ! argmax ns" and "c \<equiv> rnd (1 - fsum ns)"
  shows "0 < rnd (m + c)" and "rnd (m + c) \<le> 1"
    and "\<bar>sum_list ns - m + rnd (m + c) - 1\<bar> \<le> 5 / 2 ^ 53"
proof -
  have ne: "ns \<noteq> []" using ws by (simp add: ns_def normal_weights_def)
  have mem: "m \<in> set ns" unfolding m_def using argmax_bound [OF ne] by simp
  have pos: "\<forall>n \<in> set ns. 0 \<le> n" and dbl: "rnd m = m" and m1: "m \<le> 1"
    using mem normal_quotient(2,3) [OF ws] by (auto simp: ns_def less_imp_le)
  have s: "\<bar>sum_list ns - 1\<bar> \<le> 4 / 2 ^ 53"
    unfolding ns_def by (rule normal_quotient_sum [OF ws])
  have "sum_list ns \<le> of_nat (length ns) * m"
    by (rule sum_list_le_max) (simp add: m_def argmax_max)
  also have "\<dots> \<le> 65536 * m"
  proof (rule mult_right_mono)
    show "rat_of_nat (length ns) \<le> 65536"
      using ws of_nat_mono [of "length ws" 65536] by (simp add: ns_def normal_weights_def)
  qed (use mem pos in auto)
  finally have big: "sum_list ns \<le> 65536 * m" .
  have e1: "\<bar>fsum ns - sum_list ns\<bar> \<le> sum_list ns / 2 ^ 53"
  proof -
    have "min_weight / 2 ^ 17 \<le> 1 / 2" by (simp add: min_weight_def)
    then show ?thesis unfolding fsum_def using s unfolding u53 by (intro normal_rel_error [unfolded u53]) linarith
  qed
  have "m \<le> fsum ns"
    using rnd_mono [OF _ member_le_sum [OF mem pos]] mem pos dbl by (simp add: fsum_def)
  moreover have e2: "\<bar>c - (1 - fsum ns)\<bar> \<le> \<bar>1 - fsum ns\<bar> / 2 ^ 53 + 1 / 2 ^ 60"
  proof -
    have "(1::rat) / 2 ^ 1075 \<le> 1 / 2 ^ 60" by simp
    then show ?thesis using rnd_error [of "1 - fsum ns"] by (simp add: c_def)
  qed
  ultimately have mc: "1 / 2 ^ 17 \<le> m + c" and mc1: "m + c \<le> 1 + 1 / 2 ^ 53"
    and fin: "\<bar>r - (m + c)\<bar> \<le> (m + c) / 2 ^ 53 \<Longrightarrow> \<bar>sum_list ns - m + r - 1\<bar> \<le> 5 / 2 ^ 53" for r
    using correction_arith [OF s e1 _ big] by blast+
  have e3: "\<bar>rnd (m + c) - (m + c)\<bar> \<le> (m + c) / 2 ^ 53"
  proof (rule normal_rel_error)
    have "min_weight / 2 ^ 17 \<le> 1 / 2 ^ 17" by (simp add: min_weight_def)
    then show "min_weight / 2 ^ 17 \<le> m + c" using mc by linarith
  qed
  have "(0::rat) < 1 / 2 ^ 17" by simp
  then have "0 < m + c" using mc by linarith
  then show "0 < rnd (m + c)" by (rule err_pos [OF e3])
  show "rnd (m + c) \<le> 1" using \<open>0 < m + c\<close> mc1 by (intro rnd_one_plus) auto
  show "\<bar>sum_list ns - m + rnd (m + c) - 1\<bar> \<le> 5 / 2 ^ 53"
    by (rule fin [OF e3])
qed

text \<open>
  Normalisation is total on such weights: the result has one entry per weight, each a
  double in \<open>(0, 1]\<close>, and its rounded sum passes the closeness test.
\<close>

lemma normalize_length [simp]: "length (normalize_weights ws) = length ws"
  by (simp add: normalize_weights_def Let_def)

lemma normalize_double: "x \<in> set (normalize_weights ws) \<Longrightarrow> rnd x = x"
  unfolding normalize_weights_def Let_def
  by (auto dest!: set_update_subset_insert [THEN subsetD])

lemma normalize_entries:
  assumes "normal_weights ws" and "x \<in> set (normalize_weights ws)"
  shows "0 < x" and "x \<le> 1"
  using assms(2) normal_correction(1,2) [OF assms(1)] normal_quotient(2,3) [OF assms(1)]
  unfolding normalize_weights_def Let_def by (auto dest!: set_update_subset_insert [THEN subsetD])

definition sum_tolerance :: rat where
  "sum_tolerance = rnd (1 / 10 ^ 15)"

lemma normalize_sum:
  assumes ws: "normal_weights ws"
  shows "is_close (fsum (normalize_weights ws)) 1 sum_tolerance"
proof -
  let ?ns = "map (\<lambda>w. rnd (w / fsum ws)) ws" and ?N = "normalize_weights ws"
  have "?ns \<noteq> []" using ws by (simp add: normal_weights_def)
  then have "sum_list ?N = sum_list ?ns - ?ns ! argmax ?ns
      + rnd (?ns ! argmax ?ns + rnd (1 - fsum ?ns))"
    unfolding normalize_weights_def Let_def using argmax_bound [of ?ns] by (subst sum_list_upd) simp_all
  then have near: "\<bar>sum_list ?N - 1\<bar> \<le> 5 / 2 ^ 53"
    using normal_correction(3) [OF ws] by simp
  then have "\<bar>sum_list ?N\<bar> \<le> 1 + 1 / 100" unfolding u53 by linarith
  moreover from this have "\<bar>sum_list ?N\<bar> / 2 ^ 53 \<le> (1 + 1 / 100) / 2 ^ 53" by (intro divide_right_mono) auto
  moreover have "(1 + 1 / 100) / 2 ^ 53 + 1 / 2 ^ 1075 \<le> (2::rat) / 2 ^ 53" by simp
  ultimately have "\<bar>fsum ?N - sum_list ?N\<bar> \<le> 2 / 2 ^ 53"
    using rnd_error [of "sum_list ?N"] unfolding fsum_def by linarith
  then have "\<bar>1 - fsum ?N\<bar> \<le> 7 / 2 ^ 53" using near unfolding u53 by linarith
  also have "(7::rat) / 2 ^ 53 \<le> 1 / 10 ^ 15" by simp
  finally have "rnd \<bar>1 - fsum ?N\<bar> \<le> sum_tolerance"
    unfolding sum_tolerance_def by (intro rnd_mono) auto
  then show ?thesis by (simp add: is_close_def)
qed

text \<open>Weights that already sum to one are left as they are.\<close>

lemma normalize_exact:
  assumes "fsum ws = 1" and "\<And>w. w \<in> set ws \<Longrightarrow> rnd w = w"
  shows "normalize_weights ws = ws"
proof -
  have id: "map rnd ws = ws" using assms(2) by (simp add: map_idI)
  have "ws \<noteq> []" using assms(1) by (auto simp: fsum_def)
  then have "argmax ws < length ws" by (rule argmax_bound)
  then show ?thesis
    using assms id by (simp add: normalize_weights_def Let_def)
qed

lemma normal_weights_subset:
  "normal_weights ws \<Longrightarrow> vs \<noteq> [] \<Longrightarrow> set vs \<subseteq> set ws \<Longrightarrow> length vs \<le> length ws \<Longrightarrow> normal_weights vs"
  by (auto simp: normal_weights_def list_all_iff)

end
