(* ===== verification/Json.thy ===== *)
theory Json
  imports PyFloat
begin

text \<open>
  Untyped Python values as they come out of \<^verbatim>\<open>json.loads\<close> (\<open>json\<close>), the
  \<^verbatim>\<open>isinstance\<close> checks the validators make on them, and the library functions the
  weight pipeline calls on documents (\<open>pylib\<close>). Models the value level of
  \<^verbatim>\<open>contract_codec.py\<close> and the validators at the top of
  \<^verbatim>\<open>weight_plan.py\<close>.
\<close>

section \<open>Values\<close>

datatype json =
    JNull
  | JBool bool
  | JInt int
  | JFloat pyfloat
  | JStr string
  | JList "json list"
  | JObj "(string \<times> json) list"

definition jstr_opt :: "string option \<Rightarrow> json" where
  "jstr_opt v = (case v of None \<Rightarrow> JNull | Some s \<Rightarrow> JStr s)"

definition jint_opt :: "int option \<Rightarrow> json" where
  "jint_opt v = (case v of None \<Rightarrow> JNull | Some n \<Rightarrow> JInt n)"

text \<open>\<^verbatim>\<open>mapping.get(key)\<close>: \<^verbatim>\<open>None\<close> when the key is absent.\<close>

definition jget :: "(string \<times> json) list \<Rightarrow> string \<Rightarrow> json" where
  "jget kvs k = (case map_of kvs k of Some v \<Rightarrow> v | None \<Rightarrow> JNull)"

lemma jget_Nil [simp]: "jget [] k = JNull"
  and jget_Cons [simp]: "jget ((k', v) # kvs) k = (if k = k' then v else jget kvs k)"
  by (simp_all add: jget_def)

text \<open>
  Python's \<^verbatim>\<open>value == n\<close> for an int literal: \<^verbatim>\<open>True == 1\<close> and
  \<^verbatim>\<open>1.0 == 1\<close> hold.
\<close>

fun py_eq_int :: "json \<Rightarrow> int \<Rightarrow> bool" where
  "py_eq_int (JInt n) k = (n = k)"
| "py_eq_int (JBool b) k = ((if b then 1 else 0) = k)"
| "py_eq_int (JFloat (Fin r)) k = (r = of_int k)"
| "py_eq_int _ k = False"

text \<open>
  \<^verbatim>\<open>object_pairs_hook=unique_object\<close>: every object of the document has distinct
  keys.
\<close>

fun unique_keys :: "json \<Rightarrow> bool" where
  "unique_keys (JList xs) = list_all unique_keys xs"
| "unique_keys (JObj kvs) = (distinct (map fst kvs) \<and> list_all (\<lambda>kv. unique_keys (snd kv)) kvs)"
| "unique_keys _ = True"

text \<open>
  \<^verbatim>\<open>float.hex\<close> of a finite double: a normalised 13-digit hexadecimal fraction and a
  binary exponent.
\<close>

definition hex_digit :: "nat \<Rightarrow> char" where
  "hex_digit n = ''0123456789abcdef'' ! (n mod 16)"

fun hex_digits :: "nat \<Rightarrow> nat \<Rightarrow> string" where
  "hex_digits 0 n = []"
| "hex_digits (Suc k) n = hex_digits k (n div 16) @ [hex_digit n]"

fun nat_digits :: "nat \<Rightarrow> string" where
  "nat_digits n = (if n < 10 then [char_of (n + 48)] else nat_digits (n div 10) @ [char_of (n mod 10 + 48)])"

declare nat_digits.simps [simp del]

definition float_hex :: "rat \<Rightarrow> string" where
  "float_hex r =
     (if r = 0 then ''0x0.0p+0''
      else let e = max (dbl_exp r) (- 1022);
               m = nat \<lfloor>\<bar>r\<bar> / 2 powi (e - 52)\<rfloor>
           in (if r < 0 then ''-'' else '''') @ ''0x'' @ nat_digits (m div 2 ^ 52) @ ''.''
              @ hex_digits 13 (m mod 2 ^ 52) @ ''p'' @ (if e < 0 then ''-'' else ''+'')
              @ nat_digits (nat \<bar>e\<bar>))"

fun pyfloat_hex :: "pyfloat \<Rightarrow> string" where
  "pyfloat_hex (Fin r) = float_hex r"
| "pyfloat_hex PosInf = ''inf''"
| "pyfloat_hex NegInf = ''-inf''"
| "pyfloat_hex NaN = ''nan''"

section \<open>Canonical documents\<close>

text \<open>
  Two Python dictionaries are equal when they agree as maps. \<open>canon\<close> lists every
  object in key order, which is also the order \<^verbatim>\<open>json.dumps(sort_keys=True)\<close> prints
  and therefore the order in which \<^verbatim>\<open>json.loads\<close> reads it back.
\<close>

fun canon :: "json \<Rightarrow> json" where
  "canon (JList xs) = JList (map canon xs)"
| "canon (JObj kvs) = JObj (sort_key fst (map (\<lambda>(k, v). (k, canon v)) kvs))"
| "canon v = v"

text \<open>
  The documents that have a canonical rendering: distinct keys and finite doubles only
  (\<^verbatim>\<open>allow_nan=False\<close>). Texts are code points below 256; \<^verbatim>\<open>ensure_ascii\<close> escapes
  the ones above ASCII.
\<close>

definition finite_double :: "rat \<Rightarrow> bool" where
  "finite_double r \<longleftrightarrow> rnd r = r \<and> \<bar>r\<bar> < 2 ^ 1024"

fun json_ok :: "json \<Rightarrow> bool" where
  "json_ok (JFloat f) = (case f of Fin r \<Rightarrow> finite_double r | _ \<Rightarrow> False)"
| "json_ok (JList xs) = list_all json_ok xs"
| "json_ok (JObj kvs) = (distinct (map fst kvs)
     \<and> list_all (\<lambda>kv. json_ok (snd kv)) kvs)"
| "json_ok _ = True"

text \<open>The floats of a document that was read are doubles, or not finite.\<close>

fun doubles_only :: "json \<Rightarrow> bool" where
  "doubles_only (JFloat f) = (case f of Fin r \<Rightarrow> finite_double r | _ \<Rightarrow> True)"
| "doubles_only (JList xs) = list_all doubles_only xs"
| "doubles_only (JObj kvs) = list_all (\<lambda>kv. doubles_only (snd kv)) kvs"
| "doubles_only _ = True"

lemma doubles_only_jget: "doubles_only (JObj kvs) \<Longrightarrow> doubles_only (jget kvs k)"
  by (auto simp: jget_def list_all_iff dest!: map_of_SomeD split: option.splits)

lemma distinct_map_sort_key: "distinct (map f (sort_key g xs)) \<longleftrightarrow> distinct (map f xs)"
  by (simp add: distinct_map)

lemma sort_key_map_of:
  assumes "distinct (map fst kvs)"
  shows "map_of (sort_key fst kvs) = map_of kvs"
proof (rule map_of_inject_set [THEN iffD2])
  show "distinct (map fst (sort_key fst kvs))"
    using assms by (simp only: distinct_map_sort_key)
qed (use assms in auto)

lemma canon_lookup:
  assumes "distinct (map fst kvs)" and "canon (JObj kvs) = JObj kvs'"
  shows "jget kvs' k = canon (jget kvs k)" and "set (map fst kvs') = set (map fst kvs)"
    and "distinct (map fst kvs')"
proof -
  let ?m = "map (\<lambda>(k, v). (k, canon v)) kvs"
  have fsts: "map fst ?m = map fst kvs" by (induction kvs) auto
  have kvs': "kvs' = sort_key fst ?m" using assms(2) by simp
  then have "map_of kvs' = map_of ?m"
    by (simp only: sort_key_map_of fsts assms(1))
  moreover have "map_of ?m k = map_option canon (map_of kvs k)"
    by (induction kvs) auto
  ultimately show "jget kvs' k = canon (jget kvs k)"
    by (simp add: jget_def split: option.splits)
  show "set (map fst kvs') = set (map fst kvs)"
    unfolding kvs' fsts [symmetric] by (simp only: set_map set_sort)
  show "distinct (map fst kvs')"
    unfolding kvs' by (simp only: distinct_map_sort_key fsts assms(1))
qed

lemma canon_opt [simp]: "canon (jstr_opt s) = jstr_opt s" "canon (jint_opt n) = jint_opt n"
  by (simp_all add: jstr_opt_def jint_opt_def split: option.splits)

lemma json_ok_opt [simp]: "json_ok (jstr_opt s)" "json_ok (jint_opt n)"
  by (simp_all add: jstr_opt_def jint_opt_def split: option.splits)

section \<open>Library functions\<close>

text \<open>
  What the code calls of the Python standard library on documents and texts:
  \<^item> \<open>sha256_hex\<close>: \<^verbatim>\<open>hashlib.sha256(data).hexdigest()\<close>;
  \<^item> \<open>dumps\<close>: \<^verbatim>\<open>json.dumps\<close> with sorted keys, compact separators and ASCII
    escapes;
  \<^item> \<open>loads\<close>: \<^verbatim>\<open>json.loads\<close> with an \<^verbatim>\<open>object_pairs_hook\<close> that refuses a repeated
    key. \<open>DuplicateKey\<close> is the hook's exception, \<open>Malformed\<close> any other;
  \<^item> \<open>iso_utc\<close>: whether \<^verbatim>\<open>datetime.fromisoformat\<close> accepts the text with a
    zero UTC offset.
\<close>

datatype load_error = DuplicateKey | Malformed

record pylib =
  sha256_hex :: "string \<Rightarrow> string"
  dumps :: "json \<Rightarrow> string"
  loads :: "string \<Rightarrow> load_error + json"
  iso_utc :: "string \<Rightarrow> bool"

definition sha_json :: "pylib \<Rightarrow> json \<Rightarrow> string" where
  "sha_json L d = sha256_hex L (dumps L d)"

abbreviation newline :: char where
  "newline \<equiv> CHR 0x0A"

text \<open>
  What the code relies on: digests are 64 lower-case hexadecimal digits, the canonical
  rendering is ASCII, it does not depend on the order of the keys, reading it back (with
  the newline the files end in) gives the same document, and the floats that are read are
  doubles.
\<close>

locale python_library =
  fixes L :: pylib
  assumes sha256_digest: "digest_text (sha256_hex L s)"
    and dumps_ascii: "json_ok d \<Longrightarrow> is_ascii (dumps L d)"
    and dumps_canon: "json_ok d \<Longrightarrow> dumps L (canon d) = dumps L d"
    and loads_dumps: "json_ok d \<Longrightarrow> loads L (dumps L d @ [newline]) = Inr (canon d)"
    and loads_doubles: "loads L s = Inr d \<Longrightarrow> doubles_only d"
begin

lemma sha_json_digest [simp]: "digest_text (sha_json L d)"
  by (simp add: sha_json_def sha256_digest)

lemma dumps_injective:
  assumes "json_ok d" and "json_ok e" and "dumps L d = dumps L e"
  shows "canon d = canon e"
  using loads_dumps [OF assms(1)] loads_dumps [OF assms(2)] assms(3) by simp

lemma rendered_ascii: "json_ok d \<Longrightarrow> is_ascii (dumps L d @ [newline])"
  using dumps_ascii [of d] by (simp add: is_ascii_def)

end

section \<open>Validators\<close>

text \<open>\<^verbatim>\<open>weight_plan._validate_text\<close>.\<close>

definition validate_text :: "string \<Rightarrow> nat \<Rightarrow> json \<Rightarrow> string res" where
  "validate_text field_name maximum value =
     (case value of
        JStr s \<Rightarrow> reject_if (bad_text maximum s) (WeightPlanError (field_name @ '' is invalid'')) (Inr s)
      | _ \<Rightarrow> Inl (WeightPlanError (field_name @ '' is invalid'')))"

text \<open>\<^verbatim>\<open>weight_plan._validate_integer\<close>: a bool is not an int here.\<close>

definition validate_integer :: "string \<Rightarrow> int \<Rightarrow> int \<Rightarrow> json \<Rightarrow> int res" where
  "validate_integer field_name minimum maximum value =
     (case value of
        JInt n \<Rightarrow> reject_if (\<not> (minimum \<le> n \<and> n \<le> maximum))
                    (WeightPlanError (field_name @ '' is out of range'')) (Inr n)
      | _ \<Rightarrow> Inl (WeightPlanError (field_name @ '' is out of range'')))"

text \<open>\<^verbatim>\<open>_exact_object\<close>: a mapping with exactly the given keys.\<close>

definition exact_object :: "exn \<Rightarrow> string list \<Rightarrow> json \<Rightarrow> (string \<times> json) list res" where
  "exact_object err keys value =
     (case value of
        JObj kvs \<Rightarrow> reject_if (set (map fst kvs) \<noteq> set keys) err (Inr kvs)
      | _ \<Rightarrow> Inl err)"

lemma validate_text_Inr [simp, res_simps]:
  "validate_text f m v = Inr s \<longleftrightarrow> v = JStr s \<and> \<not> bad_text m s"
  by (auto simp: validate_text_def split: json.splits)

lemma validate_integer_Inr [simp, res_simps]:
  "validate_integer f lo hi v = Inr n \<longleftrightarrow> v = JInt n \<and> lo \<le> n \<and> n \<le> hi"
  by (auto simp: validate_integer_def split: json.splits)

lemma exact_object_Inr [simp, res_simps]:
  "exact_object e ks v = Inr kvs \<longleftrightarrow> v = JObj kvs \<and> set (map fst kvs) = set ks"
  by (auto simp: exact_object_def split: json.splits)

text \<open>
  Reading back a canonical object: the shape check passes and each lookup finds the
  canonical form of the value written.
\<close>

lemma read_object:
  assumes "distinct (map fst kvs)" and "set (map fst kvs) = set keys"
    and "\<And>root. (\<And>k. jget root k = canon (jget kvs k)) \<Longrightarrow> f root = r"
  shows "res_bind (exact_object err keys (canon (JObj kvs))) f = r"
proof -
  obtain root where root: "canon (JObj kvs) = JObj root" by simp
  note look = canon_lookup [OF assms(1) root]
  have "exact_object err keys (canon (JObj kvs)) = Inr root"
    using look(2) assms(2) by (simp only: exact_object_Inr root)
  then show ?thesis using assms(3) [of root] look(1) by (simp only: res_bind.simps)
qed

end
