(* ===== verification/Contracts.thy ===== *)
theory Contracts
  imports Json
begin

text \<open>
  What the versioned contracts share: the field vocabulary of
  \<^verbatim>\<open>organic_contracts.py\<close> and \<^verbatim>\<open>assignment_probe.py\<close> (anchored regular expressions
  and numeric bounds, as predicates), the helpers of \<^verbatim>\<open>contract_codec.py\<close>, base64
  as the code uses it, and the key checks of \<^verbatim>\<open>ed25519_trust.py\<close>.

  A pydantic model is a record of its variable fields; fields whose annotation admits one
  literal only appear in its document. Validating a model means checking every field
  against its annotation and then running the model's own validator. An exception that is
  a \<^verbatim>\<open>ValueError\<close> leaves \<^verbatim>\<open>model_validate\<close> as pydantic's \<^verbatim>\<open>ValidationError\<close>,
  itself a \<^verbatim>\<open>ValueError\<close>: \<open>as_validation\<close>. The message kept is that of the failing
  check.
\<close>

section \<open>Field vocabulary\<close>

abbreviation in_range :: "int \<Rightarrow> int \<Rightarrow> int \<Rightarrow> bool" where
  "in_range lo hi n \<equiv> lo \<le> n \<and> n \<le> hi"

abbreviation max_epoch :: int where
  "max_epoch \<equiv> 9223372036854775807"

definition lower_alnum :: "char \<Rightarrow> bool" where
  "lower_alnum c \<longleftrightarrow> (48 \<le> ord c \<and> ord c \<le> 57) \<or> (97 \<le> ord c \<and> ord c \<le> 122)"

definition ascii_alnum :: "char \<Rightarrow> bool" where
  "ascii_alnum c \<longleftrightarrow> lower_alnum c \<or> (65 \<le> ord c \<and> ord c \<le> 90)"

definition hex_text :: "nat \<Rightarrow> string \<Rightarrow> bool" where
  "hex_text n s \<longleftrightarrow> length s = n \<and> list_all lower_hex s"

text \<open>\<^verbatim>\<open>^sha256:[0-9a-f]{64}$\<close>.\<close>

definition sha_text :: "string \<Rightarrow> bool" where
  "sha_text s \<longleftrightarrow> take 7 s = ''sha256:'' \<and> digest_text (drop 7 s)"

text \<open>\<^verbatim>\<open>^[A-Za-z0-9]{1,128}$\<close>.\<close>

definition hotkey_text :: "string \<Rightarrow> bool" where
  "hotkey_text s \<longleftrightarrow> s \<noteq> [] \<and> length s \<le> 128 \<and> list_all ascii_alnum s"

text \<open>\<^verbatim>\<open>^[a-z0-9](?:[a-z0-9x]{0,n-2}[a-z0-9])?$\<close> for a set of inner characters.\<close>

definition label_text :: "string \<Rightarrow> nat \<Rightarrow> string \<Rightarrow> bool" where
  "label_text inner maximum s \<longleftrightarrow>
     s \<noteq> [] \<and> length s \<le> maximum \<and> list_all (\<lambda>c. lower_alnum c \<or> c \<in> set inner) s
     \<and> lower_alnum (hd s) \<and> lower_alnum (last s)"

abbreviation dns_label :: "string \<Rightarrow> bool" where
  "dns_label \<equiv> label_text ''-'' 63"

abbreviation key_id_text :: "string \<Rightarrow> bool" where
  "key_id_text \<equiv> label_text ''_-'' 64"

fun split_dots :: "string \<Rightarrow> string list" where
  "split_dots [] = [[]]"
| "split_dots (c # s) =
     (if c = CHR ''.'' then [] # split_dots s
      else (c # hd (split_dots s)) # tl (split_dots s))"

text \<open>At least two labels.\<close>

definition hostname_text :: "string \<Rightarrow> bool" where
  "hostname_text s \<longleftrightarrow>
     length s \<le> 253 \<and> 2 \<le> length (split_dots s) \<and> list_all dns_label (split_dots s)"

definition starts_with :: "string \<Rightarrow> string \<Rightarrow> bool" where
  "starts_with p s \<longleftrightarrow> take (length p) s = p"

text \<open>\<^verbatim>\<open>RouteLabel\<close>: a DNS label outside the reserved prefixes.\<close>

definition route_label :: "string \<Rightarrow> bool" where
  "route_label s \<longleftrightarrow>
     dns_label s \<and> \<not> list_ex (\<lambda>p. starts_with p s) [''syn-'', ''readiness-probe'', ''xn--'']"

definition endpoint_text :: "string \<Rightarrow> bool" where
  "endpoint_text s \<longleftrightarrow> 3 \<le> length s \<and> length s \<le> 320"

text \<open>\<^verbatim>\<open>HealthPath\<close>: absolute, not \<^verbatim>\<open>//\<close>, no query, fragment, space or control character.\<close>

definition path_char :: "char \<Rightarrow> bool" where
  "path_char c \<longleftrightarrow> 33 \<le> ord c \<and> ord c \<le> 126 \<and> ord c \<noteq> 35 \<and> ord c \<noteq> 63"

fun health_path :: "string \<Rightarrow> bool" where
  "health_path (c # s) \<longleftrightarrow>
     c = CHR ''/'' \<and> length s < 1024 \<and> list_all path_char s
     \<and> (case s of [] \<Rightarrow> True | d # _ \<Rightarrow> d \<noteq> CHR ''/'')"
| "health_path [] \<longleftrightarrow> False"

definition marker_text :: "string \<Rightarrow> bool" where
  "marker_text s \<longleftrightarrow> s \<noteq> [] \<and> length s \<le> 256 \<and> list_all (\<lambda>c. 32 \<le> ord c \<and> ord c \<le> 126) s"

definition http_method :: "string \<Rightarrow> bool" where
  "http_method s \<longleftrightarrow> s = ''GET'' \<or> s = ''HEAD''"

fun opt_ok :: "('a \<Rightarrow> bool) \<Rightarrow> 'a option \<Rightarrow> bool" where
  "opt_ok p None = True"
| "opt_ok p (Some x) = p x"

definition int_digits :: "int \<Rightarrow> string" where
  "int_digits n = (if n < 0 then CHR ''-'' # nat_digits (nat (- n)) else nat_digits (nat n))"

section \<open>Model validation\<close>

definition as_validation :: "'a res \<Rightarrow> 'a res" where
  "as_validation r = (case r of
     Inl (ScoringError m) \<Rightarrow> Inl (ValueError m)
   | Inl (AssignmentProbeError m) \<Rightarrow> Inl (ValueError m)
   | Inl (DecisionError m) \<Rightarrow> Inl (ValueError m)
   | Inl (StaticPathError m) \<Rightarrow> Inl (ValueError m)
   | Inl (StaticScoringError m) \<Rightarrow> Inl (ValueError m)
   | _ \<Rightarrow> r)"

lemma as_validation_Inr [simp, res_simps]: "as_validation r = Inr x \<longleftrightarrow> r = Inr x"
  by (auto simp: as_validation_def split: sum.splits exn.splits)

text \<open>\<^verbatim>\<open>verify_model_digest\<close>: the field holds the digest of the document without it.\<close>

definition verify_model_digest :: "pylib \<Rightarrow> string \<Rightarrow> json \<Rightarrow> string \<Rightarrow> 'a \<Rightarrow> 'a res" where
  "verify_model_digest L field_name document value x =
     reject_if (value \<noteq> sha_json L document) (ValueError (field_name @ ''_mismatch'')) (Inr x)"

lemma verify_model_digest_Inr [simp, res_simps]:
  "verify_model_digest L f d v x = Inr y \<longleftrightarrow> v = sha_json L d \<and> y = x"
  by (auto simp: verify_model_digest_def)

text \<open>
  \<^verbatim>\<open>model_bytes\<close> and \<^verbatim>\<open>parse_model\<close>, over the validation, the reader and the document of
  one model. \<^verbatim>\<open>parse_constant\<close> refuses the literals NaN and Infinity; a reader accepts no
  float that is not finite, so both ways end in the same exception.
\<close>

definition model_bytes :: "pylib \<Rightarrow> ('a \<Rightarrow> 'a res) \<Rightarrow> ('a \<Rightarrow> json) \<Rightarrow> 'a \<Rightarrow> string res" where
  "model_bytes L revalidate document value =
     res_bind (revalidate value) (\<lambda>v. Inr (dumps L (document v) @ [newline]))"

definition parse_model ::
    "pylib \<Rightarrow> (json \<Rightarrow> 'a res) \<Rightarrow> ('a \<Rightarrow> string res) \<Rightarrow> nat \<Rightarrow> string \<Rightarrow> 'a res" where
  "parse_model L model_validate canonicalizer maximum_bytes rendered =
     reject_if (rendered = [] \<or> length rendered > maximum_bytes) (ValueError ''document_size_invalid'')
     (reject_if (\<not> is_ascii rendered) (ValueError ''document_invalid'')
     (case loads L rendered of
        Inl _ \<Rightarrow> Inl (ValueError ''document_invalid'')
      | Inr document \<Rightarrow>
          (case model_validate document of
             Inl e \<Rightarrow> Inl (ValueError ''document_invalid'')
           | Inr model \<Rightarrow> res_bind (canonicalizer model) (\<lambda>bytes.
               reject_if (rendered \<noteq> bytes) (ValueError ''document_not_canonical'') (Inr model)))))"

text \<open>Only the exact canonical bytes of the model that is returned are accepted.\<close>

lemma parse_model_Inr:
  "parse_model L mv cz m r = Inr x \<Longrightarrow> cz x = Inr r \<and> r \<noteq> [] \<and> length r \<le> m \<and> is_ascii r"
  by (auto simp: parse_model_def split: sum.splits)

text \<open>
  Readers of single fields in strict mode: no coercion between types, a bool is not an int.
\<close>

abbreviation strict_error :: exn where
  "strict_error \<equiv> ValueError ''validation_error''"

fun read_str :: "(string \<Rightarrow> bool) \<Rightarrow> json \<Rightarrow> string res" where
  "read_str p (JStr s) = (if p s then Inr s else Inl strict_error)"
| "read_str p _ = Inl strict_error"

fun read_int :: "int \<Rightarrow> int \<Rightarrow> json \<Rightarrow> int res" where
  "read_int lo hi (JInt n) = (if in_range lo hi n then Inr n else Inl strict_error)"
| "read_int lo hi _ = Inl strict_error"

definition read_opt :: "(json \<Rightarrow> 'a res) \<Rightarrow> json \<Rightarrow> 'a option res" where
  "read_opt f v = (if v = JNull then Inr None else res_bind (f v) (\<lambda>x. Inr (Some x)))"

definition read_const :: "json \<Rightarrow> json \<Rightarrow> unit res" where
  "read_const c v = (if v = c then Inr () else Inl strict_error)"

lemma read_str_Inr [simp]: "read_str p v = Inr s \<longleftrightarrow> v = JStr s \<and> p s"
  by (cases v) auto

lemma read_int_Inr [simp]: "read_int lo hi v = Inr n \<longleftrightarrow> v = JInt n \<and> in_range lo hi n"
  by (cases v) auto

lemma read_const_Inr [simp]: "read_const c v = Inr () \<longleftrightarrow> v = c"
  by (simp add: read_const_def)

lemma read_opt_str [simp]:
  "opt_ok p s \<Longrightarrow> read_opt (read_str p) (jstr_opt s) = Inr s"
  by (cases s) (simp_all add: read_opt_def jstr_opt_def)

lemma read_opt_int [simp]:
  "opt_ok (in_range lo hi) n \<Longrightarrow> read_opt (read_int lo hi) (jint_opt n) = Inr n"
  by (cases n) (simp_all add: read_opt_def jint_opt_def)

section \<open>Base64\<close>

text \<open>
  \<^verbatim>\<open>base64.b64encode\<close> and \<^verbatim>\<open>base64.b64decode(value, validate=True)\<close>. Bytes are
  characters. Decoding checks the alphabet and up to two trailing padding characters, then
  reads groups of four; an incomplete group needs its padding.
\<close>

definition b64_alphabet :: string where
  "b64_alphabet = ''ABCDEFGHIJKLMNOPQRSTUVWXYZabcdefghijklmnopqrstuvwxyz0123456789+/''"

definition b64_char :: "nat \<Rightarrow> char" where
  "b64_char n = b64_alphabet ! (n mod 64)"

fun b64encode :: "string \<Rightarrow> string" where
  "b64encode [] = []"
| "b64encode [a] = [b64_char (ord a div 4), b64_char (ord a mod 4 * 16), CHR ''='', CHR ''='']"
| "b64encode [a, b] =
     [b64_char (ord a div 4), b64_char (ord a mod 4 * 16 + ord b div 16),
      b64_char (ord b mod 16 * 4), CHR ''='']"
| "b64encode (a # b # c # s) =
     b64_char (ord a div 4) # b64_char (ord a mod 4 * 16 + ord b div 16)
     # b64_char (ord b mod 16 * 4 + ord c div 64) # b64_char (ord c mod 64) # b64encode s"

fun index_of :: "'a \<Rightarrow> 'a list \<Rightarrow> nat option" where
  "index_of x [] = None"
| "index_of x (y # ys) = (if x = y then Some 0 else map_option Suc (index_of x ys))"

fun b64_groups :: "nat list \<Rightarrow> nat \<Rightarrow> string option" where
  "b64_groups [] pad = Some []"
| "b64_groups [a] pad = None"
| "b64_groups [a, b] pad = (if 2 \<le> pad then Some [char_of (a * 4 + b div 16)] else None)"
| "b64_groups [a, b, c] pad =
     (if 1 \<le> pad then Some [char_of (a * 4 + b div 16), char_of (b mod 16 * 16 + c div 4)] else None)"
| "b64_groups (a # b # c # d # s) pad =
     map_option (\<lambda>t. char_of (a * 4 + b div 16) # char_of (b mod 16 * 16 + c div 4)
                       # char_of (c mod 4 * 64 + d) # t) (b64_groups s pad)"

definition b64decode :: "string \<Rightarrow> string option" where
  "b64decode s =
     (let body = takeWhile (\<lambda>c. c \<noteq> CHR ''='') s; padding = dropWhile (\<lambda>c. c \<noteq> CHR ''='') s;
          codes = map (\<lambda>c. index_of c b64_alphabet) body
      in if length padding \<le> 2 \<and> list_all (\<lambda>c. c = CHR ''='') padding \<and> None \<notin> set codes
         then b64_groups (map the codes) (length padding) else None)"

text \<open>\<^verbatim>\<open>_decode_base64\<close>.\<close>

definition decode_base64 :: "nat \<Rightarrow> string \<Rightarrow> string res" where
  "decode_base64 expected_bytes value =
     (case b64decode value of
        None \<Rightarrow> Inl (ValueError ''base64_invalid'')
      | Some decoded \<Rightarrow> reject_if (length decoded \<noteq> expected_bytes \<or> b64encode decoded \<noteq> value)
                          (ValueError ''base64_invalid'') (Inr decoded))"

fun nibble :: "char \<Rightarrow> nat" where
  "nibble c = (if ord c \<le> 57 then ord c - 48 else ord c - 87)"

text \<open>\<^verbatim>\<open>bytes.fromhex\<close> of lower-case hexadecimal digits.\<close>

fun unhex :: "string \<Rightarrow> string" where
  "unhex (a # b # s) = char_of (16 * nibble a + nibble b) # unhex s"
| "unhex _ = []"

text \<open>\<^verbatim>\<open>_SMALL_ORDER_ED25519_ENCODINGS\<close>.\<close>

definition small_order_encodings :: "string list" where
  "small_order_encodings = map unhex
     [''0000000000000000000000000000000000000000000000000000000000000000'',
      ''0100000000000000000000000000000000000000000000000000000000000000'',
      ''26e8958fc2b227b045c3f489f2ef98f0d5dfac05d3c63339b13802886d53fc05'',
      ''c7176a703d4dd84fba3c0b760d10670f2a2053fa2c39ccc64ec7fd7792ac037a'',
      ''ecffffffffffffffffffffffffffffffffffffffffffffffffffffffffffff7f'',
      ''edffffffffffffffffffffffffffffffffffffffffffffffffffffffffffff7f'',
      ''eeffffffffffffffffffffffffffffffffffffffffffffffffffffffffffff7f'']"

definition validate_ed25519_public_key_bytes :: "string \<Rightarrow> string res" where
  "validate_ed25519_public_key_bytes public_bytes =
     (let sign_cleared = take 31 public_bytes @ [char_of (ord (public_bytes ! 31) mod 128)]
      in reject_if (sign_cleared \<in> set small_order_encodings)
           (ValueError ''ed25519_public_key_small_order'') (Inr public_bytes))"

definition decode_ed25519_public_key_base64 :: "string \<Rightarrow> string res" where
  "decode_ed25519_public_key_base64 value =
     (case b64decode value of
        None \<Rightarrow> Inl (ValueError ''ed25519_public_key_encoding_invalid'')
      | Some public_bytes \<Rightarrow>
          reject_if (length public_bytes \<noteq> 32 \<or> b64encode public_bytes \<noteq> value)
            (ValueError ''ed25519_public_key_encoding_invalid'')
            (validate_ed25519_public_key_bytes public_bytes))"

lemma index_of_nth: "distinct xs \<Longrightarrow> n < length xs \<Longrightarrow> index_of (xs ! n) xs = Some n"
proof (induction xs arbitrary: n)
  case (Cons x xs)
  then show ?case by (cases n) (auto dest: nth_mem)
qed simp

lemma b64_alphabet_facts: "distinct b64_alphabet" "length b64_alphabet = 64" "CHR ''='' \<notin> set b64_alphabet"
  by (simp_all add: b64_alphabet_def)

lemma b64_char_facts [simp]:
  "index_of (b64_char n) b64_alphabet = Some (n mod 64)" "b64_char n \<noteq> CHR ''=''"
proof -
  have n: "n mod 64 < length b64_alphabet" by (simp add: b64_alphabet_facts)
  show "index_of (b64_char n) b64_alphabet = Some (n mod 64)"
    unfolding b64_char_def by (rule index_of_nth [OF b64_alphabet_facts(1) n])
  show "b64_char n \<noteq> CHR ''=''" using nth_mem [OF n] b64_alphabet_facts(3) by (auto simp: b64_char_def)
qed

text \<open>The sextets of a text, with the number of padding characters.\<close>

fun sextets :: "string \<Rightarrow> nat list" where
  "sextets [] = []"
| "sextets [a] = [ord a div 4, ord a mod 4 * 16]"
| "sextets [a, b] = [ord a div 4, ord a mod 4 * 16 + ord b div 16, ord b mod 16 * 4]"
| "sextets (a # b # c # s) =
     (ord a div 4) # (ord a mod 4 * 16 + ord b div 16) # (ord b mod 16 * 4 + ord c div 64) # (ord c mod 64) # sextets s"

definition padding_of :: "string \<Rightarrow> nat" where
  "padding_of s = (case length s mod 3 of 0 \<Rightarrow> 0 | Suc 0 \<Rightarrow> 2 | _ \<Rightarrow> 1)"

lemma padding_of_Cons3: "padding_of (a # b # c # s) = padding_of s"
proof -
  have "Suc (Suc (Suc n)) mod 3 = n mod 3" for n :: nat by presburger
  then show ?thesis by (simp add: padding_of_def)
qed

lemma b64encode_sextets: "b64encode s = map b64_char (sextets s) @ replicate (padding_of s) (CHR ''='')"
  by (induction s rule: sextets.induct) (simp_all add: padding_of_Cons3 padding_of_def numeral_2_eq_2)

lemma ord_less: "ord (c :: char) < 256"
  by (rule nat_of_char_less_256)

lemma ord_bytes [simp]:
  "ord c div 16 div 16 = 0" "ord c div 64 div 4 = 0" "ord c div 16 mod 16 = ord c div 16"
  "ord c div 64 mod 4 = ord c div 64" "ord c div 4 mod 64 = ord c div 4"
  using ord_less [of c] by (simp_all add: div_mult2_eq [symmetric] mod_less less_mult_imp_div_less)

lemma sextets_small: "\<forall>n\<in>set (sextets s). n < 64"
proof -
  have d: "ord c div 4 < 64" "ord c div 16 < 16" "ord c div 64 < 4" for c
    using ord_less [of c] by (simp_all add: less_mult_imp_div_less)
  have m: "ord c mod 4 \<le> 3" "ord c mod 16 \<le> 15" for c
    using mod_less_divisor [of 4 "ord c"] mod_less_divisor [of 16 "ord c"] by linarith+
  have "ord a mod 4 * 16 + ord b div 16 < 64" "ord a mod 16 * 4 + ord b div 64 < 64" for a b
    using m [of a] d [of b] by linarith+
  moreover have "ord a mod 4 * 16 < 64" "ord a mod 16 * 4 < 64" for a using m [of a] by linarith+
  ultimately show ?thesis using d(1)
    by (induction s rule: sextets.induct) auto
qed

lemma b64_groups_sextets: "b64_groups (sextets s) (padding_of s) = Some s"
proof (induction s rule: sextets.induct)
  case (4 a b c s)
  then show ?case by (simp add: padding_of_Cons3)
qed (simp_all add: padding_of_def)

lemma b64_round_trip [simp]: "b64decode (b64encode s) = Some s"
proof -
  have body: "takeWhile (\<lambda>c. c \<noteq> CHR ''='') (b64encode s) = map b64_char (sextets s)"
    "dropWhile (\<lambda>c. c \<noteq> CHR ''='') (b64encode s) = replicate (padding_of s) (CHR ''='')"
    unfolding b64encode_sextets by (simp_all add: takeWhile_append dropWhile_append)
  have "padding_of s \<le> 2" by (simp add: padding_of_def split: nat.splits)
  moreover have codes: "map (\<lambda>c. index_of c b64_alphabet) (map b64_char (sextets s)) = map Some (sextets s)"
    using sextets_small by simp
  ultimately show ?thesis
    unfolding b64decode_def body Let_def codes by (simp add: b64_groups_sextets comp_def list_all_iff image_iff)
qed

lemma decode_base64_encode: "length s = n \<Longrightarrow> decode_base64 n (b64encode s) = Inr s"
  by (simp add: decode_base64_def)

lemma length_b64encode: "length (b64encode s) = 4 * ((length s + 2) div 3)"
proof (induction s rule: b64encode.induct)
  case (4 a b c s)
  have "(5 + length s) div 3 = Suc (Suc (Suc (length s)) div 3)" by presburger
  then show ?case using 4 by simp
qed simp_all

end
