(* ===== verification/Timestamps.thy ===== *)
theory Timestamps
  imports Contracts
begin

text \<open>
  Go RFC3339Nano timestamps, from \<^verbatim>\<open>protocol.py\<close>: the calendar arithmetic
  (\<open>is_leap_year\<close>, \<open>civil_day\<close>) and the parser \<open>rfc3339nano_instant\<close>, which returns
  signed nanoseconds; and from \<^verbatim>\<open>organic_probe.py\<close> the Unix seconds and the epoch index
  of a timestamp. The calendar formula is proved equal to counting days month by month
  and year by year.
\<close>

section \<open>Calendar\<close>

definition is_leap_year :: "int \<Rightarrow> bool" where
  "is_leap_year year \<longleftrightarrow> year mod 4 = 0 \<and> (year mod 100 \<noteq> 0 \<or> year mod 400 = 0)"

definition civil_day :: "int \<Rightarrow> int \<Rightarrow> int \<Rightarrow> int" where
  "civil_day year month day =
     (let adjusted_year = year - (if month \<le> 2 then 1 else 0);
          era = adjusted_year div 400;
          year_of_era = adjusted_year - era * 400;
          shifted_month = month + (if month > 2 then - 3 else 9);
          day_of_year = (153 * shifted_month + 2) div 5 + day - 1
      in era * 146097 + year_of_era * 365 + year_of_era div 4 - year_of_era div 100 + day_of_year)"

text \<open>\<^verbatim>\<open>_MONTH_DAYS[month] + (1 if month == 2 and _is_leap_year(year) else 0)\<close>.\<close>

definition month_days :: "int \<Rightarrow> int \<Rightarrow> int" where
  "month_days year month =
     [0, 31, 28, 31, 30, 31, 30, 31, 31, 30, 31, 30, 31] ! nat month
     + (if month = 2 \<and> is_leap_year year then 1 else 0)"

section \<open>Parsing\<close>

definition is_digit :: "char \<Rightarrow> bool" where
  "is_digit c \<longleftrightarrow> 48 \<le> ord c \<and> ord c \<le> 57"

definition digit_value :: "char \<Rightarrow> int" where
  "digit_value c = int (ord c) - 48"

definition dec_value :: "string \<Rightarrow> int" where
  "dec_value s = foldl (\<lambda>n c. 10 * n + digit_value c) 0 s"

text \<open>
  The groups of \<^verbatim>\<open>_RFC3339_NANO\<close> under \<^verbatim>\<open>fullmatch\<close>: nineteen characters of date and
  time, an optional fraction of one to nine digits, and the zone.
\<close>

definition stamp_head :: "string \<Rightarrow> bool" where
  "stamp_head s \<longleftrightarrow>
     length s = 19
     \<and> list_all (\<lambda>i. is_digit (s ! i)) [0, 1, 2, 3, 5, 6, 8, 9, 11, 12, 14, 15, 17, 18]
     \<and> s ! 4 = CHR ''-'' \<and> s ! 7 = CHR ''-'' \<and> s ! 10 = CHR ''T'' \<and> s ! 13 = CHR '':''
     \<and> s ! 16 = CHR '':''"

definition stamp_zone :: "string \<Rightarrow> bool" where
  "stamp_zone z \<longleftrightarrow>
     z = ''Z'' \<or> (length z = 6 \<and> (z ! 0 = CHR ''+'' \<or> z ! 0 = CHR ''-'') \<and> z ! 3 = CHR '':''
                 \<and> list_all (\<lambda>i. is_digit (z ! i)) [1, 2, 4, 5])"

definition match_stamp :: "string \<Rightarrow> (string \<times> string \<times> string) option" where
  "match_stamp value =
     (let head = take 19 value; rest = drop 19 value;
          dotted = (rest \<noteq> [] \<and> hd rest = CHR ''.'');
          fraction = (if dotted then takeWhile is_digit (tl rest) else []);
          zone = (if dotted then dropWhile is_digit (tl rest) else rest)
      in if stamp_head head \<and> (dotted \<longrightarrow> 1 \<le> length fraction \<and> length fraction \<le> 9) \<and> stamp_zone zone
         then Some (head, fraction, zone) else None)"

abbreviation stamp_error :: "string \<Rightarrow> exn" where
  "stamp_error m \<equiv> ValueError (''timestamp '' @ m)"

abbreviation not_canonical_stamp :: exn where
  "not_canonical_stamp \<equiv> stamp_error ''must use canonical Go RFC3339Nano format''"

text \<open>The UTC offset in seconds; an explicit zero offset is not canonical.\<close>

definition zone_offset :: "string \<Rightarrow> int res" where
  "zone_offset zone =
     (if zone = ''Z'' then Inr 0
      else let offset_hours = dec_value (take 2 (drop 1 zone));
               offset_minutes = dec_value (take 2 (drop 4 zone));
               offset_seconds = (offset_hours * 60 + offset_minutes) * 60
           in reject_if (offset_hours > 23 \<or> offset_minutes > 59)
                (stamp_error ''UTC offset is out of range'')
              (reject_if (offset_seconds = 0) not_canonical_stamp
              (Inr (if zone ! 0 = CHR ''-'' then - offset_seconds else offset_seconds))))"

definition fraction_nanos :: "string \<Rightarrow> int" where
  "fraction_nanos fraction =
     (if fraction = [] then 0
      else dec_value (fraction @ replicate (9 - length fraction) (CHR ''0'')))"

definition rfc3339nano_instant :: "string \<Rightarrow> int res" where
  "rfc3339nano_instant value =
     (case match_stamp value of
        None \<Rightarrow> Inl (stamp_error ''must use Go RFC3339Nano format'')
      | Some (head, fraction, zone) \<Rightarrow>
          let year = dec_value (take 4 head); month = dec_value (take 2 (drop 5 head));
              day = dec_value (take 2 (drop 8 head)); hour = dec_value (take 2 (drop 11 head));
              minute = dec_value (take 2 (drop 14 head)); second = dec_value (take 2 (drop 17 head))
          in reject_if (month < 1 \<or> month > 12) (stamp_error ''month is out of range'')
             (reject_if (day < 1 \<or> day > month_days year month) (stamp_error ''day is out of range'')
             (reject_if (hour > 23 \<or> minute > 59 \<or> second > 59) (stamp_error ''time is out of range'')
             (reject_if (fraction \<noteq> [] \<and> last fraction = CHR ''0'') not_canonical_stamp
             (res_bind (zone_offset zone) (\<lambda>offset_seconds.
                let local_seconds = civil_day year month day * 86400 + hour * 3600 + minute * 60 + second
                in Inr ((local_seconds - offset_seconds) * 1000000000 + fraction_nanos fraction)))))))"

text \<open>\<^verbatim>\<open>_UNIX_EPOCH_NANOS\<close> is the instant of 1970-01-01T00:00:00Z; day 719468 of the civil count.\<close>

definition unix_epoch_nanos :: int where
  "unix_epoch_nanos = 719468 * 86400 * 1000000000"

definition timestamp_epoch_seconds :: "string \<Rightarrow> int res" where
  "timestamp_epoch_seconds value =
     res_bind (rfc3339nano_instant value) (\<lambda>n. Inr ((n - unix_epoch_nanos) div 1000000000))"

definition epoch_index_of :: "int \<Rightarrow> int \<Rightarrow> int" where
  "epoch_index_of unix_seconds epoch_seconds = unix_seconds div epoch_seconds"

text \<open>\<^verbatim>\<open>_go_utc_timestamp\<close> and the two timestamp annotations.\<close>

definition go_utc_timestamp :: "string \<Rightarrow> bool" where
  "go_utc_timestamp value \<longleftrightarrow>
     value \<noteq> [] \<and> last value = CHR ''Z'' \<and> \<not> isl (rfc3339nano_instant value)"

definition seconds_timestamp :: "string \<Rightarrow> bool" where
  "seconds_timestamp value \<longleftrightarrow>
     length value = 20 \<and> stamp_head (take 19 value) \<and> last value = CHR ''Z''
     \<and> \<not> isl (rfc3339nano_instant value)"

definition go_timestamp :: "string \<Rightarrow> bool" where
  "go_timestamp value \<longleftrightarrow> length value \<le> 64 \<and> \<not> isl (rfc3339nano_instant value)"

section \<open>Rendering\<close>

text \<open>
  \<^verbatim>\<open>format_timestamp(datetime.fromtimestamp(seconds, UTC))\<close>: the date and time of an instant
  given in whole Unix seconds. \<open>civil_date\<close> is the date of a civil day number;
  \<^verbatim>\<open>strftime\<close> pads month, day and time to two digits and prints the year as it is; instants
  outside the years 1 to 9999 have no \<^verbatim>\<open>datetime\<close>.
\<close>

definition civil_date :: "int \<Rightarrow> int \<times> int \<times> int" where
  "civil_date z =
     (let era = z div 146097; doe = z mod 146097;
          yoe = (doe - doe div 1460 + doe div 36524 - doe div 146096) div 365;
          doy = doe - (365 * yoe + yoe div 4 - yoe div 100);
          mp = (5 * doy + 2) div 153;
          day = doy - (153 * mp + 2) div 5 + 1;
          month = (if mp < 10 then mp + 3 else mp - 9)
      in (yoe + era * 400 + (if month \<le> 2 then 1 else 0), month, day))"

definition two_digits :: "int \<Rightarrow> string" where
  "two_digits n = [char_of (nat (n div 10) + 48), char_of (nat (n mod 10) + 48)]"

definition format_timestamp :: "int \<Rightarrow> string res" where
  "format_timestamp seconds =
     (let (year, month, day) = civil_date (seconds div 86400 + 719468); t = seconds mod 86400
      in reject_if (\<not> in_range (- 62135596800) 253402300799 seconds) (ValueError ''year is out of range'')
         (Inr (nat_digits (nat year) @ ''-'' @ two_digits month @ ''-'' @ two_digits day @ ''T''
           @ two_digits (t div 3600) @ '':'' @ two_digits (t div 60 mod 60) @ '':'' @ two_digits (t mod 60)
           @ ''Z'')))"

section \<open>The calendar formula counts days\<close>

lemma unix_epoch: "rfc3339nano_instant ''1970-01-01T00:00:00Z'' = Inr unix_epoch_nanos"
  by code_simp

text \<open>Days before the first of March of a year.\<close>

definition year_start :: "int \<Rightarrow> int" where
  "year_start y = 365 * y + y div 4 - y div 100 + y div 400"

lemma civil_day_closed:
  "civil_day year month day =
     (let y = year - (if month \<le> 2 then 1 else 0)
      in year_start y + (153 * (month + (if month > 2 then - 3 else 9)) + 2) div 5 + day - 1)"
proof -
  have "y div 400 * 146097 + (y - y div 400 * 400) * 365 + (y - y div 400 * 400) div 4
          - (y - y div 400 * 400) div 100
        = 365 * y + y div 4 - y div 100 + y div 400" for y :: int
  proof -
    have "(y - y div 400 * 400) div 4 = (y + (- 100 * (y div 400)) * 4) div 4" by simp
    also have "\<dots> = - 100 * (y div 400) + y div 4" by (rule div_mult_self1) simp
    finally have four: "(y - y div 400 * 400) div 4 = y div 4 - 100 * (y div 400)" by simp
    have "(y - y div 400 * 400) div 100 = (y + (- 4 * (y div 400)) * 100) div 100" by simp
    also have "\<dots> = - 4 * (y div 400) + y div 100" by (rule div_mult_self1) simp
    finally have hundred: "(y - y div 400 * 400) div 100 = y div 100 - 4 * (y div 400)" by simp
    show ?thesis unfolding four hundred by (simp add: algebra_simps)
  qed
  then show ?thesis by (simp add: civil_day_def year_start_def Let_def)
qed

lemma div_step:
  fixes y :: int
  assumes "0 < k"
  shows "y div k = (y - 1) div k + (if k dvd y then 1 else 0)"
proof -
  have "y = (y - 1) + 1" by simp
  show ?thesis
  proof (cases "k dvd y")
    case True
    then obtain q where q: "y = k * q" by (auto elim: dvdE)
    have "(k * q - 1) div k = q - 1"
      using assms by (intro int_div_pos_eq [where r = "k - 1"]) (simp_all add: algebra_simps)
    then show ?thesis using True q assms by simp
  next
    case False
    let ?q = "y div k" and ?r = "y mod k"
    have "?r \<noteq> 0" using False by (simp add: dvd_eq_mod_eq_0)
    then have r: "0 < ?r" "?r < k"
      using pos_mod_bound [OF assms, of y] pos_mod_sign [OF assms, of y] by linarith+
    have "(y - 1) div k = ?q"
      using r by (intro int_div_pos_eq [where r = "?r - 1"]) (simp_all add: algebra_simps)
    then show ?thesis using False by simp
  qed
qed

lemma leap_year_step:
  "year_start y = year_start (y - 1) + (if is_leap_year y then 366 else 365)"
proof -
  have nested: "(400::int) dvd y \<Longrightarrow> 100 dvd y" "(100::int) dvd y \<Longrightarrow> 4 dvd y"
    by (auto elim!: dvd_trans [rotated])
  have leap: "is_leap_year y \<longleftrightarrow> 4 dvd y \<and> (\<not> 100 dvd y \<or> 400 dvd y)"
    by (simp add: is_leap_year_def dvd_eq_mod_eq_0)
  have e: "(if 4 dvd y then 1 else 0) - (if 100 dvd y then 1 else 0) + (if 400 dvd y then 1 else 0)
        = (if is_leap_year y then 1 else (0::int))"
    unfolding leap using nested
    by (cases "(400::int) dvd y"; cases "(100::int) dvd y"; cases "(4::int) dvd y") (simp_all only: if_True if_False simp_thms, simp_all)
  have f: "365 + (if is_leap_year y then 1 else 0) = (if is_leap_year y then 366 else (365::int))"
    by simp
  have glue: "365 * y + (a + i) - (b + j) + (c + k) = 365 * (y - 1) + a - b + c + f"
    if "i - j + k = e" and "365 + e = f" for a b c e f i j k :: int
    using that by (simp add: algebra_simps)
  have "y div 4 = (y - 1) div 4 + (if 4 dvd y then 1 else 0)"
    and "y div 100 = (y - 1) div 100 + (if 100 dvd y then 1 else 0)"
    and "y div 400 = (y - 1) div 400 + (if 400 dvd y then 1 else 0)"
    by (rule div_step, simp)+
  then show ?thesis unfolding year_start_def by (simp only:) (rule glue [OF e f])
qed

text \<open>The calendar, as a reference: valid dates and the date that follows.\<close>

definition valid_date :: "int \<times> int \<times> int \<Rightarrow> bool" where
  "valid_date t = (case t of (year, month, day) \<Rightarrow>
     1 \<le> month \<and> month \<le> 12 \<and> 1 \<le> day \<and> day \<le> month_days year month)"

definition next_date :: "int \<times> int \<times> int \<Rightarrow> int \<times> int \<times> int" where
  "next_date t = (case t of (year, month, day) \<Rightarrow>
     if day < month_days year month then (year, month, day + 1)
     else if month < 12 then (year, month + 1, 1) else (year + 1, 1, 1))"

lemma month_cases:
  fixes m :: int
  assumes "1 \<le> m" "m \<le> 12"
  shows "m \<in> {1, 2, 3, 4, 5, 6, 7, 8, 9, 10, 11, 12}"
  using assms by (simp; presburger)

lemma month_days_simps [simp]:
  "month_days y 1 = 31" "month_days y 2 = (if is_leap_year y then 29 else 28)" "month_days y 3 = 31"
  "month_days y 4 = 30" "month_days y 5 = 31" "month_days y 6 = 30" "month_days y 7 = 31"
  "month_days y 8 = 31" "month_days y 9 = 30" "month_days y 10 = 31" "month_days y 11 = 30"
  "month_days y 12 = 31"
  by (simp_all add: month_days_def)

text \<open>
  The closed calendar formula of \<^verbatim>\<open>_civil_day\<close> counts days: for every valid
  proleptic Gregorian date, of any year, the day that follows it in the calendar (next day
  of the month, first of the next month, or first of January) has the next number.
\<close>

theorem civil_day_counts_days:
  assumes "valid_date (year, month, day)"
  shows "(case next_date (year, month, day) of (y, m, d) \<Rightarrow> civil_day y m d)
         = civil_day year month day + 1"
proof -
  have m: "month \<in> {1, 2, 3, 4, 5, 6, 7, 8, 9, 10, 11, 12}"
    and d: "1 \<le> day" "day \<le> month_days year month"
    using assms month_cases by (auto simp: valid_date_def)
  show ?thesis
  proof (cases "day < month_days year month")
    case True
    then show ?thesis by (simp add: next_date_def civil_day_closed Let_def)
  next
    case False
    then have "day = month_days year month" using d by simp
    then show ?thesis
    proof (cases "month = 2")
      case True
      show ?thesis
        using leap_year_step [of year] \<open>day = month_days year month\<close>
        unfolding True next_date_def civil_day_closed Let_def
        by (cases "is_leap_year year") simp_all
    next
      case False
      with m \<open>day = month_days year month\<close> show ?thesis
        by (elim insertE emptyE) (simp_all add: next_date_def civil_day_closed Let_def)
    qed
  qed
qed

end
