(* ===== verification/Decimals.thy ===== *)
theory Decimals
  imports Timestamps
begin

text \<open>
  Numbers in JSON texts, as the Python standard library prints and reads them:
  \<^verbatim>\<open>int.__repr__\<close>, \<^verbatim>\<open>float.__repr__\<close> (shortest decimal that rounds to the double) and the
  number token of \<^verbatim>\<open>json.scanner\<close>. A printed number is read back as itself, because
  seventeen significant digits identify a double.
\<close>

lemma round_half_even_minus: "round_half_even (- x) = - round_half_even x"
proof (cases "x = of_int \<lfloor>x\<rfloor>")
  case True
  then show ?thesis by (metis of_int_minus round_half_even_int)
next
  case False
  then have "\<lfloor>- x\<rfloor> = - \<lfloor>x\<rfloor> - 1" by linarith
  moreover have "even (- \<lfloor>x\<rfloor> - 1) \<longleftrightarrow> odd \<lfloor>x\<rfloor>" by simp
  ultimately show ?thesis by (simp add: round_half_even_def Let_def) 
qed

lemma rnd_minus: "rnd (- q) = - rnd q"
proof -
  have "ulp_exp (- q) = ulp_exp q" by (simp add: ulp_exp_def dbl_exp_def)
  then show ?thesis by (simp add: rnd_def round_half_even_minus)
qed

section \<open>Doubles and the decimals around them\<close>

lemma round_half_even_near:
  assumes "\<bar>y - of_int n\<bar> < 1 / 2"
  shows "round_half_even y = n"
proof (cases "of_int n \<le> y")
  case True
  then have "\<lfloor>y\<rfloor> = n" using assms by linarith
  then show ?thesis using assms True by (simp add: round_half_even_def Let_def)
next
  case False
  then have "\<lfloor>y\<rfloor> = n - 1" using assms by linarith
  then show ?thesis using assms False by (simp add: round_half_even_def Let_def)
qed

lemma rnd_on_grid:
  assumes "q \<noteq> 0" and "\<bar>q / 2 powi ulp_exp q - of_int n\<bar> < 1 / 2"
  shows "rnd q = of_int n * 2 powi ulp_exp q"
  using assms round_half_even_near by (simp add: rnd_def)

lemma half_below: "0 < p \<Longrightarrow> \<bar>d - 9007199254740992 * p\<bar> < p / 2 \<Longrightarrow> 4503599627370496 * p \<le> (d::rat)"
  by linarith

text \<open>A double is what every value close enough to it rounds to.\<close>

lemma rnd_near:
  assumes "rnd x = x" and "0 < x" and "\<bar>d - x\<bar> < x / 2 ^ 54"
  shows "rnd d = x"
proof -
  define u where "u = ulp_exp x"
  define n where "n = round_half_even (x / 2 powi u)"
  have x: "x = of_int n * 2 powi u" using assms(1,2) by (simp add: rnd_def n_def u_def)
  have pos: "(0::rat) < 2 powi u" by simp
  have "x < 2 powi (dbl_exp x + 1)" "2 powi dbl_exp x \<le> x" using dbl_exp_bounds [of x] assms(2) by simp_all
  moreover have "(2::rat) powi (dbl_exp x + 1) \<le> 2 powi (u + 53)" by (simp add: powi_le_iff u_def ulp_exp_def)
  ultimately have "x < 2 powi (u + 53)" by linarith
  then have "of_int n * 2 powi u < 2 ^ 53 * (2::rat) powi u" unfolding x by (simp add: power_int_add)
  then have n: "rat_of_int n < 2 ^ 53" using pos by simp
  then have n': "n \<le> 2 ^ 53 - 1" by (metis of_int_less_iff of_int_numeral of_int_power zle_diff1_eq)
  have gap: "\<bar>d - x\<bar> < 2 powi u / 2"
  proof -
    have "x / 2 ^ 54 < 2 ^ 53 * 2 powi u / 2 ^ 54" unfolding x using n pos by (simp add: divide_strict_right_mono)
    then show ?thesis using assms(3) by simp
  qed
  have "x / 2 ^ 54 \<le> x" using assms(2) by (simp add: divide_le_eq)
  then have d0: "0 < d" using assms(3) by linarith
  have near: "\<bar>d / 2 powi u - of_int n\<bar> < 1 / 2"
  proof -
    have "d / 2 powi u - of_int n = (d - x) / 2 powi u" by (simp add: x diff_divide_distrib)
    then show ?thesis using gap pos by (simp add: abs_divide divide_less_eq)
  qed
  consider (same) "ulp_exp d = u" | (above) "u < ulp_exp d" | (below) "ulp_exp d < u" by linarith
  then show ?thesis
  proof cases
    case same
    then show ?thesis using rnd_on_grid [of d n] near d0 x by simp
  next
    case above
    then have "u + 53 \<le> dbl_exp d" by (auto simp: ulp_exp_def u_def)
    then have "2 powi (u + 53) \<le> d"
      using dbl_exp_bounds [of d] d0 powi_le_iff [of "u + 53" "dbl_exp d"] by simp
    then have "2 ^ 53 \<le> d / 2 powi u" using pos by (simp add: power_int_add le_divide_eq)
    moreover have "rat_of_int n \<le> of_int (2 ^ 53 - 1)" using n' by (simp only: of_int_le_iff)
    ultimately have "1 \<le> d / 2 powi u - of_int n" by simp
    then show ?thesis using near by linarith
  next
    case below
    then have u: "u = dbl_exp x - 52" "- 1074 < u" "dbl_exp d < dbl_exp x" by (auto simp: ulp_exp_def u_def)
    have "d < 2 powi (dbl_exp d + 1)" using dbl_exp_bounds [of d] d0 by simp
    also have "\<dots> \<le> 2 powi (u + 52)" using u by (simp add: powi_le_iff)
    finally have "d / 2 powi u < 2 ^ 52" using pos by (simp add: power_int_add divide_less_eq)
    then have "rat_of_int n < 2 ^ 52 + 1" using near by linarith
    moreover have "2 ^ 52 \<le> rat_of_int n"
    proof -
      have "2 powi (u + 52) \<le> x" using \<open>2 powi dbl_exp x \<le> x\<close> u(1) by simp
      then have "2 ^ 52 * 2 powi u \<le> of_int n * (2::rat) powi u" unfolding x by (simp add: power_int_add)
      then show ?thesis using pos by simp
    qed
    ultimately have "rat_of_int n < of_int (2 ^ 52 + 1)" "rat_of_int (2 ^ 52) \<le> of_int n" by simp_all
    then have n: "n = 2 ^ 52" unfolding of_int_less_iff of_int_le_iff by simp
    then have x': "x = 2 ^ 53 * 2 powi (u - 1)" unfolding x by (simp add: power_int_diff)
    have "\<bar>d - x\<bar> < 2 powi (u - 1) / 2" using assms(3) by (simp add: x' field_simps)
    moreover have "d / 2 powi (u - 1) - of_int (2 ^ 53) = (d - x) / 2 powi (u - 1)"
      by (simp add: x' diff_divide_distrib)
    ultimately have "\<bar>d / 2 powi (u - 1) - of_int (2 ^ 53)\<bar> < 1 / 2"
      by (simp add: abs_divide divide_less_eq del: of_int_power)
    moreover have "ulp_exp d = u - 1"
    proof -
      have "2 powi (u + 51) = 2 ^ 52 * (2::rat) powi (u - 1)" "(0::rat) < 2 powi (u - 1)"
        by (simp_all add: power_int_add power_int_diff)
      then have "2 powi (u + 51) \<le> d"
        using \<open>\<bar>d - x\<bar> < 2 powi (u - 1) / 2\<close> half_below [of "2 powi (u - 1)" d] unfolding x' by simp
      then have "u + 51 \<le> dbl_exp d" using dbl_exp_ge [of d] d0 by simp
      then show ?thesis using u by (simp add: ulp_exp_def)
    qed
    ultimately show ?thesis using rnd_on_grid [of d "2 ^ 53"] d0 x' by simp
  qed
qed

section \<open>Decimal digits of naturals\<close>

lemma nat_digits_small: "n < 10 \<Longrightarrow> nat_digits n = [char_of (n + 48)]"
  and nat_digits_large: "\<not> n < 10 \<Longrightarrow> nat_digits n = nat_digits (n div 10) @ [char_of (n mod 10 + 48)]"
  by (simp_all add: nat_digits.simps [of n])

lemma digit_char: "n < 10 \<Longrightarrow> is_digit (char_of (n + 48))" "n < 10 \<Longrightarrow> digit_value (char_of (n + 48)) = int n"
  by (simp_all add: is_digit_def digit_value_def)

lemma dec_value_snoc: "dec_value (s @ [c]) = 10 * dec_value s + digit_value c"
  by (simp add: dec_value_def)

lemma nat_digits_ne [simp]: "nat_digits n \<noteq> []"
  by (cases "n < 10") (simp_all add: nat_digits_small nat_digits_large)

lemma nat_digits_digits: "list_all is_digit (nat_digits n)"
proof (induction n rule: nat_digits.induct)
  case (1 n)
  then show ?case by (cases "n < 10") (simp_all add: nat_digits_small nat_digits_large digit_char)
qed

lemma dec_value_nat_digits: "dec_value (nat_digits n) = int n"
proof (induction n rule: nat_digits.induct)
  case (1 n)
  show ?case
  proof (cases "n < 10")
    case True
    then show ?thesis by (simp add: nat_digits_small digit_char dec_value_def)
  next
    case False
    then have "dec_value (nat_digits n) = 10 * int (n div 10) + int (n mod 10)"
      using 1 by (simp add: nat_digits_large dec_value_snoc digit_char)
    also have "\<dots> = int (10 * (n div 10) + n mod 10)" by (simp only: of_nat_add of_nat_mult of_nat_numeral)
    finally show ?thesis by (simp only: mult_div_mod_eq)
  qed
qed

lemma nat_digits_hd: "0 < n \<Longrightarrow> hd (nat_digits n) \<noteq> CHR ''0''"
proof (induction n rule: nat_digits.induct)
  case (1 n)
  show ?case
  proof (cases "n < 10")
    case True
    then have "of_char (char_of (n + 48)) \<noteq> (48 :: nat)" using 1(2) by (simp only: of_char_of) simp
    moreover have "of_char CHR ''0'' = (48 :: nat)" by simp
    ultimately have "char_of (n + 48) \<noteq> CHR ''0''" by metis
    then show ?thesis using True by (simp add: nat_digits_small)
  next
    case False
    then show ?thesis using 1 by (simp add: nat_digits_large)
  qed
qed

lemma nat_digits_length: "n < 10 ^ length (nat_digits n)" "0 < n \<Longrightarrow> 10 ^ (length (nat_digits n) - 1) \<le> n"
proof (induction n rule: nat_digits.induct)
  case (1 n)
  { case 1 show ?case using 1 "1.IH"(1) by (cases "n < 10") (auto simp: nat_digits_small nat_digits_large) }
  { case 2 show ?case
    proof (cases "n < 10")
      case False
      then have "10 ^ (length (nat_digits (n div 10)) - 1) \<le> n div 10" using "1.IH"(2) by simp
      moreover obtain k where "length (nat_digits (n div 10)) = Suc k" by (cases "length (nat_digits (n div 10))") auto
      ultimately show ?thesis using False by (simp add: nat_digits_large)
    qed (use 2 in \<open>simp add: nat_digits_small\<close>) }
qed

text \<open>The decimal exponent of a positive rational.\<close>

definition dec_exp :: "rat \<Rightarrow> int" where
  "dec_exp x = (if 1 \<le> x then int (length (nat_digits (nat \<lfloor>x\<rfloor>))) - 1
                else - int (length (nat_digits (nat (\<lceil>1 / x\<rceil> - 1)))))"

lemma dec_exp_below:
  assumes "0 < x"
  shows "10 powi dec_exp x \<le> x"
proof (cases "1 \<le> x")
  case True
  let ?n = "nat \<lfloor>x\<rfloor>"
  have "0 < ?n" using True by simp
  then have "rat_of_nat (10 ^ (length (nat_digits ?n) - 1)) \<le> of_nat ?n"
    using nat_digits_length(2) by (simp only: of_nat_le_iff)
  also have "\<dots> \<le> x" using True by simp
  finally have "(10::rat) ^ (length (nat_digits ?n) - 1) \<le> x" by simp
  moreover have "int (length (nat_digits ?n)) - 1 = int (length (nat_digits ?n) - 1)"
    by (cases "nat_digits ?n") auto
  ultimately show ?thesis using True by (simp only: dec_exp_def if_True power_int_of_nat)
next
  case False
  define m where "m = nat (\<lceil>1 / x\<rceil> - 1)"
  have "1 < 1 / x" using assms False by (simp add: less_divide_eq)
  then have "1 < \<lceil>1 / x\<rceil>" by (simp only: less_ceiling_iff of_int_1)
  then have "\<lceil>1 / x\<rceil> = int (Suc m)" unfolding m_def by linarith
  then have "1 / x \<le> of_nat (Suc m)" using le_of_int_ceiling [of "1 / x"] by simp
  also have "rat_of_nat (Suc m) \<le> of_nat (10 ^ length (nat_digits m))"
    using nat_digits_length(1) [of m] by (simp only: of_nat_le_iff Suc_le_eq)
  finally have "1 / x \<le> 10 ^ length (nat_digits m)" by simp
  then have "1 / 10 ^ length (nat_digits m) \<le> x" using assms by (simp add: divide_simps mult.commute)
  then show ?thesis using False by (simp add: dec_exp_def m_def power_int_minus inverse_eq_divide)
qed

section \<open>The shortest decimal of a double\<close>

text \<open>
  \<^verbatim>\<open>float.__repr__\<close> prints the shortest decimal that rounds to the number, and of the
  decimals of that length the closest one (a tie goes to the even digit). With \<open>k\<close> digits
  only the two neighbours of the number can be it.
\<close>

definition candidates :: "rat \<Rightarrow> nat \<Rightarrow> (int \<times> int) list" where
  "candidates x k =
     (let e = dec_exp x - int k + 1; y = x / 10 powi e
      in map (\<lambda>c. (c, e)) [round_half_even y, \<lfloor>y\<rfloor>, \<lceil>y\<rceil>])"

definition decimal_value :: "int \<times> int \<Rightarrow> rat" where
  "decimal_value p = of_int (fst p) * 10 powi snd p"

definition shortest_decimal :: "rat \<Rightarrow> int \<times> int" where
  "shortest_decimal x =
     hd (filter (\<lambda>p. rnd (decimal_value p) = x) (concat (map (candidates x) [1..<18])))"

text \<open>Seventeen digits always identify a double.\<close>

lemma shortest_decimal_rounds:
  assumes "rnd x = x" and "0 < x"
  shows "rnd (decimal_value (shortest_decimal x)) = x"
proof -
  let ?e = "dec_exp x - 16"
  let ?p = "(round_half_even (x / 10 powi ?e), ?e)"
  let ?ps = "filter (\<lambda>p. rnd (decimal_value p) = x) (concat (map (candidates x) [1..<18]))"
  have pos: "(0::rat) < 10 powi ?e" by simp
  have "decimal_value ?p - x = (of_int (round_half_even (x / 10 powi ?e)) - x / 10 powi ?e) * 10 powi ?e"
    using pos by (simp add: decimal_value_def left_diff_distrib)
  then have "\<bar>decimal_value ?p - x\<bar> \<le> 1 / 2 * 10 powi ?e"
    using round_half_even_error [of "x / 10 powi ?e"] pos by (simp add: abs_mult)
  also have "\<dots> = 10 powi dec_exp x / (2 * 10 ^ 16)" by (simp add: power_int_diff)
  also have "\<dots> \<le> x / (2 * 10 ^ 16)" using dec_exp_below [OF assms(2)] by (simp add: divide_right_mono)
  also have "\<dots> < x / 2 ^ 54" using assms(2) by (simp add: divide_strict_left_mono)
  finally have "rnd (decimal_value ?p) = x" by (rule rnd_near [OF assms])
  moreover have "?p \<in> set (candidates x 17)" by (simp add: candidates_def Let_def)
  ultimately have "?p \<in> set ?ps" by (auto intro!: bexI [of _ 17])
  then have "?ps \<noteq> []" by (metis empty_iff empty_set)
  then have "hd ?ps \<in> set ?ps" by (rule hd_in_set)
  then show ?thesis unfolding shortest_decimal_def by simp
qed

section \<open>Texts of numbers\<close>

function strip_zeros :: "nat \<Rightarrow> int \<Rightarrow> nat \<times> int" where
  "strip_zeros n e = (if 0 < n \<and> n mod 10 = 0 then strip_zeros (n div 10) (e + 1) else (n, e))"
  by auto
termination by (relation "measure fst") auto

declare strip_zeros.simps [simp del]

lemma strip_zeros_value:
  "strip_zeros n e = (m, e') \<Longrightarrow> of_nat m * (10::rat) powi e' = of_nat n * 10 powi e \<and> (0 < n \<longrightarrow> 0 < m)"
proof (induction n e arbitrary: m e' rule: strip_zeros.induct)
  case (1 n e)
  show ?case
  proof (cases "0 < n \<and> n mod 10 = 0")
    case True
    then obtain q where q: "n = 10 * q" "0 < q" by (auto elim!: dvdE simp: mod_eq_0_iff_dvd)
    then have "strip_zeros q (e + 1) = (m, e')" using 1(2) by (simp add: strip_zeros.simps [of "10 * q"])
    with 1(1) q True have "of_nat m * (10::rat) powi e' = of_nat q * 10 powi (e + 1) \<and> 0 < m" by simp
    then show ?thesis using q by (simp add: power_int_add)
  next
    case False
    then show ?thesis using 1(2) by (auto simp: strip_zeros.simps [of n])
  qed
qed

text \<open>
  The text of \<open>n * 10 ^ e\<close> in the layout of \<^verbatim>\<open>repr\<close>: positional when the decimal point
  falls at most sixteen digits in and at most three zeros before the first one, otherwise
  with an exponent of at least two digits.
\<close>

definition exponent_text :: "int \<Rightarrow> string" where
  "exponent_text e = (let ds = nat_digits (nat \<bar>e\<bar>)
     in (if e < 0 then ''-'' else ''+'') @ (if length ds < 2 then ''0'' else '''') @ ds)"

definition decimal_text :: "nat \<Rightarrow> int \<Rightarrow> string" where
  "decimal_text n e =
     (let ds = nat_digits n; k = length ds; point = int k + e
      in if - 4 < point \<and> point \<le> 16
         then (if point \<le> 0 then ''0.'' @ replicate (nat (- point)) (CHR ''0'') @ ds
               else if int k \<le> point then ds @ replicate (nat e) (CHR ''0'') @ ''.0''
               else take (nat point) ds @ ''.'' @ drop (nat point) ds)
         else take 1 ds @ (if k = 1 then [] else CHR ''.'' # drop 1 ds) @ ''e'' @ exponent_text (point - 1))"

definition float_repr :: "rat \<Rightarrow> string" where
  "float_repr x =
     (if x = 0 then ''0.0''
      else let (c, e) = shortest_decimal \<bar>x\<bar>; (m, e') = strip_zeros (nat c) e
           in (if x < 0 then ''-'' else '''') @ decimal_text m e')"

definition int_text :: "int \<Rightarrow> string" where
  "int_text n = (if n < 0 then ''-'' else '''') @ nat_digits (nat \<bar>n\<bar>)"

text \<open>
  The scanner's number: \<^verbatim>\<open>(-?(?:0|[1-9]\d*))(\.\d+)?([eE][-+]?\d+)?\<close>. A fraction or an
  exponent makes it a float, converted with correct rounding.
\<close>

definition scan_sign :: "string \<Rightarrow> bool \<times> string" where
  "scan_sign s = (case s of c # t \<Rightarrow> if c = CHR ''-'' then (True, t) else (False, s) | [] \<Rightarrow> (False, s))"

definition scan_integer :: "string \<Rightarrow> string \<times> string" where
  "scan_integer s = (case s of c # t \<Rightarrow> if c = CHR ''0'' then (''0'', t) else (takeWhile is_digit s, dropWhile is_digit s)
     | [] \<Rightarrow> ([], []))"

definition scan_fraction :: "string \<Rightarrow> string \<times> string" where
  "scan_fraction s = (case s of
     c # t \<Rightarrow> if c = CHR ''.'' \<and> takeWhile is_digit t \<noteq> [] then (takeWhile is_digit t, dropWhile is_digit t) else ([], s)
   | [] \<Rightarrow> ([], s))"

definition scan_exponent :: "string \<Rightarrow> int option \<times> string" where
  "scan_exponent s = (case s of
     c # t \<Rightarrow>
       if c = CHR ''e'' \<or> c = CHR ''E''
       then let (neg, u) = (case t of d # t' \<Rightarrow> if d = CHR ''-'' then (True, t') else if d = CHR ''+'' then (False, t') else (False, t)
                            | [] \<Rightarrow> (False, t));
                ds = takeWhile is_digit u
            in if ds = [] then (None, s) else (Some ((if neg then -1 else 1) * dec_value ds), dropWhile is_digit u)
       else (None, s)
   | [] \<Rightarrow> (None, s))"

definition scan_number :: "string \<Rightarrow> (json \<times> string) option" where
  "scan_number s =
     (let (neg, s1) = scan_sign s; (ip, s2) = scan_integer s1; (fr, s3) = scan_fraction s2;
          (ex, s4) = scan_exponent s3; sign = (if neg then -1 else 1)
      in if ip = [] then None
         else if fr = [] \<and> ex = None then Some (JInt (sign * dec_value ip), s4)
         else Some (JFloat (to_double (of_int (sign * dec_value (ip @ fr))
                * 10 powi ((case ex of None \<Rightarrow> 0 | Some e \<Rightarrow> e) - int (length fr)))), s4))"

section \<open>Reading a number back\<close>

text \<open>What may follow a number without becoming part of it.\<close>

definition terminated :: "string \<Rightarrow> bool" where
  "terminated r \<longleftrightarrow> (case r of [] \<Rightarrow> True | c # _ \<Rightarrow> \<not> is_digit c \<and> c \<notin> {CHR ''.'', CHR ''e'', CHR ''E''})"

lemma terminated_head: "terminated (c # r) \<Longrightarrow> \<not> is_digit c"
  by (simp add: terminated_def)

lemma span_digits:
  assumes "list_all is_digit ds" and "r = [] \<or> \<not> is_digit (hd r)"
  shows "takeWhile is_digit (ds @ r) = ds" and "dropWhile is_digit (ds @ r) = r"
  using assms by (induction ds) (cases r; auto)+

definition fraction_text :: "string \<Rightarrow> string" where
  "fraction_text fr = (if fr = [] then [] else CHR ''.'' # fr)"

definition power_text :: "int option \<Rightarrow> string" where
  "power_text ex = (case ex of None \<Rightarrow> [] | Some e \<Rightarrow> CHR ''e'' # exponent_text e)"

lemma not_digits: "\<not> is_digit CHR ''.''" "\<not> is_digit CHR ''e''" "\<not> is_digit CHR ''-''" "\<not> is_digit CHR ''+''"
  by (simp_all add: is_digit_def)

lemma dec_value_zero: "dec_value (CHR ''0'' # s) = dec_value s"
  by (simp add: dec_value_def digit_value_def)

lemma exponent_text_shape:
  obtains ds where "exponent_text e = (if e < 0 then CHR ''-'' else CHR ''+'') # ds" and "list_all is_digit ds"
    and "ds \<noteq> []" and "dec_value ds = \<bar>e\<bar>"
proof -
  let ?ds = "(if length (nat_digits (nat \<bar>e\<bar>)) < 2 then ''0'' else '''') @ nat_digits (nat \<bar>e\<bar>)"
  have "list_all is_digit ?ds" using nat_digits_digits by (simp add: is_digit_def)
  moreover have "dec_value ?ds = \<bar>e\<bar>" by (simp add: dec_value_zero dec_value_nat_digits)
  moreover have "exponent_text e = (if e < 0 then CHR ''-'' else CHR ''+'') # ?ds"
    by (simp add: exponent_text_def Let_def)
  moreover have "?ds \<noteq> []" by simp
  ultimately show thesis using that by blast
qed

lemma scan_exponent_text:
  assumes "terminated r"
  shows "scan_exponent (power_text ex @ r) = (ex, r)"
proof (cases ex)
  case None
  then show ?thesis using assms
    by (cases r) (auto simp: power_text_def scan_exponent_def terminated_def)
next
  case (Some e)
  obtain ds where ds: "exponent_text e = (if e < 0 then CHR ''-'' else CHR ''+'') # ds" "list_all is_digit ds"
    "ds \<noteq> []" "dec_value ds = \<bar>e\<bar>" by (rule exponent_text_shape)
  have r: "r = [] \<or> \<not> is_digit (hd r)" using assms by (cases r) (auto simp: terminated_def)
  show ?thesis
    using ds(3,4) by (cases "e < 0") (simp_all add: power_text_def scan_exponent_def Some ds(1) span_digits [OF ds(2) r])
qed

lemma scan_fraction_text:
  assumes "list_all is_digit fr" and "r = [] \<or> hd r \<noteq> CHR ''.'' \<and> \<not> is_digit (hd r)"
  shows "scan_fraction (fraction_text fr @ r) = (fr, r)"
proof (cases "fr = []")
  case True
  then show ?thesis using assms(2) by (cases r) (auto simp: fraction_text_def scan_fraction_def)
next
  case False
  have "r = [] \<or> \<not> is_digit (hd r)" using assms(2) by blast
  then show ?thesis using False span_digits [OF assms(1), of r] by (simp add: fraction_text_def scan_fraction_def)
qed

text \<open>A number as its parts print is read back as those parts.\<close>

lemma scan_number_parts:
  assumes "list_all is_digit ip" and "ip \<noteq> []" and "hd ip \<noteq> CHR ''0'' \<or> ip = ''0''"
    and "list_all is_digit fr" and "terminated r"
  shows "scan_number ((if neg then ''-'' else '''') @ ip @ fraction_text fr @ power_text ex @ r)
    = Some (if fr = [] \<and> ex = None then JInt ((if neg then -1 else 1) * dec_value ip)
        else JFloat (to_double (of_int ((if neg then -1 else 1) * dec_value (ip @ fr))
               * 10 powi ((case ex of None \<Rightarrow> 0 | Some e \<Rightarrow> e) - int (length fr)))), r)"
proof -
  have hp: "power_text ex @ r = [] \<or> hd (power_text ex @ r) \<noteq> CHR ''.'' \<and> \<not> is_digit (hd (power_text ex @ r))"
    using assms(5) by (cases ex; cases r) (auto simp: power_text_def terminated_def not_digits)
  let ?t = "fraction_text fr @ power_text ex @ r"
  have ht: "?t = [] \<or> \<not> is_digit (hd ?t)" using hp by (cases "fr = []") (auto simp: fraction_text_def not_digits)
  obtain c cs where ip: "ip = c # cs" using assms(2) by (cases ip) auto
  have c: "c \<noteq> CHR ''-''" using assms(1) not_digits ip by auto
  have "scan_integer (ip @ ?t) = (ip, ?t)"
  proof (cases "c = CHR ''0''")
    case True
    then have "ip = ''0''" using assms(3) ip by simp
    then show ?thesis by (simp add: scan_integer_def)
  next
    case False
    then show ?thesis using span_digits [OF assms(1) ht] ip by (simp add: scan_integer_def)
  qed
  moreover have "scan_sign ((if neg then ''-'' else '''') @ ip @ ?t) = (neg, ip @ ?t)"
    using c ip by (auto simp: scan_sign_def)
  ultimately show ?thesis
    unfolding scan_number_def using scan_fraction_text [OF assms(4) hp] scan_exponent_text [OF assms(5)] assms(2)
    by (simp add: Let_def)
qed

lemma dec_value_append: "dec_value (s @ t) = dec_value s * 10 ^ length t + dec_value t"
  by (induction t rule: rev_induct) (simp_all add: dec_value_def algebra_simps)

lemma dec_value_zeros [simp]: "dec_value (replicate k (CHR ''0'')) = 0"
  by (induction k) (simp_all add: dec_value_zero, simp add: dec_value_def)

lemma zeros_digits: "list_all is_digit (replicate k (CHR ''0''))"
  by (induction k) (simp_all add: is_digit_def)

text \<open>The four layouts, each as the parts of one number of the right value.\<close>

lemma decimal_text_parts:
  assumes "0 < n"
  obtains ip fr ex where "decimal_text n e = ip @ fraction_text fr @ power_text ex"
    and "list_all is_digit ip" and "ip \<noteq> []" and "hd ip \<noteq> CHR ''0'' \<or> ip = ''0''" and "list_all is_digit fr"
    and "fr \<noteq> [] \<or> ex \<noteq> None"
    and "of_int (dec_value (ip @ fr)) * 10 powi ((case ex of None \<Rightarrow> 0 | Some x \<Rightarrow> x) - int (length fr))
           = rat_of_nat n * 10 powi e"
proof -
  define ds where "ds = nat_digits n"
  define point where "point = int (length ds) + e"
  note part = that
  have ds: "list_all is_digit ds" "ds \<noteq> []" "hd ds \<noteq> CHR ''0''" "dec_value ds = int n"
    using nat_digits_digits nat_digits_hd [OF assms] dec_value_nat_digits by (simp_all add: ds_def)
  have layout: "decimal_text n e = (if - 4 < point \<and> point \<le> 16
         then (if point \<le> 0 then ''0.'' @ replicate (nat (- point)) (CHR ''0'') @ ds
               else if int (length ds) \<le> point then ds @ replicate (nat e) (CHR ''0'') @ ''.0''
               else take (nat point) ds @ ''.'' @ drop (nat point) ds)
         else take 1 ds @ (if length ds = 1 then [] else CHR ''.'' # drop 1 ds) @ ''e'' @ exponent_text (point - 1))"
    by (simp add: decimal_text_def ds_def point_def Let_def)
  consider (small) "- 4 < point \<and> point \<le> 16" "point \<le> 0"
    | (integral) "- 4 < point \<and> point \<le> 16" "0 < point" "int (length ds) \<le> point"
    | (mixed) "- 4 < point \<and> point \<le> 16" "0 < point" "point < int (length ds)"
    | (scientific) "\<not> (- 4 < point \<and> point \<le> 16)" by linarith
  then show thesis
  proof cases
    case small
    show thesis
    proof (rule part [of "''0''" "replicate (nat (- point)) (CHR ''0'') @ ds" None])
      have "- int (nat (- point) + length ds) = e" using small(2) by (simp add: point_def)
      then show "of_int (dec_value (''0'' @ replicate (nat (- point)) (CHR ''0'') @ ds)) * 10 powi
          ((case None of None \<Rightarrow> 0 | Some x \<Rightarrow> x) - int (length (replicate (nat (- point)) (CHR ''0'') @ ds)))
        = rat_of_nat n * 10 powi e"
        using ds(4) by (simp add: dec_value_zero dec_value_append)
    qed (use small ds zeros_digits in \<open>simp_all add: layout fraction_text_def power_text_def is_digit_def\<close>)
  next
    case integral
    show thesis
    proof (rule part [of "ds @ replicate (nat e) (CHR ''0'')" "''0''" None])
      have "0 \<le> e" using integral(3) by (simp add: point_def)
      then show "of_int (dec_value ((ds @ replicate (nat e) (CHR ''0'')) @ ''0'')) * 10 powi
          ((case None of None \<Rightarrow> 0 | Some x \<Rightarrow> x) - int (length ''0'')) = rat_of_nat n * 10 powi e"
        using ds(4) by (simp add: dec_value_append power_int_def) (simp add: dec_value_def digit_value_def)
    qed (use integral ds zeros_digits in \<open>simp_all add: layout fraction_text_def power_text_def is_digit_def\<close>)
  next
    case mixed
    show thesis
    proof (rule part [of "take (nat point) ds" "drop (nat point) ds" None])
      have "- int (length ds - nat point) = e" using mixed by (simp add: point_def)
      then show "of_int (dec_value (take (nat point) ds @ drop (nat point) ds)) * 10 powi
          ((case None of None \<Rightarrow> 0 | Some x \<Rightarrow> x) - int (length (drop (nat point) ds))) = rat_of_nat n * 10 powi e"
        using ds(4) by simp
      show "list_all is_digit (take (nat point) ds)" "list_all is_digit (drop (nat point) ds)"
        using ds(1) by (auto simp: list_all_iff dest: in_set_takeD in_set_dropD)
    qed (use mixed ds in \<open>auto simp: layout fraction_text_def power_text_def hd_take\<close>)
  next
    case scientific
    show thesis
    proof (rule part [of "take 1 ds" "drop 1 ds" "Some (point - 1)"])
      have "point - 1 - int (length ds - 1) = e" using ds(2) by (cases ds) (simp_all add: point_def)
      then show "of_int (dec_value (take 1 ds @ drop 1 ds)) * 10 powi
          ((case Some (point - 1) of None \<Rightarrow> 0 | Some x \<Rightarrow> x) - int (length (drop 1 ds))) = rat_of_nat n * 10 powi e"
        using ds(4) by simp
      show "list_all is_digit (take 1 ds)" "list_all is_digit (drop 1 ds)"
        using ds(1) by (auto simp: list_all_iff dest: in_set_takeD in_set_dropD)
      show "decimal_text n e = take 1 ds @ fraction_text (drop 1 ds) @ power_text (Some (point - 1))"
        using scientific ds(2) by (cases ds) (auto simp: layout fraction_text_def power_text_def)
    qed (use ds in \<open>auto simp: hd_take\<close>)
  qed
qed

lemma scan_int_text: "terminated r \<Longrightarrow> scan_number (int_text n @ r) = Some (JInt n, r)"
proof -
  assume r: "terminated r"
  have hd: "hd (nat_digits (nat \<bar>n\<bar>)) \<noteq> CHR ''0'' \<or> nat_digits (nat \<bar>n\<bar>) = ''0''"
    using nat_digits_hd [of "nat \<bar>n\<bar>"] by (cases "n = 0") (simp_all add: nat_digits_small char_of_def)
  from scan_number_parts [OF nat_digits_digits _ hd, of "[]" r "n < 0" None] r show ?thesis
    by (cases "n < 0") (auto simp: int_text_def fraction_text_def power_text_def dec_value_nat_digits)
qed

lemma scan_float_repr:
  assumes "finite_double x" and "terminated r"
  shows "scan_number (float_repr x @ r) = Some (JFloat (Fin x), r)"
proof (cases "x = 0")
  case True
  have "scan_number (''0.0'' @ r) = Some (JFloat (to_double 0), r)"
    using scan_number_parts [of "''0''" "''0''" r False None] assms(2)
    by (simp add: is_digit_def fraction_text_def power_text_def) (simp add: dec_value_def digit_value_def)
  then show ?thesis using True by (simp add: float_repr_def to_double_def)
next
  case False
  have fin: "rnd x = x" "\<bar>x\<bar> < 2 ^ 1024" using assms(1) by (simp_all add: finite_double_def)
  then have abs: "rnd \<bar>x\<bar> = \<bar>x\<bar>" using rnd_minus [of x] by (simp add: abs_if)
  obtain c e where sd: "shortest_decimal \<bar>x\<bar> = (c, e)" by fastforce
  have v: "rnd (of_int c * 10 powi e) = \<bar>x\<bar>"
    using shortest_decimal_rounds [OF abs] False by (simp add: sd decimal_value_def)
  have "0 < c"
  proof (rule ccontr)
    assume "\<not> 0 < c"
    then have "of_int c * (10::rat) powi e \<le> 0" by (simp add: mult_nonpos_nonneg)
    then have "0 \<le> rnd (- (of_int c * 10 powi e))" by (intro rnd_nonneg) simp
    then show False using v False rnd_minus [of "of_int c * 10 powi e"] by simp
  qed
  obtain m e' where sz: "strip_zeros (nat c) e = (m, e')" by fastforce
  note m = strip_zeros_value [OF sz]
  have m0: "0 < m" using m \<open>0 < c\<close> by simp
  have mv: "rnd (of_nat m * 10 powi e') = \<bar>x\<bar>" using m v \<open>0 < c\<close> by (simp add: of_nat_nat)
  obtain ip fr ex where parts: "decimal_text m e' = ip @ fraction_text fr @ power_text ex"
    "list_all is_digit ip" "ip \<noteq> []" "hd ip \<noteq> CHR ''0'' \<or> ip = ''0''" "list_all is_digit fr" "fr \<noteq> [] \<or> ex \<noteq> None"
    "of_int (dec_value (ip @ fr)) * 10 powi ((case ex of None \<Rightarrow> 0 | Some x \<Rightarrow> x) - int (length fr))
       = rat_of_nat m * 10 powi e'"
    using decimal_text_parts [OF m0] by metis
  have "to_double ((if x < 0 then - 1 else 1) * (of_nat m * 10 powi e')) = Fin x"
    using mv fin rnd_minus [of "of_nat m * 10 powi e'"] by (cases "x < 0") (auto simp: to_double_def Let_def abs_if)
  then have "to_double (of_int ((if x < 0 then - 1 else 1) * dec_value (ip @ fr))
      * 10 powi ((case ex of None \<Rightarrow> 0 | Some x \<Rightarrow> x) - int (length fr))) = Fin x"
    using parts(7) by (cases "x < 0") simp_all
  then have "scan_number ((if x < 0 then ''-'' else '''') @ decimal_text m e' @ r) = Some (JFloat (Fin x), r)"
    using scan_number_parts [OF parts(2-5) assms(2), of "x < 0" ex] parts(1,6) by auto
  then show ?thesis using False sd sz by (simp add: float_repr_def)
qed

end
