(* ===== verification/Sha256.thy ===== *)
theory Sha256
  imports Json "HOL-Library.Word"
begin

text \<open>
  SHA-256 as \<^verbatim>\<open>hashlib.sha256(data).hexdigest()\<close> computes it (FIPS 180-4): 32-bit words with
  wrapping addition, 64-byte blocks, a big-endian length in the padding and a lower-case
  hexadecimal digest.
\<close>

unbundle bit_operations_syntax

type_synonym w32 = "32 word"

section \<open>Functions\<close>

definition Ch :: "w32 \<Rightarrow> w32 \<Rightarrow> w32 \<Rightarrow> w32" where
  "Ch x y z = (x AND y) XOR (NOT x AND z)"

definition Maj :: "w32 \<Rightarrow> w32 \<Rightarrow> w32 \<Rightarrow> w32" where
  "Maj x y z = (x AND y) XOR (x AND z) XOR (y AND z)"

definition big_sigma0 :: "w32 \<Rightarrow> w32" where
  "big_sigma0 x = word_rotr 2 x XOR word_rotr 13 x XOR word_rotr 22 x"

definition big_sigma1 :: "w32 \<Rightarrow> w32" where
  "big_sigma1 x = word_rotr 6 x XOR word_rotr 11 x XOR word_rotr 25 x"

definition small_sigma0 :: "w32 \<Rightarrow> w32" where
  "small_sigma0 x = word_rotr 7 x XOR word_rotr 18 x XOR drop_bit 3 x"

definition small_sigma1 :: "w32 \<Rightarrow> w32" where
  "small_sigma1 x = word_rotr 17 x XOR word_rotr 19 x XOR drop_bit 10 x"

text \<open>The first 32 bits of the fractions of the cube roots of the first 64 primes.\<close>

definition round_constants :: "w32 list" where
  "round_constants = [
     1116352408, 1899447441, 3049323471, 3921009573, 961987163, 1508970993, 2453635748, 2870763221,
     3624381080, 310598401, 607225278, 1426881987, 1925078388, 2162078206, 2614888103, 3248222580,
     3835390401, 4022224774, 264347078, 604807628, 770255983, 1249150122, 1555081692, 1996064986,
     2554220882, 2821834349, 2952996808, 3210313671, 3336571891, 3584528711, 113926993, 338241895,
     666307205, 773529912, 1294757372, 1396182291, 1695183700, 1986661051, 2177026350, 2456956037,
     2730485921, 2820302411, 3259730800, 3345764771, 3516065817, 3600352804, 4094571909, 275423344,
     430227734, 506948616, 659060556, 883997877, 958139571, 1322822218, 1537002063, 1747873779,
     1955562222, 2024104815, 2227730452, 2361852424, 2428436474, 2756734187, 3204031479, 3329325298]"

definition initial_hash :: "w32 list" where
  "initial_hash = [0x6a09e667, 0xbb67ae85, 0x3c6ef372, 0xa54ff53a, 0x510e527f, 0x9b05688c, 0x1f83d9ab, 0x5be0cd19]"

section \<open>Padding\<close>

definition be_bytes :: "nat \<Rightarrow> nat \<Rightarrow> nat list" where
  "be_bytes k n = map (\<lambda>i. n div 256 ^ (k - 1 - i) mod 256) [0..<k]"

definition pad_message :: "nat list \<Rightarrow> nat list" where
  "pad_message m = m @ [128] @ replicate ((119 - length m mod 64) mod 64) 0 @ be_bytes 8 (8 * length m)"

definition be_word :: "nat list \<Rightarrow> w32" where
  "be_word bs = of_nat (foldl (\<lambda>n b. 256 * n + b) 0 bs)"

section \<open>Compression\<close>

fun extend_schedule :: "nat \<Rightarrow> w32 list \<Rightarrow> w32 list" where
  "extend_schedule 0 w = w"
| "extend_schedule (Suc k) w =
     (let n = length w
      in extend_schedule k (w @ [small_sigma1 (w ! (n - 2)) + w ! (n - 7) + small_sigma0 (w ! (n - 15)) + w ! (n - 16)]))"

definition round_step :: "w32 list \<Rightarrow> w32 \<times> w32 \<Rightarrow> w32 list" where
  "round_step h kw = (case h of
     [a, b, c, d, e, f, g, h] \<Rightarrow>
       let t1 = h + big_sigma1 e + Ch e f g + fst kw + snd kw; t2 = big_sigma0 a + Maj a b c
       in [t1 + t2, a, b, c, d + t1, e, f, g]
   | _ \<Rightarrow> h)"

definition compress :: "w32 list \<Rightarrow> nat list \<Rightarrow> w32 list" where
  "compress h block =
     (let w = extend_schedule 48 (map (\<lambda>i. be_word (take 4 (drop (4 * i) block))) [0..<16])
      in map2 (+) h (foldl round_step h (zip round_constants w)))"

definition sha256_words :: "nat list \<Rightarrow> w32 list" where
  "sha256_words m =
     (let p = pad_message m
      in foldl compress initial_hash (map (\<lambda>i. take 64 (drop (64 * i) p)) [0..<length p div 64]))"

definition sha256_hexdigest :: "string \<Rightarrow> string" where
  "sha256_hexdigest s = concat (map (\<lambda>w. hex_digits 8 (unat w)) (sha256_words (map of_char s)))"

section \<open>The digest is 64 hexadecimal digits\<close>

lemma pad_length: "length (pad_message m) mod 64 = 0"
proof -
  define r where "r = length m mod 64"
  have r: "r < 64" by (simp add: r_def)
  have "length (pad_message m) = length m + (9 + (119 - r) mod 64)" by (simp add: pad_message_def be_bytes_def r_def)
  then have "length (pad_message m) mod 64 = (r + (9 + (119 - r) mod 64)) mod 64"
    by (simp add: r_def mod_add_left_eq)
  also have "\<dots> = (r + 9 + (119 - r)) mod 64" by (metis add.assoc mod_add_right_eq)
  also have "\<dots> = 0" using r by simp
  finally show ?thesis .
qed

lemma round_step_length: "length h = 8 \<Longrightarrow> length (round_step h kw) = 8"
  by (auto simp: round_step_def Let_def length_Suc_conv numeral_eq_Suc)

lemma rounds_length: "length h = 8 \<Longrightarrow> length (foldl round_step h kws) = 8"
  by (induction kws arbitrary: h) (simp_all add: round_step_length)

lemma compress_length: "length h = 8 \<Longrightarrow> length (compress h b) = 8"
  by (simp add: compress_def Let_def rounds_length)

lemma sha256_words_length: "length (sha256_words m) = 8"
proof -
  have "length (foldl compress h bs) = 8" if "length h = 8" for h bs
    using that by (induction bs arbitrary: h) (simp_all add: compress_length)
  then show ?thesis by (simp add: sha256_words_def Let_def initial_hash_def)
qed

lemma sha256_hexdigest_digest: "digest_text (sha256_hexdigest s)"
proof -
  have hex: "lower_hex (hex_digit n)" for n
  proof -
    have "\<forall>k \<in> set [0..<16]. lower_hex (''0123456789abcdef'' ! k)" by (simp add: upt_rec lower_hex_def)
    then show ?thesis by (simp add: hex_digit_def)
  qed
  have digits: "list_all lower_hex (hex_digits k n) \<and> length (hex_digits k n) = k" for k n
    by (induction k arbitrary: n) (simp_all add: hex)
  have "length (concat (map (\<lambda>w. hex_digits 8 (unat w)) ws)) = 8 * length ws" for ws :: "w32 list"
    by (induction ws) (simp_all add: digits)
  moreover have "list_all lower_hex (concat (map (\<lambda>w. hex_digits 8 (unat w)) ws))" for ws :: "w32 list"
    by (induction ws) (simp_all add: digits)
  ultimately show ?thesis by (simp add: digest_text_def sha256_hexdigest_def sha256_words_length)
qed

end
