(* ===== verification/CPython.thy ===== *)
theory CPython
  imports Decimals Sha256
begin

text \<open>
  The functions of the Python standard library behind \<open>pylib\<close>, written out: the JSON
  printer of \<^verbatim>\<open>json.dumps(sort_keys=True, separators=(",", ":"), ensure_ascii=True)\<close>, the
  scanner of \<^verbatim>\<open>json.loads\<close>, and SHA-256. They satisfy the laws of the locale
  \<open>python_library\<close>, so every result proved from them holds of the code as it runs.
\<close>

section \<open>Printing\<close>

text \<open>\<^verbatim>\<open>json.encoder.ESCAPE_ASCII\<close>: everything but printable ASCII, quote and backslash is escaped.\<close>

definition escape_char :: "char \<Rightarrow> string" where
  "escape_char c =
     (if c = CHR 0x22 then [CHR 0x5C, CHR 0x22]
      else if c = CHR 0x5C then [CHR 0x5C, CHR 0x5C]
      else if c = CHR 0x0A then [CHR 0x5C, CHR ''n'']
      else if c = CHR 0x0D then [CHR 0x5C, CHR ''r'']
      else if c = CHR 0x09 then [CHR 0x5C, CHR ''t'']
      else if c = CHR 0x0C then [CHR 0x5C, CHR ''f'']
      else if c = CHR 0x08 then [CHR 0x5C, CHR ''b'']
      else if 32 \<le> ord c \<and> ord c \<le> 126 then [c]
      else [CHR 0x5C, CHR ''u''] @ hex_digits 4 (ord c))"

definition quote_text :: "string \<Rightarrow> string" where
  "quote_text s = [CHR 0x22] @ concat (map escape_char s) @ [CHR 0x22]"

fun commas :: "string list \<Rightarrow> string" where
  "commas [] = []"
| "commas [s] = s"
| "commas (s # t # ss) = s @ [CHR '',''] @ commas (t # ss)"

text \<open>
  The rendering with separators \<^verbatim>\<open>(",", ":")\<close>, members in the order given. A number that
  is not finite has no rendering under \<^verbatim>\<open>allow_nan=False\<close>; the text here is the one the
  default would print.
\<close>

fun render :: "json \<Rightarrow> string" where
  "render JNull = ''null''"
| "render (JBool b) = (if b then ''true'' else ''false'')"
| "render (JInt n) = int_text n"
| "render (JFloat f) = (case f of Fin x \<Rightarrow> float_repr x | PosInf \<Rightarrow> ''Infinity'' | NegInf \<Rightarrow> ''-Infinity'' | NaN \<Rightarrow> ''NaN'')"
| "render (JStr s) = quote_text s"
| "render (JList xs) = [CHR ''[''] @ commas (map render xs) @ [CHR '']'']"
| "render (JObj kvs) = [CHR ''{''] @ commas (map (\<lambda>(k, v). quote_text k @ [CHR '':''] @ render v) kvs) @ [CHR ''}'']"

definition json_dumps :: "json \<Rightarrow> string" where
  "json_dumps d = render (canon d)"

section \<open>Reading\<close>

definition skip_space :: "string \<Rightarrow> string" where
  "skip_space s = dropWhile (\<lambda>c. c \<in> {CHR '' '', CHR 0x09, CHR 0x0A, CHR 0x0D}) s"

definition hex_value :: "char \<Rightarrow> nat option" where
  "hex_value c =
     (if is_digit c then Some (ord c - 48)
      else if 97 \<le> ord c \<and> ord c \<le> 102 then Some (ord c - 87)
      else if 65 \<le> ord c \<and> ord c \<le> 70 then Some (ord c - 55) else None)"

definition unescape_char :: "char \<Rightarrow> char option" where
  "unescape_char c = map_of [(CHR 0x22, CHR 0x22), (CHR 0x5C, CHR 0x5C), (CHR ''/'', CHR ''/''), (CHR ''b'', CHR 0x08),
     (CHR ''f'', CHR 0x0C), (CHR ''n'', CHR 0x0A), (CHR ''r'', CHR 0x0D), (CHR ''t'', CHR 0x09)] c"

text \<open>Four hexadecimal digits; a code point that a \<open>char\<close> cannot hold is refused.\<close>

definition unescape_hex :: "string \<Rightarrow> char option" where
  "unescape_hex s = (case map hex_value s of
     [Some a, Some b, Some c, Some d] \<Rightarrow> (let n = ((a * 16 + b) * 16 + c) * 16 + d
                                           in if n < 256 then Some (char_of n) else None)
   | _ \<Rightarrow> None)"

text \<open>\<^verbatim>\<open>scanstring\<close> in strict mode, after the opening quote.\<close>

fun scan_string :: "string \<Rightarrow> (string \<times> string) option" where
  "scan_string [] = None"
| "scan_string (c # s) =
     (if c = CHR 0x22 then Some ([], s)
      else if ord c < 32 then None
      else if c = CHR 0x5C
      then (case s of
              [] \<Rightarrow> None
            | e # t \<Rightarrow>
                if e = CHR ''u''
                then (case unescape_hex (take 4 t) of
                        None \<Rightarrow> None
                      | Some x \<Rightarrow> map_option (apfst (Cons x)) (scan_string (drop 4 t)))
                else (case unescape_char e of
                        None \<Rightarrow> None
                      | Some x \<Rightarrow> map_option (apfst (Cons x)) (scan_string t)))
      else map_option (apfst (Cons c)) (scan_string s))"

definition malformed :: "'a option \<Rightarrow> load_error + 'a" where
  "malformed r = (case r of None \<Rightarrow> Inl Malformed | Some x \<Rightarrow> Inr x)"

definition scan_constant :: "string \<Rightarrow> (json \<times> string) option" where
  "scan_constant s =
     (if take 3 s = ''NaN'' then Some (JFloat NaN, drop 3 s)
      else if take 8 s = ''Infinity'' then Some (JFloat PosInf, drop 8 s)
      else if take 9 s = ''-Infinity'' then Some (JFloat NegInf, drop 9 s) else None)"

definition scan_scalar :: "string \<Rightarrow> (json \<times> string) option" where
  "scan_scalar s =
     (if take 4 s = ''null'' then Some (JNull, drop 4 s)
      else if take 4 s = ''true'' then Some (JBool True, drop 4 s)
      else if take 5 s = ''false'' then Some (JBool False, drop 5 s)
      else case scan_number s of Some r \<Rightarrow> Some r | None \<Rightarrow> scan_constant s)"

text \<open>
  The recursive descent, on fuel. \<open>object_pairs_hook\<close> runs when an object closes and
  refuses a repeated key.
\<close>

fun scan_value :: "nat \<Rightarrow> string \<Rightarrow> load_error + json \<times> string"
  and scan_items :: "nat \<Rightarrow> string \<Rightarrow> load_error + json list \<times> string"
  and scan_members :: "nat \<Rightarrow> string \<Rightarrow> load_error + (string \<times> json) list \<times> string" where
  "scan_value 0 s = Inl Malformed"
| "scan_value (Suc n) s = (case s of
     [] \<Rightarrow> Inl Malformed
   | c # t \<Rightarrow>
       if c = CHR 0x22 then (case scan_string t of None \<Rightarrow> Inl Malformed | Some (x, r) \<Rightarrow> Inr (JStr x, r))
       else if c = CHR ''{''
       then (case skip_space t of
               d # r \<Rightarrow> if d = CHR ''}'' then Inr (JObj [], r)
                        else (case scan_members n (d # r) of
                                Inl e \<Rightarrow> Inl e
                              | Inr (kvs, r') \<Rightarrow> if distinct (map fst kvs) then Inr (JObj kvs, r') else Inl DuplicateKey)
             | [] \<Rightarrow> Inl Malformed)
       else if c = CHR ''[''
       then (case skip_space t of
               d # r \<Rightarrow> if d = CHR '']'' then Inr (JList [], r)
                        else (case scan_items n (d # r) of Inl e \<Rightarrow> Inl e | Inr (xs, r') \<Rightarrow> Inr (JList xs, r'))
             | [] \<Rightarrow> Inl Malformed)
       else malformed (scan_scalar s))"
| "scan_items 0 s = Inl Malformed"
| "scan_items (Suc n) s = (case scan_value n s of
     Inl e \<Rightarrow> Inl e
   | Inr (x, r) \<Rightarrow>
       (case skip_space r of
          c # t \<Rightarrow> if c = CHR '']'' then Inr ([x], t)
                   else if c = CHR '',''
                   then (case scan_items n (skip_space t) of Inl e \<Rightarrow> Inl e | Inr (xs, r') \<Rightarrow> Inr (x # xs, r'))
                   else Inl Malformed
        | [] \<Rightarrow> Inl Malformed))"
| "scan_members 0 s = Inl Malformed"
| "scan_members (Suc n) s = (case s of
     [] \<Rightarrow> Inl Malformed
   | q # s' \<Rightarrow>
       if q \<noteq> CHR 0x22 then Inl Malformed
       else (case scan_string s' of
          None \<Rightarrow> Inl Malformed
        | Some (k, r) \<Rightarrow>
            (case skip_space r of
               c # t \<Rightarrow>
                 if c \<noteq> CHR '':'' then Inl Malformed
                 else (case scan_value n (skip_space t) of
                    Inl e \<Rightarrow> Inl e
                  | Inr (v, r') \<Rightarrow>
                      (case skip_space r' of
                         c' # t' \<Rightarrow>
                           if c' = CHR ''}'' then Inr ([(k, v)], t')
                           else if c' = CHR '',''
                           then (case scan_members n (skip_space t') of
                                   Inl e \<Rightarrow> Inl e | Inr (kvs, r'') \<Rightarrow> Inr ((k, v) # kvs, r''))
                           else Inl Malformed
                       | [] \<Rightarrow> Inl Malformed))
             | [] \<Rightarrow> Inl Malformed)))"

definition json_loads :: "string \<Rightarrow> load_error + json" where
  "json_loads s = (case scan_value (2 * length s + 1) (skip_space s) of
     Inl e \<Rightarrow> Inl e
   | Inr (d, r) \<Rightarrow> if skip_space r = [] then Inr d else Inl Malformed)"

section \<open>Reading back what was printed\<close>

lemma hex_value_digit: "hex_value (hex_digit n) = Some (n mod 16)"
proof -
  have "\<forall>k \<in> set [0..<16]. hex_value (''0123456789abcdef'' ! k) = Some k"
    by (simp add: upt_rec hex_value_def is_digit_def)
  then show ?thesis by (simp add: hex_digit_def)
qed

lemma unescape_hex_digits:
  assumes "n < 256"
  shows "unescape_hex (hex_digits 4 n) = Some (char_of n)"
proof -
  define a where "a = n div 16"
  have four: "(4::nat) = Suc (Suc (Suc (Suc 0)))" by simp
  have a: "a < 16" "a div 16 = 0" "a mod 16 = a" "a * 16 + n mod 16 = n" using assms by (auto simp: a_def)
  have "hex_digits 4 n = [hex_digit 0, hex_digit 0, hex_digit a, hex_digit n]"
    unfolding four hex_digits.simps a_def [symmetric] a(2) by simp
  then have "map hex_value (hex_digits 4 n) = [Some 0, Some 0, Some a, Some (n mod 16)]"
    by (simp add: hex_value_digit a(3))
  moreover have "((0 * 16 + 0) * 16 + a) * 16 + n mod 16 = n" using a(4) by (simp only: mult_0 add_0)
  ultimately show ?thesis using assms by (simp only: unescape_hex_def Let_def list.case option.case if_True)
qed

lemma hex_digits_length [simp]: "length (hex_digits k n) = k"
  by (induction k arbitrary: n) simp_all

lemma scan_escaped: "scan_string (escape_char c @ t) = map_option (apfst (Cons c)) (scan_string t)"
proof -
  have "ord c < 256" by (metis nat_of_char_less_256)
  moreover have "unescape_char CHR 0x22 = Some CHR 0x22" "unescape_char CHR 0x5C = Some CHR 0x5C"
    "unescape_char CHR ''n'' = Some CHR 0x0A" "unescape_char CHR ''r'' = Some CHR 0x0D"
    "unescape_char CHR ''t'' = Some CHR 0x09" "unescape_char CHR ''f'' = Some CHR 0x0C"
    "unescape_char CHR ''b'' = Some CHR 0x08" by (simp_all add: unescape_char_def)
  ultimately show ?thesis
    using unescape_hex_digits [of "ord c"] by (auto simp: escape_char_def)
qed

lemma scan_string_quoted: "scan_string (concat (map escape_char s) @ CHR 0x22 # r) = Some (s, r)"
  by (induction s) (simp_all add: scan_escaped)

definition clean :: "string \<Rightarrow> bool" where
  "clean s \<longleftrightarrow> s \<noteq> [] \<and> hd s \<notin> {CHR '' '', CHR 0x09, CHR 0x0A, CHR 0x0D, CHR '']''}"

lemma skip_clean: "clean s \<Longrightarrow> skip_space (s @ r) = s @ r"
  by (cases s) (auto simp: clean_def skip_space_def)

lemma skip_Cons: "c \<notin> {CHR '' '', CHR 0x09, CHR 0x0A, CHR 0x0D} \<Longrightarrow> skip_space (c # r) = c # r"
  by (simp add: skip_space_def)

lemma clean_quote [simp]: "clean (quote_text s @ t)"
  by (simp add: clean_def quote_text_def)

lemma zero_digit [simp]: "is_digit CHR ''0''"
  by (simp add: is_digit_def)

lemma nat_digits_hd_digit: "is_digit (hd (nat_digits n))"
  using nat_digits_digits [of n] by (cases "nat_digits n") auto

text \<open>The first character of a number decides that it is scanned as a number.\<close>

definition number_start :: "string \<Rightarrow> bool" where
  "number_start s \<longleftrightarrow> s \<noteq> [] \<and> (is_digit (hd s) \<or> hd s = CHR ''-'')"

lemma int_text_start: "number_start (int_text n)"
  using nat_digits_hd_digit [of "nat \<bar>n\<bar>"] by (auto simp: int_text_def number_start_def)

lemma decimal_text_start: "0 < n \<Longrightarrow> number_start (decimal_text n e)"
proof -
  assume "0 < n"
  then obtain ip fr ex where "decimal_text n e = ip @ fraction_text fr @ power_text ex" "list_all is_digit ip" "ip \<noteq> []"
    by (rule decimal_text_parts)
  then show ?thesis by (cases ip) (auto simp: number_start_def)
qed

lemma float_repr_start:
  assumes "finite_double x"
  shows "number_start (float_repr x)"
proof -
  have "scan_number (float_repr x @ []) = Some (JFloat (Fin x), [])"
    using scan_float_repr [OF assms, of "[]"] by (simp add: terminated_def)
  then show ?thesis
    by (cases "float_repr x")
      (auto simp: scan_number_def scan_sign_def scan_integer_def number_start_def not_digits Let_def split: if_splits)
qed

lemma terminated_punctuation [simp]:
  "terminated (CHR '','' # r)" "terminated (CHR '']'' # r)" "terminated (CHR ''}'' # r)" "terminated (CHR 0x0A # r)" "terminated []"
  by (simp_all add: terminated_def is_digit_def)

lemma scan_value_number:
  assumes "number_start s" and "scan_number (s @ r) = Some p"
  shows "scan_value (Suc n) (s @ r) = Inr p"
proof -
  obtain c t where s: "s = c # t" using assms(1) by (cases s) (auto simp: number_start_def)
  have c: "is_digit c \<or> c = CHR ''-''" using assms(1) s by (simp add: number_start_def)
  then have "c \<notin> {CHR 0x22, CHR ''{'', CHR ''['', CHR ''n'', CHR ''t'', CHR ''f''}" by (auto simp: is_digit_def)
  then have "scan_scalar (s @ r) = Some p"
    using assms(2) by (auto simp: scan_scalar_def s)
  then show ?thesis using \<open>c \<notin> _\<close> by (simp add: s malformed_def)
qed

text \<open>How much fuel reading a document back takes.\<close>

fun need :: "json \<Rightarrow> nat" where
  "need (JList xs) = 1 + sum_list (map (\<lambda>x. need x + 1) xs)"
| "need (JObj kvs) = 1 + sum_list (map (\<lambda>kv. need (snd kv) + 1) kvs)"
| "need _ = 1"

lemma need_pos: "0 < need d"
  by (cases d) auto

lemma clean_number: "number_start s \<Longrightarrow> clean s"
  by (auto simp: number_start_def clean_def is_digit_def)

lemma render_clean: "json_ok d \<Longrightarrow> clean (render d)"
proof (cases d)
  case (JInt n)
  then show ?thesis using clean_number [OF int_text_start] by simp
next
  case (JFloat f)
  moreover assume "json_ok d"
  ultimately show ?thesis using clean_number [OF float_repr_start] by (auto split: pyfloat.splits)
qed (simp_all add: clean_def quote_text_def)

lemma skip_render: "json_ok d \<Longrightarrow> skip_space (render d @ r) = render d @ r"
  by (intro skip_clean render_clean)

lemma scan_items_rendered:
  assumes "\<And>x n r. x \<in> set xs \<Longrightarrow> need x \<le> n \<Longrightarrow> terminated r \<Longrightarrow> scan_value n (render x @ r) = Inr (x, r)"
    and "list_all json_ok xs" and "xs \<noteq> []" and "sum_list (map (\<lambda>x. need x + 1) xs) \<le> n"
  shows "scan_items n (commas (map render xs) @ CHR '']'' # r) = Inr (xs, r)"
  using assms
proof (induction xs arbitrary: n)
  case (Cons x xs)
  from Cons.prems(4) obtain m where n: "n = Suc m" by (cases n) auto
  show ?case
  proof (cases xs)
    case Nil
    then show ?thesis using Cons.prems n by (simp add: skip_Cons)
  next
    case (Cons y ys)
    have "scan_items m (commas (map render xs) @ CHR '']'' # r) = Inr (xs, r)"
      using Cons.prems n by (intro Cons.IH) (auto simp: \<open>xs = y # ys\<close>)
    moreover have "skip_space (commas (map render xs) @ CHR '']'' # r) = commas (map render xs) @ CHR '']'' # r"
      using Cons.prems(2) skip_render [of y] by (cases ys) (auto simp: \<open>xs = y # ys\<close>)
    moreover have "commas (map render (x # xs)) = render x @ CHR '','' # commas (map render xs)"
      by (simp add: \<open>xs = y # ys\<close>)
    moreover have "scan_value m (render x @ CHR '','' # commas (map render xs) @ CHR '']'' # r)
        = Inr (x, CHR '','' # commas (map render xs) @ CHR '']'' # r)"
      using Cons.prems n by simp
    ultimately show ?thesis by (simp add: n skip_Cons)
  qed
qed simp

lemma scan_members_rendered:
  assumes "\<And>k v n r. (k, v) \<in> set kvs \<Longrightarrow> need v \<le> n \<Longrightarrow> terminated r \<Longrightarrow> scan_value n (render v @ r) = Inr (v, r)"
    and "list_all (\<lambda>kv. json_ok (snd kv)) kvs" and "kvs \<noteq> []" and "sum_list (map (\<lambda>kv. need (snd kv) + 1) kvs) \<le> n"
  shows "scan_members n (commas (map (\<lambda>(k, v). quote_text k @ [CHR '':''] @ render v) kvs) @ CHR ''}'' # r) = Inr (kvs, r)"
    (is "scan_members n (?text kvs @ _) = _")
  using assms
proof (induction kvs arbitrary: n)
  case (Cons kv kvs)
  obtain k v where kv: "kv = (k, v)" by fastforce
  from Cons.prems(4) obtain m where n: "n = Suc m" by (cases n) auto
  have v: "json_ok v" "scan_value m (render v @ t) = Inr (v, t)" if "terminated t" for t
    using Cons.prems(1) [of k v m t] Cons.prems(2,4) that by (auto simp: kv n)
  show ?case
  proof (cases kvs)
    case Nil
    then show ?thesis using v [of "CHR ''}'' # r"]
      by (simp add: kv n quote_text_def scan_string_quoted skip_Cons skip_render)
  next
    case (Cons kv' kvs')
    obtain k' v' where kv': "kv' = (k', v')" by fastforce
    have rest: "scan_members m (?text kvs @ CHR ''}'' # r) = Inr (kvs, r)"
      using Cons.prems n by (intro Cons.IH) (auto simp: \<open>kvs = kv' # kvs'\<close>)
    have skip: "skip_space (?text kvs @ CHR ''}'' # r) = ?text kvs @ CHR ''}'' # r"
      by (cases kvs') (simp_all add: \<open>kvs = kv' # kvs'\<close> kv' quote_text_def skip_Cons)
    have "?text (kv # kvs) @ CHR ''}'' # r
        = CHR 0x22 # concat (map escape_char k) @ CHR 0x22 # CHR '':'' # render v @ CHR '','' # ?text kvs @ CHR ''}'' # r"
      by (simp add: \<open>kvs = kv' # kvs'\<close> kv quote_text_def)
    then show ?thesis
      using v [of "CHR '','' # ?text kvs @ CHR ''}'' # r"] rest skip
      by (simp add: n scan_string_quoted skip_Cons skip_render kv)
  qed
qed simp

lemma scan_value_rendered:
  "json_ok d \<Longrightarrow> need d \<le> n \<Longrightarrow> terminated r \<Longrightarrow> scan_value n (render d @ r) = Inr (d, r)"
proof (induction d arbitrary: n r)
  case JNull
  then show ?case by (cases n) (auto simp: scan_scalar_def malformed_def)
next
  case (JBool b)
  then show ?case by (cases n; cases b) (auto simp: scan_scalar_def malformed_def)
next
  case (JInt i)
  then show ?case using scan_value_number [OF int_text_start scan_int_text] by (cases n) auto
next
  case (JFloat f)
  then obtain x where x: "f = Fin x" "finite_double x" by (auto split: pyfloat.splits)
  then show ?case using JFloat scan_value_number [OF float_repr_start scan_float_repr] by (cases n) auto
next
  case (JStr s)
  then show ?case by (cases n) (auto simp: quote_text_def scan_string_quoted)
next
  case (JList xs)
  then obtain m where n: "n = Suc m" by (cases n) auto
  show ?case
  proof (cases xs)
    case Nil
    then show ?thesis by (simp add: n skip_Cons)
  next
    case (Cons y ys)
    have items: "scan_items m (commas (map render xs) @ CHR '']'' # r) = Inr (xs, r)"
      using JList n Cons by (intro scan_items_rendered) (auto simp: list_all_iff)
    have "json_ok y" using JList.prems Cons by simp
    then have "clean (render y)" by (rule render_clean)
    then obtain c t where c: "render y = c # t" "clean (c # t)" by (cases "render y") (simp_all add: clean_def)
    obtain u where "commas (map render xs) @ CHR '']'' # r = c # u" using c Cons by (cases ys) auto
    moreover have "c \<noteq> CHR '']''" using c(2) by (simp add: clean_def)
    ultimately show ?thesis using items c(2) by (simp add: n skip_Cons clean_def)
  qed
next
  case (JObj kvs)
  then obtain m where n: "n = Suc m" by (cases n) auto
  show ?case
  proof (cases kvs)
    case Nil
    then show ?thesis by (simp add: n skip_Cons)
  next
    case (Cons kv kvs')
    let ?t = "commas (map (\<lambda>(k, v). quote_text k @ [CHR '':''] @ render v) kvs) @ CHR ''}'' # r"
    have "scan_members m ?t = Inr (kvs, r)"
    proof (rule scan_members_rendered)
      fix k v n r assume v: "(k, v) \<in> set kvs" "need v \<le> n" "terminated r"
      then have "json_ok v" using JObj.prems(1) by (auto simp: list_all_iff)
      with v show "scan_value n (render v @ r) = Inr (v, r)" using JObj.IH [OF v(1), of v] by simp
    qed (use JObj.prems n Cons in auto)
    moreover obtain u where "?t = CHR 0x22 # u"
      using Cons by (cases kv; cases kvs') (auto simp: quote_text_def)
    ultimately show ?thesis using JObj.prems by (simp add: n skip_Cons)
  qed
qed

section \<open>The library\<close>

lemma length_commas: "length (commas ss) + 1 \<ge> sum_list (map length ss) + length ss"
  by (induction ss rule: commas.induct) auto

lemma sum_list_double: "sum_list (map (\<lambda>x. 2 * f x + 1) xs) = 2 * sum_list (map f xs) + length (xs :: 'a list)"
  by (induction xs) auto

lemma need_le_render: "json_ok d \<Longrightarrow> need d \<le> 2 * length (render d)"
proof (induction d)
  case (JList xs)
  have "sum_list (map (\<lambda>x. need x + 1) xs) \<le> sum_list (map (\<lambda>x. 2 * length (render x) + 1) xs)"
    using JList by (intro sum_list_mono) (auto simp: list_all_iff)
  also have "\<dots> = 2 * sum_list (map (\<lambda>x. length (render x)) xs) + length xs"
    by (rule sum_list_double)
  finally show ?case using length_commas [of "map render xs"] by (simp add: comp_def)
next
  case (JObj kvs)
  let ?f = "\<lambda>(k, v). quote_text k @ [CHR '':''] @ render v"
  have "sum_list (map (\<lambda>kv. need (snd kv) + 1) kvs) \<le> sum_list (map (\<lambda>kv. 2 * length (?f kv) + 1) kvs)"
    using JObj by (intro sum_list_mono) (fastforce simp: list_all_iff)
  also have "\<dots> = 2 * sum_list (map (\<lambda>kv. length (?f kv)) kvs) + length kvs"
    by (rule sum_list_double)
  finally show ?case using length_commas [of "map ?f kvs"] by (simp add: comp_def)
next
  case (JInt n)
  then show ?case using int_text_start [of n] by (cases "int_text n") (auto simp: number_start_def)
next
  case (JFloat f)
  then obtain x where "f = Fin x" "finite_double x" by (auto split: pyfloat.splits)
  then show ?case using float_repr_start [of x] by (cases "float_repr x") (auto simp: number_start_def)
qed (auto simp: quote_text_def)

lemma canon_ok: "json_ok d \<Longrightarrow> json_ok (canon d)"
proof (induction d)
  case (JObj kvs)
  let ?m = "map (\<lambda>(k, v). (k, canon v)) kvs"
  have "map fst ?m = map fst kvs" by (induction kvs) auto
  then have "distinct (map fst (sort_key fst ?m))" using JObj.prems by (simp only: distinct_map_sort_key json_ok.simps)
  moreover have "\<forall>kv \<in> set ?m. json_ok (snd kv)" using JObj by (fastforce simp: list_all_iff)
  ultimately show ?case by (simp add: list_all_iff del: map_map)
qed (auto simp: list_all_iff)

lemma canon_idem: "canon (canon d) = canon d"
proof (induction d)
  case (JObj kvs)
  let ?c = "\<lambda>(k, v). (k, canon v)"
  have sorted: "sorted (map fst (sort_key fst (map ?c kvs)))" by simp
  have "map ?c (sort_key fst (map ?c kvs)) = sort_key fst (map ?c kvs)"
    using JObj by (intro map_idI) fastforce
  moreover have "sort_key fst (sort_key fst (map ?c kvs)) = sort_key fst (map ?c kvs)"
    using sorted by (rule sort_key_id_if_sorted)
  ultimately show ?case by simp
qed (auto intro: map_idI)

lemma loads_dumps_text:
  assumes "json_ok d"
  shows "json_loads (json_dumps d @ [newline]) = Inr (canon d)"
proof -
  have ok: "json_ok (canon d)" by (rule canon_ok [OF assms])
  have "scan_value (2 * length (render (canon d) @ [newline]) + 1) (render (canon d) @ [newline])
      = Inr (canon d, [newline])"
    using need_le_render [OF ok] by (intro scan_value_rendered [OF ok]) auto
  then show ?thesis
    by (simp add: json_loads_def json_dumps_def skip_render [OF ok]) (simp add: skip_space_def)
qed

section \<open>The fuel is enough\<close>

lemma length_skip: "length (skip_space s) \<le> length s"
  by (simp add: skip_space_def length_dropWhile_le)

lemma length_scan_string: "scan_string s = Some (x, r) \<Longrightarrow> length r < length s"
proof (induction s arbitrary: x rule: scan_string.induct)
  case (2 c s)
  then show ?case by (fastforce split: if_splits list.splits option.splits)
qed simp

lemma length_scan_number: "scan_number s = Some (d, r) \<Longrightarrow> length r < length s"
proof -
  assume d: "scan_number s = Some (d, r)"
  obtain neg s1 ip s2 fr s3 ex s4 where parts: "scan_sign s = (neg, s1)" "scan_integer s1 = (ip, s2)"
    "scan_fraction s2 = (fr, s3)" "scan_exponent s3 = (ex, s4)" by fastforce
  then have "ip \<noteq> []" "r = s4" using d by (auto simp: scan_number_def Let_def split: if_splits)
  moreover have "length s1 \<le> length s" using parts(1) by (auto simp: scan_sign_def split: list.splits if_splits)
  moreover have "ip \<noteq> [] \<Longrightarrow> length s2 < length s1"
    using parts(2) length_dropWhile_le [of is_digit]
    by (auto simp: scan_integer_def less_Suc_eq_le split: list.splits if_splits)
  moreover have "length s3 \<le> length s2"
    using parts(3) by (auto simp: scan_fraction_def le_SucI length_dropWhile_le split: list.splits if_splits)
  moreover have "length s4 \<le> length s3"
    using parts(4) by (auto simp: scan_exponent_def le_SucI length_dropWhile_le Let_def split: list.splits if_splits prod.splits)
  ultimately show ?thesis by simp
qed

lemma length_scan_scalar: "scan_scalar s = Some (d, r) \<Longrightarrow> length r < length s"
  by (cases s) (auto simp: scan_scalar_def scan_constant_def dest!: length_scan_number split: if_splits option.splits)

lemma skip_head: "skip_space t = c # r \<Longrightarrow> length r < length t"
  using length_skip [of t] by simp

lemma scan_shorter:
  "(\<forall>s d r. scan_value n s = Inr (d, r) \<longrightarrow> length r < length s)
   \<and> (\<forall>s xs r. scan_items n s = Inr (xs, r) \<longrightarrow> length r < length s)
   \<and> (\<forall>s kvs r. scan_members n s = Inr (kvs, r) \<longrightarrow> length r < length s)"
proof (induction n)
  case (Suc n)
  note IH = Suc [THEN conjunct1, rule_format] Suc [THEN conjunct2, THEN conjunct1, rule_format]
    Suc [THEN conjunct2, THEN conjunct2, rule_format]
  have "length r < length s" if "scan_value (Suc n) s = Inr (d, r)" for s d r
    using that
    by (auto simp: malformed_def dest!: IH(2,3) length_scan_string length_scan_scalar skip_head
        split: list.splits if_splits sum.splits option.splits)
  moreover have "length r < length s" if items: "scan_items (Suc n) s = Inr (xs, r)" for s xs r
  proof -
    from items obtain x r1 c t where h: "scan_value n s = Inr (x, r1)" "skip_space r1 = c # t"
      by (auto split: sum.splits list.splits)
    have "length t < length s" using IH(1) [OF h(1)] skip_head [OF h(2)] by simp
    moreover have "length r \<le> length t" using items h length_skip [of t]
      by (auto dest!: IH(2) split: if_splits sum.splits)
    ultimately show ?thesis by simp
  qed
  moreover have "length r < length s" if members: "scan_members (Suc n) s = Inr (kvs, r)" for s kvs r
  proof -
    from members obtain q s' k r0 c t v r1 c' t' where h: "s = q # s'" "scan_string s' = Some (k, r0)" "skip_space r0 = c # t"
      "scan_value n (skip_space t) = Inr (v, r1)" "skip_space r1 = c' # t'"
      by (auto split: sum.splits list.splits option.splits if_splits)
    have "length t' < length s"
      using length_scan_string [OF h(2)] skip_head [OF h(3)] IH(1) [OF h(4)] skip_head [OF h(5)] length_skip [of t] h(1) by simp
    moreover have "length r \<le> length t'" using members h length_skip [of t']
      by (auto dest!: IH(3) split: if_splits sum.splits)
    ultimately show ?thesis by simp
  qed
  ultimately show ?case by blast
qed simp

lemmas scan_value_shorter = scan_shorter [THEN conjunct1, rule_format]

text \<open>Beyond twice the length of the text, more fuel changes nothing.\<close>

lemma scan_fuel:
  "(\<forall>s. 2 * length s < n \<longrightarrow> scan_value (Suc n) s = scan_value n s)
   \<and> (\<forall>s. 2 * length s + 1 < n \<longrightarrow> scan_items (Suc n) s = scan_items n s)
   \<and> (\<forall>s. 2 * length s + 1 < n \<longrightarrow> scan_members (Suc n) s = scan_members n s)"
proof (induction n)
  case (Suc n)
  note IH = Suc [THEN conjunct1, rule_format] Suc [THEN conjunct2, THEN conjunct1, rule_format]
    Suc [THEN conjunct2, THEN conjunct2, rule_format]
  have "scan_value (Suc (Suc n)) s = scan_value (Suc n) s" if s: "2 * length s < Suc n" for s
  proof (cases s)
    case (Cons c t)
    have "scan_items (Suc n) (d # r) = scan_items n (d # r)" "scan_members (Suc n) (d # r) = scan_members n (d # r)"
      if "skip_space t = d # r" for d r
      by (rule IH(2), use skip_head [OF that] s Cons in simp) (rule IH(3), use skip_head [OF that] s Cons in simp)
    then show ?thesis unfolding scan_value.simps Cons
      by (simp del: scan_items.simps scan_members.simps split: list.splits)
  qed simp
  moreover have "scan_items (Suc (Suc n)) s = scan_items (Suc n) s" if s: "2 * length s + 1 < Suc n" for s
  proof -
    have v: "scan_value (Suc n) s = scan_value n s" using s by (intro IH(1)) simp
    have "scan_items (Suc n) (skip_space t) = scan_items n (skip_space t)"
      if "scan_value n s = Inr (x, r)" "skip_space r = c # t" for x r c t
      using scan_value_shorter [OF that(1)] skip_head [OF that(2)] length_skip [of t] s by (intro IH(2)) simp
    then show ?thesis unfolding scan_items.simps(2) [of "Suc n" s] scan_items.simps(2) [of n s] v
      by (simp del: scan_items.simps split: sum.splits list.splits prod.splits)
  qed
  moreover have "scan_members (Suc (Suc n)) s = scan_members (Suc n) s" if s: "2 * length s + 1 < Suc n" for s
  proof -
    have v: "scan_value (Suc n) (skip_space t) = scan_value n (skip_space t)"
      if "s = q # s'" "scan_string s' = Some (k, r0)" "skip_space r0 = c # t" for q s' k r0 c t
      using length_scan_string [OF that(2)] skip_head [OF that(3)] length_skip [of t] s that(1) by (intro IH(1)) simp
    have m: "scan_members (Suc n) (skip_space t') = scan_members n (skip_space t')"
      if "s = q # s'" "scan_string s' = Some (k, r0)" "skip_space r0 = c # t"
        "scan_value n (skip_space t) = Inr (x, r1)" "skip_space r1 = c' # t'" for q s' k r0 c t x r1 c' t'
      using length_scan_string [OF that(2)] skip_head [OF that(3)] scan_value_shorter [OF that(4)] skip_head [OF that(5)]
        length_skip [of t] length_skip [of t'] s that(1) by (intro IH(3)) simp
    show ?thesis unfolding scan_members.simps(2) [of "Suc n" s] scan_members.simps(2) [of n s]
    proof (intro list.case_cong option.case_cong refl if_cong, goal_cases)
      case (1 q s' kr)
      obtain k r0 where kr: "kr = (k, r0)" by fastforce
      show ?case unfolding kr prod.case
      proof (intro list.case_cong if_cong refl, goal_cases)
        case (1 c t)
        note eq = v [OF \<open>s = q # s'\<close> \<open>scan_string s' = Some kr\<close> [unfolded kr] \<open>skip_space r0 = c # t\<close>]
        show ?case unfolding eq
        proof (intro sum.case_cong list.case_cong refl, goal_cases)
          case (1 p)
          obtain x r1 where p: "p = (x, r1)" by fastforce
          note eq' = m [OF \<open>s = q # s'\<close> \<open>scan_string s' = Some kr\<close> [unfolded kr] \<open>skip_space r0 = c # t\<close> 1 [unfolded p]]
          show ?case unfolding p prod.case by (intro list.case_cong if_cong refl) (simp only: eq')
        qed
      qed
    qed
  qed
  ultimately show ?case by blast
qed simp

lemma scan_fuel_enough: "2 * length s < n \<Longrightarrow> scan_value (n + k) s = scan_value n s"
  by (induction k) (simp_all add: scan_fuel [THEN conjunct1, rule_format] del: scan_value.simps)

section \<open>What is printed is ASCII, what is read are doubles\<close>

lemma hex_digit_ascii: "ord (hex_digit n) < 128"
proof -
  have "\<forall>k \<in> set [0..<16]. ord (''0123456789abcdef'' ! k) < 128" by (simp add: upt_rec)
  then show ?thesis by (simp add: hex_digit_def)
qed

lemma hex_digits_ascii: "is_ascii (hex_digits k n)"
  by (induction k arbitrary: n) (simp_all add: hex_digit_ascii)

lemma escape_ascii: "is_ascii (escape_char c)"
  by (simp add: escape_char_def hex_digits_ascii)

lemma quote_ascii: "is_ascii (quote_text s)"
  by (induction s) (simp_all add: quote_text_def escape_ascii)

lemma digits_ascii: "list_all is_digit ds \<Longrightarrow> is_ascii ds"
  by (auto simp: is_ascii_def list_all_iff is_digit_def)

lemma nat_digits_ascii: "is_ascii (nat_digits n)"
  by (rule digits_ascii [OF nat_digits_digits])

lemma ascii_parts: "is_ascii s \<Longrightarrow> is_ascii (take k s)" "is_ascii s \<Longrightarrow> is_ascii (drop k s)"
  "ord c < 128 \<Longrightarrow> is_ascii (replicate k c)"
  by (auto simp: is_ascii_def list_all_iff dest: in_set_takeD in_set_dropD)

lemma decimal_text_ascii: "is_ascii (decimal_text n e)"
  using nat_digits_ascii ascii_parts by (simp add: decimal_text_def exponent_text_def Let_def)

lemma number_ascii: "is_ascii (int_text n)" "is_ascii (float_repr x)"
  by (simp_all add: int_text_def nat_digits_ascii float_repr_def decimal_text_ascii split: prod.splits)

lemma commas_ascii: "list_all is_ascii ss \<Longrightarrow> is_ascii (commas ss)"
  by (induction ss rule: commas.induct) simp_all

lemma render_ascii: "is_ascii (render d)"
proof (induction d)
  case (JObj kvs)
  have "list_all is_ascii (map (\<lambda>(k, v). quote_text k @ [CHR '':''] @ render v) kvs)"
    using JObj by (auto simp: list_all_iff quote_ascii)
  then show ?case using commas_ascii by simp
next
  case (JList xs)
  then have "list_all is_ascii (map render xs)" by (simp add: list_all_iff)
  then show ?case using commas_ascii by simp
qed (simp_all add: number_ascii quote_ascii split: pyfloat.splits)

lemma to_double_finite: "to_double q = Fin x \<Longrightarrow> finite_double x"
  by (auto simp: to_double_def finite_double_def Let_def abs_less_iff not_le split: if_splits)

lemma scan_scalar_doubles: "scan_scalar s = Some (d, r) \<Longrightarrow> doubles_only d"
  by (auto simp: scan_scalar_def scan_constant_def scan_number_def Let_def to_double_finite
      split: if_splits option.splits prod.splits pyfloat.splits)

lemma scan_doubles:
  "(\<forall>s d r. scan_value n s = Inr (d, r) \<longrightarrow> doubles_only d)
   \<and> (\<forall>s xs r. scan_items n s = Inr (xs, r) \<longrightarrow> list_all doubles_only xs)
   \<and> (\<forall>s kvs r. scan_members n s = Inr (kvs, r) \<longrightarrow> list_all (\<lambda>kv. doubles_only (snd kv)) kvs)"
proof (induction n)
  case (Suc n)
  note IH = Suc [THEN conjunct1, rule_format] Suc [THEN conjunct2, THEN conjunct1, rule_format]
    Suc [THEN conjunct2, THEN conjunct2, rule_format]
  have "doubles_only d" if "scan_value (Suc n) s = Inr (d, r)" for s d r
    using that by (auto simp: malformed_def dest: scan_scalar_doubles dest!: IH(2,3)
        split: list.splits if_splits sum.splits option.splits)
  moreover have "list_all doubles_only xs" if "scan_items (Suc n) s = Inr (xs, r)" for s xs r
    using that by (auto dest!: IH(1,2) split: list.splits if_splits sum.splits)
  moreover have "list_all (\<lambda>kv. doubles_only (snd kv)) kvs" if "scan_members (Suc n) s = Inr (kvs, r)" for s kvs r
    using that by (auto dest!: IH(1,3) split: list.splits if_splits sum.splits option.splits)
  ultimately show ?case by blast
qed simp

lemma loads_doubles_text: "json_loads s = Inr d \<Longrightarrow> doubles_only d"
  using scan_doubles [THEN conjunct1, rule_format]
  by (auto simp: json_loads_def simp del: scan_value.simps split: sum.splits if_splits)

section \<open>The library the code runs on\<close>

text \<open>
  \<open>cpython fromiso\<close> is the library with the functions above; \<open>fromiso\<close> stands for
  \<^verbatim>\<open>datetime.fromisoformat\<close>, of which nothing is needed. It keeps every promise of
  \<open>python_library\<close> (interpreted in \<open>Runtime\<close>). Not modelled: the interpreter's limits on recursion depth and on the
  digits of an integer, both of which the code reports as a malformed document.
\<close>

definition cpython :: "(string \<Rightarrow> bool) \<Rightarrow> pylib" where
  "cpython fromiso = \<lparr>sha256_hex = sha256_hexdigest, dumps = json_dumps, loads = json_loads, iso_utc = fromiso\<rparr>"

lemma cpython_simps [simp]:
  "sha256_hex (cpython fromiso) = sha256_hexdigest" "dumps (cpython fromiso) = json_dumps"
  "loads (cpython fromiso) = json_loads" "iso_utc (cpython fromiso) = fromiso"
  by (simp_all add: cpython_def)

lemma cpython_library: "python_library (cpython fromiso)"
proof
  fix s d
  show "digest_text (sha256_hex (cpython fromiso) s)" by (simp add: sha256_hexdigest_digest)
  show "is_ascii (dumps (cpython fromiso) d)" by (simp add: json_dumps_def render_ascii)
  show "dumps (cpython fromiso) (canon d) = dumps (cpython fromiso) d" by (simp add: json_dumps_def canon_idem)
  show "json_ok d \<Longrightarrow> loads (cpython fromiso) (dumps (cpython fromiso) d @ [newline]) = Inr (canon d)"
    by (simp add: loads_dumps_text)
  show "loads (cpython fromiso) s = Inr d \<Longrightarrow> doubles_only d" by (simp add: loads_doubles_text)
qed

section \<open>The size of a rendering\<close>

text \<open>An upper bound that does not look into the escapes.\<close>

fun text_size :: "json \<Rightarrow> nat" where
  "text_size (JInt n) = length (int_text n)"
| "text_size (JFloat f) = length (render (JFloat f))"
| "text_size (JStr s) = 2 + 6 * length s"
| "text_size (JList xs) = 2 + sum_list (map (\<lambda>x. text_size x + 1) xs)"
| "text_size (JObj kvs) = 2 + sum_list (map (\<lambda>kv. 4 + 6 * length (fst kv) + text_size (snd kv)) kvs)"
| "text_size _ = 5"

lemma escape_length: "length (escape_char c) \<le> 6"
  by (simp add: escape_char_def)

lemma quote_length: "length (quote_text s) \<le> 2 + 6 * length s"
proof -
  have "length (concat (map escape_char s)) \<le> 6 * length s"
  proof (induction s)
    case (Cons c s)
    then show ?case using escape_length [of c] by simp
  qed simp
  then show ?thesis by (simp add: quote_text_def)
qed

lemma commas_length: "length (commas ss) \<le> sum_list (map (\<lambda>s. length s + 1) ss)"
  by (induction ss rule: commas.induct) auto

lemma render_length: "length (render d) \<le> text_size d"
proof (induction d)
  case (JList xs)
  have "length (commas (map render xs)) \<le> sum_list (map (\<lambda>x. length (render x) + 1) xs)"
    using commas_length [of "map render xs"] by (simp add: comp_def)
  also have "\<dots> \<le> sum_list (map (\<lambda>x. text_size x + 1) xs)" using JList by (intro sum_list_mono) simp
  finally show ?case by simp
next
  case (JObj kvs)
  let ?f = "\<lambda>(k, v). quote_text k @ [CHR '':''] @ render v"
  have "length (commas (map ?f kvs)) \<le> sum_list (map (\<lambda>kv. length (?f kv) + 1) kvs)"
    using commas_length [of "map ?f kvs"] by (simp add: comp_def)
  also have "\<dots> \<le> sum_list (map (\<lambda>kv. 4 + 6 * length (fst kv) + text_size (snd kv)) kvs)"
  proof (rule sum_list_mono)
    fix kv assume kv: "kv \<in> set kvs"
    obtain k v where "kv = (k, v)" by fastforce
    then show "length (?f kv) + 1 \<le> 4 + 6 * length (fst kv) + text_size (snd kv)"
      using JObj [OF kv, of v] quote_length [of k] by simp
  qed
  finally show ?case by simp
next
  case (JStr s)
  show ?case unfolding render.simps text_size.simps by (rule quote_length)
qed simp_all

lemma sum_list_sort_key: "sum_list (map f (sort_key g xs)) = sum_list (map f xs :: nat list)"
  by (metis mset_map mset_sort sum_mset_sum_list)

lemma text_size_canon: "text_size (canon d) = text_size d"
proof (induction d)
  case (JObj kvs)
  have "map (\<lambda>kv. 4 + 6 * length (fst kv) + text_size (snd kv)) (map (\<lambda>(k, v). (k, canon v)) kvs)
      = map (\<lambda>kv. 4 + 6 * length (fst kv) + text_size (snd kv)) kvs"
    using JObj by (auto simp: case_prod_beta)
  then show ?case by (simp only: canon.simps text_size.simps sum_list_sort_key)
next
  case (JList xs)
  then have "map (\<lambda>x. text_size x + 1) (map canon xs) = map (\<lambda>x. text_size x + 1) xs" by simp
  then show ?case by (simp only: canon.simps text_size.simps)
qed simp_all

lemma dumps_length: "length (json_dumps d) \<le> text_size d"
  using render_length [of "canon d"] by (simp add: json_dumps_def text_size_canon)

lemma int_text_length:
  assumes "0 \<le> n" and "n < 10 ^ k" and "0 < k"
  shows "length (int_text n) \<le> k"
proof (cases "n = 0")
  case True
  then show ?thesis using assms(3) by (simp add: int_text_def nat_digits_small)
next
  case False
  let ?m = "nat n"
  have "10 ^ (length (nat_digits ?m) - 1) \<le> ?m" using nat_digits_length(2) [of ?m] assms(1) False by simp
  also have "?m < 10 ^ k" using assms(1,2) by (simp add: nat_less_iff)
  finally have "length (nat_digits ?m) - 1 < k" by (simp add: power_strict_increasing_iff)
  then show ?thesis using assms(1) by (simp add: int_text_def)
qed

end
