(* ===== verification/NetworkIdentity.thy ===== *)
theory NetworkIdentity
  imports Json
begin

text \<open>
  \<^verbatim>\<open>weight_plan._validate_network_identity\<close>: a network is a public alias or a
  credential-free websocket endpoint. The endpoint branch reads the result of
  \<^verbatim>\<open>urllib.parse.urlsplit\<close>, modelled here on printable ASCII texts (the only ones
  that reach it), including the address check it makes on a bracketed host.
\<close>

section \<open>Text splitting\<close>

definition py_partition :: "char \<Rightarrow> string \<Rightarrow> string \<times> bool \<times> string" where
  "py_partition c s = (takeWhile (\<lambda>x. x \<noteq> c) s, c \<in> set s, tl (dropWhile (\<lambda>x. x \<noteq> c) s))"

definition after_last :: "char \<Rightarrow> string \<Rightarrow> string" where
  "after_last c s = rev (takeWhile (\<lambda>x. x \<noteq> c) (rev s))"

fun split_on :: "char \<Rightarrow> string \<Rightarrow> string list" where
  "split_on c [] = [[]]"
| "split_on c (x # xs) =
     (if x = c then [] # split_on c xs
      else case split_on c xs of p # ps \<Rightarrow> (x # p) # ps | [] \<Rightarrow> [[x]])"

definition is_digit :: "char \<Rightarrow> bool" where
  "is_digit c \<longleftrightarrow> 48 \<le> ord c \<and> ord c \<le> 57"

definition is_alpha :: "char \<Rightarrow> bool" where
  "is_alpha c \<longleftrightarrow> (65 \<le> ord c \<and> ord c \<le> 90) \<or> (97 \<le> ord c \<and> ord c \<le> 122)"

definition is_xdigit :: "char \<Rightarrow> bool" where
  "is_xdigit c \<longleftrightarrow> is_digit c \<or> (65 \<le> ord c \<and> ord c \<le> 70) \<or> (97 \<le> ord c \<and> ord c \<le> 102)"

definition to_lower :: "char \<Rightarrow> char" where
  "to_lower c = (if 65 \<le> ord c \<and> ord c \<le> 90 then char_of (ord c + 32) else c)"

definition dec_value :: "string \<Rightarrow> nat" where
  "dec_value s = foldl (\<lambda>n c. n * 10 + (ord c - 48)) 0 s"

section \<open>Bracketed hosts\<close>

text \<open>\<^verbatim>\<open>ipaddress.IPv4Address\<close>: four decimal octets without leading zeros.\<close>

definition ipv4_ok :: "string \<Rightarrow> bool" where
  "ipv4_ok s = (let parts = split_on CHR ''.'' s in length parts = 4
     \<and> list_all (\<lambda>p. p \<noteq> [] \<and> list_all is_digit p \<and> length p \<le> 3
          \<and> (length p > 1 \<longrightarrow> hd p \<noteq> CHR ''0'') \<and> dec_value p \<le> 255) parts)"

definition hextet_ok :: "string \<Rightarrow> bool" where
  "hextet_ok p \<longleftrightarrow> p \<noteq> [] \<and> list_all is_xdigit p \<and> length p \<le> 4"

text \<open>\<^verbatim>\<open>ipaddress.IPv6Address\<close>: the part list after the embedded IPv4 tail is replaced.\<close>

definition ipv6_parts_ok :: "string list \<Rightarrow> bool" where
  "ipv6_parts_ok parts =
     (let n = length parts; skips = filter (\<lambda>i. parts ! i = []) [1..<n - 1]
      in 3 \<le> n \<and> n \<le> 9 \<and>
        (case skips of
           [] \<Rightarrow> n = 8 \<and> list_all hextet_ok parts
         | [k] \<Rightarrow>
             (let hi = (if hd parts = [] then k - 1 else k);
                  lo = (if last parts = [] then n - k - 2 else n - k - 1)
              in (hd parts = [] \<longrightarrow> hi = 0) \<and> (last parts = [] \<longrightarrow> lo = 0) \<and> hi + lo \<le> 7
                 \<and> list_all hextet_ok (take hi parts) \<and> list_all hextet_ok (drop (n - lo) parts))
         | _ \<Rightarrow> False))"

definition ipv6_ok :: "string \<Rightarrow> bool" where
  "ipv6_ok s =
     (let (addr, sep, scope) = py_partition CHR ''%'' s; parts = split_on CHR '':'' addr
      in (sep \<longrightarrow> scope \<noteq> [] \<and> CHR ''%'' \<notin> set scope) \<and> 3 \<le> length parts
        \<and> (if CHR ''.'' \<in> set (last parts)
            then ipv4_ok (last parts) \<and> ipv6_parts_ok (butlast parts @ [''0'', ''0''])
            else ipv6_parts_ok parts))"

text \<open>\<^verbatim>\<open>urllib.parse._check_bracketed_host\<close>.\<close>

definition bracketed_host_ok :: "string \<Rightarrow> bool" where
  "bracketed_host_ok h =
     (case h of
        [] \<Rightarrow> False
      | c # t \<Rightarrow>
          if c = CHR ''v''
          then (let (v, dot, rest) = py_partition CHR ''.'' t
                in v \<noteq> [] \<and> list_all is_xdigit v \<and> dot \<and> rest \<noteq> [])
          else ipv6_ok h)"

section \<open>The URL split\<close>

record url_parts =
  u_scheme :: string
  u_netloc :: string
  u_path :: string
  u_query :: string
  u_fragment :: string

definition scheme_char :: "char \<Rightarrow> bool" where
  "scheme_char c \<longleftrightarrow> is_alpha c \<or> is_digit c \<or> c \<in> set ''+-.''"

definition urlsplit :: "string \<Rightarrow> url_parts res" where
  "urlsplit url =
     (let (pre, colon, post) = py_partition CHR '':'' url;
          has_scheme = colon \<and> pre \<noteq> [] \<and> is_alpha (hd pre) \<and> list_all scheme_char pre;
          scheme = (if has_scheme then map to_lower pre else []);
          rest = (if has_scheme then post else url);
          has_netloc = take 2 rest = ''//'';
          body = drop 2 rest;
          netloc = (if has_netloc then takeWhile (\<lambda>c. c \<notin> set ''/?#'') body else []);
          tail = (if has_netloc then dropWhile (\<lambda>c. c \<notin> set ''/?#'') body else rest);
          open_br = CHR ''['' \<in> set netloc; close_br = CHR '']'' \<in> set netloc;
          bracketed = fst (py_partition CHR '']'' (snd (snd (py_partition CHR ''['' netloc))));
          (before_fragment, _, fragment) = py_partition CHR ''#'' tail;
          (path, _, query) = py_partition CHR ''?'' before_fragment
      in if open_br \<noteq> close_br then Inl (ValueError ''Invalid IPv6 URL'')
         else if open_br \<and> \<not> bracketed_host_ok bracketed then Inl (ValueError ''Invalid IPv6 URL'')
         else Inr \<lparr>u_scheme = scheme, u_netloc = netloc, u_path = path, u_query = query,
                    u_fragment = fragment\<rparr>)"

text \<open>\<^verbatim>\<open>SplitResult._hostinfo\<close>: the host and the port text.\<close>

definition hostinfo :: "string \<Rightarrow> string \<times> string" where
  "hostinfo netloc =
     (let info = after_last CHR ''@'' netloc;
          (_, open_br, bracketed) = py_partition CHR ''['' info
      in if open_br
         then (let (host, _, more) = py_partition CHR '']'' bracketed
               in (host, snd (snd (py_partition CHR '':'' more))))
         else (let (host, _, port) = py_partition CHR '':'' info in (host, port)))"

text \<open>\<^verbatim>\<open>SplitResult.port\<close>.\<close>

definition url_port :: "string \<Rightarrow> nat option res" where
  "url_port netloc =
     (let port = snd (hostinfo netloc)
      in if port = [] then Inr None
         else if \<not> list_all is_digit port then Inl (ValueError ''Port could not be cast to integer value'')
         else if dec_value port > 65535 then Inl (ValueError ''Port out of range 0-65535'')
         else Inr (Some (dec_value port)))"

section \<open>The validator\<close>

definition has_scheme_separator :: "string \<Rightarrow> bool" where
  "has_scheme_separator s \<longleftrightarrow> list_ex (\<lambda>i. take 3 (drop i s) = ''://'') [0..<length s]"

definition alias_char :: "char \<Rightarrow> bool" where
  "alias_char c \<longleftrightarrow> is_alpha c \<or> is_digit c \<or> c = CHR ''-'' \<or> c = CHR ''_''"

definition bad_endpoint :: "url_parts \<Rightarrow> nat option \<Rightarrow> bool" where
  "bad_endpoint p port \<longleftrightarrow>
     u_scheme p \<notin> {''ws'', ''wss''} \<or> u_netloc p = [] \<or> fst (hostinfo (u_netloc p)) = []
     \<or> CHR ''@'' \<in> set (u_netloc p)
     \<or> u_path p \<noteq> [] \<or> u_query p \<noteq> [] \<or> u_fragment p \<noteq> []
     \<or> last (u_netloc p) = CHR '':'' \<or> (case port of None \<Rightarrow> False | Some n \<Rightarrow> \<not> (1 \<le> n \<and> n \<le> 65535))"

text \<open>The guarded block \<^verbatim>\<open>endpoint = urlsplit(network); port = endpoint.port\<close>.\<close>

definition split_endpoint :: "string \<Rightarrow> (url_parts \<times> nat option) res" where
  "split_endpoint network =
     res_bind (urlsplit network) (\<lambda>p. res_bind (url_port (u_netloc p)) (\<lambda>port. Inr (p, port)))"

definition validate_network_identity :: "string \<Rightarrow> json \<Rightarrow> string res" where
  "validate_network_identity field_name value =
     res_bind (validate_text field_name 256 value) (\<lambda>network.
       if \<not> has_scheme_separator network
       then reject_if (length network > 64 \<or> \<not> list_all alias_char network)
              (WeightPlanError (field_name @ '' must be a public alias or credential-free websocket endpoint''))
              (Inr network)
       else case split_endpoint network of
              Inl _ \<Rightarrow> Inl (WeightPlanError (field_name @ '' is invalid''))
            | Inr (p, port) \<Rightarrow>
                reject_if (bad_endpoint p port)
                  (WeightPlanError (field_name @ '' must be a public alias or credential-free websocket endpoint''))
                  (Inr network))"

text \<open>The accepted texts as a predicate: what the callers rely on.\<close>

definition network_ok :: "string \<Rightarrow> bool" where
  "network_ok s \<longleftrightarrow> \<not> bad_text 256 s \<and>
     (if has_scheme_separator s
      then (case split_endpoint s of Inl _ \<Rightarrow> False | Inr (p, port) \<Rightarrow> \<not> bad_endpoint p port)
      else length s \<le> 64 \<and> list_all alias_char s)"

lemma validate_network_identity_Inr [res_simps]:
  "validate_network_identity f v = Inr s \<longleftrightarrow> v = JStr s \<and> network_ok s"
proof -
  have "validate_network_identity f (JStr t) = Inr s \<longleftrightarrow> t = s \<and> network_ok s" for t
    unfolding validate_network_identity_def network_ok_def
    by (cases "has_scheme_separator t"; cases "split_endpoint t") (auto simp: not_less split: prod.splits)
  then show ?thesis
    by (cases v) (auto simp: validate_network_identity_def validate_text_def)
qed

lemma validate_network_identity_ok [simp]:
  "network_ok s \<Longrightarrow> validate_network_identity f (JStr s) = Inr s"
  by (simp add: validate_network_identity_Inr)

lemma network_ok_text: "network_ok s \<Longrightarrow> \<not> bad_text 256 s"
  by (simp add: network_ok_def)

lemma network_ok_alias:
  "\<not> bad_text 64 s \<Longrightarrow> list_all alias_char s \<Longrightarrow> \<not> has_scheme_separator s \<Longrightarrow> network_ok s"
  by (auto simp: network_ok_def bad_text_iff)

lemma network_ok_finney [simp]: "network_ok ''finney''"
  by code_simp

end
