(* ===== verification/ChainView.thy ===== *)
theory ChainView
  imports NetworkIdentity
begin

text \<open>
  The chain view of \<^verbatim>\<open>chain.py\<close>: neuron records, metagraph snapshots and the
  \<^verbatim>\<open>MetagraphState\<close> cell that admits snapshots monotonically. Stakes are doubles;
  the other fields have the declared Python types.
\<close>

section \<open>Snapshots\<close>

record NeuronRecord =
  nr_uid :: int
  nr_hotkey :: string
  nr_validator_permit :: bool
  nr_tao_stake :: pyfloat
  nr_axon :: "string option"
  nr_active :: bool

record MetagraphSnapshot =
  ms_network :: string
  ms_netuid :: int
  ms_block :: int
  ms_tempo :: int
  ms_neurons :: "NeuronRecord list"
  ms_finalized :: bool

definition ms_epoch :: "MetagraphSnapshot \<Rightarrow> int" where
  "ms_epoch s = ms_block s div max (ms_tempo s) 1"

definition by_hotkey :: "MetagraphSnapshot \<Rightarrow> string \<Rightarrow> NeuronRecord option" where
  "by_hotkey s hotkey = first_match (\<lambda>n. nr_hotkey n = hotkey) (ms_neurons s)"

text \<open>\<^verbatim>\<open>{neuron.hotkey: neuron for neuron in snapshot.neurons}\<close>.\<close>

definition hotkey_dict :: "MetagraphSnapshot \<Rightarrow> string \<rightharpoonup> NeuronRecord" where
  "hotkey_dict s = dict_of (map (\<lambda>n. (nr_hotkey n, n)) (ms_neurons s))"

lemma hotkey_dict_Some:
  "hotkey_dict s k = Some n \<Longrightarrow> n \<in> set (ms_neurons s) \<and> nr_hotkey n = k"
  unfolding hotkey_dict_def by (drule dict_of_Some) auto

lemma hotkey_dict_by_hotkey:
  "distinct (map nr_hotkey (ms_neurons s)) \<Longrightarrow> hotkey_dict s k = by_hotkey s k"
  unfolding hotkey_dict_def by_hotkey_def by (rule first_match_dict [symmetric])

lemma hotkey_dict_member:
  assumes "distinct (map nr_hotkey (ms_neurons s))" and "n \<in> set (ms_neurons s)"
  shows "hotkey_dict s (nr_hotkey n) = Some n"
proof -
  have "distinct (map fst (map (\<lambda>n. (nr_hotkey n, n)) (ms_neurons s)))"
    using assms(1) by (simp add: comp_def)
  then show ?thesis
    unfolding hotkey_dict_def using assms(2) by (subst dict_of_distinct) auto
qed

section \<open>Monotonic admission\<close>

text \<open>
  \<^verbatim>\<open>identity_fingerprint()\<close> compares sorted tuples of neuron identities, that is,
  their multiset; the printed stake determines the double.
\<close>

definition neuron_identity :: "NeuronRecord \<Rightarrow> int \<times> string \<times> bool \<times> pyfloat \<times> string \<times> bool" where
  "neuron_identity n = (nr_uid n, nr_hotkey n, nr_validator_permit n, nr_tao_stake n,
     (case nr_axon n of None \<Rightarrow> [] | Some a \<Rightarrow> a), nr_active n)"

definition identity_fingerprint where
  "identity_fingerprint s = (ms_network s, ms_netuid s, ms_block s, ms_tempo s,
     mset (map neuron_identity (ms_neurons s)))"

type_synonym metagraph_state = "MetagraphSnapshot option"

definition metagraph_set :: "metagraph_state \<Rightarrow> MetagraphSnapshot \<Rightarrow> metagraph_state res" where
  "metagraph_set st snapshot =
     reject_if (ms_network snapshot = [] \<or> \<not> (0 \<le> ms_netuid snapshot \<and> ms_netuid snapshot \<le> 65535)
         \<or> ms_block snapshot < 0 \<or> ms_tempo snapshot < 1)
       (RuntimeError ''invalid metagraph snapshot identity'')
     (case st of
        None \<Rightarrow> Inr (Some snapshot)
      | Some current \<Rightarrow>
          reject_if (ms_network snapshot \<noteq> ms_network current \<or> ms_netuid snapshot \<noteq> ms_netuid current)
            (RuntimeError ''metagraph subnet identity changed'')
          (reject_if (ms_block snapshot < ms_block current)
            (RuntimeError ''metagraph block rollback rejected'')
          (reject_if (ms_block snapshot = ms_block current
              \<and> identity_fingerprint snapshot \<noteq> identity_fingerprint current)
            (RuntimeError ''conflicting metagraph snapshot at committed block'')
            (Inr (Some snapshot)))))"

definition metagraph_get :: "metagraph_state \<Rightarrow> MetagraphSnapshot res" where
  "metagraph_get st = (case st of None \<Rightarrow> Inl (RuntimeError ''metagraph has not synchronized'')
                       | Some s \<Rightarrow> Inr s)"

text \<open>
  The cell under any sequence of \<^verbatim>\<open>set\<close> calls: a rejected call leaves it unchanged.
\<close>

inductive metagraph_step :: "metagraph_state \<Rightarrow> metagraph_state \<Rightarrow> bool" where
  accepted: "metagraph_set st snap = Inr st' \<Longrightarrow> metagraph_step st st'"
| refused: "metagraph_set st snap = Inl e \<Longrightarrow> metagraph_step st st"

inductive_cases metagraph_stepE: "metagraph_step st st'"

text \<open>What an admitted snapshot may change: never back in height, never sideways at one height.\<close>

definition extends_view :: "MetagraphSnapshot \<Rightarrow> MetagraphSnapshot \<Rightarrow> bool" where
  "extends_view new old \<longleftrightarrow> ms_network new = ms_network old \<and> ms_netuid new = ms_netuid old
     \<and> ms_block old \<le> ms_block new
     \<and> (ms_block new = ms_block old \<longrightarrow> identity_fingerprint new = identity_fingerprint old)"

lemma extends_view_refl: "extends_view s s"
  by (simp add: extends_view_def)

lemma extends_view_trans: "extends_view c b \<Longrightarrow> extends_view b a \<Longrightarrow> extends_view c a"
  by (auto simp: extends_view_def)

lemma metagraph_set_extends:
  "metagraph_set (Some s) snap = Inr st' \<Longrightarrow> st' = Some snap \<and> extends_view snap s"
  by (auto simp: metagraph_set_def extends_view_def)

lemma metagraph_steps_extend:
  assumes "metagraph_step\<^sup>*\<^sup>* (Some s) st"
  shows "\<exists>t. st = Some t \<and> extends_view t s"
  using assms
proof (induction rule: rtranclp_induct)
  case base
  show ?case by (simp add: extends_view_refl)
next
  case (step st st')
  then obtain t where t: "st = Some t" "extends_view t s" by blast
  from step.hyps(2) show ?case
  proof (cases rule: metagraph_step.cases)
    case (accepted snap)
    then have "st' = Some snap \<and> extends_view snap t"
      using t(1) metagraph_set_extends by blast
    then show ?thesis using t(2) extends_view_trans by blast
  next
    case (refused snap e)
    then show ?thesis using t by blast
  qed
qed

end
