(* ===== verification/WeightPlans.thy ===== *)
theory WeightPlans
  imports ChainView
begin

text \<open>
  Canonical weight plans: the immutable values of \<^verbatim>\<open>weight_plan.py\<close>
  (\<^verbatim>\<open>WeightPlanEntry\<close>, \<^verbatim>\<open>WeightPlanSnapshot\<close>, \<^verbatim>\<open>WeightPlan\<close>), the
  snapshot fingerprint, the conservative expiry, \<^verbatim>\<open>build_weight_plan\<close> and the
  parser of the on-disk document. A class's \<^verbatim>\<open>__post_init__\<close> is a function from raw
  field values to the validated record or the raised exception.
\<close>

section \<open>Constants\<close>

definition MAX_BLOCK :: int where "MAX_BLOCK = 2 ^ 63 - 1"
definition MAX_VERSION_KEY :: int where "MAX_VERSION_KEY = 2 ^ 64 - 1"
definition MAX_WEIGHT_PLAN_NEURONS :: nat where "MAX_WEIGHT_PLAN_NEURONS = 65536"
definition WEIGHT_PLAN_PROTOCOL_VERSION_KEY :: int where "WEIGHT_PLAN_PROTOCOL_VERSION_KEY = 2"
definition WEIGHT_PLAN_SCHEMA :: string where
  "WEIGHT_PLAN_SCHEMA = ''miss.computer/misscomputer-subnet/weight-plan''"
definition SNAPSHOT_IDENTITY_SCHEMA :: string where
  "SNAPSHOT_IDENTITY_SCHEMA = ''miss.computer/misscomputer-subnet/metagraph-identity/v1''"

section \<open>Entries\<close>

record WeightPlanEntry =
  wpe_uid :: int
  wpe_hotkey :: string
  wpe_weight :: rat

text \<open>
  The weight test of \<^verbatim>\<open>__post_init__\<close>: whatever \<^verbatim>\<open>float\<close> cannot convert, is a
  bool or is not a number is rejected with one message.
\<close>

definition unit_weight :: "exn \<Rightarrow> json \<Rightarrow> rat res" where
  "unit_weight err value =
     (case value of
        JInt n \<Rightarrow> (case float_of_int n of
                     Inr (Fin r) \<Rightarrow> reject_if (\<not> (0 < r \<and> r \<le> 1)) err (Inr r)
                   | _ \<Rightarrow> Inl err)
      | JFloat (Fin r) \<Rightarrow> reject_if (\<not> (0 < r \<and> r \<le> 1)) err (Inr r)
      | _ \<Rightarrow> Inl err)"

definition WeightPlanEntry_post_init :: "json \<Rightarrow> json \<Rightarrow> json \<Rightarrow> WeightPlanEntry res" where
  "WeightPlanEntry_post_init uid hotkey weight =
     res_bind (validate_integer ''weight UID'' 0 65535 uid) (\<lambda>u.
     res_bind (validate_text ''weight hotkey'' 256 hotkey) (\<lambda>h.
     res_bind (unit_weight (WeightPlanError ''normalized weight is out of range'') weight) (\<lambda>w.
       Inr \<lparr>wpe_uid = u, wpe_hotkey = h, wpe_weight = w\<rparr>)))"

definition entry_document :: "WeightPlanEntry \<Rightarrow> json" where
  "entry_document e = JObj [(''hotkey'', JStr (wpe_hotkey e)), (''uid'', JInt (wpe_uid e)),
                            (''weight'', JFloat (Fin (wpe_weight e)))]"

section \<open>The authorising snapshot\<close>

text \<open>
  \<^verbatim>\<open>identity_fingerprint\<close> is kept as the raw value: the check below measures its length
  and looks each element up in the hexadecimal alphabet, but never asks whether it is a
  \<^verbatim>\<open>str\<close>.
\<close>

record WeightPlanSnapshot =
  wps_block :: int
  wps_tempo :: int
  wps_epoch :: int
  wps_finalized :: bool
  wps_identity_fingerprint :: json

definition hex_alphabet :: string where
  "hex_alphabet = ''0123456789abcdef''"

text \<open>\<^verbatim>\<open>part in "0123456789abcdef"\<close> is a substring test.\<close>

definition hex_substring :: "string \<Rightarrow> bool" where
  "hex_substring p \<longleftrightarrow> list_ex (\<lambda>i. take (length p) (drop i hex_alphabet) = p) [0..<17]"

definition element_in_hex :: "json \<Rightarrow> bool res" where
  "element_in_hex v = (case v of JStr p \<Rightarrow> Inr (hex_substring p)
     | _ \<Rightarrow> Inl (TypeError ''in <string> requires string as left operand''))"

text \<open>\<^verbatim>\<open>any(character not in hex for character in value)\<close>, which stops at the first hit.\<close>

fun any_not_hex :: "json list \<Rightarrow> bool res" where
  "any_not_hex [] = Inr False"
| "any_not_hex (x # xs) =
     res_bind (element_in_hex x) (\<lambda>inside. if inside then any_not_hex xs else Inr True)"

definition bad_fingerprint :: "json \<Rightarrow> bool res" where
  "bad_fingerprint v =
     (case v of
        JStr s \<Rightarrow> if length s \<noteq> 64 then Inr True else any_not_hex (map (\<lambda>c. JStr [c]) s)
      | JList xs \<Rightarrow> if length xs \<noteq> 64 then Inr True else any_not_hex xs
      | JObj kvs \<Rightarrow> if length kvs \<noteq> 64 then Inr True else any_not_hex (map (\<lambda>kv. JStr (fst kv)) kvs)
      | _ \<Rightarrow> Inl (TypeError ''object has no len()''))"

definition WeightPlanSnapshot_post_init ::
  "json \<Rightarrow> json \<Rightarrow> json \<Rightarrow> json \<Rightarrow> json \<Rightarrow> WeightPlanSnapshot res" where
  "WeightPlanSnapshot_post_init block tempo epoch finalized fingerprint =
     res_bind (validate_integer ''snapshot block'' 0 MAX_BLOCK block) (\<lambda>b.
     res_bind (validate_integer ''snapshot tempo'' 1 MAX_BLOCK tempo) (\<lambda>t.
     res_bind (validate_integer ''snapshot epoch'' 0 MAX_BLOCK epoch) (\<lambda>e.
     reject_if (e \<noteq> b div t) (WeightPlanError ''snapshot epoch does not match block and tempo'')
     (reject_if (finalized \<noteq> JBool True)
        (WeightPlanError ''weight plans require a finalized metagraph snapshot'')
     (res_bind (bad_fingerprint fingerprint) (\<lambda>bad.
      reject_if bad (WeightPlanError ''snapshot identity fingerprint is invalid'')
       (Inr \<lparr>wps_block = b, wps_tempo = t, wps_epoch = e, wps_finalized = True,
             wps_identity_fingerprint = fingerprint\<rparr>)))))))"

definition snapshot_document :: "WeightPlanSnapshot \<Rightarrow> json" where
  "snapshot_document s = JObj [(''block'', JInt (wps_block s)), (''epoch'', JInt (wps_epoch s)),
     (''finalized'', JBool (wps_finalized s)),
     (''identity_fingerprint'', wps_identity_fingerprint s), (''tempo'', JInt (wps_tempo s))]"

section \<open>Plans\<close>

record WeightPlan =
  wp_network :: string
  wp_netuid :: int
  wp_validator_hotkey :: string
  wp_snapshot :: WeightPlanSnapshot
  wp_weights :: "WeightPlanEntry list"
  wp_version_key :: int
  wp_created_block :: int
  wp_expires_at_block :: int
  wp_digest_sha256 :: string

definition plan_unsigned_document :: "WeightPlan \<Rightarrow> json" where
  "plan_unsigned_document p = JObj [
     (''created_block'', JInt (wp_created_block p)),
     (''expires_at_block'', JInt (wp_expires_at_block p)),
     (''netuid'', JInt (wp_netuid p)),
     (''network'', JStr (wp_network p)),
     (''schema'', JStr WEIGHT_PLAN_SCHEMA),
     (''schema_version'', JInt 1),
     (''snapshot'', snapshot_document (wp_snapshot p)),
     (''validator_hotkey'', JStr (wp_validator_hotkey p)),
     (''version_key'', JInt (wp_version_key p)),
     (''weights'', JList (map entry_document (wp_weights p)))]"

definition plan_document :: "WeightPlan \<Rightarrow> json" where
  "plan_document p = (case plan_unsigned_document p of
     JObj kvs \<Rightarrow> JObj (kvs @ [(''digest_sha256'', JStr (wp_digest_sha256 p))]) | d \<Rightarrow> d)"

definition plan_canonical_bytes :: "pylib \<Rightarrow> WeightPlan \<Rightarrow> string" where
  "plan_canonical_bytes L p = dumps L (plan_document p) @ [newline]"

definition conservative_expiry_limit :: "int \<Rightarrow> int \<Rightarrow> int" where
  "conservative_expiry_limit block tempo =
     (let epoch = block div tempo;
          next_epoch_block = (epoch + 1) * tempo;
          quarter_tempo_window = max 1 (tempo div 4)
      in min (min (block + quarter_tempo_window) next_epoch_block) MAX_BLOCK)"

definition WeightPlan_post_init ::
  "pylib \<Rightarrow> json \<Rightarrow> json \<Rightarrow> json \<Rightarrow> WeightPlanSnapshot \<Rightarrow> WeightPlanEntry list \<Rightarrow> json \<Rightarrow> json \<Rightarrow> json
   \<Rightarrow> WeightPlan res" where
  "WeightPlan_post_init L network netuid validator_hotkey snapshot weights version_key created expires =
     res_bind (validate_network_identity ''network'' network) (\<lambda>net.
     res_bind (validate_integer ''netuid'' 0 65535 netuid) (\<lambda>nu.
     res_bind (validate_text ''validator hotkey'' 256 validator_hotkey) (\<lambda>vh.
     res_bind (validate_integer ''version key'' 0 MAX_VERSION_KEY version_key) (\<lambda>vk.
     res_bind (validate_integer ''created block'' 0 MAX_BLOCK created) (\<lambda>cb.
     res_bind (validate_integer ''expiry block'' 0 MAX_BLOCK expires) (\<lambda>eb.
     reject_if (cb \<noteq> wps_block snapshot)
       (WeightPlanError ''created block must equal the finalized snapshot block'')
     (reject_if (\<not> (cb < eb \<and> eb \<le> conservative_expiry_limit (wps_block snapshot) (wps_tempo snapshot)))
       (WeightPlanError ''expiry block exceeds the conservative snapshot window'')
     (reject_if (weights = []) (WeightPlanError ''weight plan must contain at least one positive entry'')
     (reject_if (weights \<noteq> sort_key (\<lambda>e. (wpe_uid e, wpe_hotkey e)) weights)
       (WeightPlanError ''weight plan entries are not canonically ordered'')
     (reject_if (\<not> distinct (map wpe_uid weights)) (WeightPlanError ''weight plan contains duplicate UIDs'')
     (reject_if (\<not> distinct (map wpe_hotkey weights))
       (WeightPlanError ''weight plan contains duplicate hotkeys'')
     (reject_if (vh \<in> wpe_hotkey ` set weights)
       (WeightPlanError ''weight plan cannot assign weight to its validator'')
     (reject_if (\<not> is_close (fsum (map wpe_weight weights)) 1 sum_tolerance)
       (WeightPlanError ''weight plan entries are not normalized'')
     (let plan = \<lparr>wp_network = net, wp_netuid = nu, wp_validator_hotkey = vh, wp_snapshot = snapshot,
                  wp_weights = weights, wp_version_key = vk, wp_created_block = cb,
                  wp_expires_at_block = eb, wp_digest_sha256 = []\<rparr>
      in Inr (plan\<lparr>wp_digest_sha256 := sha_json L (plan_unsigned_document plan)\<rparr>)))))))))))))))"

section \<open>The snapshot fingerprint\<close>

definition validate_snapshot_neuron :: "NeuronRecord \<Rightarrow> (int \<times> string \<times> json) res" where
  "validate_snapshot_neuron n =
     res_bind (validate_integer ''snapshot UID'' 0 65535 (JInt (nr_uid n))) (\<lambda>uid.
     res_bind (validate_text ''snapshot hotkey'' 256 (JStr (nr_hotkey n))) (\<lambda>hotkey.
     reject_if (case nr_tao_stake n of Fin r \<Rightarrow> r < 0 | _ \<Rightarrow> True)
       (WeightPlanError ''snapshot stake is invalid'')
     (res_bind (case nr_axon n of None \<Rightarrow> Inr []
                | Some a \<Rightarrow> validate_text ''snapshot axon identity'' 4096 (JStr a)) (\<lambda>_.
       Inr (uid, hotkey, JObj [
         (''active'', JBool (nr_active n)), (''axon'', jstr_opt (nr_axon n)),
         (''hotkey'', JStr hotkey), (''tao_stake_hex'', JStr (pyfloat_hex (nr_tao_stake n))),
         (''uid'', JInt uid), (''validator_permit'', JBool (nr_validator_permit n))])))))"

definition snapshot_identity_fingerprint :: "pylib \<Rightarrow> MetagraphSnapshot \<Rightarrow> string res" where
  "snapshot_identity_fingerprint L s =
     res_bind (validate_network_identity ''snapshot network'' (JStr (ms_network s))) (\<lambda>network.
     res_bind (validate_integer ''snapshot netuid'' 0 65535 (JInt (ms_netuid s))) (\<lambda>netuid.
     res_bind (validate_integer ''snapshot block'' 0 MAX_BLOCK (JInt (ms_block s))) (\<lambda>block.
     res_bind (validate_integer ''snapshot tempo'' 1 MAX_BLOCK (JInt (ms_tempo s))) (\<lambda>tempo.
     reject_if (\<not> ms_finalized s) (WeightPlanError ''weight plans require a finalized metagraph snapshot'')
     (reject_if (ms_neurons s = [] \<or> length (ms_neurons s) > MAX_WEIGHT_PLAN_NEURONS)
       (WeightPlanError ''snapshot neuron collection is empty or too large'')
     (res_bind (mapM validate_snapshot_neuron (ms_neurons s)) (\<lambda>identities.
      reject_if (\<not> distinct (map fst identities)) (WeightPlanError ''snapshot contains duplicate UIDs'')
     (reject_if (\<not> distinct (map (\<lambda>i. fst (snd i)) identities))
       (WeightPlanError ''snapshot contains duplicate hotkeys'')
     (Inr (sha_json L (JObj [
        (''block'', JInt block), (''epoch'', JInt (block div tempo)), (''finalized'', JBool True),
        (''netuid'', JInt netuid), (''network'', JStr network),
        (''neurons'', JList (map (\<lambda>i. snd (snd i))
           (sort_key (\<lambda>i. (fst i, fst (snd i))) identities))),
        (''schema'', JStr SNAPSHOT_IDENTITY_SCHEMA), (''tempo'', JInt tempo)])))))))))))"

definition conservative_expiry_block :: "MetagraphSnapshot \<Rightarrow> int res" where
  "conservative_expiry_block s =
     res_bind (validate_integer ''snapshot block'' 0 MAX_BLOCK (JInt (ms_block s))) (\<lambda>block.
     res_bind (validate_integer ''snapshot tempo'' 1 MAX_BLOCK (JInt (ms_tempo s))) (\<lambda>tempo.
     (let expiry = conservative_expiry_limit block tempo
      in reject_if (expiry \<le> block)
           (WeightPlanError ''snapshot is too close to the supported block limit'') (Inr expiry))))"

section \<open>Building a plan\<close>

definition weight_rows :: "json \<Rightarrow> json list res" where
  "weight_rows value =
     (case value of
        JList xs \<Rightarrow> reject_if (xs = [] \<or> length xs > MAX_WEIGHT_PLAN_NEURONS)
                      (WeightPlanError ''weight rows are empty or too large'') (Inr xs)
      | _ \<Rightarrow> Inl (WeightPlanError ''weight rows must be a JSON array''))"

definition row_weight :: "json \<Rightarrow> rat res" where
  "row_weight value =
     res_bind (case value of JInt n \<Rightarrow> float_of_int n | JFloat f \<Rightarrow> Inr f
               | _ \<Rightarrow> Inl (WeightPlanError ''weight value is not a JSON number'')) (\<lambda>f.
       case f of
         Fin r \<Rightarrow> reject_if (\<not> (0 \<le> r \<and> r \<le> 1))
                    (WeightPlanError ''weight value is non-finite or out of range'') (Inr r)
       | _ \<Rightarrow> Inl (WeightPlanError ''weight value is non-finite or out of range''))"

text \<open>
  One iteration of the row loop; the state is the set of hotkeys seen (as a list) and the
  positive targets in row order.
\<close>

type_synonym plan_rows_state = "string list \<times> (int \<times> string \<times> rat) list"

definition plan_row_step ::
  "(string \<rightharpoonup> NeuronRecord) \<Rightarrow> string \<Rightarrow> plan_rows_state \<Rightarrow> json \<Rightarrow> plan_rows_state res" where
  "plan_row_step dict validator_hotkey st item =
     (case item of
        JObj kvs \<Rightarrow>
          res_bind (validate_text ''weight hotkey'' 256 (jget kvs ''miner_hotkey'')) (\<lambda>hotkey.
          reject_if (hotkey \<in> set (fst st)) (WeightPlanError ''weight rows contain a duplicate hotkey'')
          (res_bind (row_weight (jget kvs ''weight'')) (\<lambda>weight.
           case dict hotkey of
             None \<Rightarrow> Inl (WeightPlanError ''weight hotkey is absent from the finalized snapshot'')
           | Some neuron \<Rightarrow>
               reject_if (hotkey = validator_hotkey \<or> \<not> nr_active neuron)
                 (WeightPlanError ''weight target is not an active miner'')
                 (Inr (hotkey # fst st,
                       if weight > 0 then snd st @ [(nr_uid neuron, hotkey, weight)] else snd st)))))
      | _ \<Rightarrow> Inl (WeightPlanError ''weight row is not an object''))"

definition plan_entries :: "(int \<times> string \<times> rat) list \<Rightarrow> WeightPlanEntry list res" where
  "plan_entries positive =
     mapM (\<lambda>((uid, hotkey, _), w). WeightPlanEntry_post_init (JInt uid) (JStr hotkey) (JFloat (Fin w)))
       (zip positive (normalize_weights (map (\<lambda>p. snd (snd p)) positive)))"

definition build_weight_plan ::
  "pylib \<Rightarrow> MetagraphSnapshot \<Rightarrow> string \<Rightarrow> json \<Rightarrow> int \<Rightarrow> WeightPlan res" where
  "build_weight_plan L snapshot validator_hotkey rows version_key =
     res_bind (validate_text ''validator hotkey'' 256 (JStr validator_hotkey)) (\<lambda>vh.
     res_bind (snapshot_identity_fingerprint L snapshot) (\<lambda>fingerprint.
     reject_if (case hotkey_dict snapshot vh of None \<Rightarrow> True
                | Some v \<Rightarrow> \<not> nr_active v \<or> \<not> nr_validator_permit v)
       (WeightPlanError ''validator hotkey is absent, inactive, or lacks a permit in the snapshot'')
     (res_bind (weight_rows rows) (\<lambda>items.
      res_bind (foldM (plan_row_step (hotkey_dict snapshot) vh) ([], []) items) (\<lambda>(_, found).
      reject_if (found = []) (WeightPlanError ''weight rows contain no positive targets'')
     (let positive = sort_key (\<lambda>p. (fst p, fst (snd p))) found
      in reject_if (\<not> distinct (map fst positive)) (WeightPlanError ''weight rows resolve to duplicate UIDs'')
     (reject_if (\<not> is_finite (to_double (sum_list (map (\<lambda>p. snd (snd p)) positive)))
          \<or> fsum (map (\<lambda>p. snd (snd p)) positive) \<le> 0) (WeightPlanError ''weight total is invalid'')
     (res_bind (plan_entries positive) (\<lambda>entries.
      res_bind (WeightPlanSnapshot_post_init (JInt (ms_block snapshot)) (JInt (ms_tempo snapshot))
          (JInt (ms_epoch snapshot)) (JBool (ms_finalized snapshot)) (JStr fingerprint)) (\<lambda>plan_snapshot.
      res_bind (conservative_expiry_block snapshot) (\<lambda>expiry.
        WeightPlan_post_init L (JStr (ms_network snapshot)) (JInt (ms_netuid snapshot)) (JStr vh)
          plan_snapshot entries (JInt version_key) (JInt (ms_block snapshot)) (JInt expiry))))))))))))"

definition eligible_weight_targets :: "MetagraphSnapshot \<Rightarrow> string \<Rightarrow> (int \<times> string) set res" where
  "eligible_weight_targets snapshot validator_hotkey =
     res_bind (validate_text ''validator hotkey'' 256 (JStr validator_hotkey)) (\<lambda>vh.
     res_bind (mapM (\<lambda>n. res_bind (validate_snapshot_neuron n) (\<lambda>(uid, hotkey, _). Inr (n, uid, hotkey)))
         (ms_neurons snapshot)) (\<lambda>judged.
       Inr (set (map snd (filter (\<lambda>(n, uid, hotkey). hotkey \<noteq> vh \<and> nr_active n) judged)))))"

section \<open>Parsing the on-disk document\<close>

definition plan_keys :: "string list" where
  "plan_keys = [''created_block'', ''digest_sha256'', ''expires_at_block'', ''netuid'', ''network'',
     ''schema'', ''schema_version'', ''snapshot'', ''validator_hotkey'', ''version_key'', ''weights'']"

definition snapshot_keys :: "string list" where
  "snapshot_keys = [''block'', ''epoch'', ''finalized'', ''identity_fingerprint'', ''tempo'']"

definition load_document :: "pylib \<Rightarrow> exn \<Rightarrow> exn \<Rightarrow> string \<Rightarrow> json res" where
  "load_document L duplicate malformed rendered =
     (if \<not> is_ascii rendered then Inl malformed
      else case loads L rendered of
             Inl DuplicateKey \<Rightarrow> Inl duplicate
           | Inl Malformed \<Rightarrow> Inl malformed
           | Inr document \<Rightarrow> Inr document)"

definition parse_plan_entry :: "json \<Rightarrow> WeightPlanEntry res" where
  "parse_plan_entry raw =
     res_bind (exact_object (WeightPlanError ''weight plan entry has an unsupported shape'')
         [''hotkey'', ''uid'', ''weight''] raw) (\<lambda>entry.
       WeightPlanEntry_post_init (jget entry ''uid'') (jget entry ''hotkey'') (jget entry ''weight''))"

definition parse_plan_snapshot :: "(string \<times> json) list \<Rightarrow> WeightPlanSnapshot res" where
  "parse_plan_snapshot doc =
     WeightPlanSnapshot_post_init (jget doc ''block'') (jget doc ''tempo'') (jget doc ''epoch'')
       (jget doc ''finalized'') (jget doc ''identity_fingerprint'')"

definition parse_plan_document :: "pylib \<Rightarrow> json \<Rightarrow> WeightPlan res" where
  "parse_plan_document L document =
     res_bind (exact_object (WeightPlanError ''weight plan has an unsupported shape'') plan_keys document) (\<lambda>root.
     reject_if (jget root ''schema'' \<noteq> JStr WEIGHT_PLAN_SCHEMA)
       (WeightPlanError ''weight plan schema is unsupported'')
     (reject_if (\<not> py_eq_int (jget root ''schema_version'') 1)
       (WeightPlanError ''weight plan schema version is unsupported'')
     (res_bind (exact_object (WeightPlanError ''weight plan snapshot has an unsupported shape'')
         snapshot_keys (jget root ''snapshot'')) (\<lambda>sdoc.
      res_bind (weight_rows (jget root ''weights'')) (\<lambda>raw_weights.
      res_bind (mapM parse_plan_entry raw_weights) (\<lambda>entries.
      res_bind (parse_plan_snapshot sdoc) (\<lambda>snapshot.
      res_bind (WeightPlan_post_init L (jget root ''network'') (jget root ''netuid'')
          (jget root ''validator_hotkey'') snapshot entries (jget root ''version_key'')
          (jget root ''created_block'') (jget root ''expires_at_block'')) (\<lambda>plan.
      reject_if (jget root ''digest_sha256'' \<noteq> JStr (wp_digest_sha256 plan))
        (WeightPlanError ''weight plan digest does not match its canonical document'')
        (Inr plan)))))))))"

definition parse_weight_plan :: "pylib \<Rightarrow> string \<Rightarrow> WeightPlan res" where
  "parse_weight_plan L rendered =
     res_bind (load_document L (WeightPlanError ''weight plan contains a duplicate JSON key'')
         (WeightPlanError ''weight plan is not valid canonical JSON'') rendered) (\<lambda>document.
     res_bind (parse_plan_document L document) (\<lambda>plan.
     reject_if (rendered \<noteq> plan_canonical_bytes L plan)
       (WeightPlanError ''weight plan bytes are not the exact canonical document'')
       (Inr plan)))"

section \<open>What construction establishes\<close>

definition entry_ok :: "WeightPlanEntry \<Rightarrow> bool" where
  "entry_ok e \<longleftrightarrow> 0 \<le> wpe_uid e \<and> wpe_uid e \<le> 65535 \<and> \<not> bad_text 256 (wpe_hotkey e)
     \<and> 0 < wpe_weight e \<and> wpe_weight e \<le> 1"

definition snapshot_ok :: "WeightPlanSnapshot \<Rightarrow> bool" where
  "snapshot_ok s \<longleftrightarrow> 0 \<le> wps_block s \<and> wps_block s \<le> MAX_BLOCK \<and> 1 \<le> wps_tempo s
     \<and> wps_tempo s \<le> MAX_BLOCK \<and> wps_epoch s = wps_block s div wps_tempo s \<and> wps_finalized s
     \<and> bad_fingerprint (wps_identity_fingerprint s) = Inr False"

text \<open>
  The well-formedness invariant of a plan: identities in range, canonical strictly ordered
  targets, no weight to the validator itself, weights that sum to one in double
  arithmetic, an expiry inside the conservative window, and the self digest.
\<close>

definition plan_ok :: "pylib \<Rightarrow> WeightPlan \<Rightarrow> bool" where
  "plan_ok L p \<longleftrightarrow> network_ok (wp_network p) \<and> 0 \<le> wp_netuid p \<and> wp_netuid p \<le> 65535
     \<and> \<not> bad_text 256 (wp_validator_hotkey p) \<and> 0 \<le> wp_version_key p \<and> wp_version_key p \<le> MAX_VERSION_KEY
     \<and> wp_created_block p = wps_block (wp_snapshot p) \<and> 0 \<le> wp_created_block p
     \<and> wp_created_block p < wp_expires_at_block p
     \<and> wp_expires_at_block p \<le> conservative_expiry_limit (wps_block (wp_snapshot p)) (wps_tempo (wp_snapshot p))
     \<and> wp_weights p \<noteq> [] \<and> sorted_wrt (<) (map wpe_uid (wp_weights p))
     \<and> distinct (map wpe_hotkey (wp_weights p))
     \<and> wp_validator_hotkey p \<notin> wpe_hotkey ` set (wp_weights p)
     \<and> is_close (fsum (map wpe_weight (wp_weights p))) 1 sum_tolerance
     \<and> wp_digest_sha256 p = sha_json L (plan_unsigned_document p)"

lemma sort_by_uid_iff:
  assumes "distinct (map f xs)"
  shows "xs = sort_key (\<lambda>e. (f e, g e)) xs \<longleftrightarrow> sorted_wrt (<) (map (f :: 'a \<Rightarrow> 'b::linorder) xs)"
proof
  assume "xs = sort_key (\<lambda>e. (f e, g e)) xs"
  then have "sorted (map (\<lambda>e. (f e, g e)) xs)" by (metis sorted_sort_key)
  then have "sorted (map f xs)"
    by (auto simp: sorted_map less_eq_prod_def elim!: sorted_wrt_mono_rel [rotated])
  then show "sorted_wrt (<) (map f xs)" using assms by (simp add: strict_sorted_iff)
next
  assume "sorted_wrt (<) (map f xs)"
  then have "sorted (map (\<lambda>e. (f e, g e)) xs)"
    by (auto simp: sorted_map sorted_wrt_map less_eq_prod_def elim!: sorted_wrt_mono_rel [rotated])
  then show "xs = sort_key (\<lambda>e. (f e, g e)) xs" by (metis sorted_sort_id sort_key_id_if_sorted)
qed

text \<open>The ordering and the duplicate check of a canonical list, as the constructors make them.\<close>

lemma canonical_order_iff [canon_simps]:
  "(xs = sort_key (\<lambda>e. (f e, g e)) xs \<and> distinct (map f xs) \<and> R)
    \<longleftrightarrow> (sorted_wrt (<) (map (f :: 'a \<Rightarrow> 'b::linorder) xs) \<and> R)"
  using sort_by_uid_iff [of f xs g] by (auto simp: strict_sorted_iff)

lemma unit_weight_Inr [simp, res_simps]:
  "unit_weight err v = Inr w \<longleftrightarrow> 0 < w \<and> w \<le> 1 \<and>
     (v = JFloat (Fin w) \<or> (\<exists>n. v = JInt n \<and> float_of_int n = Inr (Fin w)))"
  unfolding unit_weight_def by (auto split: json.splits pyfloat.splits sum.splits)

lemma WeightPlanEntry_Inr:
  "WeightPlanEntry_post_init u h w = Inr e \<Longrightarrow> entry_ok e"
  by (auto simp: WeightPlanEntry_post_init_def entry_ok_def)

lemma WeightPlanEntry_total:
  "entry_ok e \<Longrightarrow> WeightPlanEntry_post_init (JInt (wpe_uid e)) (JStr (wpe_hotkey e))
     (JFloat (Fin (wpe_weight e))) = Inr e"
  by (simp add: WeightPlanEntry_post_init_def entry_ok_def)

lemma int_div_less: "0 < t \<Longrightarrow> b < q * t \<Longrightarrow> b div t < (q::int)"
proof (rule ccontr)
  assume t: "0 < t" and b: "b < q * t" and "\<not> b div t < q"
  then have "q * t \<le> (b div t) * t" by (intro mult_right_mono) auto
  with b t div_mult_mod_eq [of b t] pos_mod_sign [of t b] show False by linarith
qed

lemma div_le_bound: "0 \<le> b \<Longrightarrow> 1 \<le> t \<Longrightarrow> b \<le> m \<Longrightarrow> b div t \<le> (m::int)"
  using zdiv_mono2 [of b 1 t] by simp

lemma WeightPlanSnapshot_Inr:
  "WeightPlanSnapshot_post_init b t e f fp = Inr s \<longleftrightarrow>
     b = JInt (wps_block s) \<and> t = JInt (wps_tempo s) \<and> e = JInt (wps_epoch s) \<and> f = JBool True
     \<and> fp = wps_identity_fingerprint s \<and> snapshot_ok s"
  unfolding WeightPlanSnapshot_post_init_def snapshot_ok_def
  by (cases s) (auto simp: pos_imp_zdiv_nonneg_iff div_le_bound)

lemma expiry_limit_max:
  "b < e \<Longrightarrow> e \<le> conservative_expiry_limit b t \<Longrightarrow> b \<le> MAX_BLOCK \<and> e \<le> MAX_BLOCK"
  by (simp add: conservative_expiry_limit_def Let_def)

lemma WeightPlan_Inr:
  "WeightPlan_post_init L net nu vh snap ws vk cb eb = Inr p \<longleftrightarrow>
     net = JStr (wp_network p) \<and> nu = JInt (wp_netuid p) \<and> vh = JStr (wp_validator_hotkey p)
     \<and> snap = wp_snapshot p \<and> ws = wp_weights p \<and> vk = JInt (wp_version_key p)
     \<and> cb = JInt (wp_created_block p) \<and> eb = JInt (wp_expires_at_block p) \<and> plan_ok L p"
  unfolding WeightPlan_post_init_def plan_ok_def Let_def
  by (cases p, simp add: validate_network_identity_Inr canonical_order_iff, rule iffI)
    (elim conjE exE, simp add: plan_unsigned_document_def,
     clarsimp, frule (1) expiry_limit_max, simp add: plan_unsigned_document_def)

section \<open>The snapshot fingerprint\<close>

definition neuron_ok :: "NeuronRecord \<Rightarrow> bool" where
  "neuron_ok n \<longleftrightarrow> 0 \<le> nr_uid n \<and> nr_uid n \<le> 65535 \<and> \<not> bad_text 256 (nr_hotkey n)
     \<and> (case nr_tao_stake n of Fin r \<Rightarrow> 0 \<le> r | _ \<Rightarrow> False)
     \<and> (case nr_axon n of None \<Rightarrow> True | Some a \<Rightarrow> \<not> bad_text 4096 a)"

definition view_ok :: "MetagraphSnapshot \<Rightarrow> bool" where
  "view_ok s \<longleftrightarrow> network_ok (ms_network s) \<and> 0 \<le> ms_netuid s \<and> ms_netuid s \<le> 65535
     \<and> 0 \<le> ms_block s \<and> ms_block s \<le> MAX_BLOCK \<and> 1 \<le> ms_tempo s \<and> ms_tempo s \<le> MAX_BLOCK
     \<and> ms_finalized s \<and> ms_neurons s \<noteq> [] \<and> length (ms_neurons s) \<le> MAX_WEIGHT_PLAN_NEURONS
     \<and> list_all neuron_ok (ms_neurons s) \<and> distinct (map nr_uid (ms_neurons s))
     \<and> distinct (map nr_hotkey (ms_neurons s))"

definition neuron_document :: "NeuronRecord \<Rightarrow> json" where
  "neuron_document n = JObj [
     (''active'', JBool (nr_active n)), (''axon'', jstr_opt (nr_axon n)),
     (''hotkey'', JStr (nr_hotkey n)), (''tao_stake_hex'', JStr (pyfloat_hex (nr_tao_stake n))),
     (''uid'', JInt (nr_uid n)), (''validator_permit'', JBool (nr_validator_permit n))]"

definition view_document :: "MetagraphSnapshot \<Rightarrow> json" where
  "view_document s = JObj [
     (''block'', JInt (ms_block s)), (''epoch'', JInt (ms_block s div ms_tempo s)),
     (''finalized'', JBool True), (''netuid'', JInt (ms_netuid s)), (''network'', JStr (ms_network s)),
     (''neurons'', JList (map neuron_document (sort_key (\<lambda>n. (nr_uid n, nr_hotkey n)) (ms_neurons s)))),
     (''schema'', JStr SNAPSHOT_IDENTITY_SCHEMA), (''tempo'', JInt (ms_tempo s))]"

lemma validate_snapshot_neuron_Inr:
  "validate_snapshot_neuron n = Inr i \<longleftrightarrow> neuron_ok n \<and> i = (nr_uid n, nr_hotkey n, neuron_document n)"
  unfolding validate_snapshot_neuron_def neuron_ok_def neuron_document_def
  by (cases "nr_tao_stake n"; cases "nr_axon n") (auto simp: not_less)

lemma validate_neurons_Inr:
  "mapM validate_snapshot_neuron ns = Inr is \<longleftrightarrow>
     list_all neuron_ok ns \<and> is = map (\<lambda>n. (nr_uid n, nr_hotkey n, neuron_document n)) ns"
  by (induction ns arbitrary: "is") (auto simp: validate_snapshot_neuron_Inr)

lemma sort_key_map: "sort_key f (map g xs) = map g (sort_key (\<lambda>x. f (g x)) xs)"
proof -
  have insort: "insort_key f (g x) (map g ys) = map g (insort_key (\<lambda>x. f (g x)) x ys)" for x ys
    by (induction ys) auto
  show ?thesis by (induction xs) (simp_all add: insort)
qed

lemma fingerprint_Inr [res_simps]:
  "snapshot_identity_fingerprint L s = Inr f \<longleftrightarrow> view_ok s \<and> f = sha_json L (view_document s)"
  unfolding snapshot_identity_fingerprint_def view_ok_def view_document_def
  by (auto simp: validate_network_identity_Inr validate_neurons_Inr comp_def not_less sort_key_map)

lemma fingerprint_ok [simp]:
  "view_ok s \<Longrightarrow> snapshot_identity_fingerprint L s = Inr (sha_json L (view_document s))"
  by (simp add: fingerprint_Inr)

lemma view_hotkey:
  assumes "view_ok s"
  shows "hotkey_dict s k = by_hotkey s k"
  using assms by (simp add: view_ok_def hotkey_dict_by_hotkey)

lemma view_neuron_ok: "view_ok s \<Longrightarrow> hotkey_dict s k = Some n \<Longrightarrow> neuron_ok n \<and> nr_hotkey n = k"
  by (auto simp: view_ok_def list_all_iff dest: hotkey_dict_Some)

lemma view_uid_inj:
  assumes "view_ok s" and "hotkey_dict s h = Some m" and "hotkey_dict s k = Some n" and "nr_uid m = nr_uid n"
  shows "h = k"
proof -
  have "m \<in> set (ms_neurons s) \<and> n \<in> set (ms_neurons s) \<and> inj_on nr_uid (set (ms_neurons s))"
    using assms by (auto simp: view_ok_def distinct_map dest: hotkey_dict_Some)
  with assms(4) have "m = n" by (auto dest: inj_onD)
  with assms(2,3) show ?thesis by (auto dest: hotkey_dict_Some)
qed

lemma view_document_perm:
  assumes "mset (ms_neurons s) = mset (ms_neurons t)" and "distinct (map nr_uid (ms_neurons s))"
    and "ms_network t = ms_network s" and "ms_netuid t = ms_netuid s"
    and "ms_block t = ms_block s" and "ms_tempo t = ms_tempo s"
  shows "view_document t = view_document s"
proof -
  have "inj_on (\<lambda>n. (nr_uid n, nr_hotkey n)) (set (ms_neurons s))"
    using assms(2) by (auto simp: distinct_map intro!: inj_onI dest: inj_onD)
  then have "sort_key (\<lambda>n. (nr_uid n, nr_hotkey n)) (ms_neurons s)
      = sort_key (\<lambda>n. (nr_uid n, nr_hotkey n)) (ms_neurons t)"
    by (rule sort_key_perm [OF assms(1)])
  then show ?thesis using assms by (simp add: view_document_def)
qed

section \<open>The expiry window\<close>

lemma expiry_limit_bounds:
  assumes "0 \<le> b" and "b < MAX_BLOCK" and "1 \<le> t"
  shows "b < conservative_expiry_limit b t" and "conservative_expiry_limit b t \<le> b + max 1 (t div 4)"
    and "conservative_expiry_limit b t \<le> (b div t + 1) * t"
proof -
  have "b < (b div t + 1) * t"
    using assms div_mult_mod_eq [of b t] pos_mod_bound [of t b] unfolding distrib_right by linarith
  then show "b < conservative_expiry_limit b t"
    using assms by (simp add: conservative_expiry_limit_def Let_def)
qed (simp_all add: conservative_expiry_limit_def Let_def min_def)

lemma conservative_expiry_Inr:
  "conservative_expiry_block s = Inr e \<longleftrightarrow> 0 \<le> ms_block s \<and> ms_block s \<le> MAX_BLOCK \<and> 1 \<le> ms_tempo s
     \<and> ms_tempo s \<le> MAX_BLOCK \<and> e = conservative_expiry_limit (ms_block s) (ms_tempo s) \<and> ms_block s < e"
  unfolding conservative_expiry_block_def by (auto simp: Let_def)

section \<open>The row loop\<close>

text \<open>What a row says: the hotkey and the weight as a double in the unit interval.\<close>

definition row_value :: "json \<Rightarrow> string \<times> rat \<Rightarrow> bool" where
  "row_value item r \<longleftrightarrow> (\<exists>kvs. item = JObj kvs \<and> jget kvs ''miner_hotkey'' = JStr (fst r)
     \<and> row_weight (jget kvs ''weight'') = Inr (snd r))"

definition target_ok :: "(string \<rightharpoonup> NeuronRecord) \<Rightarrow> string \<Rightarrow> string \<times> rat \<Rightarrow> bool" where
  "target_ok dict vh r \<longleftrightarrow> \<not> bad_text 256 (fst r) \<and> fst r \<noteq> vh
     \<and> (case dict (fst r) of None \<Rightarrow> False | Some n \<Rightarrow> nr_active n)"

definition positive_targets :: "(string \<rightharpoonup> NeuronRecord) \<Rightarrow> (string \<times> rat) list \<Rightarrow> (int \<times> string \<times> rat) list" where
  "positive_targets dict rs = map (\<lambda>(h, w). (nr_uid (the (dict h)), h, w)) (filter (\<lambda>r. snd r > 0) rs)"

lemma row_weight_Inr:
  "row_weight v = Inr w \<longleftrightarrow> 0 \<le> w \<and> w \<le> 1
     \<and> (v = JFloat (Fin w) \<or> (\<exists>n. v = JInt n \<and> float_of_int n = Inr (Fin w)))"
proof -
  have unit: "(case f of Fin r \<Rightarrow> reject_if (P r) e (Inr r) | _ \<Rightarrow> Inl e) = Inr w
      \<longleftrightarrow> f = Fin w \<and> \<not> P w" for f P and e :: exn
    by (cases f) auto
  show ?thesis unfolding row_weight_def by (cases v) (auto simp: unit)
qed

lemma target_ok_iff:
  "target_ok dict vh r \<longleftrightarrow> \<not> bad_text 256 (fst r) \<and> fst r \<noteq> vh
     \<and> (\<exists>n. dict (fst r) = Some n \<and> nr_active n)"
  by (simp add: target_ok_def split: option.splits)

lemma row_weight_float [simp]: "0 \<le> r \<Longrightarrow> r \<le> 1 \<Longrightarrow> row_weight (JFloat (Fin r)) = Inr r"
  by (simp add: row_weight_def)

lemma plan_row_step_Inr:
  "plan_row_step dict vh (seen, found) item = Inr st \<longleftrightarrow>
     (\<exists>r. row_value item r \<and> target_ok dict vh r \<and> fst r \<notin> set seen
        \<and> st = (fst r # seen, found @ positive_targets dict [r]))"
proof -
  have target: "(case dict h of None \<Rightarrow> Inl e
      | Some n \<Rightarrow> reject_if (h = vh \<or> \<not> nr_active n) e' (Inr (k n))) = Inr st
      \<longleftrightarrow> h \<noteq> vh \<and> (\<exists>n. dict h = Some n \<and> nr_active n \<and> st = k n)" for h and e e' :: exn and k
    by (cases "dict h") auto
  show ?thesis
    unfolding plan_row_step_def row_value_def target_ok_iff positive_targets_def
    by (cases item) (auto simp: target)
qed

lemma plan_rows_Inr:
  "foldM (plan_row_step dict vh) (seen, found) items = Inr st \<longleftrightarrow>
     (\<exists>rs. list_all2 row_value items rs \<and> list_all (target_ok dict vh) rs
        \<and> distinct (map fst rs) \<and> set (map fst rs) \<inter> set seen = {}
        \<and> st = (rev (map fst rs) @ seen, found @ positive_targets dict rs))"
proof (induction items arbitrary: seen found)
  case Nil
  show ?case by (auto simp: positive_targets_def)
next
  case (Cons item items)
  show ?case (is "?l \<longleftrightarrow> ?r")
  proof
    assume ?l
    then obtain r rs where "row_value item r" "target_ok dict vh r" "fst r \<notin> set seen"
      "list_all2 row_value items rs" "list_all (target_ok dict vh) rs" "distinct (map fst rs)"
      "set (map fst rs) \<inter> set (fst r # seen) = {}"
      "st = (rev (map fst rs) @ fst r # seen, found @ positive_targets dict [r] @ positive_targets dict rs)"
      by (auto simp: plan_row_step_Inr Cons.IH)
    then show ?r by (intro exI [of _ "r # rs"]) (auto simp: positive_targets_def)
  next
    assume ?r
    then obtain r rs where "row_value item r" "target_ok dict vh r" "fst r \<notin> set seen"
      "list_all2 row_value items rs" "list_all (target_ok dict vh) rs" "distinct (map fst rs)"
      "set (map fst rs) \<inter> set (fst r # seen) = {}"
      "st = (rev (map fst rs) @ fst r # seen, found @ positive_targets dict [r] @ positive_targets dict rs)"
      by (auto simp: list_all2_Cons1 positive_targets_def)
    then have "plan_row_step dict vh (seen, found) item
          = Inr (fst r # seen, found @ positive_targets dict [r])"
      and "foldM (plan_row_step dict vh) (fst r # seen, found @ positive_targets dict [r]) items = Inr st"
      unfolding plan_row_step_Inr Cons.IH by (blast, intro exI [of _ rs]) auto
    then show ?l by simp
  qed
qed

lemma positive_targets_uids:
  assumes "view_ok s" and "distinct (map fst rs)" and "list_all (target_ok (hotkey_dict s) vh) rs"
  shows "distinct (map fst (positive_targets (hotkey_dict s) rs))"
proof -
  let ?u = "\<lambda>r. nr_uid (the (hotkey_dict s (fst r)))"
  have "inj_on ?u (set rs)"
  proof (rule inj_onI)
    fix a b assume ab: "a \<in> set rs" "b \<in> set rs" "?u a = ?u b"
    from assms(3) ab(1,2) obtain m n
      where "hotkey_dict s (fst a) = Some m" "hotkey_dict s (fst b) = Some n"
      unfolding list_all_iff target_ok_iff by blast
    with ab(3) have "fst a = fst b" using view_uid_inj [OF assms(1)] by simp
    then show "a = b" using assms(2) ab(1,2) by (auto simp: distinct_map dest: inj_onD)
  qed
  then have "distinct (map ?u (filter (\<lambda>r. snd r > 0) rs))"
    using assms(2) by (auto simp: distinct_map intro: inj_on_subset)
  moreover have "map fst (positive_targets (hotkey_dict s) rs) = map ?u (filter (\<lambda>r. snd r > 0) rs)"
    by (auto simp: positive_targets_def)
  ultimately show ?thesis by simp
qed

section \<open>Building a plan: soundness and success\<close>

definition validator_permitted :: "MetagraphSnapshot \<Rightarrow> string \<Rightarrow> bool" where
  "validator_permitted s vh \<longleftrightarrow> (case hotkey_dict s vh of None \<Rightarrow> False
     | Some v \<Rightarrow> nr_active v \<and> nr_validator_permit v)"

definition sorted_targets :: "MetagraphSnapshot \<Rightarrow> (string \<times> rat) list \<Rightarrow> (int \<times> string \<times> rat) list" where
  "sorted_targets s rs = sort_key (\<lambda>p. (fst p, fst (snd p))) (positive_targets (hotkey_dict s) rs)"

text \<open>
  The plan that a list of judged rows determines: the positive rows in UID order, with
  the normalised double weights.
\<close>

definition plan_for :: "pylib \<Rightarrow> MetagraphSnapshot \<Rightarrow> string \<Rightarrow> int \<Rightarrow> (string \<times> rat) list \<Rightarrow> WeightPlan \<Rightarrow> bool" where
  "plan_for L s vh vk rs p \<longleftrightarrow>
     wp_network p = ms_network s \<and> wp_netuid p = ms_netuid s \<and> wp_validator_hotkey p = vh
     \<and> wp_version_key p = vk \<and> wp_created_block p = ms_block s
     \<and> wp_expires_at_block p = conservative_expiry_limit (ms_block s) (ms_tempo s)
     \<and> wp_snapshot p = \<lparr>wps_block = ms_block s, wps_tempo = ms_tempo s,
          wps_epoch = ms_block s div ms_tempo s, wps_finalized = True,
          wps_identity_fingerprint = JStr (sha_json L (view_document s))\<rparr>
     \<and> map (\<lambda>e. (wpe_uid e, wpe_hotkey e)) (wp_weights p)
          = map (\<lambda>t. (fst t, fst (snd t))) (sorted_targets s rs)
     \<and> map wpe_weight (wp_weights p) = normalize_weights (map (\<lambda>t. snd (snd t)) (sorted_targets s rs))"

definition rows_judged :: "MetagraphSnapshot \<Rightarrow> string \<Rightarrow> json \<Rightarrow> (string \<times> rat) list \<Rightarrow> bool" where
  "rows_judged s vh rows rs \<longleftrightarrow> (\<exists>items. rows = JList items \<and> items \<noteq> []
     \<and> length items \<le> MAX_WEIGHT_PLAN_NEURONS \<and> list_all2 row_value items rs)
     \<and> list_all (target_ok (hotkey_dict s) vh) rs \<and> distinct (map fst rs)"

lemma weight_rows_Inr [simp]:
  "weight_rows v = Inr xs \<longleftrightarrow> v = JList xs \<and> xs \<noteq> [] \<and> length xs \<le> MAX_WEIGHT_PLAN_NEURONS"
  by (cases v) (auto simp: weight_rows_def not_less)

lemma plan_entries_Inr:
  assumes "plan_entries ts = Inr es"
  shows "map (\<lambda>e. (wpe_uid e, wpe_hotkey e)) es = map (\<lambda>t. (fst t, fst (snd t))) ts"
    and "map wpe_weight es = normalize_weights (map (\<lambda>t. snd (snd t)) ts)"
proof -
  let ?ws = "normalize_weights (map (\<lambda>t. snd (snd t)) ts)"
  let ?f = "\<lambda>((uid, hotkey, _), w). WeightPlanEntry_post_init (JInt uid) (JStr hotkey) (JFloat (Fin w))"
  have es: "mapM ?f (zip ts ?ws) = Inr es" using assms by (simp add: plan_entries_def)
  have "map (\<lambda>e. (wpe_uid e, wpe_hotkey e)) es = map (\<lambda>q. (fst (fst q), fst (snd (fst q)))) (zip ts ?ws)"
    by (rule mapM_map_of [OF es]) (auto simp: WeightPlanEntry_post_init_def)
  also have "\<dots> = map (\<lambda>t. (fst t, fst (snd t))) (map fst (zip ts ?ws))" by (simp only: map_map comp_def)
  finally show "map (\<lambda>e. (wpe_uid e, wpe_hotkey e)) es = map (\<lambda>t. (fst t, fst (snd t))) ts"
    by (simp only: map_fst_zip normalize_length length_map)
  have "map wpe_weight es = map snd (zip ts ?ws)"
    by (rule mapM_map_of [OF es]) (auto simp: WeightPlanEntry_post_init_def)
  then show "map wpe_weight es = ?ws" by simp
qed

lemma build_weight_plan_Inr:
  assumes "build_weight_plan L s vh rows vk = Inr p"
  obtains rs where "view_ok s" and "validator_permitted s vh" and "\<not> bad_text 256 vh"
    and "rows_judged s vh rows rs" and "plan_ok L p" and "plan_for L s vh vk rs p"
    and "list_all entry_ok (wp_weights p)"
proof -
  from assms obtain items rs es ps e where view: "view_ok s" and vh: "\<not> bad_text 256 vh"
    and perm: "validator_permitted s vh" and rows: "rows = JList items" "items \<noteq> []"
      "length items \<le> MAX_WEIGHT_PLAN_NEURONS" "list_all2 row_value items rs"
    and rs: "list_all (target_ok (hotkey_dict s) vh) rs" "distinct (map fst rs)"
    and es: "plan_entries (sorted_targets s rs) = Inr es"
    and ps: "WeightPlanSnapshot_post_init (JInt (ms_block s)) (JInt (ms_tempo s)) (JInt (ms_epoch s))
        (JBool (ms_finalized s)) (JStr (sha_json L (view_document s))) = Inr ps"
    and e: "conservative_expiry_block s = Inr e"
    and p: "WeightPlan_post_init L (JStr (ms_network s)) (JInt (ms_netuid s)) (JStr vh) ps es (JInt vk)
        (JInt (ms_block s)) (JInt e) = Inr p"
    unfolding build_weight_plan_def validator_permitted_def sorted_targets_def Let_def
    by (cases "hotkey_dict s vh") (auto simp: fingerprint_Inr plan_rows_Inr)
  have "list_all entry_ok es"
    using es unfolding plan_entries_def list_all_iff
    by (auto elim!: mapM_in dest: WeightPlanEntry_Inr)
  moreover have "ps = \<lparr>wps_block = ms_block s, wps_tempo = ms_tempo s,
          wps_epoch = ms_block s div ms_tempo s, wps_finalized = True,
          wps_identity_fingerprint = JStr (sha_json L (view_document s))\<rparr>"
    using ps view by (simp add: WeightPlanSnapshot_Inr snapshot_ok_def view_ok_def)
  moreover have "rows_judged s vh rows rs" using rows rs by (simp add: rows_judged_def)
  moreover have "plan_ok L p" and "es = wp_weights p" using p by (simp_all add: WeightPlan_Inr)
  moreover have "plan_for L s vh vk rs p"
    using p e plan_entries_Inr [OF es] calculation(2)
    by (auto simp: WeightPlan_Inr plan_for_def conservative_expiry_Inr)
  ultimately show ?thesis using that [of rs] view vh perm by simp
qed

text \<open>
  Conversely, every finalized valid view, permitted validator and judged row list with at
  least one positive weight (no positive weight below \<open>min_weight\<close>) has a plan:
  normalisation never fails the constructor's own checks.
\<close>

lemma bad_fingerprint_digest: "digest_text s \<Longrightarrow> bad_fingerprint (JStr s) = Inr False"
proof -
  have "list_all (\<lambda>c. hex_substring [c]) ''0123456789abcdef''" by code_simp
  then have single: "lower_hex c \<Longrightarrow> hex_substring [c]" for c
    by (simp only: lower_hex_def list_all_iff)
  have "list_all lower_hex t \<Longrightarrow> any_not_hex (map (\<lambda>c. JStr [c]) t) = Inr False" for t
    by (induction t) (auto simp: element_in_hex_def single)
  then show "digest_text s \<Longrightarrow> ?thesis" by (simp add: digest_text_def bad_fingerprint_def)
qed

lemma normal_finite_total:
  assumes "normal_weights ws"
  shows "is_finite (to_double (sum_list ws))"
proof -
  have "fsum ws \<le> 2 ^ 17" "0 < fsum ws" using normal_total [OF assms] by auto
  moreover have "(2::rat) ^ 17 < 2 ^ 1024" by simp
  ultimately show ?thesis by (simp add: to_double_def fsum_def Let_def)
qed

lemma plan_entries_total:
  assumes "normal_weights (map (\<lambda>t. snd (snd t)) ts)"
    and "\<And>t. t \<in> set ts \<Longrightarrow> 0 \<le> fst t \<and> fst t \<le> 65535 \<and> \<not> bad_text 256 (fst (snd t))"
  obtains es where "plan_entries ts = Inr es"
proof -
  let ?ws = "normalize_weights (map (\<lambda>t. snd (snd t)) ts)"
  have "mapM (\<lambda>((uid, hotkey, _), w). WeightPlanEntry_post_init (JInt uid) (JStr hotkey) (JFloat (Fin w)))
      (zip ts ?ws) = Inr (map (\<lambda>(t, w). \<lparr>wpe_uid = fst t, wpe_hotkey = fst (snd t), wpe_weight = w\<rparr>) (zip ts ?ws))"
  proof (rule mapM_total, clarsimp)
    fix u h w' w assume "((u, h, w'), w) \<in> set (zip ts ?ws)"
    then have "(u, h, w') \<in> set ts" and "w \<in> set ?ws" by (auto dest: set_zip_leftD set_zip_rightD)
    then show "WeightPlanEntry_post_init (JInt u) (JStr h) (JFloat (Fin w))
        = Inr \<lparr>wpe_uid = u, wpe_hotkey = h, wpe_weight = w\<rparr>"
      using assms(2) [of "(u, h, w')"] normalize_entries [OF assms(1)]
      by (simp add: WeightPlanEntry_post_init_def)
  qed
  then show ?thesis using that by (simp add: plan_entries_def)
qed

lemma sorted_targets_set: "set (sorted_targets s rs)
    = (\<lambda>(h, w). (nr_uid (the (hotkey_dict s h)), h, w)) ` {r \<in> set rs. snd r > 0}"
  by (simp add: sorted_targets_def positive_targets_def)

lemma sorted_targets_canonical:
  assumes "view_ok s" and "distinct (map fst rs)" and "list_all (target_ok (hotkey_dict s) vh) rs"
  shows "sorted_wrt (<) (map fst (sorted_targets s rs))"
    and "distinct (map (\<lambda>t. fst (snd t)) (sorted_targets s rs))"
proof -
  let ?k = "\<lambda>p :: int \<times> string \<times> rat. (fst p, fst (snd p))"
  have "distinct (map fst (sorted_targets s rs))"
    using positive_targets_uids [OF assms] by (simp add: sorted_targets_def distinct_map_sort_key)
  moreover have "sorted (map ?k (sorted_targets s rs))"
    by (simp add: sorted_targets_def)
  then have "sorted (map fst (sorted_targets s rs))"
    by (auto simp: sorted_map less_eq_prod_def elim!: sorted_wrt_mono_rel [rotated])
  ultimately show "sorted_wrt (<) (map fst (sorted_targets s rs))" by (simp add: strict_sorted_iff)
  have "map (\<lambda>t. fst (snd t)) (positive_targets (hotkey_dict s) rs) = map fst (filter (\<lambda>r. snd r > 0) rs)"
    by (auto simp: positive_targets_def)
  then have "distinct (map (\<lambda>t. fst (snd t)) (positive_targets (hotkey_dict s) rs))"
    using assms(2) by (simp add: distinct_map_filter)
  then show "distinct (map (\<lambda>t. fst (snd t)) (sorted_targets s rs))"
    by (simp add: sorted_targets_def distinct_map_sort_key)
qed

lemma view_snapshot_ok:
  assumes "view_ok s" and "digest_text d"
  shows "WeightPlanSnapshot_post_init (JInt (ms_block s)) (JInt (ms_tempo s)) (JInt (ms_epoch s))
     (JBool (ms_finalized s)) (JStr d)
     = Inr \<lparr>wps_block = ms_block s, wps_tempo = ms_tempo s, wps_epoch = ms_block s div ms_tempo s,
            wps_finalized = True, wps_identity_fingerprint = JStr d\<rparr>"
  using assms by (simp add: WeightPlanSnapshot_Inr snapshot_ok_def view_ok_def ms_epoch_def
      bad_fingerprint_digest)

lemma WeightPlan_total:
  assumes "network_ok net" and "0 \<le> nu" and "nu \<le> 65535" and "\<not> bad_text 256 vh" and "0 \<le> vk"
    and "vk \<le> MAX_VERSION_KEY" and "0 \<le> wps_block snap" and "wps_block snap < eb"
    and "eb \<le> conservative_expiry_limit (wps_block snap) (wps_tempo snap)" and "es \<noteq> []"
    and "sorted_wrt (<) (map wpe_uid es)" and "distinct (map wpe_hotkey es)"
    and "vh \<notin> wpe_hotkey ` set es" and "is_close (fsum (map wpe_weight es)) 1 sum_tolerance"
  shows "\<exists>p. WeightPlan_post_init L (JStr net) (JInt nu) (JStr vh) snap es (JInt vk)
     (JInt (wps_block snap)) (JInt eb) = Inr p"
proof -
  let ?q = "\<lparr>wp_network = net, wp_netuid = nu, wp_validator_hotkey = vh, wp_snapshot = snap,
      wp_weights = es, wp_version_key = vk, wp_created_block = wps_block snap,
      wp_expires_at_block = eb, wp_digest_sha256 = []\<rparr>"
  let ?p = "?q\<lparr>wp_digest_sha256 := sha_json L (plan_unsigned_document ?q)\<rparr>"
  have "plan_ok L ?p" using assms by (simp add: plan_ok_def plan_unsigned_document_def)
  then have "WeightPlan_post_init L (JStr net) (JInt nu) (JStr vh) snap es (JInt vk)
     (JInt (wps_block snap)) (JInt eb) = Inr ?p"
    by (simp add: WeightPlan_Inr)
  then show ?thesis ..
qed

lemma build_weight_plan_succeeds:
  assumes view: "view_ok s" and block: "ms_block s < MAX_BLOCK" and perm: "validator_permitted s vh"
    and vk: "0 \<le> vk" "vk \<le> MAX_VERSION_KEY" and judged: "rows_judged s vh rows rs"
    and normal: "normal_weights (map (\<lambda>t. snd (snd t)) (sorted_targets s rs))"
    and digest: "digest_text (sha_json L (view_document s))"
  shows "\<exists>p. build_weight_plan L s vh rows vk = Inr p"
proof -
  let ?ts = "sorted_targets s rs"
  obtain v where v: "hotkey_dict s vh = Some v" "nr_active v" "nr_validator_permit v"
    using perm by (auto simp: validator_permitted_def split: option.splits)
  then have vh: "\<not> bad_text 256 vh" using view_neuron_ok [OF view] by (auto simp: neuron_ok_def)
  from judged obtain items where rows: "rows = JList items" "items \<noteq> []"
      "length items \<le> MAX_WEIGHT_PLAN_NEURONS" "list_all2 row_value items rs"
    and rs: "list_all (target_ok (hotkey_dict s) vh) rs" "distinct (map fst rs)"
    by (auto simp: rows_judged_def)
  note canonical = sorted_targets_canonical [OF view rs(2,1)]
  have targets: "0 \<le> fst t \<and> fst t \<le> 65535 \<and> \<not> bad_text 256 (fst (snd t)) \<and> fst (snd t) \<noteq> vh"
    if "t \<in> set ?ts" for t
    using that rs(1) view_neuron_ok [OF view]
    by (fastforce simp: sorted_targets_set list_all_iff target_ok_iff neuron_ok_def)
  then obtain es where es: "plan_entries ?ts = Inr es"
    using plan_entries_total [OF normal] by blast
  note ids = plan_entries_Inr(1) [OF es] and ws = plan_entries_Inr(2) [OF es]
  have uids: "map wpe_uid es = map fst ?ts" and hotkeys: "map wpe_hotkey es = map (\<lambda>t. fst (snd t)) ?ts"
    using arg_cong [OF ids, of "map fst"] arg_cong [OF ids, of "map snd"] by (simp_all add: comp_def)
  have nonempty: "?ts \<noteq> []" and total: "fsum (map (\<lambda>t. snd (snd t)) ?ts) > 0"
    using normal normal_total(3) [OF normal] by (auto simp: normal_weights_def)
  have "vh \<notin> wpe_hotkey ` set es"
    using targets arg_cong [OF hotkeys, of set] by auto
  moreover have "es \<noteq> []" using uids nonempty by auto
  moreover have "is_close (fsum (map wpe_weight es)) 1 sum_tolerance"
    unfolding ws by (rule normalize_sum [OF normal])
  moreover have e: "conservative_expiry_block s = Inr (conservative_expiry_limit (ms_block s) (ms_tempo s))"
    using view block expiry_limit_bounds(1) [of "ms_block s" "ms_tempo s"]
    by (simp add: conservative_expiry_Inr view_ok_def)
  moreover have "sorted_wrt (<) (map wpe_uid es)" "distinct (map wpe_hotkey es)"
    using canonical uids hotkeys by simp_all
  ultimately have final: "\<exists>p. WeightPlan_post_init L (JStr (ms_network s)) (JInt (ms_netuid s)) (JStr vh)
      \<lparr>wps_block = ms_block s, wps_tempo = ms_tempo s, wps_epoch = ms_block s div ms_tempo s,
       wps_finalized = True, wps_identity_fingerprint = JStr (sha_json L (view_document s))\<rparr>
      es (JInt vk) (JInt (ms_block s)) (JInt (conservative_expiry_limit (ms_block s) (ms_tempo s))) = Inr p"
    using WeightPlan_total [of "ms_network s" "ms_netuid s" vh vk "\<lparr>wps_block = ms_block s,
        wps_tempo = ms_tempo s, wps_epoch = ms_block s div ms_tempo s, wps_finalized = True,
        wps_identity_fingerprint = JStr (sha_json L (view_document s))\<rparr>"] view vh vk
    by (simp add: view_ok_def conservative_expiry_Inr)
  have rowsM: "foldM (plan_row_step (hotkey_dict s) vh) ([], []) items
      = Inr (rev (map fst rs), positive_targets (hotkey_dict s) rs)"
    unfolding plan_rows_Inr by (intro exI [of _ rs]) (simp add: rows rs)
  have "positive_targets (hotkey_dict s) rs \<noteq> []" using nonempty by (auto simp: sorted_targets_def)
  moreover have "distinct (map fst ?ts)" using canonical(1) by (simp add: strict_sorted_iff)
  ultimately show ?thesis
    using final total normal_finite_total [OF normal]
    by (simp add: build_weight_plan_def vh view v rows rowsM es e view_snapshot_ok [OF view digest]
        sorted_targets_def [symmetric] Let_def)
qed

section \<open>Round trip of the on-disk document\<close>

text \<open>Plans as the code makes them: validated parts, double weights, a textual fingerprint.\<close>

definition plan_wf :: "pylib \<Rightarrow> WeightPlan \<Rightarrow> bool" where
  "plan_wf L p \<longleftrightarrow> plan_ok L p \<and> length (wp_weights p) \<le> MAX_WEIGHT_PLAN_NEURONS
     \<and> list_all (\<lambda>e. entry_ok e \<and> rnd (wpe_weight e) = wpe_weight e) (wp_weights p)
     \<and> snapshot_ok (wp_snapshot p)
     \<and> (case wps_identity_fingerprint (wp_snapshot p) of JStr f \<Rightarrow> digest_text f | _ \<Rightarrow> False)"

lemma unit_double: "0 < r \<Longrightarrow> r \<le> 1 \<Longrightarrow> rnd r = r \<Longrightarrow> finite_double r"
proof -
  assume r: "0 < r" "r \<le> 1" "rnd r = r"
  have "(1::rat) < 2 ^ 1024" by (rule one_less_power) auto
  with r(2) have "r < 2 ^ 1024" by (rule le_less_trans)
  with r show ?thesis unfolding finite_double_def by simp
qed

lemma entry_document_ok:
  "entry_ok e \<Longrightarrow> rnd (wpe_weight e) = wpe_weight e \<Longrightarrow> json_ok (entry_document e)"
  by (simp add: entry_document_def entry_ok_def unit_double not_bad_text_ascii)

lemma parse_entry_document:
  "entry_ok e \<Longrightarrow> parse_plan_entry (canon (entry_document e)) = Inr e"
  unfolding parse_plan_entry_def entry_document_def
  by (rule read_object) (simp_all add: jget_def WeightPlanEntry_total)

lemma snapshot_document_ok:
  assumes "wps_identity_fingerprint s = JStr f" and "digest_text f"
  shows "json_ok (snapshot_document s)"
  using assms by (simp add: snapshot_document_def digest_ascii)

lemma plan_document_ok:
  assumes "plan_wf L p" and "digest_text (wp_digest_sha256 p)"
  shows "json_ok (plan_document p)"
proof -
  have "list_all json_ok (map entry_document (wp_weights p))"
    using assms(1) by (auto simp: plan_wf_def list_all_iff entry_document_ok)
  moreover have "json_ok (snapshot_document (wp_snapshot p))"
    using assms(1) by (auto simp: plan_wf_def split: json.splits intro: snapshot_document_ok)
  moreover have "is_ascii (wp_network p)" "is_ascii (wp_validator_hotkey p)"
    using assms(1) by (auto simp: plan_wf_def plan_ok_def dest: network_ok_text)
  ultimately show ?thesis
    using assms(2) by (simp add: plan_document_def plan_unsigned_document_def WEIGHT_PLAN_SCHEMA_def digest_ascii)
qed

lemma parse_plan_document_canon:
  assumes "plan_wf L p"
  shows "parse_plan_document L (canon (plan_document p)) = Inr p"
proof -
  obtain f where f: "wps_identity_fingerprint (wp_snapshot p) = JStr f"
    using assms by (auto simp: plan_wf_def split: json.splits)
  have entries: "mapM parse_plan_entry (map (\<lambda>e. canon (entry_document e)) (wp_weights p)) = Inr (wp_weights p)"
  proof -
    have "list_all entry_ok es \<Longrightarrow> mapM parse_plan_entry (map (\<lambda>e. canon (entry_document e)) es) = Inr es" for es
      by (induction es) (auto simp: parse_entry_document)
    then show ?thesis using assms by (auto simp: plan_wf_def list_all_iff)
  qed
  obtain sdoc where sdoc: "canon (snapshot_document (wp_snapshot p)) = JObj sdoc"
    by (simp add: snapshot_document_def)
  note look = canon_lookup [OF _ sdoc [unfolded snapshot_document_def]]
  have sdoc_keys: "fst ` set sdoc = set snapshot_keys"
    using look(2) by (simp add: snapshot_keys_def)
  have snapshot: "parse_plan_snapshot sdoc = Inr (wp_snapshot p)"
    using assms f look(1) by (simp add: parse_plan_snapshot_def jget_def plan_wf_def snapshot_ok_def
        WeightPlanSnapshot_Inr)
  show ?thesis
    unfolding parse_plan_document_def plan_document_def plan_unsigned_document_def
    using assms
    by (auto intro!: read_object simp: jget_def plan_keys_def entries sdoc sdoc_keys snapshot comp_def
        plan_wf_def plan_ok_def WeightPlan_Inr)
qed

lemma build_plan_wf:
  assumes "build_weight_plan L s vh rows vk = Inr p" and "digest_text (sha_json L (view_document s))"
  shows "plan_wf L p"
  using assms(1)
proof (rule build_weight_plan_Inr)
  fix rs assume rs: "rows_judged s vh rows rs" and p: "plan_ok L p" "plan_for L s vh vk rs p"
    "list_all entry_ok (wp_weights p)" and view: "view_ok s"
  have ws: "map wpe_weight (wp_weights p) = normalize_weights (map (\<lambda>t. snd (snd t)) (sorted_targets s rs))"
    using p(2) by (simp add: plan_for_def)
  have "rnd (wpe_weight e) = wpe_weight e" if "e \<in> set (wp_weights p)" for e
    using that normalize_double arg_cong [OF ws, of set] by (metis imageI list.set_map)
  moreover have "length (wp_weights p) \<le> MAX_WEIGHT_PLAN_NEURONS"
  proof -
    have "length (wp_weights p) = length (sorted_targets s rs)"
      using arg_cong [OF ws, of length] by simp
    also have "\<dots> \<le> length rs" by (simp add: sorted_targets_def positive_targets_def)
    finally show ?thesis using rs by (auto simp: rows_judged_def dest: list_all2_lengthD)
  qed
  moreover have "snapshot_ok (wp_snapshot p)"
    using p(2) view assms(2) bad_fingerprint_digest
    by (simp add: plan_for_def snapshot_ok_def view_ok_def)
  ultimately show ?thesis
    using p assms(2) by (simp add: plan_wf_def list_all_iff plan_for_def)
qed

context python_library
begin

lemma parse_canonical_bytes:
  assumes "plan_wf L p"
  shows "parse_weight_plan L (plan_canonical_bytes L p) = Inr p"
proof -
  have "wp_digest_sha256 p = sha_json L (plan_unsigned_document p)"
    using assms by (simp add: plan_wf_def plan_ok_def)
  then have "json_ok (plan_document p)" by (intro plan_document_ok [OF assms]) simp
  then have "load_document L d m (plan_canonical_bytes L p) = Inr (canon (plan_document p))" for d m
    using rendered_ascii loads_dumps by (simp add: load_document_def plan_canonical_bytes_def)
  then show ?thesis by (simp add: parse_weight_plan_def parse_plan_document_canon [OF assms])
qed

end

lemma parse_weight_plan_Inr:
  assumes "parse_weight_plan L rendered = Inr p"
  shows "rendered = plan_canonical_bytes L p \<and> plan_ok L p \<and> list_all entry_ok (wp_weights p)
     \<and> snapshot_ok (wp_snapshot p)"
proof -
  from assms obtain document where bytes: "rendered = plan_canonical_bytes L p"
    and doc: "parse_plan_document L document = Inr p"
    by (auto simp: parse_weight_plan_def)
  from doc obtain entries raw sdoc where "mapM parse_plan_entry raw = Inr entries"
    and "parse_plan_snapshot sdoc = Inr (wp_snapshot p)" and "entries = wp_weights p" and "plan_ok L p"
    by (auto simp: parse_plan_document_def WeightPlan_Inr)
  moreover from this have "list_all entry_ok (wp_weights p)"
    unfolding list_all_iff by (auto elim!: mapM_in simp: parse_plan_entry_def dest: WeightPlanEntry_Inr)
  ultimately show ?thesis
    using bytes by (simp add: parse_plan_snapshot_def WeightPlanSnapshot_Inr)
qed

lemma build_weight_plan_targets:
  assumes "build_weight_plan L s vh rows vk = Inr p"
  shows "plan_ok L p \<and> (\<exists>rs. rows_judged s vh rows rs \<and> plan_for L s vh vk rs p
     \<and> (\<forall>e \<in> set (wp_weights p). \<exists>n w. by_hotkey s (wpe_hotkey e) = Some n \<and> nr_uid n = wpe_uid e
          \<and> nr_active n \<and> (wpe_hotkey e, w) \<in> set rs \<and> 0 < w)
     \<and> (\<forall>r \<in> set rs. 0 < snd r \<longrightarrow> fst r \<in> wpe_hotkey ` set (wp_weights p)))"
  using assms
proof (rule build_weight_plan_Inr)
  fix rs assume view: "view_ok s" and rs: "rows_judged s vh rows rs"
    and p: "plan_ok L p" "plan_for L s vh vk rs p"
  let ?id = "\<lambda>e. (wpe_uid e, wpe_hotkey e)"
  have "?id ` set (wp_weights p) = (\<lambda>t. (fst t, fst (snd t))) ` set (sorted_targets s rs)"
    using p(2) unfolding plan_for_def by (metis list.set_map)
  also have "\<dots> = (\<lambda>r. (nr_uid (the (hotkey_dict s (fst r))), fst r)) ` {r \<in> set rs. 0 < snd r}"
    unfolding sorted_targets_set image_image by (rule image_cong) auto
  finally have ids: "?id ` set (wp_weights p)
      = (\<lambda>r. (nr_uid (the (hotkey_dict s (fst r))), fst r)) ` {r \<in> set rs. 0 < snd r}" .
  have known: "\<exists>n. by_hotkey s (fst r) = Some n \<and> nr_active n" if "r \<in> set rs" for r
    using rs that by (auto simp: rows_judged_def list_all_iff target_ok_iff view_hotkey [OF view])
  have "\<exists>n w. by_hotkey s (wpe_hotkey e) = Some n \<and> nr_uid n = wpe_uid e \<and> nr_active n
      \<and> (wpe_hotkey e, w) \<in> set rs \<and> 0 < w" if "e \<in> set (wp_weights p)" for e
  proof -
    have "?id e \<in> ?id ` set (wp_weights p)" using that by (rule imageI)
    then obtain h w where "(h, w) \<in> set rs" "0 < w" "?id e = (nr_uid (the (hotkey_dict s h)), h)"
      unfolding ids by auto
    then show ?thesis using known [of "(h, w)"] by (auto simp: view_hotkey [OF view])
  qed
  moreover have "fst r \<in> wpe_hotkey ` set (wp_weights p)" if "r \<in> set rs" "0 < snd r" for r
  proof -
    have "snd (nr_uid (the (hotkey_dict s (fst r))), fst r) \<in> snd ` ?id ` set (wp_weights p)"
      unfolding ids using that by (intro imageI) auto
    then show ?thesis by (simp add: image_image)
  qed
  ultimately show ?thesis using p rs by blast
qed

section \<open>Properties\<close>

text \<open>
  C23: a plan that is built is well formed (identities in range, strictly ordered targets,
  no weight to the validator, weights summing to one in double arithmetic, self digest),
  and it weights exactly the rows with a positive weight: each entry is the current UID of
  an active neuron of the snapshot, and no positive row is dropped.
\<close>

theorem build_weight_plan_sound:
  assumes "build_weight_plan L s vh rows vk = Inr p"
  shows "plan_ok L p \<and> (\<exists>rs. rows_judged s vh rows rs \<and> plan_for L s vh vk rs p
     \<and> (\<forall>e \<in> set (wp_weights p). \<exists>n w. by_hotkey s (wpe_hotkey e) = Some n \<and> nr_uid n = wpe_uid e
          \<and> nr_active n \<and> (wpe_hotkey e, w) \<in> set rs \<and> 0 < w)
     \<and> (\<forall>r \<in> set rs. 0 < snd r \<longrightarrow> fst r \<in> wpe_hotkey ` set (wp_weights p)))"
  using assms by (rule build_weight_plan_targets)

text \<open>
  Building succeeds. For a valid finalized view below the block limit, a permitted
  validator and well-formed rows naming active miners, of which at least one is positive
  and no positive one is below \<open>min_weight\<close>, a plan is returned: floating-point
  normalisation never trips the plan's own range and sum checks.
\<close>

theorem build_weight_plan_total:
  assumes "view_ok s" and "ms_block s < MAX_BLOCK" and "validator_permitted s vh"
    and "0 \<le> vk" and "vk \<le> MAX_VERSION_KEY" and "rows_judged s vh rows rs"
    and "normal_weights (map (\<lambda>t. snd (snd t)) (sorted_targets s rs))"
    and "digest_text (sha_json L (view_document s))"
  shows "\<exists>p. build_weight_plan L s vh rows vk = Inr p"
  by (rule build_weight_plan_succeeds [OF assms])

text \<open>
  C28: a plan expires strictly after its snapshot block, within a quarter tempo of it (one
  block for tempos below eight), and every block at which it is still live lies in the
  snapshot's own epoch.
\<close>

theorem plan_expiry_window:
  assumes "build_weight_plan L s vh rows vk = Inr p"
  shows "wp_created_block p = ms_block s \<and> ms_block s < wp_expires_at_block p
     \<and> wp_expires_at_block p \<le> ms_block s + max 1 (ms_tempo s div 4)
     \<and> (\<forall>b. wp_created_block p \<le> b \<and> b < wp_expires_at_block p \<longrightarrow> b div ms_tempo s = ms_epoch s)"
  using assms
proof (rule build_weight_plan_Inr)
  fix rs assume view: "view_ok s" and p: "plan_ok L p" "plan_for L s vh vk rs p"
  then have e: "wp_expires_at_block p = conservative_expiry_limit (ms_block s) (ms_tempo s)"
    and c: "wp_created_block p = ms_block s" and lt: "ms_block s < wp_expires_at_block p"
    by (auto simp: plan_for_def plan_ok_def)
  have t: "1 \<le> ms_tempo s" "0 \<le> ms_block s" using view by (auto simp: view_ok_def)
  have "b div ms_tempo s = ms_epoch s" if "ms_block s \<le> b" "b < wp_expires_at_block p" for b
  proof -
    have "b < (ms_block s div ms_tempo s + 1) * ms_tempo s"
      using that e by (simp add: conservative_expiry_limit_def Let_def)
    then have "b div ms_tempo s < ms_block s div ms_tempo s + 1"
      using t by (intro int_div_less) auto
    moreover have "ms_block s div ms_tempo s \<le> b div ms_tempo s"
      using that(1) t by (simp add: zdiv_mono1)
    ultimately show ?thesis using t by (simp add: ms_epoch_def)
  qed
  moreover have "wp_expires_at_block p \<le> ms_block s + max 1 (ms_tempo s div 4)"
    unfolding e by (simp add: conservative_expiry_limit_def Let_def)
  ultimately show ?thesis using c lt by simp
qed

context python_library
begin

lemma built_plan_parses:
  "build_weight_plan L s vh rows vk = Inr p \<Longrightarrow> parse_weight_plan L (plan_canonical_bytes L p) = Inr p"
  by (rule parse_canonical_bytes [OF build_plan_wf]) simp_all

end

text \<open>
  Whatever the loader accepts is the exact canonical rendering of a well-formed plan
  with its own digest: no second byte string stands for the same plan.
\<close>

theorem parsed_plan_canonical:
  assumes "parse_weight_plan L rendered = Inr p"
  shows "rendered = plan_canonical_bytes L p \<and> plan_ok L p \<and> list_all entry_ok (wp_weights p)
     \<and> snapshot_ok (wp_snapshot p)"
  by (rule parse_weight_plan_Inr [OF assms])

end
