(* ===== verification/ExecutionVectors.thy ===== *)
theory ExecutionVectors
  imports WeightPlans
begin

text \<open>
  Execution vectors of \<^verbatim>\<open>weight_executor.py\<close>: the values submitted to the chain
  (\<^verbatim>\<open>ExecutionWeight\<close>, \<^verbatim>\<open>OmittedWeight\<close>, \<^verbatim>\<open>ExecutionVector\<close>), the preflight
  against one finalized chain view, and \<^verbatim>\<open>derive_execution_vector\<close>, which resolves the
  planned hotkeys to current UIDs and renormalises what is left.
\<close>

section \<open>Validators\<close>

definition WEIGHT_EXECUTION_VECTOR_SCHEMA :: string where
  "WEIGHT_EXECUTION_VECTOR_SCHEMA = ''miss.computer/misscomputer-subnet/weight-execution-vector''"

definition validate_digest :: "json \<Rightarrow> string res" where
  "validate_digest value = (case value of
     JStr s \<Rightarrow> reject_if (\<not> digest_text s) (AuditStateError ''audit_state_invalid'') (Inr s)
   | _ \<Rightarrow> Inl (AuditStateError ''audit_state_invalid''))"

definition validate_public_text :: "json \<Rightarrow> string res" where
  "validate_public_text value = (case value of
     JStr s \<Rightarrow> reject_if (bad_text 256 s) (WeightExecutionError ''invalid_identity'') (Inr s)
   | _ \<Rightarrow> Inl (WeightExecutionError ''invalid_identity''))"

text \<open>\<^verbatim>\<open>except WeightPlanError\<close>, which also catches its subclass.\<close>

definition convert_plan_error :: "exn \<Rightarrow> 'a res \<Rightarrow> 'a res" where
  "convert_plan_error err r = (case r of
     Inl (WeightPlanError _) \<Rightarrow> Inl err
   | Inl (WeightPlanTargetError _) \<Rightarrow> Inl err
   | _ \<Rightarrow> r)"

definition validate_public_network :: "json \<Rightarrow> string res" where
  "validate_public_network value =
     convert_plan_error (WeightExecutionError ''invalid_identity'') (validate_network_identity ''network'' value)"

definition validate_uint :: "int \<Rightarrow> json \<Rightarrow> int res" where
  "validate_uint maximum value = (case value of
     JInt n \<Rightarrow> reject_if (\<not> (0 \<le> n \<and> n \<le> maximum)) (WeightExecutionError ''invalid_integer'') (Inr n)
   | _ \<Rightarrow> Inl (WeightExecutionError ''invalid_integer''))"

section \<open>Weights\<close>

record ExecutionWeight =
  ew_hotkey :: string
  ew_planned_uid :: int
  ew_uid :: int
  ew_weight :: rat

record OmittedWeight =
  ow_hotkey :: string
  ow_planned_uid :: int

definition ExecutionWeight_post_init :: "json \<Rightarrow> json \<Rightarrow> json \<Rightarrow> json \<Rightarrow> ExecutionWeight res" where
  "ExecutionWeight_post_init hotkey planned_uid uid weight =
     res_bind (validate_public_text hotkey) (\<lambda>h.
     res_bind (validate_uint 65535 planned_uid) (\<lambda>pu.
     res_bind (validate_uint 65535 uid) (\<lambda>u.
     res_bind (unit_weight (WeightExecutionError ''invalid_weights'') weight) (\<lambda>w.
       Inr \<lparr>ew_hotkey = h, ew_planned_uid = pu, ew_uid = u, ew_weight = w\<rparr>))))"

definition OmittedWeight_post_init :: "json \<Rightarrow> json \<Rightarrow> OmittedWeight res" where
  "OmittedWeight_post_init hotkey planned_uid =
     res_bind (validate_public_text hotkey) (\<lambda>h.
     res_bind (validate_uint 65535 planned_uid) (\<lambda>pu.
       Inr \<lparr>ow_hotkey = h, ow_planned_uid = pu\<rparr>))"

definition execution_weight_document :: "ExecutionWeight \<Rightarrow> json" where
  "execution_weight_document w = JObj [(''hotkey'', JStr (ew_hotkey w)),
     (''planned_uid'', JInt (ew_planned_uid w)), (''uid'', JInt (ew_uid w)),
     (''weight'', JFloat (Fin (ew_weight w)))]"

definition omitted_weight_document :: "OmittedWeight \<Rightarrow> json" where
  "omitted_weight_document w = JObj [(''hotkey'', JStr (ow_hotkey w)),
     (''planned_uid'', JInt (ow_planned_uid w))]"

section \<open>Vectors\<close>

record ExecutionVector =
  ev_plan_digest_sha256 :: string
  ev_network :: string
  ev_netuid :: int
  ev_validator_hotkey :: string
  ev_version_key :: int
  ev_weights :: "ExecutionWeight list"
  ev_omitted :: "OmittedWeight list"
  ev_digest_sha256 :: string

definition vector_unsigned_document :: "ExecutionVector \<Rightarrow> json" where
  "vector_unsigned_document v = JObj [
     (''netuid'', JInt (ev_netuid v)),
     (''network'', JStr (ev_network v)),
     (''omitted'', JList (map omitted_weight_document (ev_omitted v))),
     (''plan_digest_sha256'', JStr (ev_plan_digest_sha256 v)),
     (''schema'', JStr WEIGHT_EXECUTION_VECTOR_SCHEMA),
     (''schema_version'', JInt 1),
     (''validator_hotkey'', JStr (ev_validator_hotkey v)),
     (''version_key'', JInt (ev_version_key v)),
     (''weights'', JList (map execution_weight_document (ev_weights v)))]"

definition moved_count :: "ExecutionVector \<Rightarrow> nat" where
  "moved_count v = length (filter (\<lambda>w. ew_uid w \<noteq> ew_planned_uid w) (ev_weights v))"

definition ExecutionVector_post_init ::
  "pylib \<Rightarrow> string \<Rightarrow> json \<Rightarrow> json \<Rightarrow> json \<Rightarrow> json \<Rightarrow> ExecutionWeight list \<Rightarrow> OmittedWeight list
   \<Rightarrow> ExecutionVector res" where
  "ExecutionVector_post_init L plan_digest network netuid validator_hotkey version_key weights omitted =
     reject_if (\<not> digest_text plan_digest) (WeightExecutionError ''invalid_plan'')
     (res_bind (validate_public_network network) (\<lambda>net.
      res_bind (validate_uint 65535 netuid) (\<lambda>nu.
      res_bind (validate_public_text validator_hotkey) (\<lambda>vh.
      res_bind (validate_uint MAX_VERSION_KEY version_key) (\<lambda>vk.
      reject_if (weights = []) (WeightExecutionError ''no_valid_planned_hotkeys'')
     (reject_if (weights \<noteq> sort_key (\<lambda>w. (ew_uid w, ew_hotkey w)) weights)
        (WeightExecutionError ''invalid_weights'')
     (reject_if (omitted \<noteq> sort_key (\<lambda>w. (ow_planned_uid w, ow_hotkey w)) omitted)
        (WeightExecutionError ''invalid_weights'')
     (reject_if (\<not> distinct (map ew_hotkey weights @ map ow_hotkey omitted))
        (WeightExecutionError ''invalid_weights'')
     (reject_if (\<not> distinct (map ew_uid weights)) (WeightExecutionError ''invalid_weights'')
     (reject_if (\<not> is_close (fsum (map ew_weight weights)) 1 sum_tolerance)
        (WeightExecutionError ''invalid_weights'')
     (let v = \<lparr>ev_plan_digest_sha256 = plan_digest, ev_network = net, ev_netuid = nu,
               ev_validator_hotkey = vh, ev_version_key = vk, ev_weights = weights,
               ev_omitted = omitted, ev_digest_sha256 = []\<rparr>
      in Inr (v\<lparr>ev_digest_sha256 := sha_json L (vector_unsigned_document v)\<rparr>))))))))))))"

section \<open>Preflight and derivation\<close>

definition validate_execution_preflight ::
  "pylib \<Rightarrow> WeightPlan \<Rightarrow> MetagraphSnapshot \<Rightarrow> string \<Rightarrow> int \<Rightarrow> string \<Rightarrow> unit res" where
  "validate_execution_preflight L plan snapshot network netuid validator_hotkey =
     reject_if (wp_network plan \<noteq> network \<or> ms_network snapshot \<noteq> network)
       (WeightExecutionError ''wrong_network'')
     (reject_if (wp_netuid plan \<noteq> netuid \<or> ms_netuid snapshot \<noteq> netuid)
       (WeightExecutionError ''wrong_netuid'')
     (reject_if (wp_validator_hotkey plan \<noteq> validator_hotkey) (WeightExecutionError ''wrong_validator'')
     (reject_if (wp_version_key plan \<noteq> WEIGHT_PLAN_PROTOCOL_VERSION_KEY)
       (WeightExecutionError ''unsupported_version_key'')
     (reject_if (\<not> ms_finalized snapshot) (WeightExecutionError ''unfinalized_chain_state'')
     (res_bind (convert_plan_error (WeightExecutionError ''invalid_chain_state'')
         (snapshot_identity_fingerprint L snapshot)) (\<lambda>_.
      reject_if (ms_block snapshot < wp_created_block plan) (WeightExecutionError ''chain_rollback'')
     (reject_if (ms_block snapshot \<ge> wp_expires_at_block plan) (WeightExecutionError ''expired_plan'')
     (reject_if (case by_hotkey snapshot validator_hotkey of None \<Rightarrow> True
                 | Some v \<Rightarrow> \<not> nr_active v \<or> \<not> nr_validator_permit v)
       (WeightExecutionError ''validator_not_permitted'') (Inr ())))))))))"

text \<open>One planned weight: retained with its current UID, or recorded as omitted.\<close>

type_synonym retained = "int \<times> string \<times> int \<times> rat"

definition derive_step ::
  "(string \<rightharpoonup> NeuronRecord) \<Rightarrow> retained list \<times> OmittedWeight list \<Rightarrow> WeightPlanEntry
   \<Rightarrow> (retained list \<times> OmittedWeight list) res" where
  "derive_step current st planned =
     (case current (wpe_hotkey planned) of
        Some neuron \<Rightarrow>
          if nr_active neuron
          then Inr (fst st @ [(nr_uid neuron, wpe_hotkey planned, wpe_uid planned, wpe_weight planned)], snd st)
          else res_bind (OmittedWeight_post_init (JStr (wpe_hotkey planned)) (JInt (wpe_uid planned)))
                 (\<lambda>o'. Inr (fst st, snd st @ [o']))
      | None \<Rightarrow> res_bind (OmittedWeight_post_init (JStr (wpe_hotkey planned)) (JInt (wpe_uid planned)))
                 (\<lambda>o'. Inr (fst st, snd st @ [o'])))"

definition execution_weights :: "retained list \<Rightarrow> ExecutionWeight list res" where
  "execution_weights retained =
     mapM (\<lambda>((uid, hotkey, planned_uid, _), w).
         ExecutionWeight_post_init (JStr hotkey) (JInt planned_uid) (JInt uid) (JFloat (Fin w)))
       (zip retained (normalize_weights (map (\<lambda>r. snd (snd (snd r))) retained)))"

definition derive_execution_vector ::
  "pylib \<Rightarrow> WeightPlan \<Rightarrow> MetagraphSnapshot \<Rightarrow> string \<Rightarrow> int \<Rightarrow> string \<Rightarrow> ExecutionVector res" where
  "derive_execution_vector L plan snapshot network netuid validator_hotkey =
     res_bind (validate_execution_preflight L plan snapshot network netuid validator_hotkey) (\<lambda>_.
     res_bind (foldM (derive_step (hotkey_dict snapshot)) ([], []) (wp_weights plan)) (\<lambda>(found, omitted).
     reject_if (found = []) (WeightExecutionError ''no_valid_planned_hotkeys'')
     (let retained = sort_key (\<lambda>r. (fst r, fst (snd r))) found;
          ws = map (\<lambda>r. snd (snd (snd r))) retained
      in reject_if (\<not> is_finite (to_double (sum_list ws)) \<or> fsum ws \<le> 0)
           (WeightExecutionError ''invalid_weights'')
     (res_bind (execution_weights retained) (\<lambda>weights.
        ExecutionVector_post_init L (wp_digest_sha256 plan) (JStr network) (JInt netuid)
          (JStr validator_hotkey) (JInt (wp_version_key plan)) weights
          (sort_key (\<lambda>w. (ow_planned_uid w, ow_hotkey w)) omitted))))))"

section \<open>What construction establishes\<close>

definition execution_weight_ok :: "ExecutionWeight \<Rightarrow> bool" where
  "execution_weight_ok w \<longleftrightarrow> \<not> bad_text 256 (ew_hotkey w) \<and> 0 \<le> ew_planned_uid w
     \<and> ew_planned_uid w \<le> 65535 \<and> 0 \<le> ew_uid w \<and> ew_uid w \<le> 65535 \<and> 0 < ew_weight w \<and> ew_weight w \<le> 1"

definition omitted_ok :: "OmittedWeight \<Rightarrow> bool" where
  "omitted_ok w \<longleftrightarrow> \<not> bad_text 256 (ow_hotkey w) \<and> 0 \<le> ow_planned_uid w \<and> ow_planned_uid w \<le> 65535"

definition vector_ok :: "pylib \<Rightarrow> ExecutionVector \<Rightarrow> bool" where
  "vector_ok L v \<longleftrightarrow> digest_text (ev_plan_digest_sha256 v) \<and> network_ok (ev_network v)
     \<and> 0 \<le> ev_netuid v \<and> ev_netuid v \<le> 65535 \<and> \<not> bad_text 256 (ev_validator_hotkey v)
     \<and> 0 \<le> ev_version_key v \<and> ev_version_key v \<le> MAX_VERSION_KEY
     \<and> ev_weights v \<noteq> [] \<and> sorted_wrt (<) (map ew_uid (ev_weights v))
     \<and> sorted (map (\<lambda>w. (ow_planned_uid w, ow_hotkey w)) (ev_omitted v))
     \<and> distinct (map ew_hotkey (ev_weights v) @ map ow_hotkey (ev_omitted v))
     \<and> is_close (fsum (map ew_weight (ev_weights v))) 1 sum_tolerance
     \<and> ev_digest_sha256 v = sha_json L (vector_unsigned_document v)"

lemma validate_digest_Inr [simp, res_simps]:
  "validate_digest v = Inr s \<longleftrightarrow> v = JStr s \<and> digest_text s"
  by (cases v) (auto simp: validate_digest_def)

lemma validate_public_text_Inr [simp, res_simps]:
  "validate_public_text v = Inr s \<longleftrightarrow> v = JStr s \<and> \<not> bad_text 256 s"
  by (cases v) (auto simp: validate_public_text_def)

lemma validate_uint_Inr [simp, res_simps]:
  "validate_uint m v = Inr n \<longleftrightarrow> v = JInt n \<and> 0 \<le> n \<and> n \<le> m"
  by (cases v) (auto simp: validate_uint_def)

lemma convert_plan_error_Inr [simp, res_simps]: "convert_plan_error e r = Inr x \<longleftrightarrow> r = Inr x"
  by (auto simp: convert_plan_error_def split: sum.splits exn.splits)

lemma validate_public_network_Inr [simp, res_simps]:
  "validate_public_network v = Inr s \<longleftrightarrow> v = JStr s \<and> network_ok s"
  by (simp add: validate_public_network_def validate_network_identity_Inr)

lemma ExecutionWeight_Inr: "ExecutionWeight_post_init h pu u w = Inr e \<Longrightarrow> execution_weight_ok e"
  by (auto simp: ExecutionWeight_post_init_def execution_weight_ok_def)

lemma ExecutionWeight_total:
  "execution_weight_ok e \<Longrightarrow> ExecutionWeight_post_init (JStr (ew_hotkey e)) (JInt (ew_planned_uid e))
     (JInt (ew_uid e)) (JFloat (Fin (ew_weight e))) = Inr e"
  by (simp add: ExecutionWeight_post_init_def execution_weight_ok_def)

lemma OmittedWeight_Inr:
  "OmittedWeight_post_init h pu = Inr e \<longleftrightarrow> h = JStr (ow_hotkey e) \<and> pu = JInt (ow_planned_uid e) \<and> omitted_ok e"
  by (cases e) (auto simp: OmittedWeight_post_init_def omitted_ok_def)

lemma sort_fixpoint_iff: "xs = sort_key f xs \<longleftrightarrow> sorted (map f xs)"
  by (metis sort_key_id_if_sorted sorted_sort_key)

lemma ExecutionVector_Inr:
  "ExecutionVector_post_init L pd net nu vh vk ws om = Inr v \<longleftrightarrow>
     pd = ev_plan_digest_sha256 v \<and> net = JStr (ev_network v) \<and> nu = JInt (ev_netuid v)
     \<and> vh = JStr (ev_validator_hotkey v) \<and> vk = JInt (ev_version_key v)
     \<and> ws = ev_weights v \<and> om = ev_omitted v \<and> vector_ok L v"
proof -
  have order: "(ws = sort_key (\<lambda>w. (ew_uid w, ew_hotkey w)) ws \<and> A \<and> B \<and> distinct (map ew_uid ws) \<and> R)
      \<longleftrightarrow> (sorted_wrt (<) (map ew_uid ws) \<and> A \<and> B \<and> R)" for ws A B R
    using sort_by_uid_iff [of ew_uid ws ew_hotkey] by (auto simp: strict_sorted_iff)
  show ?thesis
    unfolding ExecutionVector_post_init_def vector_ok_def Let_def
    by (cases v, simp add: order sort_fixpoint_iff [of om] del: distinct_append, rule iffI)
      (elim conjE exE, simp add: vector_unsigned_document_def,
       clarsimp simp: vector_unsigned_document_def)
qed

section \<open>The derivation loop\<close>

definition live :: "(string \<rightharpoonup> NeuronRecord) \<Rightarrow> WeightPlanEntry \<Rightarrow> bool" where
  "live current e = (case current (wpe_hotkey e) of None \<Rightarrow> False | Some n \<Rightarrow> nr_active n)"

definition retained_of :: "(string \<rightharpoonup> NeuronRecord) \<Rightarrow> WeightPlanEntry \<Rightarrow> retained" where
  "retained_of current e = (nr_uid (the (current (wpe_hotkey e))), wpe_hotkey e, wpe_uid e, wpe_weight e)"

definition omitted_of :: "WeightPlanEntry \<Rightarrow> OmittedWeight" where
  "omitted_of e = \<lparr>ow_hotkey = wpe_hotkey e, ow_planned_uid = wpe_uid e\<rparr>"

lemma live_iff: "live current e \<longleftrightarrow> (\<exists>n. current (wpe_hotkey e) = Some n \<and> nr_active n)"
  by (simp add: live_def split: option.splits)

lemma derive_step_eq:
  "derive_step current (found, omitted) e =
     (if live current e then Inr (found @ [retained_of current e], omitted)
      else res_bind (OmittedWeight_post_init (JStr (wpe_hotkey e)) (JInt (wpe_uid e)))
             (\<lambda>o'. Inr (found, omitted @ [o'])))"
  by (auto simp: derive_step_def live_def retained_of_def split: option.splits)

lemma derive_rows_Inr:
  assumes "list_all entry_ok es"
  shows "foldM (derive_step current) (found, omitted) es
     = Inr (found @ map (retained_of current) (filter (live current) es),
            omitted @ map omitted_of (filter (\<lambda>e. \<not> live current e) es))"
  using assms
proof (induction es arbitrary: found omitted)
  case (Cons e es)
  then have "OmittedWeight_post_init (JStr (wpe_hotkey e)) (JInt (wpe_uid e)) = Inr (omitted_of e)"
    by (simp add: OmittedWeight_Inr omitted_of_def omitted_ok_def entry_ok_def)
  then show ?case using Cons by (simp add: derive_step_eq)
qed simp

lemma execution_weights_Inr:
  assumes "execution_weights rs = Inr es"
  shows "map (\<lambda>e. (ew_uid e, ew_hotkey e, ew_planned_uid e)) es = map (\<lambda>r. (fst r, fst (snd r), fst (snd (snd r)))) rs"
    and "map ew_weight es = normalize_weights (map (\<lambda>r. snd (snd (snd r))) rs)"
    and "list_all execution_weight_ok es"
proof -
  let ?ws = "normalize_weights (map (\<lambda>r. snd (snd (snd r))) rs)"
  let ?f = "\<lambda>((uid, hotkey, planned_uid, _), w).
         ExecutionWeight_post_init (JStr hotkey) (JInt planned_uid) (JInt uid) (JFloat (Fin w))"
  have es: "mapM ?f (zip rs ?ws) = Inr es" using assms by (simp add: execution_weights_def)
  have "map (\<lambda>e. (ew_uid e, ew_hotkey e, ew_planned_uid e)) es
      = map (\<lambda>q. (fst (fst q), fst (snd (fst q)), fst (snd (snd (fst q))))) (zip rs ?ws)"
    by (rule mapM_map_of [OF es]) (auto simp: ExecutionWeight_post_init_def)
  also have "\<dots> = map (\<lambda>r. (fst r, fst (snd r), fst (snd (snd r)))) (map fst (zip rs ?ws))"
    by (simp only: map_map comp_def)
  finally show "map (\<lambda>e. (ew_uid e, ew_hotkey e, ew_planned_uid e)) es
      = map (\<lambda>r. (fst r, fst (snd r), fst (snd (snd r)))) rs"
    by (simp only: map_fst_zip normalize_length length_map)
  have "map ew_weight es = map snd (zip rs ?ws)"
    by (rule mapM_map_of [OF es]) (auto simp: ExecutionWeight_post_init_def)
  then show "map ew_weight es = ?ws" by simp
  show "list_all execution_weight_ok es"
    unfolding list_all_iff using es by (auto elim!: mapM_in dest: ExecutionWeight_Inr)
qed

lemma execution_weights_total:
  assumes "normal_weights (map (\<lambda>r. snd (snd (snd r))) rs)"
    and "\<And>r. r \<in> set rs \<Longrightarrow> 0 \<le> fst r \<and> fst r \<le> 65535 \<and> \<not> bad_text 256 (fst (snd r))
       \<and> 0 \<le> fst (snd (snd r)) \<and> fst (snd (snd r)) \<le> 65535"
  obtains es where "execution_weights rs = Inr es"
proof -
  let ?ws = "normalize_weights (map (\<lambda>r. snd (snd (snd r))) rs)"
  have "execution_weights rs = Inr (map (\<lambda>(r, w). \<lparr>ew_hotkey = fst (snd r), ew_planned_uid = fst (snd (snd r)),
       ew_uid = fst r, ew_weight = w\<rparr>) (zip rs ?ws))"
    unfolding execution_weights_def
  proof (rule mapM_total, clarsimp)
    fix u h pu w' w assume "((u, h, pu, w'), w) \<in> set (zip rs ?ws)"
    then have "(u, h, pu, w') \<in> set rs" and "w \<in> set ?ws" by (auto dest: set_zip_leftD set_zip_rightD)
    then show "ExecutionWeight_post_init (JStr h) (JInt pu) (JInt u) (JFloat (Fin w))
        = Inr \<lparr>ew_hotkey = h, ew_planned_uid = pu, ew_uid = u, ew_weight = w\<rparr>"
      using assms(2) [of "(u, h, pu, w')"] normalize_entries [OF assms(1)]
      by (simp add: ExecutionWeight_post_init_def)
  qed
  then show ?thesis using that by blast
qed

section \<open>Preflight\<close>

definition preflight_ok :: "WeightPlan \<Rightarrow> MetagraphSnapshot \<Rightarrow> string \<Rightarrow> int \<Rightarrow> string \<Rightarrow> bool" where
  "preflight_ok plan s net nu vh \<longleftrightarrow> wp_network plan = net \<and> ms_network s = net \<and> wp_netuid plan = nu
     \<and> ms_netuid s = nu \<and> wp_validator_hotkey plan = vh
     \<and> wp_version_key plan = WEIGHT_PLAN_PROTOCOL_VERSION_KEY \<and> view_ok s
     \<and> wp_created_block plan \<le> ms_block s \<and> ms_block s < wp_expires_at_block plan \<and> validator_permitted s vh"

lemma preflight_Inr [res_simps]:
  "validate_execution_preflight L plan s net nu vh = Inr u \<longleftrightarrow> preflight_ok plan s net nu vh"
  unfolding validate_execution_preflight_def preflight_ok_def validator_permitted_def
  by (auto simp: fingerprint_Inr view_hotkey not_less not_le view_ok_def split: option.splits)

definition retained_targets :: "WeightPlan \<Rightarrow> MetagraphSnapshot \<Rightarrow> retained list" where
  "retained_targets plan s = sort_key (\<lambda>r. (fst r, fst (snd r)))
     (map (retained_of (hotkey_dict s)) (filter (live (hotkey_dict s)) (wp_weights plan)))"

definition vector_for :: "WeightPlan \<Rightarrow> MetagraphSnapshot \<Rightarrow> ExecutionVector \<Rightarrow> bool" where
  "vector_for plan s v \<longleftrightarrow> ev_plan_digest_sha256 v = wp_digest_sha256 plan \<and> ev_network v = wp_network plan
     \<and> ev_netuid v = wp_netuid plan \<and> ev_validator_hotkey v = wp_validator_hotkey plan
     \<and> ev_version_key v = wp_version_key plan
     \<and> map (\<lambda>e. (ew_uid e, ew_hotkey e, ew_planned_uid e)) (ev_weights v)
          = map (\<lambda>r. (fst r, fst (snd r), fst (snd (snd r)))) (retained_targets plan s)
     \<and> map ew_weight (ev_weights v) = normalize_weights (map (\<lambda>r. snd (snd (snd r))) (retained_targets plan s))
     \<and> ev_omitted v = sort_key (\<lambda>w. (ow_planned_uid w, ow_hotkey w))
          (map omitted_of (filter (\<lambda>e. \<not> live (hotkey_dict s) e) (wp_weights plan)))"

lemma derive_Inr:
  assumes "derive_execution_vector L plan s net nu vh = Inr v" and "list_all entry_ok (wp_weights plan)"
  shows "preflight_ok plan s net nu vh" and "vector_ok L v" and "vector_for plan s v"
    and "list_all execution_weight_ok (ev_weights v)"
proof -
  from assms obtain ws where pre: "preflight_ok plan s net nu vh"
    and ws: "execution_weights (retained_targets plan s) = Inr ws"
    and v: "ExecutionVector_post_init L (wp_digest_sha256 plan) (JStr net) (JInt nu) (JStr vh)
      (JInt (wp_version_key plan)) ws (sort_key (\<lambda>w. (ow_planned_uid w, ow_hotkey w))
          (map omitted_of (filter (\<lambda>e. \<not> live (hotkey_dict s) e) (wp_weights plan)))) = Inr v"
    unfolding derive_execution_vector_def retained_targets_def
    by (auto simp: preflight_Inr derive_rows_Inr [of "wp_weights plan" _ "[]" "[]"] Let_def)
  then show "preflight_ok plan s net nu vh" "vector_ok L v" by (simp_all add: ExecutionVector_Inr)
  show "vector_for plan s v" "list_all execution_weight_ok (ev_weights v)"
    using v pre execution_weights_Inr [OF ws]
    by (simp_all add: ExecutionVector_Inr vector_for_def preflight_ok_def)
qed

lemma retained_targets_set:
  "set (retained_targets plan s) = retained_of (hotkey_dict s) ` {e \<in> set (wp_weights plan). live (hotkey_dict s) e}"
  by (simp add: retained_targets_def)

lemma retained_targets_hotkeys:
  "mset (map (\<lambda>r. fst (snd r)) (retained_targets plan s))
     = mset (map wpe_hotkey (filter (live (hotkey_dict s)) (wp_weights plan)))"
proof -
  have "mset (map (\<lambda>r. fst (snd r)) (retained_targets plan s))
      = mset (map (\<lambda>r. fst (snd r)) (map (retained_of (hotkey_dict s)) (filter (live (hotkey_dict s)) (wp_weights plan))))"
    by (simp only: mset_map retained_targets_def mset_sort)
  then show ?thesis by (simp add: comp_def retained_of_def)
qed

lemma retained_targets_canonical:
  assumes "view_ok s" and "distinct (map wpe_hotkey (wp_weights plan))"
  shows "sorted_wrt (<) (map fst (retained_targets plan s))"
proof -
  let ?es = "filter (live (hotkey_dict s)) (wp_weights plan)"
  let ?u = "\<lambda>e. nr_uid (the (hotkey_dict s (wpe_hotkey e)))"
  have hot: "distinct (map wpe_hotkey ?es)" using assms(2) by (simp add: distinct_map_filter)
  have "inj_on ?u (set ?es)"
  proof (rule inj_onI)
    fix a b assume ab: "a \<in> set ?es" "b \<in> set ?es" "?u a = ?u b"
    then obtain m n where "hotkey_dict s (wpe_hotkey a) = Some m" "hotkey_dict s (wpe_hotkey b) = Some n"
      by (auto simp: live_iff)
    with ab(3) have "wpe_hotkey a = wpe_hotkey b" using view_uid_inj [OF assms(1)] by simp
    then show "a = b" using hot ab(1,2) by (auto simp: distinct_map dest: inj_onD)
  qed
  then have "distinct (map ?u ?es)"
    using hot by (simp add: distinct_map)
  then have "distinct (map fst (map (retained_of (hotkey_dict s)) ?es))"
    by (simp add: comp_def retained_of_def)
  then have "distinct (map fst (retained_targets plan s))"
    by (simp only: retained_targets_def distinct_map_sort_key)
  moreover have "sorted (map (\<lambda>r. (fst r, fst (snd r))) (retained_targets plan s))"
    by (simp add: retained_targets_def)
  then have "sorted (map fst (retained_targets plan s))"
    by (auto simp: sorted_map less_eq_prod_def elim!: sorted_wrt_mono_rel [rotated])
  ultimately show ?thesis by (simp add: strict_sorted_iff)
qed

lemma distinct_filter_parts:
  assumes "distinct (map f xs)"
  shows "distinct (map f (filter P xs) @ map f (filter (\<lambda>x. \<not> P x) xs))"
  using assms by (induction xs) auto

lemma derive_hotkeys_distinct:
  assumes "distinct (map wpe_hotkey (wp_weights plan))"
    and "map ew_hotkey ws = map (\<lambda>r. fst (snd r)) (retained_targets plan s)"
    and "om = sort_key f (map omitted_of (filter (\<lambda>e. \<not> live (hotkey_dict s) e) (wp_weights plan)))"
  shows "distinct (map ew_hotkey ws @ map ow_hotkey om)"
proof -
  have "mset (map ow_hotkey om) = mset (map wpe_hotkey (filter (\<lambda>e. \<not> live (hotkey_dict s) e) (wp_weights plan)))"
    unfolding assms(3) mset_map mset_sort by (simp add: image_mset.compositionality comp_def omitted_of_def)
  then have "mset (map ew_hotkey ws @ map ow_hotkey om)
      = mset (map wpe_hotkey (filter (live (hotkey_dict s)) (wp_weights plan))
          @ map wpe_hotkey (filter (\<lambda>e. \<not> live (hotkey_dict s) e) (wp_weights plan)))"
    using retained_targets_hotkeys [of plan s] assms(2) by simp
  then show ?thesis
    using distinct_filter_parts [OF assms(1), of "live (hotkey_dict s)"] by (metis mset_eq_imp_distinct_iff)
qed

lemma ExecutionVector_total:
  assumes "digest_text pd" and "network_ok net" and "0 \<le> nu" and "nu \<le> 65535" and "\<not> bad_text 256 vh"
    and "0 \<le> vk" and "vk \<le> MAX_VERSION_KEY" and "ws \<noteq> []" and "sorted_wrt (<) (map ew_uid ws)"
    and "sorted (map (\<lambda>w. (ow_planned_uid w, ow_hotkey w)) om)"
    and "distinct (map ew_hotkey ws @ map ow_hotkey om)"
    and "is_close (fsum (map ew_weight ws)) 1 sum_tolerance"
  shows "\<exists>v. ExecutionVector_post_init L pd (JStr net) (JInt nu) (JStr vh) (JInt vk) ws om = Inr v"
proof -
  let ?q = "\<lparr>ev_plan_digest_sha256 = pd, ev_network = net, ev_netuid = nu, ev_validator_hotkey = vh,
      ev_version_key = vk, ev_weights = ws, ev_omitted = om, ev_digest_sha256 = []\<rparr>"
  let ?v = "?q\<lparr>ev_digest_sha256 := sha_json L (vector_unsigned_document ?q)\<rparr>"
  have "vector_ok L ?v" using assms by (simp add: vector_ok_def vector_unsigned_document_def)
  then have "ExecutionVector_post_init L pd (JStr net) (JInt nu) (JStr vh) (JInt vk) ws om = Inr ?v"
    by (simp add: ExecutionVector_Inr)
  then show ?thesis ..
qed

lemma derive_succeeds:
  assumes plan: "plan_wf L plan" and digest: "digest_text (wp_digest_sha256 plan)"
    and pre: "preflight_ok plan s net nu vh" and normal: "normal_weights (map wpe_weight (wp_weights plan))"
    and some: "list_ex (live (hotkey_dict s)) (wp_weights plan)"
  shows "\<exists>v. derive_execution_vector L plan s net nu vh = Inr v"
proof -
  let ?rs = "retained_targets plan s"
  let ?om = "sort_key (\<lambda>w. (ow_planned_uid w, ow_hotkey w))
      (map omitted_of (filter (\<lambda>e. \<not> live (hotkey_dict s) e) (wp_weights plan)))"
  have view: "view_ok s" using pre by (simp add: preflight_ok_def)
  have ok: "list_all entry_ok (wp_weights plan)" and po: "plan_ok L plan"
    using plan by (auto simp: plan_wf_def list_all_iff)
  then have hot: "distinct (map wpe_hotkey (wp_weights plan))" by (simp add: plan_ok_def)
  have "set ?rs \<noteq> {}" using some by (auto simp: retained_targets_set list_ex_iff)
  then have "?rs \<noteq> []" by auto
  have normal': "normal_weights (map (\<lambda>r. snd (snd (snd r))) ?rs)"
  proof (rule normal_weights_subset [OF normal])
    show "map (\<lambda>r. snd (snd (snd r))) ?rs \<noteq> []" using \<open>?rs \<noteq> []\<close> by simp
  qed (auto simp: retained_targets_set retained_of_def, simp add: retained_targets_def)
  have "\<And>r. r \<in> set ?rs \<Longrightarrow> 0 \<le> fst r \<and> fst r \<le> 65535 \<and> \<not> bad_text 256 (fst (snd r))
       \<and> 0 \<le> fst (snd (snd r)) \<and> fst (snd (snd r)) \<le> 65535"
    using ok view_neuron_ok [OF view]
    by (fastforce simp: retained_targets_set retained_of_def live_iff list_all_iff entry_ok_def neuron_ok_def)
  then obtain ws where ws: "execution_weights ?rs = Inr ws"
    using execution_weights_total [OF normal'] by blast
  note ids = execution_weights_Inr(1) [OF ws] and weights = execution_weights_Inr(2) [OF ws]
  have uids: "map ew_uid ws = map fst ?rs" and hotkeys: "map ew_hotkey ws = map (\<lambda>r. fst (snd r)) ?rs"
    using arg_cong [OF ids, of "map fst"] arg_cong [OF ids, of "map (\<lambda>x. fst (snd x))"]
    by (simp_all add: comp_def)
  have "\<exists>v. ExecutionVector_post_init L (wp_digest_sha256 plan) (JStr net) (JInt nu) (JStr vh)
      (JInt (wp_version_key plan)) ws ?om = Inr v"
  proof (rule ExecutionVector_total [OF digest])
    show "is_close (fsum (map ew_weight ws)) 1 sum_tolerance"
      unfolding weights by (rule normalize_sum [OF normal'])
    show "distinct (map ew_hotkey ws @ map ow_hotkey ?om)"
      by (rule derive_hotkeys_distinct [OF hot hotkeys refl])
    show "ws \<noteq> []" using uids \<open>?rs \<noteq> []\<close> by auto
    show "sorted_wrt (<) (map ew_uid ws)" unfolding uids by (rule retained_targets_canonical [OF view hot])
  qed (use pre po in \<open>auto simp: preflight_ok_def plan_ok_def\<close>)
  moreover have "filter (live (hotkey_dict s)) (wp_weights plan) \<noteq> []"
    using some by (auto simp: list_ex_iff filter_empty_conv)
  ultimately show ?thesis
    using pre ok ws normal_finite_total [OF normal'] normal_total(3) [OF normal']
      preflight_Inr [of L plan s net nu vh "()"]
    by (simp add: derive_execution_vector_def derive_rows_Inr Let_def retained_targets_def [symmetric])
qed

lemma execution_weights_determined:
  assumes "map (\<lambda>w. (ew_uid w, ew_hotkey w, ew_planned_uid w)) ws = map (\<lambda>e. (u e, h e, q e)) es"
    and "map ew_weight ws = map g es"
  shows "ws = map (\<lambda>e. \<lparr>ew_hotkey = h e, ew_planned_uid = q e, ew_uid = u e, ew_weight = g e\<rparr>) es"
  using assms
proof (induction ws arbitrary: es)
  case (Cons w ws)
  then show ?case by (cases es; cases w) auto
qed simp

section \<open>Properties\<close>

text \<open>
  C24: a derived vector is well formed and says exactly what the plan and the current view
  determine: the plan is unexpired and for this validator, every submitted weight goes to
  the current UID of an active neuron with the planned hotkey, and every planned target is
  either submitted or listed as omitted, never both.
\<close>

theorem derive_execution_vector_sound:
  assumes "derive_execution_vector L plan s net nu vh = Inr v" and "list_all entry_ok (wp_weights plan)"
  shows "preflight_ok plan s net nu vh \<and> vector_ok L v \<and> vector_for plan s v
     \<and> (\<forall>w \<in> set (ev_weights v). \<exists>n. \<exists>e \<in> set (wp_weights plan). by_hotkey s (ew_hotkey w) = Some n
          \<and> nr_active n \<and> nr_uid n = ew_uid w \<and> wpe_hotkey e = ew_hotkey w \<and> wpe_uid e = ew_planned_uid w)
     \<and> wpe_hotkey ` set (wp_weights plan) = ew_hotkey ` set (ev_weights v) \<union> ow_hotkey ` set (ev_omitted v)
     \<and> ew_hotkey ` set (ev_weights v) \<inter> ow_hotkey ` set (ev_omitted v) = {}"
proof -
  note d = derive_Inr [OF assms]
  have view: "view_ok s" using d(1) by (simp add: preflight_ok_def)
  let ?id = "\<lambda>e. (ew_uid e, ew_hotkey e, ew_planned_uid e)"
  have ids: "?id ` set (ev_weights v) = (\<lambda>r. (fst r, fst (snd r), fst (snd (snd r)))) `
      (retained_of (hotkey_dict s) ` {e \<in> set (wp_weights plan). live (hotkey_dict s) e})"
    using d(3) unfolding vector_for_def retained_targets_set [symmetric] by (metis list.set_map)
  have targets: "\<exists>n. \<exists>e \<in> set (wp_weights plan). by_hotkey s (ew_hotkey w) = Some n
          \<and> nr_active n \<and> nr_uid n = ew_uid w \<and> wpe_hotkey e = ew_hotkey w \<and> wpe_uid e = ew_planned_uid w"
    if "w \<in> set (ev_weights v)" for w
  proof -
    from that have "?id w \<in> ?id ` set (ev_weights v)" by (rule imageI)
    then obtain e where e: "e \<in> set (wp_weights plan)" "live (hotkey_dict s) e"
      "?id w = (\<lambda>r. (fst r, fst (snd r), fst (snd (snd r)))) (retained_of (hotkey_dict s) e)"
      unfolding ids by blast
    then show ?thesis
      using view_hotkey [OF view] by (auto simp: retained_of_def live_iff intro!: bexI [of _ e])
  qed
  have "ew_hotkey ` set (ev_weights v) = (\<lambda>x. fst (snd x)) ` ?id ` set (ev_weights v)"
    by (simp add: image_image)
  also have "\<dots> = wpe_hotkey ` {e \<in> set (wp_weights plan). live (hotkey_dict s) e}"
    unfolding ids by (simp add: image_image retained_of_def)
  finally have kept: "ew_hotkey ` set (ev_weights v) = wpe_hotkey ` {e \<in> set (wp_weights plan). live (hotkey_dict s) e}" .
  have "ow_hotkey ` set (ev_omitted v) = wpe_hotkey ` {e \<in> set (wp_weights plan). \<not> live (hotkey_dict s) e}"
    using d(3) by (simp add: vector_for_def image_image omitted_of_def)
  then have "wpe_hotkey ` set (wp_weights plan) = ew_hotkey ` set (ev_weights v) \<union> ow_hotkey ` set (ev_omitted v)"
    using kept by auto
  moreover have "ew_hotkey ` set (ev_weights v) \<inter> ow_hotkey ` set (ev_omitted v) = {}"
    using d(2) by (simp add: vector_ok_def)
  ultimately show ?thesis using d targets by blast
qed

text \<open>
  The derivation succeeds for every plan that passed the preflight, has weights of at
  least \<open>min_weight\<close> and a target that is still active: omitting targets and
  renormalising never fails the vector's own checks.
\<close>

theorem derive_execution_vector_total:
  assumes "plan_wf L plan" and "digest_text (wp_digest_sha256 plan)"
    and "preflight_ok plan s net nu vh" and "normal_weights (map wpe_weight (wp_weights plan))"
    and "list_ex (live (hotkey_dict s)) (wp_weights plan)"
  shows "\<exists>v. derive_execution_vector L plan s net nu vh = Inr v"
  by (rule derive_succeeds [OF assms])

text \<open>
  when no planned hotkey moved or left and the planned weights sum to exactly one, the
  submitted vector is the plan itself: the same UIDs with the same weights, nothing
  omitted, nothing moved.
\<close>

theorem derive_execution_vector_unchanged:
  assumes "derive_execution_vector L plan s net nu vh = Inr v" and "plan_wf L plan"
    and "list_all (\<lambda>e. live (hotkey_dict s) e \<and> nr_uid (the (hotkey_dict s (wpe_hotkey e))) = wpe_uid e)
      (wp_weights plan)"
    and "fsum (map wpe_weight (wp_weights plan)) = 1"
  shows "ev_weights v = map (\<lambda>e. \<lparr>ew_hotkey = wpe_hotkey e, ew_planned_uid = wpe_uid e,
        ew_uid = wpe_uid e, ew_weight = wpe_weight e\<rparr>) (wp_weights plan)
     \<and> ev_omitted v = [] \<and> moved_count v = 0"
proof -
  let ?es = "wp_weights plan"
  have ok: "list_all entry_ok ?es" and sorted: "sorted_wrt (<) (map wpe_uid ?es)"
    using assms(2) by (auto simp: plan_wf_def plan_ok_def list_all_iff)
  note d = derive_Inr(3) [OF assms(1) ok]
  have all: "filter (live (hotkey_dict s)) ?es = ?es" "filter (\<lambda>e. \<not> live (hotkey_dict s) e) ?es = []"
    using assms(3) by (auto simp: list_all_iff filter_id_conv filter_empty_conv)
  have ret: "map (retained_of (hotkey_dict s)) ?es = map (\<lambda>e. (wpe_uid e, wpe_hotkey e, wpe_uid e, wpe_weight e)) ?es"
    using assms(3) by (auto simp: list_all_iff retained_of_def)
  have "sorted (map (\<lambda>e. (wpe_uid e, wpe_hotkey e)) ?es)"
    using sorted by (auto simp: sorted_map sorted_wrt_map less_eq_prod_def elim!: sorted_wrt_mono_rel [rotated])
  then have targets: "retained_targets plan s = map (\<lambda>e. (wpe_uid e, wpe_hotkey e, wpe_uid e, wpe_weight e)) ?es"
    unfolding retained_targets_def all ret by (intro sort_key_id_if_sorted) (simp add: comp_def)
  have ids: "map (\<lambda>e. (ew_uid e, ew_hotkey e, ew_planned_uid e)) (ev_weights v)
      = map (\<lambda>e. (wpe_uid e, wpe_hotkey e, wpe_uid e)) ?es"
    using d by (simp add: vector_for_def targets comp_def)
  have "normalize_weights (map wpe_weight ?es) = map wpe_weight ?es"
    using assms(2) by (intro normalize_exact [OF assms(4)]) (auto simp: plan_wf_def list_all_iff)
  then have ws: "map ew_weight (ev_weights v) = map wpe_weight ?es"
    using d by (simp add: vector_for_def targets comp_def)
  have eq: "ev_weights v = map (\<lambda>e. \<lparr>ew_hotkey = wpe_hotkey e, ew_planned_uid = wpe_uid e,
        ew_uid = wpe_uid e, ew_weight = wpe_weight e\<rparr>) ?es"
    by (rule execution_weights_determined [OF ids ws])
  moreover have "ev_omitted v = []" using d by (simp add: vector_for_def all)
  ultimately show ?thesis by (simp add: moved_count_def filter_map comp_def)
qed

end
