(* ===== verification/AuditLedger.thy ===== *)
theory AuditLedger
  imports ExecutionVectors
begin

text \<open>
  The durable audit ledger of \<^verbatim>\<open>weight_executor.py\<close>: receipts, attempts and the
  sealed \<^verbatim>\<open>AuditState\<close>, its parser, and \<^verbatim>\<open>AuditStateStore\<close> with the operations
  that the executor calls around a submission. The file system is the bytes under the
  configured name; how far an atomic replacement got is an input of the operation that
  performs it.
\<close>

section \<open>Constants and text checks\<close>

definition WEIGHT_EXECUTION_AUDIT_SCHEMA :: string where
  "WEIGHT_EXECUTION_AUDIT_SCHEMA = ''miss.computer/misscomputer-subnet/weight-execution-audit''"

definition MAX_AUDIT_ATTEMPTS :: nat where "MAX_AUDIT_ATTEMPTS = 4096"

definition MAX_WEIGHT_PLAN_BYTES :: nat where "MAX_WEIGHT_PLAN_BYTES = 16777216"

definition audit_invalid :: exn where
  "audit_invalid = AuditStateError ''audit_state_invalid''"

definition safe_reference :: "string \<Rightarrow> bool" where
  "safe_reference s \<longleftrightarrow> 1 \<le> length s \<and> length s \<le> 256 \<and> list_all graphic s"

definition lower_char :: "char \<Rightarrow> char" where
  "lower_char c = (if 65 \<le> ord c \<and> ord c \<le> 90 then char_of (ord c + 32) else c)"

definition code_char :: "char \<Rightarrow> bool" where
  "code_char c \<longleftrightarrow> (97 \<le> ord c \<and> ord c \<le> 122) \<or> (48 \<le> ord c \<and> ord c \<le> 57) \<or> c = CHR ''_''"

text \<open>\<^verbatim>\<open>_safe_error_code\<close> of a text: folded to lower case with dashes as underscores.\<close>

definition safe_error_code :: "string \<Rightarrow> string option" where
  "safe_error_code s =
     (let rendered = map (\<lambda>c. if lower_char c = CHR ''-'' then CHR ''_'' else lower_char c) s
      in if 1 \<le> length rendered \<and> length rendered \<le> 64 \<and> list_all code_char rendered
         then Some rendered else None)"

definition validate_timestamp :: "pylib \<Rightarrow> json \<Rightarrow> string res" where
  "validate_timestamp L value = (case value of
     JStr s \<Rightarrow> reject_if (s = [] \<or> last s \<noteq> CHR ''Z'' \<or> length s > 40 \<or> \<not> iso_utc L (butlast s @ ''+00:00''))
                audit_invalid (Inr s)
   | _ \<Rightarrow> Inl audit_invalid)"

definition execution_attempt_key :: "pylib \<Rightarrow> string \<Rightarrow> string \<Rightarrow> string res" where
  "execution_attempt_key L plan_digest execution_digest =
     res_bind (validate_digest (JStr plan_digest)) (\<lambda>p.
     res_bind (validate_digest (JStr execution_digest)) (\<lambda>e.
       Inr (sha_json L (JObj [(''execution_digest_sha256'', JStr e), (''plan_digest_sha256'', JStr p)]))))"

section \<open>Submission results\<close>

record SubmissionResult =
  sr_success :: bool
  sr_extrinsic_ref :: "string option"
  sr_error_code :: "string option"

definition SubmissionResult_post_init :: "SubmissionResult \<Rightarrow> SubmissionResult res" where
  "SubmissionResult_post_init r =
     reject_if (case sr_extrinsic_ref r of None \<Rightarrow> False | Some x \<Rightarrow> \<not> safe_reference x)
       (ValueError ''submission result extrinsic reference is invalid'')
     (reject_if (case sr_error_code r of None \<Rightarrow> False | Some x \<Rightarrow> safe_error_code x \<noteq> Some x)
       (ValueError ''submission result error code is invalid'') (Inr r))"

section \<open>Receipts\<close>

datatype ReceiptOutcome = OutConfirmed | OutPreSendFailure | OutDefiniteFailure | OutAmbiguous

datatype AuditStatus = InProgress | Confirmed | Failed | Ambiguous

definition outcome_text :: "ReceiptOutcome \<Rightarrow> string" where
  "outcome_text r = (case r of OutConfirmed \<Rightarrow> ''confirmed'' | OutPreSendFailure \<Rightarrow> ''pre_send_failure''
     | OutDefiniteFailure \<Rightarrow> ''definite_failure'' | OutAmbiguous \<Rightarrow> ''ambiguous'')"

definition status_text :: "AuditStatus \<Rightarrow> string" where
  "status_text s = (case s of InProgress \<Rightarrow> ''in_progress'' | Confirmed \<Rightarrow> ''confirmed''
     | Failed \<Rightarrow> ''failed'' | Ambiguous \<Rightarrow> ''ambiguous'')"

text \<open>
  \<^verbatim>\<open>value not in {...}\<close> for a set of texts: an unhashable value raises
  \<^verbatim>\<open>TypeError\<close>.
\<close>

definition member_of :: "('a \<Rightarrow> string) \<Rightarrow> 'a list \<Rightarrow> json \<Rightarrow> 'a res" where
  "member_of text vs value = (case value of
     JStr s \<Rightarrow> (case first_match (\<lambda>v. text v = s) vs of Some v \<Rightarrow> Inr v | None \<Rightarrow> Inl audit_invalid)
   | JList _ \<Rightarrow> Inl (TypeError ''unhashable type'')
   | JObj _ \<Rightarrow> Inl (TypeError ''unhashable type'')
   | _ \<Rightarrow> Inl audit_invalid)"

definition parse_outcome :: "json \<Rightarrow> ReceiptOutcome res" where
  "parse_outcome = member_of outcome_text [OutConfirmed, OutPreSendFailure, OutDefiniteFailure, OutAmbiguous]"

definition parse_status :: "json \<Rightarrow> AuditStatus res" where
  "parse_status = member_of status_text [InProgress, Confirmed, Failed, Ambiguous]"

record AuditReceipt =
  rc_outcome :: ReceiptOutcome
  rc_extrinsic_ref :: "string option"
  rc_error_code :: "string option"

definition optional_text :: "(string \<Rightarrow> bool) \<Rightarrow> json \<Rightarrow> string option res" where
  "optional_text ok value = (case value of
     JNull \<Rightarrow> Inr None
   | JStr s \<Rightarrow> reject_if (\<not> ok s) audit_invalid (Inr (Some s))
   | _ \<Rightarrow> Inl audit_invalid)"

definition AuditReceipt_post_init :: "json \<Rightarrow> json \<Rightarrow> json \<Rightarrow> AuditReceipt res" where
  "AuditReceipt_post_init outcome extrinsic_ref error_code =
     res_bind (parse_outcome outcome) (\<lambda>out.
     res_bind (optional_text safe_reference extrinsic_ref) (\<lambda>ref.
     res_bind (optional_text (\<lambda>s. safe_error_code s = Some s) error_code) (\<lambda>code.
     reject_if (if out = OutConfirmed then ref = None \<or> code \<noteq> None else code = None) audit_invalid
       (Inr \<lparr>rc_outcome = out, rc_extrinsic_ref = ref, rc_error_code = code\<rparr>))))"

definition receipt_document :: "AuditReceipt \<Rightarrow> json" where
  "receipt_document r = JObj [(''error_code'', jstr_opt (rc_error_code r)),
     (''extrinsic_ref'', jstr_opt (rc_extrinsic_ref r)), (''outcome'', JStr (outcome_text (rc_outcome r)))]"

section \<open>Attempts\<close>

record AuditAttempt =
  aa_attempt_id :: string
  aa_attempt_key :: string
  aa_plan_digest_sha256 :: string
  aa_execution_digest_sha256 :: string
  aa_network :: string
  aa_netuid :: int
  aa_validator_hotkey :: string
  aa_version_key :: int
  aa_preflight_block :: int
  aa_send_check_block :: "int option"
  aa_status :: AuditStatus
  aa_submission_started :: bool
  aa_started_at :: string
  aa_updated_at :: string
  aa_weights :: "ExecutionWeight list"
  aa_omitted :: "OmittedWeight list"
  aa_receipt :: "AuditReceipt option"

text \<open>The constructor's arguments before validation.\<close>

record raw_attempt =
  ra_attempt_id :: json
  ra_attempt_key :: json
  ra_plan_digest_sha256 :: json
  ra_execution_digest_sha256 :: json
  ra_network :: json
  ra_netuid :: json
  ra_validator_hotkey :: json
  ra_version_key :: json
  ra_preflight_block :: json
  ra_send_check_block :: json
  ra_status :: json
  ra_submission_started :: json
  ra_started_at :: json
  ra_updated_at :: json
  ra_weights :: "ExecutionWeight list"
  ra_omitted :: "OmittedWeight list"
  ra_receipt :: "AuditReceipt option"

definition optional_send_check :: "int \<Rightarrow> json \<Rightarrow> int option res" where
  "optional_send_check preflight value = (case value of
     JNull \<Rightarrow> Inr None
   | _ \<Rightarrow> res_bind (validate_uint MAX_BLOCK value) (\<lambda>n.
            reject_if (n < preflight) audit_invalid (Inr (Some n))))"

definition expect_bool :: "json \<Rightarrow> bool res" where
  "expect_bool value = (case value of JBool b \<Rightarrow> Inr b | _ \<Rightarrow> Inl audit_invalid)"

definition expected_outcome :: "AuditStatus \<Rightarrow> bool \<Rightarrow> ReceiptOutcome option" where
  "expected_outcome status started = (case status of
     InProgress \<Rightarrow> None
   | Confirmed \<Rightarrow> Some OutConfirmed
   | Ambiguous \<Rightarrow> Some OutAmbiguous
   | Failed \<Rightarrow> Some (if started then OutDefiniteFailure else OutPreSendFailure))"

definition AuditAttempt_post_init :: "pylib \<Rightarrow> raw_attempt \<Rightarrow> AuditAttempt res" where
  "AuditAttempt_post_init L raw =
     res_bind (validate_digest (ra_attempt_id raw)) (\<lambda>attempt_id.
     res_bind (validate_digest (ra_attempt_key raw)) (\<lambda>attempt_key.
     res_bind (validate_digest (ra_plan_digest_sha256 raw)) (\<lambda>plan_digest.
     res_bind (validate_digest (ra_execution_digest_sha256 raw)) (\<lambda>execution_digest.
     res_bind (execution_attempt_key L plan_digest execution_digest) (\<lambda>key.
     reject_if (attempt_key \<noteq> key) audit_invalid
     (res_bind (validate_public_network (ra_network raw)) (\<lambda>network.
      res_bind (validate_uint 65535 (ra_netuid raw)) (\<lambda>netuid.
      res_bind (validate_public_text (ra_validator_hotkey raw)) (\<lambda>vh.
      res_bind (validate_uint MAX_VERSION_KEY (ra_version_key raw)) (\<lambda>vk.
      res_bind (validate_uint MAX_BLOCK (ra_preflight_block raw)) (\<lambda>preflight.
      res_bind (optional_send_check preflight (ra_send_check_block raw)) (\<lambda>send_check.
      res_bind (parse_status (ra_status raw)) (\<lambda>status.
      res_bind (expect_bool (ra_submission_started raw)) (\<lambda>started.
      res_bind (validate_timestamp L (ra_started_at raw)) (\<lambda>started_at.
      res_bind (validate_timestamp L (ra_updated_at raw)) (\<lambda>updated_at.
      reject_if (ra_weights raw = []) audit_invalid
     (res_bind (ExecutionVector_post_init L plan_digest (JStr network) (JInt netuid) (JStr vh) (JInt vk)
          (ra_weights raw) (ra_omitted raw)) (\<lambda>vector.
      reject_if (ev_digest_sha256 vector \<noteq> execution_digest) audit_invalid
     (reject_if (map_option rc_outcome (ra_receipt raw) \<noteq> expected_outcome status started) audit_invalid
     (reject_if (started \<and> send_check = None) audit_invalid
     (reject_if (\<not> started \<and> send_check \<noteq> None) audit_invalid
     (reject_if (status \<in> {Confirmed, Ambiguous} \<and> \<not> started) audit_invalid
       (Inr \<lparr>aa_attempt_id = attempt_id, aa_attempt_key = attempt_key, aa_plan_digest_sha256 = plan_digest,
             aa_execution_digest_sha256 = execution_digest, aa_network = network, aa_netuid = netuid,
             aa_validator_hotkey = vh, aa_version_key = vk, aa_preflight_block = preflight,
             aa_send_check_block = send_check, aa_status = status, aa_submission_started = started,
             aa_started_at = started_at, aa_updated_at = updated_at, aa_weights = ra_weights raw,
             aa_omitted = ra_omitted raw, aa_receipt = ra_receipt raw\<rparr>)))))))))))))))))))))))"

text \<open>\<^verbatim>\<open>dataclasses.replace\<close> passes the current field values to the constructor again.\<close>

definition raw_of :: "AuditAttempt \<Rightarrow> raw_attempt" where
  "raw_of a = \<lparr>ra_attempt_id = JStr (aa_attempt_id a), ra_attempt_key = JStr (aa_attempt_key a),
     ra_plan_digest_sha256 = JStr (aa_plan_digest_sha256 a),
     ra_execution_digest_sha256 = JStr (aa_execution_digest_sha256 a), ra_network = JStr (aa_network a),
     ra_netuid = JInt (aa_netuid a), ra_validator_hotkey = JStr (aa_validator_hotkey a),
     ra_version_key = JInt (aa_version_key a), ra_preflight_block = JInt (aa_preflight_block a),
     ra_send_check_block = jint_opt (aa_send_check_block a), ra_status = JStr (status_text (aa_status a)),
     ra_submission_started = JBool (aa_submission_started a), ra_started_at = JStr (aa_started_at a),
     ra_updated_at = JStr (aa_updated_at a), ra_weights = aa_weights a, ra_omitted = aa_omitted a,
     ra_receipt = aa_receipt a\<rparr>"

definition attempt_document :: "AuditAttempt \<Rightarrow> json" where
  "attempt_document a = JObj [
     (''attempt_id'', JStr (aa_attempt_id a)),
     (''attempt_key'', JStr (aa_attempt_key a)),
     (''execution_digest_sha256'', JStr (aa_execution_digest_sha256 a)),
     (''mapping'', JObj [
        (''omitted'', JList (map omitted_weight_document (aa_omitted a))),
        (''weights'', JList (map execution_weight_document (aa_weights a)))]),
     (''netuid'', JInt (aa_netuid a)),
     (''network'', JStr (aa_network a)),
     (''plan_digest_sha256'', JStr (aa_plan_digest_sha256 a)),
     (''preflight_block'', JInt (aa_preflight_block a)),
     (''receipt'', case aa_receipt a of None \<Rightarrow> JNull | Some r \<Rightarrow> receipt_document r),
     (''send_check_block'', jint_opt (aa_send_check_block a)),
     (''started_at'', JStr (aa_started_at a)),
     (''status'', JStr (status_text (aa_status a))),
     (''submission_started'', JBool (aa_submission_started a)),
     (''updated_at'', JStr (aa_updated_at a)),
     (''validator_hotkey'', JStr (aa_validator_hotkey a)),
     (''version_key'', JInt (aa_version_key a))]"

section \<open>The sealed state\<close>

record AuditState =
  as_attempts :: "AuditAttempt list"
  as_digest_sha256 :: string

definition state_unsigned_document :: "AuditAttempt list \<Rightarrow> json" where
  "state_unsigned_document attempts = JObj [
     (''attempts'', JList (map attempt_document attempts)),
     (''schema'', JStr WEIGHT_EXECUTION_AUDIT_SCHEMA),
     (''schema_version'', JInt 1)]"

definition state_document :: "AuditState \<Rightarrow> json" where
  "state_document s = JObj [
     (''attempts'', JList (map attempt_document (as_attempts s))),
     (''schema'', JStr WEIGHT_EXECUTION_AUDIT_SCHEMA),
     (''schema_version'', JInt 1),
     (''digest_sha256'', JStr (as_digest_sha256 s))]"

definition state_canonical_bytes :: "pylib \<Rightarrow> AuditState \<Rightarrow> string" where
  "state_canonical_bytes L s = dumps L (state_document s) @ [newline]"

definition AuditState_post_init :: "pylib \<Rightarrow> AuditAttempt list \<Rightarrow> AuditState res" where
  "AuditState_post_init L attempts =
     reject_if (length attempts > MAX_AUDIT_ATTEMPTS) (AuditStateError ''audit_state_full'')
     (reject_if (\<not> distinct (map aa_attempt_id attempts)) audit_invalid
       (Inr \<lparr>as_attempts = attempts, as_digest_sha256 = sha_json L (state_unsigned_document attempts)\<rparr>))"

section \<open>Parsing\<close>

definition audit_sequence :: "json \<Rightarrow> json list res" where
  "audit_sequence value = (case value of JList xs \<Rightarrow> Inr xs | _ \<Rightarrow> Inl audit_invalid)"

definition parse_execution_weight :: "json \<Rightarrow> ExecutionWeight res" where
  "parse_execution_weight value =
     res_bind (exact_object audit_invalid [''hotkey'', ''planned_uid'', ''uid'', ''weight''] value) (\<lambda>row.
       ExecutionWeight_post_init (jget row ''hotkey'') (jget row ''planned_uid'') (jget row ''uid'')
         (jget row ''weight''))"

definition parse_omitted_weight :: "json \<Rightarrow> OmittedWeight res" where
  "parse_omitted_weight value =
     res_bind (exact_object audit_invalid [''hotkey'', ''planned_uid''] value) (\<lambda>row.
       OmittedWeight_post_init (jget row ''hotkey'') (jget row ''planned_uid''))"

definition parse_receipt :: "json \<Rightarrow> AuditReceipt option res" where
  "parse_receipt value = (if value = JNull then Inr None else
     res_bind (exact_object audit_invalid [''error_code'', ''extrinsic_ref'', ''outcome''] value) (\<lambda>row.
     res_bind (AuditReceipt_post_init (jget row ''outcome'') (jget row ''extrinsic_ref'')
         (jget row ''error_code'')) (\<lambda>r. Inr (Some r))))"

definition attempt_keys :: "string list" where
  "attempt_keys = [''attempt_id'', ''attempt_key'', ''execution_digest_sha256'', ''mapping'', ''netuid'',
     ''network'', ''plan_digest_sha256'', ''preflight_block'', ''receipt'', ''send_check_block'',
     ''started_at'', ''status'', ''submission_started'', ''updated_at'', ''validator_hotkey'', ''version_key'']"

definition parse_attempt :: "pylib \<Rightarrow> json \<Rightarrow> AuditAttempt res" where
  "parse_attempt L value =
     res_bind (exact_object audit_invalid attempt_keys value) (\<lambda>row.
     res_bind (exact_object audit_invalid [''omitted'', ''weights''] (jget row ''mapping'')) (\<lambda>mapping.
     res_bind (audit_sequence (jget mapping ''weights'')) (\<lambda>raw_weights.
     res_bind (mapM parse_execution_weight raw_weights) (\<lambda>weights.
     res_bind (audit_sequence (jget mapping ''omitted'')) (\<lambda>raw_omitted.
     res_bind (mapM parse_omitted_weight raw_omitted) (\<lambda>omitted.
     res_bind (parse_receipt (jget row ''receipt'')) (\<lambda>receipt.
       AuditAttempt_post_init L \<lparr>ra_attempt_id = jget row ''attempt_id'', ra_attempt_key = jget row ''attempt_key'',
         ra_plan_digest_sha256 = jget row ''plan_digest_sha256'',
         ra_execution_digest_sha256 = jget row ''execution_digest_sha256'',
         ra_network = jget row ''network'', ra_netuid = jget row ''netuid'',
         ra_validator_hotkey = jget row ''validator_hotkey'', ra_version_key = jget row ''version_key'',
         ra_preflight_block = jget row ''preflight_block'', ra_send_check_block = jget row ''send_check_block'',
         ra_status = jget row ''status'', ra_submission_started = jget row ''submission_started'',
         ra_started_at = jget row ''started_at'', ra_updated_at = jget row ''updated_at'',
         ra_weights = weights, ra_omitted = omitted, ra_receipt = receipt\<rparr>)))))))"

definition parse_audit_document :: "pylib \<Rightarrow> json \<Rightarrow> AuditState res" where
  "parse_audit_document L document =
     res_bind (exact_object audit_invalid [''attempts'', ''digest_sha256'', ''schema'', ''schema_version''] document) (\<lambda>root.
     reject_if (jget root ''schema'' \<noteq> JStr WEIGHT_EXECUTION_AUDIT_SCHEMA) audit_invalid
     (reject_if (\<not> py_eq_int (jget root ''schema_version'') 1) audit_invalid
     (res_bind (audit_sequence (jget root ''attempts'')) (\<lambda>raw_attempts.
      res_bind (mapM (parse_attempt L) raw_attempts) (\<lambda>attempts.
      res_bind (AuditState_post_init L attempts) (\<lambda>state.
      reject_if (jget root ''digest_sha256'' \<noteq> JStr (as_digest_sha256 state)) audit_invalid
        (Inr state)))))))"

definition parse_audit_state :: "pylib \<Rightarrow> string \<Rightarrow> AuditState res" where
  "parse_audit_state L rendered =
     res_bind (load_document L audit_invalid audit_invalid rendered) (\<lambda>document.
     res_bind (parse_audit_document L document) (\<lambda>state.
     reject_if (rendered \<noteq> state_canonical_bytes L state) audit_invalid (Inr state)))"

section \<open>What construction establishes\<close>

definition timestamp_ok :: "pylib \<Rightarrow> string \<Rightarrow> bool" where
  "timestamp_ok L s \<longleftrightarrow> s \<noteq> [] \<and> last s = CHR ''Z'' \<and> length s \<le> 40 \<and> iso_utc L (butlast s @ ''+00:00'')"

definition receipt_ok :: "AuditReceipt \<Rightarrow> bool" where
  "receipt_ok r \<longleftrightarrow> (case rc_extrinsic_ref r of None \<Rightarrow> True | Some x \<Rightarrow> safe_reference x)
     \<and> (case rc_error_code r of None \<Rightarrow> True | Some c \<Rightarrow> safe_error_code c = Some c)
     \<and> (if rc_outcome r = OutConfirmed then rc_extrinsic_ref r \<noteq> None \<and> rc_error_code r = None
        else rc_error_code r \<noteq> None)"

text \<open>The vector that an attempt records.\<close>

definition attempt_vector :: "AuditAttempt \<Rightarrow> ExecutionVector" where
  "attempt_vector a = \<lparr>ev_plan_digest_sha256 = aa_plan_digest_sha256 a, ev_network = aa_network a,
     ev_netuid = aa_netuid a, ev_validator_hotkey = aa_validator_hotkey a, ev_version_key = aa_version_key a,
     ev_weights = aa_weights a, ev_omitted = aa_omitted a, ev_digest_sha256 = aa_execution_digest_sha256 a\<rparr>"

definition attempt_ok :: "pylib \<Rightarrow> AuditAttempt \<Rightarrow> bool" where
  "attempt_ok L a \<longleftrightarrow> digest_text (aa_attempt_id a) \<and> digest_text (aa_attempt_key a)
     \<and> digest_text (aa_execution_digest_sha256 a)
     \<and> execution_attempt_key L (aa_plan_digest_sha256 a) (aa_execution_digest_sha256 a) = Inr (aa_attempt_key a)
     \<and> 0 \<le> aa_preflight_block a \<and> aa_preflight_block a \<le> MAX_BLOCK
     \<and> (case aa_send_check_block a of None \<Rightarrow> True | Some n \<Rightarrow> aa_preflight_block a \<le> n \<and> n \<le> MAX_BLOCK)
     \<and> timestamp_ok L (aa_started_at a) \<and> timestamp_ok L (aa_updated_at a)
     \<and> vector_ok L (attempt_vector a)
     \<and> map_option rc_outcome (aa_receipt a) = expected_outcome (aa_status a) (aa_submission_started a)
     \<and> (aa_submission_started a \<longleftrightarrow> aa_send_check_block a \<noteq> None)
     \<and> (aa_status a \<in> {Confirmed, Ambiguous} \<longrightarrow> aa_submission_started a)"

lemma validate_timestamp_Inr [simp, res_simps]:
  "validate_timestamp L v = Inr s \<longleftrightarrow> v = JStr s \<and> timestamp_ok L s"
  by (cases v) (auto simp: validate_timestamp_def timestamp_ok_def not_less)

lemma execution_attempt_key_Inr:
  "execution_attempt_key L p e = Inr k \<longleftrightarrow> digest_text p \<and> digest_text e
     \<and> k = sha_json L (JObj [(''execution_digest_sha256'', JStr e), (''plan_digest_sha256'', JStr p)])"
  by (auto simp: execution_attempt_key_def)

lemma parse_outcome_Inr [simp, res_simps]: "parse_outcome v = Inr x \<longleftrightarrow> v = JStr (outcome_text x)"
  by (cases x; cases v) (auto simp: parse_outcome_def member_of_def first_match_def outcome_text_def)

lemma parse_status_Inr [simp, res_simps]: "parse_status v = Inr x \<longleftrightarrow> v = JStr (status_text x)"
  by (cases x; cases v) (auto simp: parse_status_def member_of_def first_match_def status_text_def)

lemma optional_text_Inr [simp, res_simps]:
  "optional_text ok v = Inr x \<longleftrightarrow> v = jstr_opt x \<and> (case x of None \<Rightarrow> True | Some s \<Rightarrow> ok s)"
  by (cases x; cases v) (auto simp: optional_text_def jstr_opt_def)

lemma optional_send_check_Inr [simp, res_simps]:
  "optional_send_check p v = Inr x \<longleftrightarrow> v = jint_opt x
     \<and> (case x of None \<Rightarrow> True | Some n \<Rightarrow> 0 \<le> n \<and> p \<le> n \<and> n \<le> MAX_BLOCK)"
  by (cases x; cases v) (auto simp: optional_send_check_def jint_opt_def validate_uint_def not_less)

lemma expect_bool_Inr [simp, res_simps]: "expect_bool v = Inr b \<longleftrightarrow> v = JBool b"
  by (cases v) (auto simp: expect_bool_def)

lemma AuditReceipt_Inr:
  "AuditReceipt_post_init out ref code = Inr r \<longleftrightarrow> out = JStr (outcome_text (rc_outcome r))
     \<and> ref = jstr_opt (rc_extrinsic_ref r) \<and> code = jstr_opt (rc_error_code r) \<and> receipt_ok r"
  by (cases r) (auto simp: AuditReceipt_post_init_def receipt_ok_def)

lemma ExecutionVector_digest:
  "(\<exists>v. ExecutionVector_post_init L pd (JStr net) (JInt nu) (JStr vh) (JInt vk) ws om = Inr v
      \<and> ev_digest_sha256 v = d)
   \<longleftrightarrow> vector_ok L \<lparr>ev_plan_digest_sha256 = pd, ev_network = net, ev_netuid = nu, ev_validator_hotkey = vh,
        ev_version_key = vk, ev_weights = ws, ev_omitted = om, ev_digest_sha256 = d\<rparr>"
  (is "?l \<longleftrightarrow> vector_ok L ?v")
proof
  assume ?l
  then obtain v where "ExecutionVector_post_init L pd (JStr net) (JInt nu) (JStr vh) (JInt vk) ws om = Inr v"
    and "ev_digest_sha256 v = d" by blast
  then show "vector_ok L ?v" by (cases v) (auto simp: ExecutionVector_Inr)
next
  assume "vector_ok L ?v"
  then show ?l by (intro exI [of _ ?v]) (simp add: ExecutionVector_Inr)
qed

lemma ExecutionVector_digestD:
  "ExecutionVector_post_init L pd (JStr net) (JInt nu) (JStr vh) (JInt vk) ws om = Inr v \<Longrightarrow> 
     vector_ok L \<lparr>ev_plan_digest_sha256 = pd, ev_network = net, ev_netuid = nu, ev_validator_hotkey = vh,
        ev_version_key = vk, ev_weights = ws, ev_omitted = om, ev_digest_sha256 = ev_digest_sha256 v\<rparr>"
  using ExecutionVector_digest by blast

lemma AuditAttempt_sound: "AuditAttempt_post_init L raw = Inr a \<Longrightarrow> raw = raw_of a \<and> attempt_ok L a"
  unfolding AuditAttempt_post_init_def
  by (elim res_bindE reject_ifE, drule ExecutionVector_digestD, cases raw,
      simp add: execution_attempt_key_Inr, hypsubst)
    (auto simp: raw_of_def attempt_ok_def attempt_vector_def execution_attempt_key_Inr split: option.splits)

lemma AuditAttempt_total:
  "attempt_ok L a \<Longrightarrow> AuditAttempt_post_init L (raw_of a) = Inr a"
proof -
  assume ok: "attempt_ok L a"
  then have "vector_ok L (attempt_vector a)" by (simp add: attempt_ok_def)
  then have v: "ExecutionVector_post_init L (aa_plan_digest_sha256 a) (JStr (aa_network a)) (JInt (aa_netuid a))
     (JStr (aa_validator_hotkey a)) (JInt (aa_version_key a)) (aa_weights a) (aa_omitted a)
     = Inr (attempt_vector a)"
    by (simp add: ExecutionVector_Inr attempt_vector_def)
  have r: "validate_digest (JStr (aa_attempt_id a)) = Inr (aa_attempt_id a)"
    "validate_digest (JStr (aa_attempt_key a)) = Inr (aa_attempt_key a)"
    "validate_digest (JStr (aa_plan_digest_sha256 a)) = Inr (aa_plan_digest_sha256 a)"
    "validate_digest (JStr (aa_execution_digest_sha256 a)) = Inr (aa_execution_digest_sha256 a)"
    "execution_attempt_key L (aa_plan_digest_sha256 a) (aa_execution_digest_sha256 a) = Inr (aa_attempt_key a)"
    "validate_public_network (JStr (aa_network a)) = Inr (aa_network a)"
    "validate_uint 65535 (JInt (aa_netuid a)) = Inr (aa_netuid a)"
    "validate_public_text (JStr (aa_validator_hotkey a)) = Inr (aa_validator_hotkey a)"
    "validate_uint MAX_VERSION_KEY (JInt (aa_version_key a)) = Inr (aa_version_key a)"
    "validate_uint MAX_BLOCK (JInt (aa_preflight_block a)) = Inr (aa_preflight_block a)"
    "optional_send_check (aa_preflight_block a) (jint_opt (aa_send_check_block a)) = Inr (aa_send_check_block a)"
    "parse_status (JStr (status_text (aa_status a))) = Inr (aa_status a)"
    "expect_bool (JBool (aa_submission_started a)) = Inr (aa_submission_started a)"
    "validate_timestamp L (JStr (aa_started_at a)) = Inr (aa_started_at a)"
    "validate_timestamp L (JStr (aa_updated_at a)) = Inr (aa_updated_at a)"
    using ok by (auto simp: attempt_ok_def vector_ok_def attempt_vector_def split: option.splits)
  have f: "aa_weights a \<noteq> []" "ev_digest_sha256 (attempt_vector a) = aa_execution_digest_sha256 a"
    "map_option rc_outcome (aa_receipt a) = expected_outcome (aa_status a) (aa_submission_started a)"
    "\<not> (aa_submission_started a \<and> aa_send_check_block a = None)"
    "\<not> (\<not> aa_submission_started a \<and> aa_send_check_block a \<noteq> None)"
    "\<not> (aa_status a \<in> {Confirmed, Ambiguous} \<and> \<not> aa_submission_started a)"
    using ok by (auto simp: attempt_ok_def vector_ok_def attempt_vector_def)
  show ?thesis
    unfolding AuditAttempt_post_init_def raw_of_def raw_attempt.simps
    by (simp only: r v f res_bind.simps reject_if_False simp_thms) simp
qed

lemma AuditAttempt_Inr:
  "AuditAttempt_post_init L raw = Inr a \<longleftrightarrow> raw = raw_of a \<and> attempt_ok L a"
  using AuditAttempt_sound AuditAttempt_total by blast

section \<open>Round trip of the ledger file\<close>

definition weight_good :: "ExecutionWeight \<Rightarrow> bool" where
  "weight_good w \<longleftrightarrow> execution_weight_ok w \<and> rnd (ew_weight w) = ew_weight w"

definition attempt_good :: "pylib \<Rightarrow> AuditAttempt \<Rightarrow> bool" where
  "attempt_good L a \<longleftrightarrow> attempt_ok L a \<and> list_all weight_good (aa_weights a)
     \<and> list_all omitted_ok (aa_omitted a)
     \<and> (case aa_receipt a of None \<Rightarrow> True | Some r \<Rightarrow> receipt_ok r)"

text \<open>The invariant of every ledger state the code constructs or loads.\<close>

definition state_good :: "pylib \<Rightarrow> AuditState \<Rightarrow> bool" where
  "state_good L s \<longleftrightarrow> list_all (attempt_good L) (as_attempts s) \<and> length (as_attempts s) \<le> MAX_AUDIT_ATTEMPTS
     \<and> distinct (map aa_attempt_id (as_attempts s))
     \<and> as_digest_sha256 s = sha_json L (state_unsigned_document (as_attempts s))"

lemma AuditState_Inr:
  "AuditState_post_init L as = Inr s \<longleftrightarrow> as_attempts s = as \<and> length as \<le> MAX_AUDIT_ATTEMPTS
     \<and> distinct (map aa_attempt_id as) \<and> as_digest_sha256 s = sha_json L (state_unsigned_document as)"
  by (cases s) (auto simp: AuditState_post_init_def not_less)

lemma parse_execution_weight_document:
  "execution_weight_ok w \<Longrightarrow> parse_execution_weight (canon (execution_weight_document w)) = Inr w"
  unfolding parse_execution_weight_def execution_weight_document_def
  by (rule read_object) (auto simp: jget_def ExecutionWeight_total)

lemma parse_omitted_weight_document:
  "omitted_ok w \<Longrightarrow> parse_omitted_weight (canon (omitted_weight_document w)) = Inr w"
  unfolding parse_omitted_weight_def omitted_weight_document_def
  by (rule read_object) (auto simp: jget_def OmittedWeight_Inr)

lemma parse_receipt_document:
  assumes "case r of None \<Rightarrow> True | Some x \<Rightarrow> receipt_ok x"
  shows "parse_receipt (canon (case r of None \<Rightarrow> JNull | Some x \<Rightarrow> receipt_document x)) = Inr r"
proof (cases r)
  case (Some x)
  have "res_bind (exact_object audit_invalid [''error_code'', ''extrinsic_ref'', ''outcome'']
      (canon (receipt_document x))) (\<lambda>row. res_bind (AuditReceipt_post_init (jget row ''outcome'')
      (jget row ''extrinsic_ref'') (jget row ''error_code'')) (\<lambda>r. Inr (Some r))) = Inr (Some x)"
    unfolding receipt_document_def
    by (rule read_object) (use assms Some in \<open>auto simp: jget_def AuditReceipt_Inr\<close>)
  moreover have "canon (receipt_document x) \<noteq> JNull" by (simp add: receipt_document_def)
  ultimately show ?thesis using Some by (simp add: parse_receipt_def)
qed (simp add: parse_receipt_def)

lemma mapM_documents:
  assumes "\<And>x. P x \<Longrightarrow> parse (canon (doc x)) = Inr x" and "list_all P xs"
  shows "mapM parse (map canon (map doc xs)) = Inr xs"
  using assms(2) by (induction xs) (auto simp: assms(1))

lemma parse_attempt_document:
  assumes "attempt_good L a"
  shows "parse_attempt L (canon (attempt_document a)) = Inr a"
proof -
  let ?m = "[(''omitted'', JList (map omitted_weight_document (aa_omitted a))),
      (''weights'', JList (map execution_weight_document (aa_weights a)))]"
  obtain mapping where mapping: "canon (JObj ?m) = JObj mapping" by simp
  note look = canon_lookup [OF _ mapping]
  have keys: "exact_object audit_invalid [''omitted'', ''weights''] (canon (JObj ?m)) = Inr mapping"
    using look(2) mapping by (simp only: exact_object_Inr) auto
  have seq: "jget mapping ''weights'' = JList (map canon (map execution_weight_document (aa_weights a)))"
    "jget mapping ''omitted'' = JList (map canon (map omitted_weight_document (aa_omitted a)))"
    using look(1) by (simp_all add: jget_def)
  have weights: "mapM parse_execution_weight (map canon (map execution_weight_document (aa_weights a))) = Inr (aa_weights a)"
    using assms by (intro mapM_documents [of weight_good] parse_execution_weight_document)
      (auto simp: weight_good_def attempt_good_def)
  have omitted: "mapM parse_omitted_weight (map canon (map omitted_weight_document (aa_omitted a))) = Inr (aa_omitted a)"
    using assms by (intro mapM_documents [of omitted_ok] parse_omitted_weight_document)
      (auto simp: attempt_good_def)
  note receipt = parse_receipt_document [of "aa_receipt a"]
  have "AuditAttempt_post_init L (raw_of a) = Inr a"
    using assms by (simp add: attempt_good_def AuditAttempt_total)
  then show ?thesis
    unfolding parse_attempt_def attempt_document_def
  proof (intro read_object, goal_cases)
    case (3 root)
    then have root: "\<And>k. jget root k = canon (jget [
        (''attempt_id'', JStr (aa_attempt_id a)), (''attempt_key'', JStr (aa_attempt_key a)),
        (''execution_digest_sha256'', JStr (aa_execution_digest_sha256 a)), (''mapping'', JObj ?m),
        (''netuid'', JInt (aa_netuid a)), (''network'', JStr (aa_network a)),
        (''plan_digest_sha256'', JStr (aa_plan_digest_sha256 a)),
        (''preflight_block'', JInt (aa_preflight_block a)),
        (''receipt'', case aa_receipt a of None \<Rightarrow> JNull | Some r \<Rightarrow> receipt_document r),
        (''send_check_block'', jint_opt (aa_send_check_block a)), (''started_at'', JStr (aa_started_at a)),
        (''status'', JStr (status_text (aa_status a))), (''submission_started'', JBool (aa_submission_started a)),
        (''updated_at'', JStr (aa_updated_at a)), (''validator_hotkey'', JStr (aa_validator_hotkey a)),
        (''version_key'', JInt (aa_version_key a))] k)" by blast
    show ?case
      using 3(1) assms
      by (simp add: root keys seq weights omitted receipt audit_sequence_def attempt_good_def raw_of_def
          del: canon.simps(2) map_map exact_object_Inr res_bind_Inr)
  qed (simp_all add: attempt_keys_def)
qed

lemma weight_document_json_ok: "weight_good w \<Longrightarrow> json_ok (execution_weight_document w)"
  by (simp add: weight_good_def execution_weight_ok_def execution_weight_document_def unit_double)

lemma attempt_document_json_ok:
  assumes "attempt_good L a"
  shows "json_ok (attempt_document a)"
proof -
  have "list_all json_ok (map execution_weight_document (aa_weights a))"
    using assms by (auto simp: attempt_good_def list_all_iff weight_document_json_ok)
  moreover have "list_all json_ok (map omitted_weight_document (aa_omitted a))"
    by (simp add: list_all_iff omitted_weight_document_def)
  moreover have "json_ok (case aa_receipt a of None \<Rightarrow> JNull | Some r \<Rightarrow> receipt_document r)"
    by (simp add: receipt_document_def split: option.splits)
  ultimately show ?thesis by (simp add: attempt_document_def)
qed

lemma state_document_json_ok: "state_good L s \<Longrightarrow> json_ok (state_document s)"
  by (auto simp: state_document_def state_good_def list_all_iff attempt_document_json_ok)

lemma parse_audit_document_canon:
  assumes "state_good L s"
  shows "parse_audit_document L (canon (state_document s)) = Inr s"
proof -
  have attempts: "mapM (parse_attempt L) (map canon (map attempt_document (as_attempts s))) = Inr (as_attempts s)"
    using assms by (intro mapM_documents [of "attempt_good L"] parse_attempt_document) (auto simp: state_good_def)
  have state: "AuditState_post_init L (as_attempts s) = Inr s"
    using assms by (simp add: AuditState_Inr state_good_def)
  show ?thesis
    unfolding parse_audit_document_def state_document_def
    by (rule read_object) (auto simp: audit_sequence_def attempts [simplified] state)
qed

lemma unit_weight_double:
  assumes "unit_weight e v = Inr w" and "doubles_only v"
  shows "rnd w = w"
proof -
  have "rnd w = w" if "float_of_int n = Inr (Fin w)" for n
    using that by (auto simp: float_of_int_def to_double_def Let_def split: if_splits)
  then show ?thesis using assms by (auto simp: finite_double_def)
qed

lemma parse_weight_good:
  assumes "parse_execution_weight v = Inr w" and "doubles_only v"
  shows "weight_good w"
proof -
  obtain row where row: "v = JObj row" and w: "ExecutionWeight_post_init (jget row ''hotkey'')
      (jget row ''planned_uid'') (jget row ''uid'') (jget row ''weight'') = Inr w"
    using assms(1) by (auto simp: parse_execution_weight_def)
  have "doubles_only (jget row ''weight'')" using assms(2) row doubles_only_jget by blast
  moreover have "unit_weight (WeightExecutionError ''invalid_weights'') (jget row ''weight'') = Inr (ew_weight w)"
    using w unfolding ExecutionWeight_post_init_def by (elim res_bindE) auto
  ultimately show ?thesis
    using ExecutionWeight_Inr [OF w] unit_weight_double by (auto simp: weight_good_def)
qed

lemma audit_sequence_Inr [simp]: "audit_sequence v = Inr xs \<longleftrightarrow> v = JList xs"
  by (cases v) (auto simp: audit_sequence_def)

lemma AuditAttempt_parts:
  "AuditAttempt_post_init L raw = Inr a \<Longrightarrow> aa_weights a = ra_weights raw \<and> aa_omitted a = ra_omitted raw
     \<and> aa_receipt a = ra_receipt raw \<and> attempt_ok L a"
  by (drule AuditAttempt_sound) (simp add: raw_of_def)

lemma parse_receipt_ok: "parse_receipt v = Inr (Some r) \<Longrightarrow> receipt_ok r"
  unfolding parse_receipt_def
  by (cases "v = JNull", simp)
    (simp only: if_False, elim res_bindE, drule AuditReceipt_Inr [THEN iffD1], simp)

lemma parse_attempt_good:
  assumes "parse_attempt L v = Inr a" and "doubles_only v"
  shows "attempt_good L a"
proof -
  obtain row mapping ws om where v: "v = JObj row" and m: "jget row ''mapping'' = JObj mapping"
    and ws: "jget mapping ''weights'' = JList ws" "mapM parse_execution_weight ws = Inr (aa_weights a)"
    and om: "mapM parse_omitted_weight om = Inr (aa_omitted a)"
    and rc: "parse_receipt (jget row ''receipt'') = Inr (aa_receipt a)" and ok: "attempt_ok L a"
    using assms(1) unfolding parse_attempt_def
    by - (elim res_bindE, drule AuditAttempt_parts, simp)
  have "doubles_only (JObj mapping)" using doubles_only_jget assms(2) v m by metis
  then have "doubles_only (JList ws)" using doubles_only_jget ws(1) by metis
  then have "list_all weight_good (aa_weights a)"
    unfolding list_all_iff using ws(2) by (auto elim!: mapM_in simp: list_all_iff intro: parse_weight_good)
  moreover have "list_all omitted_ok (aa_omitted a)"
    unfolding list_all_iff using om
    by (auto elim!: mapM_in simp: parse_omitted_weight_def OmittedWeight_Inr)
  moreover have "case aa_receipt a of None \<Rightarrow> True | Some r \<Rightarrow> receipt_ok r"
    using rc by (cases "aa_receipt a") (simp_all add: parse_receipt_ok)
  ultimately show ?thesis using ok by (simp add: attempt_good_def)
qed

lemma parse_audit_state_Inr:
  assumes "parse_audit_state L rendered = Inr s" and "\<And>d. loads L rendered = Inr d \<Longrightarrow> doubles_only d"
  shows "state_good L s" and "rendered = state_canonical_bytes L s"
proof -
  from assms(1) obtain d where d: "load_document L audit_invalid audit_invalid rendered = Inr d"
    and doc: "parse_audit_document L d = Inr s" and bytes: "rendered = state_canonical_bytes L s"
    by (auto simp: parse_audit_state_def)
  show "rendered = state_canonical_bytes L s" by (rule bytes)
  have "loads L rendered = Inr d"
    using d by (auto simp: load_document_def split: if_splits sum.splits load_error.splits)
  then have "doubles_only d" by (rule assms(2))
  moreover from doc obtain root xs where "d = JObj root" and "jget root ''attempts'' = JList xs"
    and "mapM (parse_attempt L) xs = Inr (as_attempts s)"
    and "length (as_attempts s) \<le> MAX_AUDIT_ATTEMPTS" and "distinct (map aa_attempt_id (as_attempts s))"
    and "as_digest_sha256 s = sha_json L (state_unsigned_document (as_attempts s))"
    by (auto simp: parse_audit_document_def AuditState_Inr)
  moreover from calculation have "doubles_only (JList xs)" using doubles_only_jget by metis
  ultimately show "state_good L s"
    unfolding state_good_def list_all_iff by (auto elim!: mapM_in simp: list_all_iff intro: parse_attempt_good)
qed

context python_library
begin

lemma parse_state_bytes:
  assumes "state_good L s"
  shows "parse_audit_state L (state_canonical_bytes L s) = Inr s"
proof -
  have "load_document L d m (state_canonical_bytes L s) = Inr (canon (state_document s))" for d m
    using state_document_json_ok [OF assms] rendered_ascii loads_dumps
    by (simp add: load_document_def state_canonical_bytes_def)
  then show ?thesis by (simp add: parse_audit_state_def parse_audit_document_canon [OF assms])
qed

lemma parse_state_good: "parse_audit_state L rendered = Inr s \<Longrightarrow> state_good L s"
  by (rule parse_audit_state_Inr(1)) (auto intro: loads_doubles)

end

end
