(* ===== verification/AuditStore.thy ===== *)
theory AuditStore
  imports AuditLedger
begin

text \<open>
  \<^verbatim>\<open>AuditStateStore\<close> of \<^verbatim>\<open>weight_executor.py\<close>: loading, the atomic replacement of
  the file, and the operations \<^verbatim>\<open>blocking_attempt\<close>, \<^verbatim>\<open>start_attempt\<close>,
  \<^verbatim>\<open>mark_submission_started\<close> and \<^verbatim>\<open>finish_attempt\<close>. The abstract ledger is a list
  of attempts with three kinds of step; every operation is proved to take such a step
  durably or to leave the file alone, whatever point its file operations fail at.
\<close>

section \<open>Durable effects\<close>

text \<open>
  What a run does to the outside: installs a new ledger file, or hands a vector to the
  submitter. A run that is killed leaves a prefix of its effects.
\<close>

datatype event = Wrote string | Sent ExecutionVector

record audit_store =
  st_disk :: "string option"
  st_state :: AuditState
  st_events :: "event list"

text \<open>
  How far \<^verbatim>\<open>_persist\<close> gets: it completes, it fails before \<^verbatim>\<open>os.replace\<close>, it fails
  between \<^verbatim>\<open>os.replace\<close> and the end of the verification (the file is installed, the
  in-memory state is not updated), or only the temporary cleanup fails.
\<close>

datatype install = Installed | FailedBefore exn | FailedAfter exn | FailedCleanup exn

definition persist :: "pylib \<Rightarrow> install \<Rightarrow> audit_store \<Rightarrow> AuditState \<Rightarrow> audit_store \<times> unit res" where
  "persist L how store state =
     (let rendered = state_canonical_bytes L state;
          written = store\<lparr>st_disk := Some rendered, st_events := st_events store @ [Wrote rendered]\<rparr>
      in if length rendered > MAX_WEIGHT_PLAN_BYTES
         then (store, Inl (AuditStateError ''audit_state_full''))
         else case how of
           Installed \<Rightarrow> (written\<lparr>st_state := state\<rparr>, Inr ())
         | FailedBefore e \<Rightarrow> (store, Inl e)
         | FailedAfter e \<Rightarrow> (written, Inl e)
         | FailedCleanup e \<Rightarrow> (written\<lparr>st_state := state\<rparr>, Inl e))"

definition empty_state :: "pylib \<Rightarrow> AuditState" where
  "empty_state L = \<lparr>as_attempts = [], as_digest_sha256 = sha_json L (state_unsigned_document [])\<rparr>"

definition store_load :: "pylib \<Rightarrow> string option \<Rightarrow> AuditState res" where
  "store_load L disk = (case disk of None \<Rightarrow> AuditState_post_init L []
     | Some rendered \<Rightarrow> parse_audit_state L rendered)"

section \<open>Operations\<close>

definition blocks :: "string \<Rightarrow> AuditAttempt \<Rightarrow> bool" where
  "blocks plan_digest a \<longleftrightarrow> aa_plan_digest_sha256 a = plan_digest
     \<and> (aa_status a \<in> {InProgress, Confirmed, Ambiguous} \<or> aa_status a = Failed \<and> aa_submission_started a)"

definition blocking_attempt :: "AuditState \<Rightarrow> string \<Rightarrow> AuditAttempt option" where
  "blocking_attempt s plan_digest = first_match (blocks plan_digest) (rev (as_attempts s))"

text \<open>\<^verbatim>\<open>self._persist(AuditState(attempts)); return result\<close>.\<close>

definition commit :: "pylib \<Rightarrow> install \<Rightarrow> audit_store \<Rightarrow> AuditAttempt list \<Rightarrow> AuditAttempt
    \<Rightarrow> audit_store \<times> AuditAttempt res" where
  "commit L how store attempts result =
     (case AuditState_post_init L attempts of
        Inl e \<Rightarrow> (store, Inl e)
      | Inr state \<Rightarrow> (case persist L how store state of
           (store', Inl e) \<Rightarrow> (store', Inl e)
         | (store', Inr _) \<Rightarrow> (store', Inr result)))"

definition new_attempt :: "pylib \<Rightarrow> AuditState \<Rightarrow> ExecutionVector \<Rightarrow> int \<Rightarrow> string \<Rightarrow> string \<Rightarrow> AuditAttempt res" where
  "new_attempt L state vector preflight_block timestamp nonce =
     reject_if (blocking_attempt state (ev_plan_digest_sha256 vector) \<noteq> None)
       (AuditStateError ''idempotency_blocked'')
     (res_bind (validate_timestamp L (JStr timestamp)) (\<lambda>_.
      res_bind (validate_digest (JStr nonce)) (\<lambda>_.
      res_bind (execution_attempt_key L (ev_plan_digest_sha256 vector) (ev_digest_sha256 vector)) (\<lambda>key.
        AuditAttempt_post_init L \<lparr>
          ra_attempt_id = JStr (sha_json L (JObj [(''attempt_nonce'', JStr nonce),
             (''execution_digest_sha256'', JStr (ev_digest_sha256 vector)),
             (''plan_digest_sha256'', JStr (ev_plan_digest_sha256 vector)),
             (''started_at'', JStr timestamp)])),
          ra_attempt_key = JStr key, ra_plan_digest_sha256 = JStr (ev_plan_digest_sha256 vector),
          ra_execution_digest_sha256 = JStr (ev_digest_sha256 vector), ra_network = JStr (ev_network vector),
          ra_netuid = JInt (ev_netuid vector), ra_validator_hotkey = JStr (ev_validator_hotkey vector),
          ra_version_key = JInt (ev_version_key vector), ra_preflight_block = JInt preflight_block,
          ra_send_check_block = JNull, ra_status = JStr (status_text InProgress),
          ra_submission_started = JBool False, ra_started_at = JStr timestamp, ra_updated_at = JStr timestamp,
          ra_weights = ev_weights vector, ra_omitted = ev_omitted vector, ra_receipt = None\<rparr>))))"

definition start_attempt :: "pylib \<Rightarrow> install \<Rightarrow> audit_store \<Rightarrow> ExecutionVector \<Rightarrow> int \<Rightarrow> string \<Rightarrow> string
    \<Rightarrow> audit_store \<times> AuditAttempt res" where
  "start_attempt L how store vector preflight_block timestamp nonce =
     (case new_attempt L (st_state store) vector preflight_block timestamp nonce of
        Inl e \<Rightarrow> (store, Inl e)
      | Inr attempt \<Rightarrow> commit L how store (as_attempts (st_state store) @ [attempt]) attempt)"

definition update_attempt :: "pylib \<Rightarrow> install \<Rightarrow> audit_store \<Rightarrow> string \<Rightarrow> AuditAttempt
    \<Rightarrow> audit_store \<times> AuditAttempt res" where
  "update_attempt L how store attempt_id updated =
     (let attempts = as_attempts (st_state store);
          matches = filter (\<lambda>i. aa_attempt_id (attempts ! i) = attempt_id) [0..<length attempts]
      in case matches of
           [i] \<Rightarrow> if aa_status (attempts ! i) \<noteq> InProgress then (store, Inl audit_invalid)
                   else commit L how store (attempts[i := updated]) updated
         | _ \<Rightarrow> (store, Inl audit_invalid))"

definition find_attempt :: "AuditState \<Rightarrow> string \<Rightarrow> AuditAttempt option" where
  "find_attempt s attempt_id = first_match (\<lambda>a. aa_attempt_id a = attempt_id) (as_attempts s)"

definition mark_submission_started :: "pylib \<Rightarrow> install \<Rightarrow> audit_store \<Rightarrow> string \<Rightarrow> int \<Rightarrow> string
    \<Rightarrow> audit_store \<times> AuditAttempt res" where
  "mark_submission_started L how store attempt_id send_check_block timestamp =
     (case find_attempt (st_state store) attempt_id of
        None \<Rightarrow> (store, Inl audit_invalid)
      | Some current \<Rightarrow>
          (case AuditAttempt_post_init L ((raw_of current)\<lparr>ra_send_check_block := JInt send_check_block,
              ra_submission_started := JBool True, ra_updated_at := JStr timestamp\<rparr>) of
             Inl e \<Rightarrow> (store, Inl e)
           | Inr updated \<Rightarrow> update_attempt L how store attempt_id updated))"

definition finish_attempt :: "pylib \<Rightarrow> install \<Rightarrow> audit_store \<Rightarrow> string \<Rightarrow> AuditStatus \<Rightarrow> ReceiptOutcome
    \<Rightarrow> string option \<Rightarrow> string option \<Rightarrow> string \<Rightarrow> audit_store \<times> AuditAttempt res" where
  "finish_attempt L how store attempt_id status outcome extrinsic_ref error_code timestamp =
     (case find_attempt (st_state store) attempt_id of
        None \<Rightarrow> (store, Inl audit_invalid)
      | Some current \<Rightarrow>
          (case res_bind (AuditReceipt_post_init (JStr (outcome_text outcome)) (jstr_opt extrinsic_ref)
                 (jstr_opt error_code)) (\<lambda>receipt.
               AuditAttempt_post_init L ((raw_of current)\<lparr>ra_status := JStr (status_text status),
                 ra_receipt := Some receipt, ra_updated_at := JStr timestamp\<rparr>)) of
             Inl e \<Rightarrow> (store, Inl e)
           | Inr updated \<Rightarrow> update_attempt L how store attempt_id updated))"

section \<open>The abstract ledger\<close>

definition barred :: "string \<Rightarrow> AuditAttempt list \<Rightarrow> bool" where
  "barred plan_digest as \<longleftrightarrow> list_ex (blocks plan_digest) as"

definition sealed :: "string \<Rightarrow> AuditAttempt list \<Rightarrow> bool" where
  "sealed plan_digest as \<longleftrightarrow> list_ex (\<lambda>a. aa_plan_digest_sha256 a = plan_digest \<and> aa_submission_started a) as"

text \<open>The fields that no update may change.\<close>

definition same_subject :: "AuditAttempt \<Rightarrow> AuditAttempt \<Rightarrow> bool" where
  "same_subject a b \<longleftrightarrow> aa_attempt_id a = aa_attempt_id b \<and> aa_attempt_key a = aa_attempt_key b
     \<and> attempt_vector a = attempt_vector b \<and> aa_preflight_block a = aa_preflight_block b
     \<and> aa_started_at a = aa_started_at b"

inductive ledger_step :: "AuditAttempt list \<Rightarrow> AuditAttempt list \<Rightarrow> bool" where
  start: "\<not> barred (aa_plan_digest_sha256 a) as \<Longrightarrow> aa_status a = InProgress \<Longrightarrow> \<not> aa_submission_started a
    \<Longrightarrow> ledger_step as (as @ [a])"
| mark: "i < length as \<Longrightarrow> aa_status (as ! i) = InProgress \<Longrightarrow> same_subject (as ! i) a
    \<Longrightarrow> aa_status a = InProgress \<Longrightarrow> aa_submission_started a \<Longrightarrow> ledger_step as (as[i := a])"
| finish: "i < length as \<Longrightarrow> aa_status (as ! i) = InProgress \<Longrightarrow> same_subject (as ! i) a
    \<Longrightarrow> aa_status a \<noteq> InProgress \<Longrightarrow> aa_submission_started a = aa_submission_started (as ! i)
    \<Longrightarrow> ledger_step as (as[i := a])"

inductive_cases ledger_stepE: "ledger_step as as'"

lemma same_subject_plan: "same_subject a b \<Longrightarrow> aa_plan_digest_sha256 b = aa_plan_digest_sha256 a"
  by (simp add: same_subject_def attempt_vector_def)

lemma same_subject_refl [simp]: "same_subject a a"
  by (simp add: same_subject_def)

lemma same_subject_trans: "same_subject a b \<Longrightarrow> same_subject b c \<Longrightarrow> same_subject a c"
  by (simp add: same_subject_def)

lemma blocks_iff:
  "blocks pd a \<longleftrightarrow> aa_plan_digest_sha256 a = pd \<and> (aa_status a \<noteq> Failed \<or> aa_submission_started a)"
  by (cases "aa_status a") (auto simp: blocks_def)

lemma blocking_attempt_None: "blocking_attempt s pd = None \<longleftrightarrow> \<not> barred pd (as_attempts s)"
  by (auto simp: blocking_attempt_def first_match_def barred_def find_None_iff list_ex_iff)

lemma sealed_barred: "sealed pd as \<Longrightarrow> barred pd as"
  by (auto simp: sealed_def barred_def list_ex_iff blocks_iff)

lemma list_ex_update_mono:
  assumes "i < length xs" and "P (xs ! i) \<Longrightarrow> P y" and "list_ex P xs"
  shows "list_ex P (xs[i := y])"
proof -
  obtain j where j: "j < length xs" "P (xs ! j)" using assms(3) by (auto simp: list_ex_length)
  then have "P (xs[i := y] ! j)" using assms(1,2) by (cases "i = j") auto
  then show ?thesis using j(1) by (auto simp: list_ex_length)
qed

lemma ledger_step_sealed:
  assumes "ledger_step as as'" and "sealed pd as"
  shows "sealed pd as'"
  using assms
proof (cases rule: ledger_step.cases)
  case (start a)
  then show ?thesis using assms(2) by (simp add: sealed_def)
next
  case (mark i a)
  then show ?thesis using assms(2) unfolding sealed_def mark(1)
    by (intro list_ex_update_mono) (auto dest: same_subject_plan)
next
  case (finish i a)
  then show ?thesis using assms(2) unfolding sealed_def finish(1)
    by (intro list_ex_update_mono) (auto dest: same_subject_plan)
qed

lemma ledger_steps_sealed: "ledger_step\<^sup>*\<^sup>* as as' \<Longrightarrow> sealed pd as \<Longrightarrow> sealed pd as'"
  by (induction rule: rtranclp_induct) (auto intro: ledger_step_sealed)

text \<open>At most one attempt of a plan is ever unresolved, sent or confirmed.\<close>

definition single_blocking :: "AuditAttempt list \<Rightarrow> bool" where
  "single_blocking as \<longleftrightarrow> (\<forall>i j. i < length as \<longrightarrow> j < length as \<longrightarrow> blocks (aa_plan_digest_sha256 (as ! i)) (as ! i)
     \<longrightarrow> blocks (aa_plan_digest_sha256 (as ! i)) (as ! j) \<longrightarrow> i = j)"

lemma single_blocking_update:
  assumes "single_blocking as" and "i < length as" and "aa_status (as ! i) = InProgress" and "same_subject (as ! i) a"
  shows "single_blocking (as[i := a])"
proof -
  have old: "blocks pd ((as[i := a]) ! j) \<Longrightarrow> j < length as \<Longrightarrow> blocks pd (as ! j)" for pd j
    using assms(2-4) same_subject_plan [OF assms(4)] by (cases "i = j") (auto simp: blocks_iff)
  have plan: "j < length as \<Longrightarrow> aa_plan_digest_sha256 ((as[i := a]) ! j) = aa_plan_digest_sha256 (as ! j)" for j
    using same_subject_plan [OF assms(4)] assms(2) by (cases "i = j") auto
  show ?thesis
    unfolding single_blocking_def length_list_update
    by (intro allI impI) (use assms(1) old plan in \<open>auto simp: single_blocking_def\<close>)
qed

lemma ledger_step_single_blocking:
  assumes "ledger_step as as'" and "single_blocking as"
  shows "single_blocking as'"
  using assms
proof (cases rule: ledger_step.cases)
  case (start a)
  then have "\<And>j. j < length as \<Longrightarrow> \<not> blocks (aa_plan_digest_sha256 a) (as ! j)"
    by (auto simp: barred_def list_ex_length)
  then show ?thesis
    using assms(2) unfolding single_blocking_def start(1)
    by (auto simp: nth_append less_Suc_eq blocks_iff)
qed (auto intro: single_blocking_update [OF assms(2)])

text \<open>
  The ledger is append-only: attempts keep their position and subject, and a finished
  attempt never changes again.
\<close>

definition extends_ledger :: "AuditAttempt list \<Rightarrow> AuditAttempt list \<Rightarrow> bool" where
  "extends_ledger as as' \<longleftrightarrow> length as \<le> length as' \<and> (\<forall>i < length as. same_subject (as ! i) (as' ! i)
     \<and> (aa_submission_started (as ! i) \<longrightarrow> aa_submission_started (as' ! i))
     \<and> (aa_status (as ! i) \<noteq> InProgress \<longrightarrow> as' ! i = as ! i))"

lemma extends_ledger_refl [simp]: "extends_ledger as as"
  by (simp add: extends_ledger_def)

lemma extends_ledger_trans:
  assumes "extends_ledger as bs" and "extends_ledger bs cs"
  shows "extends_ledger as cs"
  unfolding extends_ledger_def
proof (intro conjI allI impI)
  show "length as \<le> length cs" using assms by (simp add: extends_ledger_def)
  fix i assume i: "i < length as"
  then have "i < length bs" using assms(1) by (simp add: extends_ledger_def)
  with i assms show "same_subject (as ! i) (cs ! i)"
    and "aa_submission_started (as ! i) \<Longrightarrow> aa_submission_started (cs ! i)"
    and "aa_status (as ! i) \<noteq> InProgress \<Longrightarrow> cs ! i = as ! i"
    by (auto simp: extends_ledger_def intro: same_subject_trans)
qed

lemma ledger_step_extends: "ledger_step as as' \<Longrightarrow> extends_ledger as as'"
  by (erule ledger_step.cases) (auto simp: extends_ledger_def nth_append nth_list_update)

lemma ledger_steps_extend: "ledger_step\<^sup>*\<^sup>* as as' \<Longrightarrow> extends_ledger as as'"
  by (induction rule: rtranclp_induct) (auto intro: ledger_step_extends extends_ledger_trans)

section \<open>Operations refine ledger steps\<close>

definition vector_good :: "ExecutionVector \<Rightarrow> bool" where
  "vector_good v \<longleftrightarrow> list_all weight_good (ev_weights v) \<and> list_all omitted_ok (ev_omitted v)"

text \<open>The store as a running process holds it: memory and file agree.\<close>

definition store_good :: "pylib \<Rightarrow> audit_store \<Rightarrow> bool" where
  "store_good L st \<longleftrightarrow> state_good L (st_state st) \<and> store_load L (st_disk st) = Inr (st_state st)"

abbreviation attempts_of :: "audit_store \<Rightarrow> AuditAttempt list" where
  "attempts_of st \<equiv> as_attempts (st_state st)"

text \<open>A write was installed: the file holds the new ledger, whatever is reported.\<close>

definition committed :: "pylib \<Rightarrow> audit_store \<Rightarrow> AuditAttempt list \<Rightarrow> audit_store \<Rightarrow> bool" where
  "committed L st as' st' \<longleftrightarrow> (\<exists>s'. as_attempts s' = as' \<and> state_good L s'
     \<and> st_disk st' = Some (state_canonical_bytes L s')
     \<and> st_events st' = st_events st @ [Wrote (state_canonical_bytes L s')]
     \<and> (st_state st' = s' \<or> st_state st' = st_state st))"

lemma commit_effect:
  assumes "commit L how st as a = (st', r)" and "list_all (attempt_good L) as"
  shows "(st' = st \<and> (\<exists>e. r = Inl e))
     \<or> (committed L st as st' \<and> (\<forall>b. r = Inr b \<longrightarrow> b = a \<and> attempts_of st' = as))"
proof (cases "AuditState_post_init L as")
  case (Inl e)
  then show ?thesis using assms(1) by (auto simp: commit_def)
next
  case (Inr s)
  then have "as_attempts s = as" "state_good L s"
    using assms(2) by (auto simp: AuditState_Inr state_good_def)
  then show ?thesis
    using assms(1) Inr
    by (auto simp: commit_def persist_def committed_def Let_def split: if_splits install.splits)
qed

lemma new_attempt_Inr:
  assumes "new_attempt L s v b t n = Inr a"
  shows "\<not> barred (ev_plan_digest_sha256 v) (as_attempts s)" and "attempt_ok L a"
    and "attempt_vector a = v" and "aa_status a = InProgress" and "\<not> aa_submission_started a"
    and "aa_receipt a = None" and "aa_preflight_block a = b"
    and "aa_attempt_id a = sha_json L (JObj [(''attempt_nonce'', JStr n),
             (''execution_digest_sha256'', JStr (ev_digest_sha256 v)),
             (''plan_digest_sha256'', JStr (ev_plan_digest_sha256 v)), (''started_at'', JStr t)])"
proof -
  note facts = assms [unfolded new_attempt_def]
  from facts show "\<not> barred (ev_plan_digest_sha256 v) (as_attempts s)"
    by (elim reject_ifE) (simp add: blocking_attempt_None [symmetric])
  from facts obtain k where raw: "\<lparr>ra_attempt_id = JStr (sha_json L (JObj [(''attempt_nonce'', JStr n),
             (''execution_digest_sha256'', JStr (ev_digest_sha256 v)),
             (''plan_digest_sha256'', JStr (ev_plan_digest_sha256 v)), (''started_at'', JStr t)])),
          ra_attempt_key = JStr k, ra_plan_digest_sha256 = JStr (ev_plan_digest_sha256 v),
          ra_execution_digest_sha256 = JStr (ev_digest_sha256 v), ra_network = JStr (ev_network v),
          ra_netuid = JInt (ev_netuid v), ra_validator_hotkey = JStr (ev_validator_hotkey v),
          ra_version_key = JInt (ev_version_key v), ra_preflight_block = JInt b,
          ra_send_check_block = JNull, ra_status = JStr (status_text InProgress),
          ra_submission_started = JBool False, ra_started_at = JStr t, ra_updated_at = JStr t,
          ra_weights = ev_weights v, ra_omitted = ev_omitted v, ra_receipt = None\<rparr> = raw_of a"
    and "attempt_ok L a"
    by (elim reject_ifE res_bindE) (drule AuditAttempt_sound, blast)
  have status: "status_text x = status_text y \<longleftrightarrow> x = y" for x y
    by (cases x; cases y; simp add: status_text_def)
  show "attempt_ok L a" by fact
  show "attempt_vector a = v" "aa_status a = InProgress" "\<not> aa_submission_started a"
    "aa_receipt a = None" "aa_preflight_block a = b"
    "aa_attempt_id a = sha_json L (JObj [(''attempt_nonce'', JStr n),
             (''execution_digest_sha256'', JStr (ev_digest_sha256 v)),
             (''plan_digest_sha256'', JStr (ev_plan_digest_sha256 v)), (''started_at'', JStr t)])"
    using raw by (auto simp: raw_of_def attempt_vector_def status [of InProgress])
qed

lemma new_attempt_good:
  "new_attempt L s v b t n = Inr a \<Longrightarrow> vector_good v \<Longrightarrow> attempt_good L a"
  using new_attempt_Inr(2,3,6) [of L s v b t n a]
  by (auto simp: attempt_good_def vector_good_def attempt_vector_def)

lemma start_attempt_effect:
  assumes "start_attempt L how st v b t n = (st', r)" and "store_good L st" and "vector_good v"
  shows "(st' = st \<and> (\<exists>e. r = Inl e))
     \<or> (\<exists>a. new_attempt L (st_state st) v b t n = Inr a \<and> ledger_step (attempts_of st) (attempts_of st @ [a])
          \<and> committed L st (attempts_of st @ [a]) st'
          \<and> (\<forall>a'. r = Inr a' \<longrightarrow> a' = a \<and> attempts_of st' = attempts_of st @ [a]))"
proof (cases "new_attempt L (st_state st) v b t n")
  case (Inl e)
  have "st' = st" "r = Inl e" using assms(1) by (simp_all add: start_attempt_def Inl)
  then show ?thesis by blast
next
  case (Inr a)
  note new = new_attempt_Inr [OF Inr]
  have good: "list_all (attempt_good L) (attempts_of st @ [a])"
    using assms(2,3) new_attempt_good [OF Inr] by (simp add: store_good_def state_good_def)
  have com: "commit L how st (attempts_of st @ [a]) a = (st', r)"
    using assms(1) Inr by (simp add: start_attempt_def)
  have step: "ledger_step (attempts_of st) (attempts_of st @ [a])"
    using new by (intro ledger_step.start) (auto simp: attempt_vector_def)
  from commit_effect [OF com good] show ?thesis
  proof
    assume "committed L st (attempts_of st @ [a]) st'
      \<and> (\<forall>b. r = Inr b \<longrightarrow> b = a \<and> attempts_of st' = attempts_of st @ [a])"
    then show ?thesis by (intro disjI2 exI [of _ a]) (simp add: Inr step)
  qed (rule disjI1)
qed

lemma filter_eq_single: "distinct xs \<Longrightarrow> x \<in> set xs \<Longrightarrow> filter ((=) x) xs = [x]"
  by (induction xs) (auto simp: filter_empty_conv)

lemma unique_match:
  assumes "distinct (map f xs)" and "first_match (\<lambda>x. f x = k) xs = Some y"
  obtains i where "i < length xs" and "xs ! i = y" and "filter (\<lambda>i. f (xs ! i) = k) [0..<length xs] = [i]"
proof -
  from assms(2) obtain i where i: "i < length xs" "xs ! i = y" "f y = k"
    by (auto simp: first_match_def find_Some_iff)
  have "filter (\<lambda>j. f (xs ! j) = k) [0..<length xs] = filter ((=) i) [0..<length xs]"
    using assms(1) i by (intro filter_cong) (auto simp: distinct_conv_nth)
  also have "\<dots> = [i]" using i(1) by (intro filter_eq_single) auto
  finally show ?thesis using that i by blast
qed

lemma update_attempt_effect:
  assumes "update_attempt L how st (aa_attempt_id c) u = (st', r)" and "store_good L st"
    and "find_attempt (st_state st) k = Some c" and "attempt_good L u"
  shows "(st' = st \<and> (\<exists>e. r = Inl e))
     \<or> (\<exists>i < length (attempts_of st). attempts_of st ! i = c \<and> aa_status c = InProgress
          \<and> committed L st ((attempts_of st)[i := u]) st'
          \<and> (\<forall>u'. r = Inr u' \<longrightarrow> u' = u \<and> attempts_of st' = (attempts_of st)[i := u]))"
proof -
  have c: "aa_attempt_id c = k"
    using assms(3) by (auto simp: find_attempt_def first_match_def find_Some_iff)
  have "distinct (map aa_attempt_id (attempts_of st))"
    using assms(2) by (simp add: store_good_def state_good_def)
  then obtain i where i: "i < length (attempts_of st)" "attempts_of st ! i = c"
    "filter (\<lambda>i. aa_attempt_id (attempts_of st ! i) = k) [0..<length (attempts_of st)] = [i]"
    by (rule unique_match) (use assms(3) in \<open>simp add: find_attempt_def\<close>)
  show ?thesis
  proof (cases "aa_status c = InProgress")
    case False
    then have "st' = st" "r = Inl audit_invalid" using assms(1) i c by (simp_all add: update_attempt_def)
    then show ?thesis by blast
  next
    case True
    then have com: "commit L how st ((attempts_of st)[i := u]) u = (st', r)"
      using assms(1) i c by (simp add: update_attempt_def)
    have good: "list_all (attempt_good L) ((attempts_of st)[i := u])"
      using assms(2,4) by (auto simp: store_good_def state_good_def list_all_iff
          dest!: set_update_subset_insert [THEN subsetD])
    from commit_effect [OF com good] show ?thesis
    proof
      assume "committed L st ((attempts_of st)[i := u]) st'
        \<and> (\<forall>b. r = Inr b \<longrightarrow> b = u \<and> attempts_of st' = (attempts_of st)[i := u])"
      then show ?thesis by (intro disjI2 exI [of _ i]) (simp add: i True)
    qed (rule disjI1)
  qed
qed

lemma find_attempt_good:
  "store_good L st \<Longrightarrow> find_attempt (st_state st) k = Some c \<Longrightarrow> attempt_good L c \<and> c \<in> set (attempts_of st)
     \<and> aa_attempt_id c = k"
  by (auto simp: find_attempt_def first_match_def find_Some_iff store_good_def state_good_def list_all_length)

lemma status_text_inj [simp]: "status_text x = status_text y \<longleftrightarrow> x = y"
  by (cases x; cases y; simp add: status_text_def)

lemma outcome_text_inj [simp]: "outcome_text x = outcome_text y \<longleftrightarrow> x = y"
  by (cases x; cases y; simp add: outcome_text_def)

lemma jstr_opt_inj [simp]: "jstr_opt x = jstr_opt y \<longleftrightarrow> x = y"
  by (cases x; cases y; auto simp: jstr_opt_def)

lemma jint_opt_inj [simp]: "jint_opt x = jint_opt y \<longleftrightarrow> x = y" "jint_opt x = JInt n \<longleftrightarrow> x = Some n"
  "JInt n = jint_opt x \<longleftrightarrow> x = Some n"
  by (cases x; cases y; auto simp: jint_opt_def)+

lemma mark_update:
  assumes "AuditAttempt_post_init L ((raw_of c)\<lparr>ra_send_check_block := JInt b,
      ra_submission_started := JBool True, ra_updated_at := JStr t\<rparr>) = Inr u"
  shows "attempt_ok L u" and "same_subject c u" and "aa_status u = aa_status c" and "aa_submission_started u"
    and "aa_send_check_block u = Some b" and "aa_receipt u = aa_receipt c" and "aa_attempt_id u = aa_attempt_id c"
  using AuditAttempt_sound [OF assms] by (auto simp: raw_of_def same_subject_def attempt_vector_def)

lemma finish_update:
  assumes "AuditAttempt_post_init L ((raw_of c)\<lparr>ra_status := JStr (status_text s),
      ra_receipt := Some rc, ra_updated_at := JStr t\<rparr>) = Inr u"
  shows "attempt_ok L u" and "same_subject c u" and "aa_status u = s"
    and "aa_submission_started u = aa_submission_started c" and "aa_receipt u = Some rc"
    and "aa_attempt_id u = aa_attempt_id c" and "aa_status u \<noteq> InProgress"
proof -
  note u = AuditAttempt_sound [OF assms]
  show "attempt_ok L u" and "same_subject c u" and "aa_status u = s"
    and "aa_submission_started u = aa_submission_started c" and rc: "aa_receipt u = Some rc"
    and "aa_attempt_id u = aa_attempt_id c"
    using u by (auto simp: raw_of_def same_subject_def attempt_vector_def)
  show "aa_status u \<noteq> InProgress"
    using u rc by (auto simp: attempt_ok_def expected_outcome_def)
qed

lemma same_subject_weights: "same_subject c u \<Longrightarrow> aa_weights u = aa_weights c \<and> aa_omitted u = aa_omitted c"
  by (simp add: same_subject_def attempt_vector_def)

lemma mark_effect:
  assumes "mark_submission_started L how st k b t = (st', r)" and "store_good L st"
  shows "(st' = st \<and> (\<exists>e. r = Inl e))
     \<or> (\<exists>i u. i < length (attempts_of st) \<and> aa_attempt_id (attempts_of st ! i) = k
          \<and> aa_attempt_id u = k \<and> same_subject (attempts_of st ! i) u
          \<and> aa_submission_started u \<and> aa_send_check_block u = Some b \<and> aa_status u = InProgress
          \<and> ledger_step (attempts_of st) ((attempts_of st)[i := u])
          \<and> committed L st ((attempts_of st)[i := u]) st'
          \<and> (\<forall>u'. r = Inr u' \<longrightarrow> u' = u \<and> attempts_of st' = (attempts_of st)[i := u]))"
proof (cases "find_attempt (st_state st) k")
  case None
  then show ?thesis using assms(1) by (auto simp: mark_submission_started_def)
next
  case (Some c)
  note c = find_attempt_good [OF assms(2) Some]
  show ?thesis
  proof (cases "AuditAttempt_post_init L ((raw_of c)\<lparr>ra_send_check_block := JInt b,
      ra_submission_started := JBool True, ra_updated_at := JStr t\<rparr>)")
    case (Inl e)
    have "st' = st" "r = Inl e" using assms(1) by (simp_all add: mark_submission_started_def Some Inl)
    then show ?thesis by blast
  next
    case (Inr u)
    note u = mark_update [OF Inr]
    have good: "attempt_good L u"
      using c u same_subject_weights [OF u(2)] by (simp add: attempt_good_def)
    have upd: "update_attempt L how st (aa_attempt_id c) u = (st', r)"
      using assms(1) c by (simp add: mark_submission_started_def Some Inr)
    from update_attempt_effect [OF upd assms(2) Some good] show ?thesis
    proof
      assume "\<exists>i < length (attempts_of st). attempts_of st ! i = c \<and> aa_status c = InProgress
          \<and> committed L st ((attempts_of st)[i := u]) st'
          \<and> (\<forall>u'. r = Inr u' \<longrightarrow> u' = u \<and> attempts_of st' = (attempts_of st)[i := u])"
      then obtain i where i: "i < length (attempts_of st)" "attempts_of st ! i = c" "aa_status c = InProgress"
        "committed L st ((attempts_of st)[i := u]) st'"
        "\<forall>u'. r = Inr u' \<longrightarrow> u' = u \<and> attempts_of st' = (attempts_of st)[i := u]" by blast
      then have "ledger_step (attempts_of st) ((attempts_of st)[i := u])"
        using u by (intro ledger_step.mark) auto
      then show ?thesis using i u c by (intro disjI2 exI [of _ i] exI [of _ u]) simp
    qed (rule disjI1)
  qed
qed

lemma finish_effect:
  assumes "finish_attempt L how st k s out ref code t = (st', r)" and "store_good L st"
  shows "(st' = st \<and> (\<exists>e. r = Inl e))
     \<or> (\<exists>i u. i < length (attempts_of st) \<and> aa_attempt_id (attempts_of st ! i) = k
          \<and> aa_attempt_id u = k \<and> same_subject (attempts_of st ! i) u \<and> aa_status u = s
          \<and> aa_submission_started u = aa_submission_started (attempts_of st ! i)
          \<and> aa_receipt u = Some \<lparr>rc_outcome = out, rc_extrinsic_ref = ref, rc_error_code = code\<rparr>
          \<and> ledger_step (attempts_of st) ((attempts_of st)[i := u])
          \<and> committed L st ((attempts_of st)[i := u]) st'
          \<and> (\<forall>u'. r = Inr u' \<longrightarrow> u' = u \<and> attempts_of st' = (attempts_of st)[i := u]))"
proof (cases "find_attempt (st_state st) k")
  case None
  then show ?thesis using assms(1) by (auto simp: finish_attempt_def)
next
  case (Some c)
  note c = find_attempt_good [OF assms(2) Some]
  show ?thesis
  proof (cases "res_bind (AuditReceipt_post_init (JStr (outcome_text out)) (jstr_opt ref) (jstr_opt code))
      (\<lambda>receipt. AuditAttempt_post_init L ((raw_of c)\<lparr>ra_status := JStr (status_text s),
                 ra_receipt := Some receipt, ra_updated_at := JStr t\<rparr>))")
    case (Inl e)
    have "st' = st" "r = Inl e" using assms(1) by (simp_all add: finish_attempt_def Some Inl)
    then show ?thesis by blast
  next
    case (Inr u)
    then obtain rc where rc: "AuditReceipt_post_init (JStr (outcome_text out)) (jstr_opt ref) (jstr_opt code) = Inr rc"
      and post: "AuditAttempt_post_init L ((raw_of c)\<lparr>ra_status := JStr (status_text s),
                 ra_receipt := Some rc, ra_updated_at := JStr t\<rparr>) = Inr u" by (rule res_bindE)
    note u = finish_update [OF post]
    have rc_eq: "rc = \<lparr>rc_outcome = out, rc_extrinsic_ref = ref, rc_error_code = code\<rparr>" and "receipt_ok rc"
      using rc by (cases rc; auto simp: AuditReceipt_Inr)+
    then have good: "attempt_good L u"
      using c u same_subject_weights [OF u(2)] by (simp add: attempt_good_def)
    have upd: "update_attempt L how st (aa_attempt_id c) u = (st', r)"
      using assms(1) c by (simp add: finish_attempt_def Some Inr)
    from update_attempt_effect [OF upd assms(2) Some good] show ?thesis
    proof
      assume "\<exists>i < length (attempts_of st). attempts_of st ! i = c \<and> aa_status c = InProgress
          \<and> committed L st ((attempts_of st)[i := u]) st'
          \<and> (\<forall>u'. r = Inr u' \<longrightarrow> u' = u \<and> attempts_of st' = (attempts_of st)[i := u])"
      then obtain i where i: "i < length (attempts_of st)" "attempts_of st ! i = c" "aa_status c = InProgress"
        "committed L st ((attempts_of st)[i := u]) st'"
        "\<forall>u'. r = Inr u' \<longrightarrow> u' = u \<and> attempts_of st' = (attempts_of st)[i := u]" by blast
      then have "ledger_step (attempts_of st) ((attempts_of st)[i := u])"
        using u by (intro ledger_step.finish) auto
      then show ?thesis using i u c rc_eq by (intro disjI2 exI [of _ i] exI [of _ u]) simp
    qed (rule disjI1)
  qed
qed

section \<open>The file after an operation\<close>

lemma state_good_unique: "state_good L s \<Longrightarrow> state_good L t \<Longrightarrow> as_attempts s = as_attempts t \<Longrightarrow> s = t"
  by (cases s; cases t) (simp add: state_good_def)

lemma store_load_empty [simp]: "store_load L None = Inr (empty_state L)" "as_attempts (empty_state L) = []"
  by (simp_all add: store_load_def AuditState_Inr empty_state_def)

lemma empty_state_good [simp]: "state_good L (empty_state L)"
  by (simp add: state_good_def empty_state_def)

context python_library
begin

lemma store_load_bytes: "state_good L s \<Longrightarrow> store_load L (Some (state_canonical_bytes L s)) = Inr s"
  by (simp add: store_load_def parse_state_bytes)

lemma store_load_good: "store_load L disk = Inr s \<Longrightarrow> state_good L s"
  by (cases disk) (auto simp: store_load_def AuditState_Inr state_good_def dest: parse_state_good)

lemma committed_load:
  assumes "committed L st as' st'"
  obtains s' where "store_load L (st_disk st') = Inr s'" and "as_attempts s' = as'" and "state_good L s'"
  using assms store_load_bytes by (auto simp: committed_def)

lemma committed_store_good:
  assumes "committed L st as' st'" and "store_good L st" and "attempts_of st' = as'"
  shows "store_good L st'"
proof -
  obtain s' where s': "store_load L (st_disk st') = Inr s'" "as_attempts s' = as'" "state_good L s'"
    using assms(1) by (rule committed_load)
  have "state_good L (st_state st')"
    using assms(1,2) by (auto simp: committed_def store_good_def)
  then have "st_state st' = s'" using s'(2,3) assms(3) by (intro state_good_unique) auto
  then show ?thesis using s' by (simp add: store_good_def)
qed

end

end
