(* ===== verification/SendOnce.thy ===== *)
theory SendOnce
  imports Main
begin

text \<open>
  The interface between a process that performs an irreversible action at most once and the
  durable record it keeps: laws on a single run, with a crash after any prefix of its
  events, and what they give for every history of runs.
\<close>

text \<open>
  A history: each run starts from the record its predecessor left and is cut after some
  number of its events.
\<close>

fun history :: "('d \<Rightarrow> 'i \<Rightarrow> 'e list) \<Rightarrow> ('d \<Rightarrow> 'e \<Rightarrow> 'd) \<Rightarrow> 'd \<Rightarrow> ('i \<times> nat) list \<Rightarrow> 'e list" where
  "history run eff d [] = []"
| "history run eff d ((i, n) # rs) =
     (let es = take n (run d i) in es @ history run eff (foldl eff d es) rs)"

lemma length_filter_imp: "length (filter (\<lambda>x. f x = Some k) xs) \<le> length (filter (\<lambda>x. f x \<noteq> None) xs)"
  by (induction xs) auto

locale send_once =
  fixes run :: "'d \<Rightarrow> 'i \<Rightarrow> 'e list"
    and eff :: "'d \<Rightarrow> 'e \<Rightarrow> 'd"
    and key :: "'e \<Rightarrow> 'k option"
    and guarded :: "'k \<Rightarrow> 'd \<Rightarrow> bool"
  assumes guard_kept: "guarded k d \<Longrightarrow> guarded k (foldl eff d (take n (run d i)))"
    and guard_blocks: "guarded k d \<Longrightarrow> e \<in> set (run d i) \<Longrightarrow> key e \<noteq> Some k"
    and send_guards: "e \<in> set (take n (run d i)) \<Longrightarrow> key e = Some k \<Longrightarrow> guarded k (foldl eff d (take n (run d i)))"
    and single_send: "length (filter (\<lambda>e. key e \<noteq> None) (run d i)) \<le> 1"
begin

lemma guarded_history:
  assumes "guarded k d" and "e \<in> set (history run eff d rs)"
  shows "key e \<noteq> Some k"
  using assms
proof (induction rs arbitrary: d)
  case (Cons r rs)
  obtain i n where r: "r = (i, n)" by fastforce
  let ?es = "take n (run d i)"
  from Cons.prems(2) consider "e \<in> set ?es" | "e \<in> set (history run eff (foldl eff d ?es) rs)"
    by (auto simp: r Let_def)
  then show ?case
  proof cases
    case 1
    then show ?thesis using guard_blocks [OF Cons.prems(1)] by (meson in_set_takeD)
  next
    case 2
    then show ?thesis using Cons.IH guard_kept [OF Cons.prems(1)] by blast
  qed
qed simp

lemma at_most_once: "length (filter (\<lambda>e. key e = Some k) (history run eff d rs)) \<le> 1"
proof (induction rs arbitrary: d)
  case (Cons r rs)
  obtain i n where r: "r = (i, n)" by fastforce
  let ?es = "take n (run d i)" and ?k = "\<lambda>e. key e = Some k"
  let ?rest = "history run eff (foldl eff d ?es) rs"
  have "length (filter ?k ?es) \<le> length (filter (\<lambda>e. key e \<noteq> None) ?es)"
    by (rule length_filter_imp)
  also have "\<dots> \<le> length (filter (\<lambda>e. key e \<noteq> None) (run d i))"
    by (metis append_take_drop_id filter_append le_add1 length_append)
  finally have one: "length (filter ?k ?es) \<le> 1" using single_send [of d i] by simp
  show ?case
  proof (cases "filter ?k ?es = []")
    case True
    then show ?thesis using Cons.IH by (simp add: r Let_def)
  next
    case False
    then obtain e where "e \<in> set ?es" "?k e" by (auto simp: filter_empty_conv)
    then have "guarded k (foldl eff d ?es)" by (rule send_guards)
    then have "filter ?k ?rest = []" using guarded_history by (auto simp: filter_empty_conv)
    then show ?thesis using one by (simp add: r Let_def)
  qed
qed simp

end

end
