(* ===== verification/Executor.thy ===== *)
theory Executor
  imports AuditStore SendOnce
begin

text \<open>
  The one-shot executor of \<^verbatim>\<open>weight_executor.py\<close>: configuration, confirmation gates,
  \<^verbatim>\<open>_execute_weight_plan\<close> and \<^verbatim>\<open>run_weight_executor\<close>. What the run meets outside
  (the plan file, the chain, the signer, the clock, the file system) is one record of
  inputs; what it does outside is the list of events in its store.
\<close>

section \<open>Paths\<close>

text \<open>\<^verbatim>\<open>posixpath.normpath\<close>, \<^verbatim>\<open>join\<close> and \<^verbatim>\<open>abspath\<close>.\<close>

fun split_slash :: "string \<Rightarrow> string list" where
  "split_slash [] = [[]]"
| "split_slash (c # s) = (if c = CHR ''/'' then [] # split_slash s
     else case split_slash s of [] \<Rightarrow> [[c]] | p # ps \<Rightarrow> (c # p) # ps)"

fun join_slash :: "string list \<Rightarrow> string" where
  "join_slash [] = []"
| "join_slash [p] = p"
| "join_slash (p # q # ps) = p @ ''/'' @ join_slash (q # ps)"

definition initial_slashes :: "string \<Rightarrow> nat" where
  "initial_slashes path = (if take 1 path \<noteq> ''/'' then 0
     else if take 2 path = ''//'' \<and> take 3 path \<noteq> ''///'' then 2 else 1)"

definition norm_component :: "bool \<Rightarrow> string list \<Rightarrow> string \<Rightarrow> string list" where
  "norm_component rooted comps part =
     (if part = [] \<or> part = ''.'' then comps
      else if part \<noteq> ''..'' \<or> (\<not> rooted \<and> comps = []) \<or> (comps \<noteq> [] \<and> last comps = ''..'') then comps @ [part]
      else butlast comps)"

definition normpath :: "string \<Rightarrow> string" where
  "normpath path = (if path = [] then ''.'' else
     let n = initial_slashes path;
         rendered = replicate n (CHR ''/'') @ join_slash (foldl (norm_component (n \<noteq> 0)) [] (split_slash path))
     in if rendered = [] then ''.'' else rendered)"

definition path_join :: "string \<Rightarrow> string \<Rightarrow> string" where
  "path_join a b = (if take 1 b = ''/'' then b else if a = [] \<or> last a = CHR ''/'' then a @ b else a @ ''/'' @ b)"

definition abspath :: "string res \<Rightarrow> string \<Rightarrow> string res" where
  "abspath cwd path = (if take 1 path = ''/'' then Inr (normpath path)
     else res_bind cwd (\<lambda>c. Inr (normpath (path_join c path))))"

section \<open>Configuration\<close>

record ExecutorConfig =
  ec_plan_path :: string
  ec_network :: string
  ec_netuid :: int
  ec_validator_hotkey :: string
  ec_execute :: bool
  ec_confirm_network :: "string option"
  ec_confirm_netuid :: "int option"
  ec_confirm_plan_digest :: "string option"
  ec_audit_state_path :: "string option"
  ec_submission_timeout_seconds :: pyfloat
  ec_confirm_execution_digest :: "string option"
  ec_signer_uid :: "int option"

definition ExecutorConfig_post_init :: "ExecutorConfig \<Rightarrow> ExecutorConfig res" where
  "ExecutorConfig_post_init c =
     reject_if (ec_plan_path c = []) (WeightExecutionError ''invalid_plan_path'')
     (res_bind (validate_public_network (JStr (ec_network c))) (\<lambda>_.
      res_bind (validate_uint 65535 (JInt (ec_netuid c))) (\<lambda>_.
      res_bind (validate_public_text (JStr (ec_validator_hotkey c))) (\<lambda>_.
      reject_if (case ec_submission_timeout_seconds c of Fin t \<Rightarrow> \<not> (0 < t \<and> t \<le> 3600) | _ \<Rightarrow> True)
        (WeightExecutionError ''invalid_submission_timeout'')
     (res_bind (case ec_confirm_execution_digest c of None \<Rightarrow> Inr [] | Some d \<Rightarrow> validate_digest (JStr d)) (\<lambda>_.
      res_bind (case ec_signer_uid c of None \<Rightarrow> Inr 0 | Some u \<Rightarrow> validate_uint (2 ^ 32 - 2) (JInt u)) (\<lambda>_.
        Inr c)))))))"

definition EXECUTION_ACK_VALUE :: string where
  "EXECUTION_ACK_VALUE = ''I_ACKNOWLEDGE_THIS_SUBMITS_VALIDATOR_WEIGHTS''"

definition convert_path_error :: "exn \<Rightarrow> 'a res \<Rightarrow> 'a res" where
  "convert_path_error err r = (case r of Inl (OSError _) \<Rightarrow> Inl err | Inl (ValueError _) \<Rightarrow> Inl err | _ \<Rightarrow> r)"

definition validate_execution_gates :: "ExecutorConfig \<Rightarrow> WeightPlan \<Rightarrow> string option \<Rightarrow> string res \<Rightarrow> unit res" where
  "validate_execution_gates config plan ack cwd =
     (if \<not> ec_execute config then Inr ()
      else reject_if (ec_confirm_network config \<noteq> Some (ec_network config)
             \<or> ec_confirm_network config \<noteq> Some (wp_network plan))
             (WeightExecutionError ''network_confirmation_required'')
     (reject_if (ec_confirm_netuid config \<noteq> Some (ec_netuid config)
             \<or> ec_confirm_netuid config \<noteq> Some (wp_netuid plan))
             (WeightExecutionError ''netuid_confirmation_required'')
     (reject_if (ec_confirm_plan_digest config \<noteq> Some (wp_digest_sha256 plan))
             (WeightExecutionError ''plan_digest_confirmation_required'')
     (reject_if (ec_confirm_execution_digest config = None)
             (WeightExecutionError ''execution_digest_confirmation_required'')
     (reject_if (ack \<noteq> Some EXECUTION_ACK_VALUE)
             (WeightExecutionError ''environment_acknowledgement_required'')
     (case ec_audit_state_path config of
        None \<Rightarrow> Inl (WeightExecutionError ''audit_state_required'')
      | Some audit_path \<Rightarrow>
          reject_if (audit_path = []) (WeightExecutionError ''audit_state_required'')
          (res_bind (convert_path_error (WeightExecutionError ''audit_state_unsafe'')
              (res_bind (abspath cwd (ec_plan_path config)) (\<lambda>p.
               res_bind (abspath cwd audit_path) (\<lambda>a. Inr (p, a))))) (\<lambda>(p, a).
             reject_if (p = a) (WeightExecutionError ''audit_state_unsafe'') (Inr ())))))))))"

section \<open>Inputs and results of a run\<close>

text \<open>
  What \<^verbatim>\<open>submitter.submit\<close> comes back with under \<^verbatim>\<open>asyncio.wait_for\<close>. A raised
  exception carries the \<^verbatim>\<open>extrinsic_ref\<close> attribute of a
  \<^verbatim>\<open>WeightExecutionError\<close>.
\<close>

datatype submit_outcome = Returned SubmissionResult | TimedOut | Raised exn "string option"

record run_inputs =
  in_plan_file :: "string res"
  in_ack :: "string option"
  in_cwd :: "string res"
  in_sync :: "MetagraphSnapshot res"
  in_mode :: "bool res"
  in_has_submitter :: bool
  in_store_fault :: "exn option"
  in_clock :: "nat \<Rightarrow> string"
  in_nonce :: string
  in_install :: "nat \<Rightarrow> install"
  in_signer :: "string res"
  in_signer_open :: "unit res"
  in_send_sync :: "MetagraphSnapshot res"
  in_send_mode :: "bool res"
  in_submit :: submit_outcome
  in_submitter_close_fails :: bool
  in_store_close_fails :: bool
  in_chain_close_fails :: bool
  in_cancelled :: bool

datatype mode = DryRun | Execute

record ExecutionSummary =
  es_mode :: mode
  es_status :: string
  es_network :: string
  es_netuid :: int
  es_current_block :: int
  es_plan_digest_sha256 :: string
  es_execution_digest_sha256 :: string
  es_target_count :: nat
  es_moved_count :: nat
  es_omitted_count :: nat
  es_attempt_id :: "string option"
  es_extrinsic_ref :: "string option"
  es_cleanup_error_codes :: "string list"

text \<open>
  \<^verbatim>\<open>_ExecutionResources\<close> when \<^verbatim>\<open>_execute_weight_plan\<close> ends, with its result: the
  raised exception and its \<^verbatim>\<open>extrinsic_ref\<close>, or the summary.
\<close>

record exec_out =
  xo_store :: audit_store
  xo_has_submitter :: bool
  xo_has_store :: bool
  xo_receipt :: "AuditReceipt option"
  xo_audit_error :: "string option"
  xo_result :: "(exn \<times> string option) + ExecutionSummary"

section \<open>Stages\<close>

text \<open>\<^verbatim>\<open>except Exception as exc: raise ... from exc\<close>.\<close>

definition convert_exception :: "exn \<Rightarrow> 'a res \<Rightarrow> 'a res" where
  "convert_exception err r = (case r of Inl e \<Rightarrow> Inl (if is_exception e then err else e) | Inr x \<Rightarrow> Inr x)"

definition convert_load_error :: "'a res \<Rightarrow> 'a res" where
  "convert_load_error r = (case r of
     Inl (WeightPlanError _) \<Rightarrow> Inl (WeightExecutionError ''invalid_plan'')
   | Inl (WeightPlanTargetError _) \<Rightarrow> Inl (WeightExecutionError ''invalid_plan'')
   | Inl (OSError _) \<Rightarrow> Inl (WeightExecutionError ''invalid_plan'')
   | _ \<Rightarrow> r)"

text \<open>From the plan file to the confirmed execution vector.\<close>

definition preflight_stage ::
  "pylib \<Rightarrow> ExecutorConfig \<Rightarrow> run_inputs \<Rightarrow> (WeightPlan \<times> MetagraphSnapshot \<times> ExecutionVector) res" where
  "preflight_stage L config env =
     res_bind (convert_load_error (res_bind (in_plan_file env) (parse_weight_plan L))) (\<lambda>plan.
     reject_if (wp_network plan \<noteq> ec_network config) (WeightExecutionError ''wrong_network'')
     (reject_if (wp_netuid plan \<noteq> ec_netuid config) (WeightExecutionError ''wrong_netuid'')
     (reject_if (wp_validator_hotkey plan \<noteq> ec_validator_hotkey config) (WeightExecutionError ''wrong_validator'')
     (reject_if (wp_version_key plan \<noteq> WEIGHT_PLAN_PROTOCOL_VERSION_KEY)
        (WeightExecutionError ''unsupported_version_key'')
     (res_bind (validate_execution_gates config plan (in_ack env) (in_cwd env)) (\<lambda>_.
      res_bind (convert_exception (WeightExecutionError ''chain_preflight_failed'') (in_sync env)) (\<lambda>snapshot.
      res_bind (derive_execution_vector L plan snapshot (ec_network config) (ec_netuid config)
          (ec_validator_hotkey config)) (\<lambda>vector.
      reject_if (case ec_confirm_execution_digest config of None \<Rightarrow> False | Some d \<Rightarrow> ev_digest_sha256 vector \<noteq> d)
        (WeightExecutionError ''execution_digest_confirmation_required'')
        (Inr (plan, snapshot, vector))))))))))"

text \<open>The write path's checks before the ledger is touched, and the loaded ledger.\<close>

definition open_stage ::
  "pylib \<Rightarrow> run_inputs \<Rightarrow> string option \<Rightarrow> AuditState res" where
  "open_stage L env disk =
     res_bind (convert_exception (WeightExecutionError ''chain_preflight_failed'') (in_mode env)) (\<lambda>commit_reveal.
     reject_if commit_reveal (WeightExecutionError ''commit_reveal_unsupported'')
     (reject_if (\<not> in_has_submitter env) (WeightExecutionError ''submitter_unavailable'')
       (case (case in_store_fault env of Some e \<Rightarrow> Inl e | None \<Rightarrow> store_load L disk) of
          Inl (AuditStateError c) \<Rightarrow> Inl (AuditStateError c)
        | Inl e \<Rightarrow> Inl (if is_exception e then AuditStateError ''audit_state_unsafe'' else e)
        | Inr state \<Rightarrow> Inr state)))"

definition signer_stage :: "ExecutorConfig \<Rightarrow> run_inputs \<Rightarrow> unit res" where
  "signer_stage config env =
     res_bind (in_signer env) (\<lambda>hotkey.
     reject_if (hotkey \<noteq> ec_validator_hotkey config) (WeightExecutionError ''signer_hotkey_mismatch'')
       (in_signer_open env))"

text \<open>The second look at the chain, immediately before the submission.\<close>

definition send_check_stage ::
  "pylib \<Rightarrow> ExecutorConfig \<Rightarrow> run_inputs \<Rightarrow> WeightPlan \<Rightarrow> MetagraphSnapshot \<Rightarrow> ExecutionVector
   \<Rightarrow> (MetagraphSnapshot \<times> ExecutionVector) res" where
  "send_check_stage L config env plan snapshot vector =
     res_bind (in_send_sync env) (\<lambda>send_snapshot.
     reject_if (ms_block send_snapshot < ms_block snapshot) (WeightExecutionError ''pre_send_state_changed'')
     (res_bind (if ms_block send_snapshot = ms_block snapshot
          then res_bind (snapshot_identity_fingerprint L send_snapshot) (\<lambda>f.
               res_bind (snapshot_identity_fingerprint L snapshot) (\<lambda>g. Inr (f \<noteq> g)))
          else Inr False) (\<lambda>changed.
      reject_if changed (WeightExecutionError ''pre_send_state_changed'')
     (res_bind (derive_execution_vector L plan send_snapshot (ec_network config) (ec_netuid config)
          (ec_validator_hotkey config)) (\<lambda>send_vector.
      res_bind (in_send_mode env) (\<lambda>commit_reveal.
      reject_if commit_reveal (WeightExecutionError ''commit_reveal_unsupported'')
     (reject_if (ev_digest_sha256 send_vector \<noteq> ev_digest_sha256 vector)
        (WeightExecutionError ''pre_send_state_changed'')
        (Inr (send_snapshot, send_vector)))))))))"

text \<open>
  The two handlers around a pre-send stage: record the failure in the ledger under the
  error's code, then raise it; a failure of that record replaces it.
\<close>

definition pre_send_failure ::
  "pylib \<Rightarrow> run_inputs \<Rightarrow> audit_store \<Rightarrow> AuditAttempt \<Rightarrow> string \<Rightarrow> exn \<Rightarrow> audit_store \<times> exn" where
  "pre_send_failure L env store attempt fallback e =
     (if \<not> is_exception e then (store, e)
      else let (code, raised) =
             (case e of WeightExecutionError c \<Rightarrow> (c, e) | AuditStateError c \<Rightarrow> (c, e)
              | _ \<Rightarrow> (fallback, WeightExecutionError fallback))
           in case finish_attempt L (in_install env 1) store (aa_attempt_id attempt) Failed OutPreSendFailure None
                (Some code) (in_clock env 1) of
                (store', Inr _) \<Rightarrow> (store', raised)
              | (store', Inl e') \<Rightarrow> (store', e'))"

text \<open>
  \<^verbatim>\<open>_ExecutionResources.finish_submission\<close>: the receipt is captured first, and no
  failure to record it is raised.
\<close>

definition finish_submission ::
  "pylib \<Rightarrow> run_inputs \<Rightarrow> audit_store \<Rightarrow> string \<Rightarrow> AuditStatus \<Rightarrow> ReceiptOutcome \<Rightarrow> string option
   \<Rightarrow> string option \<Rightarrow> audit_store \<times> (AuditReceipt \<times> string option) res" where
  "finish_submission L env store attempt_id status outcome extrinsic_ref error_code =
     (case AuditReceipt_post_init (JStr (outcome_text outcome)) (jstr_opt extrinsic_ref) (jstr_opt error_code) of
        Inl e \<Rightarrow> (store, Inl e)
      | Inr receipt \<Rightarrow>
          (case finish_attempt L (in_install env 2) store attempt_id status outcome extrinsic_ref error_code
               (in_clock env 2) of
             (store', Inr _) \<Rightarrow> (store', Inr (receipt, None))
           | (store', Inl _) \<Rightarrow> (store', Inr (receipt, Some ''audit_persistence_failed''))))"

text \<open>What an answer of the submitter is recorded as, and what the run then raises or returns.\<close>

datatype verdict = Verdict AuditStatus ReceiptOutcome "string option" "string option" "exn option"

definition judge_submission :: "submit_outcome \<Rightarrow> verdict + exn" where
  "judge_submission s = (case s of
     TimedOut \<Rightarrow> Inl (Verdict Ambiguous OutAmbiguous None (Some ''submission_timeout'')
                       (Some (WeightExecutionError ''submission_ambiguous'')))
   | Raised e ref \<Rightarrow>
       if \<not> is_exception e then Inr e
       else Inl (Verdict Ambiguous OutAmbiguous
              (if e \<in> {WeightExecutionError ''submission_ambiguous'', AuditStateError ''submission_ambiguous''}
               then ref else None)
              (Some ''submission_exception'') (Some (WeightExecutionError ''submission_ambiguous'')))
   | Returned r \<Rightarrow> (case SubmissionResult_post_init r of
       Inl e \<Rightarrow> Inl (Verdict Ambiguous OutAmbiguous None (Some ''submission_exception'')
                  (Some (WeightExecutionError ''submission_ambiguous'')))
     | Inr r \<Rightarrow>
         if sr_success r
         then (if sr_extrinsic_ref r = None
               then Inl (Verdict Ambiguous OutAmbiguous None (Some ''missing_extrinsic_reference'')
                      (Some (WeightExecutionError ''submission_ambiguous'')))
               else Inl (Verdict Confirmed OutConfirmed (sr_extrinsic_ref r) None None))
         else Inl (Verdict Failed OutDefiniteFailure (sr_extrinsic_ref r)
                (Some (case sr_error_code r of None \<Rightarrow> ''chain_rejected'' | Some c \<Rightarrow> c))
                (Some (WeightExecutionError ''submission_failed'')))))"

definition summary_of :: "mode \<Rightarrow> ExecutorConfig \<Rightarrow> int \<Rightarrow> WeightPlan \<Rightarrow> ExecutionVector \<Rightarrow> string option
    \<Rightarrow> string option \<Rightarrow> ExecutionSummary" where
  "summary_of m config block plan vector attempt_id ref =
     \<lparr>es_mode = m, es_status = (case m of DryRun \<Rightarrow> ''validated'' | Execute \<Rightarrow> ''confirmed''), es_network = ec_network config, es_netuid = ec_netuid config, es_current_block = block,
      es_plan_digest_sha256 = wp_digest_sha256 plan, es_execution_digest_sha256 = ev_digest_sha256 vector,
      es_target_count = length (ev_weights vector), es_moved_count = moved_count vector,
      es_omitted_count = length (ev_omitted vector), es_attempt_id = attempt_id, es_extrinsic_ref = ref,
      es_cleanup_error_codes = []\<rparr>"

definition stopped :: "audit_store \<Rightarrow> bool \<Rightarrow> bool \<Rightarrow> exn \<Rightarrow> exec_out" where
  "stopped store has_submitter has_store e =
     \<lparr>xo_store = store, xo_has_submitter = has_submitter, xo_has_store = has_store, xo_receipt = None,
      xo_audit_error = None, xo_result = Inl (e, None)\<rparr>"

text \<open>Submit once, then record the answer.\<close>

definition submit_stage ::
  "pylib \<Rightarrow> ExecutorConfig \<Rightarrow> run_inputs \<Rightarrow> audit_store \<Rightarrow> AuditAttempt \<Rightarrow> WeightPlan \<Rightarrow> ExecutionVector
   \<Rightarrow> MetagraphSnapshot \<Rightarrow> ExecutionVector \<Rightarrow> exec_out" where
  "submit_stage L config env store attempt plan vector send_snapshot send_vector =
     (let sent = store\<lparr>st_events := st_events store @ [Sent send_vector]\<rparr>
      in case judge_submission (in_submit env) of
           Inr e \<Rightarrow> stopped sent True True e
         | Inl (Verdict status outcome ref code raised) \<Rightarrow>
             (case finish_submission L env sent (aa_attempt_id attempt) status outcome ref code of
                (store', Inl e) \<Rightarrow> stopped store' True True e
              | (store', Inr (receipt, audit_error)) \<Rightarrow>
                  \<lparr>xo_store = store', xo_has_submitter = True, xo_has_store = True, xo_receipt = Some receipt,
                   xo_audit_error = audit_error,
                   xo_result = (case raised of
                      None \<Rightarrow> Inr (summary_of Execute config (ms_block send_snapshot) plan vector
                                (Some (aa_attempt_id attempt)) ref)
                    | Some e \<Rightarrow> Inl (e, if status = Ambiguous then ref else None))\<rparr>))"

definition execute_weight_plan :: "pylib \<Rightarrow> ExecutorConfig \<Rightarrow> run_inputs \<Rightarrow> string option \<Rightarrow> exec_out" where
  "execute_weight_plan L config env disk =
     (let idle = \<lparr>st_disk = disk, st_state = empty_state L, st_events = []\<rparr>
      in case preflight_stage L config env of
           Inl e \<Rightarrow> stopped idle False False e
         | Inr (plan, snapshot, vector) \<Rightarrow>
             if \<not> ec_execute config
             then \<lparr>xo_store = idle, xo_has_submitter = False, xo_has_store = False, xo_receipt = None,
                   xo_audit_error = None,
                   xo_result = Inr (summary_of DryRun config (ms_block snapshot) plan vector None None)\<rparr>
             else case open_stage L env disk of
               Inl e \<Rightarrow> stopped idle False False e
             | Inr state \<Rightarrow>
                 (let store = idle\<lparr>st_state := state\<rparr>
                  in if blocking_attempt state (wp_digest_sha256 plan) \<noteq> None
                     then stopped store False True (AuditStateError ''idempotency_blocked'')
                     else case start_attempt L (in_install env 0) store vector (ms_block snapshot)
                            (in_clock env 0) (in_nonce env) of
                       (store, Inl e) \<Rightarrow> stopped store False True e
                     | (store, Inr attempt) \<Rightarrow>
                         (case signer_stage config env of
                            Inl e \<Rightarrow> (case pre_send_failure L env store attempt ''signer_unavailable'' e of
                                        (store, e) \<Rightarrow> stopped store (\<not> isl (in_signer env)) True e)
                          | Inr _ \<Rightarrow>
                              (case send_check_stage L config env plan snapshot vector of
                                 Inl e \<Rightarrow> (case pre_send_failure L env store attempt ''pre_send_state_unavailable'' e of
                                             (store, e) \<Rightarrow> stopped store True True e)
                               | Inr (send_snapshot, send_vector) \<Rightarrow>
                                   (case mark_submission_started L (in_install env 1) store (aa_attempt_id attempt)
                                          (ms_block send_snapshot) (in_clock env 1) of
                                      (store, Inl e) \<Rightarrow> stopped store True True e
                                    | (store, Inr attempt) \<Rightarrow>
                                        submit_stage L config env store attempt plan vector send_snapshot
                                          send_vector)))))"

section \<open>The run\<close>

record failure =
  fx_exn :: exn
  fx_status :: string
  fx_extrinsic_ref :: "string option"
  fx_audit_error_code :: "string option"
  fx_cleanup_error_codes :: "string list"

datatype run_result = Completed ExecutionSummary | Failure failure

definition error_status :: "exn \<Rightarrow> string" where
  "error_status e = (if e \<in> {WeightExecutionError ''submission_ambiguous'', AuditStateError ''submission_ambiguous''}
     then ''ambiguous'' else ''rejected'')"

definition cleanup_codes :: "run_inputs \<Rightarrow> exec_out \<Rightarrow> string list" where
  "cleanup_codes env out =
     (if xo_has_submitter out \<and> in_submitter_close_fails env then [''submitter_cleanup_failed''] else [])
     @ (if xo_has_store out \<and> in_store_close_fails env then [''audit_cleanup_failed''] else [])
     @ (if in_chain_close_fails env then [''chain_cleanup_failed''] else [])"

definition run_weight_executor ::
  "pylib \<Rightarrow> ExecutorConfig \<Rightarrow> run_inputs \<Rightarrow> string option \<Rightarrow> event list \<times> run_result" where
  "run_weight_executor L config env disk =
     (let out = execute_weight_plan L config env disk;
          codes = cleanup_codes env out
      in (st_events (xo_store out),
          case xo_result out of
            Inl (e, ref) \<Rightarrow> Failure \<lparr>fx_exn = e, fx_status = error_status e, fx_extrinsic_ref = ref,
                               fx_audit_error_code = xo_audit_error out, fx_cleanup_error_codes = codes\<rparr>
          | Inr summary \<Rightarrow>
              (case xo_audit_error out of
                 Some code \<Rightarrow> Failure \<lparr>fx_exn = WeightExecutionError ''submission_confirmed_audit_failed'',
                   fx_status = ''confirmed'',
                   fx_extrinsic_ref = (case xo_receipt out of None \<Rightarrow> None | Some r \<Rightarrow> rc_extrinsic_ref r),
                   fx_audit_error_code = Some code, fx_cleanup_error_codes = codes\<rparr>
               | None \<Rightarrow>
                   if in_cancelled env \<and> es_mode summary = DryRun
                   then Failure \<lparr>fx_exn = CancelledError '''', fx_status = '''', fx_extrinsic_ref = None,
                          fx_audit_error_code = None, fx_cleanup_error_codes = []\<rparr>
                   else Completed (summary\<lparr>es_cleanup_error_codes := codes\<rparr>))))"

section \<open>Traces\<close>

text \<open>
  A trace is durable when every write is one ledger step from the previous ledger, and a
  vector is only sent while the ledger already holds its attempt, marked as started.
\<close>

definition announced :: "ExecutionVector \<Rightarrow> AuditAttempt list \<Rightarrow> bool" where
  "announced v as \<longleftrightarrow> list_ex (\<lambda>a. aa_plan_digest_sha256 a = ev_plan_digest_sha256 v
     \<and> aa_execution_digest_sha256 a = ev_digest_sha256 v \<and> aa_submission_started a \<and> aa_status a = InProgress) as"

fun durable_trace :: "pylib \<Rightarrow> AuditAttempt list \<Rightarrow> event list \<Rightarrow> bool" where
  "durable_trace L as [] = True"
| "durable_trace L as (Wrote b # es) = (case parse_audit_state L b of
     Inl _ \<Rightarrow> False
   | Inr s \<Rightarrow> ledger_step as (as_attempts s) \<and> durable_trace L (as_attempts s) es)"
| "durable_trace L as (Sent v # es) = (announced v as \<and> durable_trace L as es)"

fun ledger_after :: "pylib \<Rightarrow> AuditAttempt list \<Rightarrow> event list \<Rightarrow> AuditAttempt list" where
  "ledger_after L as [] = as"
| "ledger_after L as (Wrote b # es) = (case parse_audit_state L b of
     Inl _ \<Rightarrow> as | Inr s \<Rightarrow> ledger_after L (as_attempts s) es)"
| "ledger_after L as (Sent v # es) = ledger_after L as es"

lemma durable_trace_append:
  "durable_trace L as (es @ fs) \<longleftrightarrow> durable_trace L as es \<and> durable_trace L (ledger_after L as es) fs"
  by (induction L as es rule: durable_trace.induct) (auto split: sum.splits)

lemma ledger_after_append:
  "durable_trace L as es \<Longrightarrow> ledger_after L as (es @ fs) = ledger_after L (ledger_after L as es) fs"
  by (induction L as es rule: durable_trace.induct) (auto split: sum.splits)

lemma durable_trace_take: "durable_trace L as es \<Longrightarrow> durable_trace L as (take n es)"
  by (metis append_take_drop_id durable_trace_append)

lemma durable_trace_steps: "durable_trace L as es \<Longrightarrow> ledger_step\<^sup>*\<^sup>* as (ledger_after L as es)"
  by (induction L as es rule: durable_trace.induct)
     (auto split: sum.splits intro: converse_rtranclp_into_rtranclp)

definition run_inv :: "pylib \<Rightarrow> AuditAttempt list \<Rightarrow> audit_store \<Rightarrow> bool" where
  "run_inv L as st \<longleftrightarrow> store_good L st \<and> durable_trace L as (st_events st)
     \<and> ledger_after L as (st_events st) = attempts_of st"

lemma derive_vector_good:
  assumes "derive_execution_vector L plan s net nu vh = Inr v" and "list_all entry_ok (wp_weights plan)"
  shows "vector_good v"
proof -
  note d = derive_Inr [OF assms]
  have "rnd (ew_weight w) = ew_weight w" if "w \<in> set (ev_weights v)" for w
    using that d(3) normalize_double unfolding vector_for_def by (metis imageI list.set_map)
  moreover have "list_all omitted_ok (ev_omitted v)"
    using d(3) assms(2) by (auto simp: vector_for_def list_all_iff omitted_of_def omitted_ok_def entry_ok_def)
  ultimately show ?thesis using d(4) by (simp add: vector_good_def weight_good_def list_all_iff)
qed

context python_library
begin

lemma committed_trace:
  assumes "committed L st as' st'" and "run_inv L as st" and "ledger_step (attempts_of st) as'"
  shows "durable_trace L as (st_events st')" and "ledger_after L as (st_events st') = as'"
    and "attempts_of st' = as' \<Longrightarrow> run_inv L as st'"
proof -
  obtain s' where s': "as_attempts s' = as'" "state_good L s'"
    "st_events st' = st_events st @ [Wrote (state_canonical_bytes L s')]"
    using assms(1) by (auto simp: committed_def)
  note load = parse_state_bytes [OF s'(2)]
  show trace: "durable_trace L as (st_events st')" and after: "ledger_after L as (st_events st') = as'"
    using assms(2,3) s' load by (auto simp: run_inv_def durable_trace_append ledger_after_append)
  show "attempts_of st' = as' \<Longrightarrow> run_inv L as st'"
    using trace after committed_store_good [OF assms(1)] assms(2) by (auto simp: run_inv_def)
qed

lemma start_trace:
  assumes "start_attempt L how st v b t n = (st', r)" and "run_inv L as st" and "vector_good v"
  shows "durable_trace L as (st_events st')"
    and "r = Inr a \<Longrightarrow> run_inv L as st' \<and> a \<in> set (attempts_of st') \<and> attempt_vector a = v
           \<and> \<not> barred (ev_plan_digest_sha256 v) (attempts_of st) \<and> \<not> aa_submission_started a
           \<and> aa_status a = InProgress"
proof -
  have good: "store_good L st" using assms(2) by (simp add: run_inv_def)
  from start_attempt_effect [OF assms(1) good assms(3)]
  have *: "durable_trace L as (st_events st') \<and> (\<forall>a. r = Inr a \<longrightarrow> run_inv L as st' \<and> a \<in> set (attempts_of st')
      \<and> attempt_vector a = v \<and> \<not> barred (ev_plan_digest_sha256 v) (attempts_of st)
      \<and> \<not> aa_submission_started a \<and> aa_status a = InProgress)"
  proof (elim disjE exE conjE)
    fix e assume "st' = st" "r = Inl e"
    then show ?thesis using assms(2) by (simp add: run_inv_def)
  next
    fix a assume new: "new_attempt L (st_state st) v b t n = Inr a"
      and step: "ledger_step (attempts_of st) (attempts_of st @ [a])"
      and com: "committed L st (attempts_of st @ [a]) st'"
      and r: "\<forall>a'. r = Inr a' \<longrightarrow> a' = a \<and> attempts_of st' = attempts_of st @ [a]"
    show ?thesis
      using committed_trace [OF com assms(2) step] r new_attempt_Inr [OF new] by auto
  qed
  from * show "durable_trace L as (st_events st')" by blast
  from * show "r = Inr a \<Longrightarrow> run_inv L as st' \<and> a \<in> set (attempts_of st') \<and> attempt_vector a = v
           \<and> \<not> barred (ev_plan_digest_sha256 v) (attempts_of st) \<and> \<not> aa_submission_started a
           \<and> aa_status a = InProgress" by blast
qed

lemma mark_trace:
  assumes "mark_submission_started L how st (aa_attempt_id c) b t = (st', r)" and "run_inv L as st"
    and "c \<in> set (attempts_of st)"
  shows "durable_trace L as (st_events st')"
    and "r = Inr u \<Longrightarrow> run_inv L as st' \<and> u \<in> set (attempts_of st') \<and> same_subject c u
           \<and> aa_submission_started u \<and> aa_status u = InProgress \<and> aa_send_check_block u = Some b"
proof -
  have good: "store_good L st" using assms(2) by (simp add: run_inv_def)
  have ids: "distinct (map aa_attempt_id (attempts_of st))"
    using good by (simp add: store_good_def state_good_def)
  from mark_effect [OF assms(1) good]
  have *: "durable_trace L as (st_events st') \<and> (\<forall>u. r = Inr u \<longrightarrow> run_inv L as st' \<and> u \<in> set (attempts_of st')
      \<and> same_subject c u \<and> aa_submission_started u \<and> aa_status u = InProgress \<and> aa_send_check_block u = Some b)"
  proof (elim disjE exE conjE)
    fix e assume "st' = st" "r = Inl e"
    then show ?thesis using assms(2) by (simp add: run_inv_def)
  next
    fix i u assume i: "i < length (attempts_of st)" "aa_attempt_id (attempts_of st ! i) = aa_attempt_id c"
      and u: "same_subject (attempts_of st ! i) u" "aa_submission_started u" "aa_status u = InProgress"
        "aa_send_check_block u = Some b"
      and step: "ledger_step (attempts_of st) ((attempts_of st)[i := u])"
      and com: "committed L st ((attempts_of st)[i := u]) st'"
      and r: "\<forall>u'. r = Inr u' \<longrightarrow> u' = u \<and> attempts_of st' = (attempts_of st)[i := u]"
    have "attempts_of st ! i = c"
      using ids i assms(3) by (metis distinct_map inj_onD nth_mem)
    then show ?thesis
      using committed_trace [OF com assms(2) step] r u i(1) by (auto simp: set_update_memI)
  qed
  from * show "durable_trace L as (st_events st')" by blast
  from * show "r = Inr u \<Longrightarrow> run_inv L as st' \<and> u \<in> set (attempts_of st') \<and> same_subject c u
      \<and> aa_submission_started u \<and> aa_status u = InProgress \<and> aa_send_check_block u = Some b" by blast
qed

lemma finish_trace:
  assumes "finish_attempt L how st k s out ref code t = (st', r)" and "run_inv L as st"
  shows "durable_trace L as (st_events st')"
proof -
  have good: "store_good L st" using assms(2) by (simp add: run_inv_def)
  from finish_effect [OF assms(1) good] show ?thesis
  proof (elim disjE exE conjE)
    fix e assume "st' = st"
    then show ?thesis using assms(2) by (simp add: run_inv_def)
  next
    fix i u assume step: "ledger_step (attempts_of st) ((attempts_of st)[i := u])"
      and com: "committed L st ((attempts_of st)[i := u]) st'"
    show ?thesis by (rule committed_trace(1) [OF com assms(2) step])
  qed
qed

lemma pre_send_failure_trace:
  assumes "pre_send_failure L env st a fallback e = (st', e')" and "run_inv L as st"
  shows "durable_trace L as (st_events st')"
proof (cases "is_exception e")
  case False
  then show ?thesis using assms by (simp add: pre_send_failure_def run_inv_def)
next
  case True
  then obtain code st'' r where "finish_attempt L (in_install env 1) st (aa_attempt_id a) Failed OutPreSendFailure
      None (Some code) (in_clock env 1) = (st'', r)" and "st' = st''"
    using assms(1) by (auto simp: pre_send_failure_def Let_def split: prod.splits sum.splits)
  then show ?thesis using finish_trace assms(2) by blast
qed

lemma finish_submission_trace:
  assumes "finish_submission L env st k s out ref code = (st', r)" and "run_inv L as st"
  shows "durable_trace L as (st_events st')"
proof (cases "st' = st")
  case True
  then show ?thesis using assms(2) by (simp add: run_inv_def)
next
  case False
  then obtain r' where "finish_attempt L (in_install env 2) st k s out ref code (in_clock env 2) = (st', r')"
    using assms(1) by (auto simp: finish_submission_def split: prod.splits sum.splits)
  then show ?thesis using finish_trace assms(2) by blast
qed

lemma sent_inv:
  assumes "run_inv L as st" and "announced v (attempts_of st)"
  shows "run_inv L as (st\<lparr>st_events := st_events st @ [Sent v]\<rparr>)"
  using assms by (simp add: run_inv_def store_good_def durable_trace_append ledger_after_append)

lemma submit_trace:
  assumes "run_inv L as st" and "announced w (attempts_of st)"
  shows "durable_trace L as (st_events (xo_store (submit_stage L config env st a plan v s w)))"
proof -
  note inv = sent_inv [OF assms]
  then have "durable_trace L as (st_events (st\<lparr>st_events := st_events st @ [Sent w]\<rparr>))"
    by (simp add: run_inv_def)
  then show ?thesis
    using finish_submission_trace [OF _ inv]
    unfolding submit_stage_def Let_def stopped_def
    by (auto split: sum.splits verdict.splits prod.splits)
qed

end

section \<open>How far a run gets\<close>

definition idle_store :: "pylib \<Rightarrow> string option \<Rightarrow> audit_store" where
  "idle_store L disk = \<lparr>st_disk = disk, st_state = empty_state L, st_events = []\<rparr>"

lemma execute_weight_plan_cases:
  obtains
    (preflight) e where "preflight_stage L config env = Inl e"
      "execute_weight_plan L config env disk = stopped (idle_store L disk) False False e"
  | (dry_run) plan snap v where "preflight_stage L config env = Inr (plan, snap, v)" "\<not> ec_execute config"
      "execute_weight_plan L config env disk = \<lparr>xo_store = idle_store L disk, xo_has_submitter = False,
         xo_has_store = False, xo_receipt = None, xo_audit_error = None,
         xo_result = Inr (summary_of DryRun config (ms_block snap) plan v None None)\<rparr>"
  | (unopened) plan snap v e where "preflight_stage L config env = Inr (plan, snap, v)" "ec_execute config"
      "open_stage L env disk = Inl e"
      "execute_weight_plan L config env disk = stopped (idle_store L disk) False False e"
  | (blocked) plan snap v s where "preflight_stage L config env = Inr (plan, snap, v)" "ec_execute config"
      "open_stage L env disk = Inr s" "blocking_attempt s (wp_digest_sha256 plan) \<noteq> None"
      "execute_weight_plan L config env disk
         = stopped ((idle_store L disk)\<lparr>st_state := s\<rparr>) False True (AuditStateError ''idempotency_blocked'')"
  | (starting) plan snap v s st e where "preflight_stage L config env = Inr (plan, snap, v)" "ec_execute config"
      "open_stage L env disk = Inr s" "blocking_attempt s (wp_digest_sha256 plan) = None"
      "start_attempt L (in_install env 0) ((idle_store L disk)\<lparr>st_state := s\<rparr>) v (ms_block snap)
         (in_clock env 0) (in_nonce env) = (st, Inl e)"
      "execute_weight_plan L config env disk = stopped st False True e"
  | (signing) plan snap v s st a e st' e' where "preflight_stage L config env = Inr (plan, snap, v)"
      "ec_execute config" "open_stage L env disk = Inr s"
      "blocking_attempt s (wp_digest_sha256 plan) = None"
      "start_attempt L (in_install env 0) ((idle_store L disk)\<lparr>st_state := s\<rparr>) v (ms_block snap)
         (in_clock env 0) (in_nonce env) = (st, Inr a)"
      "signer_stage config env = Inl e"
      "pre_send_failure L env st a ''signer_unavailable'' e = (st', e')"
      "execute_weight_plan L config env disk = stopped st' (\<not> isl (in_signer env)) True e'"
  | (rechecking) plan snap v s st a e st' e' where "preflight_stage L config env = Inr (plan, snap, v)"
      "ec_execute config" "open_stage L env disk = Inr s"
      "blocking_attempt s (wp_digest_sha256 plan) = None"
      "start_attempt L (in_install env 0) ((idle_store L disk)\<lparr>st_state := s\<rparr>) v (ms_block snap)
         (in_clock env 0) (in_nonce env) = (st, Inr a)"
      "signer_stage config env = Inr ()" "send_check_stage L config env plan snap v = Inl e"
      "pre_send_failure L env st a ''pre_send_state_unavailable'' e = (st', e')"
      "execute_weight_plan L config env disk = stopped st' True True e'"
  | (marking) plan snap v s st a snap' w st' e where "preflight_stage L config env = Inr (plan, snap, v)"
      "ec_execute config" "open_stage L env disk = Inr s"
      "blocking_attempt s (wp_digest_sha256 plan) = None"
      "start_attempt L (in_install env 0) ((idle_store L disk)\<lparr>st_state := s\<rparr>) v (ms_block snap)
         (in_clock env 0) (in_nonce env) = (st, Inr a)"
      "signer_stage config env = Inr ()" "send_check_stage L config env plan snap v = Inr (snap', w)"
      "mark_submission_started L (in_install env 1) st (aa_attempt_id a) (ms_block snap') (in_clock env 1) = (st', Inl e)"
      "execute_weight_plan L config env disk = stopped st' True True e"
  | (submitted) plan snap v s st a snap' w st' a' where "preflight_stage L config env = Inr (plan, snap, v)"
      "ec_execute config" "open_stage L env disk = Inr s"
      "blocking_attempt s (wp_digest_sha256 plan) = None"
      "start_attempt L (in_install env 0) ((idle_store L disk)\<lparr>st_state := s\<rparr>) v (ms_block snap)
         (in_clock env 0) (in_nonce env) = (st, Inr a)"
      "signer_stage config env = Inr ()" "send_check_stage L config env plan snap v = Inr (snap', w)"
      "mark_submission_started L (in_install env 1) st (aa_attempt_id a) (ms_block snap') (in_clock env 1) = (st', Inr a')"
      "execute_weight_plan L config env disk = submit_stage L config env st' a' plan v snap' w"
proof -
  note [simp] = execute_weight_plan_def idle_store_def [symmetric] Let_def
  note One_nat_def [simp del]
  show ?thesis
  proof (cases "preflight_stage L config env")
    case (Inl e)
    then show ?thesis by (rule that(1)) (simp add: Inl)
  next
    case (Inr p)
    obtain plan snap v where p: "preflight_stage L config env = Inr (plan, snap, v)"
      using Inr by (cases p) auto
    show ?thesis
    proof (cases "ec_execute config")
      case False
      show ?thesis by (rule that(2) [OF p False]) (simp add: p False)
    next
      case ex: True
      show ?thesis
      proof (cases "open_stage L env disk")
        case (Inl e)
        show ?thesis by (rule that(3) [OF p ex Inl]) (simp add: p ex Inl)
      next
        case o: (Inr s)
        show ?thesis
        proof (cases "blocking_attempt s (wp_digest_sha256 plan)")
          case (Some a)
          then show ?thesis by (intro that(4) [OF p ex o]) (simp_all add: p ex o)
        next
          case b: None
          obtain st r where st: "start_attempt L (in_install env 0) ((idle_store L disk)\<lparr>st_state := s\<rparr>) v
              (ms_block snap) (in_clock env 0) (in_nonce env) = (st, r)" by fastforce
          show ?thesis
          proof (cases r)
            case (Inl e)
            show ?thesis by (rule that(5) [OF p ex o b st [unfolded Inl]]) (simp add: p ex o b st Inl)
          next
            case (Inr a)
            note a = st [unfolded Inr]
            show ?thesis
            proof (cases "signer_stage config env")
              case sg: (Inl e)
              obtain st' e' where f: "pre_send_failure L env st a ''signer_unavailable'' e = (st', e')" by fastforce
              show ?thesis by (rule that(6) [OF p ex o b a sg f]) (simp add: p ex o b a sg f)
            next
              case (Inr u)
              have sg: "signer_stage config env = Inr ()" using Inr by simp
              show ?thesis
              proof (cases "send_check_stage L config env plan snap v")
                case ck: (Inl e)
                obtain st' e' where f: "pre_send_failure L env st a ''pre_send_state_unavailable'' e = (st', e')"
                  by fastforce
                show ?thesis by (rule that(7) [OF p ex o b a sg ck f]) (simp add: p ex o b a sg ck f)
              next
                case (Inr q)
                obtain snap' w where ck: "send_check_stage L config env plan snap v = Inr (snap', w)"
                  using Inr by (cases q) auto
                obtain st' r' where m: "mark_submission_started L (in_install env 1) st (aa_attempt_id a)
                    (ms_block snap') (in_clock env 1) = (st', r')" by fastforce
                show ?thesis
                proof (cases r')
                  case (Inl e)
                  show ?thesis
                    by (rule that(8) [OF p ex o b a sg ck m [unfolded Inl]]) (simp add: p ex o b a sg ck m Inl)
                next
                  case (Inr a')
                  show ?thesis
                    by (rule that(9) [OF p ex o b a sg ck m [unfolded Inr]]) (simp add: p ex o b a sg ck m Inr)
                qed
              qed
            qed
          qed
        qed
      qed
    qed
  qed
qed

section \<open>What each stage establishes\<close>

lemma open_stage_Inr: "open_stage L env disk = Inr s \<Longrightarrow> store_load L disk = Inr s"
  unfolding open_stage_def
  by (elim res_bindE reject_ifE) (auto split: option.splits sum.splits exn.splits)

lemma open_stage_mode: "open_stage L env disk = Inr s \<Longrightarrow> in_mode env = Inr False"
  unfolding open_stage_def
  by (elim res_bindE reject_ifE) (auto simp: convert_exception_def split: sum.splits)

lemma convert_load_error_Inr [simp]: "convert_load_error r = Inr x \<longleftrightarrow> r = Inr x"
  by (auto simp: convert_load_error_def split: sum.splits exn.splits)

lemma convert_exception_Inr [simp]: "convert_exception e r = Inr x \<longleftrightarrow> r = Inr x"
  by (auto simp: convert_exception_def split: sum.splits)

text \<open>What the gates establish in write mode.\<close>

definition operator_confirmed :: "ExecutorConfig \<Rightarrow> WeightPlan \<Rightarrow> string option \<Rightarrow> bool" where
  "operator_confirmed config plan ack \<longleftrightarrow> ec_confirm_network config = Some (wp_network plan)
     \<and> ec_confirm_netuid config = Some (wp_netuid plan)
     \<and> ec_confirm_plan_digest config = Some (wp_digest_sha256 plan)
     \<and> ec_confirm_execution_digest config \<noteq> None \<and> ack = Some EXECUTION_ACK_VALUE
     \<and> ec_audit_state_path config \<noteq> None"

lemma gates_confirm:
  assumes "validate_execution_gates config plan ack cwd = Inr ()" and "ec_execute config"
  shows "operator_confirmed config plan ack"
  using assms unfolding validate_execution_gates_def operator_confirmed_def
  by (auto split: option.splits)

lemma preflight_stage_Inr:
  assumes "preflight_stage L config env = Inr (plan, snap, v)"
  shows "list_all entry_ok (wp_weights plan)" and "plan_ok L plan"
    and "derive_execution_vector L plan snap (ec_network config) (ec_netuid config) (ec_validator_hotkey config) = Inr v"
    and "in_sync env = Inr snap" and "\<exists>b. in_plan_file env = Inr b \<and> parse_weight_plan L b = Inr plan"
    and "ec_execute config \<Longrightarrow> operator_confirmed config plan (in_ack env)"
    and "\<And>d. ec_confirm_execution_digest config = Some d \<Longrightarrow> ev_digest_sha256 v = d"
proof -
  note facts = assms [unfolded preflight_stage_def]
  from facts obtain b where bytes: "in_plan_file env = Inr b" "parse_weight_plan L b = Inr plan"
    by (elim res_bindE reject_ifE) auto
  then show "\<exists>b. in_plan_file env = Inr b \<and> parse_weight_plan L b = Inr plan" by blast
  show "list_all entry_ok (wp_weights plan)" "plan_ok L plan"
    using parse_weight_plan_Inr [OF bytes(2)] by auto
  from facts show "derive_execution_vector L plan snap (ec_network config) (ec_netuid config)
      (ec_validator_hotkey config) = Inr v" "in_sync env = Inr snap"
    by (elim res_bindE reject_ifE, simp)+
  from facts have "validate_execution_gates config plan (in_ack env) (in_cwd env) = Inr ()"
    by (elim res_bindE reject_ifE) simp
  then show "ec_execute config \<Longrightarrow> operator_confirmed config plan (in_ack env)" by (rule gates_confirm)
  from facts show "\<And>d. ec_confirm_execution_digest config = Some d \<Longrightarrow> ev_digest_sha256 v = d"
    by (elim res_bindE reject_ifE) auto
qed

lemma send_check_Inr:
  assumes "send_check_stage L config env plan snap v = Inr (snap', w)"
  shows "in_send_sync env = Inr snap'" and "ms_block snap \<le> ms_block snap'"
    and "derive_execution_vector L plan snap' (ec_network config) (ec_netuid config) (ec_validator_hotkey config) = Inr w"
    and "in_send_mode env = Inr False" and "ev_digest_sha256 w = ev_digest_sha256 v"
    and "ms_block snap' = ms_block snap \<Longrightarrow> snapshot_identity_fingerprint L snap' = snapshot_identity_fingerprint L snap"
  using assms [unfolded send_check_stage_def]
  by (elim res_bindE reject_ifE; auto split: if_splits)+

lemma derive_plan_digest:
  "derive_execution_vector L plan s net nu vh = Inr v \<Longrightarrow> list_all entry_ok (wp_weights plan)
    \<Longrightarrow> ev_plan_digest_sha256 v = wp_digest_sha256 plan"
  using derive_Inr(3) by (fastforce simp: vector_for_def)

context python_library
begin

lemma opened_inv:
  "open_stage L env disk = Inr s \<Longrightarrow> run_inv L (as_attempts s) ((idle_store L disk)\<lparr>st_state := s\<rparr>)"
  using open_stage_Inr [of L env disk s] store_load_good [of disk s]
  by (simp add: run_inv_def idle_store_def store_good_def)

lemma attempt_announced:
  assumes "u \<in> set as" and "same_subject a u" and "attempt_vector a = v" and "aa_submission_started u"
    and "aa_status u = InProgress" and "ev_plan_digest_sha256 w = ev_plan_digest_sha256 v"
    and "ev_digest_sha256 w = ev_digest_sha256 v"
  shows "announced w as"
  using assms by (auto simp: announced_def list_ex_iff same_subject_def attempt_vector_def intro!: bexI [of _ u])

text \<open>Every run leaves a durable trace, and does nothing at all when the ledger does not load.\<close>

lemma execute_trace:
  "(st_events (xo_store (execute_weight_plan L config env disk)) = []
    \<or> (\<exists>s. store_load L disk = Inr s
         \<and> durable_trace L (as_attempts s) (st_events (xo_store (execute_weight_plan L config env disk)))))"
proof (cases rule: execute_weight_plan_cases [of L config env disk])
  case (starting plan snap v s st e)
  have good: "vector_good v"
    using preflight_stage_Inr(1,3) [OF starting(1)] by (rule derive_vector_good [rotated])
  show ?thesis
    using start_trace(1) [OF starting(5) opened_inv [OF starting(3)] good] open_stage_Inr [OF starting(3)] starting(6)
    by (simp add: stopped_def)
next
  case (signing plan snap v s st a e st' e')
  have good: "vector_good v"
    using preflight_stage_Inr(1,3) [OF signing(1)] by (rule derive_vector_good [rotated])
  have "run_inv L (as_attempts s) st"
    using start_trace(2) [OF signing(5) opened_inv [OF signing(3)] good] by simp
  then show ?thesis
    using pre_send_failure_trace [OF signing(7)] open_stage_Inr [OF signing(3)] signing(8) by (simp add: stopped_def)
next
  case (rechecking plan snap v s st a e st' e')
  have good: "vector_good v"
    using preflight_stage_Inr(1,3) [OF rechecking(1)] by (rule derive_vector_good [rotated])
  have "run_inv L (as_attempts s) st"
    using start_trace(2) [OF rechecking(5) opened_inv [OF rechecking(3)] good] by simp
  then show ?thesis
    using pre_send_failure_trace [OF rechecking(8)] open_stage_Inr [OF rechecking(3)] rechecking(9)
    by (simp add: stopped_def)
next
  case (marking plan snap v s st a snap' w st' e)
  have good: "vector_good v"
    using preflight_stage_Inr(1,3) [OF marking(1)] by (rule derive_vector_good [rotated])
  have "run_inv L (as_attempts s) st" "a \<in> set (attempts_of st)"
    using start_trace(2) [OF marking(5) opened_inv [OF marking(3)] good] by simp_all
  then show ?thesis
    using mark_trace(1) [OF marking(8)] open_stage_Inr [OF marking(3)] marking(9) by (simp add: stopped_def)
next
  case (submitted plan snap v s st a snap' w st' a')
  note p = preflight_stage_Inr [OF submitted(1)]
  note w = send_check_Inr [OF submitted(7)]
  have good: "vector_good v" using p(1,3) by (rule derive_vector_good [rotated])
  have st: "run_inv L (as_attempts s) st" "a \<in> set (attempts_of st)" "attempt_vector a = v"
    using start_trace(2) [OF submitted(5) opened_inv [OF submitted(3)] good] by simp_all
  have st': "run_inv L (as_attempts s) st'" and "announced w (attempts_of st')"
  proof -
    have m: "run_inv L (as_attempts s) st' \<and> a' \<in> set (attempts_of st') \<and> same_subject a a'
        \<and> aa_submission_started a' \<and> aa_status a' = InProgress"
      using mark_trace(2) [OF submitted(8) st(1,2)] by simp
    then show "run_inv L (as_attempts s) st'" by blast
    from m show "announced w (attempts_of st')"
      using st(3) w(5) derive_plan_digest [OF w(3) p(1)] derive_plan_digest [OF p(3,1)]
      by (intro attempt_announced [of a' _ a v]) auto
  qed
  then show ?thesis
    using submit_trace open_stage_Inr [OF submitted(3)] submitted(9) by simp
qed (simp_all add: stopped_def idle_store_def)

end

end
