(* ===== verification/ExecutorSafety.thy ===== *)
theory ExecutorSafety
  imports Executor
begin

text \<open>
  Safety of the executor over arbitrary histories of runs, each of which may be killed after
  any prefix of its effects: at most one submission per plan, only what the operator
  confirmed, always announced in the ledger first, and reported with the right certainty.
\<close>

section \<open>The executor as a sender\<close>

definition disk_effect :: "string option \<Rightarrow> event \<Rightarrow> string option" where
  "disk_effect disk e = (case e of Wrote b \<Rightarrow> Some b | Sent _ \<Rightarrow> disk)"

definition sent_plan :: "event \<Rightarrow> string option" where
  "sent_plan e = (case e of Wrote _ \<Rightarrow> None | Sent v \<Rightarrow> Some (ev_plan_digest_sha256 v))"

definition executor_events :: "pylib \<Rightarrow> string option \<Rightarrow> ExecutorConfig \<times> run_inputs \<Rightarrow> event list" where
  "executor_events L disk run = fst (run_weight_executor L (fst run) (snd run) disk)"

definition plan_guard :: "pylib \<Rightarrow> string \<Rightarrow> string option \<Rightarrow> bool" where
  "plan_guard L pd disk = (case store_load L disk of Inl _ \<Rightarrow> False | Inr s \<Rightarrow> sealed pd (as_attempts s))"

definition sends :: "event list \<Rightarrow> event list" where
  "sends es = filter (\<lambda>e. sent_plan e \<noteq> None) es"

lemma sends_simps [simp]: "sends [] = []" "sends (es @ fs) = sends es @ sends fs"
  "sends (Wrote b # es) = sends es" "sends (Sent v # es) = Sent v # sends es"
  by (simp_all add: sends_def sent_plan_def)

lemma sends_iff: "Sent v \<in> set es \<longleftrightarrow> Sent v \<in> set (sends es)"
  by (auto simp: sends_def sent_plan_def)

lemma persist_sends: "persist L how st s = (st', r) \<Longrightarrow> sends (st_events st') = sends (st_events st)"
  by (auto simp: persist_def Let_def split: if_splits install.splits)

lemma commit_sends: "commit L how st as a = (st', r) \<Longrightarrow> sends (st_events st') = sends (st_events st)"
  by (auto simp: commit_def split: sum.splits prod.splits dest: persist_sends)

lemma start_sends: "start_attempt L how st v b t n = (st', r) \<Longrightarrow> sends (st_events st') = sends (st_events st)"
  by (auto simp: start_attempt_def split: sum.splits dest: commit_sends)

lemma update_sends: "update_attempt L how st k u = (st', r) \<Longrightarrow> sends (st_events st') = sends (st_events st)"
  by (auto simp: update_attempt_def Let_def split: list.splits if_splits dest: commit_sends)

lemma mark_sends: "mark_submission_started L how st k b t = (st', r) \<Longrightarrow> sends (st_events st') = sends (st_events st)"
  by (auto simp: mark_submission_started_def split: option.splits sum.splits dest: update_sends)

lemma finish_sends: "finish_attempt L how st k s out ref code t = (st', r) \<Longrightarrow> sends (st_events st') = sends (st_events st)"
  unfolding finish_attempt_def by (auto split: option.splits sum.splits dest: update_sends)

lemma pre_send_failure_sends:
  "pre_send_failure L env st a f e = (st', e') \<Longrightarrow> sends (st_events st') = sends (st_events st)"
  by (auto simp: pre_send_failure_def Let_def split: if_splits prod.splits sum.splits dest: finish_sends)

lemma finish_submission_sends:
  "finish_submission L env st k s out ref code = (st', r) \<Longrightarrow> sends (st_events st') = sends (st_events st)"
  by (auto simp: finish_submission_def split: prod.splits sum.splits dest: finish_sends)

lemma submit_sends:
  "sends (st_events (xo_store (submit_stage L config env st a plan v s w))) = sends (st_events st) @ [Sent w]"
  unfolding submit_stage_def Let_def
  by (auto simp: stopped_def split: sum.splits verdict.splits prod.splits dest: finish_submission_sends)

text \<open>The facts behind a submission.\<close>

definition authorised :: "pylib \<Rightarrow> ExecutorConfig \<Rightarrow> run_inputs \<Rightarrow> ExecutionVector \<Rightarrow> bool" where
  "authorised L config env w \<longleftrightarrow> (\<exists>plan snap b snap'. ec_execute config
     \<and> in_plan_file env = Inr b \<and> parse_weight_plan L b = Inr plan \<and> operator_confirmed config plan (in_ack env)
     \<and> ec_confirm_execution_digest config = Some (ev_digest_sha256 w)
     \<and> ev_plan_digest_sha256 w = wp_digest_sha256 plan
     \<and> in_sync env = Inr snap \<and> in_send_sync env = Inr snap' \<and> ms_block snap \<le> ms_block snap'
     \<and> in_mode env = Inr False \<and> in_send_mode env = Inr False
     \<and> in_signer env = Inr (ec_validator_hotkey config)
     \<and> derive_execution_vector L plan snap' (ec_network config) (ec_netuid config) (ec_validator_hotkey config) = Inr w)"

lemma execute_sends:
  assumes "out = execute_weight_plan L config env disk"
  shows "sends (st_events (xo_store out)) = []
    \<or> (\<exists>w s. sends (st_events (xo_store out)) = [Sent w] \<and> store_load L disk = Inr s
         \<and> \<not> barred (ev_plan_digest_sha256 w) (as_attempts s) \<and> authorised L config env w)"
proof (cases rule: execute_weight_plan_cases [of L config env disk])
  case (submitted plan snap v s st a snap' w st' a')
  note p = preflight_stage_Inr [OF submitted(1)]
  note w = send_check_Inr [OF submitted(7)]
  have "sends (st_events st') = []"
    using start_sends [OF submitted(5)] mark_sends [OF submitted(8)] by (simp add: idle_store_def)
  then have one: "sends (st_events (xo_store out)) = [Sent w]"
    using submit_sends submitted(9) assms by simp
  have plan: "ev_plan_digest_sha256 w = wp_digest_sha256 plan" by (rule derive_plan_digest [OF w(3) p(1)])
  have free: "\<not> barred (ev_plan_digest_sha256 w) (as_attempts s)"
    using submitted(4) by (simp add: plan blocking_attempt_None)
  have signer: "in_signer env = Inr (ec_validator_hotkey config)"
    using submitted(6) unfolding signer_stage_def by (elim res_bindE reject_ifE) simp
  have conf: "ec_confirm_execution_digest config = Some (ev_digest_sha256 w)"
    using p(6,7) submitted(2) w(5) by (auto simp: operator_confirmed_def)
  have "authorised L config env w"
    unfolding authorised_def using p(4,5,6) submitted(2) w conf plan open_stage_mode [OF submitted(3)] signer by blast
  then show ?thesis using one free open_stage_Inr [OF submitted(3)] by blast
qed (auto simp: stopped_def idle_store_def assms dest!: start_sends mark_sends pre_send_failure_sends)

lemma sealed_after_send:
  "durable_trace L as es \<Longrightarrow> Sent v \<in> set es \<Longrightarrow> sealed (ev_plan_digest_sha256 v) (ledger_after L as es)"
proof (induction L as es rule: durable_trace.induct)
  case (3 L as v' es)
  show ?case
  proof (cases "v' = v")
    case True
    then have "sealed (ev_plan_digest_sha256 v) as"
      using 3(2) by (auto simp: announced_def sealed_def list_ex_iff)
    then show ?thesis
      using 3(2) durable_trace_steps [of L as es] ledger_steps_sealed by simp
  next
    case False
    then show ?thesis using 3 by simp
  qed
qed (auto split: sum.splits)

lemma run_events: "fst (run_weight_executor L config env disk) = st_events (xo_store (execute_weight_plan L config env disk))"
  by (simp add: run_weight_executor_def Let_def)

lemma disk_after_trace:
  assumes "store_load L disk = Inr s" and "durable_trace L (as_attempts s) es"
  shows "\<exists>s'. store_load L (foldl disk_effect disk es) = Inr s' \<and> as_attempts s' = ledger_after L (as_attempts s) es"
  using assms
proof (induction es arbitrary: disk s)
  case (Cons e es)
  show ?case
  proof (cases e)
    case (Wrote b)
    then obtain t where t: "parse_audit_state L b = Inr t" "durable_trace L (as_attempts t) es"
      using Cons.prems(2) by (auto split: sum.splits)
    then have "store_load L (Some b) = Inr t" by (simp add: store_load_def)
    then show ?thesis using Cons.IH [OF _ t(2)] t(1) Wrote by (simp add: disk_effect_def)
  next
    case (Sent v)
    then show ?thesis using Cons by (simp add: disk_effect_def)
  qed
qed simp

sublocale python_library \<subseteq> executor: send_once "executor_events L" disk_effect sent_plan "plan_guard L"
proof unfold_locales
  fix k :: string and d :: "string option" and n :: nat and i :: "ExecutorConfig \<times> run_inputs" and e :: event
  obtain config env where i: "i = (config, env)" by fastforce
  let ?es = "st_events (xo_store (execute_weight_plan L config env d))"
  have es: "executor_events L d i = ?es" by (simp add: executor_events_def run_events i)
  have trace: "\<exists>s s'. store_load L d = Inr s \<and> durable_trace L (as_attempts s) (take n ?es)
      \<and> store_load L (foldl disk_effect d (take n ?es)) = Inr s'
      \<and> as_attempts s' = ledger_after L (as_attempts s) (take n ?es)" if "?es \<noteq> []"
    using execute_trace [of config env d] that disk_after_trace durable_trace_take by meson
  show "plan_guard L k (foldl disk_effect d (take n (executor_events L d i)))" if "plan_guard L k d"
  proof (cases "?es = []")
    case False
    then obtain s s' where s: "store_load L d = Inr s" "durable_trace L (as_attempts s) (take n ?es)"
      "store_load L (foldl disk_effect d (take n ?es)) = Inr s'"
      "as_attempts s' = ledger_after L (as_attempts s) (take n ?es)" using trace by blast
    then have "sealed k (as_attempts s')"
      using that ledger_steps_sealed [OF durable_trace_steps [OF s(2)], of k] by (simp add: plan_guard_def)
    then show ?thesis using s(3) by (simp add: plan_guard_def es)
  qed (use that in \<open>simp add: es\<close>)
  show "sent_plan e \<noteq> Some k" if g: "plan_guard L k d" and e: "e \<in> set (executor_events L d i)"
  proof
    assume "sent_plan e = Some k"
    then obtain v where v: "e = Sent v" "ev_plan_digest_sha256 v = k"
      by (cases e) (auto simp: sent_plan_def)
    with e have "Sent v \<in> set (sends ?es)" by (simp add: es sends_iff [symmetric])
    then obtain s where "store_load L d = Inr s" "\<not> barred k (as_attempts s)"
      using execute_sends [OF refl, of L config env d] v(2) by auto
    then show False using g sealed_barred by (auto simp: plan_guard_def)
  qed
  show "plan_guard L k (foldl disk_effect d (take n (executor_events L d i)))"
    if e: "e \<in> set (take n (executor_events L d i))" and k: "sent_plan e = Some k"
  proof -
    obtain v where v: "e = Sent v" "ev_plan_digest_sha256 v = k"
      using k by (cases e) (auto simp: sent_plan_def)
    have "?es \<noteq> []" using e by (auto simp: es)
    from trace [OF this] obtain s s' where "store_load L d = Inr s" and s: "durable_trace L (as_attempts s) (take n ?es)"
      "store_load L (foldl disk_effect d (take n ?es)) = Inr s'"
      "as_attempts s' = ledger_after L (as_attempts s) (take n ?es)" using trace by blast
    then have "sealed k (as_attempts s')" using sealed_after_send [OF s(1), of v] e v by (simp add: es)
    then show ?thesis using s(2) by (simp add: plan_guard_def es)
  qed
  show "length (filter (\<lambda>e. sent_plan e \<noteq> None) (executor_events L d i)) \<le> 1"
    unfolding es sends_def [symmetric] using execute_sends [OF refl, of L config env d] by auto
qed

section \<open>Reported certainty\<close>

text \<open>A submitter that attaches a reference to an ambiguous error attaches a well-formed one.\<close>

definition safe_answer :: "submit_outcome \<Rightarrow> bool" where
  "safe_answer s = (case s of Raised _ (Some r) \<Rightarrow> safe_reference r | _ \<Rightarrow> True)"

lemma judge_ref_safe:
  assumes "judge_submission s = Inl (Verdict status out ref code raised)" and "safe_answer s"
  shows "\<exists>rc. AuditReceipt_post_init (JStr (outcome_text out)) (jstr_opt ref) (jstr_opt code) = Inr rc
     \<and> rc_extrinsic_ref rc = ref"
proof -
  have codes: "safe_error_code ''submission_timeout'' = Some ''submission_timeout''"
    "safe_error_code ''submission_exception'' = Some ''submission_exception''"
    "safe_error_code ''missing_extrinsic_reference'' = Some ''missing_extrinsic_reference''"
    "safe_error_code ''chain_rejected'' = Some ''chain_rejected''"
    by code_simp+
  have "receipt_ok \<lparr>rc_outcome = out, rc_extrinsic_ref = ref, rc_error_code = code\<rparr>"
    using assms
    by (auto simp: codes judge_submission_def receipt_ok_def SubmissionResult_post_init_def safe_answer_def
        split: submit_outcome.splits if_splits sum.splits option.splits)
  then show ?thesis
    by (intro exI [of _ "\<lparr>rc_outcome = out, rc_extrinsic_ref = ref, rc_error_code = code\<rparr>"])
       (simp add: AuditReceipt_Inr)
qed

lemma judge_raised:
  "judge_submission s = Inl (Verdict status out ref code (Some e)) \<Longrightarrow>
     e \<in> {WeightExecutionError ''submission_ambiguous'', WeightExecutionError ''submission_failed''}"
  by (auto simp: judge_submission_def split: submit_outcome.splits if_splits sum.splits)

lemma judge_returned:
  "judge_submission s = Inl (Verdict status out ref code None) \<Longrightarrow>
     status = Confirmed \<and> out = OutConfirmed \<and> ref \<noteq> None \<and> code = None
     \<and> (\<exists>r. s = Returned r \<and> sr_success r \<and> sr_extrinsic_ref r = ref)"
  by (auto simp: judge_submission_def SubmissionResult_post_init_def
      split: submit_outcome.splits if_splits sum.splits option.splits)

lemma judge_uncaught: "judge_submission s = Inr e \<Longrightarrow> \<not> is_exception e"
  by (auto simp: judge_submission_def split: submit_outcome.splits if_splits sum.splits)

text \<open>The results a submitted run can have.\<close>

lemma submit_stage_result:
  assumes "safe_answer (in_submit env)"
    and out_def: "out = submit_stage L config env st a plan v s w"
  shows "(\<exists>e. xo_result out = Inl (e, None) \<and> \<not> is_exception e)
     \<or> (\<exists>e ref. xo_result out = Inl (e, ref) \<and> e \<in> {WeightExecutionError ''submission_ambiguous'',
          WeightExecutionError ''submission_failed''})
     \<or> (\<exists>r ref. in_submit env = Returned r \<and> sr_success r \<and> sr_extrinsic_ref r = Some ref
          \<and> xo_result out = Inr (summary_of Execute config (ms_block s) plan v (Some (aa_attempt_id a)) (Some ref))
          \<and> map_option rc_extrinsic_ref (xo_receipt out) = Some (Some ref))"
proof (cases "judge_submission (in_submit env)")
  case (Inr e)
  then show ?thesis using judge_uncaught [OF Inr] by (simp add: out_def submit_stage_def stopped_def)
next
  case (Inl verdict)
  then obtain status oc ref code raised where j: "judge_submission (in_submit env) = Inl (Verdict status oc ref code raised)"
    by (cases verdict) auto
  obtain rc where rc: "AuditReceipt_post_init (JStr (outcome_text oc)) (jstr_opt ref) (jstr_opt code) = Inr rc"
    "rc_extrinsic_ref rc = ref" using judge_ref_safe [OF j assms(1)] by blast
  obtain st' r where f: "finish_submission L env (st\<lparr>st_events := st_events st @ [Sent w]\<rparr>) (aa_attempt_id a)
      status oc ref code = (st', Inr (rc, r))"
  proof (cases "finish_attempt L (in_install env 2) (st\<lparr>st_events := st_events st @ [Sent w]\<rparr>) (aa_attempt_id a)
      status oc ref code (in_clock env 2)")
    case (Pair st' r)
    then show ?thesis using rc that by (cases r) (simp_all add: finish_submission_def)
  qed
  show ?thesis
  proof (cases raised)
    case None
    note ret = judge_returned [OF j [unfolded None]]
    show ?thesis
      by (intro disjI2) (use j f None ret rc in \<open>auto simp: out_def submit_stage_def\<close>)
  next
    case (Some e)
    have "xo_result out = Inl (e, if status = Ambiguous then ref else None)"
      using j f Some by (simp add: out_def submit_stage_def)
    then show ?thesis using judge_raised [OF j [unfolded Some]] by blast
  qed
qed

lemma execute_submitted:
  assumes "Sent w \<in> set (st_events (xo_store out))" and "out = execute_weight_plan L config env disk"
  shows "\<exists>st a plan v s u. out = submit_stage L config env st a plan v s u"
proof -
  have ne: "sends (st_events (xo_store out)) \<noteq> []"
    using assms(1) sends_iff by (metis empty_iff empty_set)
  show ?thesis
  proof (cases rule: execute_weight_plan_cases [of L config env disk])
    case (submitted plan snap v s st a snap' u st' a')
    then show ?thesis using assms(2) by blast
  qed (use ne in \<open>auto simp: assms(2) stopped_def idle_store_def
      dest!: start_sends mark_sends pre_send_failure_sends\<close>)
qed

lemma execute_result_sent:
  assumes "Sent w \<in> set (st_events (xo_store out))" and "out = execute_weight_plan L config env disk"
    and "safe_answer (in_submit env)"
  shows "(\<exists>e. xo_result out = Inl (e, None) \<and> \<not> is_exception e)
     \<or> (\<exists>e ref. xo_result out = Inl (e, ref) \<and> e \<in> {WeightExecutionError ''submission_ambiguous'',
          WeightExecutionError ''submission_failed''})
     \<or> (\<exists>r ref summary. in_submit env = Returned r \<and> sr_success r \<and> sr_extrinsic_ref r = Some ref
          \<and> xo_result out = Inr summary \<and> es_mode summary = Execute \<and> es_extrinsic_ref summary = Some ref
          \<and> map_option rc_extrinsic_ref (xo_receipt out) = Some (Some ref))"
proof -
  obtain st a plan v s u where out: "out = submit_stage L config env st a plan v s u"
    using execute_submitted [OF assms(1,2)] by blast
  from submit_stage_result [OF assms(3) out] show ?thesis
  proof (elim disjE exE conjE)
    fix r ref
    let ?s = "summary_of Execute config (ms_block s) plan v (Some (aa_attempt_id a)) (Some ref)"
    assume *: "in_submit env = Returned r" "sr_success r" "sr_extrinsic_ref r = Some ref"
      "map_option rc_extrinsic_ref (xo_receipt out) = Some (Some ref)" "xo_result out = Inr ?s"
    have "es_mode ?s = Execute" "es_extrinsic_ref ?s = Some ref" by (simp_all add: summary_of_def)
    with * show ?thesis by blast
  qed blast+
qed

context python_library
begin

lemmas executor_at_most_once = executor.at_most_once

lemma run_announced:
  assumes "fst (run_weight_executor L config env disk) = es @ Sent w # fs"
  shows "\<exists>s. store_load L (foldl disk_effect disk es) = Inr s \<and> announced w (as_attempts s)"
proof -
  let ?es = "fst (run_weight_executor L config env disk)"
  have "?es \<noteq> []" using assms by simp
  then obtain s where s: "store_load L disk = Inr s" "durable_trace L (as_attempts s) ?es"
    using execute_trace [of config env disk] by (auto simp: run_events)
  then have es: "durable_trace L (as_attempts s) es" "announced w (ledger_after L (as_attempts s) es)"
    unfolding assms durable_trace_append by auto
  from disk_after_trace [OF s(1) es(1)] es(2) show ?thesis by auto
qed

end

section \<open>Properties\<close>

text \<open>
  C5: nothing is submitted without authority. A submitted vector was derived from a plan
  file that parses and whose network, netuid and digest the operator confirmed; the
  vector's own digest is the confirmed one; the environment acknowledgement was given; the
  signer is the configured validator; commit-reveal was off at both chain views; the plan
  was unexpired at the second view; and the ledger had no blocking attempt of the plan.
\<close>

theorem submission_authorised:
  assumes "Sent w \<in> set (fst (run_weight_executor L config env disk))"
  shows "authorised L config env w \<and> vector_ok L w
     \<and> (\<exists>s. store_load L disk = Inr s \<and> \<not> barred (ev_plan_digest_sha256 w) (as_attempts s))
     \<and> (\<exists>plan snap. in_send_sync env = Inr snap
          \<and> preflight_ok plan snap (ec_network config) (ec_netuid config) (ec_validator_hotkey config))"
proof -
  have "Sent w \<in> set (sends (st_events (xo_store (execute_weight_plan L config env disk))))"
    using assms by (simp add: run_events sends_iff [symmetric])
  then obtain s where w: "authorised L config env w" "store_load L disk = Inr s"
    "\<not> barred (ev_plan_digest_sha256 w) (as_attempts s)"
    using execute_sends [OF refl, of L config env disk] by auto
  then obtain plan b snap' where plan: "parse_weight_plan L b = Inr plan" "in_send_sync env = Inr snap'"
    "derive_execution_vector L plan snap' (ec_network config) (ec_netuid config) (ec_validator_hotkey config) = Inr w"
    by (auto simp: authorised_def)
  then have "list_all entry_ok (wp_weights plan)" using parse_weight_plan_Inr by blast
  from derive_Inr(1,2) [OF plan(3) this] show ?thesis using w plan(2) by blast
qed

text \<open>A dry run has no effect outside: no ledger write and no submission.\<close>

theorem dry_run_no_effect:
  assumes "\<not> ec_execute config"
  shows "fst (run_weight_executor L config env disk) = []"
  by (cases rule: execute_weight_plan_cases [of L config env disk])
     (use assms in \<open>simp_all add: run_events stopped_def idle_store_def\<close>)

text \<open>
  Reports match effects. If a run handed a vector to the submitter (whose references
  are well formed), it ends in one of these ways: a confirmed summary with the returned
  extrinsic reference, a confirmed report whose audit record failed, with the same
  reference, an ambiguous or failed submission, or cancellation. So an error reported as
  rejected under any other code means nothing was sent.
\<close>

theorem sent_run_reports_effect:
  assumes "run_weight_executor L config env disk = (es, result)" and "Sent w \<in> set es"
    and "safe_answer (in_submit env)"
  shows "(\<exists>r ref summary. in_submit env = Returned r \<and> sr_success r \<and> sr_extrinsic_ref r = Some ref
        \<and> (result = Completed summary \<and> es_mode summary = Execute \<and> es_extrinsic_ref summary = Some ref
           \<or> (\<exists>f. result = Failure f \<and> fx_exn f = WeightExecutionError ''submission_confirmed_audit_failed''
                \<and> fx_status f = ''confirmed'' \<and> fx_extrinsic_ref f = Some ref)))
     \<or> (\<exists>f. result = Failure f \<and> (\<not> is_exception (fx_exn f)
          \<or> fx_exn f = WeightExecutionError ''submission_ambiguous'' \<and> fx_status f = ''ambiguous''
          \<or> fx_exn f = WeightExecutionError ''submission_failed'' \<and> fx_status f = ''rejected''))"
proof -
  define out where "out = execute_weight_plan L config env disk"
  have es: "Sent w \<in> set (st_events (xo_store out))"
    using assms(1,2) run_events [of L config env disk] by (simp add: out_def)
  have run: "result = snd (run_weight_executor L config env disk)" using assms(1) by simp
  from execute_result_sent [OF es out_def] assms(3) show ?thesis
    unfolding run run_weight_executor_def Let_def out_def [symmetric]
    by (auto simp: error_status_def split: option.splits)
qed

end
