(* ===== verification/ExecutorProgress.thy ===== *)
theory ExecutorProgress
  imports ExecutorSafety Contracts
begin

text \<open>
  The executor makes progress: a run whose checks pass and whose surroundings answer
  submits exactly once and reports the confirmation. The ledger operations are followed on
  a ledger that has room for the attempt.
\<close>

section \<open>Ledger operations that succeed\<close>

definition sealed_state :: "pylib \<Rightarrow> AuditAttempt list \<Rightarrow> AuditState" where
  "sealed_state L as = \<lparr>as_attempts = as, as_digest_sha256 = sha_json L (state_unsigned_document as)\<rparr>"

text \<open>
  There is room for one more attempt on a vector: the ledger is below its attempt limit and
  stays below its size limit whatever the new attempt records about that vector.
\<close>

definition room :: "pylib \<Rightarrow> AuditAttempt list \<Rightarrow> ExecutionVector \<Rightarrow> bool" where
  "room L as v \<longleftrightarrow> length as < MAX_AUDIT_ATTEMPTS
     \<and> (\<forall>a. attempt_ok L a \<and> attempt_vector a = v \<and> opt_ok receipt_ok (aa_receipt a) \<longrightarrow>
          length (state_canonical_bytes L (sealed_state L (as @ [a]))) \<le> MAX_WEIGHT_PLAN_BYTES)"

lemma commit_installed:
  assumes "room L as v" and "attempt_ok L a" and "attempt_vector a = v" and "opt_ok receipt_ok (aa_receipt a)"
    and "distinct (map aa_attempt_id (as @ [a]))"
  shows "\<exists>b. commit L Installed store (as @ [a]) a
     = (store\<lparr>st_disk := Some b, st_events := st_events store @ [Wrote b], st_state := sealed_state L (as @ [a])\<rparr>, Inr a)"
proof -
  have "AuditState_post_init L (as @ [a]) = Inr (sealed_state L (as @ [a]))"
    using assms(1,5) unfolding AuditState_Inr by (simp add: sealed_state_def room_def)
  moreover have "\<not> length (state_canonical_bytes L (sealed_state L (as @ [a]))) > MAX_WEIGHT_PLAN_BYTES"
    using assms(1-4) by (simp add: room_def not_less)
  ultimately show ?thesis
    by (intro exI [of _ "state_canonical_bytes L (sealed_state L (as @ [a]))"])
       (simp add: commit_def persist_def Let_def)
qed

lemma update_last:
  assumes "as_attempts (st_state store) = as @ [c]" and "aa_attempt_id c \<notin> aa_attempt_id ` set as"
    and "aa_status c = InProgress"
  shows "update_attempt L how store (aa_attempt_id c) u = commit L how store (as @ [u]) u"
proof -
  have "filter (\<lambda>i. aa_attempt_id ((as @ [c]) ! i) = aa_attempt_id c) [0..<length as] = []"
    using assms(2) by (auto simp: filter_empty_conv nth_append intro: rev_image_eqI [OF nth_mem])
  then have "filter (\<lambda>i. aa_attempt_id ((as @ [c]) ! i) = aa_attempt_id c) [0..<length (as @ [c])] = [length as]"
    by simp
  then show ?thesis using assms(3) by (simp add: update_attempt_def assms(1) Let_def)
qed

lemma find_append_cases:
  "List.find p (xs @ ys) = (case List.find p xs of None \<Rightarrow> List.find p ys | Some x \<Rightarrow> Some x)"
  by (induction xs) auto

lemma find_last:
  assumes "as_attempts s = as @ [c]" and "aa_attempt_id c \<notin> aa_attempt_id ` set as"
  shows "find_attempt s (aa_attempt_id c) = Some c"
proof -
  have "List.find (\<lambda>a. aa_attempt_id a = aa_attempt_id c) as = None"
    using assms(2) by (simp add: find_None_iff image_iff) metis
  then show ?thesis by (simp add: find_attempt_def first_match_def assms(1) find_append_cases)
qed

definition fresh_attempt :: "pylib \<Rightarrow> ExecutionVector \<Rightarrow> int \<Rightarrow> string \<Rightarrow> string \<Rightarrow> AuditAttempt" where
  "fresh_attempt L v b t n =
     \<lparr>aa_attempt_id = sha_json L (JObj [(''attempt_nonce'', JStr n),
        (''execution_digest_sha256'', JStr (ev_digest_sha256 v)),
        (''plan_digest_sha256'', JStr (ev_plan_digest_sha256 v)), (''started_at'', JStr t)]),
      aa_attempt_key = sha_json L (JObj [(''execution_digest_sha256'', JStr (ev_digest_sha256 v)),
        (''plan_digest_sha256'', JStr (ev_plan_digest_sha256 v))]),
      aa_plan_digest_sha256 = ev_plan_digest_sha256 v, aa_execution_digest_sha256 = ev_digest_sha256 v,
      aa_network = ev_network v, aa_netuid = ev_netuid v, aa_validator_hotkey = ev_validator_hotkey v,
      aa_version_key = ev_version_key v, aa_preflight_block = b, aa_send_check_block = None,
      aa_status = InProgress, aa_submission_started = False, aa_started_at = t, aa_updated_at = t,
      aa_weights = ev_weights v, aa_omitted = ev_omitted v, aa_receipt = None\<rparr>"

lemma fresh_attempt_vector [simp]: "attempt_vector (fresh_attempt L v b t n) = v"
  by (simp add: attempt_vector_def fresh_attempt_def)

lemma fresh_attempt_ok:
  assumes "\<forall>s. digest_text (sha256_hex L s)" and "vector_ok L v" and "0 \<le> b" and "b \<le> MAX_BLOCK"
    and "timestamp_ok L t"
  shows "attempt_ok L (fresh_attempt L v b t n)"
proof -
  have "digest_text (sha_json L j)" for j using assms(1) by (simp add: sha_json_def)
  moreover have "digest_text (ev_plan_digest_sha256 v)" "digest_text (ev_digest_sha256 v)"
    using assms(1,2) by (simp_all add: vector_ok_def sha_json_def)
  ultimately show ?thesis
    using assms(2-5) unfolding attempt_ok_def fresh_attempt_vector
    by (simp add: fresh_attempt_def execution_attempt_key_Inr expected_outcome_def)
qed

lemma new_attempt_fresh:
  assumes "\<not> barred (ev_plan_digest_sha256 v) (as_attempts s)" and "digest_text n"
    and "attempt_ok L (fresh_attempt L v b t n)"
  shows "new_attempt L s v b t n = Inr (fresh_attempt L v b t n)"
proof -
  have "timestamp_ok L t" "execution_attempt_key L (ev_plan_digest_sha256 v) (ev_digest_sha256 v)
      = Inr (aa_attempt_key (fresh_attempt L v b t n))"
    using assms(3) by (simp_all add: attempt_ok_def fresh_attempt_def)
  moreover have "validate_timestamp L (JStr t) = Inr t" "validate_digest (JStr n) = Inr n"
    using calculation(1) assms(2) by simp_all
  moreover have "blocking_attempt s (ev_plan_digest_sha256 v) = None"
    using assms(1) by (simp add: blocking_attempt_None)
  ultimately show ?thesis
    using AuditAttempt_total [OF assms(3)]
    by (simp add: new_attempt_def raw_of_def) (simp add: fresh_attempt_def jint_opt_def)
qed

definition started_attempt :: "AuditAttempt \<Rightarrow> int \<Rightarrow> string \<Rightarrow> AuditAttempt" where
  "started_attempt a b t = a\<lparr>aa_send_check_block := Some b, aa_submission_started := True, aa_updated_at := t\<rparr>"

definition confirmed_attempt :: "AuditAttempt \<Rightarrow> string \<Rightarrow> string \<Rightarrow> AuditAttempt" where
  "confirmed_attempt a ref t = a\<lparr>aa_status := Confirmed, aa_updated_at := t,
     aa_receipt := Some \<lparr>rc_outcome = OutConfirmed, rc_extrinsic_ref = Some ref, rc_error_code = None\<rparr>\<rparr>"

lemma started_attempt_simps [simp]:
  "attempt_vector (started_attempt a b t) = attempt_vector a"
  "aa_attempt_id (started_attempt a b t) = aa_attempt_id a"
  "aa_status (started_attempt a b t) = aa_status a" "aa_receipt (started_attempt a b t) = aa_receipt a"
  "aa_submission_started (started_attempt a b t)"
  by (simp_all add: started_attempt_def attempt_vector_def)

lemma confirmed_attempt_simps [simp]:
  "attempt_vector (confirmed_attempt a ref t) = attempt_vector a"
  "aa_attempt_id (confirmed_attempt a ref t) = aa_attempt_id a"
  by (simp_all add: confirmed_attempt_def attempt_vector_def)

lemma fresh_attempt_simps [simp]:
  "aa_status (fresh_attempt L v b t n) = InProgress" "aa_receipt (fresh_attempt L v b t n) = None"
  "aa_preflight_block (fresh_attempt L v b t n) = b" "aa_submission_started (fresh_attempt L v b t n) = False"
  by (simp_all add: fresh_attempt_def)

lemma started_attempt_ok:
  assumes "attempt_ok L a" and "aa_status a = InProgress" and "aa_preflight_block a \<le> b" and "b \<le> MAX_BLOCK"
    and "timestamp_ok L t"
  shows "attempt_ok L (started_attempt a b t)"
  using assms unfolding attempt_ok_def started_attempt_simps
  by (simp add: started_attempt_def expected_outcome_def)

lemma confirmed_attempt_ok:
  assumes "attempt_ok L a" and "aa_submission_started a" and "timestamp_ok L t"
  shows "attempt_ok L (confirmed_attempt a ref t)"
  using assms unfolding attempt_ok_def confirmed_attempt_simps
  by (cases "aa_send_check_block a") (simp_all add: confirmed_attempt_def expected_outcome_def)

lemma mark_last:
  assumes "as_attempts (st_state store) = as @ [c]" and "aa_attempt_id c \<notin> aa_attempt_id ` set as"
    and "aa_status c = InProgress" and "attempt_ok L (started_attempt c b t)"
  shows "mark_submission_started L how store (aa_attempt_id c) b t
     = commit L how store (as @ [started_attempt c b t]) (started_attempt c b t)"
proof -
  have "(raw_of c)\<lparr>ra_send_check_block := JInt b, ra_submission_started := JBool True, ra_updated_at := JStr t\<rparr>
      = raw_of (started_attempt c b t)"
    by (simp add: raw_of_def started_attempt_def jint_opt_def)
  then show ?thesis
    using AuditAttempt_total [OF assms(4)] find_last [OF assms(1,2)] update_last [OF assms(1-3)]
    by (simp add: mark_submission_started_def)
qed

lemma finish_last:
  assumes "as_attempts (st_state store) = as @ [c]" and "aa_attempt_id c \<notin> aa_attempt_id ` set as"
    and "aa_status c = InProgress" and "attempt_ok L (confirmed_attempt c ref t)" and "safe_reference ref"
  shows "finish_attempt L how store (aa_attempt_id c) Confirmed OutConfirmed (Some ref) None t
     = commit L how store (as @ [confirmed_attempt c ref t]) (confirmed_attempt c ref t)"
proof -
  let ?r = "\<lparr>rc_outcome = OutConfirmed, rc_extrinsic_ref = Some ref, rc_error_code = None\<rparr>"
  have "AuditReceipt_post_init (JStr (outcome_text OutConfirmed)) (jstr_opt (Some ref)) (jstr_opt None) = Inr ?r"
    using assms(5) by (simp add: AuditReceipt_Inr receipt_ok_def)
  moreover have "(raw_of c)\<lparr>ra_status := JStr (status_text Confirmed), ra_receipt := Some ?r, ra_updated_at := JStr t\<rparr>
      = raw_of (confirmed_attempt c ref t)"
    by (simp add: raw_of_def confirmed_attempt_def)
  ultimately show ?thesis
    using AuditAttempt_total [OF assms(4)] find_last [OF assms(1,2)] update_last [OF assms(1-3)]
    by (simp add: finish_attempt_def)
qed

section \<open>A submission that goes through\<close>

text \<open>
  The surroundings of a run in which nothing fails: the signer is the configured validator
  and opens, the ledger installs every write, and clock and nonce are well formed.
\<close>

definition smooth :: "pylib \<Rightarrow> ExecutorConfig \<Rightarrow> run_inputs \<Rightarrow> bool" where
  "smooth L config env \<longleftrightarrow> in_signer env = Inr (ec_validator_hotkey config) \<and> in_signer_open env = Inr ()
     \<and> (\<forall>i. in_install env i = Installed) \<and> (\<forall>i. timestamp_ok L (in_clock env i)) \<and> digest_text (in_nonce env)"

lemma submit_confirmed:
  assumes "smooth L config env" and "in_submit env = Returned r" and "SubmissionResult_post_init r = Inr r"
    and "sr_success r" and "sr_extrinsic_ref r = Some ref"
    and "as_attempts (st_state store) = as @ [c]" and "aa_attempt_id c \<notin> aa_attempt_id ` set as"
    and "aa_status c = InProgress" and "aa_submission_started c" and "attempt_ok L c"
    and "distinct (map aa_attempt_id as)" and "room L as (attempt_vector c)"
  shows "\<exists>b st. submit_stage L config env store c plan v snap w
    = \<lparr>xo_store = st, xo_has_submitter = True, xo_has_store = True,
       xo_receipt = Some \<lparr>rc_outcome = OutConfirmed, rc_extrinsic_ref = Some ref, rc_error_code = None\<rparr>,
       xo_audit_error = None,
       xo_result = Inr (summary_of Execute config (ms_block snap) plan v (Some (aa_attempt_id c)) (Some ref))\<rparr>
    \<and> st_events st = st_events store @ [Sent w, Wrote b]"
proof -
  let ?sent = "store\<lparr>st_events := st_events store @ [Sent w]\<rparr>"
  let ?d = "confirmed_attempt c ref (in_clock env 2)"
  have ref: "safe_reference ref" using assms(3,5) by (auto simp: SubmissionResult_post_init_def split: if_splits)
  have d: "attempt_ok L ?d" using assms(1,9,10) by (simp add: confirmed_attempt_ok smooth_def)
  have "opt_ok receipt_ok (aa_receipt ?d)" using ref by (simp add: confirmed_attempt_def receipt_ok_def)
  then obtain b where b: "commit L Installed ?sent (as @ [?d]) ?d = (?sent\<lparr>st_disk := Some b,
      st_events := st_events ?sent @ [Wrote b], st_state := sealed_state L (as @ [?d])\<rparr>, Inr ?d)"
    using commit_installed [OF assms(12) d, of ?sent] assms(7,11) by auto
  have "finish_attempt L (in_install env 2) ?sent (aa_attempt_id c) Confirmed OutConfirmed (Some ref) None
      (in_clock env 2) = commit L Installed ?sent (as @ [?d]) ?d"
    using finish_last [OF _ assms(7,8) d ref, of ?sent] assms(1,6) by (simp add: smooth_def)
  moreover have "AuditReceipt_post_init (JStr (outcome_text OutConfirmed)) (jstr_opt (Some ref)) (jstr_opt None)
      = Inr \<lparr>rc_outcome = OutConfirmed, rc_extrinsic_ref = Some ref, rc_error_code = None\<rparr>"
    using ref by (simp add: AuditReceipt_Inr receipt_ok_def)
  moreover have "judge_submission (in_submit env) = Inl (Verdict Confirmed OutConfirmed (Some ref) None None)"
    using assms(2-5) by (simp add: judge_submission_def)
  ultimately show ?thesis using b by (simp add: submit_stage_def finish_submission_def Let_def)
qed

lemma execute_confirms:
  assumes "preflight_stage L config env = Inr (plan, snap, v)" and "ec_execute config"
    and "open_stage L env disk = Inr s" and "\<not> barred (wp_digest_sha256 plan) (as_attempts s)"
    and "send_check_stage L config env plan snap v = Inr (snap', w)" and "smooth L config env"
    and "in_submit env = Returned r" and "SubmissionResult_post_init r = Inr r" and "sr_success r"
    and "sr_extrinsic_ref r = Some ref" and "distinct (map aa_attempt_id (as_attempts s))"
    and "room L (as_attempts s) v" and "\<forall>x. digest_text (sha256_hex L x)"
    and "aa_attempt_id (fresh_attempt L v (ms_block snap) (in_clock env 0) (in_nonce env))
           \<notin> aa_attempt_id ` set (as_attempts s)"
  shows "\<exists>b c d st id. execute_weight_plan L config env disk
    = \<lparr>xo_store = st, xo_has_submitter = True, xo_has_store = True,
       xo_receipt = Some \<lparr>rc_outcome = OutConfirmed, rc_extrinsic_ref = Some ref, rc_error_code = None\<rparr>,
       xo_audit_error = None,
       xo_result = Inr (summary_of Execute config (ms_block snap') plan v (Some id) (Some ref))\<rparr>
    \<and> st_events st = [Wrote b, Wrote c, Sent w, Wrote d]"
proof -
  let ?as = "as_attempts s" and ?t = "in_clock env"
  let ?a = "fresh_attempt L v (ms_block snap) (?t 0) (in_nonce env)"
  let ?m = "started_attempt ?a (ms_block snap') (?t 1)"
  let ?store = "(idle_store L disk)\<lparr>st_state := s\<rparr>"
  note p = preflight_stage_Inr [OF assms(1)] and w = send_check_Inr [OF assms(5)]
  have clock: "timestamp_ok L (?t i)" for i using assms(6) by (simp add: smooth_def)
  have blocks: "0 \<le> ms_block snap" "ms_block snap \<le> MAX_BLOCK" "ms_block snap' \<le> MAX_BLOCK"
    using derive_Inr(1) [OF p(3,1)] derive_Inr(1) [OF w(3) p(1)] by (auto simp: preflight_ok_def view_ok_def)
  have plan: "ev_plan_digest_sha256 v = wp_digest_sha256 plan" by (rule derive_plan_digest [OF p(3,1)])
  have ok: "attempt_ok L ?a" "attempt_ok L ?m"
    using fresh_attempt_ok [OF assms(13) derive_Inr(2) [OF p(3,1)] blocks(1,2) clock]
      started_attempt_ok [of L ?a "ms_block snap'"] w(2) blocks(3) clock by simp_all
  have fresh: "new_attempt L s v (ms_block snap) (?t 0) (in_nonce env) = Inr ?a"
    using new_attempt_fresh [OF _ _ ok(1)] assms(4,6) plan by (simp add: smooth_def)
  obtain b where b: "commit L Installed ?store (?as @ [?a]) ?a = (?store\<lparr>st_disk := Some b,
      st_events := st_events ?store @ [Wrote b], st_state := sealed_state L (?as @ [?a])\<rparr>, Inr ?a)"
    using commit_installed [OF assms(12) ok(1), of ?store] assms(11,14) by auto
  let ?one = "?store\<lparr>st_disk := Some b, st_events := [Wrote b], st_state := sealed_state L (?as @ [?a])\<rparr>"
  obtain c where c: "commit L Installed ?one (?as @ [?m]) ?m = (?one\<lparr>st_disk := Some c,
      st_events := st_events ?one @ [Wrote c], st_state := sealed_state L (?as @ [?m])\<rparr>, Inr ?m)"
    using commit_installed [OF assms(12) ok(2), of ?one] assms(11,14) by auto
  let ?two = "?one\<lparr>st_disk := Some c, st_events := [Wrote b, Wrote c], st_state := sealed_state L (?as @ [?m])\<rparr>"
  have started: "start_attempt L (in_install env 0) ?store v (ms_block snap) (?t 0) (in_nonce env) = (?one, Inr ?a)"
    using b fresh assms(6) by (simp add: start_attempt_def smooth_def idle_store_def)
  have marked: "mark_submission_started L (in_install env 1) ?one (aa_attempt_id ?a) (ms_block snap') (?t 1)
      = (?two, Inr ?m)"
    using mark_last [OF _ assms(14) _ ok(2), of ?one] c assms(6) by (simp add: smooth_def sealed_state_def)
  obtain d st where d: "submit_stage L config env ?two ?m plan v snap' w
    = \<lparr>xo_store = st, xo_has_submitter = True, xo_has_store = True,
       xo_receipt = Some \<lparr>rc_outcome = OutConfirmed, rc_extrinsic_ref = Some ref, rc_error_code = None\<rparr>,
       xo_audit_error = None,
       xo_result = Inr (summary_of Execute config (ms_block snap') plan v (Some (aa_attempt_id ?m)) (Some ref))\<rparr>"
    "st_events st = st_events ?two @ [Sent w, Wrote d]"
    using submit_confirmed [OF assms(6-10), of ?two ?as ?m plan v snap' w] assms(11,12,14) ok(2)
    by (auto simp: sealed_state_def)
  have "signer_stage config env = Inr ()" using assms(6) by (simp add: signer_stage_def smooth_def)
  moreover have "blocking_attempt s (wp_digest_sha256 plan) = None" using assms(4) by (simp add: blocking_attempt_None)
  ultimately have "execute_weight_plan L config env disk = submit_stage L config env ?two ?m plan v snap' w"
    using assms(1,2,3,5) started marked
    by (simp add: execute_weight_plan_def Let_def idle_store_def)
  then show ?thesis using d by (intro exI [of _ b] exI [of _ c] exI [of _ d] exI [of _ st] exI) simp
qed

lemma run_confirms:
  assumes "preflight_stage L config env = Inr (plan, snap, v)" and "ec_execute config"
    and "open_stage L env disk = Inr s" and "\<not> barred (wp_digest_sha256 plan) (as_attempts s)"
    and "send_check_stage L config env plan snap v = Inr (snap', w)" and "smooth L config env"
    and "in_submit env = Returned r" and "SubmissionResult_post_init r = Inr r" and "sr_success r"
    and "sr_extrinsic_ref r = Some ref" and "distinct (map aa_attempt_id (as_attempts s))"
    and "room L (as_attempts s) v" and "\<forall>x. digest_text (sha256_hex L x)"
    and "aa_attempt_id (fresh_attempt L v (ms_block snap) (in_clock env 0) (in_nonce env))
           \<notin> aa_attempt_id ` set (as_attempts s)"
  shows "\<exists>b c d summary. run_weight_executor L config env disk
      = ([Wrote b, Wrote c, Sent w, Wrote d], Completed summary)
    \<and> es_mode summary = Execute \<and> es_status summary = ''confirmed'' \<and> es_extrinsic_ref summary = Some ref
    \<and> es_execution_digest_sha256 summary = ev_digest_sha256 w \<and> es_current_block summary = ms_block snap'"
proof -
  note w = send_check_Inr(5) [OF assms(5)]
  from execute_confirms [OF assms] obtain b c d st id where
    "execute_weight_plan L config env disk
    = \<lparr>xo_store = st, xo_has_submitter = True, xo_has_store = True,
       xo_receipt = Some \<lparr>rc_outcome = OutConfirmed, rc_extrinsic_ref = Some ref, rc_error_code = None\<rparr>,
       xo_audit_error = None,
       xo_result = Inr (summary_of Execute config (ms_block snap') plan v (Some id) (Some ref))\<rparr>"
    "st_events st = [Wrote b, Wrote c, Sent w, Wrote d]" by blast
  then show ?thesis
    by (simp add: run_weight_executor_def Let_def summary_of_def w)
qed

text \<open>
  C6: a run that may submit does submit, exactly once. When the plan passes its checks on
  both chain views, the ledger does not bar it and has room, every write is installed and
  the submitter reports success, the run announces the attempt in two ledger writes, hands
  over exactly one vector, records the outcome in a third write and returns the confirmed
  summary with the reference the chain returned.
\<close>

theorem submission_completes:
  assumes "preflight_stage L config env = Inr (plan, snap, v)" and "ec_execute config"
    and "open_stage L env disk = Inr s" and "\<not> barred (wp_digest_sha256 plan) (as_attempts s)"
    and "send_check_stage L config env plan snap v = Inr (snap', w)" and "smooth L config env"
    and "in_submit env = Returned r" and "SubmissionResult_post_init r = Inr r" and "sr_success r"
    and "sr_extrinsic_ref r = Some ref" and "distinct (map aa_attempt_id (as_attempts s))"
    and "room L (as_attempts s) v" and "\<forall>x. digest_text (sha256_hex L x)"
    and "aa_attempt_id (fresh_attempt L v (ms_block snap) (in_clock env 0) (in_nonce env))
           \<notin> aa_attempt_id ` set (as_attempts s)"
  shows "\<exists>b c d summary. run_weight_executor L config env disk
      = ([Wrote b, Wrote c, Sent w, Wrote d], Completed summary)
    \<and> es_mode summary = Execute \<and> es_status summary = ''confirmed'' \<and> es_extrinsic_ref summary = Some ref
    \<and> es_execution_digest_sha256 summary = ev_digest_sha256 w \<and> es_current_block summary = ms_block snap'"
  using assms by (rule run_confirms)

end
