(* ===== verification/ManifestChain.thy ===== *)
theory ManifestChain
  imports Contracts
begin

text \<open>
  The publication channel of assignment manifests, \<^verbatim>\<open>assignment_probe.py\<close>: trusted keys,
  the validator's trust policy, signature envelopes, the append-only chain state, policy
  admission, threshold signatures and chain advancement. A manifest of any version is seen
  through its \<^verbatim>\<open>ManifestHeader\<close>. Ed25519 verification is third-party code: the parameter
  \<open>V\<close> stands for \<^verbatim>\<open>Ed25519PublicKey.from_public_bytes(key).verify(signature, message)\<close>
  returning without an exception.
\<close>

type_synonym ed25519 = "string \<Rightarrow> string \<Rightarrow> string \<Rightarrow> bool"

section \<open>Documents\<close>

definition role_text :: "string \<Rightarrow> bool" where
  "role_text s \<longleftrightarrow> s \<in> {''assignment_auditor'', ''assignment_issuer'', ''assignment_security''}"

abbreviation manifest_purpose :: string where
  "manifest_purpose \<equiv> ''active_assignment_manifest_publication_v1''"

record TrustedManifestKey =
  key_id :: string
  public_key_base64 :: string
  public_key_sha256 :: string
  roles :: "string list"
  purposes :: "string list"
  key_valid_from_epoch :: int
  key_valid_until_epoch :: int
  revoked_at_epoch :: "int option"

definition TrustedManifestKey_document :: "TrustedManifestKey \<Rightarrow> json" where
  "TrustedManifestKey_document k = JObj
     [(''key_id'', JStr (key_id k)), (''algorithm'', JStr ''ed25519''),
      (''public_key_base64'', JStr (public_key_base64 k)),
      (''public_key_sha256'', JStr (public_key_sha256 k)),
      (''roles'', JList (map JStr (roles k))), (''purposes'', JList (map JStr (purposes k))),
      (''valid_from_epoch'', JInt (key_valid_from_epoch k)),
      (''valid_until_epoch'', JInt (key_valid_until_epoch k)),
      (''revoked_at_epoch'', jint_opt (revoked_at_epoch k))]"

definition TrustedManifestKey_fields :: "TrustedManifestKey \<Rightarrow> bool" where
  "TrustedManifestKey_fields k \<longleftrightarrow>
     key_id_text (key_id k) \<and> length (public_key_base64 k) = 44 \<and> digest_text (public_key_sha256 k)
     \<and> 1 \<le> length (roles k) \<and> length (roles k) \<le> 3 \<and> list_all role_text (roles k)
     \<and> length (purposes k) = 1 \<and> list_all (\<lambda>p. p = manifest_purpose) (purposes k)
     \<and> in_range 0 max_epoch (key_valid_from_epoch k) \<and> in_range 0 max_epoch (key_valid_until_epoch k)
     \<and> opt_ok (in_range 0 max_epoch) (revoked_at_epoch k)"

definition TrustedManifestKey_validate :: "pylib \<Rightarrow> TrustedManifestKey \<Rightarrow> TrustedManifestKey res" where
  "TrustedManifestKey_validate L k =
     reject_if (\<not> TrustedManifestKey_fields k) strict_error
     (res_bind (decode_ed25519_public_key_base64 (public_key_base64 k)) (\<lambda>public_bytes.
     reject_if (sha256_hex L public_bytes \<noteq> public_key_sha256 k) (ValueError ''public_key_digest_mismatch'')
     (reject_if (roles k \<noteq> sorted_set (roles k)) (ValueError ''key_roles_not_canonical'')
     (reject_if (purposes k \<noteq> [manifest_purpose]) (ValueError ''key_purpose_invalid'')
     (reject_if (key_valid_until_epoch k \<le> key_valid_from_epoch k)
        (ValueError ''key_validity_window_invalid'')
     (reject_if (\<not> opt_ok (in_range (key_valid_from_epoch k) (key_valid_until_epoch k)) (revoked_at_epoch k))
        (ValueError ''key_revocation_epoch_invalid'')
     (Inr k)))))))"

record AssignmentManifestTrustPolicy =
  tp_network :: string
  tp_netuid :: int
  tp_authority :: string
  threshold :: int
  required_roles :: "string list"
  trusted_keys :: "TrustedManifestKey list"
  valid_from_epoch :: int
  valid_until_epoch :: int
  max_manifest_age_seconds :: int
  max_future_skew_seconds :: int
  max_manifest_lifetime_seconds :: int
  max_sequence_gap :: int
  max_finalized_height_gap :: int
  allowed_route_host_suffixes :: "string list"
  probe_timeout_millis :: int
  max_response_bytes :: int
  pinned_edge_leaf_certificate_sha256 :: "string list"
  tp_digest :: string

definition policy_unsigned :: "AssignmentManifestTrustPolicy \<Rightarrow> json" where
  "policy_unsigned p = JObj
     [(''schema'', JStr ''miss.computer/misscomputer-subnet/assignment-manifest-trust-policy''),
      (''schema_version'', JInt 1),
      (''policy_id'', JStr ''miss-computer-active-assignment-manifest-trust-v1''),
      (''purpose'', JStr manifest_purpose), (''network'', JStr (tp_network p)),
      (''netuid'', JInt (tp_netuid p)),
      (''central_authority_fingerprint_sha256'', JStr (tp_authority p)),
      (''threshold'', JInt (threshold p)),
      (''required_roles'', JList (map JStr (required_roles p))),
      (''trusted_keys'', JList (map TrustedManifestKey_document (trusted_keys p))),
      (''valid_from_epoch'', JInt (valid_from_epoch p)),
      (''valid_until_epoch'', JInt (valid_until_epoch p)),
      (''max_manifest_age_seconds'', JInt (max_manifest_age_seconds p)),
      (''max_future_skew_seconds'', JInt (max_future_skew_seconds p)),
      (''max_manifest_lifetime_seconds'', JInt (max_manifest_lifetime_seconds p)),
      (''max_sequence_gap'', JInt (max_sequence_gap p)),
      (''max_finalized_height_gap'', JInt (max_finalized_height_gap p)),
      (''allowed_route_host_suffixes'', JList (map JStr (allowed_route_host_suffixes p))),
      (''probe_scheme'', JStr ''https''),
      (''probe_timeout_millis'', JInt (probe_timeout_millis p)),
      (''max_response_bytes'', JInt (max_response_bytes p)),
      (''pinned_edge_leaf_certificate_sha256'', JList (map JStr (pinned_edge_leaf_certificate_sha256 p)))]"

definition policy_fields :: "AssignmentManifestTrustPolicy \<Rightarrow> bool" where
  "policy_fields p \<longleftrightarrow>
     tp_network p \<in> {''finney'', ''test''} \<and> tp_netuid p \<in> {24, 581} \<and> digest_text (tp_authority p)
     \<and> in_range 1 16 (threshold p)
     \<and> 1 \<le> length (required_roles p) \<and> length (required_roles p) \<le> 3
     \<and> list_all role_text (required_roles p)
     \<and> 1 \<le> length (trusted_keys p) \<and> length (trusted_keys p) \<le> 16
     \<and> in_range 0 max_epoch (valid_from_epoch p) \<and> in_range 0 max_epoch (valid_until_epoch p)
     \<and> in_range 1 86400 (max_manifest_age_seconds p) \<and> in_range 0 300 (max_future_skew_seconds p)
     \<and> in_range 1 86400 (max_manifest_lifetime_seconds p) \<and> in_range 1 64 (max_sequence_gap p)
     \<and> in_range 1 1000000 (max_finalized_height_gap p)
     \<and> 1 \<le> length (allowed_route_host_suffixes p) \<and> length (allowed_route_host_suffixes p) \<le> 16
     \<and> list_all hostname_text (allowed_route_host_suffixes p)
     \<and> in_range 100 60000 (probe_timeout_millis p) \<and> in_range 64 1048576 (max_response_bytes p)
     \<and> length (pinned_edge_leaf_certificate_sha256 p) \<le> 16
     \<and> list_all digest_text (pinned_edge_leaf_certificate_sha256 p) \<and> digest_text (tp_digest p)"

text \<open>\<^verbatim>\<open>(network, netuid) not in {("finney", 24), ("test", 581)}\<close>.\<close>

definition static_subnet :: "string \<Rightarrow> int \<Rightarrow> bool" where
  "static_subnet network netuid \<longleftrightarrow>
     (network, netuid) = (''finney'', 24) \<or> (network, netuid) = (''test'', 581)"

definition policy_validate ::
    "pylib \<Rightarrow> AssignmentManifestTrustPolicy \<Rightarrow> AssignmentManifestTrustPolicy res" where
  "policy_validate L p =
     reject_if (\<not> policy_fields p) strict_error
     (res_bind (mapM (TrustedManifestKey_validate L) (trusted_keys p)) (\<lambda>_.
     reject_if (\<not> static_subnet (tp_network p) (tp_netuid p)) (ValueError ''static_subnet_invalid'')
     (reject_if (valid_until_epoch p \<le> valid_from_epoch p) (ValueError ''trust_policy_validity_window_invalid'')
     (reject_if (required_roles p \<noteq> sorted_set (required_roles p)) (ValueError ''required_roles_not_canonical'')
     (reject_if (map key_id (trusted_keys p) \<noteq> sorted_set (map key_id (trusted_keys p)))
        (ValueError ''trusted_keys_not_canonical'')
     (reject_if (\<not> distinct (map public_key_sha256 (trusted_keys p))) (ValueError ''trusted_public_key_duplicate'')
     (reject_if (threshold p > int (length (trusted_keys p))) (ValueError ''threshold_exceeds_key_count'')
     (reject_if (\<not> set (required_roles p) \<subseteq> (\<Union>k\<in>set (trusted_keys p). set (roles k)))
        (ValueError ''required_role_uncovered'')
     (reject_if (allowed_route_host_suffixes p \<noteq> sorted_set (allowed_route_host_suffixes p))
        (ValueError ''route_host_suffixes_not_canonical'')
     (reject_if (pinned_edge_leaf_certificate_sha256 p \<noteq> sorted_set (pinned_edge_leaf_certificate_sha256 p))
        (ValueError ''pinned_certificates_not_canonical'')
     (verify_model_digest L ''trust_policy_digest_sha256'' (policy_unsigned p) (tp_digest p) p)))))))))))"

record AssignmentManifestSignatureEnvelope =
  env_purpose :: string
  signer_key_id :: string
  env_manifest_digest :: string
  signed_message_digest_sha256 :: string
  signature_base64 :: string

definition envelope_validate ::
    "AssignmentManifestSignatureEnvelope \<Rightarrow> AssignmentManifestSignatureEnvelope res" where
  "envelope_validate e =
     reject_if (\<not> (env_purpose e = manifest_purpose \<and> key_id_text (signer_key_id e)
                   \<and> digest_text (env_manifest_digest e) \<and> digest_text (signed_message_digest_sha256 e)
                   \<and> length (signature_base64 e) = 88)) strict_error
     (res_bind (decode_base64 64 (signature_base64 e)) (\<lambda>_. Inr e))"

record AssignmentManifestChainState =
  cs_network :: string
  cs_netuid :: int
  cs_authority :: string
  cs_policy_digest :: string
  accepted_manifest_count :: int
  last_sequence :: int
  last_finalized_height :: "int option"
  last_finalized_block_hash :: "string option"
  last_finalized_epoch :: "int option"
  last_issued_at_epoch :: "int option"
  last_expires_at_epoch :: "int option"
  last_manifest_digest :: "string option"
  state_digest :: string

definition chain_state_unsigned :: "AssignmentManifestChainState \<Rightarrow> (string \<times> json) list" where
  "chain_state_unsigned s =
     [(''schema'', JStr ''miss.computer/misscomputer-subnet/assignment-manifest-chain-state''),
      (''schema_version'', JInt 1), (''purpose'', JStr manifest_purpose),
      (''network'', JStr (cs_network s)), (''netuid'', JInt (cs_netuid s)),
      (''central_authority_fingerprint_sha256'', JStr (cs_authority s)),
      (''trust_policy_digest_sha256'', JStr (cs_policy_digest s)),
      (''accepted_manifest_count'', JInt (accepted_manifest_count s)),
      (''last_sequence'', JInt (last_sequence s)),
      (''last_finalized_height'', jint_opt (last_finalized_height s)),
      (''last_finalized_block_hash'', jstr_opt (last_finalized_block_hash s)),
      (''last_finalized_epoch'', jint_opt (last_finalized_epoch s)),
      (''last_issued_at_epoch'', jint_opt (last_issued_at_epoch s)),
      (''last_expires_at_epoch'', jint_opt (last_expires_at_epoch s)),
      (''last_manifest_digest_sha256'', jstr_opt (last_manifest_digest s))]"

definition chain_state_document :: "AssignmentManifestChainState \<Rightarrow> json" where
  "chain_state_document s =
     JObj (chain_state_unsigned s @ [(''state_digest_sha256'', JStr (state_digest s))])"

definition chain_state_fields :: "AssignmentManifestChainState \<Rightarrow> bool" where
  "chain_state_fields s \<longleftrightarrow>
     cs_network s \<in> {''finney'', ''test''} \<and> cs_netuid s \<in> {24, 581}
     \<and> digest_text (cs_authority s) \<and> digest_text (cs_policy_digest s)
     \<and> in_range 0 max_epoch (accepted_manifest_count s) \<and> in_range 0 max_epoch (last_sequence s)
     \<and> opt_ok (in_range 0 max_epoch) (last_finalized_height s)
     \<and> opt_ok digest_text (last_finalized_block_hash s)
     \<and> opt_ok (in_range 0 max_epoch) (last_finalized_epoch s)
     \<and> opt_ok (in_range 0 max_epoch) (last_issued_at_epoch s)
     \<and> opt_ok (in_range 0 max_epoch) (last_expires_at_epoch s)
     \<and> opt_ok digest_text (last_manifest_digest s) \<and> digest_text (state_digest s)"

text \<open>The members of \<^verbatim>\<open>tail\<close> that are \<^verbatim>\<open>None\<close>.\<close>

definition chain_tail_missing :: "AssignmentManifestChainState \<Rightarrow> bool list" where
  "chain_tail_missing s =
     [last_finalized_height s = None, last_finalized_block_hash s = None,
      last_finalized_epoch s = None, last_issued_at_epoch s = None,
      last_expires_at_epoch s = None, last_manifest_digest s = None]"

definition chain_state_validate ::
    "pylib \<Rightarrow> AssignmentManifestChainState \<Rightarrow> AssignmentManifestChainState res" where
  "chain_state_validate L s =
     reject_if (\<not> chain_state_fields s) strict_error
     (reject_if (\<not> static_subnet (cs_network s) (cs_netuid s)) (ValueError ''static_subnet_invalid'')
     (reject_if (accepted_manifest_count s = 0
                 \<and> (last_sequence s \<noteq> 0 \<or> False \<in> set (chain_tail_missing s)))
        (ValueError ''genesis_chain_state_invalid'')
     (reject_if (accepted_manifest_count s \<noteq> 0
                 \<and> (last_sequence s = 0 \<or> accepted_manifest_count s > last_sequence s
                    \<or> True \<in> set (chain_tail_missing s)))
        (ValueError ''nonempty_chain_state_invalid'')
     (verify_model_digest L ''state_digest_sha256'' (JObj (chain_state_unsigned s)) (state_digest s) s))))"

text \<open>Sealing: the digest field is computed over the rest, then the model is validated.\<close>

definition seal_chain_state ::
    "pylib \<Rightarrow> AssignmentManifestChainState \<Rightarrow> AssignmentManifestChainState res" where
  "seal_chain_state L s =
     chain_state_validate L (s\<lparr>state_digest := sha_json L (JObj (chain_state_unsigned s))\<rparr>)"

definition build_assignment_manifest_trust_policy ::
    "pylib \<Rightarrow> AssignmentManifestTrustPolicy \<Rightarrow> AssignmentManifestTrustPolicy res" where
  "build_assignment_manifest_trust_policy L draft =
     res_bind (mapM (TrustedManifestKey_validate L) (trusted_keys draft)) (\<lambda>keys.
     let p = draft\<lparr>trusted_keys := sort_key key_id keys,
                   required_roles := sort (required_roles draft),
                   allowed_route_host_suffixes := sorted_set (allowed_route_host_suffixes draft),
                   pinned_edge_leaf_certificate_sha256 :=
                     sorted_set (pinned_edge_leaf_certificate_sha256 draft)\<rparr>
     in policy_validate L (p\<lparr>tp_digest := sha_json L (policy_unsigned p)\<rparr>))"

definition build_initial_manifest_chain_state ::
    "pylib \<Rightarrow> AssignmentManifestTrustPolicy \<Rightarrow> AssignmentManifestChainState res" where
  "build_initial_manifest_chain_state L trust_policy =
     res_bind (policy_validate L trust_policy) (\<lambda>policy.
     seal_chain_state L
       \<lparr>cs_network = tp_network policy, cs_netuid = tp_netuid policy, cs_authority = tp_authority policy,
        cs_policy_digest = tp_digest policy, accepted_manifest_count = 0, last_sequence = 0,
        last_finalized_height = None, last_finalized_block_hash = None, last_finalized_epoch = None,
        last_issued_at_epoch = None, last_expires_at_epoch = None, last_manifest_digest = None,
        state_digest = ''''\<rparr>)"

section \<open>Headers, admission, signatures\<close>

record ManifestHeader =
  h_network :: string
  h_netuid :: int
  h_authority :: string
  h_policy_digest :: string
  finalized_height :: int
  finalized_block_hash :: string
  finalized_epoch :: int
  sequence :: int
  previous_manifest_digest :: "string option"
  issued_at_epoch :: int
  expires_at_epoch :: int
  route_host_suffix :: string
  probe_scheme :: string
  manifest_digest :: string

definition verify_policy_binding ::
    "ManifestHeader \<Rightarrow> AssignmentManifestTrustPolicy \<Rightarrow> int \<Rightarrow> unit res" where
  "verify_policy_binding m policy evaluation_epoch =
     reject_if (h_policy_digest m \<noteq> tp_digest policy) (AssignmentProbeError ''trust_policy_mismatch'')
     (reject_if (h_network m \<noteq> tp_network policy \<or> h_netuid m \<noteq> tp_netuid policy)
        (AssignmentProbeError ''network_mismatch'')
     (reject_if (h_authority m \<noteq> tp_authority policy) (AssignmentProbeError ''authority_mismatch'')
     (reject_if (probe_scheme m \<noteq> ''https'') (AssignmentProbeError ''probe_scheme_mismatch'')
     (reject_if (route_host_suffix m \<notin> set (allowed_route_host_suffixes policy))
        (AssignmentProbeError ''route_host_policy_violation'')
     (reject_if (evaluation_epoch < valid_from_epoch policy)
        (AssignmentProbeError ''trust_policy_not_yet_valid'')
     (reject_if (evaluation_epoch \<ge> valid_until_epoch policy) (AssignmentProbeError ''trust_policy_expired'')
     (reject_if (issued_at_epoch m < valid_from_epoch policy \<or> expires_at_epoch m > valid_until_epoch policy)
        (AssignmentProbeError ''trust_policy_mismatch'')
     (reject_if (expires_at_epoch m - issued_at_epoch m > max_manifest_lifetime_seconds policy)
        (AssignmentProbeError ''manifest_lifetime_invalid'')
     (reject_if (issued_at_epoch m > evaluation_epoch + max_future_skew_seconds policy)
        (AssignmentProbeError ''manifest_future'')
     (Inr ()))))))))))"

definition verify_manifest_policy_admission ::
    "ManifestHeader \<Rightarrow> AssignmentManifestTrustPolicy \<Rightarrow> int \<Rightarrow> unit res" where
  "verify_manifest_policy_admission m policy evaluation_epoch =
     reject_if (\<not> in_range 0 max_epoch evaluation_epoch) (ValueError ''evaluation_epoch_invalid'')
     (res_bind (verify_policy_binding m policy evaluation_epoch) (\<lambda>_.
     reject_if (evaluation_epoch > issued_at_epoch m
                \<and> evaluation_epoch - issued_at_epoch m > max_manifest_age_seconds policy)
       (AssignmentProbeError ''manifest_stale'') (Inr ())))"

definition trusted_public_keys :: "AssignmentManifestTrustPolicy \<Rightarrow> (string \<times> string) list res" where
  "trusted_public_keys policy =
     (case mapM (\<lambda>k. res_bind (decode_ed25519_public_key_base64 (public_key_base64 k))
                       (\<lambda>b. Inr (key_id k, b))) (trusted_keys policy) of
        Inl e \<Rightarrow> Inl (AssignmentProbeError ''signer_key_invalid'')
      | Inr kvs \<Rightarrow> Inr kvs)"

text \<open>The body of the loop over the envelopes.\<close>

definition verify_envelope ::
    "ed25519 \<Rightarrow> ManifestHeader \<Rightarrow> string \<Rightarrow> string \<Rightarrow> (string \<times> string) list
     \<Rightarrow> AssignmentManifestTrustPolicy \<Rightarrow> int \<Rightarrow> TrustedManifestKey list
     \<Rightarrow> AssignmentManifestSignatureEnvelope \<Rightarrow> TrustedManifestKey list res" where
  "verify_envelope V m message message_digest public_keys policy evaluation_epoch verified envelope =
     (case dict_of (map (\<lambda>k. (key_id k, k)) (trusted_keys policy)) (signer_key_id envelope) of
        None \<Rightarrow> Inl (AssignmentProbeError ''signer_untrusted'')
      | Some key \<Rightarrow>
          reject_if (env_purpose envelope \<noteq> manifest_purpose \<or> manifest_purpose \<notin> set (purposes key))
            (AssignmentProbeError ''signer_purpose_mismatch'')
          (reject_if (env_manifest_digest envelope \<noteq> manifest_digest m
                      \<or> signed_message_digest_sha256 envelope \<noteq> message_digest)
            (AssignmentProbeError ''signature_binding_mismatch'')
          (reject_if (issued_at_epoch m < key_valid_from_epoch key)
            (AssignmentProbeError ''signer_not_yet_valid'')
          (reject_if (expires_at_epoch m > key_valid_until_epoch key
                      \<or> evaluation_epoch \<ge> key_valid_until_epoch key)
            (AssignmentProbeError ''signer_expired'')
          (reject_if (\<not> opt_ok (\<lambda>r. evaluation_epoch < r) (revoked_at_epoch key))
            (AssignmentProbeError ''signer_revoked'')
          (res_bind (decode_base64 64 (signature_base64 envelope)) (\<lambda>signature_bytes.
          (case dict_of public_keys (key_id key) of
             None \<Rightarrow> Inl (TypeError ''KeyError'')
           | Some public_bytes \<Rightarrow>
               reject_if (\<not> V public_bytes signature_bytes message)
                 (AssignmentProbeError ''signature_invalid'')
               (Inr (verified @ [key]))))))))))"

definition verify_manifest_signatures ::
    "pylib \<Rightarrow> ed25519 \<Rightarrow> ManifestHeader \<Rightarrow> string \<Rightarrow> AssignmentManifestSignatureEnvelope list
     \<Rightarrow> AssignmentManifestTrustPolicy \<Rightarrow> int \<Rightarrow> (string list \<times> string list) res" where
  "verify_manifest_signatures L V m message signatures policy evaluation_epoch =
     res_bind (trusted_public_keys policy) (\<lambda>public_keys.
     reject_if (map signer_key_id signatures \<noteq> sorted_set (map signer_key_id signatures))
       (AssignmentProbeError ''signature_binding_mismatch'')
     (res_bind (foldM (verify_envelope V m message (sha256_hex L message) public_keys policy evaluation_epoch)
                  [] signatures) (\<lambda>verified.
     reject_if (int (length verified) < threshold policy) (AssignmentProbeError ''threshold_not_met'')
     (reject_if (\<not> set (required_roles policy) \<subseteq> set (concat (map roles verified)))
        (AssignmentProbeError ''required_role_missing'')
     (Inr (sort (map key_id verified), sorted_set (concat (map roles verified))))))))"

section \<open>Chain advancement\<close>

text \<open>The link rules for a state that has accepted a manifest; \<open>None\<close> fields cannot occur there.\<close>

definition chain_link ::
    "AssignmentManifestChainState \<Rightarrow> ManifestHeader \<Rightarrow> AssignmentManifestTrustPolicy \<Rightarrow> unit res" where
  "chain_link s m policy =
     reject_if (sequence m < last_sequence s) (AssignmentProbeError ''sequence_rollback'')
     (reject_if (sequence m - last_sequence s > max_sequence_gap policy) (AssignmentProbeError ''sequence_gap'')
     (reject_if (previous_manifest_digest m \<noteq> last_manifest_digest s)
        (AssignmentProbeError ''previous_link_mismatch'')
     (let last_height = the (last_finalized_height s); last_issued = the (last_issued_at_epoch s);
          last_epoch = the (last_finalized_epoch s)
      in reject_if (finalized_height m < last_height) (AssignmentProbeError ''finalized_height_rollback'')
         (reject_if (finalized_height m - last_height > max_finalized_height_gap policy)
            (AssignmentProbeError ''finalized_height_gap'')
         (reject_if (finalized_height m = last_height
                     \<and> (Some (finalized_block_hash m) \<noteq> last_finalized_block_hash s
                        \<or> finalized_epoch m \<noteq> last_epoch))
            (AssignmentProbeError ''same_height_fork'')
         (reject_if (finalized_epoch m < last_epoch) (AssignmentProbeError ''finalized_epoch_rollback'')
         (reject_if (issued_at_epoch m < last_issued) (AssignmentProbeError ''issued_at_rollback'')
         (Inr ()))))))))"

text \<open>The record that is sealed when the manifest is new.\<close>

definition next_chain_state ::
    "AssignmentManifestChainState \<Rightarrow> ManifestHeader \<Rightarrow> AssignmentManifestChainState" where
  "next_chain_state s m =
     s\<lparr>accepted_manifest_count := accepted_manifest_count s + 1, last_sequence := sequence m,
       last_finalized_height := Some (finalized_height m),
       last_finalized_block_hash := Some (finalized_block_hash m),
       last_finalized_epoch := Some (finalized_epoch m),
       last_issued_at_epoch := Some (issued_at_epoch m),
       last_expires_at_epoch := Some (expires_at_epoch m),
       last_manifest_digest := Some (manifest_digest m)\<rparr>"

definition advance_manifest_header_chain_state ::
    "pylib \<Rightarrow> AssignmentManifestChainState \<Rightarrow> ManifestHeader \<Rightarrow> AssignmentManifestTrustPolicy
     \<Rightarrow> (AssignmentManifestChainState \<times> bool) res" where
  "advance_manifest_header_chain_state L state m trust_policy =
     res_bind (chain_state_validate L state) (\<lambda>s.
     res_bind (policy_validate L trust_policy) (\<lambda>policy.
     reject_if (cs_network s \<noteq> h_network m \<or> cs_netuid s \<noteq> h_netuid m \<or> cs_authority s \<noteq> h_authority m)
       (AssignmentProbeError ''authority_mismatch'')
     (reject_if (cs_policy_digest s \<noteq> h_policy_digest m \<or> cs_policy_digest s \<noteq> tp_digest policy)
       (AssignmentProbeError ''trust_policy_mismatch'')
     (let accept = res_bind (seal_chain_state L (next_chain_state s m)) (\<lambda>t. Inr (t, False))
      in if accepted_manifest_count s = 0
         then reject_if (sequence m \<noteq> 1) (AssignmentProbeError ''sequence_gap'')
              (reject_if (previous_manifest_digest m \<noteq> None) (AssignmentProbeError ''previous_link_mismatch'')
              accept)
         else if sequence m = last_sequence s
         then reject_if (Some (manifest_digest m) \<noteq> last_manifest_digest s)
                (AssignmentProbeError ''same_sequence_divergence'') (Inr (s, True))
         else res_bind (chain_link s m policy) (\<lambda>_. accept)))))"

section \<open>Append-only publication\<close>

lemma chain_state_validate_Inr:
  "chain_state_validate L s = Inr t \<longleftrightarrow>
     t = s \<and> chain_state_fields s \<and> static_subnet (cs_network s) (cs_netuid s)
     \<and> (accepted_manifest_count s = 0 \<longrightarrow> last_sequence s = 0 \<and> False \<notin> set (chain_tail_missing s))
     \<and> (accepted_manifest_count s \<noteq> 0 \<longrightarrow> last_sequence s \<noteq> 0
          \<and> accepted_manifest_count s \<le> last_sequence s \<and> True \<notin> set (chain_tail_missing s))
     \<and> state_digest s = sha_json L (JObj (chain_state_unsigned s))"
  unfolding chain_state_validate_def by auto

lemma policy_validate_same: "policy_validate L p = Inr q \<Longrightarrow> q = p"
  unfolding policy_validate_def by (elim res_bindE reject_ifE) simp

text \<open>What a sealed successor holds.\<close>

definition chain_successor ::
    "AssignmentManifestChainState \<Rightarrow> ManifestHeader \<Rightarrow> AssignmentManifestChainState \<Rightarrow> bool" where
  "chain_successor s m t \<longleftrightarrow> (\<exists>d. t = next_chain_state s m\<lparr>state_digest := d\<rparr>)"

lemma chain_successor_simps:
  assumes "chain_successor s m t"
  shows "cs_network t = cs_network s" "cs_netuid t = cs_netuid s" "cs_authority t = cs_authority s"
    "cs_policy_digest t = cs_policy_digest s"
    "accepted_manifest_count t = accepted_manifest_count s + 1" "last_sequence t = sequence m"
    "last_finalized_height t = Some (finalized_height m)"
    "last_finalized_block_hash t = Some (finalized_block_hash m)"
    "last_finalized_epoch t = Some (finalized_epoch m)"
    "last_issued_at_epoch t = Some (issued_at_epoch m)"
    "last_expires_at_epoch t = Some (expires_at_epoch m)"
    "last_manifest_digest t = Some (manifest_digest m)"
  using assms by (auto simp: chain_successor_def next_chain_state_def)

lemma seal_chain_state_Inr:
  "seal_chain_state L s = Inr t \<Longrightarrow>
     t = s\<lparr>state_digest := sha_json L (JObj (chain_state_unsigned s))\<rparr>
     \<and> chain_state_validate L t = Inr t"
  unfolding seal_chain_state_def by (auto simp: chain_state_validate_Inr)

lemma chain_link_Inr:
  "chain_link s m p = Inr () \<longleftrightarrow>
     last_sequence s \<le> sequence m \<and> sequence m - last_sequence s \<le> max_sequence_gap p
     \<and> previous_manifest_digest m = last_manifest_digest s
     \<and> the (last_finalized_height s) \<le> finalized_height m
     \<and> finalized_height m - the (last_finalized_height s) \<le> max_finalized_height_gap p
     \<and> (finalized_height m = the (last_finalized_height s) \<longrightarrow>
          Some (finalized_block_hash m) = last_finalized_block_hash s
          \<and> finalized_epoch m = the (last_finalized_epoch s))
     \<and> the (last_finalized_epoch s) \<le> finalized_epoch m
     \<and> the (last_issued_at_epoch s) \<le> issued_at_epoch m"
  unfolding chain_link_def Let_def by auto

text \<open>The two ways a manifest can be admitted.\<close>

lemma advance_Inr:
  assumes "advance_manifest_header_chain_state L s m p = Inr (t, reprobe)"
  shows "chain_state_validate L s = Inr s \<and> policy_validate L p = Inr p \<and> chain_state_validate L t = Inr t
     \<and> (if reprobe
        then t = s \<and> accepted_manifest_count s \<noteq> 0 \<and> sequence m = last_sequence s
             \<and> last_manifest_digest s = Some (manifest_digest m)
        else chain_successor s m t
             \<and> (if accepted_manifest_count s = 0
                then sequence m = 1 \<and> previous_manifest_digest m = None
                else sequence m \<noteq> last_sequence s \<and> chain_link s m p = Inr ()))"
proof -
  obtain s' p' where v: "chain_state_validate L s = Inr s'" "policy_validate L p = Inr p'"
    using assms unfolding advance_manifest_header_chain_state_def by (elim res_bindE) blast
  then have same: "s' = s" "p' = p"
    using policy_validate_same by (auto simp: chain_state_validate_Inr)
  show ?thesis
    using assms v unfolding advance_manifest_header_chain_state_def same
    by (auto simp: Let_def chain_successor_def split: if_splits dest!: seal_chain_state_Inr)
qed

text \<open>Runs of a channel: the manifests newly accepted, in order; a reprobe accepts none.\<close>

inductive chain_run :: "('s \<Rightarrow> 'm \<Rightarrow> 's \<times> bool \<Rightarrow> bool) \<Rightarrow> 's \<Rightarrow> 'm list \<Rightarrow> 's \<Rightarrow> bool"
  for step where
  start: "chain_run step s [] s"
| accept: "chain_run step s ms t \<Longrightarrow> step t m (u, False) \<Longrightarrow> chain_run step s (ms @ [m]) u"
| reprobe: "chain_run step s ms t \<Longrightarrow> step t m (u, True) \<Longrightarrow> chain_run step s ms u"

definition follows :: "ManifestHeader \<Rightarrow> ManifestHeader \<Rightarrow> bool" where
  "follows m n \<longleftrightarrow>
     sequence m < sequence n \<and> previous_manifest_digest n = Some (manifest_digest m)
     \<and> finalized_height m \<le> finalized_height n \<and> finalized_epoch m \<le> finalized_epoch n
     \<and> issued_at_epoch m \<le> issued_at_epoch n
     \<and> (finalized_height m = finalized_height n \<longrightarrow>
          finalized_block_hash m = finalized_block_hash n \<and> finalized_epoch m = finalized_epoch n)"

definition hash_linked :: "ManifestHeader list \<Rightarrow> bool" where
  "hash_linked ms \<longleftrightarrow>
     successively follows ms
     \<and> (ms \<noteq> [] \<longrightarrow> sequence (hd ms) = 1 \<and> previous_manifest_digest (hd ms) = None)"

text \<open>What the state remembers of the manifests accepted so far.\<close>

definition remembers :: "AssignmentManifestChainState \<Rightarrow> ManifestHeader list \<Rightarrow> bool" where
  "remembers s ms \<longleftrightarrow>
     accepted_manifest_count s = int (length ms)
     \<and> (ms \<noteq> [] \<longrightarrow>
          last_sequence s = sequence (last ms)
          \<and> last_finalized_height s = Some (finalized_height (last ms))
          \<and> last_finalized_block_hash s = Some (finalized_block_hash (last ms))
          \<and> last_finalized_epoch s = Some (finalized_epoch (last ms))
          \<and> last_issued_at_epoch s = Some (issued_at_epoch (last ms))
          \<and> last_manifest_digest s = Some (manifest_digest (last ms)))"

lemma hash_linked_snoc:
  assumes "hash_linked ms" and "ms \<noteq> [] \<Longrightarrow> follows (last ms) m"
    and "ms = [] \<Longrightarrow> sequence m = 1 \<and> previous_manifest_digest m = None"
  shows "hash_linked (ms @ [m])"
  using assms by (cases "ms = []") (auto simp: hash_linked_def successively_append_iff)

lemma advance_extends:
  assumes adv: "advance_manifest_header_chain_state L s m p = Inr (t, False)"
    and ms: "hash_linked ms" and mem: "remembers s ms"
  shows "hash_linked (ms @ [m])" and "remembers t (ms @ [m])"
proof -
  note A = advance_Inr [OF adv, simplified]
  show "remembers t (ms @ [m])"
    using A mem by (auto simp: remembers_def chain_successor_simps)
  show "hash_linked (ms @ [m])"
  proof (rule hash_linked_snoc [OF ms])
    assume "ms = []"
    then show "sequence m = 1 \<and> previous_manifest_digest m = None"
      using A mem by (simp add: remembers_def)
  next
    assume "ms \<noteq> []"
    then have "accepted_manifest_count s \<noteq> 0" using mem by (simp add: remembers_def)
    with A have "sequence m \<noteq> last_sequence s" "chain_link s m p = Inr ()" by auto
    then show "follows (last ms) m"
      using mem \<open>ms \<noteq> []\<close> by (auto simp: follows_def remembers_def chain_link_Inr)
  qed
qed

lemma hash_linked_sorted: "hash_linked ms \<Longrightarrow> sorted_wrt (\<lambda>m n. sequence m < sequence n) ms"
proof -
  assume "hash_linked ms"
  then have "successively (\<lambda>m n. sequence m < sequence n) ms"
    by (auto simp: hash_linked_def follows_def intro: successively_mono)
  then show ?thesis
    by (subst (asm) successively_iff_sorted_wrt_strong) auto
qed

text \<open>
  The interface between the chain rules and the versioned verifiers: whatever admits a
  manifest of some version has advanced the chain state over its header.
\<close>

locale manifest_channel =
  fixes L :: pylib
    and step :: "AssignmentManifestChainState \<Rightarrow> 'm \<Rightarrow> AssignmentManifestChainState \<times> bool \<Rightarrow> bool"
    and header :: "'m \<Rightarrow> ManifestHeader"
  assumes step_advances:
    "step s m (t, r) \<Longrightarrow> \<exists>p. advance_manifest_header_chain_state L s (header m) p = Inr (t, r)"
begin

lemma run_linked:
  assumes "chain_run step s ms t" and "accepted_manifest_count s = 0"
  shows "hash_linked (map header ms) \<and> remembers t (map header ms)"
  using assms
proof induction
  case (start s)
  then show ?case by (simp add: hash_linked_def remembers_def)
next
  case (accept s ms t m u)
  then show ?case using advance_extends step_advances by fastforce
next
  case (reprobe s ms t m u)
  then show ?case using advance_Inr step_advances by (metis (no_types, lifting))
qed

lemma run_no_equivocation:
  assumes "chain_run step s ms t" and "accepted_manifest_count s = 0"
    and "step t m (u, r)" and "n \<in> set ms" and "sequence (header m) = sequence (header n)"
  shows "r \<and> u = t \<and> manifest_digest (header m) = manifest_digest (header n)"
proof -
  note run = run_linked [OF assms(1,2)]
  obtain p where p: "advance_manifest_header_chain_state L t (header m) p = Inr (u, r)"
    using step_advances [OF assms(3)] by blast
  have ms: "ms \<noteq> []" using assms(4) by auto
  then obtain ns l where snoc: "ms = ns @ [l]" by (metis rev_exhaust)
  have last: "last_sequence t = sequence (header l)" "last_manifest_digest t = Some (manifest_digest (header l))"
      "accepted_manifest_count t \<noteq> 0"
    using run by (auto simp: remembers_def snoc)
  have below: "sequence (header k) < sequence (header l)" if "k \<in> set ns" for k
    using hash_linked_sorted [of "map header ms"] run that by (auto simp: snoc sorted_wrt_append)
  have le: "sequence (header n) \<le> sequence (header l)" using assms(4) by (auto simp: snoc dest: below)
  have "r"
  proof (rule ccontr)
    assume "\<not> r"
    then have "last_sequence t < sequence (header m)"
      using advance_Inr [OF p] last(3) by (auto simp: chain_link_Inr)
    then show False using le assms(5) last(1) by simp
  qed
  then have m: "u = t" "sequence (header m) = sequence (header l)"
      "manifest_digest (header m) = manifest_digest (header l)"
    using advance_Inr [OF p] last by auto
  have "n = l" using assms(4,5) below m(2) by (force simp: snoc)
  then show ?thesis using \<open>r\<close> m by simp
qed

end

interpretation channel: manifest_channel L
    "\<lambda>s m x. \<exists>p. advance_manifest_header_chain_state L s m p = Inr x" "\<lambda>m. m" for L
  by unfold_locales auto

lemma initial_chain_state_count:
  "build_initial_manifest_chain_state L p = Inr g \<Longrightarrow> accepted_manifest_count g = 0"
  unfolding build_initial_manifest_chain_state_def by (auto dest!: seal_chain_state_Inr)

text \<open>
  The manifest channel is an append-only hash chain. Whatever sequence of manifests and
  policies a validator is shown, starting from the initial chain state of a trust policy,
  the manifests it accepts form one chain: the first has sequence 1 and no predecessor,
  each later one names the digest of the one accepted before it, sequences strictly
  increase, finalized height, finalized epoch and issue time never go back, two
  publications at one height agree on block hash and epoch; and the state counts exactly
  these manifests and remembers the last.
\<close>

theorem manifest_chain_append_only:
  assumes "build_initial_manifest_chain_state L policy = Inr g"
    and "chain_run (\<lambda>s m x. \<exists>p. advance_manifest_header_chain_state L s m p = Inr x) g ms s"
  shows "hash_linked ms \<and> remembers s ms"
  using channel.run_linked [OF assms(2) initial_chain_state_count [OF assms(1)]] by simp

text \<open>
  C21: Non-equivocation. Once a manifest with some sequence number has been accepted, the
  channel admits no different manifest under that number: a manifest that is admitted with
  it again is a reprobe of the very same digest and leaves the state as it is.
\<close>

theorem manifest_chain_no_equivocation:
  assumes "build_initial_manifest_chain_state L policy = Inr g"
    and "chain_run (\<lambda>s m x. \<exists>p. advance_manifest_header_chain_state L s m p = Inr x) g ms s"
    and "n \<in> set ms" and "sequence m = sequence n"
    and "advance_manifest_header_chain_state L s m p = Inr (t, reprobe)"
  shows "reprobe \<and> t = s \<and> manifest_digest m = manifest_digest n"
  using channel.run_no_equivocation [OF assms(2) initial_chain_state_count [OF assms(1)], of m t reprobe n]
    assms(3-5) by blast

section \<open>Threshold signatures\<close>

text \<open>One envelope that counts: a trusted, valid, unrevoked key signed these bytes.\<close>

definition counted_signature ::
    "pylib \<Rightarrow> ed25519 \<Rightarrow> ManifestHeader \<Rightarrow> string \<Rightarrow> AssignmentManifestTrustPolicy \<Rightarrow> int
     \<Rightarrow> AssignmentManifestSignatureEnvelope \<Rightarrow> TrustedManifestKey \<Rightarrow> bool" where
  "counted_signature L V m message policy now e k \<longleftrightarrow>
     k \<in> set (trusted_keys policy) \<and> key_id k = signer_key_id e
     \<and> env_manifest_digest e = manifest_digest m \<and> signed_message_digest_sha256 e = sha256_hex L message
     \<and> key_valid_from_epoch k \<le> issued_at_epoch m \<and> expires_at_epoch m \<le> key_valid_until_epoch k
     \<and> now < key_valid_until_epoch k \<and> opt_ok (\<lambda>r. now < r) (revoked_at_epoch k)
     \<and> (\<exists>sig pub. decode_base64 64 (signature_base64 e) = Inr sig
          \<and> decode_ed25519_public_key_base64 (public_key_base64 k) = Inr pub \<and> V pub sig message)"

lemma trusted_public_keys_Some:
  assumes "trusted_public_keys policy = Inr kvs" and "distinct (map key_id (trusted_keys policy))"
    and "k \<in> set (trusted_keys policy)" and "dict_of kvs (key_id k) = Some pub"
  shows "decode_ed25519_public_key_base64 (public_key_base64 k) = Inr pub"
proof -
  have kvs: "mapM (\<lambda>k. res_bind (decode_ed25519_public_key_base64 (public_key_base64 k))
                       (\<lambda>b. Inr (key_id k, b))) (trusted_keys policy) = Inr kvs"
    using assms(1) by (auto simp: trusted_public_keys_def split: sum.splits)
  obtain k' where "k' \<in> set (trusted_keys policy)" "key_id k' = key_id k"
      "decode_ed25519_public_key_base64 (public_key_base64 k') = Inr pub"
    using mapM_in [OF kvs dict_of_Some [OF assms(4)]] by auto
  then show ?thesis using assms(2,3) by (metis distinct_map inj_onD)
qed

lemma verify_envelope_Inr:
  assumes "verify_envelope V m message (sha256_hex L message) public_keys policy now ks e = Inr ks'"
    and "trusted_public_keys policy = Inr public_keys" and "distinct (map key_id (trusted_keys policy))"
  obtains k where "ks' = ks @ [k]" and "counted_signature L V m message policy now e k"
proof -
  obtain k where k: "dict_of (map (\<lambda>k. (key_id k, k)) (trusted_keys policy)) (signer_key_id e) = Some k"
    using assms(1) unfolding verify_envelope_def by (auto split: option.splits)
  have in_keys: "k \<in> set (trusted_keys policy)" "key_id k = signer_key_id e"
    using dict_of_Some [OF k] by auto
  obtain pub where pub: "dict_of public_keys (key_id k) = Some pub"
    using assms(1) k unfolding verify_envelope_def
    by (simp split: option.splits) (metis option.exhaust)
  have dec: "decode_ed25519_public_key_base64 (public_key_base64 k) = Inr pub"
    by (rule trusted_public_keys_Some [OF assms(2,3) in_keys(1) pub])
  have "ks' = ks @ [k] \<and> counted_signature L V m message policy now e k"
    using assms(1) k pub dec in_keys unfolding verify_envelope_def counted_signature_def
    by (auto simp: not_less not_le)
  then show ?thesis using that by blast
qed

lemma verify_manifest_signatures_Inr:
  assumes "policy_validate L policy = Inr policy"
    and "verify_manifest_signatures L V m message signatures policy now = Inr (signers, granted)"
  shows "(\<forall>e\<in>set signatures. \<exists>k. counted_signature L V m message policy now e k)
    \<and> signers = map signer_key_id signatures \<and> distinct signers
    \<and> threshold policy \<le> int (length signers)
    \<and> set (required_roles policy) \<subseteq> set granted
    \<and> (\<forall>r\<in>set granted. \<exists>k\<in>set (trusted_keys policy).
          key_id k \<in> set signers \<and> r \<in> set (roles k))"
proof -
  have keys: "distinct (map key_id (trusted_keys policy))"
    using assms(1) unfolding policy_validate_def
    by (elim res_bindE reject_ifE) (metis sorted_set_distinct)
  obtain public_keys verified where pk: "trusted_public_keys policy = Inr public_keys"
    and canonical: "map signer_key_id signatures = sorted_set (map signer_key_id signatures)"
    and fold: "foldM (verify_envelope V m message (sha256_hex L message) public_keys policy now) []
                 signatures = Inr verified"
    and thr: "threshold policy \<le> int (length verified)"
    and req: "set (required_roles policy) \<subseteq> set (concat (map roles verified))"
    and res: "signers = sort (map key_id verified)" "granted = sorted_set (concat (map roles verified))"
    using assms(2) unfolding verify_manifest_signatures_def by (auto simp: not_less)
  have all: "list_all2 (counted_signature L V m message policy now) signatures verified"
    using fold by (rule foldM_invariant)
      (auto elim!: verify_envelope_Inr [OF _ pk keys] intro: list_all2_appendI)
  then have ids: "map key_id verified = map signer_key_id signatures"
    by (induction rule: list_all2_induct) (auto simp: counted_signature_def)
  have "sorted (map signer_key_id signatures)" "distinct (map signer_key_id signatures)"
    using canonical by (metis sorted_set_strict strict_sorted_iff)+
  then have s: "signers = map signer_key_id signatures" "distinct signers"
    by (simp_all add: res ids sorted_sort_id)
  moreover have "threshold policy \<le> int (length signers)" using thr by (simp add: res)
  moreover have "\<forall>e\<in>set signatures. \<exists>k. counted_signature L V m message policy now e k"
    using all by (metis in_set_conv_nth list_all2_conv_all_nth)
  moreover have "set verified \<subseteq> set (trusted_keys policy)"
    using all by (induction rule: list_all2_induct) (auto simp: counted_signature_def)
  moreover have "key_id k \<in> set signers" if "k \<in> set verified" for k
    using that by (simp add: res)
  ultimately show ?thesis using req unfolding res(2) by (simp add: s(1)) blast
qed

text \<open>
  C22: Threshold signatures. When \<^verbatim>\<open>verify_manifest_signatures\<close> accepts under a validated
  trust policy, every envelope presented was verified: it is bound to this manifest and to
  these exact bytes, its key is one of the policy's, valid for the whole life of the
  manifest and not revoked, and the Ed25519 check passed. The signers are distinct, at least
  as many as the threshold, and their roles cover every required role.
\<close>

theorem manifest_signatures_sound:
  assumes "policy_validate L policy = Inr policy"
    and "verify_manifest_signatures L V m message signatures policy now = Inr (signers, granted)"
  shows "(\<forall>e\<in>set signatures. \<exists>k. counted_signature L V m message policy now e k)
    \<and> signers = map signer_key_id signatures \<and> distinct signers
    \<and> threshold policy \<le> int (length signers)
    \<and> set (required_roles policy) \<subseteq> set granted
    \<and> (\<forall>r\<in>set granted. \<exists>k\<in>set (trusted_keys policy).
          key_id k \<in> set signers \<and> r \<in> set (roles k))"
  by (rule verify_manifest_signatures_Inr [OF assms])

section \<open>Acceptance\<close>

text \<open>The field ranges a validated manifest of any version has.\<close>

definition header_fields :: "ManifestHeader \<Rightarrow> bool" where
  "header_fields m \<longleftrightarrow>
     in_range 0 max_epoch (finalized_height m) \<and> digest_text (finalized_block_hash m)
     \<and> in_range 0 max_epoch (finalized_epoch m) \<and> in_range 1 max_epoch (sequence m)
     \<and> in_range 0 max_epoch (issued_at_epoch m) \<and> in_range 1 max_epoch (expires_at_epoch m)
     \<and> digest_text (manifest_digest m)"

lemma seal_next_chain_state:
  assumes "chain_state_validate L s = Inr s" and "header_fields m"
    and "digest_text (sha_json L (JObj (chain_state_unsigned (next_chain_state s m))))"
    and "accepted_manifest_count s < sequence m"
  shows "seal_chain_state L (next_chain_state s m)
    = Inr (next_chain_state s m\<lparr>state_digest :=
             sha_json L (JObj (chain_state_unsigned (next_chain_state s m)))\<rparr>)"
  using assms
  by (auto simp: seal_chain_state_def chain_state_validate_Inr chain_state_fields_def header_fields_def
      next_chain_state_def chain_state_unsigned_def chain_tail_missing_def)

text \<open>
  The rules are exact: a well-formed manifest that agrees with the state and the policy
  and obeys the link rules is accepted, as the next state of the chain; the state that is
  sealed always passes its own validator.
\<close>

theorem manifest_chain_accepts:
  assumes "chain_state_validate L s = Inr s" and "policy_validate L policy = Inr policy"
    and "header_fields m"
    and "digest_text (sha_json L (JObj (chain_state_unsigned (next_chain_state s m))))"
    and "h_network m = cs_network s" and "h_netuid m = cs_netuid s" and "h_authority m = cs_authority s"
    and "h_policy_digest m = cs_policy_digest s" and "tp_digest policy = cs_policy_digest s"
    and "if accepted_manifest_count s = 0 then sequence m = 1 \<and> previous_manifest_digest m = None
         else sequence m \<noteq> last_sequence s \<and> chain_link s m policy = Inr ()"
  shows "\<exists>t. advance_manifest_header_chain_state L s m policy = Inr (t, False)
    \<and> chain_successor s m t \<and> chain_state_validate L t = Inr t"
proof -
  have count: "accepted_manifest_count s < sequence m"
    using assms(1,10) by (auto simp: chain_state_validate_Inr chain_link_Inr split: if_splits)
  note seal = seal_next_chain_state [OF assms(1,3,4) count]
  let ?t = "next_chain_state s m\<lparr>state_digest :=
              sha_json L (JObj (chain_state_unsigned (next_chain_state s m)))\<rparr>"
  have "advance_manifest_header_chain_state L s m policy = Inr (?t, False)"
    using assms seal unfolding advance_manifest_header_chain_state_def
    by (auto simp: Let_def split: if_splits)
  moreover have "chain_successor s m ?t" by (auto simp: chain_successor_def)
  ultimately show ?thesis using seal_chain_state_Inr [OF seal] by blast
qed

section \<open>The persisted chain state\<close>

definition chain_state_keys :: "string list" where
  "chain_state_keys =
     [''schema'', ''schema_version'', ''purpose'', ''network'', ''netuid'',
      ''central_authority_fingerprint_sha256'', ''trust_policy_digest_sha256'',
      ''accepted_manifest_count'', ''last_sequence'', ''last_finalized_height'',
      ''last_finalized_block_hash'', ''last_finalized_epoch'', ''last_issued_at_epoch'',
      ''last_expires_at_epoch'', ''last_manifest_digest_sha256'', ''state_digest_sha256'']"

text \<open>\<^verbatim>\<open>AssignmentManifestChainState.model_validate\<close> of a parsed document: no unknown or missing key.\<close>

definition read_chain_state :: "pylib \<Rightarrow> json \<Rightarrow> AssignmentManifestChainState res" where
  "read_chain_state L document =
     res_bind (exact_object strict_error chain_state_keys document) (\<lambda>r.
     res_bind (read_const (JStr ''miss.computer/misscomputer-subnet/assignment-manifest-chain-state'')
                 (jget r ''schema'')) (\<lambda>_.
     res_bind (read_const (JInt 1) (jget r ''schema_version'')) (\<lambda>_.
     res_bind (read_const (JStr manifest_purpose) (jget r ''purpose'')) (\<lambda>_.
     res_bind (read_str (\<lambda>n. n \<in> {''finney'', ''test''}) (jget r ''network'')) (\<lambda>network.
     res_bind (read_int 24 581 (jget r ''netuid'')) (\<lambda>netuid.
     res_bind (read_str digest_text (jget r ''central_authority_fingerprint_sha256'')) (\<lambda>authority.
     res_bind (read_str digest_text (jget r ''trust_policy_digest_sha256'')) (\<lambda>policy_digest.
     res_bind (read_int 0 max_epoch (jget r ''accepted_manifest_count'')) (\<lambda>count.
     res_bind (read_int 0 max_epoch (jget r ''last_sequence'')) (\<lambda>seq.
     res_bind (read_opt (read_int 0 max_epoch) (jget r ''last_finalized_height'')) (\<lambda>height.
     res_bind (read_opt (read_str digest_text) (jget r ''last_finalized_block_hash'')) (\<lambda>block.
     res_bind (read_opt (read_int 0 max_epoch) (jget r ''last_finalized_epoch'')) (\<lambda>epoch.
     res_bind (read_opt (read_int 0 max_epoch) (jget r ''last_issued_at_epoch'')) (\<lambda>issued.
     res_bind (read_opt (read_int 0 max_epoch) (jget r ''last_expires_at_epoch'')) (\<lambda>expires.
     res_bind (read_opt (read_str digest_text) (jget r ''last_manifest_digest_sha256'')) (\<lambda>last.
     res_bind (read_str digest_text (jget r ''state_digest_sha256'')) (\<lambda>digest.
     chain_state_validate L
       \<lparr>cs_network = network, cs_netuid = netuid, cs_authority = authority,
        cs_policy_digest = policy_digest, accepted_manifest_count = count, last_sequence = seq,
        last_finalized_height = height, last_finalized_block_hash = block, last_finalized_epoch = epoch,
        last_issued_at_epoch = issued, last_expires_at_epoch = expires, last_manifest_digest = last,
        state_digest = digest\<rparr>)))))))))))))))))"

definition chain_state_bytes :: "pylib \<Rightarrow> AssignmentManifestChainState \<Rightarrow> string res" where
  "chain_state_bytes L = model_bytes L (chain_state_validate L) chain_state_document"

definition parse_assignment_manifest_chain_state ::
    "pylib \<Rightarrow> string \<Rightarrow> AssignmentManifestChainState res" where
  "parse_assignment_manifest_chain_state L =
     parse_model L (read_chain_state L) (chain_state_bytes L) 65536"

lemma chain_state_eta:
  "\<lparr>cs_network = cs_network s, cs_netuid = cs_netuid s, cs_authority = cs_authority s,
    cs_policy_digest = cs_policy_digest s, accepted_manifest_count = accepted_manifest_count s,
    last_sequence = last_sequence s, last_finalized_height = last_finalized_height s,
    last_finalized_block_hash = last_finalized_block_hash s,
    last_finalized_epoch = last_finalized_epoch s, last_issued_at_epoch = last_issued_at_epoch s,
    last_expires_at_epoch = last_expires_at_epoch s, last_manifest_digest = last_manifest_digest s,
    state_digest = state_digest s\<rparr> = s"
  by simp

lemma read_chain_state_document:
  assumes "chain_state_validate L s = Inr s"
  shows "read_chain_state L (canon (chain_state_document s)) = Inr s"
  unfolding read_chain_state_def chain_state_document_def
proof (rule read_object, goal_cases)
  case (3 r)
  have f: "chain_state_fields s" using assms by (simp add: chain_state_validate_Inr)
  then have "in_range 24 581 (cs_netuid s)" by (auto simp: chain_state_fields_def)
  then show ?case
    unfolding 3 using f assms
    by (simp add: chain_state_unsigned_def chain_state_fields_def read_const_def chain_state_eta)
qed (simp_all add: chain_state_unsigned_def chain_state_keys_def)

context python_library
begin

lemma parse_chain_state_bytes:
  assumes "chain_state_validate L s = Inr s" and "chain_state_bytes L s = Inr bytes"
    and "length bytes \<le> 65536"
  shows "parse_assignment_manifest_chain_state L bytes = Inr s"
proof -
  have ok: "json_ok (chain_state_document s)"
    by (simp add: chain_state_document_def chain_state_unsigned_def)
  have bytes: "bytes = dumps L (chain_state_document s) @ [newline]"
    using assms(1,2) by (auto simp: chain_state_bytes_def model_bytes_def)
  then have "loads L bytes = Inr (canon (chain_state_document s))" "is_ascii bytes" "bytes \<noteq> []"
    using loads_dumps [OF ok] rendered_ascii [OF ok] by simp_all
  then show ?thesis
    using assms read_chain_state_document [OF assms(1)]
    by (simp add: parse_assignment_manifest_chain_state_def parse_model_def)
qed

end

end
