(* ===== verification/OrganicManifests.thy ===== *)
theory OrganicManifests
  imports ManifestChain Timestamps
begin

text \<open>
  The active-assignment manifest v2: the contract models of \<^verbatim>\<open>organic_contracts.py\<close>
  (replica, deployment, manifest) and the live verification of \<^verbatim>\<open>organic_manifest.py\<close>
  (identity rules, effective horizon, block leases, anchoring). The chain rules come from
  theory \<^verbatim>\<open>ManifestChain\<close> through the manifest's header.
\<close>

section \<open>Contract models\<close>

record OrganicHealthProbe =
  hp_method :: string
  hp_path :: string
  expected_statuses :: "int list"
  response_marker :: "string option"

definition health_document :: "OrganicHealthProbe \<Rightarrow> json" where
  "health_document h = JObj
     [(''method'', JStr (hp_method h)), (''path'', JStr (hp_path h)),
      (''expected_statuses'', JList (map JInt (expected_statuses h))),
      (''response_marker'', jstr_opt (response_marker h))]"

definition health_fields :: "OrganicHealthProbe \<Rightarrow> bool" where
  "health_fields h \<longleftrightarrow>
     http_method (hp_method h) \<and> health_path (hp_path h)
     \<and> 1 \<le> length (expected_statuses h) \<and> length (expected_statuses h) \<le> 8
     \<and> list_all (in_range 100 599) (expected_statuses h) \<and> opt_ok marker_text (response_marker h)"

record OrganicAssignedReplica =
  miner_uid :: int
  miner_hotkey :: string
  miner_service_public_key :: string
  miner_tls_certificate :: string
  generation :: int
  assignment_nonce :: string
  replica_id :: string
  endpoint_id :: string
  ticket_digest :: string
  receipt_digest :: string
  chain_block :: int
  expires_at_block :: int
  activated_at_epoch :: int
  lease_expires_at_epoch :: int

definition replica_document :: "OrganicAssignedReplica \<Rightarrow> json" where
  "replica_document r = JObj
     [(''miner_uid'', JInt (miner_uid r)), (''miner_hotkey'', JStr (miner_hotkey r)),
      (''miner_service_public_key'', JStr (miner_service_public_key r)),
      (''miner_tls_certificate_sha256'', JStr (miner_tls_certificate r)),
      (''generation'', JInt (generation r)), (''assignment_nonce'', JStr (assignment_nonce r)),
      (''replica_id'', JStr (replica_id r)), (''endpoint_id'', JStr (endpoint_id r)),
      (''ticket_digest'', JStr (ticket_digest r)), (''receipt_digest'', JStr (receipt_digest r)),
      (''chain_block'', JInt (chain_block r)), (''expires_at_block'', JInt (expires_at_block r)),
      (''activated_at_epoch'', JInt (activated_at_epoch r)),
      (''expires_at_epoch'', JInt (lease_expires_at_epoch r)), (''route_state'', JStr ''active'')]"

definition replica_fields :: "OrganicAssignedReplica \<Rightarrow> bool" where
  "replica_fields r \<longleftrightarrow>
     in_range 0 65535 (miner_uid r) \<and> hotkey_text (miner_hotkey r)
     \<and> digest_text (miner_service_public_key r) \<and> digest_text (miner_tls_certificate r)
     \<and> in_range 1 max_epoch (generation r) \<and> hex_text 32 (assignment_nonce r)
     \<and> 3 \<le> length (replica_id r) \<and> length (replica_id r) \<le> 256 \<and> endpoint_text (endpoint_id r)
     \<and> sha_text (ticket_digest r) \<and> sha_text (receipt_digest r) \<and> in_range 0 max_epoch (chain_block r)
     \<and> in_range 1 max_epoch (expires_at_block r) \<and> in_range 0 max_epoch (activated_at_epoch r)
     \<and> in_range 1 max_epoch (lease_expires_at_epoch r)"

definition replica_validate :: "OrganicAssignedReplica \<Rightarrow> OrganicAssignedReplica res" where
  "replica_validate r =
     reject_if (\<not> replica_fields r) strict_error
     (reject_if (expires_at_block r \<le> chain_block r) (ValueError ''replica_block_window_invalid'')
     (reject_if (lease_expires_at_epoch r \<le> activated_at_epoch r)
        (ValueError ''replica_activation_window_invalid'')
     (reject_if (ticket_digest r = receipt_digest r) (ValueError ''replica_digest_collision'')
     (Inr r))))"

record OrganicDeploymentAssignment =
  deployment_id :: string
  route_host :: string
  artifact_digest :: string
  health :: OrganicHealthProbe
  replicas :: "OrganicAssignedReplica list"
  assignment_digest :: string

definition deployment_unsigned :: "OrganicDeploymentAssignment \<Rightarrow> (string \<times> json) list" where
  "deployment_unsigned d =
     [(''deployment_id'', JStr (deployment_id d)), (''route_host'', JStr (route_host d)),
      (''artifact_digest'', JStr (artifact_digest d)), (''health'', health_document (health d)),
      (''attestation_requirement'', JStr ''miner_service_key_v2''),
      (''replicas'', JList (map replica_document (replicas d)))]"

definition deployment_document :: "OrganicDeploymentAssignment \<Rightarrow> json" where
  "deployment_document d =
     JObj (deployment_unsigned d @ [(''assignment_digest_sha256'', JStr (assignment_digest d))])"

definition replica_name :: "OrganicDeploymentAssignment \<Rightarrow> OrganicAssignedReplica \<Rightarrow> string" where
  "replica_name d r = deployment_id d @ ''-'' @ miner_hotkey r"

definition endpoint_name :: "OrganicDeploymentAssignment \<Rightarrow> OrganicAssignedReplica \<Rightarrow> string" where
  "endpoint_name d r =
     replica_name d r @ ''-g'' @ int_digits (generation r) @ ''-'' @ assignment_nonce r"

definition deployment_validate ::
    "pylib \<Rightarrow> OrganicDeploymentAssignment \<Rightarrow> OrganicDeploymentAssignment res" where
  "deployment_validate L d =
     reject_if (\<not> (route_label (deployment_id d) \<and> hostname_text (route_host d) \<and> sha_text (artifact_digest d)
                   \<and> health_fields (health d) \<and> 1 \<le> length (replicas d) \<and> length (replicas d) \<le> 8
                   \<and> digest_text (assignment_digest d))) strict_error
     (res_bind (mapM replica_validate (replicas d)) (\<lambda>_.
     let keys = map (\<lambda>r. (miner_uid r, miner_hotkey r)) (replicas d)
     in reject_if (keys \<noteq> sorted_set keys) (ValueError ''assignment_replicas_not_canonical'')
        (reject_if (list_ex (\<lambda>r. replica_id r \<noteq> replica_name d r \<or> endpoint_id r \<noteq> endpoint_name d r)
                      (replicas d)) (ValueError ''assignment_replica_identity_invalid'')
        (verify_model_digest L ''assignment_digest_sha256'' (JObj (deployment_unsigned d))
           (assignment_digest d) d))))"

record ActiveAssignmentManifestV2 =
  header :: ManifestHeader
  probe_port :: int
  deployments :: "OrganicDeploymentAssignment list"
  assignment_vector_digest :: string

abbreviation md_digest :: "ActiveAssignmentManifestV2 \<Rightarrow> string" where
  "md_digest m \<equiv> manifest_digest (header m)"

definition manifest_unsigned :: "ActiveAssignmentManifestV2 \<Rightarrow> (string \<times> json) list" where
  "manifest_unsigned m =
     [(''schema'', JStr ''miss.computer/misscomputer-subnet/active-assignment-manifest''),
      (''schema_version'', JInt 2), (''purpose'', JStr ''active_assignment_manifest_publication_v2''),
      (''network'', JStr (h_network (header m))), (''netuid'', JInt (h_netuid (header m))),
      (''central_authority_fingerprint_sha256'', JStr (h_authority (header m))),
      (''trust_policy_digest_sha256'', JStr (h_policy_digest (header m))),
      (''finalized_height'', JInt (finalized_height (header m))),
      (''finalized_block_hash'', JStr (finalized_block_hash (header m))),
      (''finalized_epoch'', JInt (finalized_epoch (header m))),
      (''sequence'', JInt (sequence (header m))),
      (''previous_manifest_digest_sha256'', jstr_opt (previous_manifest_digest (header m))),
      (''issued_at_epoch'', JInt (issued_at_epoch (header m))),
      (''expires_at_epoch'', JInt (expires_at_epoch (header m))),
      (''route_host_suffix'', JStr (route_host_suffix (header m))),
      (''probe_scheme'', JStr (probe_scheme (header m))), (''probe_port'', JInt (probe_port m)),
      (''deployments'', JList (map deployment_document (deployments m))),
      (''assignment_vector_digest_sha256'', JStr (assignment_vector_digest m))]"

definition manifest_document :: "ActiveAssignmentManifestV2 \<Rightarrow> json" where
  "manifest_document m = JObj (manifest_unsigned m @ [(''manifest_digest_sha256'', JStr (md_digest m))])"

definition manifest_fields :: "ActiveAssignmentManifestV2 \<Rightarrow> bool" where
  "manifest_fields m \<longleftrightarrow>
     h_network (header m) = ''finney'' \<and> h_netuid (header m) = 24
     \<and> digest_text (h_authority (header m)) \<and> digest_text (h_policy_digest (header m))
     \<and> header_fields (header m) \<and> opt_ok digest_text (previous_manifest_digest (header m))
     \<and> hostname_text (route_host_suffix (header m)) \<and> probe_scheme (header m) = ''https''
     \<and> in_range 1 65535 (probe_port m) \<and> length (deployments m) \<le> 4096
     \<and> digest_text (assignment_vector_digest m)"

definition all_replicas :: "ActiveAssignmentManifestV2 \<Rightarrow> OrganicAssignedReplica list" where
  "all_replicas m = concat (map replicas (deployments m))"

text \<open>The loop over deployments and replicas: route host, block lease, time lease.\<close>

definition route_check ::
    "ActiveAssignmentManifestV2 \<Rightarrow> OrganicDeploymentAssignment \<Rightarrow> unit res" where
  "route_check m d =
     reject_if (route_host d \<noteq> deployment_id d @ ''.'' @ route_host_suffix (header m))
       (ValueError ''manifest_route_host_invalid'')
     (foldM (\<lambda>_ r.
        reject_if (expires_at_block r \<le> finalized_height (header m)) (ValueError ''manifest_replica_block_expired'')
        (reject_if (lease_expires_at_epoch r \<le> issued_at_epoch (header m)) (ValueError ''manifest_replica_expired'')
        (Inr ()))) () (replicas d))"

definition manifest_validate :: "pylib \<Rightarrow> ActiveAssignmentManifestV2 \<Rightarrow> ActiveAssignmentManifestV2 res" where
  "manifest_validate L m =
     reject_if (\<not> manifest_fields m) strict_error
     (res_bind (mapM (deployment_validate L) (deployments m)) (\<lambda>_.
     reject_if (expires_at_epoch (header m) \<le> issued_at_epoch (header m))
       (ValueError ''manifest_validity_window_invalid'')
     (reject_if ((sequence (header m) = 1) \<noteq> (previous_manifest_digest (header m) = None))
       (ValueError ''manifest_previous_link_invalid'')
     (let ids = map deployment_id (deployments m); endpoints = map endpoint_id (all_replicas m)
      in reject_if (ids \<noteq> sorted_set ids) (ValueError ''manifest_deployments_not_canonical'')
         (res_bind (foldM (\<lambda>_. route_check m) () (deployments m)) (\<lambda>_.
         reject_if (\<not> distinct endpoints) (ValueError ''manifest_endpoint_duplicate'')
         (reject_if (assignment_vector_digest m \<noteq> sha_json L (JList (map deployment_document (deployments m))))
            (ValueError ''assignment_vector_digest_sha256_mismatch'')
         (verify_model_digest L ''manifest_digest_sha256'' (JObj (manifest_unsigned m)) (md_digest m) m))))))))"

section \<open>Identity rules and horizon\<close>

text \<open>
  \<^verbatim>\<open>dict.setdefault(key, value) != value\<close>, on a dictionary as a map: the updated map and
  whether the key was already bound to something else.
\<close>

definition setdefault :: "('k \<rightharpoonup> 'v) \<Rightarrow> 'k \<Rightarrow> 'v \<Rightarrow> ('k \<rightharpoonup> 'v)" where
  "setdefault d k v = (case d k of None \<Rightarrow> d(k \<mapsto> v) | Some _ \<Rightarrow> d)"

definition rebinds :: "('k \<rightharpoonup> 'v) \<Rightarrow> 'k \<Rightarrow> 'v \<Rightarrow> bool" where
  "rebinds d k v \<longleftrightarrow> setdefault d k v k \<noteq> Some v"

definition identity_step ::
    "ActiveAssignmentManifestV2 \<Rightarrow> (int \<rightharpoonup> string \<times> string) \<times> (string \<rightharpoonup> int \<times> string)
     \<Rightarrow> OrganicAssignedReplica \<Rightarrow> ((int \<rightharpoonup> string \<times> string) \<times> (string \<rightharpoonup> int \<times> string)) res" where
  "identity_step m maps r =
     (let (by_uid, by_hotkey) = maps;
          name = (miner_hotkey r, miner_service_public_key r); number = (miner_uid r, miner_service_public_key r)
      in reject_if (activated_at_epoch r > issued_at_epoch (header m))
           (ValueError ''manifest_replica_not_yet_active'')
         (reject_if (rebinds by_uid (miner_uid r) name \<or> rebinds by_hotkey (miner_hotkey r) number)
           (ValueError ''manifest_miner_identity_conflict'')
         (Inr (setdefault by_uid (miner_uid r) name, setdefault by_hotkey (miner_hotkey r) number))))"

definition verify_identities :: "ActiveAssignmentManifestV2 \<Rightarrow> unit res" where
  "verify_identities m =
     reject_if (\<not> distinct (map assignment_nonce (all_replicas m)))
       (ValueError ''manifest_assignment_nonce_duplicate'')
     (res_bind (foldM (identity_step m) (Map.empty, Map.empty) (all_replicas m)) (\<lambda>_. Inr ()))"

definition organic_manifest_signature_message :: "pylib \<Rightarrow> ActiveAssignmentManifestV2 \<Rightarrow> string" where
  "organic_manifest_signature_message L m =
     ''miss.computer/misscomputer-subnet/active-assignment-manifest/v2/ed25519''
     @ [CHR 0x00] @ dumps L (manifest_document m)"

definition organic_manifest_effective_expires_at_epoch :: "ActiveAssignmentManifestV2 \<Rightarrow> int" where
  "organic_manifest_effective_expires_at_epoch m =
     foldl min (expires_at_epoch (header m)) (map lease_expires_at_epoch (all_replicas m))"

definition organic_manifest_valid_at :: "ActiveAssignmentManifestV2 \<Rightarrow> int \<Rightarrow> bool" where
  "organic_manifest_valid_at m instant_epoch \<longleftrightarrow>
     issued_at_epoch (header m) \<le> instant_epoch
     \<and> instant_epoch < organic_manifest_effective_expires_at_epoch m"

section \<open>Live verification\<close>

record OrganicManifestVerification =
  v_manifest :: ActiveAssignmentManifestV2
  verified_signer_key_ids :: "string list"
  verified_roles :: "string list"
  next_chain :: AssignmentManifestChainState
  v_reprobe :: bool
  evaluation_epoch :: int
  v_policy_digest :: string

definition verify_live ::
    "pylib \<Rightarrow> ed25519 \<Rightarrow> ActiveAssignmentManifestV2 \<Rightarrow> string \<Rightarrow> AssignmentManifestSignatureEnvelope list
     \<Rightarrow> AssignmentManifestTrustPolicy \<Rightarrow> AssignmentManifestChainState \<Rightarrow> int \<Rightarrow> int
     \<Rightarrow> (string list \<times> string list \<times> AssignmentManifestChainState \<times> bool) res" where
  "verify_live L V value message signatures policy prior now finalized =
     res_bind (mapM envelope_validate signatures) (\<lambda>envelopes.
     reject_if (\<not> (1 \<le> length envelopes \<and> length envelopes \<le> 16))
       (AssignmentProbeError ''signature_binding_mismatch'')
     (res_bind (verify_manifest_policy_admission (header value) policy now) (\<lambda>_.
     res_bind (verify_identities value) (\<lambda>_.
     reject_if (now \<ge> organic_manifest_effective_expires_at_epoch value)
       (AssignmentProbeError ''manifest_expired'')
     (reject_if (list_ex (\<lambda>r. expires_at_block r \<le> finalized) (all_replicas value))
       (AssignmentProbeError ''manifest_replica_lease_expired'')
     (res_bind (verify_manifest_signatures L V (header value) message envelopes policy now) (\<lambda>(ids, granted).
     res_bind (advance_manifest_header_chain_state L prior (header value) policy) (\<lambda>(next_state, reprobe).
     Inr (ids, granted, next_state, reprobe)))))))))"

definition verify_organic_assignment_manifest ::
    "pylib \<Rightarrow> ed25519 \<Rightarrow> ActiveAssignmentManifestV2 \<Rightarrow> AssignmentManifestSignatureEnvelope list
     \<Rightarrow> AssignmentManifestTrustPolicy \<Rightarrow> AssignmentManifestChainState \<Rightarrow> int \<Rightarrow> int
     \<Rightarrow> OrganicManifestVerification res" where
  "verify_organic_assignment_manifest L V manifest signatures approved prior now finalized =
     reject_if (\<not> in_range 0 max_epoch now) (ValueError ''evaluation_epoch_invalid'')
     (reject_if (\<not> in_range 0 max_epoch finalized) (ValueError ''current_finalized_height_invalid'')
     (res_bind (policy_validate L approved) (\<lambda>policy.
     res_bind (manifest_validate L manifest) (\<lambda>value.
     res_bind (verify_live L V value (organic_manifest_signature_message L value) signatures policy prior
                 now finalized) (\<lambda>(ids, granted, next_state, reprobe).
     Inr \<lparr>v_manifest = value, verified_signer_key_ids = ids, verified_roles = granted,
          next_chain = next_state, v_reprobe = reprobe, evaluation_epoch = now,
          v_policy_digest = tp_digest policy\<rparr>)))))"

definition anchor_organic_manifest_chain_state ::
    "pylib \<Rightarrow> ed25519 \<Rightarrow> ActiveAssignmentManifestV2 \<Rightarrow> AssignmentManifestSignatureEnvelope list
     \<Rightarrow> AssignmentManifestTrustPolicy \<Rightarrow> AssignmentManifestChainState \<Rightarrow> int \<Rightarrow> int
     \<Rightarrow> OrganicManifestVerification res" where
  "anchor_organic_manifest_chain_state L V manifest signatures approved genesis now finalized =
     res_bind (manifest_validate L manifest) (\<lambda>value.
     res_bind (chain_state_validate L genesis) (\<lambda>s.
     reject_if (accepted_manifest_count s \<noteq> 0) (ValueError ''anchor_state_not_genesis'')
     (let m = header value
      in if sequence m = 1
         then verify_organic_assignment_manifest L V value signatures approved s now finalized
         else
           let unsigned = s\<lparr>accepted_manifest_count := 1, last_sequence := sequence m - 1,
                 last_finalized_height := Some (finalized_height m),
                 last_finalized_block_hash := Some (finalized_block_hash m),
                 last_finalized_epoch := Some (finalized_epoch m),
                 last_issued_at_epoch := Some (issued_at_epoch m),
                 last_expires_at_epoch := Some (expires_at_epoch m),
                 last_manifest_digest := previous_manifest_digest m\<rparr>
           in res_bind (seal_chain_state L unsigned) (\<lambda>predecessor.
              res_bind (verify_organic_assignment_manifest L V value signatures approved predecessor
                          now finalized) (\<lambda>result.
              res_bind (seal_chain_state L (unsigned\<lparr>last_sequence := sequence m,
                          last_manifest_digest := Some (manifest_digest m)\<rparr>)) (\<lambda>anchored.
              Inr (result\<lparr>next_chain := anchored, v_reprobe := False\<rparr>)))))))"

section \<open>Properties\<close>

lemma setdefault_keeps: "d k = Some v \<Longrightarrow> setdefault d k' v' k = Some v"
  by (auto simp: setdefault_def split: option.splits)

lemma rebinds_False: "\<not> rebinds d k v \<Longrightarrow> setdefault d k v k = Some v"
  by (simp add: rebinds_def)

text \<open>
  Miner identities of a verified manifest are one to one. Whenever
  \<^verbatim>\<open>_verify_identities\<close> accepts, two replicas that share a UID or a hotkey belong to the
  same miner (same UID, hotkey and service key), no assignment nonce is used twice and no
  replica was activated after issuance; so no endpoint's evidence can be credited to
  another miner.
\<close>

theorem manifest_identities_unique:
  assumes "verify_identities m = Inr ()"
  shows "(\<forall>r\<in>set (all_replicas m). \<forall>q\<in>set (all_replicas m).
            (miner_uid r = miner_uid q \<or> miner_hotkey r = miner_hotkey q) \<longrightarrow>
            miner_uid r = miner_uid q \<and> miner_hotkey r = miner_hotkey q
            \<and> miner_service_public_key r = miner_service_public_key q)
    \<and> distinct (map assignment_nonce (all_replicas m))
    \<and> (\<forall>r\<in>set (all_replicas m). activated_at_epoch r \<le> issued_at_epoch (header m))"
proof -
  define bound where "bound = (\<lambda>rs (maps :: (int \<rightharpoonup> string \<times> string) \<times> (string \<rightharpoonup> int \<times> string)).
    \<forall>r\<in>set (rs :: OrganicAssignedReplica list).
      fst maps (miner_uid r) = Some (miner_hotkey r, miner_service_public_key r)
      \<and> snd maps (miner_hotkey r) = Some (miner_uid r, miner_service_public_key r)
      \<and> activated_at_epoch r \<le> issued_at_epoch (header m))"
  obtain maps where run: "foldM (identity_step m) (Map.empty, Map.empty) (all_replicas m) = Inr maps"
    and nonces: "distinct (map assignment_nonce (all_replicas m))"
    using assms unfolding verify_identities_def by auto
  have "bound (all_replicas m) maps"
    using run
  proof (rule foldM_invariant)
    show "bound [] (Map.empty, Map.empty)" by (simp add: bound_def)
  next
    fix rs r maps maps'
    assume "bound rs maps" and "identity_step m maps r = Inr maps'"
    then show "bound (rs @ [r]) maps'"
      by (cases maps) (auto simp: bound_def identity_step_def Let_def rebinds_False setdefault_keeps)
  qed
  then have key: "fst maps (miner_uid r) = Some (miner_hotkey r, miner_service_public_key r)
      \<and> snd maps (miner_hotkey r) = Some (miner_uid r, miner_service_public_key r)
      \<and> activated_at_epoch r \<le> issued_at_epoch (header m)" if "r \<in> set (all_replicas m)" for r
    using that by (simp add: bound_def)
  then show ?thesis using nonces by (metis option.inject prod.inject)
qed

lemma foldl_min_le:
  fixes e :: int
  shows "t < foldl min e xs \<longleftrightarrow> t < e \<and> (\<forall>x\<in>set xs. t < x)"
  by (induction xs arbitrary: e) auto

text \<open>
  The horizon of a manifest is the intersection of its own window and every published
  lease: an instant is valid exactly when it is not before issuance, before the manifest's
  expiry and before the expiry of each replica.
\<close>

theorem manifest_horizon:
  "organic_manifest_valid_at m t \<longleftrightarrow>
     issued_at_epoch (header m) \<le> t \<and> t < expires_at_epoch (header m)
     \<and> (\<forall>d\<in>set (deployments m). \<forall>r\<in>set (replicas d). t < lease_expires_at_epoch r)"
  by (auto simp: organic_manifest_valid_at_def organic_manifest_effective_expires_at_epoch_def
      all_replicas_def foldl_min_le)

lemma manifest_validate_Inr:
  assumes "manifest_validate L m = Inr v"
  shows "v = m" and "manifest_fields m" and "distinct (map endpoint_id (all_replicas m))"
    and "distinct (map deployment_id (deployments m))"
    and "\<forall>d\<in>set (deployments m). deployment_validate L d = Inr d"
    and "issued_at_epoch (header m) < expires_at_epoch (header m)"
    and "(sequence (header m) = 1) = (previous_manifest_digest (header m) = None)"
    and "md_digest m = sha_json L (JObj (manifest_unsigned m))"
proof -
  have d: "deployment_validate L d = Inr e \<Longrightarrow> e = d" for d e
    unfolding deployment_validate_def Let_def by (elim res_bindE reject_ifE) simp
  obtain ds where "mapM (deployment_validate L) (deployments m) = Inr ds"
    using assms unfolding manifest_validate_def by (elim res_bindE reject_ifE) blast
  then have ds: "list_all2 (\<lambda>x y. deployment_validate L x = Inr y) (deployments m) ds"
    by (simp only: mapM_Inr_iff)
  then show "\<forall>d\<in>set (deployments m). deployment_validate L d = Inr d"
    using d by (induction rule: list_all2_induct) auto
  show "distinct (map deployment_id (deployments m))"
    using assms unfolding manifest_validate_def Let_def
    by (elim res_bindE reject_ifE) (metis sorted_set_distinct)
qed (use assms in \<open>auto simp: manifest_validate_def Let_def not_le\<close>)

lemma verify_organic_Inr:
  assumes "verify_organic_assignment_manifest L V m sigs p s now fin = Inr r"
  shows "manifest_validate L m = Inr m \<and> policy_validate L p = Inr p \<and> v_manifest r = m
    \<and> in_range 0 max_epoch now
    \<and> verify_manifest_policy_admission (header m) p now = Inr () \<and> verify_identities m = Inr ()
    \<and> now < organic_manifest_effective_expires_at_epoch m
    \<and> (\<forall>q\<in>set (all_replicas m). fin < expires_at_block q)
    \<and> (\<exists>envs. mapM envelope_validate sigs = Inr envs \<and>
         verify_manifest_signatures L V (header m) (organic_manifest_signature_message L m) envs p now
         = Inr (verified_signer_key_ids r, verified_roles r))
    \<and> advance_manifest_header_chain_state L s (header m) p = Inr (next_chain r, v_reprobe r)"
proof -
  obtain q v where qv: "policy_validate L p = Inr q" "manifest_validate L m = Inr v"
    using assms unfolding verify_organic_assignment_manifest_def by (elim res_bindE reject_ifE) blast
  then have "q = p" "v = m" using policy_validate_same manifest_validate_Inr(1) by blast+
  then show ?thesis
    using assms qv unfolding verify_organic_assignment_manifest_def verify_live_def
    by (auto simp: list_ex_iff not_le)
qed

text \<open>The v2 publication series is a manifest channel.\<close>

definition organic_step ::
    "pylib \<Rightarrow> ed25519 \<Rightarrow> AssignmentManifestChainState \<Rightarrow> ActiveAssignmentManifestV2
     \<Rightarrow> AssignmentManifestChainState \<times> bool \<Rightarrow> bool" where
  "organic_step L V s m x \<longleftrightarrow>
     (\<exists>sigs p now fin r. verify_organic_assignment_manifest L V m sigs p s now fin = Inr r
        \<and> x = (next_chain r, v_reprobe r))"

interpretation organic: manifest_channel L "organic_step L V" header for L V
  by unfold_locales (use verify_organic_Inr in \<open>fastforce simp: organic_step_def\<close>)

text \<open>
  Two v2 manifests that a validator verified live along one chain state history and that
  carry the same sequence number are the same publication: their documents have the same
  digest, so a central key that signs two versions of one sequence number is never believed
  twice.
\<close>

theorem organic_manifest_no_equivocation:
  assumes "build_initial_manifest_chain_state L policy = Inr g"
    and "chain_run (organic_step L V) g ms s" and "n \<in> set ms"
    and "verify_organic_assignment_manifest L V m sigs p s now fin = Inr r"
    and "sequence (header m) = sequence (header n)"
  shows "v_reprobe r \<and> next_chain r = s
    \<and> sha_json L (JObj (manifest_unsigned m)) = md_digest n"
proof -
  have "organic_step L V s m (next_chain r, v_reprobe r)"
    using assms(4) unfolding organic_step_def by blast
  from organic.run_no_equivocation [OF assms(2) initial_chain_state_count [OF assms(1)] this assms(3,5)]
  show ?thesis
    using verify_organic_Inr [OF assms(4)] manifest_validate_Inr(8) [of L m m] by auto
qed

text \<open>
  A service key is not an identity to the code: two replicas with different UIDs, hotkeys and
  nonces pass whatever their service keys are.
\<close>

lemma service_key_unchecked:
  assumes "all_replicas m = [r, q]" and "miner_uid r \<noteq> miner_uid q" and "miner_hotkey r \<noteq> miner_hotkey q"
    and "assignment_nonce r \<noteq> assignment_nonce q" and "activated_at_epoch r \<le> issued_at_epoch (header m)"
    and "activated_at_epoch q \<le> issued_at_epoch (header m)"
  shows "verify_identities m = Inr ()"
  using assms by (simp add: verify_identities_def identity_step_def rebinds_def setdefault_def)

text \<open>
  C36: Live verification is complete. A v2 manifest that
  \<^verbatim>\<open>verify_organic_assignment_manifest\<close> accepts at an instant is inside its horizon
  there up to the clock skew the policy allows, is not stale, every replica holds a block
  lease beyond the validator's finalized height and was active at issuance, replicas that
  share a UID or a hotkey share UID, hotkey and service key, no assignment nonce is used
  twice, and at least the policy's threshold of distinct trusted keys signed exactly its
  canonical bytes under the v2 domain. Two miners may share a service key.
\<close>

theorem organic_manifest_verified_live:
  assumes "verify_organic_assignment_manifest L V m sigs p s now fin = Inr r"
  shows "issued_at_epoch (header m) \<le> now + max_future_skew_seconds p
    \<and> now - issued_at_epoch (header m) \<le> max_manifest_age_seconds p
    \<and> (\<forall>q\<in>set (all_replicas m). now < lease_expires_at_epoch q \<and> fin < expires_at_block q
         \<and> activated_at_epoch q \<le> issued_at_epoch (header m))
    \<and> now < expires_at_epoch (header m)
    \<and> (\<forall>q\<in>set (all_replicas m). \<forall>q'\<in>set (all_replicas m).
         miner_uid q = miner_uid q' \<or> miner_hotkey q = miner_hotkey q' \<longrightarrow>
         miner_uid q = miner_uid q' \<and> miner_hotkey q = miner_hotkey q'
         \<and> miner_service_public_key q = miner_service_public_key q')
    \<and> distinct (map assignment_nonce (all_replicas m))
    \<and> distinct (verified_signer_key_ids r) \<and> threshold p \<le> int (length (verified_signer_key_ids r))
    \<and> (\<forall>i\<in>set (verified_signer_key_ids r). \<exists>e k. key_id k = i
         \<and> counted_signature L V (header m) (organic_manifest_signature_message L m) p now e k)"
proof -
  note R = verify_organic_Inr [OF assms]
  then obtain envs where envs: "verify_manifest_signatures L V (header m)
      (organic_manifest_signature_message L m) envs p now
      = Inr (verified_signer_key_ids r, verified_roles r)"
    and pol: "policy_validate L p = Inr p" by blast
  have adm: "issued_at_epoch (header m) \<le> now + max_future_skew_seconds p"
      "now - issued_at_epoch (header m) \<le> max_manifest_age_seconds p"
  proof -
    have "policy_fields p" using pol by (simp add: policy_validate_def)
    then have "0 < max_manifest_age_seconds p" by (simp add: policy_fields_def)
    then show "issued_at_epoch (header m) \<le> now + max_future_skew_seconds p"
      "now - issued_at_epoch (header m) \<le> max_manifest_age_seconds p"
      using R by (auto simp: verify_manifest_policy_admission_def verify_policy_binding_def)
  qed
  have sig: "key_id k = signer_key_id e" if "counted_signature L V h msg p now e k" for h msg e k
    using that by (simp add: counted_signature_def)
  note envelopes = verify_manifest_signatures_Inr [OF pol envs]
  have signed: "\<forall>i\<in>set (verified_signer_key_ids r). \<exists>e k. key_id k = i
         \<and> counted_signature L V (header m) (organic_manifest_signature_message L m) p now e k"
    using envelopes sig by (metis in_set_conv_nth length_map nth_map nth_mem)
  have ids: "verify_identities m = Inr ()" and horizon: "now < organic_manifest_effective_expires_at_epoch m"
    and blocks: "\<forall>q\<in>set (all_replicas m). fin < expires_at_block q" using R by blast+
  note identities = manifest_identities_unique [OF ids]
  have live: "\<forall>q\<in>set (all_replicas m). now < lease_expires_at_epoch q" "now < expires_at_epoch (header m)"
    using horizon by (auto simp: organic_manifest_effective_expires_at_epoch_def foldl_min_le)
  have replicas: "\<forall>q\<in>set (all_replicas m). now < lease_expires_at_epoch q \<and> fin < expires_at_block q
         \<and> activated_at_epoch q \<le> issued_at_epoch (header m)"
    using live(1) blocks identities by blast
  show ?thesis
    by (intro conjI adm replicas live(2) signed envelopes [THEN conjunct2, THEN conjunct2, THEN conjunct1]
        envelopes [THEN conjunct2, THEN conjunct2, THEN conjunct2, THEN conjunct1]
        identities [THEN conjunct1] identities [THEN conjunct2, THEN conjunct1])
qed

text \<open>
  Onboarding. Anchoring a validator on the current head is possible from a genesis state
  only, passes the head through complete live verification, and leaves a valid chain state
  that remembers exactly that head: one accepted manifest, its sequence, height, epoch and
  digest, whatever its sequence number is.
\<close>

theorem anchor_remembers_head:
  assumes "anchor_organic_manifest_chain_state L V m sigs p g now fin = Inr r"
  shows "accepted_manifest_count g = 0 \<and> \<not> v_reprobe r \<and> remembers (next_chain r) [header m]
    \<and> chain_state_validate L (next_chain r) = Inr (next_chain r)
    \<and> (\<exists>s r'. verify_organic_assignment_manifest L V m sigs p s now fin = Inr r'
          \<and> v_manifest r = m \<and> verified_signer_key_ids r = verified_signer_key_ids r')"
proof -
  obtain v s where v: "manifest_validate L m = Inr v" and s: "chain_state_validate L g = Inr s"
    using assms unfolding anchor_organic_manifest_chain_state_def by (elim res_bindE) blast
  have same: "v = m" "s = g"
    using manifest_validate_Inr(1) [OF v] s by (auto simp: chain_state_validate_Inr)
  have zero: "accepted_manifest_count g = 0"
    using assms v s unfolding anchor_organic_manifest_chain_state_def same by simp
  show ?thesis
  proof (cases "sequence (header m) = 1")
    case True
    then have ver: "verify_organic_assignment_manifest L V m sigs p g now fin = Inr r"
      using assms v s zero unfolding anchor_organic_manifest_chain_state_def same by simp
    note R = verify_organic_Inr [OF ver]
    then have "advance_manifest_header_chain_state L g (header m) p = Inr (next_chain r, v_reprobe r)"
      by simp
    from advance_Inr [OF this] zero have "\<not> v_reprobe r" "chain_successor g (header m) (next_chain r)"
        "chain_state_validate L (next_chain r) = Inr (next_chain r)"
      by (auto split: if_splits)
    then show ?thesis
      using zero ver R by (auto simp: remembers_def chain_successor_simps)
  next
    case False
    then obtain u pred r' anchored
      where ver: "verify_organic_assignment_manifest L V m sigs p pred now fin = Inr r'"
        and seal: "seal_chain_state L u = Inr anchored"
        and u: "remembers u [header m]"
        and r: "r = r'\<lparr>next_chain := anchored, v_reprobe := False\<rparr>"
      using assms v s zero unfolding anchor_organic_manifest_chain_state_def same
      by (auto simp: Let_def remembers_def)
    then show ?thesis
      using zero seal_chain_state_Inr [OF seal] verify_organic_Inr [OF ver]
      by (auto simp: remembers_def)
  qed
qed

end
