(* ===== verification/OrganicProbes.thy ===== *)
theory OrganicProbes
  imports OrganicManifests
begin

text \<open>
  Hidden probes, \<^verbatim>\<open>organic_probe.py\<close>, with the attestation and authorization contracts of
  \<^verbatim>\<open>organic_contracts.py\<close>: authorizing a probe, classifying a miner attestation, judging
  what came back as a sealed observation, and deriving the hidden schedule of an epoch.
\<close>

section \<open>Text helpers\<close>

text \<open>\<^verbatim>\<open>needle in haystack\<close>.\<close>

fun contains :: "string \<Rightarrow> string \<Rightarrow> bool" where
  "contains needle [] = (needle = [])"
| "contains needle (c # s) = (starts_with needle (c # s) \<or> contains needle s)"

text \<open>\<^verbatim>\<open>str.lower\<close> on code points below 256.\<close>

definition lower_char :: "char \<Rightarrow> char" where
  "lower_char c =
     (if (65 \<le> ord c \<and> ord c \<le> 90) \<or> (192 \<le> ord c \<and> ord c \<le> 222 \<and> ord c \<noteq> 215)
      then char_of (ord c + 32) else c)"

definition py_lower :: "string \<Rightarrow> string" where
  "py_lower s = map lower_char s"

section \<open>Attestations and authorizations\<close>

record MinerProbeAttestationV2 =
  at_endpoint_id :: string
  at_generation :: int
  at_ticket_digest :: string
  at_artifact_digest :: string
  at_validator_hotkey :: string
  at_probe_nonce :: string
  at_request_method :: string
  at_request_path :: string
  at_response_status :: int
  at_response_body :: string
  at_response_header :: string
  observed_at :: string
  signature_hex :: string

text \<open>The signed members, then the complete document.\<close>

definition attestation_signed :: "MinerProbeAttestationV2 \<Rightarrow> (string \<times> json) list" where
  "attestation_signed a =
     [(''endpoint_id'', JStr (at_endpoint_id a)), (''generation'', JInt (at_generation a)),
      (''ticket_digest'', JStr (at_ticket_digest a)), (''artifact_digest'', JStr (at_artifact_digest a)),
      (''validator_hotkey'', JStr (at_validator_hotkey a)), (''probe_nonce'', JStr (at_probe_nonce a)),
      (''request_method'', JStr (at_request_method a)), (''request_path'', JStr (at_request_path a)),
      (''response_status'', JInt (at_response_status a)),
      (''response_body_sha256'', JStr (at_response_body a)),
      (''response_header_sha256'', JStr (at_response_header a)), (''observed_at'', JStr (observed_at a))]"

definition attestation_document :: "MinerProbeAttestationV2 \<Rightarrow> json" where
  "attestation_document a = JObj
     ([(''schema'', JStr ''miss.computer/misscomputer-subnet/miner-probe-attestation''),
       (''schema_version'', JInt 2)] @ attestation_signed a @ [(''signature_hex'', JStr (signature_hex a))])"

definition attestation_fields :: "MinerProbeAttestationV2 \<Rightarrow> bool" where
  "attestation_fields a \<longleftrightarrow>
     endpoint_text (at_endpoint_id a) \<and> in_range 1 max_epoch (at_generation a)
     \<and> sha_text (at_ticket_digest a) \<and> sha_text (at_artifact_digest a)
     \<and> hotkey_text (at_validator_hotkey a) \<and> digest_text (at_probe_nonce a)
     \<and> http_method (at_request_method a) \<and> health_path (at_request_path a)
     \<and> in_range 100 599 (at_response_status a) \<and> digest_text (at_response_body a)
     \<and> digest_text (at_response_header a) \<and> go_timestamp (observed_at a) \<and> hex_text 128 (signature_hex a)"

definition attestation_validate :: "MinerProbeAttestationV2 \<Rightarrow> MinerProbeAttestationV2 res" where
  "attestation_validate a =
     reject_if (\<not> attestation_fields a) strict_error
     (reject_if (\<not> go_utc_timestamp (observed_at a)) (ValueError ''timestamp_not_utc'')
     (reject_if (\<not> contains (''-g'' @ int_digits (at_generation a) @ ''-'') (at_endpoint_id a))
        (ValueError ''attestation_endpoint_generation_mismatch'')
     (Inr a)))"

definition read_attestation :: "json \<Rightarrow> MinerProbeAttestationV2 res" where
  "read_attestation document =
     res_bind (exact_object strict_error
       ([''schema'', ''schema_version'', ''endpoint_id'', ''generation'', ''ticket_digest'',
         ''artifact_digest'', ''validator_hotkey'', ''probe_nonce'', ''request_method'',
         ''request_path'', ''response_status'', ''response_body_sha256'',
         ''response_header_sha256'', ''observed_at'', ''signature_hex'']) document) (\<lambda>r.
     res_bind (read_const (JStr ''miss.computer/misscomputer-subnet/miner-probe-attestation'')
                 (jget r ''schema'')) (\<lambda>_.
     res_bind (read_const (JInt 2) (jget r ''schema_version'')) (\<lambda>_.
     res_bind (read_str endpoint_text (jget r ''endpoint_id'')) (\<lambda>endpoint.
     res_bind (read_int 1 max_epoch (jget r ''generation'')) (\<lambda>gen.
     res_bind (read_str sha_text (jget r ''ticket_digest'')) (\<lambda>ticket.
     res_bind (read_str sha_text (jget r ''artifact_digest'')) (\<lambda>artifact.
     res_bind (read_str hotkey_text (jget r ''validator_hotkey'')) (\<lambda>validator.
     res_bind (read_str digest_text (jget r ''probe_nonce'')) (\<lambda>nonce.
     res_bind (read_str http_method (jget r ''request_method'')) (\<lambda>verb.
     res_bind (read_str health_path (jget r ''request_path'')) (\<lambda>path.
     res_bind (read_int 100 599 (jget r ''response_status'')) (\<lambda>status.
     res_bind (read_str digest_text (jget r ''response_body_sha256'')) (\<lambda>body.
     res_bind (read_str digest_text (jget r ''response_header_sha256'')) (\<lambda>hdr.
     res_bind (read_str go_timestamp (jget r ''observed_at'')) (\<lambda>observed.
     res_bind (read_str (hex_text 128) (jget r ''signature_hex'')) (\<lambda>sig.
     attestation_validate
       \<lparr>at_endpoint_id = endpoint, at_generation = gen, at_ticket_digest = ticket,
        at_artifact_digest = artifact, at_validator_hotkey = validator, at_probe_nonce = nonce,
        at_request_method = verb, at_request_path = path, at_response_status = status,
        at_response_body = body, at_response_header = hdr, observed_at = observed,
        signature_hex = sig\<rparr>))))))))))))))))"

definition miner_probe_attestation_v2_message :: "pylib \<Rightarrow> MinerProbeAttestationV2 \<Rightarrow> string" where
  "miner_probe_attestation_v2_message L a =
     ''miss.computer/misscomputer-subnet/miner-probe-attestation/v2'' @ [CHR 0x00]
     @ dumps L (JObj (attestation_signed a))"

text \<open>Whether \<^verbatim>\<open>verify_miner_probe_attestation_v2\<close> returns; otherwise it raises a \<^verbatim>\<open>ValueError\<close>.\<close>

definition verify_miner_probe_attestation_v2 ::
    "pylib \<Rightarrow> ed25519 \<Rightarrow> MinerProbeAttestationV2 \<Rightarrow> string \<Rightarrow> bool" where
  "verify_miner_probe_attestation_v2 L V a service_key_hex \<longleftrightarrow>
     V (unhex service_key_hex) (unhex (signature_hex a)) (miner_probe_attestation_v2_message L a)"

record OrganicProbeAuthorization =
  au_validator_hotkey :: string
  au_endpoint_id :: string
  au_generation :: int
  au_method :: string
  au_path :: string
  au_nonce :: string
  au_issued_at :: string
  au_signature :: string

definition authorization_validate :: "OrganicProbeAuthorization \<Rightarrow> OrganicProbeAuthorization res" where
  "authorization_validate a =
     reject_if (\<not> (hotkey_text (au_validator_hotkey a) \<and> endpoint_text (au_endpoint_id a)
                   \<and> in_range 1 max_epoch (au_generation a) \<and> http_method (au_method a)
                   \<and> health_path (au_path a) \<and> digest_text (au_nonce a)
                   \<and> seconds_timestamp (au_issued_at a) \<and> hex_text 128 (au_signature a)))
       strict_error (Inr a)"

definition organic_probe_message :: "pylib \<Rightarrow> OrganicProbeAuthorization \<Rightarrow> string" where
  "organic_probe_message L a =
     ''miss.computer/misscomputer-subnet/organic-probe/v1'' @ [CHR 0x00]
     @ dumps L (JObj [(''endpoint_id'', JStr (au_endpoint_id a)), (''generation'', JInt (au_generation a)),
         (''method'', JStr (au_method a)), (''path'', JStr (au_path a)), (''nonce'', JStr (au_nonce a)),
         (''issued_at'', JStr (au_issued_at a))])"

section \<open>Headers\<close>

text \<open>
  \<^verbatim>\<open>_parse_canonical_header\<close> for attestations. Only the canonical base64 of the canonical
  document passes; every other way out is the same exception.
\<close>

definition attestation_v2_header :: "pylib \<Rightarrow> MinerProbeAttestationV2 \<Rightarrow> string res" where
  "attestation_v2_header L a =
     res_bind (attestation_validate a) (\<lambda>v. Inr (b64encode (dumps L (attestation_document v))))"

definition parse_attestation_v2_header :: "pylib \<Rightarrow> string \<Rightarrow> MinerProbeAttestationV2 res" where
  "parse_attestation_v2_header L value =
     reject_if (value = [] \<or> length value > 16384) (ValueError ''header_invalid'')
     (case b64decode value of
        None \<Rightarrow> Inl (ValueError ''header_invalid'')
      | Some rendered \<Rightarrow>
          reject_if (rendered = [] \<or> length rendered > 8192 \<or> b64encode rendered \<noteq> value
                     \<or> \<not> is_ascii rendered) (ValueError ''header_invalid'')
          (case loads L rendered of
             Inl _ \<Rightarrow> Inl (ValueError ''header_invalid'')
           | Inr document \<Rightarrow>
               (case read_attestation document of
                  Inl _ \<Rightarrow> Inl (ValueError ''header_invalid'')
                | Inr model \<Rightarrow> reject_if (rendered \<noteq> dumps L (attestation_document model))
                                 (ValueError ''header_invalid'') (Inr model))))"

section \<open>Verdicts\<close>

datatype attestation_verdict = ContentMismatch | Fraudulent | SignatureInvalid | Verified

definition verify_attestation_v2 ::
    "pylib \<Rightarrow> ed25519 \<Rightarrow> MinerProbeAttestationV2 \<Rightarrow> OrganicDeploymentAssignment \<Rightarrow> OrganicAssignedReplica
     \<Rightarrow> string \<Rightarrow> string \<Rightarrow> string \<Rightarrow> string \<Rightarrow> string \<Rightarrow> int \<Rightarrow> string \<Rightarrow> attestation_verdict res" where
  "verify_attestation_v2 L V attestation d r validator nonce verb path issued_at status body_digest =
     res_bind (attestation_validate attestation) (\<lambda>a.
     if \<not> verify_miner_probe_attestation_v2 L V a (miner_service_public_key r) then Inr SignatureInvalid
     else
       res_bind (rfc3339nano_instant issued_at) (\<lambda>issued.
       res_bind (rfc3339nano_instant (observed_at a)) (\<lambda>observed.
       if at_endpoint_id a \<noteq> endpoint_id r \<or> at_generation a \<noteq> generation r
          \<or> at_ticket_digest a \<noteq> ticket_digest r \<or> at_artifact_digest a \<noteq> artifact_digest d
          \<or> at_validator_hotkey a \<noteq> validator \<or> at_probe_nonce a \<noteq> nonce
          \<or> at_request_method a \<noteq> verb \<or> at_request_path a \<noteq> path
          \<or> observed < issued - 2000000000 \<or> observed > issued + 30000000000 + 2000000000
       then Inr Fraudulent
       else if at_response_status a \<noteq> status \<or> at_response_body a \<noteq> body_digest
       then Inr ContentMismatch
       else Inr Verified)))"

section \<open>Observations\<close>

datatype attestation_status = FraudulentA | NotPresented | RejectedA | VerifiedA

datatype attribution = Application | Miner | NoParty | Path

datatype probe_outcome = Failure | Success

datatype failure_code =
    AttestationFraud | AttestationInvalid | AttestationMissing | ConnectionFailed | EdgeGenerated
  | MarkerMissing | ResponseOversized | Timeout | TlsCertificateInvalid | TlsHandshakeFailed
  | TlsPinMismatch | TransportError | UnexpectedStatus

fun status_text :: "attestation_status \<Rightarrow> string" where
  "status_text FraudulentA = ''fraudulent''"
| "status_text NotPresented = ''not_presented''"
| "status_text RejectedA = ''rejected''"
| "status_text VerifiedA = ''verified''"

fun attribution_text :: "attribution \<Rightarrow> string" where
  "attribution_text Application = ''application''"
| "attribution_text Miner = ''miner''"
| "attribution_text NoParty = ''none''"
| "attribution_text Path = ''path''"

fun outcome_text :: "probe_outcome \<Rightarrow> string" where
  "outcome_text Failure = ''failure''"
| "outcome_text Success = ''success''"

fun code_text :: "failure_code \<Rightarrow> string" where
  "code_text AttestationFraud = ''attestation_fraud''"
| "code_text AttestationInvalid = ''attestation_invalid''"
| "code_text AttestationMissing = ''attestation_missing''"
| "code_text ConnectionFailed = ''connection_failed''"
| "code_text EdgeGenerated = ''edge_generated''"
| "code_text MarkerMissing = ''marker_missing''"
| "code_text ResponseOversized = ''response_oversized''"
| "code_text Timeout = ''timeout''"
| "code_text TlsCertificateInvalid = ''tls_certificate_invalid''"
| "code_text TlsHandshakeFailed = ''tls_handshake_failed''"
| "code_text TlsPinMismatch = ''tls_pin_mismatch''"
| "code_text TransportError = ''transport_error''"
| "code_text UnexpectedStatus = ''unexpected_status''"

text \<open>\<^verbatim>\<open>_ATTRIBUTION\<close> and \<^verbatim>\<open>failure_attribution\<close>.\<close>

fun code_attribution :: "failure_code \<Rightarrow> attribution" where
  "code_attribution AttestationFraud = Miner"
| "code_attribution AttestationInvalid = Miner"
| "code_attribution AttestationMissing = Miner"
| "code_attribution ConnectionFailed = Path"
| "code_attribution EdgeGenerated = Path"
| "code_attribution MarkerMissing = Application"
| "code_attribution ResponseOversized = Application"
| "code_attribution Timeout = Path"
| "code_attribution TlsCertificateInvalid = Path"
| "code_attribution TlsHandshakeFailed = Path"
| "code_attribution TlsPinMismatch = Path"
| "code_attribution TransportError = Path"
| "code_attribution UnexpectedStatus = Application"

definition failure_attribution :: "failure_code option \<Rightarrow> attribution" where
  "failure_attribution code = (case code of None \<Rightarrow> NoParty | Some c \<Rightarrow> code_attribution c)"

record OrganicProbeObservation =
  ob_validator_hotkey :: string
  ob_manifest_digest :: string
  ob_policy_digest :: string
  ob_deployment_id :: string
  ob_assignment_digest :: string
  ob_endpoint_id :: string
  ob_generation :: int
  ob_miner_uid :: int
  ob_miner_hotkey :: string
  probe_nonce :: string
  issued_at :: string
  request_method :: string
  request_path :: string
  latency_millis :: int
  outcome :: probe_outcome
  failure_code :: "failure_code option"
  attribution :: attribution
  upstream_marker :: bool
  response_status :: "int option"
  response_bytes :: int
  response_body_sha256 :: "string option"
  tls_leaf_certificate :: "string option"
  attestation_status :: attestation_status
  attestation :: "MinerProbeAttestationV2 option"
  observation_digest :: string

definition observation_unsigned :: "OrganicProbeObservation \<Rightarrow> (string \<times> json) list" where
  "observation_unsigned o' =
     [(''schema'', JStr ''miss.computer/misscomputer-subnet/organic-probe-observation''),
      (''schema_version'', JInt 1), (''validator_hotkey'', JStr (ob_validator_hotkey o')),
      (''manifest_digest_sha256'', JStr (ob_manifest_digest o')),
      (''trust_policy_digest_sha256'', JStr (ob_policy_digest o')),
      (''deployment_id'', JStr (ob_deployment_id o')),
      (''assignment_digest_sha256'', JStr (ob_assignment_digest o')),
      (''endpoint_id'', JStr (ob_endpoint_id o')), (''generation'', JInt (ob_generation o')),
      (''miner_uid'', JInt (ob_miner_uid o')), (''miner_hotkey'', JStr (ob_miner_hotkey o')),
      (''probe_nonce'', JStr (probe_nonce o')), (''issued_at'', JStr (issued_at o')),
      (''request_method'', JStr (request_method o')), (''request_path'', JStr (request_path o')),
      (''latency_millis'', JInt (latency_millis o')), (''outcome'', JStr (outcome_text (outcome o'))),
      (''failure_code'', jstr_opt (map_option code_text (failure_code o'))),
      (''attribution'', JStr (attribution_text (attribution o'))),
      (''upstream_marker'', JBool (upstream_marker o')),
      (''response_status'', jint_opt (response_status o')), (''response_bytes'', JInt (response_bytes o')),
      (''response_body_sha256'', jstr_opt (response_body_sha256 o')),
      (''tls_leaf_certificate_sha256'', jstr_opt (tls_leaf_certificate o')),
      (''attestation_status'', JStr (status_text (attestation_status o'))),
      (''attestation'', (case attestation o' of None \<Rightarrow> JNull | Some a \<Rightarrow> attestation_document a))]"

definition observation_document :: "OrganicProbeObservation \<Rightarrow> json" where
  "observation_document o' =
     JObj (observation_unsigned o' @ [(''observation_digest_sha256'', JStr (observation_digest o'))])"

definition observation_fields :: "OrganicProbeObservation \<Rightarrow> bool" where
  "observation_fields o' \<longleftrightarrow>
     hotkey_text (ob_validator_hotkey o') \<and> digest_text (ob_manifest_digest o')
     \<and> digest_text (ob_policy_digest o') \<and> route_label (ob_deployment_id o')
     \<and> digest_text (ob_assignment_digest o') \<and> endpoint_text (ob_endpoint_id o')
     \<and> in_range 1 max_epoch (ob_generation o') \<and> in_range 0 65535 (ob_miner_uid o')
     \<and> hotkey_text (ob_miner_hotkey o') \<and> digest_text (probe_nonce o') \<and> seconds_timestamp (issued_at o')
     \<and> http_method (request_method o') \<and> health_path (request_path o')
     \<and> in_range 0 3600000 (latency_millis o') \<and> opt_ok (in_range 100 599) (response_status o')
     \<and> in_range 0 1048577 (response_bytes o') \<and> opt_ok digest_text (response_body_sha256 o')
     \<and> opt_ok digest_text (tls_leaf_certificate o') \<and> digest_text (observation_digest o')"

definition observation_validate :: "pylib \<Rightarrow> OrganicProbeObservation \<Rightarrow> OrganicProbeObservation res" where
  "observation_validate L o' =
     reject_if (\<not> observation_fields o') strict_error
     (res_bind (case attestation o' of None \<Rightarrow> Inr () | Some a \<Rightarrow> res_bind (attestation_validate a) (\<lambda>_. Inr ())) (\<lambda>_.
     reject_if ((outcome o' = Success) \<noteq> (failure_code o' = None)) (ValueError ''observation_outcome_invalid'')
     (reject_if (attribution o' \<noteq> failure_attribution (failure_code o'))
        (ValueError ''observation_attribution_invalid'')
     (reject_if (outcome o' = Success \<and> (\<not> upstream_marker o' \<or> response_status o' = None
                   \<or> response_body_sha256 o' = None \<or> attestation_status o' \<noteq> VerifiedA))
        (ValueError ''observation_success_invalid'')
     (reject_if ((attestation_status o' \<in> {FraudulentA, VerifiedA}) \<noteq> (attestation o' \<noteq> None))
        (ValueError ''observation_attestation_invalid'')
     (reject_if ((attestation_status o' = FraudulentA) \<noteq> (failure_code o' = Some AttestationFraud))
        (ValueError ''observation_fraud_invalid'')
     (reject_if (attestation_status o' = VerifiedA
                 \<and> (case attestation o' of None \<Rightarrow> False | Some a \<Rightarrow>
                      at_endpoint_id a \<noteq> ob_endpoint_id o' \<or> at_probe_nonce a \<noteq> probe_nonce o'
                      \<or> at_validator_hotkey a \<noteq> ob_validator_hotkey o'
                      \<or> Some (at_response_status a) \<noteq> response_status o'
                      \<or> Some (at_response_body a) \<noteq> response_body_sha256 o'))
        (ValueError ''observation_attestation_binding_invalid'')
     (reject_if (attribution o' = Application \<and> \<not> upstream_marker o')
        (ValueError ''observation_attribution_invalid'')
     (verify_model_digest L ''observation_digest_sha256'' (JObj (observation_unsigned o'))
        (observation_digest o') o')))))))))"

definition seal_observation :: "pylib \<Rightarrow> OrganicProbeObservation \<Rightarrow> OrganicProbeObservation res" where
  "seal_observation L o' =
     observation_validate L (o'\<lparr>observation_digest := sha_json L (JObj (observation_unsigned o'))\<rparr>)"

section \<open>Judging a probe\<close>

record ProbeResponse =
  pr_status :: int
  pr_headers :: "(string \<times> string) list"
  pr_body :: string
  pr_latency_millis :: int
  pr_tls_leaf :: "string option"
  pr_http_version :: "string option"

datatype transport_code =
  TcConnectionFailed | TcResponseOversized | TcTimeout | TcCertificateInvalid | TcHandshakeFailed | TcTransportError

record ProbeTransportFailure =
  tf_code :: transport_code
  tf_latency_millis :: int
  tf_response_status :: "int option"
  tf_tls_leaf :: "string option"

datatype probe_result = Response ProbeResponse | TransportFailure ProbeTransportFailure

fun result_latency :: "probe_result \<Rightarrow> int" where
  "result_latency (Response r) = pr_latency_millis r"
| "result_latency (TransportFailure f) = tf_latency_millis f"

fun result_tls :: "probe_result \<Rightarrow> string option" where
  "result_tls (Response r) = pr_tls_leaf r"
| "result_tls (TransportFailure f) = tf_tls_leaf f"

text \<open>An oversized or timed out transport is reported as a plain transport error.\<close>

fun transport_failure_code :: "transport_code \<Rightarrow> failure_code" where
  "transport_failure_code TcConnectionFailed = ConnectionFailed"
| "transport_failure_code TcResponseOversized = TransportError"
| "transport_failure_code TcTimeout = TransportError"
| "transport_failure_code TcCertificateInvalid = TlsCertificateInvalid"
| "transport_failure_code TcHandshakeFailed = TlsHandshakeFailed"
| "transport_failure_code TcTransportError = TransportError"

definition header_values :: "(string \<times> string) list \<Rightarrow> string \<Rightarrow> string list" where
  "header_values headers name = map snd (filter (\<lambda>(k, _). py_lower k = name) headers)"

definition find_replica ::
    "ActiveAssignmentManifestV2 \<Rightarrow> string \<Rightarrow> (OrganicDeploymentAssignment \<times> OrganicAssignedReplica) res" where
  "find_replica m endpoint =
     (case first_match (\<lambda>(d, r). endpoint_id r = endpoint)
             (concat (map (\<lambda>d. map (\<lambda>r. (d, r)) (replicas d)) (deployments m))) of
        Some x \<Rightarrow> Inr x | None \<Rightarrow> Inl (ValueError ''endpoint_unpublished''))"

definition predicate_satisfied :: "OrganicHealthProbe \<Rightarrow> int \<Rightarrow> string \<Rightarrow> failure_code option" where
  "predicate_satisfied h status body =
     (if status \<notin> set (expected_statuses h) then Some UnexpectedStatus
      else case response_marker h of
             None \<Rightarrow> None
           | Some marker \<Rightarrow> if contains marker (take 65536 body) then None else Some MarkerMissing)"

definition fail_observation ::
    "pylib \<Rightarrow> OrganicProbeObservation \<Rightarrow> failure_code \<Rightarrow> OrganicProbeObservation res" where
  "fail_observation L o' code =
     seal_observation L (o'\<lparr>failure_code := Some code, attribution := failure_attribution (Some code)\<rparr>)"

text \<open>The document before anything is known about the result.\<close>

definition blank_observation ::
    "ActiveAssignmentManifestV2 \<Rightarrow> AssignmentManifestTrustPolicy \<Rightarrow> OrganicProbeAuthorization
     \<Rightarrow> OrganicDeploymentAssignment \<Rightarrow> OrganicAssignedReplica \<Rightarrow> probe_result \<Rightarrow> OrganicProbeObservation" where
  "blank_observation m policy request d r result =
     \<lparr>ob_validator_hotkey = au_validator_hotkey request, ob_manifest_digest = md_digest m,
      ob_policy_digest = tp_digest policy, ob_deployment_id = deployment_id d,
      ob_assignment_digest = assignment_digest d, ob_endpoint_id = endpoint_id r,
      ob_generation = generation r, ob_miner_uid = miner_uid r, ob_miner_hotkey = miner_hotkey r,
      probe_nonce = au_nonce request, issued_at = au_issued_at request,
      request_method = au_method request, request_path = au_path request,
      latency_millis = min (max (result_latency result) 0) 3600000, outcome = Failure,
      failure_code = None, attribution = NoParty, upstream_marker = False, response_status = None,
      response_bytes = 0, response_body_sha256 = None, tls_leaf_certificate = result_tls result,
      attestation_status = NotPresented, attestation = None, observation_digest = ''''\<rparr>"

text \<open>The tail of \<^verbatim>\<open>evaluate_organic_probe\<close>, once a miner attestation has been parsed.\<close>

definition judge_attestation ::
    "pylib \<Rightarrow> ed25519 \<Rightarrow> OrganicProbeObservation \<Rightarrow> OrganicProbeAuthorization \<Rightarrow> OrganicDeploymentAssignment
     \<Rightarrow> OrganicAssignedReplica \<Rightarrow> ProbeResponse \<Rightarrow> MinerProbeAttestationV2 \<Rightarrow> OrganicProbeObservation res" where
  "judge_attestation L V o' request d r result a =
     res_bind (verify_attestation_v2 L V a d r (au_validator_hotkey request) (au_nonce request)
                 (au_method request) (au_path request) (au_issued_at request) (pr_status result)
                 (sha256_hex L (pr_body result))) (\<lambda>verdict.
     case verdict of
       Fraudulent \<Rightarrow>
         fail_observation L (o'\<lparr>attestation_status := FraudulentA, attestation := Some a\<rparr>) AttestationFraud
     | Verified \<Rightarrow>
         let o'' = o'\<lparr>attestation_status := VerifiedA, attestation := Some a\<rparr>
         in (case predicate_satisfied (health d) (pr_status result) (pr_body result) of
               Some code \<Rightarrow> fail_observation L o'' code
             | None \<Rightarrow> seal_observation L (o''\<lparr>outcome := Success\<rparr>))
     | _ \<Rightarrow> fail_observation L (o'\<lparr>attestation_status := RejectedA\<rparr>) AttestationInvalid)"

definition judge_response ::
    "pylib \<Rightarrow> ed25519 \<Rightarrow> AssignmentManifestTrustPolicy \<Rightarrow> OrganicProbeObservation \<Rightarrow> OrganicProbeAuthorization
     \<Rightarrow> OrganicDeploymentAssignment \<Rightarrow> OrganicAssignedReplica \<Rightarrow> ProbeResponse \<Rightarrow> OrganicProbeObservation res" where
  "judge_response L V policy o' request d r result =
     (if \<not> in_range 100 599 (pr_status result) then fail_observation L o' TransportError
      else
        let o1 = o'\<lparr>response_status := Some (pr_status result),
                    response_bytes := min (int (length (pr_body result))) 1048577,
                    response_body_sha256 := Some (sha256_hex L (pr_body result))\<rparr>;
            pins = pinned_edge_leaf_certificate_sha256 policy
        in if pins \<noteq> [] \<and> (case pr_tls_leaf result of None \<Rightarrow> True | Some c \<Rightarrow> c \<notin> set pins)
           then fail_observation L o1 TlsPinMismatch
           else if header_values (pr_headers result) ''x-miss-edge-upstream'' \<noteq> [''replica'']
           then fail_observation L o1 EdgeGenerated
           else
             let o2 = o1\<lparr>upstream_marker := True\<rparr>;
                 presented = header_values (pr_headers result) ''x-miss-probe-attestation''
             in if int (length (pr_body result)) > max_response_bytes policy
                then fail_observation L o2 ResponseOversized
                else if presented = [] then fail_observation L o2 AttestationMissing
                else (case (if length presented \<noteq> 1 then Inl (ValueError ''attestation_header_repeated'')
                            else parse_attestation_v2_header L (hd presented)) of
                        Inl _ \<Rightarrow> fail_observation L (o2\<lparr>attestation_status := RejectedA\<rparr>) AttestationInvalid
                      | Inr a \<Rightarrow> judge_attestation L V o2 request d r result a))"

definition evaluate_organic_probe ::
    "pylib \<Rightarrow> ed25519 \<Rightarrow> ActiveAssignmentManifestV2 \<Rightarrow> AssignmentManifestTrustPolicy
     \<Rightarrow> OrganicProbeAuthorization \<Rightarrow> probe_result \<Rightarrow> OrganicProbeObservation res" where
  "evaluate_organic_probe L V manifest trust_policy authorization result =
     res_bind (manifest_validate L manifest) (\<lambda>m.
     res_bind (policy_validate L trust_policy) (\<lambda>policy.
     res_bind (authorization_validate authorization) (\<lambda>request.
     reject_if (h_policy_digest (header m) \<noteq> tp_digest policy) (ValueError ''trust_policy_mismatch'')
     (res_bind (find_replica m (au_endpoint_id request)) (\<lambda>(d, r).
     reject_if (au_generation request \<noteq> generation r \<or> au_method request \<noteq> hp_method (health d)
                \<or> au_path request \<noteq> hp_path (health d)) (ValueError ''authorization_request_mismatch'')
     (let o' = blank_observation m policy request d r result
      in if result_latency result > probe_timeout_millis policy then fail_observation L o' Timeout
         else (case result of
                 TransportFailure f \<Rightarrow>
                   fail_observation L (o'\<lparr>response_status := tf_response_status f\<rparr>)
                     (transport_failure_code (tf_code f))
               | Response response \<Rightarrow> judge_response L V policy o' request d r response)))))))"

section \<open>Authorizing a probe\<close>

text \<open>The caller's signer is a parameter; it may raise.\<close>

definition hex_of_bytes :: "string \<Rightarrow> string" where
  "hex_of_bytes s = concat (map (\<lambda>c. hex_digits 2 (ord c)) s)"

definition build_probe_authorization ::
    "pylib \<Rightarrow> (string \<Rightarrow> string res) \<Rightarrow> OrganicProbeAuthorization \<Rightarrow> int
     \<Rightarrow> OrganicProbeAuthorization res" where
  "build_probe_authorization L sign draft issued =
     res_bind (format_timestamp issued) (\<lambda>stamp.
     let document = draft\<lparr>au_issued_at := stamp, au_signature := replicate 128 (CHR ''0'')\<rparr>
     in res_bind (authorization_validate document) (\<lambda>unsigned.
        res_bind (sign (organic_probe_message L unsigned)) (\<lambda>sig.
        reject_if (length sig \<noteq> 64) (ValueError ''probe_authorization_signature_invalid'')
        (authorization_validate (document\<lparr>au_signature := hex_of_bytes sig\<rparr>)))))"

section \<open>The hidden schedule\<close>

record PlannedProbe =
  pp_deployment_id :: string
  pp_endpoint_id :: string
  pp_generation :: int
  pp_method :: string
  pp_path :: string
  probe_index :: int
  fire_at_millis :: int
  pp_nonce :: string

text \<open>\<^verbatim>\<open>hmac.new(key, message, "sha256")\<close> for a key of at most one block, as hexadecimal digits.\<close>

definition xor_byte :: "nat \<Rightarrow> char \<Rightarrow> char" where
  "xor_byte n c = char_of (Bit_Operations.xor n (ord c))"

definition hmac_sha256_hex :: "pylib \<Rightarrow> string \<Rightarrow> string \<Rightarrow> string" where
  "hmac_sha256_hex L key message =
     (let block = key @ replicate (64 - length key) (CHR 0x00);
          inner = sha256_hex L (map (xor_byte 54) block @ message)
      in sha256_hex L (map (xor_byte 92) block @ unhex inner))"

definition be_value :: "string \<Rightarrow> int" where
  "be_value s = foldl (\<lambda>n c. 256 * n + int (ord c)) 0 s"

definition schedule_context ::
    "pylib \<Rightarrow> string \<Rightarrow> ActiveAssignmentManifestV2 \<Rightarrow> int \<Rightarrow> int \<Rightarrow> OrganicAssignedReplica \<Rightarrow> int \<Rightarrow> string" where
  "schedule_context L validator m epoch_index epoch_seconds r index = dumps L (JObj
     [(''epoch_index'', JInt epoch_index), (''epoch_seconds'', JInt epoch_seconds),
      (''endpoint_id'', JStr (endpoint_id r)), (''generation'', JInt (generation r)),
      (''manifest_digest_sha256'', JStr (md_digest m)), (''probe_index'', JInt index),
      (''validator_hotkey'', JStr validator)])"

definition plan_one ::
    "pylib \<Rightarrow> string \<Rightarrow> string \<Rightarrow> ActiveAssignmentManifestV2 \<Rightarrow> int \<Rightarrow> int \<Rightarrow> int \<Rightarrow> PlannedProbe list
     \<Rightarrow> OrganicDeploymentAssignment \<times> OrganicAssignedReplica \<times> int \<Rightarrow> PlannedProbe list res" where
  "plan_one L seed validator m epoch_index epoch_seconds probes planned x =
     (let (d, r, index) = x;
          epoch_millis = epoch_seconds * 1000; epoch_start = epoch_index * epoch_millis;
          slot = epoch_millis div probes;
          context = schedule_context L validator m epoch_index epoch_seconds r index;
          timing = unhex (hmac_sha256_hex L seed
            (''miss.computer/misscomputer-subnet/organic-probe-schedule/v1'' @ [CHR 0x00] @ context));
          nonce = hmac_sha256_hex L seed
            (''miss.computer/misscomputer-subnet/organic-probe-nonce/v1'' @ [CHR 0x00] @ context);
          fire_at = epoch_start + index * slot + be_value (take 8 timing) mod slot
      in if \<not> (issued_at_epoch (header m) * 1000 \<le> fire_at
               \<and> fire_at < organic_manifest_effective_expires_at_epoch m * 1000)
         then Inr planned
         else reject_if (\<not> (in_range 0 63 index \<and> in_range 0 253402300799999 fire_at \<and> digest_text nonce))
                strict_error
              (Inr (planned @ [\<lparr>pp_deployment_id = deployment_id d, pp_endpoint_id = endpoint_id r,
                 pp_generation = generation r, pp_method = hp_method (health d), pp_path = hp_path (health d),
                 probe_index = index, fire_at_millis = fire_at, pp_nonce = nonce\<rparr>])))"

definition plan_order :: "PlannedProbe \<Rightarrow> int \<times> string \<times> int" where
  "plan_order p = (fire_at_millis p, pp_endpoint_id p, probe_index p)"

definition plan_hidden_probes ::
    "pylib \<Rightarrow> string \<Rightarrow> string \<Rightarrow> ActiveAssignmentManifestV2 \<Rightarrow> int \<Rightarrow> int \<Rightarrow> int \<Rightarrow> PlannedProbe list res" where
  "plan_hidden_probes L seed validator manifest epoch_index epoch_seconds probes =
     reject_if (length seed \<noteq> 32) (ValueError ''probe_seed_invalid'')
     (reject_if (\<not> (in_range 60 3600 epoch_seconds \<and> in_range 1 16 probes)) (ValueError ''probe_schedule_invalid'')
     (reject_if (epoch_index < 0) (ValueError ''epoch_index_invalid'')
     (res_bind (manifest_validate L manifest) (\<lambda>m.
     res_bind (foldM (plan_one L seed validator m epoch_index epoch_seconds probes) []
       (concat (map (\<lambda>d. concat (map (\<lambda>r. map (\<lambda>i. (d, r, i)) [0..probes - 1]) (replicas d))) (deployments m))))
       (\<lambda>planned. Inr (sort_key plan_order planned))))))"

section \<open>Sealed observations\<close>

text \<open>The invariant of a sealed observation.\<close>

definition observation_ok :: "OrganicProbeObservation \<Rightarrow> bool" where
  "observation_ok o' \<longleftrightarrow>
     observation_fields o' \<and> opt_ok (\<lambda>a. attestation_validate a = Inr a) (attestation o')
     \<and> (outcome o' = Success) = (failure_code o' = None)
     \<and> attribution o' = failure_attribution (failure_code o')
     \<and> (outcome o' = Success \<longrightarrow> upstream_marker o' \<and> response_status o' \<noteq> None
          \<and> response_body_sha256 o' \<noteq> None \<and> attestation_status o' = VerifiedA)
     \<and> (attestation_status o' \<in> {FraudulentA, VerifiedA}) = (attestation o' \<noteq> None)
     \<and> (attestation_status o' = FraudulentA) = (failure_code o' = Some AttestationFraud)
     \<and> (attestation_status o' = VerifiedA \<longrightarrow> opt_ok (\<lambda>a.
          at_endpoint_id a = ob_endpoint_id o' \<and> at_probe_nonce a = probe_nonce o'
          \<and> at_validator_hotkey a = ob_validator_hotkey o'
          \<and> Some (at_response_status a) = response_status o'
          \<and> Some (at_response_body a) = response_body_sha256 o') (attestation o'))
     \<and> (attribution o' = Application \<longrightarrow> upstream_marker o')"

lemma attestation_validate_same: "attestation_validate a = Inr b \<Longrightarrow> b = a"
  by (simp add: attestation_validate_def)

lemma observation_validate_Inr:
  "observation_validate L o' = Inr p \<longleftrightarrow>
     p = o' \<and> observation_ok o' \<and> observation_digest o' = sha_json L (JObj (observation_unsigned o'))"
proof -
  have att: "(case attestation o' of None \<Rightarrow> Inr () | Some a \<Rightarrow> res_bind (attestation_validate a) (\<lambda>_. Inr ())) = Inr u
        \<longleftrightarrow> opt_ok (\<lambda>a. attestation_validate a = Inr a) (attestation o')" for u
    using attestation_validate_same by (auto split: option.splits)
  show ?thesis
    unfolding observation_validate_def observation_ok_def res_bind_Inr att reject_if_Inr
    by (cases "attestation o'") auto
qed

lemma seal_observation_Inr:
  "seal_observation L o' = Inr p \<longleftrightarrow>
     p = o'\<lparr>observation_digest := sha_json L (JObj (observation_unsigned o'))\<rparr> \<and> observation_ok p"
  by (auto simp: seal_observation_def observation_validate_Inr observation_unsigned_def)

lemma seal_observation_ok:
  assumes "observation_ok (o'\<lparr>observation_digest := sha_json L (JObj (observation_unsigned o'))\<rparr>)"
  shows "\<exists>p. seal_observation L o' = Inr p"
  using assms seal_observation_Inr by blast

lemma isl_Inr: "\<not> isl r \<Longrightarrow> (\<And>x. r = Inr x \<Longrightarrow> P) \<Longrightarrow> P"
  by (cases r) auto

lemma read_attestation_valid: "read_attestation j = Inr a \<Longrightarrow> attestation_validate a = Inr a"
  unfolding read_attestation_def
  by (elim res_bindE) (auto dest: attestation_validate_same)

lemma read_attestation_document:
  assumes "attestation_validate a = Inr a"
  shows "read_attestation (attestation_document a) = Inr a"
proof -
  have "attestation_fields a" using assms by (simp add: attestation_validate_def)
  then show ?thesis
    using assms unfolding read_attestation_def
    by (cases a) (simp add: attestation_document_def attestation_signed_def exact_object_def
        attestation_fields_def insert_commute)
qed

lemma parse_attestation_valid: "parse_attestation_v2_header L s = Inr a \<Longrightarrow> attestation_validate a = Inr a"
  by (auto simp: parse_attestation_v2_header_def split: option.splits sum.splits dest: read_attestation_valid)

lemma verify_attestation_total:
  assumes "attestation_validate a = Inr a" and "seconds_timestamp stamp"
  shows "\<exists>verdict. verify_attestation_v2 L V a d r validator nonce verb path stamp status body = Inr verdict"
proof -
  obtain n where "rfc3339nano_instant stamp = Inr n"
    using assms(2) by (auto simp: seconds_timestamp_def elim: isl_Inr)
  moreover obtain k where "rfc3339nano_instant (observed_at a) = Inr k"
    using assms(1) by (auto simp: attestation_validate_def attestation_fields_def go_timestamp_def
        elim: isl_Inr)
  ultimately show ?thesis using assms(1) by (simp add: verify_attestation_v2_def)
qed

lemma verify_attestation_cases:
  assumes "verify_attestation_v2 L V a d r validator nonce verb path stamp status body = Inr verdict"
  shows "attestation_validate a = Inr a"
    and "verdict = SignatureInvalid \<longleftrightarrow> \<not> verify_miner_probe_attestation_v2 L V a (miner_service_public_key r)"
    and "verdict = Verified \<Longrightarrow> at_endpoint_id a = endpoint_id r \<and> at_generation a = generation r
      \<and> at_ticket_digest a = ticket_digest r \<and> at_artifact_digest a = artifact_digest d
      \<and> at_validator_hotkey a = validator \<and> at_probe_nonce a = nonce \<and> at_request_method a = verb
      \<and> at_request_path a = path \<and> at_response_status a = status \<and> at_response_body a = body"
  using assms attestation_validate_same unfolding verify_attestation_v2_def
  by (auto split: if_splits)

section \<open>Judgement\<close>

lemma find_replica_Inr:
  assumes "find_replica m e = Inr (d, r)"
  shows "d \<in> set (deployments m) \<and> r \<in> set (replicas d) \<and> endpoint_id r = e"
proof -
  have "List.find (\<lambda>(d, r). endpoint_id r = e)
          (concat (map (\<lambda>d. map (\<lambda>r. (d, r)) (replicas d)) (deployments m))) = Some (d, r)"
    using assms by (auto simp: find_replica_def first_match_def split: option.splits)
  then show ?thesis by (auto simp: find_Some_iff dest!: nth_mem)
qed

lemma deployment_validate_Inr:
  assumes "deployment_validate L d = Inr e"
  shows "e = d" and "route_label (deployment_id d)" and "digest_text (assignment_digest d)"
    and "health_fields (health d)" and "\<forall>r\<in>set (replicas d). replica_fields r"
    and "\<forall>r\<in>set (replicas d). endpoint_id r = endpoint_name d r"
proof -
  obtain rs where "mapM replica_validate (replicas d) = Inr rs"
    using assms unfolding deployment_validate_def by (elim res_bindE reject_ifE) blast
  then have "list_all2 (\<lambda>x y. replica_validate x = Inr y) (replicas d) rs" by (simp only: mapM_Inr_iff)
  then show "\<forall>r\<in>set (replicas d). replica_fields r"
    by (induction rule: list_all2_induct) (auto simp: replica_validate_def)
qed (use assms in \<open>auto simp: deployment_validate_def Let_def list_ex_iff\<close>)

text \<open>Everything an evaluation has established once its preconditions passed.\<close>

definition probe_context ::
    "pylib \<Rightarrow> ActiveAssignmentManifestV2 \<Rightarrow> AssignmentManifestTrustPolicy \<Rightarrow> OrganicProbeAuthorization
     \<Rightarrow> OrganicDeploymentAssignment \<Rightarrow> OrganicAssignedReplica \<Rightarrow> bool" where
  "probe_context L m policy request d r \<longleftrightarrow>
     manifest_validate L m = Inr m \<and> policy_validate L policy = Inr policy
     \<and> authorization_validate request = Inr request \<and> h_policy_digest (header m) = tp_digest policy
     \<and> find_replica m (au_endpoint_id request) = Inr (d, r)
     \<and> au_generation request = generation r \<and> au_method request = hp_method (health d)
     \<and> au_path request = hp_path (health d)"

lemma authorization_validate_same: "authorization_validate a = Inr b \<Longrightarrow> b = a"
  by (simp add: authorization_validate_def)

lemma policy_validate_fields: "policy_validate L p = Inr q \<Longrightarrow> policy_fields p"
  unfolding policy_validate_def by (elim reject_ifE) simp

lemma probe_context_policy: "probe_context L m policy request d r \<Longrightarrow> policy_fields policy"
  using policy_validate_fields by (auto simp: probe_context_def)

lemma blank_fields:
  assumes ctx: "probe_context L m policy request d r"
    and tls: "opt_ok digest_text (result_tls result)" and sha: "\<forall>s. digest_text (sha256_hex L s)"
    and status: "opt_ok (in_range 100 599) st" and size: "in_range 0 1048577 n" and body: "opt_ok digest_text bd"
  shows "observation_fields (blank_observation m policy request d r result
           \<lparr>failure_code := fc, attribution := ab, upstream_marker := um, response_status := st,
            response_bytes := n, response_body_sha256 := bd, outcome := oc, attestation_status := ast,
            attestation := att, observation_digest := sha_json L j\<rparr>)"
proof -
  have m: "manifest_fields m" "deployment_validate L d = Inr d"
    and r: "r \<in> set (replicas d)" "endpoint_id r = au_endpoint_id request"
    using ctx find_replica_Inr manifest_validate_Inr(2,5) unfolding probe_context_def by blast+
  have "replica_fields r" "route_label (deployment_id d)" "digest_text (assignment_digest d)"
    using deployment_validate_Inr(2,3,5) [OF m(2)] r by auto
  moreover have "digest_text (tp_digest policy)"
    using probe_context_policy [OF ctx] by (simp add: policy_fields_def)
  ultimately show ?thesis
    using m ctx tls sha status size body
    by (auto simp: observation_fields_def blank_observation_def probe_context_def sha_json_def
        authorization_validate_def manifest_fields_def header_fields_def replica_fields_def)
qed

lemma fail_observation_total:
  assumes "observation_fields (o'\<lparr>failure_code := Some c, attribution := code_attribution c,
             observation_digest := sha_json L (JObj (observation_unsigned
               (o'\<lparr>failure_code := Some c, attribution := code_attribution c\<rparr>)))\<rparr>)"
    and "outcome o' = Failure" and "opt_ok (\<lambda>a. attestation_validate a = Inr a) (attestation o')"
    and "(attestation_status o' \<in> {FraudulentA, VerifiedA}) = (attestation o' \<noteq> None)"
    and "(attestation_status o' = FraudulentA) = (c = AttestationFraud)"
    and "attestation_status o' = VerifiedA \<longrightarrow> opt_ok (\<lambda>a.
          at_endpoint_id a = ob_endpoint_id o' \<and> at_probe_nonce a = probe_nonce o'
          \<and> at_validator_hotkey a = ob_validator_hotkey o'
          \<and> Some (at_response_status a) = response_status o'
          \<and> Some (at_response_body a) = response_body_sha256 o') (attestation o')"
    and "code_attribution c = Application \<longrightarrow> upstream_marker o'"
  shows "\<exists>p. fail_observation L o' c = Inr p"
  unfolding fail_observation_def
  by (rule seal_observation_ok) (use assms in \<open>simp add: observation_ok_def failure_attribution_def\<close>)

lemma evaluate_in_context:
  assumes "probe_context L m policy request d r"
  shows "evaluate_organic_probe L V m policy request result =
     (let o' = blank_observation m policy request d r result
      in if result_latency result > probe_timeout_millis policy then fail_observation L o' Timeout
         else (case result of
                 TransportFailure f \<Rightarrow> fail_observation L (o'\<lparr>response_status := tf_response_status f\<rparr>)
                                         (transport_failure_code (tf_code f))
               | Response response \<Rightarrow> judge_response L V policy o' request d r response))"
  using assms by (simp add: evaluate_organic_probe_def probe_context_def)

lemma evaluate_context:
  assumes "evaluate_organic_probe L V m policy request result = Inr p"
  obtains d r where "probe_context L m policy request d r"
proof -
  obtain m' p' q' where v: "manifest_validate L m = Inr m'" "policy_validate L policy = Inr p'"
      "authorization_validate request = Inr q'"
    using assms unfolding evaluate_organic_probe_def by (elim res_bindE) blast
  have "m' = m" "p' = policy" "q' = request"
    using v manifest_validate_Inr(1) policy_validate_same authorization_validate_same by blast+
  with v assms that show ?thesis
    unfolding evaluate_organic_probe_def probe_context_def
    by (auto simp: Let_def)
qed

lemmas blank_simps = blank_observation_def failure_attribution_def

text \<open>The identity part of an observation, as the blank document already has it.\<close>

definition identity_fields :: "OrganicProbeObservation \<Rightarrow> bool" where
  "identity_fields o' \<longleftrightarrow>
     hotkey_text (ob_validator_hotkey o') \<and> digest_text (ob_manifest_digest o')
     \<and> digest_text (ob_policy_digest o') \<and> route_label (ob_deployment_id o')
     \<and> digest_text (ob_assignment_digest o') \<and> endpoint_text (ob_endpoint_id o')
     \<and> in_range 1 max_epoch (ob_generation o') \<and> in_range 0 65535 (ob_miner_uid o')
     \<and> hotkey_text (ob_miner_hotkey o') \<and> digest_text (probe_nonce o') \<and> seconds_timestamp (issued_at o')
     \<and> http_method (request_method o') \<and> health_path (request_path o')
     \<and> in_range 0 3600000 (latency_millis o') \<and> opt_ok digest_text (tls_leaf_certificate o')"

lemma identity_fields_update [simp]:
  "identity_fields (o'\<lparr>failure_code := a\<rparr>) = identity_fields o'"
  "identity_fields (o'\<lparr>attribution := b\<rparr>) = identity_fields o'"
  "identity_fields (o'\<lparr>upstream_marker := c\<rparr>) = identity_fields o'"
  "identity_fields (o'\<lparr>response_status := d\<rparr>) = identity_fields o'"
  "identity_fields (o'\<lparr>response_bytes := e\<rparr>) = identity_fields o'"
  "identity_fields (o'\<lparr>response_body_sha256 := f\<rparr>) = identity_fields o'"
  "identity_fields (o'\<lparr>outcome := g\<rparr>) = identity_fields o'"
  "identity_fields (o'\<lparr>attestation_status := h\<rparr>) = identity_fields o'"
  "identity_fields (o'\<lparr>attestation := i\<rparr>) = identity_fields o'"
  "identity_fields (o'\<lparr>observation_digest := j\<rparr>) = identity_fields o'"
  by (simp_all add: identity_fields_def)

lemma observation_fields_split:
  "observation_fields o' \<longleftrightarrow> identity_fields o' \<and> opt_ok (in_range 100 599) (response_status o')
     \<and> in_range 0 1048577 (response_bytes o') \<and> opt_ok digest_text (response_body_sha256 o')
     \<and> digest_text (observation_digest o')"
  unfolding observation_fields_def identity_fields_def by blast

text \<open>
  An observation under construction: no outcome yet, and the attestation only present when
  it was verified or proved fraudulent.
\<close>

definition open_observation :: "OrganicProbeObservation \<Rightarrow> bool" where
  "open_observation o' \<longleftrightarrow>
     identity_fields o' \<and> outcome o' = Failure \<and> failure_code o' = None \<and> attribution o' = NoParty
     \<and> opt_ok (in_range 100 599) (response_status o') \<and> in_range 0 1048577 (response_bytes o')
     \<and> opt_ok digest_text (response_body_sha256 o') \<and> attestation_status o' = NotPresented
     \<and> attestation o' = None"

lemma blank_open:
  assumes "probe_context L m policy request d r" and "opt_ok digest_text (result_tls result)"
    and "\<forall>s. digest_text (sha256_hex L s)"
  shows "open_observation (blank_observation m policy request d r result)"
proof -
  have "identity_fields (blank_observation m policy request d r result)"
    using blank_fields [OF assms, of None 0 None] by (simp add: observation_fields_split)
  then show ?thesis by (simp add: open_observation_def blank_observation_def)
qed

lemma fail_open:
  assumes "open_observation o'" and "\<forall>s. digest_text (sha256_hex L s)"
    and "c \<noteq> AttestationFraud" and "code_attribution c = Application \<longrightarrow> upstream_marker o'"
  shows "\<exists>p. fail_observation L o' c = Inr p"
    and "\<exists>p. fail_observation L (o'\<lparr>attestation_status := RejectedA\<rparr>) c = Inr p"
  by (rule fail_observation_total;
      use assms in \<open>simp add: open_observation_def observation_fields_split sha_json_def\<close>)+

lemma judge_attestation_total:
  assumes o': "open_observation o'" and sha: "\<forall>s. digest_text (sha256_hex L s)"
    and a: "attestation_validate a = Inr a" and up: "upstream_marker o'"
    and stamp: "seconds_timestamp (au_issued_at request)"
    and bind: "ob_endpoint_id o' = endpoint_id r" "probe_nonce o' = au_nonce request"
      "ob_validator_hotkey o' = au_validator_hotkey request" "response_status o' = Some (pr_status result)"
      "response_body_sha256 o' = Some (sha256_hex L (pr_body result))"
  shows "\<exists>p. judge_attestation L V o' request d r result a = Inr p"
proof -
  obtain verdict where v: "verify_attestation_v2 L V a d r (au_validator_hotkey request) (au_nonce request)
      (au_method request) (au_path request) (au_issued_at request) (pr_status result)
      (sha256_hex L (pr_body result)) = Inr verdict"
    using verify_attestation_total [OF a stamp] by blast
  note O = o' [unfolded open_observation_def]
  show ?thesis
  proof (cases verdict)
    case Fraudulent
    have "\<exists>p. fail_observation L (o'\<lparr>attestation_status := FraudulentA, attestation := Some a\<rparr>)
            AttestationFraud = Inr p"
      by (rule fail_observation_total)
        (use O sha a in \<open>simp_all add: observation_fields_split sha_json_def\<close>)
    then show ?thesis using v Fraudulent by (simp add: judge_attestation_def)
  next
    case Verified
    note V' = verify_attestation_cases(3) [OF v Verified]
    let ?o = "o'\<lparr>attestation_status := VerifiedA, attestation := Some a\<rparr>"
    have fail: "\<exists>p. fail_observation L ?o c = Inr p" if "c \<noteq> AttestationFraud" for c
      by (rule fail_observation_total)
        (use O sha a that V' bind up in \<open>simp_all add: observation_fields_split sha_json_def\<close>)
    have ok: "\<exists>p. seal_observation L (?o\<lparr>outcome := Success\<rparr>) = Inr p"
      by (rule seal_observation_ok)
        (use O sha a V' bind up in \<open>simp add: observation_ok_def observation_fields_split sha_json_def
            failure_attribution_def\<close>)
    have "predicate_satisfied (health d) (pr_status result) (pr_body result) \<noteq> Some AttestationFraud"
      by (simp add: predicate_satisfied_def split: option.splits)
    then show ?thesis
      using v Verified fail ok by (auto simp: judge_attestation_def Let_def split: option.splits)
  next
    case ContentMismatch
    then show ?thesis
      using v fail_open(2) [OF o' sha, of AttestationInvalid] by (simp add: judge_attestation_def)
  next
    case SignatureInvalid
    then show ?thesis
      using v fail_open(2) [OF o' sha, of AttestationInvalid] by (simp add: judge_attestation_def)
  qed
qed

lemma judge_response_total:
  assumes o': "open_observation o'" and sha: "\<forall>s. digest_text (sha256_hex L s)"
    and stamp: "seconds_timestamp (au_issued_at request)"
    and bind: "ob_endpoint_id o' = endpoint_id r" "probe_nonce o' = au_nonce request"
      "ob_validator_hotkey o' = au_validator_hotkey request"
  shows "\<exists>p. judge_response L V policy o' request d r result = Inr p"
proof (cases "in_range 100 599 (pr_status result)")
  case False
  then show ?thesis
    using fail_open(1) [OF o' sha, of TransportError] by (auto simp: judge_response_def)
next
  case True
  define o1 where "o1 = o'\<lparr>response_status := Some (pr_status result),
                    response_bytes := min (int (length (pr_body result))) 1048577,
                    response_body_sha256 := Some (sha256_hex L (pr_body result))\<rparr>"
  define o2 where "o2 = o1\<lparr>upstream_marker := True\<rparr>"
  have o1: "open_observation o1" and o2: "open_observation o2"
    using o' True sha by (auto simp: open_observation_def o1_def o2_def)
  have up: "upstream_marker o2" by (simp add: o2_def)
  have one: "\<exists>p. fail_observation L o1 c = Inr p" if "code_attribution c = Path" for c
    using fail_open(1) [OF o1 sha, of c] that by (cases c) simp_all
  have two: "\<exists>p. fail_observation L o2 c = Inr p"
      "\<exists>p. fail_observation L (o2\<lparr>attestation_status := RejectedA\<rparr>) c = Inr p"
    if "c \<noteq> AttestationFraud" for c
    using fail_open [OF o2 sha that] up by auto
  have three: "\<exists>p. judge_attestation L V o2 request d r result a = Inr p"
    if "parse_attestation_v2_header L s = Inr a" for s a
    by (rule judge_attestation_total [OF o2 sha parse_attestation_valid [OF that] up stamp])
      (use bind in \<open>simp_all add: o1_def o2_def\<close>)
  show ?thesis
    unfolding judge_response_def o1_def [symmetric] o2_def [symmetric] Let_def
    using True one [of TlsPinMismatch] one [of EdgeGenerated] two three
    by (auto split: sum.splits)
qed

lemma fail_sealed: "fail_observation L o' c = Inr p \<Longrightarrow> observation_validate L p = Inr p"
  and seal_sealed: "seal_observation L o' = Inr p \<Longrightarrow> observation_validate L p = Inr p"
  by (auto simp: fail_observation_def seal_observation_def dest: observation_validate_Inr [THEN iffD1])

lemma judge_attestation_sealed:
  assumes "judge_attestation L V o' request d r result a = Inr p"
  shows "observation_validate L p = Inr p"
  using assms unfolding judge_attestation_def
proof (elim res_bindE)
  fix verdict
  assume "(case verdict of
       Fraudulent \<Rightarrow>
         fail_observation L (o'\<lparr>attestation_status := FraudulentA, attestation := Some a\<rparr>) AttestationFraud
     | Verified \<Rightarrow>
         let o'' = o'\<lparr>attestation_status := VerifiedA, attestation := Some a\<rparr>
         in (case predicate_satisfied (health d) (pr_status result) (pr_body result) of
               Some code \<Rightarrow> fail_observation L o'' code
             | None \<Rightarrow> seal_observation L (o''\<lparr>outcome := Success\<rparr>))
     | _ \<Rightarrow> fail_observation L (o'\<lparr>attestation_status := RejectedA\<rparr>) AttestationInvalid) = Inr p"
  then show ?thesis
    by (cases verdict) (auto simp: Let_def fail_sealed seal_sealed split: option.splits)
qed

lemma evaluate_sealed:
  assumes "evaluate_organic_probe L V m policy request result = Inr p"
  shows "observation_validate L p = Inr p"
proof -
  obtain d r where ctx: "probe_context L m policy request d r" by (rule evaluate_context [OF assms])
  show ?thesis
    using assms unfolding evaluate_in_context [OF ctx] judge_response_def Let_def
    by (auto simp: fail_sealed judge_attestation_sealed split: if_splits probe_result.splits sum.splits)
qed

lemma judgement_total:
  assumes "probe_context L m policy request d r" and "\<forall>s. digest_text (sha256_hex L s)"
    and "opt_ok digest_text (result_tls result)"
    and "case result of TransportFailure f \<Rightarrow> opt_ok (in_range 100 599) (tf_response_status f) | _ \<Rightarrow> True"
  shows "\<exists>p. evaluate_organic_probe L V m policy request result = Inr p
    \<and> observation_validate L p = Inr p"
proof -
  note o' = blank_open [OF assms(1,3,2)]
  let ?o = "blank_observation m policy request d r result"
  have "\<exists>p. evaluate_organic_probe L V m policy request result = Inr p"
  proof (cases "result_latency result > probe_timeout_millis policy")
    case True
    then show ?thesis
      using fail_open(1) [OF o' assms(2), of Timeout]
      by (simp add: evaluate_in_context [OF assms(1)] Let_def)
  next
    case False
    show ?thesis
    proof (cases result)
      case (TransportFailure f)
      have "open_observation (?o\<lparr>response_status := tf_response_status f\<rparr>)"
        using o' assms(4) TransportFailure by (simp add: open_observation_def)
      moreover have "transport_failure_code (tf_code f) \<noteq> AttestationFraud"
          "code_attribution (transport_failure_code (tf_code f)) = Path"
        by (cases "tf_code f"; simp)+
      ultimately show ?thesis
        using False TransportFailure fail_open(1) [OF _ assms(2)]
        by (simp add: evaluate_in_context [OF assms(1)] Let_def)
    next
      case (Response response)
      have req: "seconds_timestamp (au_issued_at request)" "au_endpoint_id request = endpoint_id r"
        using assms(1) find_replica_Inr
        by (auto simp: probe_context_def authorization_validate_def)
      have "\<exists>p. judge_response L V policy ?o request d r response = Inr p"
        by (rule judge_response_total [OF o' assms(2) req(1)]) (simp_all add: blank_observation_def)
      then show ?thesis
        using False Response by (simp add: evaluate_in_context [OF assms(1)] Let_def)
    qed
  qed
  then show ?thesis using evaluate_sealed by blast
qed

text \<open>
  Judging a probe always ends in a sealed observation. For a validated manifest and
  policy and an authorization of a published endpoint, whatever the transport returned (any
  status, headers, body, latency; any attestation header), \<^verbatim>\<open>evaluate_organic_probe\<close>
  raises nothing: the record it builds satisfies every rule of its own validator and
  carries its digest. Assumed of the inputs: certificate fingerprints are digests and a
  transport failure reports a status in range.
\<close>

theorem probe_judgement_total:
  assumes "probe_context L m policy request d r" and "\<forall>s. digest_text (sha256_hex L s)"
    and "opt_ok digest_text (result_tls result)"
    and "case result of TransportFailure f \<Rightarrow> opt_ok (in_range 100 599) (tf_response_status f) | _ \<Rightarrow> True"
  shows "\<exists>p. evaluate_organic_probe L V m policy request result = Inr p
    \<and> observation_validate L p = Inr p"
  using assms by (rule judgement_total)

lemma fail_observation_closed:
  "fail_observation L o' c = Inr p \<Longrightarrow>
     outcome p = outcome o' \<and> failure_code p = Some c
     \<and> attestation_status p = attestation_status o' \<and> attestation p = attestation o'"
  by (auto simp: fail_observation_def seal_observation_Inr)

text \<open>The verdict an attestation gets in the context of one request.\<close>

abbreviation request_verdict ::
    "pylib \<Rightarrow> ed25519 \<Rightarrow> OrganicProbeAuthorization \<Rightarrow> OrganicDeploymentAssignment \<Rightarrow> OrganicAssignedReplica
     \<Rightarrow> ProbeResponse \<Rightarrow> MinerProbeAttestationV2 \<Rightarrow> attestation_verdict res" where
  "request_verdict L V request d r response a \<equiv>
     verify_attestation_v2 L V a d r (au_validator_hotkey request) (au_nonce request)
       (au_method request) (au_path request) (au_issued_at request) (pr_status response)
       (sha256_hex L (pr_body response))"

lemma judge_attestation_outcome:
  assumes "judge_attestation L V o' request d r response a = Inr p" and "outcome o' = Failure"
  shows "outcome p = Success \<longleftrightarrow> request_verdict L V request d r response a = Inr Verified
           \<and> predicate_satisfied (health d) (pr_status response) (pr_body response) = None"
    and "attestation_status o' \<noteq> FraudulentA \<Longrightarrow> attestation_status p = FraudulentA \<longleftrightarrow>
           request_verdict L V request d r response a = Inr Fraudulent"
    and "attestation_status p = FraudulentA \<Longrightarrow> attestation_status o' \<noteq> FraudulentA \<Longrightarrow> attestation p = Some a"
proof -
  obtain verdict where v: "request_verdict L V request d r response a = Inr verdict"
    using assms(1) unfolding judge_attestation_def by (elim res_bindE) blast
  show "outcome p = Success \<longleftrightarrow> request_verdict L V request d r response a = Inr Verified
           \<and> predicate_satisfied (health d) (pr_status response) (pr_body response) = None"
    "attestation_status o' \<noteq> FraudulentA \<Longrightarrow> attestation_status p = FraudulentA \<longleftrightarrow>
           request_verdict L V request d r response a = Inr Fraudulent"
    "attestation_status p = FraudulentA \<Longrightarrow> attestation_status o' \<noteq> FraudulentA \<Longrightarrow> attestation p = Some a"
    using assms v unfolding judge_attestation_def
    by (cases verdict;
        auto simp: Let_def seal_observation_Inr dest!: fail_observation_closed split: option.splits)+
qed

text \<open>The response reached the attestation check, and its single attestation parsed.\<close>

definition attested ::
    "pylib \<Rightarrow> AssignmentManifestTrustPolicy \<Rightarrow> ProbeResponse \<Rightarrow> MinerProbeAttestationV2 \<Rightarrow> bool" where
  "attested L policy response a \<longleftrightarrow>
     pr_latency_millis response \<le> probe_timeout_millis policy \<and> in_range 100 599 (pr_status response)
     \<and> (pinned_edge_leaf_certificate_sha256 policy \<noteq> [] \<longrightarrow>
          (\<exists>c\<in>set (pinned_edge_leaf_certificate_sha256 policy). pr_tls_leaf response = Some c))
     \<and> header_values (pr_headers response) ''x-miss-edge-upstream'' = [''replica'']
     \<and> int (length (pr_body response)) \<le> max_response_bytes policy
     \<and> (\<exists>h. header_values (pr_headers response) ''x-miss-probe-attestation'' = [h]
          \<and> parse_attestation_v2_header L h = Inr a)"

lemma evaluate_attested:
  assumes "evaluate_organic_probe L V m policy request result = Inr p"
    and "probe_context L m policy request d r"
  obtains (attested) response a o' where "result = Response response" and "attested L policy response a"
      and "judge_attestation L V o' request d r response a = Inr p"
      and "outcome o' = Failure" and "attestation_status o' = NotPresented"
    | (failed) "outcome p = Failure" and "attestation_status p \<noteq> FraudulentA"
        and "\<nexists>response a. result = Response response \<and> attested L policy response a"
proof (cases "\<exists>response a. result = Response response \<and> attested L policy response a")
  case True
  then obtain response a where ra: "result = Response response" "attested L policy response a" by blast
  then obtain h where h: "header_values (pr_headers response) ''x-miss-probe-attestation'' = [h]"
      "parse_attestation_v2_header L h = Inr a" by (auto simp: attested_def)
  have "\<exists>o'. judge_attestation L V o' request d r response a = Inr p \<and> outcome o' = Failure
          \<and> attestation_status o' = NotPresented"
    using assms(1) ra h unfolding evaluate_in_context [OF assms(2)] judge_response_def
    by (force simp: attested_def Let_def blank_observation_def split: if_splits option.splits)
  then show ?thesis using attested ra by blast
next
  case False
  have "outcome p = Failure \<and> attestation_status p \<noteq> FraudulentA"
    using assms(1) False unfolding evaluate_in_context [OF assms(2)] judge_response_def
    by (auto simp: Let_def attested_def blank_observation_def length_Suc_conv
        split: if_splits probe_result.splits sum.splits option.splits dest!: fail_observation_closed)
  then show ?thesis using failed False by blast
qed

text \<open>
  C27: A success needs everything. A judged probe is recorded as a success exactly when the
  response arrived in time, with a valid status, from a pinned edge certificate if any is
  pinned, carrying the edge's upstream marker once, within the size bound, with exactly one
  attestation header that is the canonical rendering of a valid attestation; that
  attestation verifies against the replica, the request and the bytes received; and the
  customer's own predicate (expected status, marker in the first 64 KiB) holds.
\<close>

theorem probe_success_exact:
  assumes "evaluate_organic_probe L V m policy request result = Inr p"
    and "probe_context L m policy request d r"
  shows "outcome p = Success \<longleftrightarrow>
    (\<exists>response a. result = Response response \<and> attested L policy response a
       \<and> request_verdict L V request d r response a = Inr Verified
       \<and> pr_status response \<in> set (expected_statuses (health d))
       \<and> opt_ok (\<lambda>marker. contains marker (take 65536 (pr_body response))) (response_marker (health d)))"
  using assms
proof (cases rule: evaluate_attested)
  case (attested response a o')
  have uniq: "attested L policy response b \<Longrightarrow> b = a" for b
    using attested(2) by (auto simp: attested_def)
  have "predicate_satisfied (health d) (pr_status response) (pr_body response) = None \<longleftrightarrow>
      pr_status response \<in> set (expected_statuses (health d))
      \<and> opt_ok (\<lambda>marker. contains marker (take 65536 (pr_body response))) (response_marker (health d))"
    by (auto simp: predicate_satisfied_def split: option.splits)
  moreover note judge_attestation_outcome(1) [OF attested(3,4)]
  ultimately show ?thesis using attested(1,2) by (auto dest: uniq)
next
  case failed
  then show ?thesis by auto
qed

text \<open>
  C16: Fraud is always attributable to a miner's key. An observation marked fraudulent embeds
  an attestation whose Ed25519 signature verifies under the service key that the manifest
  publishes for the probed replica, and that statement is about another endpoint
  incarnation, ticket, artifact, validator, nonce or request, or was made outside the
  authorization window. A transport failure, an edge response, an unsigned or altered
  response or a failed predicate is never recorded as fraud.
\<close>

theorem probe_fraud_attributable:
  assumes "evaluate_organic_probe L V m policy request result = Inr p"
    and "probe_context L m policy request d r" and "attestation_status p = FraudulentA"
  shows "\<exists>a issued observed. attestation p = Some a
    \<and> verify_miner_probe_attestation_v2 L V a (miner_service_public_key r)
    \<and> rfc3339nano_instant (au_issued_at request) = Inr issued
    \<and> rfc3339nano_instant (observed_at a) = Inr observed
    \<and> (at_endpoint_id a \<noteq> endpoint_id r \<or> at_generation a \<noteq> generation r
       \<or> at_ticket_digest a \<noteq> ticket_digest r \<or> at_artifact_digest a \<noteq> artifact_digest d
       \<or> at_validator_hotkey a \<noteq> au_validator_hotkey request \<or> at_probe_nonce a \<noteq> au_nonce request
       \<or> at_request_method a \<noteq> au_method request \<or> at_request_path a \<noteq> au_path request
       \<or> \<not> in_range (issued - 2000000000) (issued + 32000000000) observed)"
  using assms(1,2)
proof (cases rule: evaluate_attested)
  case (attested response a o')
  have v: "request_verdict L V request d r response a = Inr Fraudulent" and a: "attestation p = Some a"
    using judge_attestation_outcome(2,3) [OF attested(3,4)] attested(5) assms(3) by auto
  show ?thesis
    using v a verify_attestation_cases(1) [OF v] unfolding verify_attestation_v2_def
    by (auto split: if_splits)
next
  case failed
  then show ?thesis using assms(3) by simp
qed

section \<open>The schedule\<close>

text \<open>Where one probe of the epoch may fire.\<close>

definition well_placed ::
    "ActiveAssignmentManifestV2 \<Rightarrow> int \<Rightarrow> int \<Rightarrow> int \<Rightarrow> PlannedProbe \<Rightarrow> bool" where
  "well_placed m epoch_index epoch_seconds probes p \<longleftrightarrow>
     (\<exists>d\<in>set (deployments m). \<exists>r\<in>set (replicas d).
        pp_deployment_id p = deployment_id d \<and> pp_endpoint_id p = endpoint_id r
        \<and> pp_generation p = generation r \<and> pp_method p = hp_method (health d) \<and> pp_path p = hp_path (health d))
     \<and> in_range 0 (probes - 1) (probe_index p)
     \<and> (let slot = epoch_seconds * 1000 div probes;
            start = epoch_index * (epoch_seconds * 1000) + probe_index p * slot
        in start \<le> fire_at_millis p \<and> fire_at_millis p < start + slot)
     \<and> epoch_index_of (fire_at_millis p div 1000) epoch_seconds = epoch_index
     \<and> organic_manifest_valid_at m (fire_at_millis p div 1000)"

lemma slice_in_epoch:
  fixes e s k i t :: int
  assumes "0 < s" and "0 < k" and "0 \<le> i" and "i \<le> k - 1"
    and "e * (s * 1000) + i * (s * 1000 div k) \<le> t"
    and "t < e * (s * 1000) + i * (s * 1000 div k) + s * 1000 div k"
  shows "t div 1000 div s = e"
proof -
  let ?w = "s * 1000 div k"
  have w: "0 \<le> ?w" "?w * k \<le> s * 1000"
    using assms(1) div_mult_mod_eq [of "s * 1000" k] pos_mod_sign [OF assms(2), of "s * 1000"]
      pos_imp_zdiv_nonneg_iff [OF assms(2), of "s * 1000"] by linarith+
  have "(i + 1) * ?w \<le> k * ?w" using assms(4) w(1) by (intro mult_right_mono) auto
  then have "i * ?w + ?w \<le> s * 1000" using w(2) by (simp add: algebra_simps)
  moreover have "0 \<le> i * ?w" using assms(3) w(1) by simp
  ultimately have t: "e * (s * 1000) \<le> t" "t < e * (s * 1000) + s * 1000"
    using assms(5,6) by linarith+
  have "t div 1000 div s = t div (1000 * s)" using assms(1) by (simp add: zdiv_zmult2_eq)
  also have "\<dots> = e"
    using t assms(1) by (intro int_div_pos_eq [where r = "t - e * (s * 1000)"]) (auto simp: algebra_simps)
  finally show ?thesis .
qed

lemma plan_one_placed:
  assumes "plan_one L seed v m e s k ps (d, r, i) = Inr ps'" and "\<forall>p\<in>set ps. well_placed m e s k p"
    and "d \<in> set (deployments m)" and "r \<in> set (replicas d)" and "0 \<le> i" and "i \<le> k - 1"
    and "60 \<le> s" and "1 \<le> k" and "k \<le> 16"
  shows "\<forall>p\<in>set ps'. well_placed m e s k p"
proof -
  let ?slot = "s * 1000 div k"
  define fire where "fire = e * (s * 1000) + i * ?slot
    + be_value (take 8 (unhex (hmac_sha256_hex L seed
        (''miss.computer/misscomputer-subnet/organic-probe-schedule/v1'' @ [CHR 0x00]
          @ schedule_context L v m e s r i)))) mod ?slot"
  have "k \<le> s * 1000" using assms(7,9) by simp
  then have slot: "0 < ?slot" using assms(8) by (simp add: pos_imp_zdiv_pos_iff)
  have slice: "e * (s * 1000) + i * ?slot \<le> fire" "fire < e * (s * 1000) + i * ?slot + ?slot"
    unfolding fire_def using pos_mod_bound [OF slot] pos_mod_sign [OF slot] by simp_all
  have epoch: "fire div 1000 div s = e"
    using slice assms(5-8) by (intro slice_in_epoch [of s k i]) auto
  have valid: "organic_manifest_valid_at m (fire div 1000)"
    if "issued_at_epoch (header m) * 1000 \<le> fire"
      "fire < organic_manifest_effective_expires_at_epoch m * 1000"
    using that unfolding organic_manifest_valid_at_def by linarith
  have "ps' = ps \<or> (\<exists>p. ps' = ps @ [p] \<and> pp_deployment_id p = deployment_id d
      \<and> pp_endpoint_id p = endpoint_id r \<and> pp_generation p = generation r
      \<and> pp_method p = hp_method (health d) \<and> pp_path p = hp_path (health d)
      \<and> probe_index p = i \<and> fire_at_millis p = fire \<and> organic_manifest_valid_at m (fire div 1000))"
    using assms(1) valid unfolding plan_one_def prod.case Let_def fire_def [symmetric]
    by (auto split: if_splits)
  moreover have "well_placed m e s k p" if "pp_deployment_id p = deployment_id d"
      "pp_endpoint_id p = endpoint_id r" "pp_generation p = generation r"
      "pp_method p = hp_method (health d)" "pp_path p = hp_path (health d)" "probe_index p = i"
      "fire_at_millis p = fire" "organic_manifest_valid_at m (fire div 1000)" for p
    unfolding well_placed_def Let_def epoch_index_of_def that(6,7) epoch
    using that assms(3-6) slice by blast
  ultimately show ?thesis using assms(2) by auto
qed

text \<open>
  The hidden schedule is well placed. Every planned probe names a published endpoint
  with its generation and predicate, has its own equal slice of the epoch, fires inside that
  slice, hence inside the epoch it will be scored in, and inside the validity horizon of the
  manifest; and the plan is ordered by fire time.
\<close>

theorem hidden_schedule_placed:
  assumes "plan_hidden_probes L seed validator m epoch_index epoch_seconds probes = Inr ps"
  shows "(\<forall>p\<in>set ps. well_placed m epoch_index epoch_seconds probes p)
    \<and> sorted (map fire_at_millis ps)"
proof -
  let ?xs = "concat (map (\<lambda>d. concat (map (\<lambda>r. map (\<lambda>i. (d, r, i)) [0..probes - 1]) (replicas d))) (deployments m))"
  obtain m' planned where m': "manifest_validate L m = Inr m'"
    and run: "foldM (plan_one L seed validator m' epoch_index epoch_seconds probes) [] 
       (concat (map (\<lambda>d. concat (map (\<lambda>r. map (\<lambda>i. (d, r, i)) [0..probes - 1]) (replicas d))) (deployments m'))) = Inr planned"
    and ps: "ps = sort_key plan_order planned"
    and b: "60 \<le> epoch_seconds" "1 \<le> probes" "probes \<le> 16"
    using assms unfolding plan_hidden_probes_def by auto
  have same: "m' = m" by (rule manifest_validate_Inr(1) [OF m'])
  have "\<forall>p\<in>set planned. well_placed m epoch_index epoch_seconds probes p"
    using run unfolding same
  proof (rule foldM_invariant)
    fix ys x u u'
    assume "\<forall>p\<in>set u. well_placed m epoch_index epoch_seconds probes p" and "x \<in> set ?xs"
      and "plan_one L seed validator m epoch_index epoch_seconds probes u x = Inr u'"
    then show "\<forall>p\<in>set u'. well_placed m epoch_index epoch_seconds probes p"
      using plan_one_placed b by (cases x) fastforce
  qed simp
  moreover have "sorted (map fire_at_millis ps)"
  proof -
    have "sorted (map plan_order ps)" by (simp add: ps)
    then show ?thesis
      by (simp add: sorted_map sorted_wrt_map plan_order_def)
         (erule sorted_wrt_mono_rel [rotated], auto simp: less_eq_prod_def)
  qed
  ultimately show ?thesis by (simp add: ps)
qed

end
