(* ===== verification/OrganicScores.thy ===== *)
theory OrganicScores
  imports OrganicProbes
begin

text \<open>
  Organic availability scoring, \<^verbatim>\<open>organic_scoring.py\<close>: the derivation of one epoch from
  sealed observations (\<open>derive_epoch\<close>), the sealed epoch record and its validator, scoring
  against manifests, replay, and the aggregation of a window of epochs into one availability
  per miner. Python's \<^verbatim>\<open>Fraction\<close> is \<open>rat\<close>; a \<^verbatim>\<open>defaultdict\<close> is a total function with
  its keys in order of insertion.
\<close>

section \<open>Records\<close>

abbreviation max_observations :: int where "max_observations \<equiv> 524288"
abbreviation max_endpoints :: nat where "max_endpoints \<equiv> 32768"
abbreviation max_epochs :: nat where "max_epochs \<equiv> 2016"

record ServingCorroboration =
  sc_endpoint_id :: string
  window_start_epoch :: int
  window_digest :: string
  requests :: int
  origin :: bool

definition corroboration_document :: "ServingCorroboration \<Rightarrow> json" where
  "corroboration_document w = JObj
     [(''endpoint_id'', JStr (sc_endpoint_id w)), (''window_start_epoch'', JInt (window_start_epoch w)),
      (''window_digest_sha256'', JStr (window_digest w)), (''requests'', JInt (requests w)),
      (''origin'', JBool (origin w))]"

definition corroboration_validate :: "ServingCorroboration \<Rightarrow> ServingCorroboration res" where
  "corroboration_validate w =
     reject_if (\<not> (endpoint_text (sc_endpoint_id w) \<and> in_range 0 max_epoch (window_start_epoch w)
                   \<and> digest_text (window_digest w) \<and> in_range 0 max_epoch (requests w)))
       strict_error (Inr w)"

datatype disposition =
  AbstainInsufficientAttempts | Eligible | ExcludedAppInconclusive | ExcludedCommonMode

fun disposition_text :: "disposition \<Rightarrow> string" where
  "disposition_text AbstainInsufficientAttempts = ''abstain_insufficient_attempts''"
| "disposition_text Eligible = ''eligible''"
| "disposition_text ExcludedAppInconclusive = ''excluded_app_inconclusive''"
| "disposition_text ExcludedCommonMode = ''excluded_common_mode''"

datatype epoch_status = CommonModeUnavailable | NoEligibleEndpoints | Scored

fun epoch_status_text :: "epoch_status \<Rightarrow> string" where
  "epoch_status_text CommonModeUnavailable = ''common_mode_unavailable''"
| "epoch_status_text NoEligibleEndpoints = ''no_eligible_endpoints''"
| "epoch_status_text Scored = ''scored''"

record EndpointEpochTally =
  te_deployment_id :: string
  te_endpoint_id :: string
  te_miner_uid :: int
  te_miner_hotkey :: string
  attempts :: int
  successes :: int
  application_failures :: int
  miner_failures :: int
  path_failures :: int
  fraudulent_attestations :: int
  disposition :: disposition
  availability_numerator :: "int option"
  availability_denominator :: "int option"
  corroborating_windows :: int
  corroborating_requests :: int

definition tally_document :: "EndpointEpochTally \<Rightarrow> json" where
  "tally_document t = JObj
     [(''deployment_id'', JStr (te_deployment_id t)), (''endpoint_id'', JStr (te_endpoint_id t)),
      (''miner_uid'', JInt (te_miner_uid t)), (''miner_hotkey'', JStr (te_miner_hotkey t)),
      (''attempts'', JInt (attempts t)), (''successes'', JInt (successes t)),
      (''application_failures'', JInt (application_failures t)),
      (''miner_failures'', JInt (miner_failures t)), (''path_failures'', JInt (path_failures t)),
      (''fraudulent_attestations'', JInt (fraudulent_attestations t)),
      (''disposition'', JStr (disposition_text (disposition t))),
      (''availability_numerator'', jint_opt (availability_numerator t)),
      (''availability_denominator'', jint_opt (availability_denominator t)),
      (''corroborating_windows'', JInt (corroborating_windows t)),
      (''corroborating_requests'', JInt (corroborating_requests t))]"

definition tally_fields :: "EndpointEpochTally \<Rightarrow> bool" where
  "tally_fields t \<longleftrightarrow>
     dns_label (te_deployment_id t) \<and> endpoint_text (te_endpoint_id t) \<and> in_range 0 65535 (te_miner_uid t)
     \<and> hotkey_text (te_miner_hotkey t) \<and> in_range 0 max_observations (attempts t)
     \<and> in_range 0 max_observations (successes t) \<and> in_range 0 max_observations (application_failures t)
     \<and> in_range 0 max_observations (miner_failures t) \<and> in_range 0 max_observations (path_failures t)
     \<and> in_range 0 max_observations (fraudulent_attestations t)
     \<and> opt_ok (in_range 0 max_observations) (availability_numerator t)
     \<and> opt_ok (in_range 0 max_observations) (availability_denominator t)
     \<and> in_range 0 64 (corroborating_windows t) \<and> in_range 0 max_epoch (corroborating_requests t)"

record FraudEvidence =
  fe_miner_uid :: int
  fe_miner_hotkey :: string
  fe_endpoint_id :: string
  fe_observation_digest :: string

definition fraud_document :: "FraudEvidence \<Rightarrow> json" where
  "fraud_document f = JObj
     [(''miner_uid'', JInt (fe_miner_uid f)), (''miner_hotkey'', JStr (fe_miner_hotkey f)),
      (''endpoint_id'', JStr (fe_endpoint_id f)),
      (''observation_digest_sha256'', JStr (fe_observation_digest f))]"

definition fraud_fields :: "FraudEvidence \<Rightarrow> bool" where
  "fraud_fields f \<longleftrightarrow>
     in_range 0 65535 (fe_miner_uid f) \<and> hotkey_text (fe_miner_hotkey f)
     \<and> endpoint_text (fe_endpoint_id f) \<and> digest_text (fe_observation_digest f)"

text \<open>The mutable tally of one endpoint and the state of the loop over the observations.\<close>

record tally =
  ta_deployment_id :: string
  ta_miner_uid :: int
  ta_miner_hotkey :: string
  ta_attempts :: int
  counts :: "attribution \<Rightarrow> int"
  fraud_count :: int

record epoch_state =
  tally_keys :: "string list"
  tallies :: "string \<rightharpoonup> tally"
  fraud :: "FraudEvidence list"
  identities :: "int \<rightharpoonup> string"
  hotkeys :: "string \<rightharpoonup> int"

record derived_epoch =
  epoch_status :: epoch_status
  sampled_endpoint_count :: int
  path_unavailable_endpoint_count :: int
  inconclusive_deployments :: "string list"
  endpoints :: "EndpointEpochTally list"
  fraud_evidence :: "FraudEvidence list"

section \<open>One epoch\<close>

definition new_tally :: "OrganicProbeObservation \<Rightarrow> tally" where
  "new_tally item =
     \<lparr>ta_deployment_id = ob_deployment_id item, ta_miner_uid = ob_miner_uid item,
      ta_miner_hotkey = ob_miner_hotkey item, ta_attempts = 0, counts = (\<lambda>_. 0), fraud_count = 0\<rparr>"

definition count_attempt :: "OrganicProbeObservation \<Rightarrow> tally \<Rightarrow> tally" where
  "count_attempt item t =
     t\<lparr>ta_attempts := ta_attempts t + 1,
       counts := (counts t)(attribution item := counts t (attribution item) + 1),
       fraud_count := fraud_count t + (if attestation_status item = FraudulentA then 1 else 0)\<rparr>"

definition fraud_of :: "OrganicProbeObservation \<Rightarrow> FraudEvidence" where
  "fraud_of item =
     \<lparr>fe_miner_uid = ob_miner_uid item, fe_miner_hotkey = ob_miner_hotkey item,
      fe_endpoint_id = ob_endpoint_id item, fe_observation_digest = observation_digest item\<rparr>"

definition epoch_step :: "int \<Rightarrow> int \<Rightarrow> epoch_state \<Rightarrow> OrganicProbeObservation \<Rightarrow> epoch_state res" where
  "epoch_step epoch_seconds epoch_index s item =
     res_bind (timestamp_epoch_seconds (issued_at item)) (\<lambda>seconds.
     reject_if (epoch_index_of seconds epoch_seconds \<noteq> epoch_index) (ScoringError ''scoring_epoch_mismatch'')
     (reject_if (rebinds (identities s) (ob_miner_uid item) (ob_miner_hotkey item)
                 \<or> rebinds (hotkeys s) (ob_miner_hotkey item) (ob_miner_uid item))
        (ScoringError ''scoring_identity_conflict'')
     (let known = tallies s (ob_endpoint_id item);
          tally = (case known of None \<Rightarrow> new_tally item | Some t \<Rightarrow> t)
      in reject_if ((ta_deployment_id tally, ta_miner_uid tally, ta_miner_hotkey tally)
                    \<noteq> (ob_deployment_id item, ob_miner_uid item, ob_miner_hotkey item))
           (ScoringError ''scoring_identity_conflict'')
         (reject_if (ta_attempts tally + 1 > 16) (ScoringError ''scoring_attempts_overflow'')
         (Inr \<lparr>tally_keys = (if known = None then tally_keys s @ [ob_endpoint_id item] else tally_keys s),
               tallies = (tallies s)(ob_endpoint_id item \<mapsto> count_attempt item tally),
               fraud = (if attestation_status item = FraudulentA then fraud s @ [fraud_of item] else fraud s),
               identities = setdefault (identities s) (ob_miner_uid item) (ob_miner_hotkey item),
               hotkeys = setdefault (hotkeys s) (ob_miner_hotkey item) (ob_miner_uid item)\<rparr>)))))"

definition empty_epoch :: epoch_state where
  "empty_epoch = \<lparr>tally_keys = [], tallies = Map.empty, fraud = [], identities = Map.empty, hotkeys = Map.empty\<rparr>"

text \<open>
  The corroborating windows of one endpoint: inside the epoch, not at the origin, one for
  each digest (the last one supplied), in digest order, the first 64.
\<close>

definition endpoint_windows ::
    "int \<Rightarrow> int \<Rightarrow> ServingCorroboration list \<Rightarrow> string \<Rightarrow> ServingCorroboration list" where
  "endpoint_windows epoch_seconds epoch_index corroboration endpoint =
     (let start = epoch_index * epoch_seconds;
          kvs = map (\<lambda>w. (window_digest w, w))
            (filter (\<lambda>w. \<not> origin w \<and> sc_endpoint_id w = endpoint
                         \<and> start \<le> window_start_epoch w \<and> window_start_epoch w < start + epoch_seconds)
               corroboration)
      in take 64 (map (\<lambda>k. the (dict_of kvs k)) (sorted_set (map fst kvs))))"

definition judge_endpoint ::
    "bool \<Rightarrow> string list \<Rightarrow> int \<Rightarrow> (string \<Rightarrow> ServingCorroboration list) \<Rightarrow> string \<Rightarrow> tally \<Rightarrow> EndpointEpochTally" where
  "judge_endpoint common_mode inconclusive min_attempts windows endpoint t =
     (let verdict = (if common_mode then ExcludedCommonMode
                     else if ta_deployment_id t \<in> set inconclusive then ExcludedAppInconclusive
                     else if ta_attempts t < min_attempts then AbstainInsufficientAttempts
                     else Eligible);
          ratio = quotient_of (of_int (counts t NoParty) / of_int (ta_attempts t))
      in \<lparr>te_deployment_id = ta_deployment_id t, te_endpoint_id = endpoint,
          te_miner_uid = ta_miner_uid t, te_miner_hotkey = ta_miner_hotkey t,
          attempts = ta_attempts t, successes = counts t NoParty,
          application_failures = counts t Application, miner_failures = counts t Miner,
          path_failures = counts t Path, fraudulent_attestations = fraud_count t,
          disposition = verdict,
          availability_numerator = (if verdict = Eligible then Some (fst ratio) else None),
          availability_denominator = (if verdict = Eligible then Some (snd ratio) else None),
          corroborating_windows = int (length (windows endpoint)),
          corroborating_requests = sum_list (map requests (windows endpoint))\<rparr>)"

text \<open>What follows the loop.\<close>

definition conclude_epoch ::
    "int \<Rightarrow> int \<Rightarrow> int \<Rightarrow> ServingCorroboration list \<Rightarrow> epoch_state \<Rightarrow> derived_epoch" where
  "conclude_epoch epoch_seconds epoch_index min_attempts corroboration s =
     (let tally_of = (\<lambda>k. the (tallies s k));
          values = map tally_of (tally_keys s);
          sampled = length values;
          path_down = length (filter (\<lambda>t. counts t Path = ta_attempts t) values);
          common_mode = (sampled > 0 \<and> path_down * 2 > sampled);
          failing = map ta_deployment_id (filter (\<lambda>t. counts t Application > 0) values);
          inconclusive = sorted_set (filter (\<lambda>d. count_list failing d \<ge> 2) failing);
          judged = map (\<lambda>k. judge_endpoint common_mode inconclusive min_attempts
                       (endpoint_windows epoch_seconds epoch_index corroboration) k (tally_of k))
                     (sort (tally_keys s));
          eligible = length (filter (\<lambda>e. disposition e = Eligible) judged)
      in \<lparr>epoch_status = (if common_mode then CommonModeUnavailable
                          else if eligible = 0 then NoEligibleEndpoints else Scored),
          sampled_endpoint_count = int sampled, path_unavailable_endpoint_count = int path_down,
          inconclusive_deployments = inconclusive, endpoints = judged,
          fraud_evidence = sort_key fe_observation_digest (fraud s)\<rparr>)"

definition derive_epoch ::
    "OrganicProbeObservation list \<Rightarrow> ServingCorroboration list \<Rightarrow> int \<Rightarrow> int \<Rightarrow> int \<Rightarrow> derived_epoch res" where
  "derive_epoch observations corroboration epoch_seconds epoch_index min_attempts =
     res_bind (foldM (epoch_step epoch_seconds epoch_index) empty_epoch observations) (\<lambda>s.
     Inr (conclude_epoch epoch_seconds epoch_index min_attempts corroboration s))"

definition observation_order :: "OrganicProbeObservation \<Rightarrow> string \<times> string \<times> string" where
  "observation_order item = (ob_endpoint_id item, issued_at item, probe_nonce item)"

section \<open>The sealed epoch record\<close>

record OrganicEpochScore =
  es_validator_hotkey :: string
  epoch_seconds :: int
  epoch_index :: int
  min_attempts :: int
  manifest_digests :: "string list"
  derived :: derived_epoch
  corroboration :: "ServingCorroboration list"
  observations :: "OrganicProbeObservation list"
  observation_vector_digest :: string
  epoch_score_digest :: string

definition derived_document :: "derived_epoch \<Rightarrow> (string \<times> json) list" where
  "derived_document d =
     [(''epoch_status'', JStr (epoch_status_text (epoch_status d))),
      (''sampled_endpoint_count'', JInt (sampled_endpoint_count d)),
      (''path_unavailable_endpoint_count'', JInt (path_unavailable_endpoint_count d)),
      (''inconclusive_deployments'', JList (map JStr (inconclusive_deployments d))),
      (''endpoints'', JList (map tally_document (endpoints d))),
      (''fraud_evidence'', JList (map fraud_document (fraud_evidence d)))]"

definition epoch_unsigned :: "OrganicEpochScore \<Rightarrow> (string \<times> json) list" where
  "epoch_unsigned e =
     [(''schema'', JStr ''miss.computer/misscomputer-subnet/organic-epoch-score''),
      (''schema_version'', JInt 1), (''purpose'', JStr ''organic_availability_scoring_v1''),
      (''network'', JStr ''finney''), (''netuid'', JInt 24),
      (''validator_hotkey'', JStr (es_validator_hotkey e)), (''epoch_seconds'', JInt (epoch_seconds e)),
      (''epoch_index'', JInt (epoch_index e)), (''min_attempts'', JInt (min_attempts e)),
      (''manifest_digests'', JList (map JStr (manifest_digests e)))]
     @ derived_document (derived e)
     @ [(''corroboration'', JList (map corroboration_document (corroboration e))),
        (''observations'', JList (map observation_document (observations e))),
        (''observation_vector_digest_sha256'', JStr (observation_vector_digest e))]"

definition epoch_document :: "OrganicEpochScore \<Rightarrow> json" where
  "epoch_document e =
     JObj (epoch_unsigned e @ [(''epoch_score_digest_sha256'', JStr (epoch_score_digest e))])"

definition epoch_fields :: "OrganicEpochScore \<Rightarrow> bool" where
  "epoch_fields e \<longleftrightarrow>
     hotkey_text (es_validator_hotkey e) \<and> in_range 60 3600 (epoch_seconds e)
     \<and> in_range 0 4611686018427387904 (epoch_index e) \<and> in_range 1 16 (min_attempts e)
     \<and> length (manifest_digests e) \<le> 1024 \<and> list_all digest_text (manifest_digests e)
     \<and> in_range 0 max_observations (sampled_endpoint_count (derived e))
     \<and> in_range 0 max_observations (path_unavailable_endpoint_count (derived e))
     \<and> length (inconclusive_deployments (derived e)) \<le> 4096
     \<and> list_all dns_label (inconclusive_deployments (derived e))
     \<and> length (endpoints (derived e)) \<le> max_endpoints \<and> list_all tally_fields (endpoints (derived e))
     \<and> length (fraud_evidence (derived e)) \<le> nat max_observations
     \<and> list_all fraud_fields (fraud_evidence (derived e))
     \<and> length (corroboration e) \<le> max_endpoints \<and> length (observations e) \<le> nat max_observations
     \<and> digest_text (observation_vector_digest e) \<and> digest_text (epoch_score_digest e)"

text \<open>\<^verbatim>\<open>epoch_{key}_mismatch\<close> for the first derived field that differs.\<close>

definition derived_mismatch :: "derived_epoch \<Rightarrow> derived_epoch \<Rightarrow> string option" where
  "derived_mismatch current value =
     (if epoch_status current \<noteq> epoch_status value then Some ''epoch_epoch_status_mismatch''
      else if sampled_endpoint_count current \<noteq> sampled_endpoint_count value
      then Some ''epoch_sampled_endpoint_count_mismatch''
      else if path_unavailable_endpoint_count current \<noteq> path_unavailable_endpoint_count value
      then Some ''epoch_path_unavailable_endpoint_count_mismatch''
      else if inconclusive_deployments current \<noteq> inconclusive_deployments value
      then Some ''epoch_inconclusive_deployments_mismatch''
      else if endpoints current \<noteq> endpoints value then Some ''epoch_endpoints_mismatch''
      else if fraud_evidence current \<noteq> fraud_evidence value then Some ''epoch_fraud_evidence_mismatch''
      else None)"

definition epoch_validate :: "pylib \<Rightarrow> OrganicEpochScore \<Rightarrow> OrganicEpochScore res" where
  "epoch_validate L e = as_validation
     (reject_if (\<not> epoch_fields e) strict_error
     (res_bind (mapM corroboration_validate (corroboration e)) (\<lambda>_.
     res_bind (mapM (observation_validate L) (observations e)) (\<lambda>_.
     reject_if (manifest_digests e \<noteq> sorted_set (manifest_digests e)) (ValueError ''epoch_manifests_not_canonical'')
     (reject_if (\<not> set (map ob_manifest_digest (observations e)) \<subseteq> set (manifest_digests e))
        (ValueError ''epoch_manifest_unlisted'')
     (reject_if (observations e \<noteq> sort_key observation_order (observations e))
        (ValueError ''epoch_observations_not_canonical'')
     (reject_if (\<not> distinct (map probe_nonce (observations e))) (ValueError ''epoch_observation_nonce_duplicate'')
     (reject_if (list_ex (\<lambda>item. ob_validator_hotkey item \<noteq> es_validator_hotkey e) (observations e))
        (ValueError ''epoch_validator_mismatch'')
     (let keys = map (\<lambda>w. (sc_endpoint_id w, window_digest w)) (corroboration e)
      in reject_if (keys \<noteq> sorted_set keys) (ValueError ''epoch_corroboration_not_canonical'')
         (res_bind (derive_epoch (observations e) (corroboration e) (epoch_seconds e) (epoch_index e)
                      (min_attempts e)) (\<lambda>value.
         (case derived_mismatch (derived e) value of
            Some m \<Rightarrow> Inl (ValueError m)
          | None \<Rightarrow>
              reject_if (observation_vector_digest e
                         \<noteq> sha_json L (JList (map observation_document (observations e))))
                (ValueError ''observation_vector_digest_mismatch'')
              (verify_model_digest L ''epoch_score_digest_sha256'' (JObj (epoch_unsigned e))
                 (epoch_score_digest e) e)))))))))))))"

definition epoch_bytes :: "pylib \<Rightarrow> OrganicEpochScore \<Rightarrow> string res" where
  "epoch_bytes L = model_bytes L (epoch_validate L) epoch_document"

section \<open>Scoring against manifests\<close>

definition manifest_index ::
    "pylib \<Rightarrow> ActiveAssignmentManifestV2 list \<Rightarrow> (string \<rightharpoonup> ActiveAssignmentManifestV2) res" where
  "manifest_index L manifests =
     res_bind (mapM (manifest_validate L) manifests) (\<lambda>values.
     Inr (dict_of (map (\<lambda>m. (md_digest m, m)) values)))"

definition verify_against_manifest ::
    "pylib \<Rightarrow> ed25519 \<Rightarrow> OrganicProbeObservation \<Rightarrow> ActiveAssignmentManifestV2 option \<Rightarrow> unit res" where
  "verify_against_manifest L V item manifest =
     (case manifest of
        None \<Rightarrow> Inl (ScoringError ''scoring_manifest_unknown'')
      | Some m \<Rightarrow>
        (case find_replica m (ob_endpoint_id item) of
           Inl _ \<Rightarrow> Inl (ScoringError ''scoring_observation_unpublished'')
         | Inr (d, r) \<Rightarrow>
           reject_if (ob_policy_digest item \<noteq> h_policy_digest (header m)
                      \<or> ob_deployment_id item \<noteq> deployment_id d
                      \<or> ob_assignment_digest item \<noteq> assignment_digest d
                      \<or> ob_generation item \<noteq> generation r \<or> ob_miner_uid item \<noteq> miner_uid r
                      \<or> ob_miner_hotkey item \<noteq> miner_hotkey r
                      \<or> request_method item \<noteq> hp_method (health d)
                      \<or> request_path item \<noteq> hp_path (health d))
             (ScoringError ''scoring_observation_unpublished'')
           (res_bind (timestamp_epoch_seconds (issued_at item)) (\<lambda>seconds.
           reject_if (\<not> organic_manifest_valid_at m seconds) (ScoringError ''scoring_outside_manifest_horizon'')
           (res_bind
              (case attestation item of
                 None \<Rightarrow> Inr ()
               | Some a \<Rightarrow>
                   res_bind (verify_attestation_v2 L V a d r (ob_validator_hotkey item) (probe_nonce item)
                       (request_method item) (request_path item) (issued_at item)
                       (case response_status item of None \<Rightarrow> 0 | Some n \<Rightarrow> n)
                       (case response_body_sha256 item of None \<Rightarrow> '''' | Some b \<Rightarrow> b)) (\<lambda>verdict.
                   reject_if (verdict \<noteq> (if attestation_status item = FraudulentA then Fraudulent else Verified))
                     (ScoringError ''scoring_attestation_unverified'') (Inr ()))) (\<lambda>_.
           let in_expected = (case response_status item of
                 None \<Rightarrow> False | Some n \<Rightarrow> n \<in> set (expected_statuses (health d)))
           in reject_if ((outcome item = Success \<and> \<not> in_expected)
                         \<or> (failure_code item = Some UnexpectedStatus \<and> in_expected)
                         \<or> (failure_code item = Some MarkerMissing \<and> \<not> in_expected)
                         \<or> (failure_code item = Some MarkerMissing \<and> response_marker (health d) = None))
                (ScoringError ''scoring_outcome_inconsistent'') (Inr ())))))))"

text \<open>The checks on one observation, with the digests and nonces already seen.\<close>

definition screen_observation ::
    "pylib \<Rightarrow> ed25519 \<Rightarrow> (string \<rightharpoonup> ActiveAssignmentManifestV2) \<Rightarrow> string \<Rightarrow> int \<Rightarrow> int
     \<Rightarrow> string list \<times> string list \<Rightarrow> OrganicProbeObservation \<Rightarrow> (string list \<times> string list) res" where
  "screen_observation L V index validator seconds_per_epoch epoch seen item =
     (let (digests, nonces) = seen
      in reject_if (ob_validator_hotkey item \<noteq> validator) (ScoringError ''scoring_validator_mismatch'')
         (reject_if (observation_digest item \<in> set digests \<or> probe_nonce item \<in> set nonces)
            (ScoringError ''scoring_observation_duplicate'')
         (res_bind (timestamp_epoch_seconds (issued_at item)) (\<lambda>seconds.
         reject_if (epoch_index_of seconds seconds_per_epoch \<noteq> epoch) (ScoringError ''scoring_epoch_mismatch'')
         (res_bind (verify_against_manifest L V item (index (ob_manifest_digest item))) (\<lambda>_.
         Inr (observation_digest item # digests, probe_nonce item # nonces)))))))"

definition canonical_windows :: "ServingCorroboration list \<Rightarrow> ServingCorroboration list" where
  "canonical_windows ws =
     (let kvs = map (\<lambda>w. ((sc_endpoint_id w, window_digest w), w)) ws
      in map (\<lambda>k. the (dict_of kvs k)) (sorted_set (map fst kvs)))"

definition score_organic_epoch ::
    "pylib \<Rightarrow> ed25519 \<Rightarrow> ActiveAssignmentManifestV2 list \<Rightarrow> OrganicProbeObservation list \<Rightarrow> string
     \<Rightarrow> int \<Rightarrow> int \<Rightarrow> int \<Rightarrow> ServingCorroboration list \<Rightarrow> OrganicEpochScore res" where
  "score_organic_epoch L V manifests obs validator epoch seconds_per_epoch minimum windows =
     reject_if (\<not> in_range 60 3600 seconds_per_epoch \<or> \<not> in_range 1 16 minimum)
       (ScoringError ''scoring_policy_invalid'')
     (res_bind (manifest_index L manifests) (\<lambda>index.
     res_bind (mapM (observation_validate L) obs) (\<lambda>values.
     reject_if (length values > nat max_observations) (ScoringError ''scoring_attempts_overflow'')
     (res_bind (foldM (screen_observation L V index validator seconds_per_epoch epoch) ([], []) values) (\<lambda>_.
     res_bind (mapM corroboration_validate windows) (\<lambda>checked.
     let items = sort_key observation_order values; ws = canonical_windows checked
     in res_bind (derive_epoch items ws seconds_per_epoch epoch minimum) (\<lambda>d.
        let e = \<lparr>es_validator_hotkey = validator, epoch_seconds = seconds_per_epoch, epoch_index = epoch,
                 min_attempts = minimum, manifest_digests = sorted_set (map ob_manifest_digest items),
                 derived = d, corroboration = ws, observations = items,
                 observation_vector_digest = sha_json L (JList (map observation_document items)),
                 epoch_score_digest = ''''\<rparr>
        in epoch_validate L (e\<lparr>epoch_score_digest := sha_json L (JObj (epoch_unsigned e))\<rparr>))))))))"

definition replay_organic_epoch_score ::
    "pylib \<Rightarrow> ed25519 \<Rightarrow> OrganicEpochScore \<Rightarrow> ActiveAssignmentManifestV2 list \<Rightarrow> OrganicEpochScore res" where
  "replay_organic_epoch_score L V e manifests =
     res_bind (epoch_validate L e) (\<lambda>value.
     res_bind (score_organic_epoch L V manifests (observations value) (es_validator_hotkey value)
                 (epoch_index value) (epoch_seconds value) (min_attempts value) (corroboration value)) (\<lambda>rebuilt.
     res_bind (epoch_bytes L rebuilt) (\<lambda>a. res_bind (epoch_bytes L value) (\<lambda>b.
     reject_if (a \<noteq> b) (ScoringError ''scoring_outcome_inconsistent'') (Inr value)))))"

section \<open>The window\<close>

record MinerAvailability =
  ma_miner_uid :: int
  ma_miner_hotkey :: string
  eligible_endpoint_epochs :: int
  ma_numerator :: int
  ma_denominator :: int
  ma_fraudulent_attestations :: int

definition miner_document :: "MinerAvailability \<Rightarrow> json" where
  "miner_document a = JObj
     [(''miner_uid'', JInt (ma_miner_uid a)), (''miner_hotkey'', JStr (ma_miner_hotkey a)),
      (''eligible_endpoint_epochs'', JInt (eligible_endpoint_epochs a)),
      (''availability_numerator'', JInt (ma_numerator a)),
      (''availability_denominator'', JInt (ma_denominator a)),
      (''fraudulent_attestations'', JInt (ma_fraudulent_attestations a))]"

definition miner_validate :: "MinerAvailability \<Rightarrow> MinerAvailability res" where
  "miner_validate a =
     reject_if (\<not> (in_range 0 65535 (ma_miner_uid a) \<and> hotkey_text (ma_miner_hotkey a)
                   \<and> in_range 1 66060288 (eligible_endpoint_epochs a) \<and> 0 \<le> ma_numerator a
                   \<and> 1 \<le> ma_denominator a \<and> 0 \<le> ma_fraudulent_attestations a)) strict_error
     (let ratio = (of_int (ma_numerator a) / of_int (ma_denominator a) :: rat)
      in reject_if (quotient_of ratio \<noteq> (ma_numerator a, ma_denominator a) \<or> ratio > 1)
           (ValueError ''availability_not_reduced'') (Inr a))"

record OrganicAvailabilityScore =
  as_validator_hotkey :: string
  as_epoch_seconds :: int
  epoch_indexes :: "int list"
  epoch_score_digests :: "string list"
  abstained_epochs :: "int list"
  miners :: "MinerAvailability list"
  as_fraud_evidence :: "FraudEvidence list"
  score_digest :: string

definition score_unsigned :: "OrganicAvailabilityScore \<Rightarrow> (string \<times> json) list" where
  "score_unsigned s =
     [(''schema'', JStr ''miss.computer/misscomputer-subnet/organic-availability-score''),
      (''schema_version'', JInt 1), (''purpose'', JStr ''organic_availability_scoring_v1''),
      (''network'', JStr ''finney''), (''netuid'', JInt 24),
      (''validator_hotkey'', JStr (as_validator_hotkey s)), (''epoch_seconds'', JInt (as_epoch_seconds s)),
      (''epoch_indexes'', JList (map JInt (epoch_indexes s))),
      (''epoch_score_digests'', JList (map JStr (epoch_score_digests s))),
      (''abstained_epochs'', JList (map JInt (abstained_epochs s))),
      (''miners'', JList (map miner_document (miners s))),
      (''fraud_evidence'', JList (map fraud_document (as_fraud_evidence s)))]"

definition score_document :: "OrganicAvailabilityScore \<Rightarrow> json" where
  "score_document s = JObj (score_unsigned s @ [(''score_digest_sha256'', JStr (score_digest s))])"

definition score_fields :: "OrganicAvailabilityScore \<Rightarrow> bool" where
  "score_fields s \<longleftrightarrow>
     hotkey_text (as_validator_hotkey s) \<and> in_range 60 3600 (as_epoch_seconds s)
     \<and> 1 \<le> length (epoch_indexes s) \<and> length (epoch_indexes s) \<le> max_epochs
     \<and> list_all (in_range 0 4611686018427387904) (epoch_indexes s)
     \<and> 1 \<le> length (epoch_score_digests s) \<and> length (epoch_score_digests s) \<le> max_epochs
     \<and> list_all digest_text (epoch_score_digests s)
     \<and> length (abstained_epochs s) \<le> max_epochs
     \<and> list_all (in_range 0 4611686018427387904) (abstained_epochs s)
     \<and> length (miners s) \<le> max_endpoints \<and> length (as_fraud_evidence s) \<le> nat max_observations
     \<and> list_all fraud_fields (as_fraud_evidence s) \<and> digest_text (score_digest s)"

definition score_validate :: "pylib \<Rightarrow> OrganicAvailabilityScore \<Rightarrow> OrganicAvailabilityScore res" where
  "score_validate L s = as_validation
     (reject_if (\<not> score_fields s) strict_error
     (res_bind (mapM miner_validate (miners s)) (\<lambda>_.
     reject_if (epoch_indexes s \<noteq> sorted_set (epoch_indexes s)
                \<or> length (epoch_score_digests s) \<noteq> length (epoch_indexes s))
       (ValueError ''score_epochs_not_canonical'')
     (reject_if (\<not> set (abstained_epochs s) \<subseteq> set (epoch_indexes s)
                 \<or> abstained_epochs s \<noteq> sorted_set (abstained_epochs s)) (ValueError ''score_abstained_invalid'')
     (let keys = map (\<lambda>a. (ma_miner_uid a, ma_miner_hotkey a)) (miners s)
      in reject_if (keys \<noteq> sorted_set keys \<or> \<not> distinct (map snd keys)) (ValueError ''score_miners_not_canonical'')
         (verify_model_digest L ''score_digest_sha256'' (JObj (score_unsigned s)) (score_digest s) s))))))"

record window_state =
  sum_keys :: "(int \<times> string) list"
  availability_sums :: "int \<times> string \<Rightarrow> rat"
  eligible_counts :: "int \<times> string \<Rightarrow> int"
  fraud_counts :: "string \<Rightarrow> int"
  ws_identities :: "int \<rightharpoonup> string"
  ws_hotkeys :: "string \<rightharpoonup> int"

definition window_step :: "window_state \<Rightarrow> EndpointEpochTally \<Rightarrow> window_state res" where
  "window_step s e =
     reject_if (rebinds (ws_identities s) (te_miner_uid e) (te_miner_hotkey e)
                \<or> rebinds (ws_hotkeys s) (te_miner_hotkey e) (te_miner_uid e))
       (ScoringError ''scoring_identity_conflict'')
     (let s1 = s\<lparr>ws_identities := setdefault (ws_identities s) (te_miner_uid e) (te_miner_hotkey e),
                 ws_hotkeys := setdefault (ws_hotkeys s) (te_miner_hotkey e) (te_miner_uid e),
                 fraud_counts := (fraud_counts s)(te_miner_hotkey e :=
                   fraud_counts s (te_miner_hotkey e) + fraudulent_attestations e)\<rparr>;
          key = (te_miner_uid e, te_miner_hotkey e)
      in if disposition e \<noteq> Eligible then Inr s1
         else (case (availability_numerator e, availability_denominator e) of
                 (Some n, Some d) \<Rightarrow>
                   reject_if (d = 0) (ScoringError ''scoring_outcome_inconsistent'')
                   (Inr (s1\<lparr>sum_keys := (if key \<in> set (sum_keys s1) then sum_keys s1 else sum_keys s1 @ [key]),
                           availability_sums := (availability_sums s1)(key := availability_sums s1 key + of_int n / of_int d),
                           eligible_counts := (eligible_counts s1)(key := eligible_counts s1 key + 1)\<rparr>))
               | _ \<Rightarrow> Inl (ScoringError ''scoring_outcome_inconsistent'')))"

definition empty_window :: window_state where
  "empty_window = \<lparr>sum_keys = [], availability_sums = (\<lambda>_. 0), eligible_counts = (\<lambda>_. 0), fraud_counts = (\<lambda>_. 0),
     ws_identities = Map.empty, ws_hotkeys = Map.empty\<rparr>"

definition miner_of :: "window_state \<Rightarrow> int \<times> string \<Rightarrow> MinerAvailability" where
  "miner_of s key =
     (let mean = quotient_of (availability_sums s key / of_int (eligible_counts s key))
      in \<lparr>ma_miner_uid = fst key, ma_miner_hotkey = snd key, eligible_endpoint_epochs = eligible_counts s key,
          ma_numerator = fst mean, ma_denominator = snd mean,
          ma_fraudulent_attestations = fraud_counts s (snd key)\<rparr>)"

definition aggregate_organic_window :: "pylib \<Rightarrow> OrganicEpochScore list \<Rightarrow> OrganicAvailabilityScore res" where
  "aggregate_organic_window L epochs =
     res_bind (mapM (epoch_validate L) epochs) (\<lambda>checked.
     let values = sort_key epoch_index checked; indexes = map epoch_index values
     in reject_if (values = [] \<or> length values > max_epochs) (ScoringError ''scoring_epochs_invalid'')
        (reject_if (\<not> distinct indexes \<or> list_ex (\<lambda>e. epoch_seconds e \<noteq> epoch_seconds (hd values)) values)
           (ScoringError ''scoring_epochs_invalid'')
        (reject_if (list_ex (\<lambda>e. es_validator_hotkey e \<noteq> es_validator_hotkey (hd values)) values)
           (ScoringError ''scoring_validator_mismatch'')
        (res_bind (foldM window_step empty_window (concat (map (\<lambda>e. endpoints (derived e)) values))) (\<lambda>s.
         let score = \<lparr>as_validator_hotkey = es_validator_hotkey (hd values),
               as_epoch_seconds = epoch_seconds (hd values), epoch_indexes = indexes,
               epoch_score_digests = map epoch_score_digest values,
               abstained_epochs = map epoch_index (filter (\<lambda>e. epoch_status (derived e) \<noteq> Scored) values),
               miners = map (miner_of s) (sort (sum_keys s)),
               as_fraud_evidence = sort_key fe_observation_digest
                 (concat (map (\<lambda>e. fraud_evidence (derived e)) values)),
               score_digest = ''''\<rparr>
         in score_validate L (score\<lparr>score_digest := sha_json L (JObj (score_unsigned score))\<rparr>))))))"

text \<open>\<^verbatim>\<open>float(Fraction(n, d))\<close> is correctly rounded; the ratio is at most one.\<close>

definition organic_weight_rows ::
    "pylib \<Rightarrow> OrganicAvailabilityScore \<Rightarrow> (string \<times> pyfloat) list res" where
  "organic_weight_rows L score =
     res_bind (score_validate L score) (\<lambda>value.
     Inr (map (\<lambda>a. (ma_miner_hotkey a, to_double (of_int (ma_numerator a) / of_int (ma_denominator a))))
            (miners value)))"

section \<open>The derivation, against its specification\<close>

text \<open>The attempts on one endpoint, and the tally they must have.\<close>

definition attempts_on :: "OrganicProbeObservation list \<Rightarrow> string \<Rightarrow> OrganicProbeObservation list" where
  "attempts_on xs k = filter (\<lambda>x. ob_endpoint_id x = k) xs"

definition tally_spec :: "OrganicProbeObservation list \<Rightarrow> string \<Rightarrow> tally" where
  "tally_spec xs k =
     (let mine = attempts_on xs k
      in \<lparr>ta_deployment_id = ob_deployment_id (hd mine), ta_miner_uid = ob_miner_uid (hd mine),
          ta_miner_hotkey = ob_miner_hotkey (hd mine), ta_attempts = int (length mine),
          counts = (\<lambda>a. int (length (filter (\<lambda>x. attribution x = a) mine))),
          fraud_count = int (length (filter (\<lambda>x. attestation_status x = FraudulentA) mine))\<rparr>)"

text \<open>
  When a list of observations can be scored: every one inside the epoch, UIDs and hotkeys
  one to one, one deployment and miner for each endpoint, at most 16 attempts on each.
\<close>

definition in_epoch :: "int \<Rightarrow> int \<Rightarrow> OrganicProbeObservation \<Rightarrow> bool" where
  "in_epoch es ei x \<longleftrightarrow>
     (\<exists>t. timestamp_epoch_seconds (issued_at x) = Inr t \<and> epoch_index_of t es = ei)"

definition same_party :: "OrganicProbeObservation \<Rightarrow> OrganicProbeObservation \<Rightarrow> bool" where
  "same_party x y \<longleftrightarrow>
     (ob_miner_uid x = ob_miner_uid y \<longleftrightarrow> ob_miner_hotkey x = ob_miner_hotkey y)
     \<and> (ob_endpoint_id x = ob_endpoint_id y \<longrightarrow>
          ob_deployment_id x = ob_deployment_id y \<and> ob_miner_uid x = ob_miner_uid y
          \<and> ob_miner_hotkey x = ob_miner_hotkey y)"

definition admissible :: "int \<Rightarrow> int \<Rightarrow> OrganicProbeObservation list \<Rightarrow> bool" where
  "admissible es ei xs \<longleftrightarrow>
     (\<forall>x\<in>set xs. in_epoch es ei x) \<and> (\<forall>x\<in>set xs. \<forall>y\<in>set xs. same_party x y)
     \<and> (\<forall>k. length (attempts_on xs k) \<le> 16)"

definition epoch_summary :: "OrganicProbeObservation list \<Rightarrow> epoch_state \<Rightarrow> bool" where
  "epoch_summary xs s \<longleftrightarrow>
     distinct (tally_keys s) \<and> set (tally_keys s) = ob_endpoint_id ` set xs
     \<and> (\<forall>k. tallies s k = (if k \<in> ob_endpoint_id ` set xs then Some (tally_spec xs k) else None))
     \<and> fraud s = map fraud_of (filter (\<lambda>x. attestation_status x = FraudulentA) xs)
     \<and> (\<forall>u. identities s u = map_of (map (\<lambda>x. (ob_miner_uid x, ob_miner_hotkey x)) xs) u)
     \<and> (\<forall>h. hotkeys s h = map_of (map (\<lambda>x. (ob_miner_hotkey x, ob_miner_uid x)) xs) h)"

lemma attempts_on_snoc [simp]:
  "attempts_on (xs @ [x]) k = attempts_on xs k @ (if ob_endpoint_id x = k then [x] else [])"
  by (simp add: attempts_on_def)

lemma attempts_on_empty: "attempts_on xs k = [] \<longleftrightarrow> k \<notin> ob_endpoint_id ` set xs"
  by (auto simp: attempts_on_def filter_empty_conv)

lemma tally_spec_snoc_other: "ob_endpoint_id x \<noteq> k \<Longrightarrow> tally_spec (xs @ [x]) k = tally_spec xs k"
  by (simp add: tally_spec_def)

lemma tally_spec_snoc:
  assumes "ob_endpoint_id x \<in> ob_endpoint_id ` set xs"
  shows "tally_spec (xs @ [x]) (ob_endpoint_id x) = count_attempt x (tally_spec xs (ob_endpoint_id x))"
proof -
  have "attempts_on xs (ob_endpoint_id x) \<noteq> []" using assms by (simp add: attempts_on_empty)
  then show ?thesis by (auto simp: tally_spec_def Let_def count_attempt_def)
qed

lemma tally_spec_first:
  assumes "ob_endpoint_id x \<notin> ob_endpoint_id ` set xs"
  shows "tally_spec (xs @ [x]) (ob_endpoint_id x) = count_attempt x (new_tally x)"
proof -
  have "attempts_on xs (ob_endpoint_id x) = []" using assms by (simp add: attempts_on_empty)
  then show ?thesis by (auto simp: tally_spec_def Let_def count_attempt_def new_tally_def)
qed

text \<open>The next observation is taken exactly when it keeps the list admissible.\<close>

definition compatible :: "int \<Rightarrow> int \<Rightarrow> OrganicProbeObservation list \<Rightarrow> OrganicProbeObservation \<Rightarrow> bool" where
  "compatible es ei xs x \<longleftrightarrow>
     in_epoch es ei x \<and> (\<forall>y\<in>set xs. same_party y x) \<and> length (attempts_on xs (ob_endpoint_id x)) < 16"

lemma setdefault_map_of:
  "setdefault (map_of kvs) k v = map_of (kvs @ [(k, v)])"
  by (auto simp: setdefault_def map_add_def fun_eq_iff split: option.splits)

lemma rebinds_map_of:
  "rebinds (map_of kvs) k v \<longleftrightarrow> (case map_of kvs k of None \<Rightarrow> False | Some w \<Rightarrow> w \<noteq> v)"
  by (auto simp: rebinds_def setdefault_def split: option.splits)

lemma same_party_sym: "same_party x y \<Longrightarrow> same_party y x"
  and same_party_refl: "same_party x x"
  unfolding same_party_def by metis+

lemma rebinds_consistent:
  assumes "\<And>a b. a \<in> set xs \<Longrightarrow> b \<in> set xs \<Longrightarrow> f a = f b \<Longrightarrow> g a = g b"
  shows "\<not> rebinds (map_of (map (\<lambda>x. (f x, g x)) xs)) k v \<longleftrightarrow> (\<forall>y\<in>set xs. f y = k \<longrightarrow> g y = v)"
proof (cases "map_of (map (\<lambda>x. (f x, g x)) xs) k")
  case None
  then have "k \<notin> f ` set xs" by (auto simp: map_of_eq_None_iff image_image)
  then show ?thesis using None by (auto simp: rebinds_map_of)
next
  case (Some w)
  then obtain y where y: "y \<in> set xs" "f y = k" "g y = w" by (auto dest!: map_of_SomeD)
  have "\<not> rebinds (map_of (map (\<lambda>x. (f x, g x)) xs)) k v \<longleftrightarrow> w = v"
    by (simp add: rebinds_map_of Some)
  moreover have "(\<forall>y\<in>set xs. f y = k \<longrightarrow> g y = v) \<longleftrightarrow> w = v"
    using y assms by metis
  ultimately show ?thesis by blast
qed

lemma attempts_bound_snoc:
  "(\<forall>k. length (attempts_on (xs @ [x]) k) \<le> 16)
   \<longleftrightarrow> (\<forall>k. length (attempts_on xs k) \<le> 16) \<and> length (attempts_on xs (ob_endpoint_id x)) < 16"
  (is "?new \<longleftrightarrow> ?old \<and> ?more")
proof
  assume new: ?new
  have "length (attempts_on xs k) \<le> 16" for k using new [rule_format, of k] by simp
  moreover have ?more using new [rule_format, of "ob_endpoint_id x"] by simp
  ultimately show "?old \<and> ?more" by simp
qed auto

lemma admissible_snoc:
  "admissible es ei (xs @ [x]) \<longleftrightarrow> admissible es ei xs \<and> compatible es ei xs x"
proof -
  have "(\<forall>a\<in>set (xs @ [x]). \<forall>b\<in>set (xs @ [x]). same_party a b)
      \<longleftrightarrow> (\<forall>a\<in>set xs. \<forall>b\<in>set xs. same_party a b) \<and> (\<forall>y\<in>set xs. same_party y x)"
    using same_party_refl by (auto intro: same_party_sym)
  then show ?thesis
    unfolding admissible_def compatible_def attempts_bound_snoc by auto
qed

lemma epoch_step_Inr:
  assumes sum: "epoch_summary xs s" and adm: "admissible es ei xs"
  shows "(\<exists>t. epoch_step es ei s x = Inr t) \<longleftrightarrow> compatible es ei xs x"
    and "epoch_step es ei s x = Inr t \<Longrightarrow> epoch_summary (xs @ [x]) t"
proof -
  have ids: "identities s = map_of (map (\<lambda>x. (ob_miner_uid x, ob_miner_hotkey x)) xs)"
    and hks: "hotkeys s = map_of (map (\<lambda>x. (ob_miner_hotkey x, ob_miner_uid x)) xs)"
    using sum by (auto simp: epoch_summary_def)
  have pairs: "same_party a b" if "a \<in> set xs" "b \<in> set xs" for a b
    using adm that by (auto simp: admissible_def)
  have r1: "\<not> rebinds (identities s) (ob_miner_uid x) (ob_miner_hotkey x) \<longleftrightarrow>
      (\<forall>y\<in>set xs. ob_miner_uid y = ob_miner_uid x \<longrightarrow> ob_miner_hotkey y = ob_miner_hotkey x)"
    unfolding ids by (rule rebinds_consistent) (use pairs in \<open>unfold same_party_def, blast\<close>)
  have r2: "\<not> rebinds (hotkeys s) (ob_miner_hotkey x) (ob_miner_uid x) \<longleftrightarrow>
      (\<forall>y\<in>set xs. ob_miner_hotkey y = ob_miner_hotkey x \<longrightarrow> ob_miner_uid y = ob_miner_uid x)"
    unfolding hks by (rule rebinds_consistent) (use pairs in \<open>unfold same_party_def, blast\<close>)
  let ?k = "ob_endpoint_id x"
  define tl where "tl = (case tallies s ?k of None \<Rightarrow> new_tally x | Some t \<Rightarrow> t)"
  have tl: "tl = (if ?k \<in> ob_endpoint_id ` set xs then tally_spec xs ?k else new_tally x)"
  proof -
    have "tallies s ?k = (if ?k \<in> ob_endpoint_id ` set xs then Some (tally_spec xs ?k) else None)"
      using sum unfolding epoch_summary_def by blast
    then show ?thesis by (simp add: tl_def)
  qed
  have at: "ta_attempts tl = int (length (attempts_on xs ?k))"
    using attempts_on_empty [of xs ?k]
    by (cases "?k \<in> ob_endpoint_id ` set xs") (simp_all add: tl tally_spec_def Let_def new_tally_def)
  have hd: "hd (attempts_on xs ?k) \<in> set xs \<and> ob_endpoint_id (hd (attempts_on xs ?k)) = ?k"
    if "?k \<in> ob_endpoint_id ` set xs"
  proof -
    have "attempts_on xs ?k \<noteq> []" using that by (simp add: attempts_on_empty)
    then have "hd (attempts_on xs ?k) \<in> set (attempts_on xs ?k)" by simp
    then show ?thesis by (auto simp: attempts_on_def)
  qed
  have r3: "(ta_deployment_id tl, ta_miner_uid tl, ta_miner_hotkey tl)
      = (ob_deployment_id x, ob_miner_uid x, ob_miner_hotkey x)
      \<longleftrightarrow> (\<forall>y\<in>set xs. ob_endpoint_id y = ?k \<longrightarrow> ob_deployment_id y = ob_deployment_id x
            \<and> ob_miner_uid y = ob_miner_uid x \<and> ob_miner_hotkey y = ob_miner_hotkey x)"
  proof (cases "?k \<in> ob_endpoint_id ` set xs")
    case True
    define h where "h = hd (attempts_on xs ?k)"
    have h: "h \<in> set xs" "ob_endpoint_id h = ?k" using hd [OF True] by (auto simp: h_def)
    have agree: "ob_deployment_id h = ob_deployment_id y \<and> ob_miner_uid h = ob_miner_uid y
        \<and> ob_miner_hotkey h = ob_miner_hotkey y" if "y \<in> set xs" "ob_endpoint_id y = ?k" for y
      using pairs [OF h(1) that(1)] h(2) that(2) unfolding same_party_def by simp
    have tl_h: "ta_deployment_id tl = ob_deployment_id h" "ta_miner_uid tl = ob_miner_uid h"
        "ta_miner_hotkey tl = ob_miner_hotkey h"
      using True by (simp_all add: tl tally_spec_def Let_def h_def)
    show ?thesis unfolding tl_h prod.inject using agree h by metis
  next
    case False
    then have "\<forall>y\<in>set xs. ob_endpoint_id y \<noteq> ?k" by (metis image_eqI)
    then show ?thesis using False by (simp add: tl new_tally_def)
  qed
  show "(\<exists>t. epoch_step es ei s x = Inr t) \<longleftrightarrow> compatible es ei xs x"
    unfolding epoch_step_def tl_def [symmetric] Let_def res_bind_Inr reject_if_Inr r3
      compatible_def in_epoch_def same_party_def at de_Morgan_disj r1 r2
    by auto
  assume step: "epoch_step es ei s x = Inr t"
  have new: "tally_spec (xs @ [x]) ?k = count_attempt x tl"
    unfolding tl by (simp add: tally_spec_snoc tally_spec_first)
  have t: "tally_keys t = (if ?k \<in> ob_endpoint_id ` set xs then tally_keys s else tally_keys s @ [?k])"
      "tallies t = (tallies s)(?k \<mapsto> count_attempt x tl)"
      "fraud t = (if attestation_status x = FraudulentA then fraud s @ [fraud_of x] else fraud s)"
      "identities t = setdefault (identities s) (ob_miner_uid x) (ob_miner_hotkey x)"
      "hotkeys t = setdefault (hotkeys s) (ob_miner_hotkey x) (ob_miner_uid x)"
    using step sum unfolding epoch_step_def tl_def [symmetric] Let_def epoch_summary_def by auto
  have "tallies t k = (if k \<in> ob_endpoint_id ` set (xs @ [x]) then Some (tally_spec (xs @ [x]) k) else None)" for k
    using sum unfolding t(2) epoch_summary_def
    by (cases "k = ?k") (simp_all add: new [symmetric] tally_spec_snoc_other)
  then show "epoch_summary (xs @ [x]) t"
    using sum unfolding epoch_summary_def t(1,3,4,5) ids hks setdefault_map_of by auto
qed

lemma epoch_fold:
  "(\<exists>s. foldM (epoch_step es ei) empty_epoch xs = Inr s) \<longleftrightarrow> admissible es ei xs"
  "foldM (epoch_step es ei) empty_epoch xs = Inr s \<Longrightarrow> epoch_summary xs s"
proof -
  have "((\<exists>s. foldM (epoch_step es ei) empty_epoch xs = Inr s) \<longleftrightarrow> admissible es ei xs)
    \<and> (\<forall>s. foldM (epoch_step es ei) empty_epoch xs = Inr s \<longrightarrow> epoch_summary xs s)"
  proof (induction xs rule: rev_induct)
    case Nil
    show ?case by (auto simp: admissible_def attempts_on_def empty_epoch_def epoch_summary_def)
  next
    case (snoc x xs)
    show ?case
    proof (cases "admissible es ei xs")
      case True
      then obtain s where s: "foldM (epoch_step es ei) empty_epoch xs = Inr s" using snoc by blast
      then have sum: "epoch_summary xs s" using snoc by blast
      have step: "foldM (epoch_step es ei) empty_epoch (xs @ [x]) = epoch_step es ei s x"
        by (cases "epoch_step es ei s x") (simp_all add: foldM_append s)
      show ?thesis
        using epoch_step_Inr [OF sum True, of x] True by (simp add: step admissible_snoc)
    next
      case False
      then have "\<nexists>s. foldM (epoch_step es ei) empty_epoch xs = Inr s" using snoc by blast
      then have "\<nexists>s. foldM (epoch_step es ei) empty_epoch (xs @ [x]) = Inr s"
        by (auto simp: foldM_append)
      then show ?thesis using False by (simp add: admissible_snoc)
    qed
  qed
  then show "(\<exists>s. foldM (epoch_step es ei) empty_epoch xs = Inr s) \<longleftrightarrow> admissible es ei xs"
    "foldM (epoch_step es ei) empty_epoch xs = Inr s \<Longrightarrow> epoch_summary xs s" by blast+
qed

text \<open>The specification of the derived record, from the observations as a collection.\<close>

definition path_down :: "OrganicProbeObservation list \<Rightarrow> string \<Rightarrow> bool" where
  "path_down xs k \<longleftrightarrow> (\<forall>x\<in>set (attempts_on xs k). attribution x = Path)"

definition common_mode :: "OrganicProbeObservation list \<Rightarrow> bool" where
  "common_mode xs \<longleftrightarrow>
     2 * card {k \<in> ob_endpoint_id ` set xs. path_down xs k} > card (ob_endpoint_id ` set xs)"

text \<open>Endpoints of one deployment that saw an application failure; two make it inconclusive.\<close>

definition app_failing :: "OrganicProbeObservation list \<Rightarrow> string \<Rightarrow> string set" where
  "app_failing xs d = {ob_endpoint_id x | x. x \<in> set xs \<and> ob_deployment_id x = d \<and> attribution x = Application}"

definition inconclusive :: "OrganicProbeObservation list \<Rightarrow> string \<Rightarrow> bool" where
  "inconclusive xs d \<longleftrightarrow> 2 \<le> card (app_failing xs d)"

definition disposition_spec :: "OrganicProbeObservation list \<Rightarrow> int \<Rightarrow> string \<Rightarrow> disposition" where
  "disposition_spec xs minimum k =
     (if common_mode xs then ExcludedCommonMode
      else if inconclusive xs (ta_deployment_id (tally_spec xs k)) then ExcludedAppInconclusive
      else if int (length (attempts_on xs k)) < minimum then AbstainInsufficientAttempts
      else Eligible)"

lemma length_filter_all: "length (filter P xs) = length xs \<longleftrightarrow> (\<forall>x\<in>set xs. P x)"
  by (metis filter_True filter_id_conv length_filter_less less_irrefl_nat)

lemma tally_spec_path: "counts (tally_spec xs k) Path = ta_attempts (tally_spec xs k) \<longleftrightarrow> path_down xs k"
  by (simp add: tally_spec_def Let_def path_down_def length_filter_all)

lemma tally_spec_app:
  "0 < counts (tally_spec xs k) Application \<longleftrightarrow> (\<exists>x\<in>set (attempts_on xs k). attribution x = Application)"
  by (auto simp: tally_spec_def Let_def filter_empty_conv)

lemma card_filter_set:
  assumes "distinct ks"
  shows "length (filter P ks) = card {k \<in> set ks. P k}"
  by (metis assms distinct_card distinct_filter set_filter)

lemma tally_spec_member:
  assumes "admissible es ei xs" and "x \<in> set xs" and "ob_endpoint_id x = k"
  shows "ta_deployment_id (tally_spec xs k) = ob_deployment_id x"
    and "ta_miner_uid (tally_spec xs k) = ob_miner_uid x"
    and "ta_miner_hotkey (tally_spec xs k) = ob_miner_hotkey x"
proof -
  have x: "x \<in> set (attempts_on xs k)" using assms by (simp add: attempts_on_def)
  then have "hd (attempts_on xs k) \<in> set (attempts_on xs k)" by (cases "attempts_on xs k") auto
  then have "same_party (hd (attempts_on xs k)) x" "ob_endpoint_id (hd (attempts_on xs k)) = k"
    using assms by (auto simp: admissible_def attempts_on_def)
  then show "ta_deployment_id (tally_spec xs k) = ob_deployment_id x"
    "ta_miner_uid (tally_spec xs k) = ob_miner_uid x"
    "ta_miner_hotkey (tally_spec xs k) = ob_miner_hotkey x"
    using assms(3) by (simp_all add: tally_spec_def Let_def same_party_def)
qed

lemma count_list_filter: "count_list (map f xs) d = length (filter (\<lambda>x. f x = d) xs)"
  by (induction xs) auto

lemma inconclusive_list:
  assumes sum: "epoch_summary xs s" and adm: "admissible es ei xs"
  shows "count_list (map ta_deployment_id (filter (\<lambda>t. counts t Application > 0)
           (map (\<lambda>k. the (tallies s k)) (tally_keys s)))) d = card (app_failing xs d)"
proof -
  let ?ks = "tally_keys s"
  have keys: "distinct ?ks" "set ?ks = ob_endpoint_id ` set xs"
    and look: "\<And>k. k \<in> set ?ks \<Longrightarrow> the (tallies s k) = tally_spec xs k"
    using sum by (auto simp: epoch_summary_def)
  have spec: "map (\<lambda>k. the (tallies s k)) ?ks = map (tally_spec xs) ?ks" using look by simp
  have "count_list (map ta_deployment_id (filter (\<lambda>t. counts t Application > 0)
           (map (\<lambda>k. the (tallies s k)) ?ks))) d
     = length (filter (\<lambda>k. counts (tally_spec xs k) Application > 0
          \<and> ta_deployment_id (tally_spec xs k) = d) ?ks)"
    unfolding spec by (simp add: count_list_filter filter_map comp_def conj_commute)
  also have "\<dots> = card {k \<in> set ?ks. counts (tally_spec xs k) Application > 0
          \<and> ta_deployment_id (tally_spec xs k) = d}"
    by (rule card_filter_set [OF keys(1)])
  also have "{k \<in> set ?ks. counts (tally_spec xs k) Application > 0
          \<and> ta_deployment_id (tally_spec xs k) = d} = app_failing xs d"
    unfolding keys(2) tally_spec_app app_failing_def
    using tally_spec_member(1) [OF adm] by (auto simp: attempts_on_def) metis
  finally show ?thesis .
qed

text \<open>The derived record of an admissible list, field by field.\<close>

lemma derive_epoch_Inr:
  assumes "derive_epoch xs c es ei minimum = Inr d"
  shows "admissible es ei xs"
    and "sampled_endpoint_count d = int (card (ob_endpoint_id ` set xs))"
    and "path_unavailable_endpoint_count d = int (card {k \<in> ob_endpoint_id ` set xs. path_down xs k})"
    and "inconclusive_deployments d = sorted_list_of_set {k. inconclusive xs k}"
    and "endpoints d = map (\<lambda>k. judge_endpoint (common_mode xs) (inconclusive_deployments d) minimum
           (endpoint_windows es ei c) k (tally_spec xs k)) (sorted_list_of_set (ob_endpoint_id ` set xs))"
    and "fraud_evidence d = sort_key fe_observation_digest
           (map fraud_of (filter (\<lambda>x. attestation_status x = FraudulentA) xs))"
    and "epoch_status d = (if common_mode xs then CommonModeUnavailable
           else if \<exists>e\<in>set (endpoints d). disposition e = Eligible then Scored else NoEligibleEndpoints)"
proof -
  obtain s where s: "foldM (epoch_step es ei) empty_epoch xs = Inr s"
    and d: "d = conclude_epoch es ei minimum c s"
    using assms by (auto simp: derive_epoch_def)
  show adm: "admissible es ei xs" using epoch_fold(1) s by blast
  note sum = epoch_fold(2) [OF s]
  let ?ks = "tally_keys s"
  have keys: "distinct ?ks" "set ?ks = ob_endpoint_id ` set xs" using sum by (auto simp: epoch_summary_def)
  have look: "the (tallies s k) = tally_spec xs k" if "k \<in> set ?ks" for k
    using sum that by (auto simp: epoch_summary_def)
  have spec: "map (\<lambda>k. the (tallies s k)) ?ks = map (tally_spec xs) ?ks" using look by simp
  have ks: "sort ?ks = sorted_list_of_set (ob_endpoint_id ` set xs)"
    using keys by (metis sorted_list_of_set_sort_remdups distinct_remdups_id)
  have sampled: "length ?ks = card (ob_endpoint_id ` set xs)" using keys by (metis distinct_card)
  have pd: "length (filter (\<lambda>t. counts t Path = ta_attempts t) (map (\<lambda>k. the (tallies s k)) ?ks))
      = card {k \<in> ob_endpoint_id ` set xs. path_down xs k}"
    unfolding spec by (simp add: filter_map comp_def tally_spec_path card_filter_set [OF keys(1)] keys(2))
  have cm: "(length (map (\<lambda>k. the (tallies s k)) ?ks) > 0 \<and>
      length (filter (\<lambda>t. counts t Path = ta_attempts t) (map (\<lambda>k. the (tallies s k)) ?ks)) * 2
      > length (map (\<lambda>k. the (tallies s k)) ?ks)) \<longleftrightarrow> common_mode xs"
  proof -
    have "card {k \<in> ob_endpoint_id ` set xs. path_down xs k} \<le> card (ob_endpoint_id ` set xs)"
      by (rule card_mono) auto
    then show ?thesis unfolding pd common_mode_def by (auto simp: sampled)
  qed
  let ?failing = "map ta_deployment_id (filter (\<lambda>t. counts t Application > 0) (map (\<lambda>k. the (tallies s k)) ?ks))"
  have inc: "{x \<in> set ?failing. 2 \<le> count_list ?failing x} = {k. inconclusive xs k}"
  proof -
    have "2 \<le> count_list ?failing x \<Longrightarrow> x \<in> set ?failing" for x
      by (metis count_notin not_numeral_le_zero)
    then show ?thesis using inconclusive_list [OF sum adm] by (auto simp: inconclusive_def)
  qed
  have incl: "sorted_set (filter (\<lambda>x. count_list ?failing x \<ge> 2) ?failing) = sorted_list_of_set {k. inconclusive xs k}"
    unfolding sorted_set_def sorted_list_of_set_sort_remdups [symmetric] set_filter inc ..
  note D = d [unfolded conclude_epoch_def Let_def, unfolded cm, unfolded pd]
  show "sampled_endpoint_count d = int (card (ob_endpoint_id ` set xs))"
    unfolding D derived_epoch.simps by (simp add: sampled)
  show "path_unavailable_endpoint_count d = int (card {k \<in> ob_endpoint_id ` set xs. path_down xs k})"
    unfolding D derived_epoch.simps by (rule refl)
  show i: "inconclusive_deployments d = sorted_list_of_set {k. inconclusive xs k}"
    unfolding D derived_epoch.simps by (rule incl)
  show "endpoints d = map (\<lambda>k. judge_endpoint (common_mode xs) (inconclusive_deployments d) minimum
           (endpoint_windows es ei c) k (tally_spec xs k)) (sorted_list_of_set (ob_endpoint_id ` set xs))"
    unfolding i unfolding D incl ks derived_epoch.simps
    by (rule map_cong [OF refl]) (simp add: look keys)
  show "fraud_evidence d = sort_key fe_observation_digest
           (map fraud_of (filter (\<lambda>x. attestation_status x = FraudulentA) xs))"
  proof -
    have "fraud s = map fraud_of (filter (\<lambda>x. attestation_status x = FraudulentA) xs)"
      using sum unfolding epoch_summary_def by blast
    then show ?thesis unfolding D derived_epoch.simps by (rule arg_cong)
  qed
  show "epoch_status d = (if common_mode xs then CommonModeUnavailable
           else if \<exists>e\<in>set (endpoints d). disposition e = Eligible then Scored else NoEligibleEndpoints)"
  proof -
    have "epoch_status d = (if common_mode xs then CommonModeUnavailable
       else if length (filter (\<lambda>e. disposition e = Eligible) (endpoints d)) = 0
       then NoEligibleEndpoints else Scored)"
      unfolding D derived_epoch.simps by (rule refl)
    then show ?thesis by (auto simp: filter_empty_conv)
  qed
qed

lemma derive_epoch_iff: "(\<exists>d. derive_epoch xs c es ei minimum = Inr d) \<longleftrightarrow> admissible es ei xs"
  using epoch_fold(1) [of es ei xs] by (auto simp: derive_epoch_def)

section \<open>What an epoch record says\<close>

lemma quotient_of_ratio:
  assumes "quotient_of q = (n, d)"
  shows "of_int n / of_int d = q" and "0 < d" and "coprime n d"
  using assms quotient_of_div quotient_of_denom_pos quotient_of_coprime by auto

text \<open>The exact meaning of one endpoint row.\<close>

definition row_exact :: "OrganicProbeObservation list \<Rightarrow> int \<Rightarrow> EndpointEpochTally \<Rightarrow> bool" where
  "row_exact xs minimum e \<longleftrightarrow>
     (let mine = attempts_on xs (te_endpoint_id e); by = (\<lambda>a. int (length (filter (\<lambda>x. attribution x = a) mine)))
      in mine \<noteq> []
         \<and> (\<forall>x\<in>set mine. te_deployment_id e = ob_deployment_id x \<and> te_miner_uid e = ob_miner_uid x
              \<and> te_miner_hotkey e = ob_miner_hotkey x)
         \<and> attempts e = int (length mine) \<and> attempts e \<le> 16
         \<and> successes e = by NoParty \<and> application_failures e = by Application
         \<and> miner_failures e = by Miner \<and> path_failures e = by Path
         \<and> attempts e = successes e + application_failures e + miner_failures e + path_failures e
         \<and> disposition e = disposition_spec xs minimum (te_endpoint_id e)
         \<and> (case (availability_numerator e, availability_denominator e) of
              (Some n, Some d) \<Rightarrow> disposition e = Eligible \<and> 0 < d \<and> 0 \<le> n \<and> n \<le> d \<and> coprime n d
                 \<and> n * attempts e = successes e * d
            | (None, None) \<Rightarrow> disposition e \<noteq> Eligible
            | _ \<Rightarrow> False))"

lemma attribution_partition:
  "length xs = length (filter (\<lambda>x. attribution x = NoParty) xs) + length (filter (\<lambda>x. attribution x = Application) xs)
     + length (filter (\<lambda>x. attribution x = Miner) xs) + length (filter (\<lambda>x. attribution x = Path) xs)"
proof (induction xs)
  case (Cons x xs)
  then show ?case by (cases "attribution x") simp_all
qed simp

lemma finite_inconclusive: "finite {k. inconclusive xs k}"
proof (rule finite_subset)
  show "{k. inconclusive xs k} \<subseteq> ob_deployment_id ` set xs"
  proof
    fix k assume "k \<in> {k. inconclusive xs k}"
    then have "app_failing xs k \<noteq> {}" by (auto simp: inconclusive_def)
    then show "k \<in> ob_deployment_id ` set xs" by (auto simp: app_failing_def)
  qed
qed simp

lemma judge_endpoint_exact:
  assumes adm: "admissible es ei xs" and k: "k \<in> ob_endpoint_id ` set xs"
    and inc: "set inc = {d. inconclusive xs d}"
  shows "row_exact xs minimum (judge_endpoint (common_mode xs) inc minimum w k (tally_spec xs k))"
proof -
  let ?t = "tally_spec xs k" and ?e = "judge_endpoint (common_mode xs) inc minimum w k (tally_spec xs k)"
  have mine: "attempts_on xs k \<noteq> []" using k attempts_on_empty by blast
  have disp: "disposition ?e = disposition_spec xs minimum k"
    by (simp add: judge_endpoint_def Let_def disposition_spec_def inc tally_spec_def)
  have ids: "te_endpoint_id ?e = k" "te_deployment_id ?e = ta_deployment_id ?t" "te_miner_uid ?e = ta_miner_uid ?t"
      "te_miner_hotkey ?e = ta_miner_hotkey ?t"
    by (simp_all add: judge_endpoint_def Let_def)
  have cnt: "attempts ?e = int (length (attempts_on xs k))"
      "successes ?e = int (length (filter (\<lambda>x. attribution x = NoParty) (attempts_on xs k)))"
      "application_failures ?e = int (length (filter (\<lambda>x. attribution x = Application) (attempts_on xs k)))"
      "miner_failures ?e = int (length (filter (\<lambda>x. attribution x = Miner) (attempts_on xs k)))"
      "path_failures ?e = int (length (filter (\<lambda>x. attribution x = Path) (attempts_on xs k)))"
    by (simp_all add: judge_endpoint_def Let_def tally_spec_def)
  have part: "attempts ?e = successes ?e + application_failures ?e + miner_failures ?e + path_failures ?e"
    unfolding cnt using attribution_partition [of "attempts_on xs k"] by simp
  have sixteen: "attempts ?e \<le> 16"
  proof -
    have "length (attempts_on xs k) \<le> 16" using adm by (simp add: admissible_def)
    then show ?thesis by (simp add: cnt)
  qed
  obtain n q where nq: "quotient_of (of_int (successes ?e) / of_int (attempts ?e)) = (n, q)" by fastforce
  have opt: "availability_numerator ?e = (if disposition ?e = Eligible then Some n else None)"
      "availability_denominator ?e = (if disposition ?e = Eligible then Some q else None)"
    using nq unfolding judge_endpoint_def Let_def by simp_all
  note r = quotient_of_ratio [OF nq]
  have pos: "0 < attempts ?e" using mine by (simp add: cnt)
  have eq: "of_int (n * attempts ?e) = (of_int (successes ?e * q) :: rat)"
    using r(1,2) pos by (simp add: field_simps)
  then have cross: "n * attempts ?e = successes ?e * q" by (simp only: of_int_eq_iff)
  have bounds: "0 \<le> n" "n \<le> q"
  proof -
    have s: "0 \<le> successes ?e" "successes ?e \<le> attempts ?e" by (simp_all add: cnt)
    have "0 \<le> n * attempts ?e" using cross s r(2) by simp
    then show "0 \<le> n" using pos by (simp add: zero_le_mult_iff)
    have "successes ?e * q \<le> attempts ?e * q" using s(2) r(2) by (intro mult_right_mono) auto
    then have "n * attempts ?e \<le> q * attempts ?e" by (simp add: cross mult.commute)
    then show "n \<le> q" using pos by simp
  qed
  have member: "\<forall>x\<in>set (attempts_on xs k). te_deployment_id ?e = ob_deployment_id x \<and> te_miner_uid ?e = ob_miner_uid x
              \<and> te_miner_hotkey ?e = ob_miner_hotkey x"
    using tally_spec_member [OF adm] ids by (auto simp: attempts_on_def)
  show ?thesis
    unfolding row_exact_def Let_def ids(1)
    using mine member cnt part sixteen disp opt r(2,3) cross bounds by auto
qed

text \<open>
  C10: The epoch record is exact. Whenever \<^verbatim>\<open>_derive_epoch\<close> accepts a list of
  observations, the record has one row for each endpoint observed, in order, and each row
  states the number of attempts on it (at most 16), how they split by attribution, the miner
  and deployment they name, the disposition the rules give (common mode first, then an
  inconclusive application, then too few attempts), and, exactly when eligible, the reduced
  fraction of successes over attempts, between 0 and 1.
\<close>

theorem epoch_record_exact:
  assumes "derive_epoch xs corr es ei minimum = Inr d"
  shows "map te_endpoint_id (endpoints d) = sorted_list_of_set (ob_endpoint_id ` set xs)
    \<and> (\<forall>e\<in>set (endpoints d). row_exact xs minimum e)"
proof -
  note D = derive_epoch_Inr [OF assms]
  have "te_endpoint_id (judge_endpoint a b c w k t) = k" for a b c w k t
    by (simp add: judge_endpoint_def Let_def)
  then have "map te_endpoint_id (endpoints d) = sorted_list_of_set (ob_endpoint_id ` set xs)"
    unfolding D(5) by (simp add: comp_def)
  moreover have "set (inconclusive_deployments d) = {k. inconclusive xs k}"
    unfolding D(4) by (simp add: finite_inconclusive)
  then have "\<forall>e\<in>set (endpoints d). row_exact xs minimum e"
    unfolding D(5) using judge_endpoint_exact [OF D(1)] by auto
  ultimately show ?thesis by blast
qed

text \<open>
  A common-mode outage is nobody's fault. When more than half of the endpoints sampled
  saw only path failures, the epoch is unavailable and not one row is eligible, so no miner
  gains or loses; when two replicas of one application report application failures, none of
  that application's rows is eligible.
\<close>

theorem common_mode_excludes_all:
  assumes "derive_epoch xs corr es ei minimum = Inr d"
  shows "(epoch_status d = CommonModeUnavailable \<longleftrightarrow> common_mode xs)
    \<and> (common_mode xs \<longrightarrow> (\<forall>e\<in>set (endpoints d). disposition e = ExcludedCommonMode \<and> availability_numerator e = None))
    \<and> (\<forall>e\<in>set (endpoints d). inconclusive xs (te_deployment_id e) \<longrightarrow>
         disposition e \<noteq> Eligible \<and> availability_numerator e = None)"
proof -
  note D = derive_epoch_Inr [OF assms]
  have inc: "set (inconclusive_deployments d) = {k. inconclusive xs k}"
    unfolding D(4) by (simp add: finite_inconclusive)
  have rows: "\<exists>k. e = judge_endpoint (common_mode xs) (inconclusive_deployments d) minimum
           (endpoint_windows es ei corr) k (tally_spec xs k)" if "e \<in> set (endpoints d)" for e
    using that unfolding D(5) by auto
  have row: "(common_mode xs \<longrightarrow> disposition e = ExcludedCommonMode \<and> availability_numerator e = None)
      \<and> (inconclusive xs (te_deployment_id e) \<longrightarrow> disposition e \<noteq> Eligible \<and> availability_numerator e = None)"
    if "e \<in> set (endpoints d)" for e
    using rows [OF that] by (elim exE) (simp add: judge_endpoint_def Let_def inc)
  show ?thesis unfolding D(7) using row by auto
qed

text \<open>
  Serving counters are never scored. Deriving the same observations with any other
  corroborating windows accepts again and changes nothing but the two corroboration fields
  of the rows: the same status, counts, exclusions, fraud evidence, dispositions and
  availabilities.
\<close>

theorem corroboration_never_scored:
  assumes "derive_epoch xs corr es ei minimum = Inr d"
  shows "\<exists>d'. derive_epoch xs corr' es ei minimum = Inr d'
    \<and> d' = d\<lparr>endpoints := endpoints d'\<rparr>
    \<and> map (\<lambda>e. e\<lparr>corroborating_windows := 0, corroborating_requests := 0\<rparr>) (endpoints d')
      = map (\<lambda>e. e\<lparr>corroborating_windows := 0, corroborating_requests := 0\<rparr>) (endpoints d)"
proof -
  note D = derive_epoch_Inr [OF assms]
  obtain d' where d': "derive_epoch xs corr' es ei minimum = Inr d'"
    using D(1) derive_epoch_iff by blast
  note D' = derive_epoch_Inr [OF d']
  have same: "inconclusive_deployments d' = inconclusive_deployments d" by (simp add: D(4) D'(4))
  have strip: "(judge_endpoint a b c w k t)\<lparr>corroborating_windows := 0, corroborating_requests := 0\<rparr>
      = (judge_endpoint a b c w' k t)\<lparr>corroborating_windows := 0, corroborating_requests := 0\<rparr>" for a b c w w' k t
    by (simp add: judge_endpoint_def Let_def)
  have rows: "map (\<lambda>e. e\<lparr>corroborating_windows := 0, corroborating_requests := 0\<rparr>) (endpoints d')
      = map (\<lambda>e. e\<lparr>corroborating_windows := 0, corroborating_requests := 0\<rparr>) (endpoints d)"
    unfolding D(5) D'(5) same map_map comp_def by (rule map_cong [OF refl]) (rule strip)
  then have "map disposition (endpoints d') = map disposition (endpoints d)"
  proof -
    have "map disposition es
        = map disposition (map (\<lambda>e. e\<lparr>corroborating_windows := 0, corroborating_requests := 0\<rparr>) es)" for es
      by simp
    then show ?thesis using rows by metis
  qed
  then have "(\<exists>e\<in>set (endpoints d'). disposition e = Eligible) \<longleftrightarrow> (\<exists>e\<in>set (endpoints d). disposition e = Eligible)"
    by (metis (mono_tags) image_iff set_map)
  then have status: "epoch_status d' = epoch_status d" unfolding D(7) D'(7) by presburger
  have "sampled_endpoint_count d' = sampled_endpoint_count d"
    "path_unavailable_endpoint_count d' = path_unavailable_endpoint_count d"
    "fraud_evidence d' = fraud_evidence d"
    by (simp_all only: D(2,3,6) D'(2,3,6))
  then have "d' = d\<lparr>endpoints := endpoints d'\<rparr>"
    using status same by (intro derived_epoch.equality) simp_all
  then show ?thesis using d' rows by blast
qed

section \<open>Sealing and replay\<close>

lemma derived_mismatch_None: "derived_mismatch d e = None \<longleftrightarrow> d = e"
proof
  assume "derived_mismatch d e = None"
  then show "d = e"
    unfolding derived_mismatch_def by (intro derived_epoch.equality) (simp_all split: if_splits)
qed (simp add: derived_mismatch_def)

lemma observation_validate_same: "observation_validate L x = Inr y \<Longrightarrow> y = x"
  by (simp add: observation_validate_Inr)

lemma corroboration_validate_same: "corroboration_validate x = Inr y \<Longrightarrow> y = x"
  by (simp add: corroboration_validate_def)

text \<open>A sealed record follows from its own evidence.\<close>

lemma epoch_validate_Inr:
  assumes "epoch_validate L e = Inr f"
  shows "f = e" and "epoch_fields e" and "\<forall>x\<in>set (observations e). observation_validate L x = Inr x"
    and "derive_epoch (observations e) (corroboration e) (epoch_seconds e) (epoch_index e) (min_attempts e)
         = Inr (derived e)"
    and "\<forall>x\<in>set (observations e). ob_validator_hotkey x = es_validator_hotkey e"
    and "distinct (map probe_nonce (observations e))"
    and "observations e = sort_key observation_order (observations e)"
proof -
  obtain obs dv where
      fields: "epoch_fields e"
    and obs: "mapM (observation_validate L) (observations e) = Inr obs"
    and sorted: "observations e = sort_key observation_order (observations e)"
    and nonces: "distinct (map probe_nonce (observations e))"
    and val: "\<not> list_ex (\<lambda>item. ob_validator_hotkey item \<noteq> es_validator_hotkey e) (observations e)"
    and der: "derive_epoch (observations e) (corroboration e) (epoch_seconds e) (epoch_index e)
                      (min_attempts e) = Inr dv"
    and rest: "(case derived_mismatch (derived e) dv of Some m \<Rightarrow> Inl (ValueError m)
          | None \<Rightarrow>
              reject_if (observation_vector_digest e
                         \<noteq> sha_json L (JList (map observation_document (observations e))))
                (ValueError ''observation_vector_digest_mismatch'')
              (verify_model_digest L ''epoch_score_digest_sha256'' (JObj (epoch_unsigned e))
                 (epoch_score_digest e) e)) = Inr f"
    using assms unfolding epoch_validate_def Let_def as_validation_Inr
    by (elim res_bindE reject_ifE) blast
  have none: "derived_mismatch (derived e) dv = None"
    using rest by (cases "derived_mismatch (derived e) dv") simp_all
  then show "f = e" using rest by simp
  show "derive_epoch (observations e) (corroboration e) (epoch_seconds e) (epoch_index e) (min_attempts e)
         = Inr (derived e)"
    using none der by (simp add: derived_mismatch_None)
  show "\<forall>x\<in>set (observations e). observation_validate L x = Inr x"
    by (rule mapM_same(2) [OF obs observation_validate_same])
  show "\<forall>x\<in>set (observations e). ob_validator_hotkey x = es_validator_hotkey e"
    using val by (auto simp: list_ex_iff)
qed (use assms in \<open>simp_all only: epoch_validate_def Let_def as_validation_Inr res_bind_Inr reject_if_Inr\<close>, blast+)

text \<open>Screening as a property of the collection.\<close>

definition screened ::
    "pylib \<Rightarrow> ed25519 \<Rightarrow> (string \<rightharpoonup> ActiveAssignmentManifestV2) \<Rightarrow> string \<Rightarrow> int \<Rightarrow> int
     \<Rightarrow> OrganicProbeObservation \<Rightarrow> bool" where
  "screened L V index validator es ei x \<longleftrightarrow>
     ob_validator_hotkey x = validator \<and> in_epoch es ei x
     \<and> verify_against_manifest L V x (index (ob_manifest_digest x)) = Inr ()"

lemma screen_step:
  "screen_observation L V index validator es ei (ds, ns) x = Inr r \<longleftrightarrow>
     screened L V index validator es ei x \<and> observation_digest x \<notin> set ds \<and> probe_nonce x \<notin> set ns
     \<and> r = (observation_digest x # ds, probe_nonce x # ns)"
  unfolding screen_observation_def screened_def in_epoch_def by auto

lemma screen_fold:
  "(\<exists>r. foldM (screen_observation L V index validator es ei) (ds, ns) xs = Inr r) \<longleftrightarrow>
     (\<forall>x\<in>set xs. screened L V index validator es ei x)
     \<and> distinct (map observation_digest xs) \<and> distinct (map probe_nonce xs)
     \<and> set ds \<inter> observation_digest ` set xs = {} \<and> set ns \<inter> probe_nonce ` set xs = {}"
proof (induction xs arbitrary: ds ns)
  case (Cons x xs)
  show ?case
  proof (cases "screened L V index validator es ei x \<and> observation_digest x \<notin> set ds \<and> probe_nonce x \<notin> set ns")
    case True
    then have "screen_observation L V index validator es ei (ds, ns) x
        = Inr (observation_digest x # ds, probe_nonce x # ns)"
      by (simp add: screen_step)
    then show ?thesis using Cons True by auto
  next
    case False
    then have "\<nexists>r. screen_observation L V index validator es ei (ds, ns) x = Inr r"
      by (auto simp: screen_step)
    then show ?thesis using False by auto
  qed
qed simp

lemma dict_of_map_keys:
  assumes "distinct (map f xs)" and "x \<in> set xs"
  shows "dict_of (map (\<lambda>x. (f x, x)) xs) (f x) = Some x"
proof -
  have d: "distinct (map fst (map (\<lambda>x. (f x, x)) xs))" using assms(1) by (simp add: comp_def)
  show ?thesis
    unfolding dict_of_distinct [OF d] by (rule map_of_is_SomeI [OF d]) (use assms(2) in auto)
qed

lemma canonical_windows_idem: "canonical_windows (canonical_windows ws) = canonical_windows ws"
proof -
  let ?key = "\<lambda>w. (sc_endpoint_id w, window_digest w)"
  let ?kvs = "map (\<lambda>w. (?key w, w)) ws"
  let ?ks = "sorted_set (map fst ?kvs)"
  have keyed: "?key (the (dict_of ?kvs k)) = k" if "k \<in> set ?ks" for k
  proof -
    have "k \<in> fst ` set ?kvs" using that by (simp add: image_image)
    then obtain w where "dict_of ?kvs k = Some w" using dict_of_None [of ?kvs k] by (auto simp del: set_map)
    then show ?thesis using dict_of_Some by fastforce
  qed
  have cw: "canonical_windows ws = map (\<lambda>k. the (dict_of ?kvs k)) ?ks"
    by (simp add: canonical_windows_def Let_def)
  have keys: "map ?key (canonical_windows ws) = ?ks"
    unfolding cw map_map comp_apply [abs_def] by (rule map_idI) (use keyed in \<open>simp add: comp_def\<close>)
  let ?cs = "canonical_windows ws"
  have dist: "distinct (map ?key ?cs)" unfolding keys by simp
  have "canonical_windows ?cs = map (\<lambda>k. the (dict_of (map (\<lambda>w. (?key w, w)) ?cs) k)) (sorted_set (map ?key ?cs))"
    by (simp add: canonical_windows_def Let_def comp_def)
  also have "sorted_set (map ?key ?cs) = map ?key ?cs"
    unfolding keys by (rule sorted_set_id_iff [THEN iffD2, OF sorted_set_strict, symmetric])
  also have "map (\<lambda>k. the (dict_of (map (\<lambda>w. (?key w, w)) ?cs) k)) (map ?key ?cs) = ?cs"
    using dict_of_map_keys [OF dist] by (simp add: comp_def map_idI)
  finally show ?thesis .
qed

lemma sort_observations:
  assumes "mset xs = mset ys" and "distinct (map probe_nonce xs)"
  shows "sort_key observation_order xs = sort_key observation_order ys"
proof (rule sort_key_perm [OF assms(1)])
  show "inj_on observation_order (set xs)"
    using assms(2) by (auto simp: distinct_map inj_on_def observation_order_def)
qed

text \<open>The parts of a successful scoring.\<close>

lemma score_organic_epoch_Inr:
  "score_organic_epoch L V ms obs validator ei es minimum ws = Inr e \<longleftrightarrow>
     in_range 60 3600 es \<and> in_range 1 16 minimum
     \<and> (\<exists>index. manifest_index L ms = Inr index
        \<and> (\<forall>x\<in>set obs. observation_validate L x = Inr x \<and> screened L V index validator es ei x))
     \<and> length obs \<le> nat max_observations
     \<and> distinct (map observation_digest obs) \<and> distinct (map probe_nonce obs)
     \<and> (\<forall>w\<in>set ws. corroboration_validate w = Inr w)
     \<and> (\<exists>d. derive_epoch (sort_key observation_order obs) (canonical_windows ws) es ei minimum = Inr d
        \<and> (let e0 = \<lparr>es_validator_hotkey = validator, epoch_seconds = es, epoch_index = ei,
                 min_attempts = minimum,
                 manifest_digests = sorted_set (map ob_manifest_digest (sort_key observation_order obs)),
                 derived = d, corroboration = canonical_windows ws,
                 observations = sort_key observation_order obs,
                 observation_vector_digest =
                   sha_json L (JList (map observation_document (sort_key observation_order obs))),
                 epoch_score_digest = ''''\<rparr>
           in epoch_validate L (e0\<lparr>epoch_score_digest := sha_json L (JObj (epoch_unsigned e0))\<rparr>) = Inr e))"
proof -
  have obs: "mapM (observation_validate L) obs = Inr vs \<longleftrightarrow> vs = obs \<and> (\<forall>x\<in>set obs. observation_validate L x = Inr x)" for vs
    by (rule mapM_same_iff) (rule observation_validate_same)
  have cor: "mapM corroboration_validate ws = Inr vs \<longleftrightarrow> vs = ws \<and> (\<forall>w\<in>set ws. corroboration_validate w = Inr w)" for vs
    by (rule mapM_same_iff) (rule corroboration_validate_same)
  have fold: "(\<exists>r. foldM (screen_observation L V index validator es ei) ([], []) obs = Inr r) \<longleftrightarrow>
     (\<forall>x\<in>set obs. screened L V index validator es ei x)
     \<and> distinct (map observation_digest obs) \<and> distinct (map probe_nonce obs)" for index
    unfolding screen_fold by simp
  have pull: "(\<exists>r. foldM f z obs = Inr r \<and> Q) \<longleftrightarrow> (\<exists>r. foldM f z obs = Inr r) \<and> Q"
    for f :: "string list \<times> string list \<Rightarrow> OrganicProbeObservation \<Rightarrow> (string list \<times> string list) res" and z Q
    by blast
  show ?thesis
    unfolding score_organic_epoch_def Let_def reject_if_Inr res_bind_Inr obs cor
    by (simp only: pull fold simp_thms ex_simps de_Morgan_disj not_not not_less conj_assoc) blast
qed

lemma canonical_windows_subset: "set (canonical_windows ws) \<subseteq> set ws"
proof
  fix w assume "w \<in> set (canonical_windows ws)"
  then obtain k where k: "k \<in> (\<lambda>w. (sc_endpoint_id w, window_digest w)) ` set ws"
    and w: "w = the (dict_of (map (\<lambda>w. ((sc_endpoint_id w, window_digest w), w)) ws) k)"
    by (auto simp: canonical_windows_def Let_def)
  let ?kvs = "map (\<lambda>w. ((sc_endpoint_id w, window_digest w), w)) ws"
  have "k \<in> fst ` set ?kvs" using k by (simp add: image_image)
  then obtain v where "dict_of ?kvs k = Some v" using dict_of_None [of ?kvs k] by (auto simp del: set_map)
  then show "w \<in> set ws" using dict_of_Some [of ?kvs k v] w by auto
qed

lemma score_organic_epoch_perm:
  assumes "mset obs = mset obs'"
    and "score_organic_epoch L V ms obs validator ei es minimum ws = Inr e"
  shows "score_organic_epoch L V ms obs' validator ei es minimum ws = Inr e"
proof -
  have "set obs' = set obs" "length obs' = length obs"
    using assms(1) by (metis set_mset_mset, metis size_mset)
  moreover have "distinct (map f obs') = distinct (map f obs)" for f :: "OrganicProbeObservation \<Rightarrow> string"
    using mset_eq_imp_distinct_iff [of "map f obs'" "map f obs"] assms(1) by simp
  moreover have "sort_key observation_order obs = sort_key observation_order obs'"
    using assms sort_observations unfolding score_organic_epoch_Inr by blast
  ultimately show ?thesis using assms(2) unfolding score_organic_epoch_Inr by simp
qed

text \<open>
  C34: The order of probes never reaches the record. Scoring any permutation of the same
  observations against the same manifests seals the very same epoch record, digest
  included.
\<close>

theorem scoring_order_independent:
  assumes "mset obs = mset obs'"
    and "score_organic_epoch L V ms obs validator ei es minimum ws = Inr e"
  shows "score_organic_epoch L V ms obs' validator ei es minimum ws = Inr e"
  by (rule score_organic_epoch_perm [OF assms])

text \<open>
  C35: Every sealed epoch can be audited. A record that \<^verbatim>\<open>score_organic_epoch\<close> returns
  replays against the manifests it was scored with: the rebuild from its own observations,
  which verifies every embedded miner attestation again, reproduces it byte for byte.
\<close>

theorem sealed_epoch_replays:
  assumes "score_organic_epoch L V ms obs validator ei es minimum ws = Inr e"
  shows "replay_organic_epoch_score L V e ms = Inr e"
proof -
  note S = assms [unfolded score_organic_epoch_Inr Let_def]
  let ?items = "sort_key observation_order obs"
  obtain e0 where e0: "epoch_validate L e0 = Inr e" "observations e0 = ?items"
      "corroboration e0 = canonical_windows ws" "es_validator_hotkey e0 = validator"
      "epoch_index e0 = ei" "epoch_seconds e0 = es" "min_attempts e0 = minimum"
    using S by fastforce
  then have e: "e = e0" using epoch_validate_Inr(1) by blast
  have again: "score_organic_epoch L V ms ?items validator ei es minimum (canonical_windows ws) = Inr e"
  proof -
    have perm: "score_organic_epoch L V ms ?items validator ei es minimum ws = Inr e"
      by (rule score_organic_epoch_perm [OF _ assms]) simp
    have "corroboration_validate w = Inr w" if "w \<in> set (canonical_windows ws)" for w
      using that S canonical_windows_subset by blast
    then show ?thesis
      using perm unfolding score_organic_epoch_Inr canonical_windows_idem by blast
  qed
  have valid: "epoch_validate L e = Inr e" using e0(1) e by simp
  show ?thesis
    unfolding replay_organic_epoch_score_def
    using valid again e0(2-) by (simp add: e epoch_bytes_def model_bytes_def)
qed

section \<open>The window mean\<close>

abbreviation row_key :: "EndpointEpochTally \<Rightarrow> int \<times> string" where
  "row_key e \<equiv> (te_miner_uid e, te_miner_hotkey e)"

definition eligible_rows :: "EndpointEpochTally list \<Rightarrow> int \<times> string \<Rightarrow> EndpointEpochTally list" where
  "eligible_rows rs key = filter (\<lambda>e. disposition e = Eligible \<and> row_key e = key) rs"

definition availability :: "EndpointEpochTally \<Rightarrow> rat" where
  "availability e = of_int (the (availability_numerator e)) / of_int (the (availability_denominator e))"

definition window_summary :: "EndpointEpochTally list \<Rightarrow> window_state \<Rightarrow> bool" where
  "window_summary rs s \<longleftrightarrow>
     distinct (sum_keys s) \<and> set (sum_keys s) = {row_key e | e. e \<in> set rs \<and> disposition e = Eligible}
     \<and> (\<forall>k. availability_sums s k = sum_list (map availability (eligible_rows rs k)))
     \<and> (\<forall>k. eligible_counts s k = int (length (eligible_rows rs k)))
     \<and> (\<forall>h. fraud_counts s h
          = sum_list (map fraudulent_attestations (filter (\<lambda>e. te_miner_hotkey e = h) rs)))"

lemma window_step_summary:
  assumes sum: "window_summary rs s" and step: "window_step s e = Inr t"
  shows "window_summary (rs @ [e]) t"
proof (cases "disposition e = Eligible")
  case True
  then obtain n d where nd: "availability_numerator e = Some n" "availability_denominator e = Some d"
    using step unfolding window_step_def Let_def by (auto split: option.splits)
  let ?k = "row_key e"
  have t: "sum_keys t = (if ?k \<in> set (sum_keys s) then sum_keys s else sum_keys s @ [?k])"
      "availability_sums t = (availability_sums s)(?k := availability_sums s ?k + availability e)"
      "eligible_counts t = (eligible_counts s)(?k := eligible_counts s ?k + 1)"
      "fraud_counts t = (fraud_counts s)(te_miner_hotkey e :=
         fraud_counts s (te_miner_hotkey e) + fraudulent_attestations e)"
    using step True nd unfolding window_step_def Let_def availability_def by auto
  have rows: "eligible_rows (rs @ [e]) k = eligible_rows rs k @ (if k = ?k then [e] else [])" for k
    using True by (auto simp: eligible_rows_def)
  show ?thesis
    using sum True unfolding window_summary_def t rows by auto
next
  case False
  then have t: "sum_keys t = sum_keys s" "availability_sums t = availability_sums s"
      "eligible_counts t = eligible_counts s"
      "fraud_counts t = (fraud_counts s)(te_miner_hotkey e :=
         fraud_counts s (te_miner_hotkey e) + fraudulent_attestations e)"
    using step unfolding window_step_def Let_def by auto
  have rows: "eligible_rows (rs @ [e]) k = eligible_rows rs k" for k
    using False by (auto simp: eligible_rows_def)
  show ?thesis
    using sum False unfolding window_summary_def t rows by auto
qed

lemma window_fold:
  assumes "foldM window_step empty_window rs = Inr s"
  shows "window_summary rs s"
  using assms
proof (rule foldM_invariant)
  show "window_summary [] empty_window"
    by (simp add: window_summary_def empty_window_def eligible_rows_def)
qed (rule window_step_summary)

text \<open>The rows of a window, in epoch order.\<close>

definition window_rows :: "OrganicEpochScore list \<Rightarrow> EndpointEpochTally list" where
  "window_rows epochs = concat (map (\<lambda>e. endpoints (derived e)) (sort_key epoch_index epochs))"

lemma epoch_validate_same: "epoch_validate L e = Inr f \<Longrightarrow> f = e"
  by (rule epoch_validate_Inr(1))

lemma score_validate_same: "score_validate L s = Inr t \<Longrightarrow> t = s"
  unfolding score_validate_def Let_def as_validation_Inr by (elim res_bindE reject_ifE) simp

lemma aggregate_Inr:
  assumes "aggregate_organic_window L epochs = Inr score"
  obtains s where "foldM window_step empty_window (window_rows epochs) = Inr s"
    and "score_validate L score = Inr score"
    and "miners score = map (miner_of s) (sort (sum_keys s))"
    and "as_validator_hotkey score = es_validator_hotkey (hd (sort_key epoch_index epochs))"
    and "epoch_indexes score = map epoch_index (sort_key epoch_index epochs)"
    and "\<forall>e\<in>set epochs. epoch_validate L e = Inr e"
proof -
  obtain checked s where checked: "mapM (epoch_validate L) epochs = Inr checked"
    and s: "foldM window_step empty_window
          (concat (map (\<lambda>e. endpoints (derived e)) (sort_key epoch_index checked))) = Inr s"
    and sc: "score_validate L (let values = sort_key epoch_index checked;
           score = \<lparr>as_validator_hotkey = es_validator_hotkey (hd values),
               as_epoch_seconds = epoch_seconds (hd values), epoch_indexes = map epoch_index values,
               epoch_score_digests = map epoch_score_digest values,
               abstained_epochs = map epoch_index (filter (\<lambda>e. epoch_status (derived e) \<noteq> Scored) values),
               miners = map (miner_of s) (sort (sum_keys s)),
               as_fraud_evidence = sort_key fe_observation_digest
                 (concat (map (\<lambda>e. fraud_evidence (derived e)) values)),
               score_digest = ''''\<rparr>
         in score\<lparr>score_digest := sha_json L (JObj (score_unsigned score))\<rparr>) = Inr score"
    using assms unfolding aggregate_organic_window_def Let_def by (elim res_bindE reject_ifE) blast
  have c: "checked = epochs" "\<forall>e\<in>set epochs. epoch_validate L e = Inr e"
    using checked mapM_same_iff [of "epoch_validate L", OF epoch_validate_same] by auto
  note score = score_validate_same [OF sc]
  show ?thesis
    by (rule that [OF s [unfolded c(1), folded window_rows_def] _ _ _ _ c(2)])
      (use sc score in \<open>simp_all add: Let_def c(1)\<close>)
qed

text \<open>
  C11: A miner's availability is the exact mean of its eligible endpoint-epochs. When
  \<^verbatim>\<open>aggregate_organic_window\<close> seals a window, its miners are exactly those with at least
  one eligible row, each with the number of those rows and the reduced fraction of the mean
  of their availabilities, between 0 and 1. A miner without an eligible row is absent: it is
  never given a zero.
\<close>

theorem window_availability_mean:
  assumes "aggregate_organic_window L epochs = Inr score"
  shows "map (\<lambda>a. (ma_miner_uid a, ma_miner_hotkey a)) (miners score)
      = sorted_list_of_set {row_key e | e. e \<in> set (window_rows epochs) \<and> disposition e = Eligible}
    \<and> (\<forall>a\<in>set (miners score).
         let mine = eligible_rows (window_rows epochs) (ma_miner_uid a, ma_miner_hotkey a);
             mean = of_int (ma_numerator a) / of_int (ma_denominator a)
         in mine \<noteq> [] \<and> eligible_endpoint_epochs a = int (length mine)
            \<and> mean = sum_list (map availability mine) / of_nat (length mine)
            \<and> 0 \<le> mean \<and> mean \<le> (1::rat) \<and> coprime (ma_numerator a) (ma_denominator a))"
proof -
  obtain s where s: "foldM window_step empty_window (window_rows epochs) = Inr s"
    and v: "score_validate L score = Inr score"
    and m: "miners score = map (miner_of s) (sort (sum_keys s))"
    using aggregate_Inr [OF assms] by metis
  note W = window_fold [OF s, unfolded window_summary_def]
  let ?K = "{row_key e | e. e \<in> set (window_rows epochs) \<and> disposition e = Eligible}"
  have keys: "sort (sum_keys s) = sorted_list_of_set ?K"
    using W by (metis sorted_list_of_set_sort_remdups distinct_remdups_id)
  have key: "(ma_miner_uid (miner_of s k), ma_miner_hotkey (miner_of s k)) = k" for k
    by (simp add: miner_of_def Let_def)
  obtain checked where "mapM miner_validate (miners score) = Inr checked"
    using v unfolding score_validate_def as_validation_Inr by (elim res_bindE reject_ifE) blast
  moreover have "miner_validate a = Inr b \<Longrightarrow> b = a" for a b by (simp add: miner_validate_def Let_def)
  ultimately have ok: "\<forall>a\<in>set (miners score). miner_validate a = Inr a"
    using mapM_same_iff [of miner_validate] by blast
  have one: "let mine = eligible_rows (window_rows epochs) (ma_miner_uid a, ma_miner_hotkey a);
             mean = of_int (ma_numerator a) / of_int (ma_denominator a)
         in mine \<noteq> [] \<and> eligible_endpoint_epochs a = int (length mine)
            \<and> mean = sum_list (map availability mine) / of_nat (length mine)
            \<and> 0 \<le> mean \<and> mean \<le> (1::rat) \<and> coprime (ma_numerator a) (ma_denominator a)"
    if a: "a \<in> set (miners score)" for a
  proof -
    obtain k where k: "k \<in> set (sum_keys s)" and ak: "a = miner_of s k" using a by (auto simp: m)
    have "k \<in> ?K" using k W by simp
    then have ne: "eligible_rows (window_rows epochs) k \<noteq> []"
      by (auto simp: eligible_rows_def filter_empty_conv)
    obtain n d where q: "quotient_of (availability_sums s k / of_int (eligible_counts s k)) = (n, d)"
      by fastforce
    have nd: "ma_numerator a = n" "ma_denominator a = d" "eligible_endpoint_epochs a = eligible_counts s k"
      using q by (simp_all add: ak miner_of_def Let_def)
    have bounds: "0 \<le> n" "of_int n / of_int d \<le> (1::rat)"
      using ok a nd by (auto simp: miner_validate_def Let_def not_less)
    have cnt: "eligible_counts s k = int (length (eligible_rows (window_rows epochs) k))"
        "availability_sums s k = sum_list (map availability (eligible_rows (window_rows epochs) k))"
      using W by blast+
    note r = quotient_of_ratio [OF q]
    have "0 \<le> rat_of_int n / rat_of_int d" using bounds(1) r(2) by simp
    moreover have "rat_of_int n / rat_of_int d = sum_list (map availability (eligible_rows (window_rows epochs) k))
        / of_nat (length (eligible_rows (window_rows epochs) k))"
      using r(1) by (simp add: cnt)
    moreover have "(ma_miner_uid a, ma_miner_hotkey a) = k" by (simp only: ak key)
    ultimately show ?thesis
      using ne bounds(2) r(3) cnt(1) by (simp only: Let_def nd) blast
  qed
  have "map (\<lambda>a. (ma_miner_uid a, ma_miner_hotkey a)) (miners score) = sorted_list_of_set ?K"
    unfolding m keys [symmetric] by (simp add: comp_def key)
  then show ?thesis using one by blast
qed

lemma replay_Inr:
  assumes "replay_organic_epoch_score L V e manifests = Inr f"
  shows "f = e
    \<and> derive_epoch (observations e) (corroboration e) (epoch_seconds e) (epoch_index e) (min_attempts e)
      = Inr (derived e)
    \<and> distinct (map probe_nonce (observations e))
    \<and> (\<forall>x\<in>set (observations e). in_epoch (epoch_seconds e) (epoch_index e) x
         \<and> ob_validator_hotkey x = es_validator_hotkey e
         \<and> (\<exists>m\<in>set manifests. md_digest m = ob_manifest_digest x
              \<and> verify_against_manifest L V x (Some m) = Inr ()))"
proof -
  obtain v where v: "epoch_validate L e = Inr v"
    using assms unfolding replay_organic_epoch_score_def by (elim res_bindE) blast
  then have same: "v = e" by (rule epoch_validate_same)
  obtain rebuilt where sc: "score_organic_epoch L V manifests (observations e) (es_validator_hotkey e)
      (epoch_index e) (epoch_seconds e) (min_attempts e) (corroboration e) = Inr rebuilt"
    using assms v unfolding replay_organic_epoch_score_def same by auto
  obtain index where index: "manifest_index L manifests = Inr index"
    and scr: "\<forall>x\<in>set (observations e).
        screened L V index (es_validator_hotkey e) (epoch_seconds e) (epoch_index e) x"
    using sc unfolding score_organic_epoch_Inr by blast
  have idx: "m \<in> set manifests \<and> md_digest m = h" if "index h = Some m" for h m
  proof -
    have "index = dict_of (map (\<lambda>m. (md_digest m, m)) manifests)"
      using index mapM_same_iff [of "manifest_validate L", OF manifest_validate_Inr(1)]
      by (auto simp: manifest_index_def)
    then show ?thesis using dict_of_Some that by fastforce
  qed
  have one: "\<exists>m\<in>set manifests. md_digest m = ob_manifest_digest x \<and> verify_against_manifest L V x (Some m) = Inr ()"
    if "x \<in> set (observations e)" for x
  proof -
    have ver: "verify_against_manifest L V x (index (ob_manifest_digest x)) = Inr ()"
      using scr that by (simp add: screened_def)
    then obtain m where "index (ob_manifest_digest x) = Some m"
      by (cases "index (ob_manifest_digest x)") (simp_all add: verify_against_manifest_def)
    then show ?thesis using ver idx by auto
  qed
  have "f = e" using assms v unfolding replay_organic_epoch_score_def same by auto
  then show ?thesis
    using one scr epoch_validate_Inr(4,6) [OF v] by (auto simp: screened_def)
qed

text \<open>
  C9: Replay is a complete audit. When \<^verbatim>\<open>replay_organic_epoch_score\<close> accepts a record, the
  record is the one it was given, every observation in it was re-verified against one of the
  supplied manifests (published endpoint, same identities and predicate, inside the
  manifest's horizon, attestation verified exactly as recorded, in the record's epoch), no
  probe nonce occurs twice, and its tallies are the ones those observations derive.
\<close>

theorem replay_is_complete_audit:
  assumes "replay_organic_epoch_score L V e manifests = Inr f"
  shows "f = e
    \<and> derive_epoch (observations e) (corroboration e) (epoch_seconds e) (epoch_index e) (min_attempts e)
      = Inr (derived e)
    \<and> distinct (map probe_nonce (observations e))
    \<and> (\<forall>x\<in>set (observations e). in_epoch (epoch_seconds e) (epoch_index e) x
         \<and> ob_validator_hotkey x = es_validator_hotkey e
         \<and> (\<exists>m\<in>set manifests. md_digest m = ob_manifest_digest x
              \<and> verify_against_manifest L V x (Some m) = Inr ()))"
  using assms by (rule replay_Inr)

end
