(* ===== verification/Decisions.thy ===== *)
theory Decisions
  imports OrganicScores WeightPlans
begin

text \<open>
  From scored epochs to a weight plan: the sealed abstain-or-submit decision of
  \<^verbatim>\<open>validator_decision.py\<close> and \<^verbatim>\<open>build_weight_plan_from_decision\<close> of
  \<^verbatim>\<open>weight_plan.py\<close>, the only path from a decision to a plan. A decision embeds its
  manifests, trust policies and epochs; its validator replays every epoch, aggregates the
  window again and derives rows, reasons and outcome from scratch.
\<close>

section \<open>Inputs\<close>

record WeightDecisionPolicy =
  min_scored_epochs :: int
  max_registered_height_gap :: int

definition decision_policy_fields :: "WeightDecisionPolicy \<Rightarrow> bool" where
  "decision_policy_fields p \<longleftrightarrow>
     in_range 1 2016 (min_scored_epochs p) \<and> in_range 0 1000000 (max_registered_height_gap p)"

definition default_decision_policy :: WeightDecisionPolicy where
  "default_decision_policy = \<lparr>min_scored_epochs = 6, max_registered_height_gap = 600\<rparr>"

record RegisteredMiner =
  rm_uid :: int
  rm_hotkey :: string

record RegisteredMinerSet =
  rs_finalized_height :: int
  rs_finalized_block_hash :: string
  rs_finalized_epoch :: int
  rs_validator_uid :: int
  rs_validator_hotkey :: string
  rs_miners :: "RegisteredMiner list"
  rs_fingerprint :: string

definition registered_validate :: "RegisteredMinerSet \<Rightarrow> RegisteredMinerSet res" where
  "registered_validate s = as_validation
     (reject_if (\<not> (in_range 0 max_epoch (rs_finalized_height s) \<and> digest_text (rs_finalized_block_hash s)
                   \<and> in_range 0 max_epoch (rs_finalized_epoch s) \<and> in_range 0 65535 (rs_validator_uid s)
                   \<and> hotkey_text (rs_validator_hotkey s) \<and> 1 \<le> length (rs_miners s)
                   \<and> length (rs_miners s) \<le> 4096
                   \<and> list_all (\<lambda>m. in_range 0 65535 (rm_uid m) \<and> hotkey_text (rm_hotkey m)) (rs_miners s)
                   \<and> digest_text (rs_fingerprint s))) strict_error
     (let keys = map (\<lambda>m. (rm_uid m, rm_hotkey m)) (rs_miners s)
      in reject_if (keys \<noteq> sorted_set keys) (ValueError ''registered_miners_not_canonical'')
         (reject_if (\<not> distinct (map fst keys) \<or> \<not> distinct (map snd keys))
            (ValueError ''registered_miner_duplicate'')
         (reject_if (rs_validator_uid s \<in> set (map fst keys) \<or> rs_validator_hotkey s \<in> set (map snd keys))
            (ValueError ''registered_validator_overlaps_miner'')
         (Inr s)))))"

datatype fetch_status = Rejected | Unavailable | VerifiedFetch

fun fetch_text :: "fetch_status \<Rightarrow> string" where
  "fetch_text Rejected = ''rejected''"
| "fetch_text Unavailable = ''unavailable''"
| "fetch_text VerifiedFetch = ''verified''"

record TerminalManifestObservation =
  to_status :: fetch_status
  to_evaluated_at_epoch :: int
  to_manifest :: "ActiveAssignmentManifestV2 option"
  to_rejection_code :: "string option"

datatype miner_class = FraudEvidenceClass | ScoredClass | UnscoredClass

fun class_text :: "miner_class \<Rightarrow> string" where
  "class_text FraudEvidenceClass = ''fraud_evidence''"
| "class_text ScoredClass = ''scored''"
| "class_text UnscoredClass = ''unscored''"

record WeightDecisionRow =
  dr_uid :: int
  dr_hotkey :: string
  classification :: miner_class
  dr_weight :: pyfloat
  dr_eligible :: int
  dr_numerator :: "int option"
  dr_denominator :: "int option"

fun positive_float :: "pyfloat \<Rightarrow> bool" where
  "positive_float (Fin r) = (r > 0)"
| "positive_float PosInf = True"
| "positive_float _ = False"

definition row_document :: "WeightDecisionRow \<Rightarrow> json" where
  "row_document r = JObj
     [(''uid'', JInt (dr_uid r)), (''hotkey'', JStr (dr_hotkey r)),
      (''classification'', JStr (class_text (classification r))), (''weight'', JFloat (dr_weight r)),
      (''eligible_endpoint_epochs'', JInt (dr_eligible r)),
      (''availability_numerator'', jint_opt (dr_numerator r)),
      (''availability_denominator'', jint_opt (dr_denominator r))]"

definition row_fields :: "WeightDecisionRow \<Rightarrow> bool" where
  "row_fields r \<longleftrightarrow>
     in_range 0 65535 (dr_uid r) \<and> hotkey_text (dr_hotkey r)
     \<and> (case dr_weight r of Fin w \<Rightarrow> 0 \<le> w \<and> w \<le> 1 | _ \<Rightarrow> False)
     \<and> 0 \<le> dr_eligible r \<and> opt_ok (\<lambda>n. 0 \<le> n) (dr_numerator r) \<and> opt_ok (\<lambda>n. 1 \<le> n) (dr_denominator r)"

section \<open>Derivation\<close>

definition registered_unbound ::
    "RegisteredMinerSet \<Rightarrow> ManifestHeader \<Rightarrow> WeightDecisionPolicy \<Rightarrow> bool" where
  "registered_unbound registered m policy \<longleftrightarrow>
     rs_finalized_height registered < finalized_height m
     \<or> rs_finalized_height registered - finalized_height m > max_registered_height_gap policy
     \<or> rs_finalized_epoch registered < finalized_epoch m
     \<or> (rs_finalized_height registered = finalized_height m
        \<and> (rs_finalized_block_hash registered \<noteq> finalized_block_hash m
           \<or> rs_finalized_epoch registered \<noteq> finalized_epoch m))"

definition abstain_reasons ::
    "fetch_status \<Rightarrow> ActiveAssignmentManifestV2 option \<Rightarrow> bool \<Rightarrow> int \<Rightarrow> int \<Rightarrow> RegisteredMinerSet
     \<Rightarrow> WeightDecisionPolicy \<Rightarrow> int \<Rightarrow> string list" where
  "abstain_reasons status terminal admitted window_end scored registered policy positive_rows =
     sorted_set
       ((case status of
           Unavailable \<Rightarrow> [''terminal_manifest_unavailable'']
         | Rejected \<Rightarrow> [''terminal_manifest_rejected'']
         | VerifiedFetch \<Rightarrow>
             (case terminal of
                None \<Rightarrow> []
              | Some m \<Rightarrow>
                  (if window_end \<ge> organic_manifest_effective_expires_at_epoch m
                   then [''terminal_manifest_stale''] else [])
                  @ (if \<not> admitted then [''terminal_manifest_policy_rejected''] else [])
                  @ (if registered_unbound registered (header m) policy
                     then [''registered_set_unbound''] else [])))
        @ (if scored < min_scored_epochs policy then [''insufficient_scored_epochs''] else [])
        @ (if positive_rows = 0 then [''no_positive_evidence''] else []))"

definition derive_row :: "(int \<times> string \<rightharpoonup> MinerAvailability) \<Rightarrow> RegisteredMiner \<Rightarrow> WeightDecisionRow" where
  "derive_row scored miner =
     (case scored (rm_uid miner, rm_hotkey miner) of
        None \<Rightarrow> \<lparr>dr_uid = rm_uid miner, dr_hotkey = rm_hotkey miner, classification = UnscoredClass,
                 dr_weight = Fin 0, dr_eligible = 0, dr_numerator = None, dr_denominator = None\<rparr>
      | Some item \<Rightarrow>
          let fraud = ma_fraudulent_attestations item > 0
          in \<lparr>dr_uid = rm_uid miner, dr_hotkey = rm_hotkey miner,
              classification = (if fraud then FraudEvidenceClass else ScoredClass),
              dr_weight = (if fraud then Fin 0
                           else to_double (of_int (ma_numerator item) / of_int (ma_denominator item))),
              dr_eligible = eligible_endpoint_epochs item,
              dr_numerator = Some (ma_numerator item), dr_denominator = Some (ma_denominator item)\<rparr>)"

definition derive_rows ::
    "RegisteredMinerSet \<Rightarrow> OrganicAvailabilityScore option \<Rightarrow> WeightDecisionRow list" where
  "derive_rows registered score =
     (let scored = dict_of (map (\<lambda>a. ((ma_miner_uid a, ma_miner_hotkey a), a))
                    (case score of None \<Rightarrow> [] | Some s \<Rightarrow> miners s))
      in map (derive_row scored) (rs_miners registered))"

definition plan_rows :: "WeightDecisionRow list \<Rightarrow> json" where
  "plan_rows rows =
     JList (map (\<lambda>r. JObj [(''miner_hotkey'', JStr (dr_hotkey r)), (''weight'', JFloat (dr_weight r))]) rows)"

definition terminal_admitted ::
    "pylib \<Rightarrow> ActiveAssignmentManifestV2 \<Rightarrow> AssignmentManifestTrustPolicy list \<Rightarrow> int \<Rightarrow> bool" where
  "terminal_admitted L m policies evaluated =
     (case first_match (\<lambda>p. tp_digest p = h_policy_digest (header m)) policies of
        None \<Rightarrow> False
      | Some policy \<Rightarrow>
          \<not> isl (verify_manifest_policy_admission (header m) policy evaluated)
          \<and> \<not> isl (res_bind (manifest_validate L m) verify_identities))"

section \<open>The sealed decision\<close>

record ValidatorWeightDecision =
  vd_validator_uid :: int
  vd_validator_hotkey :: string
  vd_window_start :: int
  vd_window_end :: int
  submit :: bool
  vd_reasons :: "string list"
  decision_policy :: WeightDecisionPolicy
  trust_policies :: "AssignmentManifestTrustPolicy list"
  terminal_status :: fetch_status
  terminal_rejection_code :: "string option"
  terminal_evaluated :: int
  terminal_digest :: "string option"
  terminal_sequence :: "int option"
  terminal_height :: "int option"
  terminal_block_hash :: "string option"
  terminal_epoch :: "int option"
  vd_manifests :: "ActiveAssignmentManifestV2 list"
  epochs :: "OrganicEpochScore list"
  availability_score :: "OrganicAvailabilityScore option"
  scored_epoch_count :: int
  registered_height :: int
  registered_block_hash :: string
  registered_epoch :: int
  registered_miner_count :: int
  vd_fingerprint :: string
  rows :: "WeightDecisionRow list"
  rows_digest :: "string option"
  decision_digest :: string

definition policy_document :: "AssignmentManifestTrustPolicy \<Rightarrow> json" where
  "policy_document p = (case policy_unsigned p of
     JObj kvs \<Rightarrow> JObj (kvs @ [(''trust_policy_digest_sha256'', JStr (tp_digest p))]) | j \<Rightarrow> j)"

definition decision_unsigned :: "ValidatorWeightDecision \<Rightarrow> (string \<times> json) list" where
  "decision_unsigned d =
     [(''schema'', JStr ''miss.computer/misscomputer-subnet/validator-weight-decision''),
      (''schema_version'', JInt 2), (''purpose'', JStr ''organic_validator_weight_decision_v2''),
      (''network'', JStr ''finney''), (''netuid'', JInt 24),
      (''validator_uid'', JInt (vd_validator_uid d)), (''validator_hotkey'', JStr (vd_validator_hotkey d)),
      (''window_start_epoch'', JInt (vd_window_start d)), (''window_end_epoch'', JInt (vd_window_end d)),
      (''decision'', JStr (if submit d then ''submit'' else ''abstain'')),
      (''abstain_reasons'', JList (map JStr (vd_reasons d))),
      (''decision_policy'', JObj [(''min_scored_epochs'', JInt (min_scored_epochs (decision_policy d))),
         (''max_registered_height_gap'', JInt (max_registered_height_gap (decision_policy d)))]),
      (''trust_policies'', JList (map policy_document (trust_policies d))),
      (''terminal_manifest_status'', JStr (fetch_text (terminal_status d))),
      (''terminal_manifest_rejection_code'', jstr_opt (terminal_rejection_code d)),
      (''terminal_evaluated_at_epoch'', JInt (terminal_evaluated d)),
      (''terminal_manifest_digest_sha256'', jstr_opt (terminal_digest d)),
      (''terminal_manifest_sequence'', jint_opt (terminal_sequence d)),
      (''terminal_finalized_height'', jint_opt (terminal_height d)),
      (''terminal_finalized_block_hash'', jstr_opt (terminal_block_hash d)),
      (''terminal_finalized_epoch'', jint_opt (terminal_epoch d)),
      (''manifests'', JList (map manifest_document (vd_manifests d))),
      (''epochs'', JList (map epoch_document (epochs d))),
      (''availability_score'', (case availability_score d of None \<Rightarrow> JNull | Some s \<Rightarrow> score_document s)),
      (''scored_epoch_count'', JInt (scored_epoch_count d)),
      (''registered_finalized_height'', JInt (registered_height d)),
      (''registered_finalized_block_hash'', JStr (registered_block_hash d)),
      (''registered_finalized_epoch'', JInt (registered_epoch d)),
      (''registered_miner_count'', JInt (registered_miner_count d)),
      (''metagraph_identity_fingerprint_sha256'', JStr (vd_fingerprint d)),
      (''rows'', JList (map row_document (rows d))),
      (''weight_plan_rows_digest_sha256'', jstr_opt (rows_digest d))]"

definition rejection_text :: "string \<Rightarrow> bool" where
  "rejection_text s \<longleftrightarrow> s \<noteq> [] \<and> length s \<le> 64 \<and> list_all (\<lambda>c. lower_alnum c \<or> c = CHR ''_'') s"

definition abstain_codes :: "string list" where
  "abstain_codes = [''insufficient_scored_epochs'', ''no_positive_evidence'', ''registered_set_unbound'',
     ''terminal_manifest_policy_rejected'', ''terminal_manifest_rejected'', ''terminal_manifest_stale'',
     ''terminal_manifest_unavailable'']"

definition decision_fields :: "ValidatorWeightDecision \<Rightarrow> bool" where
  "decision_fields d \<longleftrightarrow>
     in_range 0 65535 (vd_validator_uid d) \<and> hotkey_text (vd_validator_hotkey d)
     \<and> in_range 0 max_epoch (vd_window_start d) \<and> in_range 1 max_epoch (vd_window_end d)
     \<and> length (vd_reasons d) \<le> 7 \<and> list_all (\<lambda>r. r \<in> set abstain_codes) (vd_reasons d)
     \<and> decision_policy_fields (decision_policy d) \<and> length (trust_policies d) \<le> 16
     \<and> opt_ok rejection_text (terminal_rejection_code d) \<and> in_range 0 max_epoch (terminal_evaluated d)
     \<and> opt_ok digest_text (terminal_digest d) \<and> opt_ok (in_range 1 max_epoch) (terminal_sequence d)
     \<and> opt_ok (in_range 0 max_epoch) (terminal_height d) \<and> opt_ok digest_text (terminal_block_hash d)
     \<and> opt_ok (in_range 0 max_epoch) (terminal_epoch d) \<and> length (vd_manifests d) \<le> 1024
     \<and> length (epochs d) \<le> max_epochs \<and> in_range 0 2016 (scored_epoch_count d)
     \<and> in_range 0 max_epoch (registered_height d) \<and> digest_text (registered_block_hash d)
     \<and> in_range 0 max_epoch (registered_epoch d) \<and> in_range 1 4096 (registered_miner_count d)
     \<and> digest_text (vd_fingerprint d) \<and> 1 \<le> length (rows d) \<and> length (rows d) \<le> 4096
     \<and> list_all row_fields (rows d) \<and> opt_ok digest_text (rows_digest d) \<and> digest_text (decision_digest d)"

text \<open>The terminal manifest a decision names, after the consistency checks on its fields.\<close>

definition terminal_of ::
    "ValidatorWeightDecision \<Rightarrow> (string \<rightharpoonup> ActiveAssignmentManifestV2) \<Rightarrow> ActiveAssignmentManifestV2 option res" where
  "terminal_of d by_digest =
     (if terminal_status d = VerifiedFetch
      then (case by_digest (case terminal_digest d of None \<Rightarrow> '''' | Some k \<Rightarrow> k) of
              None \<Rightarrow> Inl (ValueError ''decision_terminal_invalid'')
            | Some m \<Rightarrow>
                reject_if (terminal_rejection_code d \<noteq> None
                           \<or> (terminal_digest d, terminal_sequence d, terminal_height d, terminal_block_hash d,
                              terminal_epoch d)
                             \<noteq> (Some (md_digest m), Some (sequence (header m)), Some (finalized_height (header m)),
                                Some (finalized_block_hash (header m)), Some (finalized_epoch (header m))))
                  (ValueError ''decision_terminal_invalid'')
                (reject_if (terminal_evaluated d < vd_window_end d) (ValueError ''decision_terminal_invalid'')
                (Inr (Some m))))
      else reject_if (terminal_digest d \<noteq> None \<or> terminal_sequence d \<noteq> None \<or> terminal_height d \<noteq> None
                      \<or> terminal_block_hash d \<noteq> None \<or> terminal_epoch d \<noteq> None
                      \<or> (terminal_status d = Rejected) \<noteq> (terminal_rejection_code d \<noteq> None))
             (ValueError ''decision_terminal_invalid'') (Inr None))"

text \<open>The loop over the epochs: validator, window, replay.\<close>

definition check_epoch ::
    "pylib \<Rightarrow> ed25519 \<Rightarrow> ValidatorWeightDecision \<Rightarrow> (string \<rightharpoonup> ActiveAssignmentManifestV2)
     \<Rightarrow> OrganicEpochScore \<Rightarrow> unit res" where
  "check_epoch L V d by_digest e =
     reject_if (es_validator_hotkey e \<noteq> vd_validator_hotkey d) (ValueError ''decision_validator_mismatch'')
     (let start = epoch_index e * epoch_seconds e
      in reject_if (start < vd_window_start d \<or> start + epoch_seconds e > vd_window_end d)
           (ValueError ''decision_epoch_outside_window'')
         (res_bind (replay_organic_epoch_score L V e (List.map_filter by_digest (manifest_digests e)))
            (\<lambda>_. Inr ())))"

definition aggregate_opt ::
    "pylib \<Rightarrow> OrganicEpochScore list \<Rightarrow> OrganicAvailabilityScore option res" where
  "aggregate_opt L es =
     (if es = [] then Inr None else res_bind (aggregate_organic_window L es) (\<lambda>s. Inr (Some s)))"

definition registered_of :: "ValidatorWeightDecision \<Rightarrow> RegisteredMinerSet" where
  "registered_of d =
     \<lparr>rs_finalized_height = registered_height d, rs_finalized_block_hash = registered_block_hash d,
      rs_finalized_epoch = registered_epoch d, rs_validator_uid = vd_validator_uid d,
      rs_validator_hotkey = vd_validator_hotkey d,
      rs_miners = map (\<lambda>r. \<lparr>rm_uid = dr_uid r, rm_hotkey = dr_hotkey r\<rparr>) (rows d),
      rs_fingerprint = vd_fingerprint d\<rparr>"

abbreviation scored_count :: "OrganicEpochScore list \<Rightarrow> int" where
  "scored_count es \<equiv> int (length (filter (\<lambda>e. epoch_status (derived e) = Scored) es))"

abbreviation positive_count :: "WeightDecisionRow list \<Rightarrow> int" where
  "positive_count rs \<equiv> int (length (filter (\<lambda>r. positive_float (dr_weight r)) rs))"

text \<open>
  The last part of the validator: the registered set, the rows, the reasons, the outcome and
  the digests.
\<close>

definition check_outcome ::
    "pylib \<Rightarrow> ValidatorWeightDecision \<Rightarrow> ActiveAssignmentManifestV2 option
     \<Rightarrow> OrganicAvailabilityScore option \<Rightarrow> ValidatorWeightDecision res" where
  "check_outcome L d terminal score =
     reject_if (scored_count (epochs d) \<noteq> scored_epoch_count d) (ValueError ''decision_scored_epochs_mismatch'')
     (res_bind (registered_validate (registered_of d)) (\<lambda>registered.
     reject_if (registered_miner_count d \<noteq> int (length (rows d))) (ValueError ''decision_registered_count_mismatch'')
     (reject_if (rows d \<noteq> derive_rows registered score) (ValueError ''decision_rows_mismatch'')
     (let reasons = abstain_reasons (terminal_status d) terminal
            (case terminal of None \<Rightarrow> False
             | Some m \<Rightarrow> terminal_admitted L m (trust_policies d) (terminal_evaluated d))
            (vd_window_end d) (scored_count (epochs d)) registered (decision_policy d) (positive_count (rows d))
      in reject_if (vd_reasons d \<noteq> reasons) (ValueError ''decision_abstain_reasons_mismatch'')
         (reject_if (submit d \<noteq> (reasons = [])) (ValueError ''decision_outcome_mismatch'')
         (reject_if (rows_digest d \<noteq> (if submit d then Some (sha_json L (plan_rows (rows d))) else None))
            (ValueError ''decision_weight_plan_digest_mismatch'')
         (verify_model_digest L ''decision_digest_sha256'' (JObj (decision_unsigned d)) (decision_digest d) d)))))))"

definition decision_validate ::
    "pylib \<Rightarrow> ed25519 \<Rightarrow> ValidatorWeightDecision \<Rightarrow> ValidatorWeightDecision res" where
  "decision_validate L V d = as_validation
     (reject_if (\<not> decision_fields d) strict_error
     (res_bind (mapM (policy_validate L) (trust_policies d)) (\<lambda>_.
     res_bind (mapM (manifest_validate L) (vd_manifests d)) (\<lambda>_.
     res_bind (mapM (epoch_validate L) (epochs d)) (\<lambda>_.
     res_bind (case availability_score d of None \<Rightarrow> Inr () | Some s \<Rightarrow> res_bind (score_validate L s) (\<lambda>_. Inr ())) (\<lambda>_.
     reject_if (vd_window_end d \<le> vd_window_start d) (ValueError ''decision_window_invalid'')
     (let policy_digests = map tp_digest (trust_policies d); digests = map md_digest (vd_manifests d);
          by_digest = dict_of (map (\<lambda>m. (md_digest m, m)) (vd_manifests d));
          indexes = map epoch_index (epochs d)
      in reject_if (policy_digests \<noteq> sorted_set policy_digests) (ValueError ''decision_trust_policies_not_canonical'')
         (reject_if (digests \<noteq> sorted_set digests) (ValueError ''decision_manifests_not_canonical'')
         (reject_if (set (map (\<lambda>m. h_policy_digest (header m)) (vd_manifests d)) \<noteq> set policy_digests)
            (ValueError ''decision_trust_policies_not_exact'')
         (res_bind (terminal_of d by_digest) (\<lambda>terminal.
         reject_if (indexes \<noteq> sorted_set indexes) (ValueError ''decision_epochs_not_canonical'')
         (res_bind (foldM (\<lambda>_. check_epoch L V d by_digest) () (epochs d)) (\<lambda>_.
         reject_if (set (concat (map manifest_digests (epochs d)))
                    \<union> (case terminal of None \<Rightarrow> {} | Some m \<Rightarrow> {md_digest m}) \<noteq> set digests)
            (ValueError ''decision_manifests_not_exact'')
         (res_bind (aggregate_opt L (epochs d)) (\<lambda>score.
         reject_if (score \<noteq> availability_score d) (ValueError ''decision_availability_mismatch'')
         (check_outcome L d terminal score))))))))))))))))"

section \<open>Deciding\<close>

text \<open>The terminal manifest a fetch provides.\<close>

definition terminal_input ::
    "pylib \<Rightarrow> TerminalManifestObservation \<Rightarrow> int \<Rightarrow> ActiveAssignmentManifestV2 option res" where
  "terminal_input L terminal window_end =
     (if to_status terminal = VerifiedFetch
      then (case to_manifest terminal of
              None \<Rightarrow> Inl (DecisionError ''decision_terminal_invalid'')
            | Some m \<Rightarrow>
                reject_if (to_rejection_code terminal \<noteq> None \<or> to_evaluated_at_epoch terminal < window_end)
                  (DecisionError ''decision_terminal_invalid'')
                (res_bind (manifest_validate L m) (\<lambda>v. Inr (Some v))))
      else reject_if (to_manifest terminal \<noteq> None
                      \<or> (to_status terminal = Rejected) \<noteq> (to_rejection_code terminal \<noteq> None))
             (DecisionError ''decision_terminal_invalid'') (Inr None))"

definition catch_scoring :: "'a res \<Rightarrow> 'a res" where
  "catch_scoring r = (case r of
     Inl (ScoringError _) \<Rightarrow> Inl (DecisionError ''decision_epochs_invalid'') | _ \<Rightarrow> r)"

definition decide_weight_submission ::
    "pylib \<Rightarrow> ed25519 \<Rightarrow> OrganicEpochScore list \<Rightarrow> ActiveAssignmentManifestV2 list
     \<Rightarrow> TerminalManifestObservation \<Rightarrow> RegisteredMinerSet \<Rightarrow> AssignmentManifestTrustPolicy list
     \<Rightarrow> int \<Rightarrow> int \<Rightarrow> WeightDecisionPolicy option \<Rightarrow> ValidatorWeightDecision res" where
  "decide_weight_submission L V es manifests terminal registered0 policies0 start end' policy_opt =
     reject_if (\<not> in_range 0 max_epoch start \<or> \<not> in_range 0 max_epoch end')
       (DecisionError ''decision_epoch_invalid'')
     (reject_if (end' \<le> start) (DecisionError ''decision_window_invalid'')
     (let policy = (case policy_opt of None \<Rightarrow> default_decision_policy | Some p \<Rightarrow> p)
      in res_bind (registered_validate registered0) (\<lambda>registered.
         res_bind (mapM (epoch_validate L) es) (\<lambda>checked.
         let values = sort_key epoch_index checked
         in reject_if (\<not> distinct (map epoch_index values) \<or> length values > max_epochs)
              (DecisionError ''decision_epochs_invalid'')
            (reject_if (list_ex (\<lambda>e. es_validator_hotkey e \<noteq> rs_validator_hotkey registered) values)
              (DecisionError ''decision_validator_mismatch'')
            (res_bind (mapM (manifest_validate L) manifests) (\<lambda>ms.
            let available = dict_of (map (\<lambda>m. (md_digest m, m)) ms);
                needed = concat (map manifest_digests values)
            in reject_if (list_ex (\<lambda>k. available k = None) needed) (DecisionError ''decision_manifest_missing'')
               (reject_if (\<not> in_range 0 max_epoch (to_evaluated_at_epoch terminal))
                 (DecisionError ''decision_epoch_invalid'')
               (res_bind (terminal_input L terminal end') (\<lambda>tm.
               let needed' = (case tm of None \<Rightarrow> needed | Some m \<Rightarrow> md_digest m # needed);
                   available' = (case tm of None \<Rightarrow> available | Some m \<Rightarrow> available(md_digest m \<mapsto> m));
                   sealed = map (\<lambda>k. the (available' k)) (sorted_set needed');
                   named = map (\<lambda>m. h_policy_digest (header m)) sealed
               in res_bind (mapM (policy_validate L) policies0) (\<lambda>ps.
                  let policies = dict_of (map (\<lambda>p. (tp_digest p, p)) ps)
                  in reject_if (length (remdups (map tp_digest ps)) > 16)
                       (DecisionError ''decision_trust_policy_invalid'')
                     (reject_if (list_ex (\<lambda>k. policies k = None) named)
                       (DecisionError ''decision_trust_policy_missing'')
                     (let sealed_policies = map (\<lambda>k. the (policies k)) (sorted_set named)
                      in res_bind (catch_scoring (aggregate_opt L values)) (\<lambda>score.
                         let derived_rows = derive_rows registered score;
                             reasons = abstain_reasons (to_status terminal) tm
                               (case tm of None \<Rightarrow> False
                                | Some m \<Rightarrow> terminal_admitted L m sealed_policies (to_evaluated_at_epoch terminal))
                               end' (scored_count values) registered policy (positive_count derived_rows);
                             d = \<lparr>vd_validator_uid = rs_validator_uid registered,
                               vd_validator_hotkey = rs_validator_hotkey registered,
                               vd_window_start = start, vd_window_end = end', submit = (reasons = []),
                               vd_reasons = reasons, decision_policy = policy, trust_policies = sealed_policies,
                               terminal_status = to_status terminal,
                               terminal_rejection_code = to_rejection_code terminal,
                               terminal_evaluated = to_evaluated_at_epoch terminal,
                               terminal_digest = map_option md_digest tm,
                               terminal_sequence = map_option (\<lambda>m. sequence (header m)) tm,
                               terminal_height = map_option (\<lambda>m. finalized_height (header m)) tm,
                               terminal_block_hash = map_option (\<lambda>m. finalized_block_hash (header m)) tm,
                               terminal_epoch = map_option (\<lambda>m. finalized_epoch (header m)) tm,
                               vd_manifests = sealed, epochs = values, availability_score = score,
                               scored_epoch_count = scored_count values,
                               registered_height = rs_finalized_height registered,
                               registered_block_hash = rs_finalized_block_hash registered,
                               registered_epoch = rs_finalized_epoch registered,
                               registered_miner_count = int (length (rs_miners registered)),
                               vd_fingerprint = rs_fingerprint registered, rows = derived_rows,
                               rows_digest = (if reasons = [] then Some (sha_json L (plan_rows derived_rows)) else None),
                               decision_digest = ''''\<rparr>
                         in decision_validate L V
                              (d\<lparr>decision_digest := sha_json L (JObj (decision_unsigned d))\<rparr>)))))))))))))))"

section \<open>From a decision to a plan\<close>

definition validated_weight_submission ::
    "pylib \<Rightarrow> ed25519 \<Rightarrow> ValidatorWeightDecision \<Rightarrow> (ValidatorWeightDecision \<times> json) res" where
  "validated_weight_submission L V decision =
     res_bind (decision_validate L V decision) (\<lambda>d.
     reject_if (\<not> submit d \<or> rows_digest d = None) (DecisionError ''decision_not_submittable'')
     (reject_if (Some (sha_json L (plan_rows (rows d))) \<noteq> rows_digest d) (DecisionError ''decision_not_submittable'')
     (Inr (d, plan_rows (rows d)))))"

definition build_weight_plan_from_decision ::
    "pylib \<Rightarrow> ed25519 \<Rightarrow> ValidatorWeightDecision \<Rightarrow> MetagraphSnapshot \<Rightarrow> json \<Rightarrow> int \<Rightarrow> WeightPlan res" where
  "build_weight_plan_from_decision L V decision snapshot block_hash version_key =
     res_bind (validated_weight_submission L V decision) (\<lambda>(d, plan_json).
     reject_if (\<not> ms_finalized snapshot) (WeightPlanError ''weight plans require a finalized metagraph snapshot'')
     (res_bind (validate_network_identity ''snapshot network'' (JStr (ms_network snapshot))) (\<lambda>network.
     reject_if (network \<noteq> ''finney'' \<or> ms_netuid snapshot \<noteq> 24)
       (WeightPlanError ''decision network identity does not match the snapshot'')
     (res_bind (validate_integer ''snapshot block'' 0 MAX_BLOCK (JInt (ms_block snapshot))) (\<lambda>block.
     res_bind (validate_integer ''snapshot tempo'' 1 MAX_BLOCK (JInt (ms_tempo snapshot))) (\<lambda>tempo.
     reject_if (block \<noteq> registered_height d)
       (WeightPlanError ''decision finalized height does not match the snapshot block'')
     (reject_if (block div tempo \<noteq> registered_epoch d)
       (WeightPlanError ''decision finalized epoch does not match the snapshot epoch'')
     (reject_if (block_hash \<noteq> JStr (registered_block_hash d))
       (WeightPlanError ''decision finalized block hash does not match the snapshot'')
     (reject_if (case hotkey_dict snapshot (vd_validator_hotkey d) of None \<Rightarrow> True
                 | Some n \<Rightarrow> nr_uid n \<noteq> vd_validator_uid d)
       (WeightPlanError ''decision validator identity is absent from the snapshot'')
     (reject_if (list_ex (\<lambda>r. case hotkey_dict snapshot (dr_hotkey r) of None \<Rightarrow> True
                              | Some n \<Rightarrow> nr_uid n \<noteq> dr_uid r) (rows d))
       (WeightPlanError ''decision row identity is absent from or remapped in snapshot'')
     (res_bind (snapshot_identity_fingerprint L snapshot) (\<lambda>fingerprint.
     reject_if (fingerprint \<noteq> vd_fingerprint d)
       (WeightPlanError ''decision metagraph fingerprint does not match the snapshot'')
     (res_bind (eligible_weight_targets snapshot (vd_validator_hotkey d)) (\<lambda>targets.
     reject_if (set (map (\<lambda>r. (dr_uid r, dr_hotkey r)) (rows d)) \<noteq> targets)
       (WeightPlanError ''decision rows do not cover the complete eligible miner set'')
     (build_weight_plan L snapshot (vd_validator_hotkey d) plan_json version_key)))))))))))))))"

section \<open>What a valid decision says\<close>

abbreviation manifests_by_digest :: "ValidatorWeightDecision \<Rightarrow> string \<rightharpoonup> ActiveAssignmentManifestV2" where
  "manifests_by_digest d \<equiv> dict_of (map (\<lambda>m. (md_digest m, m)) (vd_manifests d))"

lemma registered_validate_Inr:
  assumes "registered_validate s = Inr t"
  shows "t = s" and "distinct (map rm_uid (rs_miners s))" and "distinct (map rm_hotkey (rs_miners s))"
    and "rs_validator_hotkey s \<notin> rm_hotkey ` set (rs_miners s)"
  using assms unfolding registered_validate_def as_validation_Inr Let_def
  by (auto simp: comp_def image_image)

lemma foldM_unit: "foldM (\<lambda>_. f) () xs = Inr () \<longleftrightarrow> (\<forall>x\<in>set xs. f x = Inr ())"
  by (induction xs) (simp_all)

lemma check_outcome_Inr:
  assumes "check_outcome L d terminal score = Inr d'"
  shows "d' = d" and "scored_epoch_count d = scored_count (epochs d)"
    and "registered_validate (registered_of d) = Inr (registered_of d)"
    and "rows d = derive_rows (registered_of d) score"
    and "vd_reasons d = abstain_reasons (terminal_status d) terminal
            (case terminal of None \<Rightarrow> False
             | Some m \<Rightarrow> terminal_admitted L m (trust_policies d) (terminal_evaluated d))
            (vd_window_end d) (scored_count (epochs d)) (registered_of d) (decision_policy d)
            (positive_count (rows d))"
    and "submit d \<longleftrightarrow> vd_reasons d = []"
    and "rows_digest d = (if submit d then Some (sha_json L (plan_rows (rows d))) else None)"
proof -
  obtain r where r: "registered_validate (registered_of d) = Inr r"
    using assms unfolding check_outcome_def by (elim res_bindE reject_ifE)
  have same: "r = registered_of d" by (rule registered_validate_Inr(1) [OF r])
  show "registered_validate (registered_of d) = Inr (registered_of d)" using r same by simp
  note A = assms [unfolded check_outcome_def r same Let_def res_bind.simps reject_if_Inr verify_model_digest_Inr]
  show "d' = d" "scored_epoch_count d = scored_count (epochs d)"
    "rows d = derive_rows (registered_of d) score"
    "vd_reasons d = abstain_reasons (terminal_status d) terminal
            (case terminal of None \<Rightarrow> False
             | Some m \<Rightarrow> terminal_admitted L m (trust_policies d) (terminal_evaluated d))
            (vd_window_end d) (scored_count (epochs d)) (registered_of d) (decision_policy d)
            (positive_count (rows d))"
    "submit d \<longleftrightarrow> vd_reasons d = []"
    "rows_digest d = (if submit d then Some (sha_json L (plan_rows (rows d))) else None)"
    using A by (blast, metis+)
qed

lemma decision_validate_Inr:
  assumes "decision_validate L V d = Inr d'"
  obtains terminal where "d' = d" and "decision_fields d" and "vd_window_start d < vd_window_end d"
    and "terminal_of d (manifests_by_digest d) = Inr terminal"
    and "\<forall>m\<in>set (vd_manifests d). manifest_validate L m = Inr m"
    and "distinct (map md_digest (vd_manifests d))"
    and "sorted_wrt (<) (map epoch_index (epochs d))"
    and "\<forall>e\<in>set (epochs d). check_epoch L V d (manifests_by_digest d) e = Inr ()"
    and "aggregate_opt L (epochs d) = Inr (availability_score d)"
    and "check_outcome L d terminal (availability_score d) = Inr d"
proof -
  obtain ms terminal score where
    f: "decision_fields d" and w: "\<not> vd_window_end d \<le> vd_window_start d"
    and ms: "mapM (manifest_validate L) (vd_manifests d) = Inr ms"
    and u: "\<not> map md_digest (vd_manifests d) \<noteq> sorted_set (map md_digest (vd_manifests d))"
    and t: "terminal_of d (manifests_by_digest d) = Inr terminal"
    and i: "\<not> map epoch_index (epochs d) \<noteq> sorted_set (map epoch_index (epochs d))"
    and e: "foldM (\<lambda>_. check_epoch L V d (manifests_by_digest d)) () (epochs d) = Inr ()"
    and s: "aggregate_opt L (epochs d) = Inr score" and sc: "\<not> score \<noteq> availability_score d"
    and out: "check_outcome L d terminal score = Inr d'"
    using assms unfolding decision_validate_def as_validation_Inr Let_def not_not
    by (elim res_bindE reject_ifE) (metis (full_types) old.unit.exhaust)
  have "\<forall>m\<in>set (vd_manifests d). manifest_validate L m = Inr m"
    by (rule mapM_same(2) [OF ms manifest_validate_Inr(1)])
  moreover have "distinct (map md_digest (vd_manifests d))" using u by (metis sorted_set_distinct)
  ultimately show ?thesis
    using that [OF check_outcome_Inr(1) [OF out] f _ t] w i e s sc out check_outcome_Inr(1) [OF out]
    by (simp add: foldM_unit sorted_set_id_iff)
qed

lemma replay_same: "replay_organic_epoch_score L V e ms = Inr f \<Longrightarrow> f = e"
  unfolding replay_organic_epoch_score_def
  by (elim res_bindE reject_ifE) (auto dest: epoch_validate_same)

text \<open>The rows a decision must have, stated on the endpoint rows of its epochs.\<close>

definition fraud_in :: "EndpointEpochTally list \<Rightarrow> string \<Rightarrow> int" where
  "fraud_in rs h = sum_list (map fraudulent_attestations (filter (\<lambda>e. te_miner_hotkey e = h) rs))"

definition mean_availability :: "EndpointEpochTally list \<Rightarrow> rat" where
  "mean_availability mine = sum_list (map availability mine) / of_nat (length mine)"

definition decision_row_exact :: "EndpointEpochTally list \<Rightarrow> WeightDecisionRow \<Rightarrow> bool" where
  "decision_row_exact rs r \<longleftrightarrow>
     (let mine = eligible_rows rs (dr_uid r, dr_hotkey r)
      in classification r = (if mine = [] then UnscoredClass
                             else if fraud_in rs (dr_hotkey r) > 0 then FraudEvidenceClass else ScoredClass)
         \<and> dr_weight r = (if classification r = ScoredClass then to_double (mean_availability mine) else Fin 0)
         \<and> dr_eligible r = int (length mine))"

lemma quotient_of_mean: "of_int (fst (quotient_of r)) / of_int (snd (quotient_of r)) = r"
  by (metis prod.collapse quotient_of_div)

lemma aggregate_lookup:
  assumes "aggregate_organic_window L es = Inr score"
  obtains w where "\<And>k. dict_of (map (\<lambda>a. ((ma_miner_uid a, ma_miner_hotkey a), a)) (miners score)) k
      = (if eligible_rows (window_rows es) k = [] then None else Some (miner_of w k))"
    and "window_summary (window_rows es) w"
proof -
  obtain w where w: "foldM window_step empty_window (window_rows es) = Inr w"
    and m: "miners score = map (miner_of w) (sort (sum_keys w))"
    using aggregate_Inr [OF assms] by metis
  have W: "window_summary (window_rows es) w" by (rule window_fold [OF w])
  have key: "(ma_miner_uid (miner_of w k), ma_miner_hotkey (miner_of w k)) = k" for k
    by (simp add: miner_of_def Let_def)
  have "dict_of (map (\<lambda>a. ((ma_miner_uid a, ma_miner_hotkey a), a)) (miners score))
      = map_of (map (\<lambda>k. (k, miner_of w k)) (sort (sum_keys w)))"
    using W by (subst dict_of_distinct) (simp_all add: m comp_def key window_summary_def)
  moreover have "k \<in> set (sum_keys w) \<longleftrightarrow> eligible_rows (window_rows es) k \<noteq> []" for k
    using W by (auto simp: window_summary_def eligible_rows_def filter_empty_conv)
  ultimately have "dict_of (map (\<lambda>a. ((ma_miner_uid a, ma_miner_hotkey a), a)) (miners score)) k
      = (if eligible_rows (window_rows es) k = [] then None else Some (miner_of w k))" for k
    by (simp add: map_of_map_restrict restrict_map_def)
  then show ?thesis using that W by blast
qed

lemma derive_row_exact:
  assumes "aggregate_opt L es = Inr score" and "r \<in> set (derive_rows registered score)"
  shows "decision_row_exact (window_rows es) r"
proof (cases "es = []")
  case True
  then have "score = None" using assms(1) by (simp add: aggregate_opt_def)
  then show ?thesis
    using assms(2) True
    by (auto simp: derive_rows_def derive_row_def decision_row_exact_def window_rows_def eligible_rows_def dict_of_def)
next
  case False
  then obtain s where s: "aggregate_organic_window L es = Inr s" "score = Some s"
    using assms(1) by (auto simp: aggregate_opt_def)
  obtain w where look: "\<And>k. dict_of (map (\<lambda>a. ((ma_miner_uid a, ma_miner_hotkey a), a)) (miners s)) k
      = (if eligible_rows (window_rows es) k = [] then None else Some (miner_of w k))"
    and W: "window_summary (window_rows es) w"
    using aggregate_lookup [OF s(1)] by blast
  obtain m where r: "r = derive_row (\<lambda>k. if eligible_rows (window_rows es) k = [] then None else Some (miner_of w k)) m"
    using assms(2) unfolding derive_rows_def s(2) option.case ext [OF look] Let_def by auto
  show ?thesis
    using W unfolding r
    by (cases "eligible_rows (window_rows es) (rm_uid m, rm_hotkey m) = []")
      (simp_all add: derive_row_def decision_row_exact_def miner_of_def Let_def
        quotient_of_mean window_summary_def mean_availability_def fraud_in_def)
qed

text \<open>The gates a submission passes.\<close>

definition submission_gates :: "pylib \<Rightarrow> ValidatorWeightDecision \<Rightarrow> ActiveAssignmentManifestV2 \<Rightarrow> bool" where
  "submission_gates L d m \<longleftrightarrow>
     m \<in> set (vd_manifests d) \<and> terminal_digest d = Some (md_digest m)
     \<and> terminal_status d = VerifiedFetch \<and> vd_window_end d \<le> terminal_evaluated d
     \<and> vd_window_end d < organic_manifest_effective_expires_at_epoch m
     \<and> terminal_admitted L m (trust_policies d) (terminal_evaluated d)
     \<and> \<not> registered_unbound (registered_of d) (header m) (decision_policy d)
     \<and> min_scored_epochs (decision_policy d) \<le> scored_count (epochs d)
     \<and> (\<exists>r\<in>set (rows d). positive_float (dr_weight r))"

lemma terminal_of_Inr:
  assumes "terminal_of d (manifests_by_digest d) = Inr t"
  shows "(t = None \<longleftrightarrow> terminal_status d \<noteq> VerifiedFetch)
    \<and> (\<forall>m. t = Some m \<longrightarrow> m \<in> set (vd_manifests d) \<and> terminal_digest d = Some (md_digest m)
           \<and> vd_window_end d \<le> terminal_evaluated d)"
proof (cases "terminal_status d = VerifiedFetch")
  case True
  then obtain m where "t = Some m" "terminal_digest d = Some (md_digest m)"
      "manifests_by_digest d (md_digest m) = Some m" "vd_window_end d \<le> terminal_evaluated d"
    using assms unfolding terminal_of_def by (auto split: option.splits)
  then show ?thesis using True dict_of_Some by fastforce
qed (use assms in \<open>auto simp: terminal_of_def\<close>)

lemma sorted_set_Nil: "sorted_set xs = [] \<longleftrightarrow> xs = []"
  by (metis set_empty set_sorted_set)

lemma positive_count_0: "positive_count rs = 0 \<longleftrightarrow> \<not> (\<exists>r\<in>set rs. positive_float (dr_weight r))"
  by (auto simp: filter_empty_conv)

lemma abstain_reasons_Nil:
  "abstain_reasons status t admitted w n registered policy p = [] \<longleftrightarrow>
     status = VerifiedFetch \<and> min_scored_epochs policy \<le> n \<and> p \<noteq> 0
     \<and> (\<forall>m. t = Some m \<longrightarrow> w < organic_manifest_effective_expires_at_epoch m \<and> admitted
          \<and> \<not> registered_unbound registered (header m) policy)"
  unfolding abstain_reasons_def sorted_set_Nil by (cases status; cases t) auto

text \<open>
  C7: A decision submits exactly when every gate is open. In a valid decision record, the
  outcome is \<^verbatim>\<open>submit\<close> if and only if a terminal manifest sealed in the record was verified
  no earlier than the window's end, had not passed its horizon at the window's end, is admitted by
  the sealed trust policy, binds the registered set, enough epochs were scored and some row
  has a positive weight; an abstaining record has no plan digest.
\<close>

theorem decision_submits_iff_gates:
  assumes "decision_validate L V d = Inr d'"
  shows "d' = d \<and> (submit d \<longleftrightarrow> (\<exists>m. submission_gates L d m)) \<and> (rows_digest d \<noteq> None \<longleftrightarrow> submit d)"
  using assms
proof (rule decision_validate_Inr)
  fix t assume d: "d' = d" and t: "terminal_of d (manifests_by_digest d) = Inr t"
    and u: "distinct (map md_digest (vd_manifests d))"
    and out: "check_outcome L d t (availability_score d) = Inr d"
  note O = check_outcome_Inr [OF out] and T = terminal_of_Inr [OF t]
  have "submit d \<longleftrightarrow> terminal_status d = VerifiedFetch
      \<and> min_scored_epochs (decision_policy d) \<le> scored_count (epochs d) \<and> positive_count (rows d) \<noteq> 0
     \<and> (\<forall>m. t = Some m \<longrightarrow> vd_window_end d < organic_manifest_effective_expires_at_epoch m
          \<and> terminal_admitted L m (trust_policies d) (terminal_evaluated d)
          \<and> \<not> registered_unbound (registered_of d) (header m) (decision_policy d))"
    unfolding O(6) unfolding O(5) abstain_reasons_Nil by (cases t) auto
  moreover have "t = Some m" if "terminal_digest d = Some (md_digest m)" "m \<in> set (vd_manifests d)"
      "terminal_status d = VerifiedFetch" for m
    using that T u by (cases t) (auto simp: distinct_map inj_on_def)
  ultimately have "submit d \<longleftrightarrow> (\<exists>m. submission_gates L d m)"
    unfolding submission_gates_def positive_count_0 using T by (cases t) auto
  then show ?thesis using d O(7) by auto
qed

text \<open>
  C8: A valid decision follows from its evidence. Every epoch in it belongs to its
  validator, lies inside its window and replays against manifests sealed beside it; its score
  is the aggregation of those epochs; and every row states the class, the weight and the
  number of eligible endpoint-epochs that the endpoint rows of those epochs give: the rounded
  mean availability for a scored miner without fraud, zero otherwise.
\<close>

theorem decision_follows_from_evidence:
  assumes "decision_validate L V d = Inr d'"
  shows "(\<forall>e\<in>set (epochs d). es_validator_hotkey e = vd_validator_hotkey d
       \<and> vd_window_start d \<le> epoch_index e * epoch_seconds e
       \<and> epoch_index e * epoch_seconds e + epoch_seconds e \<le> vd_window_end d
       \<and> (\<exists>ms. set ms \<subseteq> set (vd_manifests d) \<and> replay_organic_epoch_score L V e ms = Inr e))
    \<and> aggregate_opt L (epochs d) = Inr (availability_score d)
    \<and> (\<forall>r\<in>set (rows d). decision_row_exact (window_rows (epochs d)) r)"
  using assms
proof (rule decision_validate_Inr)
  fix t assume ep: "\<forall>e\<in>set (epochs d). check_epoch L V d (manifests_by_digest d) e = Inr ()"
    and agg: "aggregate_opt L (epochs d) = Inr (availability_score d)"
    and out: "check_outcome L d t (availability_score d) = Inr d"
  have sub: "set (List.map_filter (manifests_by_digest d) ks) \<subseteq> set (vd_manifests d)" for ks
    by (induction ks) (auto simp: map_filter_simps split: option.splits dest: dict_of_Some)
  have "es_validator_hotkey e = vd_validator_hotkey d
       \<and> vd_window_start d \<le> epoch_index e * epoch_seconds e
       \<and> epoch_index e * epoch_seconds e + epoch_seconds e \<le> vd_window_end d
       \<and> (\<exists>ms. set ms \<subseteq> set (vd_manifests d) \<and> replay_organic_epoch_score L V e ms = Inr e)"
    if "e \<in> set (epochs d)" for e
  proof -
    have c: "check_epoch L V d (manifests_by_digest d) e = Inr ()" using ep that by blast
    let ?ms = "List.map_filter (manifests_by_digest d) (manifest_digests e)"
    note B = c [unfolded check_epoch_def Let_def reject_if_Inr]
    obtain f where f: "replay_organic_epoch_score L V e ?ms = Inr f"
      using B by (elim conjE res_bindE)
    have "f = e" using f by (rule replay_same)
    then have "set ?ms \<subseteq> set (vd_manifests d) \<and> replay_organic_epoch_score L V e ?ms = Inr e"
      using f sub by blast
    then show ?thesis using B by (intro conjI exI [of _ ?ms]) (blast | linarith)+
  qed
  moreover have "\<forall>r\<in>set (rows d). decision_row_exact (window_rows (epochs d)) r"
    using derive_row_exact [OF agg] check_outcome_Inr(4) [OF out] by auto
  ultimately show ?thesis using agg by blast
qed

lemma validated_weight_submission_Inr:
  "validated_weight_submission L V d = Inr (d', rs) \<longleftrightarrow>
     decision_validate L V d = Inr d' \<and> submit d' \<and> rows_digest d' = Some (sha_json L (plan_rows (rows d')))
     \<and> rs = plan_rows (rows d')"
  unfolding validated_weight_submission_def by auto

lemma plan_rows_judged:
  assumes "rows_judged s vh (plan_rows rs) qs"
  shows "list_all2 (\<lambda>r q. dr_hotkey r = fst q \<and> dr_weight r = Fin (snd q)) rs qs"
proof -
  have "list_all2 row_value
      (map (\<lambda>r. JObj [(''miner_hotkey'', JStr (dr_hotkey r)), (''weight'', JFloat (dr_weight r))]) rs) qs"
    using assms by (auto simp: rows_judged_def plan_rows_def)
  then show ?thesis
    unfolding list_all2_map1
    by (rule list_all2_mono) (auto simp: row_value_def row_weight_Inr jget_def)
qed

lemma from_decision_Inr:
  assumes "build_weight_plan_from_decision L V d s block_hash vk = Inr p"
  shows "decision_validate L V d = Inr d" and "submit d" and "ms_block s = registered_height d"
    and "ms_block s div ms_tempo s = registered_epoch d" and "block_hash = JStr (registered_block_hash d)"
    and "\<And>r. r \<in> set (rows d) \<Longrightarrow> \<exists>n. hotkey_dict s (dr_hotkey r) = Some n \<and> nr_uid n = dr_uid r"
    and "snapshot_identity_fingerprint L s = Inr (vd_fingerprint d)"
    and "eligible_weight_targets s (vd_validator_hotkey d) = Inr ((\<lambda>r. (dr_uid r, dr_hotkey r)) ` set (rows d))"
    and "build_weight_plan L s (vd_validator_hotkey d) (plan_rows (rows d)) vk = Inr p"
proof -
  obtain d' rs where val: "validated_weight_submission L V d = Inr (d', rs)"
    using assms unfolding build_weight_plan_from_decision_def by (elim res_bindE) (metis surj_pair)
  then have "decision_validate L V d = Inr d'" by (simp add: validated_weight_submission_Inr)
  then have same: "d' = d" by (rule decision_validate_Inr)
  show "decision_validate L V d = Inr d" "submit d"
    using val same by (auto simp: validated_weight_submission_Inr)
  have rs: "rs = plan_rows (rows d)" using val same by (simp add: validated_weight_submission_Inr)
  obtain fp targets where
    b: "ms_block s = registered_height d" "ms_block s div ms_tempo s = registered_epoch d"
      "block_hash = JStr (registered_block_hash d)"
    and ids: "\<not> list_ex (\<lambda>r. case hotkey_dict s (dr_hotkey r) of None \<Rightarrow> True
                              | Some n \<Rightarrow> nr_uid n \<noteq> dr_uid r) (rows d)"
    and fp: "snapshot_identity_fingerprint L s = Inr fp" "fp = vd_fingerprint d"
    and t: "eligible_weight_targets s (vd_validator_hotkey d) = Inr targets"
      "set (map (\<lambda>r. (dr_uid r, dr_hotkey r)) (rows d)) = targets"
    and p: "build_weight_plan L s (vd_validator_hotkey d) rs vk = Inr p"
    using assms unfolding build_weight_plan_from_decision_def val same res_bind.simps prod.case
    by (elim res_bindE reject_ifE) (simp add: validate_integer_def split: json.splits if_splits)
  show "ms_block s = registered_height d" "ms_block s div ms_tempo s = registered_epoch d"
      "block_hash = JStr (registered_block_hash d)" "snapshot_identity_fingerprint L s = Inr (vd_fingerprint d)"
      "eligible_weight_targets s (vd_validator_hotkey d) = Inr ((\<lambda>r. (dr_uid r, dr_hotkey r)) ` set (rows d))"
      "build_weight_plan L s (vd_validator_hotkey d) (plan_rows (rows d)) vk = Inr p"
    using b fp t p rs by simp_all
  show "\<exists>n. hotkey_dict s (dr_hotkey r) = Some n \<and> nr_uid n = dr_uid r" if "r \<in> set (rows d)" for r
    using ids that by (auto simp: list_ex_iff split: option.splits)
qed

lemma list_all2_right: "list_all2 P xs ys \<Longrightarrow> y \<in> set ys \<Longrightarrow> \<exists>x\<in>set xs. P x y"
  by (induction rule: list_all2_induct) auto

lemma list_all2_left: "list_all2 P xs ys \<Longrightarrow> x \<in> set xs \<Longrightarrow> \<exists>y\<in>set ys. P x y"
  by (induction rule: list_all2_induct) auto

text \<open>
  C3: The only path from a decision to a plan. A plan built from a decision comes from a
  valid, submitting decision on the exact finalized view the decision names (block, epoch,
  block hash and identity fingerprint); the rows of the decision are exactly the active miners
  of that view other than the validator; and the plan's targets are exactly the rows of
  positive weight, under the UID the decision states: scored miners without fraud, weighted
  by their rounded mean availability.
\<close>

theorem plan_only_from_open_decision:
  assumes "build_weight_plan_from_decision L V d s block_hash vk = Inr p"
  shows "decision_validate L V d = Inr d \<and> submit d \<and> plan_ok L p
    \<and> wp_validator_hotkey p = vd_validator_hotkey d \<and> ms_block s = registered_height d
    \<and> ms_block s div ms_tempo s = registered_epoch d \<and> block_hash = JStr (registered_block_hash d)
    \<and> wps_identity_fingerprint (wp_snapshot p) = JStr (vd_fingerprint d)
    \<and> eligible_weight_targets s (vd_validator_hotkey d) = Inr ((\<lambda>r. (dr_uid r, dr_hotkey r)) ` set (rows d))
    \<and> (\<lambda>e. (wpe_uid e, wpe_hotkey e)) ` set (wp_weights p)
        = (\<lambda>r. (dr_uid r, dr_hotkey r)) ` {r \<in> set (rows d). positive_float (dr_weight r)}
    \<and> (\<forall>r\<in>set (rows d). positive_float (dr_weight r) \<longrightarrow> classification r = ScoredClass
          \<and> fraud_in (window_rows (epochs d)) (dr_hotkey r) \<le> 0
          \<and> dr_weight r = to_double (mean_availability
               (eligible_rows (window_rows (epochs d)) (dr_uid r, dr_hotkey r))))"
proof -
  note D = from_decision_Inr [OF assms]
  obtain rs where plan: "plan_ok L p" and judged: "rows_judged s (vd_validator_hotkey d) (plan_rows (rows d)) rs"
    and pf: "plan_for L s (vd_validator_hotkey d) vk rs p"
    and entry: "\<And>e. e \<in> set (wp_weights p) \<Longrightarrow> \<exists>n w. by_hotkey s (wpe_hotkey e) = Some n
          \<and> nr_uid n = wpe_uid e \<and> (wpe_hotkey e, w) \<in> set rs \<and> 0 < w"
    and all: "\<And>r. r \<in> set rs \<Longrightarrow> 0 < snd r \<Longrightarrow> fst r \<in> wpe_hotkey ` set (wp_weights p)"
    using build_weight_plan_targets [OF D(9)] by blast
  have view: "view_ok s" using D(7) by (simp add: fingerprint_Inr)
  note match = plan_rows_judged [OF judged]
  have uid: "nr_uid (the (by_hotkey s (dr_hotkey r))) = dr_uid r" if "r \<in> set (rows d)" for r
    using D(6) [OF that] by (auto simp: view_hotkey [OF view])
  have one: "\<exists>r\<in>set (rows d). positive_float (dr_weight r) \<and> (wpe_uid e, wpe_hotkey e) = (dr_uid r, dr_hotkey r)"
    if e: "e \<in> set (wp_weights p)" for e
  proof -
    obtain n w where n: "by_hotkey s (wpe_hotkey e) = Some n" "nr_uid n = wpe_uid e"
        "(wpe_hotkey e, w) \<in> set rs" "0 < w"
      using entry [OF e] by blast
    obtain r where "r \<in> set (rows d)" "dr_hotkey r = wpe_hotkey e" "dr_weight r = Fin w"
      using list_all2_right [OF match n(3)] by auto
    then show ?thesis using n uid by force
  qed
  have two: "(dr_uid r, dr_hotkey r) \<in> (\<lambda>e. (wpe_uid e, wpe_hotkey e)) ` set (wp_weights p)"
    if r: "r \<in> set (rows d)" "positive_float (dr_weight r)" for r
  proof -
    obtain w where "(dr_hotkey r, w) \<in> set rs" "dr_weight r = Fin w"
      using list_all2_left [OF match r(1)] by auto
    then obtain e where e: "e \<in> set (wp_weights p)" "wpe_hotkey e = dr_hotkey r"
      using all [of "(dr_hotkey r, w)"] r(2) by auto
    then show ?thesis using entry [OF e(1)] uid [OF r(1)] by force
  qed
  have rows: "decision_row_exact (window_rows (epochs d)) r" if "r \<in> set (rows d)" for r
    using D(1)
  proof (rule decision_validate_Inr)
    fix t assume "aggregate_opt L (epochs d) = Inr (availability_score d)"
      "check_outcome L d t (availability_score d) = Inr d"
    then show ?thesis using derive_row_exact that check_outcome_Inr(4) by metis
  qed
  have "classification r = ScoredClass \<and> fraud_in (window_rows (epochs d)) (dr_hotkey r) \<le> 0
          \<and> dr_weight r = to_double (mean_availability
               (eligible_rows (window_rows (epochs d)) (dr_uid r, dr_hotkey r)))"
    if "r \<in> set (rows d)" "positive_float (dr_weight r)" for r
    using rows [OF that(1)] that(2) by (auto simp: decision_row_exact_def Let_def split: if_splits)
  moreover have "(\<lambda>e. (wpe_uid e, wpe_hotkey e)) ` set (wp_weights p)
        = (\<lambda>r. (dr_uid r, dr_hotkey r)) ` {r \<in> set (rows d). positive_float (dr_weight r)}"
    using one two by (intro set_eqI iffI) (force, auto)
  ultimately show ?thesis
    using D(1-5,7,8) plan pf by (simp add: plan_for_def fingerprint_Inr)
qed

end
