(* ===== verification/Scenario.thy ===== *)
theory Scenario
  imports ExecutorProgress Decisions
begin

text \<open>
  One small concrete run of the whole pipeline: a trust policy with one key, a manifest with
  one deployment on one miner, one successful probe of it, the epoch, window score and
  decision that follow, the metagraph view and the plan. The run shows that the hypotheses
  of the properties can hold together. Hashing, rendering and signature checking are
  parameters of the model; here they are constant functions (every digest is sixty-four
  zeros, every signature verifies).
\<close>

section \<open>Library and keys\<close>

definition zeros :: string where
  "zeros = ''0000000000000000000000000000000000000000000000000000000000000000''"

definition ones :: string where
  "ones = ''1111111111111111111111111111111111111111111111111111111111111111''"

definition demo_key :: TrustedManifestKey where
  "demo_key = \<lparr>key_id = ''issuer'', public_key_base64 = b64encode (replicate 32 (CHR ''k'')),
     public_key_sha256 = zeros, roles = [''assignment_issuer''],
     purposes = [''active_assignment_manifest_publication_v1''],
     key_valid_from_epoch = 1600000000, key_valid_until_epoch = 1800000000, revoked_at_epoch = None\<rparr>"

definition demo_policy :: AssignmentManifestTrustPolicy where
  "demo_policy = \<lparr>tp_network = ''finney'', tp_netuid = 24, tp_authority = ones, threshold = 1,
     required_roles = [''assignment_issuer''], trusted_keys = [demo_key],
     valid_from_epoch = 1600000000, valid_until_epoch = 1800000000,
     max_manifest_age_seconds = 3600, max_future_skew_seconds = 30, max_manifest_lifetime_seconds = 7200,
     max_sequence_gap = 4, max_finalized_height_gap = 1000,
     allowed_route_host_suffixes = [''apps.example''], probe_timeout_millis = 5000, max_response_bytes = 4096,
     pinned_edge_leaf_certificate_sha256 = [], tp_digest = zeros\<rparr>"

definition demo_replica :: OrganicAssignedReplica where
  "demo_replica = \<lparr>miner_uid = 5, miner_hotkey = ''miner'', miner_service_public_key = ones,
     miner_tls_certificate = ones, generation = 1, assignment_nonce = ''00000000000000000000000000000000'',
     replica_id = ''web-miner'', endpoint_id = ''web-miner-g1-00000000000000000000000000000000'',
     ticket_digest = ''sha256:'' @ zeros, receipt_digest = ''sha256:'' @ ones, chain_block = 900,
     expires_at_block = 2000, activated_at_epoch = 1699998000, lease_expires_at_epoch = 1700002000\<rparr>"

definition demo_deployment :: OrganicDeploymentAssignment where
  "demo_deployment = \<lparr>deployment_id = ''web'', route_host = ''web.apps.example'',
     artifact_digest = ''sha256:'' @ ones,
     health = \<lparr>hp_method = ''GET'', hp_path = ''/health'', expected_statuses = [200], response_marker = Some ''ok''\<rparr>,
     replicas = [demo_replica], assignment_digest = zeros\<rparr>"

definition demo_header :: ManifestHeader where
  "demo_header = \<lparr>h_network = ''finney'', h_netuid = 24, h_authority = ones, h_policy_digest = zeros,
     finalized_height = 1000, finalized_block_hash = ones, finalized_epoch = 2, sequence = 1,
     previous_manifest_digest = None, issued_at_epoch = 1699999000, expires_at_epoch = 1700003000,
     route_host_suffix = ''apps.example'', probe_scheme = ''https'', manifest_digest = zeros\<rparr>"

definition demo_manifest :: ActiveAssignmentManifestV2 where
  "demo_manifest = \<lparr>header = demo_header, probe_port = 443, deployments = [demo_deployment],
     assignment_vector_digest = zeros\<rparr>"

definition demo_envelope :: AssignmentManifestSignatureEnvelope where
  "demo_envelope = \<lparr>env_purpose = ''active_assignment_manifest_publication_v1'', signer_key_id = ''issuer'',
     env_manifest_digest = zeros, signed_message_digest_sha256 = zeros,
     signature_base64 = b64encode (replicate 64 (CHR ''s''))\<rparr>"

definition demo_attestation :: MinerProbeAttestationV2 where
  "demo_attestation = \<lparr>at_endpoint_id = endpoint_id demo_replica, at_generation = 1,
     at_ticket_digest = ''sha256:'' @ zeros, at_artifact_digest = ''sha256:'' @ ones,
     at_validator_hotkey = ''validator'', at_probe_nonce = zeros, at_request_method = ''GET'',
     at_request_path = ''/health'', at_response_status = 200, at_response_body = zeros,
     at_response_header = zeros, observed_at = ''2023-11-14T22:10:51Z'', signature_hex = zeros @ zeros\<rparr>"

definition demo_lib :: pylib where
  "demo_lib = \<lparr>sha256_hex = (\<lambda>_. zeros), dumps = (\<lambda>_. ''{}''),
     loads = (\<lambda>_. Inr (attestation_document demo_attestation)), iso_utc = (\<lambda>_. True)\<rparr>"

definition demo_verify :: ed25519 where
  "demo_verify key signature message = True"

definition demo_request :: OrganicProbeAuthorization where
  "demo_request = \<lparr>au_validator_hotkey = ''validator'', au_endpoint_id = endpoint_id demo_replica,
     au_generation = 1, au_method = ''GET'', au_path = ''/health'', au_nonce = zeros,
     au_issued_at = ''2023-11-14T22:10:50Z'', au_signature = zeros @ zeros\<rparr>"

definition demo_response :: ProbeResponse where
  "demo_response = \<lparr>pr_status = 200,
     pr_headers = [(''X-Miss-Edge-Upstream'', ''replica''), (''X-Miss-Probe-Attestation'', b64encode ''{}'')],
     pr_body = ''ok'', pr_latency_millis = 40, pr_tls_leaf = None,
     pr_http_version = Some ''HTTP/1.1''\<rparr>"

lemma small_order_heads: "map hd small_order_encodings = map char_of [0, 1, 38, 199, 236, 237, 238 :: nat]"
  by (simp add: small_order_encodings_def)

lemma demo_key_bytes: "validate_ed25519_public_key_bytes (replicate 32 (CHR ''k'')) = Inr (replicate 32 (CHR ''k''))"
proof -
  have "CHR ''k'' \<notin> set (map hd small_order_encodings)" unfolding small_order_heads by (simp add: char_of_def)
  moreover have "hd (take 31 (replicate 32 (CHR ''k'')) @ t) = CHR ''k''" for t by simp
  ultimately have "take 31 (replicate 32 (CHR ''k'')) @ t \<notin> set small_order_encodings" for t
    by (metis image_eqI list.set_map)
  then show ?thesis by (simp only: validate_ed25519_public_key_bytes_def Let_def reject_if_False)
qed

lemma demo_key_decodes: "decode_ed25519_public_key_base64 (public_key_base64 demo_key) = Inr (replicate 32 (CHR ''k''))"
  by (simp add: decode_ed25519_public_key_base64_def demo_key_def demo_key_bytes)

lemma zeros_digest: "digest_text zeros" "digest_text ones"
  by (simp_all add: digest_text_def lower_hex_def zeros_def ones_def)

lemmas demo_texts = label_text_def lower_alnum_def ascii_alnum_def hostname_text_def hotkey_text_def sha_text_def hex_text_def

lemma demo_policy_fields: "policy_fields demo_policy"
  by (simp add: policy_fields_def demo_policy_def zeros_digest role_text_def demo_texts)

lemma demo_lib_simps [simp]:
  "sha256_hex demo_lib s = zeros" "dumps demo_lib d = ''{}''" "sha_json demo_lib d = zeros"
  "loads demo_lib s = Inr (attestation_document demo_attestation)"
  by (simp_all add: demo_lib_def sha_json_def)

lemma demo_verify_simps [simp]: "demo_verify k s m"
  by (simp add: demo_verify_def)

lemma int_digits_1: "int_digits 1 = ''1''" by code_simp

lemma demo_policy_valid: "policy_validate demo_lib demo_policy = Inr demo_policy"
proof -
  have "TrustedManifestKey_validate demo_lib demo_key = Inr demo_key"
    using demo_key_decodes by (simp add: TrustedManifestKey_validate_def TrustedManifestKey_fields_def demo_key_def
        zeros_digest length_b64encode role_text_def demo_texts sorted_set_def)
  then show ?thesis
    using demo_policy_fields by (simp add: policy_validate_def demo_policy_def static_subnet_def sorted_set_def  demo_key_def zeros_digest)
qed

section \<open>The manifest\<close>

lemma demo_replica_valid: "replica_validate demo_replica = Inr demo_replica"
  by (simp add: replica_validate_def replica_fields_def demo_replica_def demo_texts zeros_digest endpoint_text_def)
     (simp add: zeros_def ones_def lower_hex_def)

lemma demo_deployment_valid: "deployment_validate demo_lib demo_deployment = Inr demo_deployment"
  using demo_replica_valid
  by (simp add: deployment_validate_def demo_deployment_def health_fields_def http_method_def marker_text_def
      path_char_def route_label_def starts_with_def demo_texts zeros_digest sorted_set_def replica_name_def
      endpoint_name_def)
     (simp add: demo_replica_def int_digits_1)

lemma demo_manifest_valid: "manifest_validate demo_lib demo_manifest = Inr demo_manifest"
  using demo_deployment_valid
  by (simp add: manifest_validate_def manifest_fields_def demo_manifest_def demo_header_def header_fields_def
      zeros_digest demo_texts sorted_set_def all_replicas_def route_check_def demo_deployment_def)
     (simp add: demo_replica_def)

lemma demo_identities: "verify_identities demo_manifest = Inr ()"
  by (simp add: verify_identities_def all_replicas_def demo_manifest_def demo_deployment_def identity_step_def
      demo_replica_def demo_header_def rebinds_def setdefault_def)

definition demo_genesis :: AssignmentManifestChainState where
  "demo_genesis = \<lparr>cs_network = ''finney'', cs_netuid = 24, cs_authority = ones, cs_policy_digest = zeros,
     accepted_manifest_count = 0, last_sequence = 0, last_finalized_height = None,
     last_finalized_block_hash = None, last_finalized_epoch = None, last_issued_at_epoch = None,
     last_expires_at_epoch = None, last_manifest_digest = None, state_digest = zeros\<rparr>"

lemma demo_genesis_built: "build_initial_manifest_chain_state demo_lib demo_policy = Inr demo_genesis"
  by (simp add: build_initial_manifest_chain_state_def demo_policy_valid seal_chain_state_def chain_state_validate_def
      chain_state_fields_def static_subnet_def chain_tail_missing_def)
     (simp add: demo_policy_def  demo_genesis_def zeros_digest)

definition demo_chain :: AssignmentManifestChainState where
  "demo_chain = demo_genesis\<lparr>accepted_manifest_count := 1, last_sequence := 1, last_finalized_height := Some 1000,
     last_finalized_block_hash := Some ones, last_finalized_epoch := Some 2,
     last_issued_at_epoch := Some 1699999000, last_expires_at_epoch := Some 1700003000,
     last_manifest_digest := Some zeros\<rparr>"

lemma demo_advance:
  "advance_manifest_header_chain_state demo_lib demo_genesis demo_header demo_policy = Inr (demo_chain, False)"
proof -
  have "tp_digest demo_policy = zeros" by (simp add: demo_policy_def)
  then show ?thesis
    by (simp add: advance_manifest_header_chain_state_def demo_policy_valid seal_chain_state_def chain_state_validate_def
      chain_state_fields_def static_subnet_def chain_tail_missing_def next_chain_state_def
      demo_genesis_def demo_chain_def demo_header_def zeros_digest)
qed

lemma demo_admission: "verify_manifest_policy_admission demo_header demo_policy 1700000100 = Inr ()"
  by (simp add: verify_manifest_policy_admission_def verify_policy_binding_def demo_header_def demo_policy_def)

lemma demo_envelope_valid: "envelope_validate demo_envelope = Inr demo_envelope"
  by (simp add: envelope_validate_def demo_envelope_def length_b64encode decode_base64_encode zeros_digest demo_texts)

lemma demo_signatures:
  "verify_manifest_signatures demo_lib demo_verify demo_header msg [demo_envelope] demo_policy 1700000100
     = Inr ([''issuer''], [''assignment_issuer''])"
  using demo_key_decodes
  by (simp add: verify_manifest_signatures_def trusted_public_keys_def verify_envelope_def demo_policy_def
      demo_envelope_def demo_header_def sorted_set_def dict_of_def decode_base64_encode demo_key_def)

definition demo_verification :: OrganicManifestVerification where
  "demo_verification = \<lparr>v_manifest = demo_manifest, verified_signer_key_ids = [''issuer''],
     verified_roles = [''assignment_issuer''], next_chain = demo_chain, v_reprobe = False,
     evaluation_epoch = 1700000100, v_policy_digest = zeros\<rparr>"

lemma demo_horizon: "organic_manifest_effective_expires_at_epoch demo_manifest = 1700002000"
  by (simp add: organic_manifest_effective_expires_at_epoch_def all_replicas_def demo_manifest_def
      demo_deployment_def demo_replica_def demo_header_def)

lemma demo_verified:
  "verify_organic_assignment_manifest demo_lib demo_verify demo_manifest [demo_envelope] demo_policy demo_genesis
     1700000100 1000 = Inr demo_verification"
proof -
  have h: "header demo_manifest = demo_header" "tp_digest demo_policy = zeros"
    "all_replicas demo_manifest = [demo_replica]" "expires_at_block demo_replica = 2000"
    by (simp_all add: demo_manifest_def demo_policy_def all_replicas_def demo_deployment_def demo_replica_def)
  show ?thesis
    by (simp add: verify_organic_assignment_manifest_def verify_live_def demo_policy_valid demo_manifest_valid
        demo_envelope_valid demo_admission demo_identities demo_horizon demo_signatures demo_advance h
        demo_verification_def)
qed

lemma demo_find: "find_replica demo_manifest (endpoint_id demo_replica) = Inr (demo_deployment, demo_replica)"
  by (simp add: find_replica_def demo_manifest_def demo_deployment_def first_match_def)

lemma demo_instants:
  "rfc3339nano_instant ''2023-11-14T22:10:50Z'' = Inr 63862035050000000000"
  "rfc3339nano_instant ''2023-11-14T22:10:51Z'' = Inr 63862035051000000000"
  by code_simp+

lemma demo_seconds: "timestamp_epoch_seconds ''2023-11-14T22:10:50Z'' = Inr 1699999850"
  by (simp add: timestamp_epoch_seconds_def demo_instants unix_epoch_nanos_def)

section \<open>The probe\<close>

lemma demo_request_valid: "authorization_validate demo_request = Inr demo_request"
proof -
  have "seconds_timestamp ''2023-11-14T22:10:50Z''" by code_simp
  then show ?thesis
  by (simp add: authorization_validate_def demo_request_def demo_texts endpoint_text_def demo_replica_def http_method_def
      path_char_def zeros_digest) (simp add: zeros_def lower_hex_def)
qed

lemma demo_context: "probe_context demo_lib demo_manifest demo_policy demo_request demo_deployment demo_replica"
proof -
  have "au_endpoint_id demo_request = endpoint_id demo_replica" "h_policy_digest (header demo_manifest) = tp_digest demo_policy"
    "au_generation demo_request = generation demo_replica" "au_method demo_request = hp_method (health demo_deployment)"
    "au_path demo_request = hp_path (health demo_deployment)"
    by (simp_all add: demo_request_def demo_manifest_def demo_header_def demo_policy_def demo_replica_def demo_deployment_def)
  then show ?thesis
    by (simp add: probe_context_def demo_manifest_valid demo_policy_valid demo_request_valid demo_find)
qed

lemma demo_attestation_valid: "attestation_validate demo_attestation = Inr demo_attestation"
proof -
  have "go_timestamp ''2023-11-14T22:10:51Z''" "go_utc_timestamp ''2023-11-14T22:10:51Z''" by code_simp+
  then show ?thesis
  by (simp add: attestation_validate_def attestation_fields_def demo_attestation_def demo_texts endpoint_text_def
      demo_replica_def http_method_def path_char_def zeros_digest int_digits_1 starts_with_def) (simp add: zeros_def lower_hex_def)
qed

lemma demo_attestation_read: "read_attestation (attestation_document demo_attestation) = Inr demo_attestation"
  by (rule read_attestation_document [OF demo_attestation_valid])

lemma demo_header_parsed: "parse_attestation_v2_header demo_lib (b64encode ''{}'') = Inr demo_attestation"
proof -
  have "b64encode ''{}'' \<noteq> []" by simp
  then show ?thesis
    by (simp add: parse_attestation_v2_header_def length_b64encode demo_attestation_read is_ascii_def
        del: b64encode.simps)
qed

lemma demo_verdict:
  "verify_attestation_v2 demo_lib demo_verify demo_attestation demo_deployment demo_replica ''validator'' zeros ''GET''
     ''/health'' ''2023-11-14T22:10:50Z'' 200 zeros = Inr Verified"
proof -
  have "observed_at demo_attestation = ''2023-11-14T22:10:51Z''" by (simp add: demo_attestation_def)
  then show ?thesis
  by (simp add: verify_attestation_v2_def demo_attestation_valid verify_miner_probe_attestation_v2_def demo_instants)
    (simp add: demo_attestation_def demo_replica_def demo_deployment_def)
qed

definition demo_observation :: OrganicProbeObservation where
  "demo_observation =
     \<lparr>ob_validator_hotkey = ''validator'', ob_manifest_digest = zeros, ob_policy_digest = zeros,
      ob_deployment_id = ''web'', ob_assignment_digest = zeros, ob_endpoint_id = endpoint_id demo_replica,
      ob_generation = 1, ob_miner_uid = 5, ob_miner_hotkey = ''miner'',
      probe_nonce = zeros, issued_at = ''2023-11-14T22:10:50Z'',
      request_method = ''GET'', request_path = ''/health'', latency_millis = 40, outcome = Success,
      failure_code = None, attribution = NoParty, upstream_marker = True, response_status = Some 200,
      response_bytes = 2, response_body_sha256 = Some zeros, tls_leaf_certificate = None,
      attestation_status = VerifiedA, attestation = Some demo_attestation, observation_digest = zeros\<rparr>"

lemma demo_observation_valid: "observation_validate demo_lib demo_observation = Inr demo_observation"
proof -
  have "seconds_timestamp ''2023-11-14T22:10:50Z''" by code_simp
  then show ?thesis
    by (simp add: observation_validate_Inr observation_ok_def demo_observation_def demo_attestation_valid
      observation_fields_def demo_texts zeros_digest route_label_def starts_with_def endpoint_text_def
      http_method_def path_char_def failure_attribution_def)
     (simp add: demo_attestation_def demo_replica_def)
qed

lemma demo_probe:
  "evaluate_organic_probe demo_lib demo_verify demo_manifest demo_policy demo_request (Response demo_response)
     = Inr demo_observation"
proof -
  have r: "au_endpoint_id demo_request = endpoint_id demo_replica" "h_policy_digest (header demo_manifest) = tp_digest demo_policy"
    "au_generation demo_request = generation demo_replica" "au_method demo_request = hp_method (health demo_deployment)"
    "au_path demo_request = hp_path (health demo_deployment)" "probe_timeout_millis demo_policy = 5000"
    "pr_latency_millis demo_response = 40" "pr_status demo_response = 200" "pinned_edge_leaf_certificate_sha256 demo_policy = []"
    "pr_body demo_response = ''ok''" "max_response_bytes demo_policy = 4096"
    by (simp_all add: demo_request_def demo_manifest_def demo_header_def demo_policy_def demo_replica_def demo_deployment_def demo_response_def)
  have hv: "header_values (pr_headers demo_response) ''x-miss-edge-upstream'' = [''replica'']"
    "header_values (pr_headers demo_response) ''x-miss-probe-attestation'' = [b64encode ''{}'']"
    by code_simp+
  have pred: "predicate_satisfied (health demo_deployment) 200 ''ok'' = None"
    by (simp add: predicate_satisfied_def demo_deployment_def starts_with_def)
  have args: "au_validator_hotkey demo_request = ''validator''" "au_nonce demo_request = zeros"
     "hp_method (health demo_deployment) = ''GET''" "hp_path (health demo_deployment) = ''/health''"
     "au_issued_at demo_request = ''2023-11-14T22:10:50Z''"
    by (simp_all add: demo_request_def demo_deployment_def)
  have o: "blank_observation demo_manifest demo_policy demo_request demo_deployment demo_replica (Response demo_response)
     \<lparr>response_status := Some 200, response_bytes := 2, response_body_sha256 := Some zeros, upstream_marker := True,
      attestation_status := VerifiedA, attestation := Some demo_attestation, outcome := Success, observation_digest := zeros\<rparr>
      = demo_observation"
    by (simp add: blank_observation_def demo_observation_def demo_request_def demo_manifest_def demo_header_def
       demo_policy_def demo_replica_def demo_deployment_def demo_response_def)
  show ?thesis
    using demo_observation_valid
    by (simp add: evaluate_organic_probe_def demo_manifest_valid demo_policy_valid demo_request_valid r demo_find
        judge_response_def hv demo_header_parsed judge_attestation_def args demo_verdict pred seal_observation_def o Let_def del: b64encode.simps)
qed

section \<open>Scoring\<close>

definition demo_tally :: EndpointEpochTally where
  "demo_tally = \<lparr>te_deployment_id = ''web'', te_endpoint_id = endpoint_id demo_replica, te_miner_uid = 5,
     te_miner_hotkey = ''miner'', attempts = 1, successes = 1, application_failures = 0, miner_failures = 0,
     path_failures = 0, fraudulent_attestations = 0, disposition = Eligible, availability_numerator = Some 1,
     availability_denominator = Some 1, corroborating_windows = 0, corroborating_requests = 0\<rparr>"

definition demo_derived :: derived_epoch where
  "demo_derived = \<lparr>epoch_status = Scored, sampled_endpoint_count = 1, path_unavailable_endpoint_count = 0,
     inconclusive_deployments = [], endpoints = [demo_tally], fraud_evidence = []\<rparr>"

lemma demo_derive: "derive_epoch [demo_observation] [] 300 5666666 1 = Inr demo_derived"
  by (simp add: derive_epoch_def epoch_step_def demo_observation_def demo_seconds epoch_index_of_def empty_epoch_def
      rebinds_def setdefault_def new_tally_def count_attempt_def conclude_epoch_def judge_endpoint_def
      endpoint_windows_def sorted_set_def demo_derived_def demo_tally_def Let_def)

definition demo_epoch :: OrganicEpochScore where
  "demo_epoch = \<lparr>es_validator_hotkey = ''validator'', epoch_seconds = 300, epoch_index = 5666666,
     min_attempts = 1, manifest_digests = [zeros], derived = demo_derived, corroboration = [],
     observations = [demo_observation], observation_vector_digest = zeros, epoch_score_digest = zeros\<rparr>"

lemma demo_epoch_sel:
  "es_validator_hotkey demo_epoch = ''validator''" "epoch_seconds demo_epoch = 300" "epoch_index demo_epoch = 5666666"
  "min_attempts demo_epoch = 1" "manifest_digests demo_epoch = [zeros]" "derived demo_epoch = demo_derived"
  "corroboration demo_epoch = []" "observations demo_epoch = [demo_observation]"
  "observation_vector_digest demo_epoch = zeros" "epoch_score_digest demo_epoch = zeros"
  by (simp_all add: demo_epoch_def)

lemma demo_observation_sel:
  "ob_manifest_digest demo_observation = zeros" "ob_validator_hotkey demo_observation = ''validator''"
  "issued_at demo_observation = ''2023-11-14T22:10:50Z''" "ob_endpoint_id demo_observation = endpoint_id demo_replica"
  "attestation demo_observation = Some demo_attestation" "probe_nonce demo_observation = zeros"
  "request_method demo_observation = ''GET''" "request_path demo_observation = ''/health''"
  "response_status demo_observation = Some 200" "response_body_sha256 demo_observation = Some zeros"
  "attestation_status demo_observation = VerifiedA" "failure_code demo_observation = None"
  by (simp_all add: demo_observation_def)

lemma demo_epoch_valid: "epoch_validate demo_lib demo_epoch = Inr demo_epoch"
proof -
  have f: "epoch_fields demo_epoch"
    by (simp add: epoch_fields_def demo_epoch_def demo_derived_def demo_tally_def tally_fields_def demo_texts zeros_digest
        endpoint_text_def demo_replica_def)
  have "derived_mismatch demo_derived demo_derived = None" by (simp add: derived_mismatch_None)
  then show ?thesis
    using f demo_derive demo_observation_valid
    by (simp add: epoch_validate_def demo_epoch_sel demo_observation_sel sorted_set_def)
qed

lemma demo_manifest_checked:
  "verify_against_manifest demo_lib demo_verify demo_observation (Some demo_manifest) = Inr ()"
proof -
  have "organic_manifest_valid_at demo_manifest 1699999850"
    by (simp add: organic_manifest_valid_at_def demo_horizon) (simp add: demo_manifest_def demo_header_def)
  then show ?thesis
    by (simp add: verify_against_manifest_def demo_observation_sel demo_find demo_seconds demo_verdict Let_def)
      (simp add: demo_observation_def demo_manifest_def demo_header_def demo_deployment_def demo_replica_def)
qed

lemma demo_scored:
  "score_organic_epoch demo_lib demo_verify [demo_manifest] [demo_observation] ''validator'' 5666666 300 1 []
     = Inr demo_epoch"
proof -
  have m: "md_digest demo_manifest = zeros" by (simp add: demo_manifest_def demo_header_def)
  show ?thesis
    using demo_epoch_valid
    by (simp add: score_organic_epoch_def manifest_index_def demo_manifest_valid demo_observation_valid
      screen_observation_def demo_observation_sel m demo_seconds epoch_index_of_def dict_of_def demo_manifest_checked
      canonical_windows_def sorted_set_def demo_derive demo_epoch_def)
qed

definition demo_score :: OrganicAvailabilityScore where
  "demo_score = \<lparr>as_validator_hotkey = ''validator'', as_epoch_seconds = 300, epoch_indexes = [5666666],
     epoch_score_digests = [zeros], abstained_epochs = [],
     miners = [\<lparr>ma_miner_uid = 5, ma_miner_hotkey = ''miner'', eligible_endpoint_epochs = 1, ma_numerator = 1,
       ma_denominator = 1, ma_fraudulent_attestations = 0\<rparr>], as_fraud_evidence = [], score_digest = zeros\<rparr>"

lemma demo_score_valid: "score_validate demo_lib demo_score = Inr demo_score"
  by (simp add: score_validate_def score_fields_def demo_score_def miner_validate_def demo_texts zeros_digest sorted_set_def Let_def)

lemma demo_aggregate: "aggregate_organic_window demo_lib [demo_epoch] = Inr demo_score"
proof -
  have s: "foldM window_step empty_window [demo_tally] = Inr w \<Longrightarrow> miner_of w (5, ''miner'') = hd (miners demo_score) \<and> sum_keys w = [(5, ''miner'')]" for w
    by (simp add: window_step_def empty_window_def demo_tally_def rebinds_def setdefault_def miner_of_def demo_score_def Let_def) auto
  have e: "\<exists>w. foldM window_step empty_window [demo_tally] = Inr w"
    by (simp add: window_step_def empty_window_def demo_tally_def rebinds_def setdefault_def Let_def)
  obtain w where w: "foldM window_step empty_window [demo_tally] = Inr w" using e by blast
  have d: "endpoints demo_derived = [demo_tally]" "epoch_status demo_derived = Scored" "fraud_evidence demo_derived = []"
    by (simp_all add: demo_derived_def)
  show ?thesis
    using demo_score_valid w s [OF w]
    by (simp add: aggregate_organic_window_def demo_epoch_valid demo_epoch_sel d demo_score_def)
qed

section \<open>The decision\<close>

definition demo_row :: WeightDecisionRow where
  "demo_row = \<lparr>dr_uid = 5, dr_hotkey = ''miner'', classification = ScoredClass, dr_weight = Fin 1,
     dr_eligible = 1, dr_numerator = Some 1, dr_denominator = Some 1\<rparr>"

definition demo_decision :: ValidatorWeightDecision where
  "demo_decision = \<lparr>vd_validator_uid = 1, vd_validator_hotkey = ''validator'', vd_window_start = 1699999800,
     vd_window_end = 1700000100, submit = True, vd_reasons = [],
     decision_policy = \<lparr>min_scored_epochs = 1, max_registered_height_gap = 600\<rparr>,
     trust_policies = [demo_policy], terminal_status = VerifiedFetch, terminal_rejection_code = None,
     terminal_evaluated = 1700000100, terminal_digest = Some zeros, terminal_sequence = Some 1,
     terminal_height = Some 1000, terminal_block_hash = Some ones, terminal_epoch = Some 2,
     vd_manifests = [demo_manifest], epochs = [demo_epoch], availability_score = Some demo_score,
     scored_epoch_count = 1, registered_height = 1010, registered_block_hash = ones, registered_epoch = 2,
     registered_miner_count = 1, vd_fingerprint = zeros, rows = [demo_row], rows_digest = Some zeros,
     decision_digest = zeros\<rparr>"

lemma demo_decision_sel:
  "vd_window_start demo_decision = 1699999800" "vd_window_end demo_decision = 1700000100"
  "trust_policies demo_decision = [demo_policy]" "vd_manifests demo_decision = [demo_manifest]"
  "epochs demo_decision = [demo_epoch]" "availability_score demo_decision = Some demo_score"
  "rows demo_decision = [demo_row]" "submit demo_decision" "rows_digest demo_decision = Some zeros"
  "vd_validator_hotkey demo_decision = ''validator''" "vd_validator_uid demo_decision = 1"
  "vd_fingerprint demo_decision = zeros" "registered_height demo_decision = 1010"
  "registered_epoch demo_decision = 2" "registered_block_hash demo_decision = ones"
  by (simp_all add: demo_decision_def)

lemma demo_rows: "derive_rows (registered_of demo_decision) (Some demo_score) = [demo_row]"
proof -
  have "to_double 1 = Fin 1" by (simp add: to_double_def)
  then show ?thesis
    by (simp add: derive_rows_def registered_of_def demo_decision_def demo_row_def derive_row_def demo_score_def dict_of_def)
qed

lemma demo_registered: "registered_validate (registered_of demo_decision) = Inr (registered_of demo_decision)"
  by (simp add: registered_validate_def registered_of_def demo_decision_def demo_row_def zeros_digest demo_texts sorted_set_def Let_def)

lemma demo_admitted: "terminal_admitted demo_lib demo_manifest [demo_policy] 1700000100"
proof -
  have "header demo_manifest = demo_header" "tp_digest demo_policy = h_policy_digest demo_header"
    by (simp_all add: demo_manifest_def demo_policy_def demo_header_def)
  then show ?thesis
    by (simp add: terminal_admitted_def first_match_def demo_admission demo_manifest_valid demo_identities)
qed

lemma demo_reasons:
  "abstain_reasons VerifiedFetch (Some demo_manifest) True 1700000100 1 (registered_of demo_decision)
     (decision_policy demo_decision) 1 = []"
  by (simp add: abstain_reasons_Nil demo_horizon)
    (simp add: registered_unbound_def registered_of_def demo_decision_def demo_manifest_def demo_header_def)

lemma demo_fields: "decision_fields demo_decision"
  by (simp add: decision_fields_def demo_decision_def demo_texts zeros_digest decision_policy_fields_def row_fields_def demo_row_def)

lemma demo_outcome: "check_outcome demo_lib demo_decision (Some demo_manifest) (Some demo_score) = Inr demo_decision"
proof -
  have d: "epoch_status demo_derived = Scored" "scored_epoch_count demo_decision = 1" "registered_miner_count demo_decision = 1"
    "terminal_status demo_decision = VerifiedFetch" "terminal_evaluated demo_decision = 1700000100" "vd_reasons demo_decision = []"
    "decision_digest demo_decision = zeros" "dr_weight demo_row = Fin 1"
    by (simp_all add: demo_derived_def demo_decision_def demo_row_def)
  show ?thesis
    by (simp add: check_outcome_def demo_decision_sel demo_epoch_sel d demo_registered demo_rows demo_admitted demo_reasons Let_def)
qed

lemma demo_replay: "replay_organic_epoch_score demo_lib demo_verify demo_epoch [demo_manifest] = Inr demo_epoch"
  by (simp add: replay_organic_epoch_score_def demo_epoch_valid demo_epoch_sel demo_scored epoch_bytes_def model_bytes_def)

lemma demo_decision_valid: "decision_validate demo_lib demo_verify demo_decision = Inr demo_decision"
proof -
  have m: "md_digest demo_manifest = zeros" "tp_digest demo_policy = zeros" "h_policy_digest (header demo_manifest) = zeros"
    by (simp_all add: demo_manifest_def demo_header_def demo_policy_def)
  have t: "terminal_of demo_decision (dict_of [(zeros, demo_manifest)]) = Inr (Some demo_manifest)"
    by (simp add: terminal_of_def demo_decision_def dict_of_def) (simp add: demo_manifest_def demo_header_def)
  have c: "check_epoch demo_lib demo_verify demo_decision (dict_of [(zeros, demo_manifest)]) demo_epoch = Inr ()"
    by (simp add: check_epoch_def demo_epoch_sel demo_decision_sel demo_replay dict_of_def map_filter_simps Let_def)
  show ?thesis
    using demo_outcome
    by (simp add: decision_validate_def demo_fields demo_decision_sel demo_policy_valid demo_manifest_valid demo_epoch_valid
      demo_score_valid demo_epoch_sel m t c sorted_set_def aggregate_opt_def demo_aggregate Let_def)
qed

section \<open>The view and the plan\<close>

definition demo_view :: MetagraphSnapshot where
  "demo_view = \<lparr>ms_network = ''finney'', ms_netuid = 24, ms_block = 1010, ms_tempo = 360,
     ms_neurons = [\<lparr>nr_uid = 1, nr_hotkey = ''validator'', nr_validator_permit = True, nr_tao_stake = Fin 0,
        nr_axon = None, nr_active = True\<rparr>,
      \<lparr>nr_uid = 5, nr_hotkey = ''miner'', nr_validator_permit = False, nr_tao_stake = Fin 0,
        nr_axon = None, nr_active = True\<rparr>], ms_finalized = True\<rparr>"

lemma demo_view_ok: "view_ok demo_view"
proof -
  have n: "network_ok ''finney''" by code_simp
  show ?thesis using n
    by (simp add: view_ok_def demo_view_def neuron_ok_def bad_text_iff graphic_def MAX_BLOCK_def MAX_WEIGHT_PLAN_NEURONS_def)
qed

lemma demo_targets: "eligible_weight_targets demo_view ''validator'' = Inr {(5, ''miner'')}"
  by (simp add: eligible_weight_targets_def demo_view_def validate_snapshot_neuron_def bad_text_iff graphic_def del: set_filter)

lemma demo_dict: "hotkey_dict demo_view = [''validator'' \<mapsto> ms_neurons demo_view ! 0, ''miner'' \<mapsto> ms_neurons demo_view ! 1]"
  by (simp add: hotkey_dict_def dict_of_def demo_view_def)

lemma demo_judged: "rows_judged demo_view ''validator'' (plan_rows [demo_row]) [(''miner'', 1)]"
  by (simp add: rows_judged_def plan_rows_def demo_row_def row_value_def row_weight_Inr target_ok_def demo_dict
      bad_text_iff graphic_def MAX_WEIGHT_PLAN_NEURONS_def) (simp add: demo_view_def)

lemma demo_sorted_targets: "sorted_targets demo_view [(''miner'', 1)] = [(5, ''miner'', 1)]"
  by (simp add: sorted_targets_def positive_targets_def demo_dict) (simp add: demo_view_def)

lemma demo_normal: "normal_weights [1]"
  by (simp add: normal_weights_def min_weight_def)

definition demo_plan :: WeightPlan where
  "demo_plan = \<lparr>wp_network = ''finney'', wp_netuid = 24, wp_validator_hotkey = ''validator'',
     wp_snapshot = \<lparr>wps_block = 1010, wps_tempo = 360, wps_epoch = 2, wps_finalized = True,
        wps_identity_fingerprint = JStr zeros\<rparr>,
     wp_weights = [\<lparr>wpe_uid = 5, wpe_hotkey = ''miner'', wpe_weight = 1\<rparr>],
     wp_version_key = WEIGHT_PLAN_PROTOCOL_VERSION_KEY, wp_created_block = 1010, wp_expires_at_block = 1080,
     wp_digest_sha256 = zeros\<rparr>"

lemma demo_plan_built:
  "build_weight_plan demo_lib demo_view ''validator'' (plan_rows [demo_row]) WEIGHT_PLAN_PROTOCOL_VERSION_KEY
     = Inr demo_plan"
proof -
  have perm: "validator_permitted demo_view ''validator''"
    by (simp add: validator_permitted_def demo_dict) (simp add: demo_view_def)
  have "\<exists>p. build_weight_plan demo_lib demo_view ''validator'' (plan_rows [demo_row]) WEIGHT_PLAN_PROTOCOL_VERSION_KEY = Inr p"
    by (rule build_weight_plan_succeeds [OF demo_view_ok _ perm _ _ demo_judged])
      (simp_all add: demo_sorted_targets demo_normal zeros_digest, simp_all add: demo_view_def MAX_BLOCK_def
        WEIGHT_PLAN_PROTOCOL_VERSION_KEY_def MAX_VERSION_KEY_def)
  then obtain p where p: "build_weight_plan demo_lib demo_view ''validator'' (plan_rows [demo_row])
      WEIGHT_PLAN_PROTOCOL_VERSION_KEY = Inr p" by blast
  have "p = demo_plan"
    using p
  proof (rule build_weight_plan_Inr)
    fix rs assume rs: "rows_judged demo_view ''validator'' (plan_rows [demo_row]) rs"
      and ok: "plan_ok demo_lib p" and pf: "plan_for demo_lib demo_view ''validator'' WEIGHT_PLAN_PROTOCOL_VERSION_KEY rs p"
    have "rs = [(''miner'', 1)]"
      using plan_rows_judged [OF rs] by (auto simp: demo_row_def list_all2_Cons1)
    moreover have "normalize_weights [1] = [1]" by (rule normalize_exact) (simp_all add: fsum_def)
    ultimately have "wp_network p = ''finney''" "wp_netuid p = 24" "wp_validator_hotkey p = ''validator''"
        "wp_version_key p = WEIGHT_PLAN_PROTOCOL_VERSION_KEY" "wp_created_block p = 1010" "wp_expires_at_block p = 1080"
        "wp_snapshot p = wp_snapshot demo_plan" "wp_digest_sha256 p = zeros"
        "map (\<lambda>e. (wpe_uid e, wpe_hotkey e)) (wp_weights p) = [(5, ''miner'')]" "map wpe_weight (wp_weights p) = [1]"
      using pf ok unfolding plan_for_def plan_ok_def demo_plan_def
      by (simp_all add: demo_sorted_targets, simp_all add: demo_view_def conservative_expiry_limit_def MAX_BLOCK_def)
    then show ?thesis by (cases p) (auto simp: demo_plan_def map_eq_Cons_conv)
  qed
  then show ?thesis using p by simp
qed

lemma demo_plan_from_decision:
  "build_weight_plan_from_decision demo_lib demo_verify demo_decision demo_view (JStr ones)
     WEIGHT_PLAN_PROTOCOL_VERSION_KEY = Inr demo_plan"
proof -
  have fp: "snapshot_identity_fingerprint demo_lib demo_view = Inr zeros"
    by (simp add: fingerprint_Inr demo_view_ok)
  have n: "validate_network_identity ''snapshot network'' (JStr ''finney'') = Inr ''finney''" by code_simp
  have v: "ms_finalized demo_view" "ms_network demo_view = ''finney''" "ms_netuid demo_view = 24" "ms_block demo_view = 1010"
    "ms_tempo demo_view = 360" "nr_uid (ms_neurons demo_view ! 0) = 1" "nr_uid (ms_neurons demo_view ! Suc 0) = 5"
    "dr_hotkey demo_row = ''miner''" "dr_uid demo_row = 5"
    by (simp_all add: demo_view_def demo_row_def)
  have sub: "validated_weight_submission demo_lib demo_verify demo_decision = Inr (demo_decision, plan_rows [demo_row])"
    by (simp add: validated_weight_submission_Inr demo_decision_valid demo_decision_sel)
  show ?thesis
    using demo_plan_built
    by (simp add: build_weight_plan_from_decision_def sub v n demo_decision_sel demo_dict fp demo_targets MAX_BLOCK_def)
qed

lemma demo_plan_wf: "plan_wf demo_lib demo_plan"
  using demo_plan_built
proof (rule build_weight_plan_Inr)
  assume "plan_ok demo_lib demo_plan" "list_all entry_ok (wp_weights demo_plan)"
  then show ?thesis
    using bad_fingerprint_digest [OF zeros_digest(1)]
    by (simp add: plan_wf_def demo_plan_def snapshot_ok_def MAX_BLOCK_def MAX_WEIGHT_PLAN_NEURONS_def zeros_digest)
qed

lemma demo_preflight: "preflight_ok demo_plan demo_view ''finney'' 24 ''validator''"
  by (simp add: preflight_ok_def demo_view_ok validator_permitted_def demo_dict) (simp add: demo_plan_def demo_view_def)

lemma demo_live:
  "list_all (\<lambda>e. live (hotkey_dict demo_view) e \<and> nr_uid (the (hotkey_dict demo_view (wpe_hotkey e))) = wpe_uid e)
     (wp_weights demo_plan)"
  by (simp add: demo_dict live_def demo_plan_def) (simp add: demo_view_def)

lemma demo_vector: "\<exists>v. derive_execution_vector demo_lib demo_plan demo_view ''finney'' 24 ''validator'' = Inr v"
  by (rule derive_succeeds [OF demo_plan_wf _ demo_preflight])
    (use demo_live demo_normal in \<open>simp_all add: demo_plan_def zeros_digest\<close>)

section \<open>Variations\<close>

text \<open>The manifest shown again, a response with a stale attestation, a plan file.\<close>

lemma demo_reprobe:
  "advance_manifest_header_chain_state demo_lib demo_chain demo_header demo_policy = Inr (demo_chain, True)"
proof -
  have "tp_digest demo_policy = zeros" by (simp add: demo_policy_def)
  moreover have "chain_state_validate demo_lib demo_chain = Inr demo_chain"
    by (simp add: chain_state_validate_def chain_state_fields_def static_subnet_def chain_tail_missing_def
        demo_genesis_def demo_chain_def zeros_digest)
  ultimately show ?thesis
    by (simp add: advance_manifest_header_chain_state_def demo_policy_valid)
      (simp add: demo_genesis_def demo_chain_def demo_header_def)
qed

lemma demo_verified_again:
  "verify_organic_assignment_manifest demo_lib demo_verify demo_manifest [demo_envelope] demo_policy demo_chain
     1700000100 1000 = Inr (demo_verification\<lparr>v_reprobe := True\<rparr>)"
proof -
  have h: "header demo_manifest = demo_header" "tp_digest demo_policy = zeros"
    "all_replicas demo_manifest = [demo_replica]" "expires_at_block demo_replica = 2000"
    by (simp_all add: demo_manifest_def demo_policy_def all_replicas_def demo_deployment_def demo_replica_def)
  show ?thesis
    by (simp add: verify_organic_assignment_manifest_def verify_live_def demo_policy_valid demo_manifest_valid
        demo_envelope_valid demo_admission demo_identities demo_horizon demo_signatures demo_reprobe h
        demo_verification_def)
qed

lemma demo_chain_run:
  "chain_run (\<lambda>s m x. \<exists>p. advance_manifest_header_chain_state demo_lib s m p = Inr x) demo_genesis [demo_header] demo_chain"
  using chain_run.accept [OF chain_run.start, of "\<lambda>s m x. \<exists>p. advance_manifest_header_chain_state demo_lib s m p = Inr x"
      demo_genesis demo_header demo_chain] demo_advance by auto

lemma demo_organic_run: "chain_run (organic_step demo_lib demo_verify) demo_genesis [demo_manifest] demo_chain"
proof -
  have "organic_step demo_lib demo_verify demo_genesis demo_manifest (demo_chain, False)"
    using demo_verified unfolding organic_step_def by (fastforce simp: demo_verification_def)
  then show ?thesis using chain_run.accept [OF chain_run.start] by fastforce
qed

lemma demo_anchored:
  "anchor_organic_manifest_chain_state demo_lib demo_verify demo_manifest [demo_envelope] demo_policy demo_genesis
     1700000100 1000 = Inr demo_verification"
proof -
  have "chain_state_validate demo_lib demo_genesis = Inr demo_genesis"
    by (simp add: chain_state_validate_def chain_state_fields_def static_subnet_def chain_tail_missing_def
        demo_genesis_def zeros_digest)
  moreover have "accepted_manifest_count demo_genesis = 0" "sequence (header demo_manifest) = 1"
    by (simp_all add: demo_genesis_def demo_manifest_def demo_header_def)
  ultimately show ?thesis
    using demo_verified by (simp add: anchor_organic_manifest_chain_state_def demo_manifest_valid)
qed

lemma demo_schedule:
  "plan_hidden_probes demo_lib (replicate 32 (CHR ''s'')) ''validator'' demo_manifest 5666666 300 1
     = Inr [\<lparr>pp_deployment_id = ''web'', pp_endpoint_id = endpoint_id demo_replica, pp_generation = 1, pp_method = ''GET'',
          pp_path = ''/health'', probe_index = 0, fire_at_millis = 1699999800000, pp_nonce = zeros\<rparr>]"
proof -
  have z: "be_value (take 8 (unhex zeros)) = 0" by (simp add: zeros_def be_value_def char_of_def)
  show ?thesis
    using demo_horizon
    by (simp add: plan_hidden_probes_def demo_manifest_valid plan_one_def hmac_sha256_hex_def z zeros_digest Let_def)
      (simp add: demo_manifest_def demo_deployment_def demo_replica_def demo_header_def plan_one_def hmac_sha256_hex_def z zeros_digest Let_def)
qed

text \<open>A probe answered with an attestation that was made for another nonce.\<close>

definition demo_stale_request :: OrganicProbeAuthorization where
  "demo_stale_request = demo_request\<lparr>au_nonce := ones\<rparr>"

lemma demo_stale_context:
  "probe_context demo_lib demo_manifest demo_policy demo_stale_request demo_deployment demo_replica"
  using demo_context unfolding probe_context_def demo_stale_request_def authorization_validate_def
  by (auto simp: zeros_digest)

lemma demo_fraud:
  "\<exists>p. evaluate_organic_probe demo_lib demo_verify demo_manifest demo_policy demo_stale_request (Response demo_response) = Inr p
     \<and> attestation_status p = FraudulentA"
proof -
  have v: "verify_attestation_v2 demo_lib demo_verify demo_attestation demo_deployment demo_replica ''validator'' ones ''GET''
     ''/health'' ''2023-11-14T22:10:50Z'' 200 zeros = Inr Fraudulent"
  proof -
    have "observed_at demo_attestation = ''2023-11-14T22:10:51Z''" "at_probe_nonce demo_attestation \<noteq> ones"
      by (simp_all add: demo_attestation_def zeros_def ones_def)
    then show ?thesis
      by (simp add: verify_attestation_v2_def demo_attestation_valid verify_miner_probe_attestation_v2_def demo_instants)
  qed
  have hv: "header_values (pr_headers demo_response) ''x-miss-edge-upstream'' = [''replica'']"
    "header_values (pr_headers demo_response) ''x-miss-probe-attestation'' = [b64encode ''{}'']"
    by code_simp+
  obtain p where p: "evaluate_organic_probe demo_lib demo_verify demo_manifest demo_policy demo_stale_request
      (Response demo_response) = Inr p"
    using judgement_total [OF demo_stale_context, of "Response demo_response"]
    by (auto simp: zeros_digest demo_response_def)
  have r: "au_endpoint_id demo_stale_request = endpoint_id demo_replica" "h_policy_digest (header demo_manifest) = tp_digest demo_policy"
    "au_generation demo_stale_request = generation demo_replica" "au_method demo_stale_request = ''GET''"
    "au_path demo_stale_request = ''/health''" "probe_timeout_millis demo_policy = 5000"
    "pr_latency_millis demo_response = 40" "pr_status demo_response = 200" "pinned_edge_leaf_certificate_sha256 demo_policy = []"
    "pr_body demo_response = ''ok''" "max_response_bytes demo_policy = 4096" "au_validator_hotkey demo_stale_request = ''validator''"
    "au_nonce demo_stale_request = ones" "au_issued_at demo_stale_request = ''2023-11-14T22:10:50Z''"
    "hp_method (health demo_deployment) = ''GET''" "hp_path (health demo_deployment) = ''/health''"
    by (simp_all add: demo_stale_request_def demo_request_def demo_manifest_def demo_header_def demo_policy_def
        demo_replica_def demo_deployment_def demo_response_def)
  have "authorization_validate demo_stale_request = Inr demo_stale_request"
    using demo_stale_context by (simp add: probe_context_def)
  then have "attestation_status p = FraudulentA"
    using p by (simp add: evaluate_organic_probe_def demo_manifest_valid demo_policy_valid r demo_find judge_response_def hv
        demo_header_parsed judge_attestation_def v fail_observation_def seal_observation_Inr Let_def del: b64encode.simps)
  then show ?thesis using p by blast
qed

text \<open>A library that reads every text as the document of the plan.\<close>

definition plan_lib :: pylib where
  "plan_lib = demo_lib\<lparr>loads := (\<lambda>_. Inr (canon (plan_document demo_plan)))\<rparr>"

lemma plan_lib_simps [simp]: "sha256_hex plan_lib s = zeros" "dumps plan_lib d = ''{}''" "sha_json plan_lib d = zeros"
  "loads plan_lib s = Inr (canon (plan_document demo_plan))"
  by (simp_all add: plan_lib_def sha_json_def)

lemma demo_plan_parsed: "parse_weight_plan plan_lib (''{}'' @ [newline]) = Inr demo_plan"
proof -
  have "plan_wf plan_lib demo_plan" using demo_plan_wf by (simp add: plan_wf_def plan_ok_def)
  then have "parse_plan_document plan_lib (canon (plan_document demo_plan)) = Inr demo_plan"
    by (rule parse_plan_document_canon)
  then show ?thesis
    by (simp add: parse_weight_plan_def load_document_def plan_canonical_bytes_def is_ascii_def)
qed

section \<open>A run of the executor that submits\<close>

definition sent_config :: ExecutorConfig where
  "sent_config = \<lparr>ec_plan_path = ''/plan.json'', ec_network = ''finney'', ec_netuid = 24,
     ec_validator_hotkey = ''validator'', ec_execute = True, ec_confirm_network = Some ''finney'',
     ec_confirm_netuid = Some 24, ec_confirm_plan_digest = Some zeros, ec_audit_state_path = Some ''/audit.json'',
     ec_submission_timeout_seconds = Fin 180, ec_confirm_execution_digest = Some zeros, ec_signer_uid = Some 9\<rparr>"

definition sent_env :: run_inputs where
  "sent_env = \<lparr>in_plan_file = Inr (''{}'' @ [newline]), in_ack = Some EXECUTION_ACK_VALUE, in_cwd = Inr ''/'',
     in_sync = Inr demo_view, in_mode = Inr False, in_has_submitter = True, in_store_fault = None,
     in_clock = (\<lambda>_. ''2026-01-01T00:00:00.000Z''), in_nonce = zeros, in_install = (\<lambda>_. Installed),
     in_signer = Inr ''validator'', in_signer_open = Inr (), in_send_sync = Inr demo_view,
     in_send_mode = Inr False,
     in_submit = Returned \<lparr>sr_success = True, sr_extrinsic_ref = Some ''0xab'', sr_error_code = None\<rparr>,
     in_submitter_close_fails = False, in_store_close_fails = False, in_chain_close_fails = False,
     in_cancelled = False\<rparr>"

lemma plan_lib_iso [simp]: "iso_utc plan_lib s"
  by (simp add: plan_lib_def demo_lib_def)

lemma plan_lib_vector:
  obtains v where "derive_execution_vector plan_lib demo_plan demo_view ''finney'' 24 ''validator'' = Inr v"
    and "ev_digest_sha256 v = zeros"
proof -
  have wf: "plan_wf plan_lib demo_plan" using demo_plan_wf by (simp add: plan_wf_def plan_ok_def)
  have "\<exists>v. derive_execution_vector plan_lib demo_plan demo_view ''finney'' 24 ''validator'' = Inr v"
    by (rule derive_succeeds [OF wf _ demo_preflight])
      (use demo_live demo_normal in \<open>simp_all add: demo_plan_def zeros_digest\<close>)
  then obtain v where v: "derive_execution_vector plan_lib demo_plan demo_view ''finney'' 24 ''validator'' = Inr v" ..
  have "vector_ok plan_lib v" using derive_Inr(2) [OF v] wf by (simp add: plan_wf_def list_all_iff)
  with v that show thesis by (simp add: vector_ok_def)
qed

lemma sent_gates: "validate_execution_gates sent_config demo_plan (Some EXECUTION_ACK_VALUE) (Inr ''/'') = Inr ()"
proof -
  have "abspath (Inr ''/'') ''/plan.json'' = Inr ''/plan.json''" "abspath (Inr ''/'') ''/audit.json'' = Inr ''/audit.json''"
    by code_simp+
  then show ?thesis
    by (simp add: validate_execution_gates_def sent_config_def demo_plan_def convert_path_error_def)
qed

lemma sent_ref: "safe_reference ''0xab''"
  by code_simp

lemma sent_config_simps [simp]:
  "ec_network sent_config = ''finney''" "ec_netuid sent_config = 24" "ec_execute sent_config"
  "ec_validator_hotkey sent_config = ''validator''" "ec_confirm_execution_digest sent_config = Some zeros"
  by (simp_all add: sent_config_def)

lemma sent_stages:
  obtains v where "preflight_stage plan_lib sent_config sent_env = Inr (demo_plan, demo_view, v)"
    and "send_check_stage plan_lib sent_config sent_env demo_plan demo_view v = Inr (demo_view, v)"
proof -
  obtain v where v: "derive_execution_vector plan_lib demo_plan demo_view ''finney'' 24 ''validator'' = Inr v"
    "ev_digest_sha256 v = zeros" by (rule plan_lib_vector)
  have p: "wp_network demo_plan = ''finney''" "wp_netuid demo_plan = 24" "wp_validator_hotkey demo_plan = ''validator''"
    "wp_version_key demo_plan = WEIGHT_PLAN_PROTOCOL_VERSION_KEY" by (simp_all add: demo_plan_def)
  have e: "in_plan_file sent_env = Inr (''{}'' @ [newline])" "in_ack sent_env = Some EXECUTION_ACK_VALUE"
    "in_cwd sent_env = Inr ''/''" "in_sync sent_env = Inr demo_view" "in_send_sync sent_env = Inr demo_view"
    "in_send_mode sent_env = Inr False" by (simp_all add: sent_env_def)
  have "preflight_stage plan_lib sent_config sent_env = Inr (demo_plan, demo_view, v)"
    using v by (simp add: preflight_stage_def e p demo_plan_parsed [simplified] convert_load_error_def sent_gates
        convert_exception_def)
  moreover have "send_check_stage plan_lib sent_config sent_env demo_plan demo_view v = Inr (demo_view, v)"
    using v by (simp add: send_check_stage_def e fingerprint_Inr demo_view_ok)
  ultimately show thesis by (rule that)
qed

lemma sent_opened: "open_stage plan_lib sent_env None = Inr (empty_state plan_lib)"
  by (simp add: open_stage_def sent_env_def convert_exception_def)

lemma sent_room: "room plan_lib [] v"
  by (simp add: room_def MAX_AUDIT_ATTEMPTS_def state_canonical_bytes_def MAX_WEIGHT_PLAN_BYTES_def)

definition sent_answer :: SubmissionResult where
  "sent_answer = \<lparr>sr_success = True, sr_extrinsic_ref = Some ''0xab'', sr_error_code = None\<rparr>"

lemma sent_answered: "in_submit sent_env = Returned sent_answer" "SubmissionResult_post_init sent_answer = Inr sent_answer"
  "sr_success sent_answer" "sr_extrinsic_ref sent_answer = Some ''0xab''"
  using sent_ref by (simp_all add: sent_env_def sent_answer_def SubmissionResult_post_init_def)

lemma sent_smooth: "smooth plan_lib sent_config sent_env"
  by (simp add: smooth_def) (simp add: sent_env_def timestamp_ok_def zeros_digest)

lemma sent_run:
  obtains b c d w summary where "run_weight_executor plan_lib sent_config sent_env None
      = ([Wrote b, Wrote c, Sent w, Wrote d], Completed summary)"
    and "es_mode summary = Execute" and "es_extrinsic_ref summary = Some ''0xab''"
proof -
  obtain v where v: "preflight_stage plan_lib sent_config sent_env = Inr (demo_plan, demo_view, v)"
    "send_check_stage plan_lib sent_config sent_env demo_plan demo_view v = Inr (demo_view, v)"
    by (rule sent_stages)
  from run_confirms [OF v(1) _ sent_opened _ v(2) sent_smooth sent_answered] that show thesis
    by (fastforce simp: barred_def sent_room zeros_digest)
qed

end
