(* ===== verification/Reconciliation.thy ===== *)
theory Reconciliation
  imports ExecutorSafety "HOL-Library.AList"
begin

text \<open>
  The read-only reconciliation of a recorded attempt with the chain
  (\<^verbatim>\<open>weight_reconciliation.py\<close>): the ledger file is loaded without a lock, an attempt is
  selected, the current row of weights is compared with the recorded one, and a sealed
  report says what may be done next.
\<close>

section \<open>Loading\<close>

text \<open>
  What the read-only inspection of the ledger file meets, in the order the code looks: the
  pinned location and whether the file exists, \<^verbatim>\<open>_read_existing\<close>, and
  \<^verbatim>\<open>_revalidate_pinned_chain\<close> with the second stat, which says whether it is still the same file.
\<close>

record ledger_read =
  lr_pinned :: "bool res"
  lr_bytes :: "string res"
  lr_unchanged :: "bool res"

definition convert_ledger_error :: "'a res \<Rightarrow> 'a res" where
  "convert_ledger_error r = (case r of
     Inl (AuditStateError _) \<Rightarrow> Inl (ReconciliationError ''audit_state_invalid'')
   | Inl (WeightPlanTargetError _) \<Rightarrow> Inl (ReconciliationError ''audit_state_invalid'')
   | Inl (OSError _) \<Rightarrow> Inl (ReconciliationError ''audit_state_invalid'')
   | _ \<Rightarrow> r)"

definition load_audit_state_readonly :: "pylib \<Rightarrow> ledger_read \<Rightarrow> AuditState res" where
  "load_audit_state_readonly L io = convert_ledger_error (
     res_bind (lr_pinned io) (\<lambda>exists.
     reject_if (\<not> exists) (ReconciliationError ''audit_state_unavailable'')
     (res_bind (lr_bytes io) (\<lambda>rendered.
      res_bind (lr_unchanged io) (\<lambda>same.
      reject_if (\<not> same) (ReconciliationError ''audit_state_changed'')
        (parse_audit_state L rendered))))))"

section \<open>Selection\<close>

definition uncertain :: "AuditAttempt \<Rightarrow> bool" where
  "uncertain a \<longleftrightarrow> aa_status a \<in> {InProgress, Ambiguous} \<or> aa_status a = Failed \<and> aa_submission_started a"

definition select_attempt :: "AuditState \<Rightarrow> string option \<Rightarrow> AuditAttempt res" where
  "select_attempt s attempt_id = (case attempt_id of
     Some i \<Rightarrow> (case first_match (\<lambda>a. aa_attempt_id a = i) (as_attempts s) of
                  Some a \<Rightarrow> Inr a | None \<Rightarrow> Inl (ReconciliationError ''attempt_not_found''))
   | None \<Rightarrow>
       if as_attempts s = [] then Inl (ReconciliationError ''attempt_not_found'')
       else (case first_match uncertain (rev (as_attempts s)) of
               Some a \<Rightarrow> Inr a | None \<Rightarrow> Inr (last (as_attempts s))))"

section \<open>Evidence\<close>

text \<open>A row of weights is a dictionary: UIDs in insertion order, each once.\<close>

type_synonym weight_row = "(int \<times> pyfloat) list"

definition expected_row :: "AuditAttempt \<Rightarrow> weight_row" where
  "expected_row a = foldl (\<lambda>row w. AList.update (ew_uid w) (Fin (ew_weight w)) row) [] (aa_weights a)"

definition row_digest :: "pylib \<Rightarrow> weight_row \<Rightarrow> string" where
  "row_digest L row = sha_json L (JList (map
     (\<lambda>(uid, weight). JObj [(''uid'', JInt uid), (''weight_hex'', JStr (pyfloat_hex weight))]) (sort_key fst row)))"

datatype evidence_relation = Consistent | Different | RelationUnavailable

definition close_weights :: "rat \<Rightarrow> pyfloat \<Rightarrow> pyfloat \<Rightarrow> bool" where
  "close_weights tolerance a b = (case (a, b) of
     (Fin x, Fin y) \<Rightarrow> is_close x y tolerance
   | (PosInf, PosInf) \<Rightarrow> True | (NegInf, NegInf) \<Rightarrow> True | _ \<Rightarrow> False)"

definition row_relation :: "weight_row \<Rightarrow> weight_row \<Rightarrow> evidence_relation" where
  "row_relation expected observed =
     (if set (map fst expected) \<noteq> set (map fst observed) then Different
      else let tolerance = max (rnd (2 / 65535)) (rnd (of_nat (length expected) / 65535))
           in if list_all (\<lambda>(uid, w). case map_of observed uid of Some v \<Rightarrow> close_weights tolerance w v | None \<Rightarrow> False)
                   expected
              then Consistent else Different)"

datatype identity_status = Exact | Changed | ValidatorMissing

definition target_identity_status :: "AuditAttempt \<Rightarrow> MetagraphSnapshot \<Rightarrow> int option \<Rightarrow> identity_status" where
  "target_identity_status a snapshot validator_uid =
     (if validator_uid = None then ValidatorMissing
      else if list_all (\<lambda>w. case hotkey_dict snapshot (ew_hotkey w) of
                 None \<Rightarrow> False | Some n \<Rightarrow> nr_active n \<and> nr_uid n = ew_uid w) (aa_weights a)
      then Exact else Changed)"

section \<open>The report\<close>

datatype retry_disposition = EligiblePreSend | BlockedRequiresOperator

record WeightReconciliationReport =
  rr_audit_digest :: string
  rr_attempt_id :: string
  rr_attempt_status :: AuditStatus
  rr_submission_started :: bool
  rr_network :: string
  rr_netuid :: int
  rr_validator_hotkey :: string
  rr_evidence_block :: int
  rr_validator_uid :: "int option"
  rr_identity_status :: identity_status
  rr_relation :: evidence_relation
  rr_expected_digest :: string
  rr_observed_digest :: "string option"
  rr_disposition :: retry_disposition
  rr_conclusion :: string
  rr_alert_required :: bool
  rr_digest :: string

definition relation_text :: "evidence_relation \<Rightarrow> string" where
  "relation_text r = (case r of Consistent \<Rightarrow> ''consistent'' | Different \<Rightarrow> ''different''
     | RelationUnavailable \<Rightarrow> ''unavailable'')"

definition identity_text :: "identity_status \<Rightarrow> string" where
  "identity_text i = (case i of Exact \<Rightarrow> ''exact'' | Changed \<Rightarrow> ''changed''
     | ValidatorMissing \<Rightarrow> ''validator_missing'')"

definition disposition_text :: "retry_disposition \<Rightarrow> string" where
  "disposition_text d = (case d of EligiblePreSend \<Rightarrow> ''eligible_pre_send''
     | BlockedRequiresOperator \<Rightarrow> ''blocked_requires_operator'')"

definition report_members :: "WeightReconciliationReport \<Rightarrow> (string \<times> json) list" where
  "report_members r = [
     (''alert_required'', JBool (rr_alert_required r)),
     (''attempt_id'', JStr (rr_attempt_id r)),
     (''attempt_status'', JStr (AuditLedger.status_text (rr_attempt_status r))),
     (''audit_digest_sha256'', JStr (rr_audit_digest r)),
     (''conclusion'', JStr (rr_conclusion r)),
     (''evidence'', JObj [
        (''block'', JInt (rr_evidence_block r)),
        (''expected_row_digest_sha256'', JStr (rr_expected_digest r)),
        (''observed_row_digest_sha256'', jstr_opt (rr_observed_digest r)),
        (''relation'', JStr (relation_text (rr_relation r))),
        (''target_identity_status'', JStr (identity_text (rr_identity_status r))),
        (''validator_uid'', jint_opt (rr_validator_uid r))]),
     (''netuid'', JInt (rr_netuid r)),
     (''network'', JStr (rr_network r)),
     (''retry_disposition'', JStr (disposition_text (rr_disposition r))),
     (''schema'', JStr ''miss.computer/misscomputer-subnet/weight-reconciliation-report''),
     (''schema_version'', JInt 1),
     (''submission_started'', JBool (rr_submission_started r)),
     (''validator_hotkey'', JStr (rr_validator_hotkey r))]"

definition report_canonical_bytes :: "pylib \<Rightarrow> WeightReconciliationReport \<Rightarrow> string" where
  "report_canonical_bytes L r =
     dumps L (JObj (report_members r @ [(''digest_sha256'', JStr (rr_digest r))])) @ [newline]"

definition Report_post_init :: "pylib \<Rightarrow> WeightReconciliationReport \<Rightarrow> WeightReconciliationReport" where
  "Report_post_init L r = r\<lparr>rr_digest := sha_json L (JObj (report_members r))\<rparr>"

text \<open>What the durable record and the current row allow to conclude.\<close>

definition conclude :: "AuditAttempt \<Rightarrow> evidence_relation \<Rightarrow> retry_disposition \<times> string \<times> bool" where
  "conclude a relation =
     (if aa_status a = Failed \<and> \<not> aa_submission_started a
      then (EligiblePreSend, ''durable audit proves submission never started'', False)
      else if aa_status a = Confirmed
      then (BlockedRequiresOperator, ''durable audit records finalized submission'', False)
      else case relation of
        Consistent \<Rightarrow> (BlockedRequiresOperator,
          ''current row is consistent with the attempt but is not proof of inclusion'', True)
      | Different \<Rightarrow> (BlockedRequiresOperator,
          ''current row differs but may have been overwritten after the attempt'', True)
      | RelationUnavailable \<Rightarrow> (BlockedRequiresOperator,
          ''validator identity is unavailable; submission outcome remains unresolved'', True))"

text \<open>
  What the chain answers. \<^verbatim>\<open>chain.close\<close> runs in a \<^verbatim>\<open>finally\<close> that suppresses its exceptions
  and does not appear.
\<close>

record chain_evidence =
  ce_open :: "unit res"
  ce_sync :: "MetagraphSnapshot res"
  ce_weights :: "int \<Rightarrow> int \<Rightarrow> weight_row res"

definition evidence_unavailable :: "'a res \<Rightarrow> 'a res" where
  "evidence_unavailable r = (case r of
     Inl e \<Rightarrow> Inl (if is_exception e then ReconciliationError ''chain_evidence_unavailable'' else e)
   | Inr x \<Rightarrow> Inr x)"

definition permitted_uid :: "MetagraphSnapshot \<Rightarrow> string \<Rightarrow> int option" where
  "permitted_uid snapshot hotkey = (case by_hotkey snapshot hotkey of
     None \<Rightarrow> None
   | Some n \<Rightarrow> if \<not> nr_active n \<or> \<not> nr_validator_permit n then None else Some (nr_uid n))"

definition observe_row :: "chain_evidence \<Rightarrow> MetagraphSnapshot \<Rightarrow> int option \<Rightarrow> weight_row option res" where
  "observe_row chain snapshot validator_uid = (case validator_uid of
     None \<Rightarrow> Inr None
   | Some uid \<Rightarrow> res_bind (evidence_unavailable (ce_weights chain (ms_block snapshot) uid)) (\<lambda>row. Inr (Some row)))"

text \<open>The verdict and the sealed report of one attempt, once the evidence is in.\<close>

definition report_attempt ::
  "pylib \<Rightarrow> AuditState \<Rightarrow> AuditAttempt \<Rightarrow> MetagraphSnapshot \<Rightarrow> string \<Rightarrow> int \<Rightarrow> string \<Rightarrow> weight_row option
   \<Rightarrow> WeightReconciliationReport" where
  "report_attempt L state attempt snapshot network netuid validator_hotkey observed =
     (let validator_uid = permitted_uid snapshot validator_hotkey; expected = expected_row attempt;
          relation = (case observed of None \<Rightarrow> RelationUnavailable | Some row \<Rightarrow> row_relation expected row);
          verdict = conclude attempt relation
      in Report_post_init L \<lparr>rr_audit_digest = as_digest_sha256 state, rr_attempt_id = aa_attempt_id attempt,
           rr_attempt_status = aa_status attempt, rr_submission_started = aa_submission_started attempt,
           rr_network = network, rr_netuid = netuid, rr_validator_hotkey = validator_hotkey,
           rr_evidence_block = ms_block snapshot, rr_validator_uid = validator_uid,
           rr_identity_status = target_identity_status attempt snapshot validator_uid, rr_relation = relation,
           rr_expected_digest = row_digest L expected, rr_observed_digest = map_option (row_digest L) observed,
           rr_disposition = fst verdict, rr_conclusion = fst (snd verdict), rr_alert_required = snd (snd verdict),
           rr_digest = []\<rparr>)"

definition reconcile_weight_attempt ::
  "pylib \<Rightarrow> ledger_read \<Rightarrow> chain_evidence \<Rightarrow> string \<Rightarrow> int \<Rightarrow> string \<Rightarrow> string option \<Rightarrow> WeightReconciliationReport res" where
  "reconcile_weight_attempt L io chain network netuid validator_hotkey attempt_id =
     res_bind (load_audit_state_readonly L io) (\<lambda>state.
     res_bind (select_attempt state attempt_id) (\<lambda>attempt.
     reject_if (aa_network attempt \<noteq> network \<or> aa_netuid attempt \<noteq> netuid
                \<or> aa_validator_hotkey attempt \<noteq> validator_hotkey) (ReconciliationError ''audit_identity_mismatch'')
     (res_bind (evidence_unavailable (res_bind (ce_open chain) (\<lambda>_. ce_sync chain))) (\<lambda>snapshot.
     reject_if (\<not> distinct (map nr_hotkey (ms_neurons snapshot)) \<or> \<not> distinct (map nr_uid (ms_neurons snapshot)))
       (ReconciliationError ''chain_evidence_invalid'')
     (res_bind (observe_row chain snapshot (permitted_uid snapshot validator_hotkey)) (\<lambda>observed.
        Inr (report_attempt L state attempt snapshot network netuid validator_hotkey observed)))))))"

text \<open>\<^verbatim>\<open>main\<close>: the exit code.\<close>

definition reconcile_exit :: "WeightReconciliationReport res \<Rightarrow> int option" where
  "reconcile_exit r = (case r of
     Inl (ReconciliationError _) \<Rightarrow> Some 2
   | Inl _ \<Rightarrow> None
   | Inr report \<Rightarrow> Some (if rr_alert_required report then 3 else 0))"

section \<open>What a report means for the executor\<close>

text \<open>Only the last attempt of a plan can block it.\<close>

definition latest_blocks :: "AuditAttempt list \<Rightarrow> bool" where
  "latest_blocks as \<longleftrightarrow> (\<forall>i j. i < j \<longrightarrow> j < length as \<longrightarrow> aa_plan_digest_sha256 (as ! i) = aa_plan_digest_sha256 (as ! j)
     \<longrightarrow> \<not> blocks (aa_plan_digest_sha256 (as ! j)) (as ! i))"

lemma latest_blocks_update:
  assumes "latest_blocks as" and "i < length as" and "aa_status (as ! i) = InProgress" and "same_subject (as ! i) a"
  shows "latest_blocks (as[i := a])"
proof -
  have plan: "aa_plan_digest_sha256 (as[i := a] ! j) = aa_plan_digest_sha256 (as ! j)" if "j < length as" for j
    using same_subject_plan [OF assms(4)] assms(2) that by (cases "i = j") auto
  have last: "\<not> (i < j \<and> j < length as \<and> aa_plan_digest_sha256 (as ! j) = aa_plan_digest_sha256 (as ! i))" for j
    using assms(1,3) by (auto simp: latest_blocks_def blocks_iff dest: sym)
  have "\<not> blocks (aa_plan_digest_sha256 (as ! j)) (as[i := a] ! k)"
    if "k < j" "j < length as" "aa_plan_digest_sha256 (as ! k) = aa_plan_digest_sha256 (as ! j)" for k j
    using assms(1) last [of j] that by (cases "k = i") (auto simp: latest_blocks_def)
  then show ?thesis unfolding latest_blocks_def by (simp add: plan)
qed

lemma ledger_step_latest:
  assumes "ledger_step as as'" and "latest_blocks as"
  shows "latest_blocks as'"
  using assms(1)
proof (cases rule: ledger_step.cases)
  case (start a)
  then show ?thesis using assms(2)
    by (auto simp: latest_blocks_def nth_append less_Suc_eq barred_def list_ex_length)
qed (auto intro: latest_blocks_update [OF assms(2)])

lemma reachable_latest: "ledger_step\<^sup>*\<^sup>* [] as \<Longrightarrow> latest_blocks as"
proof (induction rule: rtranclp_induct)
  case base
  show ?case by (simp add: latest_blocks_def)
qed (rule ledger_step_latest)

lemma uncertain_iff: "uncertain a \<longleftrightarrow> aa_status a \<noteq> Confirmed \<and> blocks (aa_plan_digest_sha256 a) a"
  by (cases "aa_status a") (auto simp: uncertain_def blocks_iff)

lemma conclude_exact:
  "fst (conclude a rel) = EligiblePreSend \<longleftrightarrow> \<not> blocks (aa_plan_digest_sha256 a) a"
  "snd (snd (conclude a rel)) \<longleftrightarrow> uncertain a"
  by (cases "aa_status a"; cases rel; auto simp: conclude_def blocks_iff uncertain_def)+

lemma find_member: "List.find p xs = Some a \<Longrightarrow> a \<in> set xs"
  by (metis find_Some_iff nth_mem)

lemma select_attempt_member: "select_attempt s i = Inr a \<Longrightarrow> a \<in> set (as_attempts s)"
  by (auto simp: select_attempt_def first_match_def dest: find_member split: option.splits if_splits)

lemma select_default:
  assumes "select_attempt s None = Inr a" and "\<not> uncertain a"
  shows "a = last (as_attempts s)" and "as_attempts s \<noteq> []" and "\<forall>b \<in> set (as_attempts s). \<not> uncertain b"
proof -
  have "first_match uncertain (rev (as_attempts s)) = None"
    using assms by (auto simp: select_attempt_def first_match_def find_Some_iff split: option.splits if_splits)
  then show "a = last (as_attempts s)" "as_attempts s \<noteq> []" "\<forall>b \<in> set (as_attempts s). \<not> uncertain b"
    using assms(1) by (simp_all add: select_attempt_def split: if_splits) (simp add: first_match_def find_None_iff)
qed

lemma last_not_barred:
  assumes "latest_blocks as" and "as \<noteq> []" and "\<not> blocks (aa_plan_digest_sha256 (last as)) (last as)"
  shows "\<not> barred (aa_plan_digest_sha256 (last as)) as"
proof
  assume "barred (aa_plan_digest_sha256 (last as)) as"
  then obtain i where i: "i < length as" "blocks (aa_plan_digest_sha256 (last as)) (as ! i)"
    by (auto simp: barred_def list_ex_length)
  have l: "last as = as ! (length as - 1)" using assms(2) by (rule last_conv_nth)
  show False
  proof (cases "i = length as - 1")
    case True
    then show False using i(2) assms(3) l by simp
  next
    case False
    then have "i < length as - 1" "length as - 1 < length as" using i(1) by auto
    moreover have "aa_plan_digest_sha256 (as ! i) = aa_plan_digest_sha256 (as ! (length as - 1))"
      using i(2) l by (simp add: blocks_iff)
    ultimately show False using assms(1) i(2) l by (auto simp: latest_blocks_def)
  qed
qed

lemma report_verdict:
  "rr_disposition (report_attempt L s a snap net nu vh obs) = EligiblePreSend \<longleftrightarrow> \<not> blocks (aa_plan_digest_sha256 a) a"
  "rr_alert_required (report_attempt L s a snap net nu vh obs) \<longleftrightarrow> uncertain a"
  "rr_attempt_id (report_attempt L s a snap net nu vh obs) = aa_attempt_id a"
  by (simp_all add: report_attempt_def Report_post_init_def Let_def conclude_exact)

text \<open>
  C37: what a reconciliation report allows. The report is about an attempt of the ledger on
  the configured chain identity. It calls it eligible for a retry exactly when the executor
  would not count it as blocking, and raises an alert exactly when its outcome is uncertain;
  no chain evidence changes either. A report on the default selection that raises no alert
  means the ledger has no uncertain attempt, and one that is eligible means that the
  executor may start the plan again.
\<close>

theorem reconcile_verdict_sound:
  assumes "reconcile_weight_attempt L io chain net nu vh attempt_id = Inr r"
    and "load_audit_state_readonly L io = Inr s" and "ledger_step\<^sup>*\<^sup>* [] (as_attempts s)"
  shows "\<exists>a \<in> set (as_attempts s). rr_attempt_id r = aa_attempt_id a
     \<and> aa_network a = net \<and> aa_netuid a = nu \<and> aa_validator_hotkey a = vh
     \<and> (rr_disposition r = EligiblePreSend \<longleftrightarrow> \<not> blocks (aa_plan_digest_sha256 a) a)
     \<and> (rr_alert_required r \<longleftrightarrow> uncertain a) \<and> (reconcile_exit (Inr r) = Some 3 \<longleftrightarrow> uncertain a)
     \<and> (attempt_id = None \<longrightarrow> \<not> rr_alert_required r \<longrightarrow> (\<forall>b \<in> set (as_attempts s). \<not> uncertain b))
     \<and> (attempt_id = None \<longrightarrow> rr_disposition r = EligiblePreSend \<longrightarrow>
          blocking_attempt s (aa_plan_digest_sha256 a) = None)"
proof -
  from assms(1,2) obtain a snap obs where a: "select_attempt s attempt_id = Inr a" "aa_network a = net"
    "aa_netuid a = nu" "aa_validator_hotkey a = vh" "r = report_attempt L s a snap net nu vh obs"
    by (auto simp: reconcile_weight_attempt_def)
  have default: "blocking_attempt s (aa_plan_digest_sha256 a) = None"
    if "attempt_id = None" "\<not> blocks (aa_plan_digest_sha256 a) a"
    using select_default [of s a] a(1) that last_not_barred [OF reachable_latest [OF assms(3)]]
    by (auto simp: uncertain_iff blocking_attempt_None)
  show ?thesis
    using a select_attempt_member [OF a(1)] select_default(3) [of s a] default
    by (auto simp: report_verdict reconcile_exit_def)
qed

end
