(* ===== verification/Runtime.thy ===== *)
theory Runtime
  imports CPython Scenario Reconciliation
begin

text \<open>
  The development on the library the code runs on: \<open>python_library\<close> is interpreted on the
  functions of \<open>CPython\<close>, and the results that rest on its laws (the ledger file is read
  back, plans and chain states survive a restart, one submission per plan) are stated for
  it. A plan is built, loaded and submitted on it at the end.
\<close>

interpretation py: python_library "cpython fromiso" for fromiso
  by (rule cpython_library)

section \<open>Sizes\<close>

lemma block_text: "0 \<le> n \<Longrightarrow> n \<le> 9223372036854775807 \<Longrightarrow> length (int_text n) \<le> 19"
  by (rule int_text_length) simp_all

lemma digest_length: "digest_text s \<Longrightarrow> length s = 64"
  by (simp add: digest_text_def)

lemma opt_text_size:
  "opt_ok (in_range 0 9223372036854775807) n \<Longrightarrow> text_size (jint_opt n) \<le> 19"
  "opt_ok digest_text s \<Longrightarrow> text_size (jstr_opt s) \<le> 386"
  by (cases n; simp add: jint_opt_def block_text) (cases s; simp add: jstr_opt_def digest_length)

lemma chain_state_size:
  assumes "chain_state_fields s"
  shows "text_size (chain_state_document s) < 65536"
proof -
  have "length (cs_network s) \<le> 6" "length (int_text (cs_netuid s)) \<le> 3" "length (int_text 1) \<le> 3"
    using assms by (auto simp: chain_state_fields_def intro!: int_text_length)
  then show ?thesis
    using assms opt_text_size(1) [of "last_finalized_height s"] opt_text_size(1) [of "last_finalized_epoch s"]
      opt_text_size(1) [of "last_issued_at_epoch s"] opt_text_size(1) [of "last_expires_at_epoch s"]
      opt_text_size(2) [of "last_finalized_block_hash s"] opt_text_size(2) [of "last_manifest_digest s"]
      block_text [of "accepted_manifest_count s"] block_text [of "last_sequence s"]
    by (simp add: chain_state_fields_def chain_state_document_def chain_state_unsigned_def digest_length)
qed

section \<open>Properties\<close>

text \<open>
  C1: at most one submission per plan, ever. Over any history of executor runs against one
  ledger file, with any configurations, chain answers, file-system failures, signer
  behaviours and crash points, at most one vector of a given plan digest is handed to the
  submitter.
\<close>

theorem submission_at_most_once:
  "length (filter (\<lambda>e. sent_plan e = Some plan_digest)
     (history (executor_events (cpython fromiso)) disk_effect disk runs)) \<le> 1"
  by (rule py.executor_at_most_once)

text \<open>
  C2: write-ahead announcement. When a vector is handed to the submitter, the ledger file
  already holds its attempt, marked as started and unresolved: a crash at any later moment
  leaves a record that blocks the plan.
\<close>

theorem submission_announced:
  assumes "fst (run_weight_executor (cpython fromiso) config env disk) = es @ Sent w # fs"
  shows "\<exists>s. store_load (cpython fromiso) (foldl disk_effect disk es) = Inr s \<and> announced w (as_attempts s)"
  using assms by (rule py.run_announced)

text \<open>
  C38: the file written for a plan that was built is accepted by the loader and read back
  as that same plan.
\<close>

theorem built_plan_round_trip:
  assumes "build_weight_plan (cpython fromiso) s vh rs vk = Inr p"
  shows "parse_weight_plan (cpython fromiso) (plan_canonical_bytes (cpython fromiso) p) = Inr p"
  using assms by (rule py.built_plan_parses)

text \<open>
  the persisted chain state survives a restart: every valid state has canonical bytes
  within the 64 KiB that the reader admits, and they parse back to that state, so the
  validator resumes the chain exactly where it left it.
\<close>

theorem chain_state_round_trip:
  assumes "chain_state_validate (cpython fromiso) s = Inr s"
  shows "\<exists>bytes. chain_state_bytes (cpython fromiso) s = Inr bytes
     \<and> parse_assignment_manifest_chain_state (cpython fromiso) bytes = Inr s"
proof -
  obtain bytes where bytes: "chain_state_bytes (cpython fromiso) s = Inr bytes"
    "bytes = json_dumps (chain_state_document s) @ [newline]"
    using assms by (auto simp: chain_state_bytes_def model_bytes_def)
  have "chain_state_fields s" using assms by (auto simp: chain_state_validate_def)
  then have "length bytes \<le> 65536"
    using chain_state_size [of s] dumps_length [of "chain_state_document s"] bytes(2) by simp
  with py.parse_chain_state_bytes [OF assms bytes(1)] bytes(1) show ?thesis by blast
qed

section \<open>A plan built, loaded and submitted\<close>

abbreviation py_lib :: pylib where
  "py_lib \<equiv> cpython (\<lambda>_. True)"

lemma py_plan_built:
  obtains p where "build_weight_plan py_lib demo_view ''validator'' (plan_rows [demo_row]) WEIGHT_PLAN_PROTOCOL_VERSION_KEY = Inr p"
    and "wp_network p = ''finney''" "wp_netuid p = 24" "wp_validator_hotkey p = ''validator''"
    and "wp_version_key p = WEIGHT_PLAN_PROTOCOL_VERSION_KEY" and "wp_created_block p = 1010"
    and "wp_expires_at_block p = 1080" and "wp_weights p = wp_weights demo_plan"
proof -
  have perm: "validator_permitted demo_view ''validator''"
    by (simp add: validator_permitted_def demo_dict) (simp add: demo_view_def)
  have "\<exists>p. build_weight_plan py_lib demo_view ''validator'' (plan_rows [demo_row]) WEIGHT_PLAN_PROTOCOL_VERSION_KEY = Inr p"
    by (rule build_weight_plan_succeeds [OF demo_view_ok _ perm _ _ demo_judged])
      (simp_all add: demo_sorted_targets demo_normal sha256_hexdigest_digest, simp_all add: demo_view_def MAX_BLOCK_def
        WEIGHT_PLAN_PROTOCOL_VERSION_KEY_def MAX_VERSION_KEY_def)
  then obtain p where p: "build_weight_plan py_lib demo_view ''validator'' (plan_rows [demo_row])
      WEIGHT_PLAN_PROTOCOL_VERSION_KEY = Inr p" by blast
  show thesis
    using p
  proof (rule build_weight_plan_Inr)
    fix rs assume rs: "rows_judged demo_view ''validator'' (plan_rows [demo_row]) rs"
      and pf: "plan_for py_lib demo_view ''validator'' WEIGHT_PLAN_PROTOCOL_VERSION_KEY rs p"
    have "rs = [(''miner'', 1)]"
      using plan_rows_judged [OF rs] by (auto simp: demo_row_def list_all2_Cons1)
    moreover have "normalize_weights [1] = [1]" by (rule normalize_exact) (simp_all add: fsum_def)
    ultimately have q: "wp_network p = ''finney''" "wp_netuid p = 24" "wp_validator_hotkey p = ''validator''"
        "wp_version_key p = WEIGHT_PLAN_PROTOCOL_VERSION_KEY" "wp_created_block p = 1010" "wp_expires_at_block p = 1080"
        "map (\<lambda>e. (wpe_uid e, wpe_hotkey e)) (wp_weights p) = [(5, ''miner'')]" "map wpe_weight (wp_weights p) = [1]"
      using pf unfolding plan_for_def
      by (simp_all add: demo_sorted_targets, simp_all add: demo_view_def conservative_expiry_limit_def MAX_BLOCK_def)
    then have "wp_weights p = wp_weights demo_plan" by (auto simp: demo_plan_def map_eq_Cons_conv)
    then show thesis using that p q by blast
  qed
qed

lemma receipt_size: "receipt_ok r \<Longrightarrow> text_size (receipt_document r) \<le> 2400"
proof -
  assume r: "receipt_ok r"
  have ref: "text_size (jstr_opt (rc_extrinsic_ref r)) \<le> 1538"
    using r by (cases "rc_extrinsic_ref r") (auto simp: receipt_ok_def jstr_opt_def safe_reference_def)
  have "length c \<le> 64" if "safe_error_code c = Some c" for c
    using that by (auto simp: safe_error_code_def Let_def split: if_splits)
  then have code: "text_size (jstr_opt (rc_error_code r)) \<le> 386"
    using r by (cases "rc_error_code r") (auto simp: receipt_ok_def jstr_opt_def)
  have "length (AuditLedger.outcome_text (rc_outcome r)) \<le> 20"
    by (cases "rc_outcome r") (simp_all add: AuditLedger.outcome_text_def)
  then show ?thesis using ref code by (simp add: receipt_document_def)
qed

text \<open>An attempt takes 12 kB besides what its vector says.\<close>

lemma attempt_size:
  assumes "attempt_ok L a" and "opt_ok receipt_ok (aa_receipt a)"
  shows "text_size (attempt_document a) \<le> 12000 + length (int_text (aa_netuid a)) + length (int_text (aa_version_key a))
    + 6 * length (aa_network a) + 6 * length (aa_validator_hotkey a) + 6 * length (aa_plan_digest_sha256 a)
    + text_size (JList (map omitted_weight_document (aa_omitted a)))
    + text_size (JList (map execution_weight_document (aa_weights a)))"
proof -
  have receipt: "text_size (case aa_receipt a of None \<Rightarrow> JNull | Some r \<Rightarrow> receipt_document r) \<le> 2400"
    using assms(2) receipt_size by (cases "aa_receipt a") auto
  have status: "length (AuditLedger.status_text (aa_status a)) \<le> 20" by (cases "aa_status a") (simp_all add: AuditLedger.status_text_def)
  have blocks: "length (int_text (aa_preflight_block a)) \<le> 19" "text_size (jint_opt (aa_send_check_block a)) \<le> 19"
    using assms(1) block_text opt_text_size(1)
    by (auto simp: attempt_ok_def MAX_BLOCK_def split: option.splits)
  show ?thesis
    using assms(1) receipt status blocks
    by (simp add: attempt_document_def attempt_ok_def digest_length timestamp_ok_def del: text_size.simps(4))
qed

lemma float_repr_one: "float_repr 1 = ''1.0''"
proof -
  have d: "dec_exp 1 = 0" by (simp add: dec_exp_def nat_digits_small)
  have "[1..<18] = 1 # [Suc 1..<18]" by (rule upt_conv_Cons) simp
  then have "shortest_decimal 1 = (1, 0)"
    using round_half_even_int [of 1] by (simp add: shortest_decimal_def candidates_def d decimal_value_def)
  moreover have "strip_zeros 1 0 = (1, 0)" by (subst strip_zeros.simps) simp
  moreover have "decimal_text 1 0 = ''1.0''" by (simp add: decimal_text_def nat_digits_small Let_def) (simp add: char_of_def bit_0)
  ultimately show ?thesis by (simp add: float_repr_def)
qed

lemma small_int: "length (int_text 24) \<le> 2" "length (int_text 5) \<le> 1" "length (int_text 1) \<le> 1"
  "length (int_text WEIGHT_PLAN_PROTOCOL_VERSION_KEY) \<le> 20"
  by (intro int_text_length; simp add: WEIGHT_PLAN_PROTOCOL_VERSION_KEY_def)+

definition py_config :: "string \<Rightarrow> string \<Rightarrow> ExecutorConfig" where
  "py_config pd vd = sent_config\<lparr>ec_confirm_plan_digest := Some pd, ec_confirm_execution_digest := Some vd\<rparr>"

definition py_env :: "string \<Rightarrow> run_inputs" where
  "py_env rendered = sent_env\<lparr>in_plan_file := Inr rendered\<rparr>"

lemma py_config_simps [simp]:
  "ec_network (py_config pd vd) = ''finney''" "ec_netuid (py_config pd vd) = 24" "ec_execute (py_config pd vd)"
  "ec_validator_hotkey (py_config pd vd) = ''validator''" "ec_confirm_execution_digest (py_config pd vd) = Some vd"
  by (simp_all add: py_config_def)

lemma py_gates:
  "wp_network p = ''finney'' \<Longrightarrow> wp_netuid p = 24
   \<Longrightarrow> validate_execution_gates (py_config (wp_digest_sha256 p) vd) p (Some EXECUTION_ACK_VALUE) (Inr ''/'') = Inr ()"
proof -
  assume p: "wp_network p = ''finney''" "wp_netuid p = 24"
  have "abspath (Inr ''/'') ''/plan.json'' = Inr ''/plan.json''" "abspath (Inr ''/'') ''/audit.json'' = Inr ''/audit.json''"
    by code_simp+
  then show ?thesis
    using p by (simp add: validate_execution_gates_def py_config_def sent_config_def convert_path_error_def)
qed

lemma py_room:
  assumes "ev_network v = ''finney''" and "ev_netuid v = 24" and "ev_validator_hotkey v = ''validator''"
    and "ev_version_key v = WEIGHT_PLAN_PROTOCOL_VERSION_KEY" and "digest_text (ev_plan_digest_sha256 v)"
    and "ev_omitted v = []" and "ev_weights v = [\<lparr>ew_hotkey = ''miner'', ew_planned_uid = 5, ew_uid = 5, ew_weight = 1\<rparr>]"
  shows "room py_lib [] v"
  unfolding room_def
proof (intro conjI allI impI)
  fix a assume a: "attempt_ok py_lib a \<and> attempt_vector a = v \<and> opt_ok receipt_ok (aa_receipt a)"
  then have v: "aa_network a = ''finney''" "aa_netuid a = 24" "aa_validator_hotkey a = ''validator''"
    "aa_version_key a = WEIGHT_PLAN_PROTOCOL_VERSION_KEY" "digest_text (aa_plan_digest_sha256 a)"
    "aa_omitted a = []" "aa_weights a = [\<lparr>ew_hotkey = ''miner'', ew_planned_uid = 5, ew_uid = 5, ew_weight = 1\<rparr>]"
    using assms by (auto simp: attempt_vector_def)
  have "text_size (attempt_document a) \<le> 20000"
    using attempt_size [of py_lib a] a small_int digest_length [OF v(5)]
    by (simp add: v execution_weight_document_def float_repr_one)
  then have "text_size (state_document (sealed_state py_lib ([] @ [a]))) \<le> 30000"
    using digest_length [OF py.sha_json_digest [of "\<lambda>_. True" "state_unsigned_document [a]"]] small_int
    by (simp add: state_document_def sealed_state_def WEIGHT_EXECUTION_AUDIT_SCHEMA_def)
  then show "length (state_canonical_bytes py_lib (sealed_state py_lib ([] @ [a]))) \<le> MAX_WEIGHT_PLAN_BYTES"
    using dumps_length [of "state_document (sealed_state py_lib ([] @ [a]))"]
    by (simp add: state_canonical_bytes_def MAX_WEIGHT_PLAN_BYTES_def)
qed (simp add: MAX_AUDIT_ATTEMPTS_def)

lemma py_vector:
  assumes "plan_wf py_lib p" and "wp_network p = ''finney''" "wp_netuid p = 24" "wp_validator_hotkey p = ''validator''"
    and "wp_version_key p = WEIGHT_PLAN_PROTOCOL_VERSION_KEY" and "wp_created_block p = 1010"
    and "wp_expires_at_block p = 1080" and "wp_weights p = wp_weights demo_plan"
  obtains v where "derive_execution_vector py_lib p demo_view ''finney'' 24 ''validator'' = Inr v"
    and "room py_lib [] v" and "vector_ok py_lib v" and "ev_network v = ''finney''" and "ev_netuid v = 24"
    and "ev_validator_hotkey v = ''validator''" and "ev_omitted v = []"
    and "ev_weights v = [\<lparr>ew_hotkey = ''miner'', ew_planned_uid = 5, ew_uid = 5, ew_weight = 1\<rparr>]"
proof -
  have pre: "preflight_ok p demo_view ''finney'' 24 ''validator''"
    using assms demo_preflight by (simp add: preflight_ok_def) (simp add: demo_view_def)
  have ws: "wp_weights p = [\<lparr>wpe_uid = 5, wpe_hotkey = ''miner'', wpe_weight = 1\<rparr>]"
    using assms(8) by (simp add: demo_plan_def)
  have digest: "digest_text (wp_digest_sha256 p)"
    using assms(1) py.sha_json_digest by (simp add: plan_wf_def plan_ok_def)
  have "\<exists>v. derive_execution_vector py_lib p demo_view ''finney'' 24 ''validator'' = Inr v"
    using derive_succeeds [OF assms(1) digest pre] demo_live demo_normal unfolding assms(8) [symmetric] ws by simp
  then obtain v where v: "derive_execution_vector py_lib p demo_view ''finney'' 24 ''validator'' = Inr v" ..
  have vf: "vector_for p demo_view v"
    using derive_Inr(3) [OF v] assms(1) by (simp add: plan_wf_def list_all_iff)
  have "retained_targets p demo_view = [(5, ''miner'', 5, 1)]" and live: "live (hotkey_dict demo_view) (hd (wp_weights p))"
    using demo_live unfolding assms(8) [symmetric] ws by (simp_all add: retained_targets_def retained_of_def ws)
  moreover have "normalize_weights [1] = [1]" by (rule normalize_exact) (simp_all add: fsum_def)
  ultimately have w: "ev_weights v = [\<lparr>ew_hotkey = ''miner'', ew_planned_uid = 5, ew_uid = 5, ew_weight = 1\<rparr>]" "ev_omitted v = []"
    using vf ws by (auto simp: vector_for_def map_eq_Cons_conv)
  then have room: "room py_lib [] v"
    using vf assms(2-5) digest by (intro py_room) (simp_all add: vector_for_def)
  have "vector_ok py_lib v" using derive_Inr(2) [OF v] assms(1) by (simp add: plan_wf_def list_all_iff)
  from that [OF v room this] show thesis using vf w assms(2-4) by (simp add: vector_for_def)
qed

lemma py_sent_run:
  obtains config env b c d w summary where
    "run_weight_executor py_lib config env None = ([Wrote b, Wrote c, Sent w, Wrote d], Completed summary)"
proof -
  obtain p where p: "build_weight_plan py_lib demo_view ''validator'' (plan_rows [demo_row]) WEIGHT_PLAN_PROTOCOL_VERSION_KEY = Inr p"
    "wp_network p = ''finney''" "wp_netuid p = 24" "wp_validator_hotkey p = ''validator''"
    "wp_version_key p = WEIGHT_PLAN_PROTOCOL_VERSION_KEY" "wp_created_block p = 1010"
    "wp_expires_at_block p = 1080" "wp_weights p = wp_weights demo_plan" by (rule py_plan_built)
  have wf: "plan_wf py_lib p" by (rule build_plan_wf [OF p(1)]) simp
  obtain v where v: "derive_execution_vector py_lib p demo_view ''finney'' 24 ''validator'' = Inr v" "room py_lib [] v"
    by (rule py_vector [OF wf p(2-8)])
  let ?config = "py_config (wp_digest_sha256 p) (ev_digest_sha256 v)"
  let ?env = "py_env (plan_canonical_bytes py_lib p)"
  have e: "in_plan_file ?env = Inr (plan_canonical_bytes py_lib p)" "in_ack ?env = Some EXECUTION_ACK_VALUE"
    "in_cwd ?env = Inr ''/''" "in_sync ?env = Inr demo_view" "in_send_sync ?env = Inr demo_view"
    "in_send_mode ?env = Inr False" "in_mode ?env = Inr False" "in_has_submitter ?env" "in_store_fault ?env = None"
    by (simp_all add: py_env_def sent_env_def)
  have pre: "preflight_stage py_lib ?config ?env = Inr (p, demo_view, v)"
    using v py.built_plan_parses [OF p(1)]
    by (simp add: preflight_stage_def e p(2-5) convert_load_error_def py_gates convert_exception_def)
  have check: "send_check_stage py_lib ?config ?env p demo_view v = Inr (demo_view, v)"
    using v by (simp add: send_check_stage_def e fingerprint_Inr demo_view_ok)
  have opened: "open_stage py_lib ?env None = Inr (empty_state py_lib)"
    by (simp add: open_stage_def e convert_exception_def)
  have smooth: "smooth py_lib ?config ?env"
    using sent_smooth by (simp add: smooth_def py_env_def timestamp_ok_def)
  have answered: "in_submit ?env = Returned sent_answer" using sent_answered(1) by (simp add: py_env_def)
  from run_confirms [OF pre _ opened _ check smooth answered sent_answered(2-4)] show thesis
    using v(2) that by (fastforce simp: barred_def sha256_hexdigest_digest)
qed

text \<open>A ledger with one unresolved attempt, as a crash right after its announcement leaves it.\<close>

lemma py_ledger:
  obtains s a where "ledger_step\<^sup>*\<^sup>* [] (as_attempts s)" and "as_attempts s = [a]"
    and "parse_audit_state py_lib (state_canonical_bytes py_lib s) = Inr s"
    and "aa_network a = ''finney''" and "aa_netuid a = 24" and "aa_validator_hotkey a = ''validator''"
    and "aa_status a = InProgress"
    and "aa_weights a = [\<lparr>ew_hotkey = ''miner'', ew_planned_uid = 5, ew_uid = 5, ew_weight = 1\<rparr>]"
proof -
  obtain p where p: "build_weight_plan py_lib demo_view ''validator'' (plan_rows [demo_row]) WEIGHT_PLAN_PROTOCOL_VERSION_KEY = Inr p"
    "wp_network p = ''finney''" "wp_netuid p = 24" "wp_validator_hotkey p = ''validator''"
    "wp_version_key p = WEIGHT_PLAN_PROTOCOL_VERSION_KEY" "wp_created_block p = 1010"
    "wp_expires_at_block p = 1080" "wp_weights p = wp_weights demo_plan" by (rule py_plan_built)
  have wf: "plan_wf py_lib p" by (rule build_plan_wf [OF p(1)]) simp
  obtain v where v: "vector_ok py_lib v" "ev_network v = ''finney''" "ev_netuid v = 24"
    "ev_validator_hotkey v = ''validator''" "ev_omitted v = []"
    "ev_weights v = [\<lparr>ew_hotkey = ''miner'', ew_planned_uid = 5, ew_uid = 5, ew_weight = 1\<rparr>]"
    by (rule py_vector [OF wf p(2-8)])
  let ?a = "fresh_attempt py_lib v 1010 ''2026-01-01T00:00:00.000Z'' zeros"
  let ?s = "sealed_state py_lib [?a]"
  have ok: "attempt_ok py_lib ?a"
    by (rule fresh_attempt_ok [OF _ v(1)]) (simp_all add: sha256_hexdigest_digest MAX_BLOCK_def timestamp_ok_def)
  have a: "aa_network ?a = ''finney''" "aa_netuid ?a = 24" "aa_validator_hotkey ?a = ''validator''"
    "aa_weights ?a = ev_weights v" "aa_omitted ?a = []"
    by (simp_all add: fresh_attempt_def v)
  have "attempt_good py_lib ?a"
    using ok by (simp add: attempt_good_def a v(6) weight_good_def execution_weight_ok_def bad_text_iff graphic_def)
  then have "state_good py_lib ?s" by (simp add: state_good_def sealed_state_def MAX_AUDIT_ATTEMPTS_def)
  then have parsed: "parse_audit_state py_lib (state_canonical_bytes py_lib ?s) = Inr ?s" by (rule py.parse_state_bytes)
  have "ledger_step [] ([] @ [?a])" by (rule ledger_step.start) (simp_all add: barred_def)
  then have "ledger_step\<^sup>*\<^sup>* [] (as_attempts ?s)" by (simp add: sealed_state_def)
  from that [OF this _ parsed a(1-3)] show thesis by (simp add: sealed_state_def a(4) v(6))
qed

definition py_evidence :: chain_evidence where
  "py_evidence = \<lparr>ce_open = Inr (), ce_sync = Inr demo_view, ce_weights = (\<lambda>_ _. Inr [(5, Fin 1)])\<rparr>"

section \<open>Witnesses\<close>

theorem submission_announced_witness:
  "\<exists>config env es w s. store_load py_lib (foldl disk_effect None es) = Inr s \<and> announced w (as_attempts s)
     \<and> Sent w \<in> set (fst (run_weight_executor py_lib config env None))"
proof -
  obtain config env b c d w summary where
    "run_weight_executor py_lib config env None = ([Wrote b, Wrote c, Sent w, Wrote d], Completed summary)"
    by (rule py_sent_run)
  then have run: "fst (run_weight_executor py_lib config env None) = [Wrote b, Wrote c] @ Sent w # [Wrote d]" by simp
  then have "Sent w \<in> set (fst (run_weight_executor py_lib config env None))" by simp
  with submission_announced [OF run] show ?thesis by blast
qed

theorem built_plan_round_trip_witness:
  "\<exists>p. build_weight_plan py_lib demo_view ''validator'' (plan_rows [demo_row]) WEIGHT_PLAN_PROTOCOL_VERSION_KEY = Inr p
     \<and> parse_weight_plan py_lib (plan_canonical_bytes py_lib p) = Inr p"
proof -
  obtain p where p: "build_weight_plan py_lib demo_view ''validator'' (plan_rows [demo_row]) WEIGHT_PLAN_PROTOCOL_VERSION_KEY = Inr p"
    by (rule py_plan_built)
  with built_plan_round_trip [OF p] show ?thesis by blast
qed

lemma py_genesis:
  "\<exists>d. chain_state_validate py_lib (demo_genesis\<lparr>state_digest := d\<rparr>) = Inr (demo_genesis\<lparr>state_digest := d\<rparr>)"
proof (intro exI)
  let ?d = "sha_json py_lib (JObj (chain_state_unsigned demo_genesis))"
  have "chain_state_unsigned (demo_genesis\<lparr>state_digest := ?d\<rparr>) = chain_state_unsigned demo_genesis"
    by (simp add: chain_state_unsigned_def)
  then show "chain_state_validate py_lib (demo_genesis\<lparr>state_digest := ?d\<rparr>) = Inr (demo_genesis\<lparr>state_digest := ?d\<rparr>)"
    by (simp add: chain_state_validate_def verify_model_digest_def chain_state_fields_def static_subnet_def chain_tail_missing_def)
       (simp add: demo_genesis_def zeros_digest)
qed

theorem chain_state_round_trip_witness:
  "\<exists>s bytes. chain_state_bytes py_lib s = Inr bytes \<and> parse_assignment_manifest_chain_state py_lib bytes = Inr s"
  using py_genesis chain_state_round_trip by blast

theorem reconcile_verdict_sound_witness:
  "\<exists>io s r. reconcile_weight_attempt py_lib io py_evidence ''finney'' 24 ''validator'' None = Inr r
     \<and> load_audit_state_readonly py_lib io = Inr s \<and> rr_relation r = Consistent \<and> rr_disposition r = BlockedRequiresOperator
     \<and> reconcile_exit (Inr r) = Some 3"
proof -
  obtain s a where s: "ledger_step\<^sup>*\<^sup>* [] (as_attempts s)" "as_attempts s = [a]"
    "parse_audit_state py_lib (state_canonical_bytes py_lib s) = Inr s" "aa_network a = ''finney''" "aa_netuid a = 24"
    "aa_validator_hotkey a = ''validator''" "aa_status a = InProgress"
    "aa_weights a = [\<lparr>ew_hotkey = ''miner'', ew_planned_uid = 5, ew_uid = 5, ew_weight = 1\<rparr>]" by (rule py_ledger)
  let ?io = "\<lparr>lr_pinned = Inr True, lr_bytes = Inr (state_canonical_bytes py_lib s), lr_unchanged = Inr True\<rparr>"
  let ?r = "report_attempt py_lib s a demo_view ''finney'' 24 ''validator'' (Some [(5, Fin 1)])"
  have load: "load_audit_state_readonly py_lib ?io = Inr s"
    by (simp add: load_audit_state_readonly_def s(3) convert_ledger_error_def)
  have uid: "permitted_uid demo_view ''validator'' = Some 1"
    by (simp add: permitted_uid_def by_hotkey_def first_match_def demo_view_def)
  have "distinct (map nr_hotkey (ms_neurons demo_view))" "distinct (map nr_uid (ms_neurons demo_view))"
    by (simp_all add: demo_view_def)
  then have run: "reconcile_weight_attempt py_lib ?io py_evidence ''finney'' 24 ''validator'' None = Inr ?r"
    using load uid s by (simp add: reconcile_weight_attempt_def select_attempt_def first_match_def uncertain_def
        py_evidence_def evidence_unavailable_def observe_row_def)
  have "expected_row a = [(5, Fin 1)]" by (simp add: expected_row_def s(8))
  then have rel: "rr_relation ?r = Consistent"
    by (simp add: report_attempt_def Report_post_init_def Let_def row_relation_def close_weights_def is_close_def)
  have un: "uncertain a" "blocks (aa_plan_digest_sha256 a) a" by (simp_all add: uncertain_def blocks_iff s(7))
  from reconcile_verdict_sound [OF run load s(1)] s(2) un
  have "rr_disposition ?r \<noteq> EligiblePreSend" "reconcile_exit (Inr ?r) = Some 3" by auto
  then have "rr_disposition ?r = BlockedRequiresOperator" by (cases "rr_disposition ?r") auto
  with run load rel \<open>reconcile_exit (Inr ?r) = Some 3\<close> show ?thesis by blast
qed

end
