(* ===== verification/ScoreReports.thy ===== *)
theory ScoreReports
  imports OrganicScores
begin

text \<open>
  The central score report of \<^verbatim>\<open>checkpoint_score_contracts.py\<close>: the scoring policy, the
  canonical row of every scored miner, and the sealed report that a checkpoint binds.
\<close>

section \<open>Scoring policy and rows\<close>

record OrganicScoringPolicy =
  sp_epoch_seconds :: int
  sp_probes_per_endpoint :: int
  sp_min_attempts :: int

definition scoring_policy_document :: "OrganicScoringPolicy \<Rightarrow> json" where
  "scoring_policy_document p = JObj
     [(''purpose'', JStr ''organic_availability_scoring_v1''), (''epoch_seconds'', JInt (sp_epoch_seconds p)),
      (''probes_per_endpoint'', JInt (sp_probes_per_endpoint p)), (''min_attempts'', JInt (sp_min_attempts p)),
      (''fraud_disposition'', JStr ''ineligible'')]"

definition scoring_policy_validate :: "OrganicScoringPolicy \<Rightarrow> OrganicScoringPolicy res" where
  "scoring_policy_validate p =
     reject_if (\<not> (in_range 60 3600 (sp_epoch_seconds p) \<and> in_range 1 16 (sp_probes_per_endpoint p)
                   \<and> in_range 1 16 (sp_min_attempts p))) strict_error (Inr p)"

definition build_scoring_policy :: "int \<Rightarrow> int \<Rightarrow> int \<Rightarrow> OrganicScoringPolicy res" where
  "build_scoring_policy secs n k =
     scoring_policy_validate \<lparr>sp_epoch_seconds = secs, sp_probes_per_endpoint = n, sp_min_attempts = k\<rparr>"

datatype eligibility = MinerEligible | MinerIneligible

definition eligibility_text :: "eligibility \<Rightarrow> string" where
  "eligibility_text e = (case e of MinerEligible \<Rightarrow> ''eligible'' | MinerIneligible \<Rightarrow> ''ineligible'')"

record MinerScoreRecord =
  msr_uid :: int
  msr_hotkey :: string
  msr_status :: eligibility
  msr_reasons :: "string list"
  msr_epochs :: int
  msr_numerator :: int
  msr_denominator :: int
  msr_fraud :: int
  msr_ppm :: int
  msr_digest :: string

definition row_unsigned :: "MinerScoreRecord \<Rightarrow> (string \<times> json) list" where
  "row_unsigned r =
     [(''miner_uid'', JInt (msr_uid r)), (''miner_hotkey'', JStr (msr_hotkey r)),
      (''eligibility_status'', JStr (eligibility_text (msr_status r))),
      (''reason_codes'', JList (map JStr (msr_reasons r))),
      (''eligible_endpoint_epochs'', JInt (msr_epochs r)), (''availability_numerator'', JInt (msr_numerator r)),
      (''availability_denominator'', JInt (msr_denominator r)),
      (''fraudulent_attestations'', JInt (msr_fraud r)), (''canonical_score_ppm'', JInt (msr_ppm r))]"

definition score_row_document :: "MinerScoreRecord \<Rightarrow> json" where
  "score_row_document r = JObj (row_unsigned r @ [(''record_digest_sha256'', JStr (msr_digest r))])"

definition row_validate :: "pylib \<Rightarrow> MinerScoreRecord \<Rightarrow> MinerScoreRecord res" where
  "row_validate L r =
     reject_if (\<not> (in_range 0 65535 (msr_uid r) \<and> hotkey_text (msr_hotkey r)
         \<and> 1 \<le> length (msr_reasons r) \<and> length (msr_reasons r) \<le> 2
         \<and> list_all (\<lambda>c. c \<in> {''attestation_fraud'', ''eligible''}) (msr_reasons r)
         \<and> 1 \<le> msr_epochs r \<and> 0 \<le> msr_numerator r \<and> 1 \<le> msr_denominator r \<and> 0 \<le> msr_fraud r
         \<and> in_range 0 1000000 (msr_ppm r) \<and> digest_text (msr_digest r))) strict_error
     (verify_model_digest L ''record_digest_sha256'' (JObj (row_unsigned r)) (msr_digest r) r)"

text \<open>
  The canonical row of one miner: \<^verbatim>\<open>int(Fraction * 1_000_000)\<close> truncates, and the fraction
  is not negative.
\<close>

definition score_row :: "pylib \<Rightarrow> MinerAvailability \<Rightarrow> MinerScoreRecord" where
  "score_row L a =
     (let fraud = ma_fraudulent_attestations a > 0;
          availability = (of_int (ma_numerator a) / of_int (ma_denominator a) :: rat);
          r = \<lparr>msr_uid = ma_miner_uid a, msr_hotkey = ma_miner_hotkey a,
               msr_status = (if fraud then MinerIneligible else MinerEligible),
               msr_reasons = [if fraud then ''attestation_fraud'' else ''eligible''],
               msr_epochs = eligible_endpoint_epochs a, msr_numerator = ma_numerator a,
               msr_denominator = ma_denominator a, msr_fraud = ma_fraudulent_attestations a,
               msr_ppm = (if fraud then 0 else \<lfloor>availability * 1000000\<rfloor>), msr_digest = ''''\<rparr>
      in r\<lparr>msr_digest := sha_json L (JObj (row_unsigned r))\<rparr>)"

definition derive_miner_scores :: "pylib \<Rightarrow> OrganicAvailabilityScore \<Rightarrow> MinerScoreRecord list" where
  "derive_miner_scores L score = map (score_row L) (miners score)"

section \<open>The sealed report\<close>

record CanonicalScoreReport =
  csr_policy_digest :: string
  csr_policy :: OrganicScoringPolicy
  csr_input_snapshot :: string
  csr_authority :: string
  csr_height :: int
  csr_block_hash :: string
  csr_availability :: OrganicAvailabilityScore
  csr_eligible_count :: int
  csr_ineligible_count :: int
  csr_scores :: "MinerScoreRecord list"
  csr_vector_digest :: string
  csr_digest :: string

definition report_unsigned :: "CanonicalScoreReport \<Rightarrow> (string \<times> json) list" where
  "report_unsigned r =
     [(''schema'', JStr ''miss.computer/misscomputer-subnet/organic-central-score-report''), (''schema_version'', JInt 1),
      (''policy_digest_sha256'', JStr (csr_policy_digest r)), (''scoring_policy'', scoring_policy_document (csr_policy r)),
      (''input_snapshot_digest_sha256'', JStr (csr_input_snapshot r)),
      (''central_authority_fingerprint_sha256'', JStr (csr_authority r)),
      (''network'', JStr ''finney''), (''netuid'', JInt 24), (''finalized_height'', JInt (csr_height r)),
      (''finalized_block_hash'', JStr (csr_block_hash r)), (''availability_score'', score_document (csr_availability r)),
      (''eligible_miner_count'', JInt (csr_eligible_count r)),
      (''ineligible_miner_count'', JInt (csr_ineligible_count r)),
      (''miner_scores'', JList (map score_row_document (csr_scores r))),
      (''score_vector_digest_sha256'', JStr (csr_vector_digest r))]"

definition report_document :: "CanonicalScoreReport \<Rightarrow> json" where
  "report_document r = JObj (report_unsigned r @ [(''report_digest_sha256'', JStr (csr_digest r))])"

definition report_fields :: "CanonicalScoreReport \<Rightarrow> bool" where
  "report_fields r \<longleftrightarrow>
     digest_text (csr_policy_digest r) \<and> digest_text (csr_input_snapshot r) \<and> digest_text (csr_authority r)
     \<and> in_range 0 max_epoch (csr_height r) \<and> digest_text (csr_block_hash r)
     \<and> in_range 0 4096 (csr_eligible_count r) \<and> in_range 0 4096 (csr_ineligible_count r)
     \<and> length (csr_scores r) \<le> 4096 \<and> digest_text (csr_vector_digest r) \<and> digest_text (csr_digest r)"

definition eligible_number :: "MinerScoreRecord list \<Rightarrow> int" where
  "eligible_number rs = int (length (filter (\<lambda>r. msr_status r = MinerEligible) rs))"

definition vector_digest :: "pylib \<Rightarrow> MinerScoreRecord list \<Rightarrow> string" where
  "vector_digest L rs = sha_json L (JList (map score_row_document rs))"

text \<open>Comparing the documents of two rows compares the rows: a document has every field.\<close>

definition report_validate :: "pylib \<Rightarrow> CanonicalScoreReport \<Rightarrow> CanonicalScoreReport res" where
  "report_validate L r =
     reject_if (\<not> report_fields r) strict_error
     (res_bind (scoring_policy_validate (csr_policy r)) (\<lambda>_.
     res_bind (score_validate L (csr_availability r)) (\<lambda>_.
     res_bind (mapM (row_validate L) (csr_scores r)) (\<lambda>_.
     reject_if (csr_policy_digest r \<noteq> sha_json L (scoring_policy_document (csr_policy r)))
       (ValueError ''score report policy digest does not match'')
     (reject_if (as_epoch_seconds (csr_availability r) \<noteq> sp_epoch_seconds (csr_policy r))
       (ValueError ''score report epoch length does not match its policy'')
     (reject_if (csr_input_snapshot r \<noteq> score_digest (csr_availability r))
       (ValueError ''score report input snapshot does not match its availability'')
     (let expected = derive_miner_scores L (csr_availability r)
      in reject_if (csr_scores r \<noteq> expected) (ValueError ''score report rows do not follow from its availability'')
         (reject_if (eligible_number (csr_scores r) \<noteq> csr_eligible_count r
                     \<or> int (length (csr_scores r)) - eligible_number (csr_scores r) \<noteq> csr_ineligible_count r)
           (ValueError ''miner counts do not match score vector'')
         (reject_if (csr_vector_digest r \<noteq> vector_digest L expected) (ValueError ''score vector digest does not match'')
         (verify_model_digest L ''report_digest_sha256'' (JObj (report_unsigned r)) (csr_digest r) r))))))))))"

definition build_canonical_score_report ::
  "pylib \<Rightarrow> OrganicAvailabilityScore \<Rightarrow> OrganicScoringPolicy \<Rightarrow> string \<Rightarrow> int \<Rightarrow> string \<Rightarrow> CanonicalScoreReport res" where
  "build_canonical_score_report L score policy authority height block_hash =
     res_bind (score_validate L score) (\<lambda>v.
     res_bind (scoring_policy_validate policy) (\<lambda>scoring.
     let rs = derive_miner_scores L v;
         r = \<lparr>csr_policy_digest = sha_json L (scoring_policy_document scoring), csr_policy = scoring,
              csr_input_snapshot = score_digest v, csr_authority = authority, csr_height = height,
              csr_block_hash = block_hash, csr_availability = v, csr_eligible_count = eligible_number rs,
              csr_ineligible_count = int (length rs) - eligible_number rs, csr_scores = rs,
              csr_vector_digest = vector_digest L rs, csr_digest = ''''\<rparr>
     in report_validate L (r\<lparr>csr_digest := sha_json L (JObj (report_unsigned r))\<rparr>)))"

definition canonical_score_report_bytes :: "pylib \<Rightarrow> CanonicalScoreReport \<Rightarrow> string res" where
  "canonical_score_report_bytes L = model_bytes L (report_validate L) report_document"

section \<open>What a report says\<close>

text \<open>The availability of a validated score lies in the unit interval.\<close>

lemma miner_validate_ratio:
  assumes "miner_validate a = Inr b"
  shows "0 \<le> (of_int (ma_numerator a) / of_int (ma_denominator a) :: rat)"
    and "(of_int (ma_numerator a) / of_int (ma_denominator a) :: rat) \<le> 1"
  using assms by (auto simp: miner_validate_def Let_def)

lemma miner_validate_same: "miner_validate a = Inr b \<Longrightarrow> b = a"
  by (auto simp: miner_validate_def Let_def)

lemma score_validate_miners:
  assumes "score_validate L s = Inr t"
  shows "t = s" and "\<forall>a\<in>set (miners s). miner_validate a = Inr a"
    and "sorted_wrt (<) (map (\<lambda>a. (ma_miner_uid a, ma_miner_hotkey a)) (miners s))"
    and "distinct (map ma_miner_hotkey (miners s))" and "digest_text (score_digest s)"
proof -
  let ?keys = "map (\<lambda>a. (ma_miner_uid a, ma_miner_hotkey a)) (miners s)"
  obtain xs where checks: "score_fields s" "mapM miner_validate (miners s) = Inr xs" "?keys = sorted_set ?keys"
      "distinct (map snd ?keys)" "t = s"
    using assms unfolding score_validate_def Let_def as_validation_Inr by (elim res_bindE reject_ifE) simp
  show "t = s" "digest_text (score_digest s)" using checks(1,5) by (simp_all add: score_fields_def)
  show "\<forall>a\<in>set (miners s). miner_validate a = Inr a" using mapM_same(2) [OF checks(2) miner_validate_same] .
  show "sorted_wrt (<) ?keys" using checks(3) by (simp only: sorted_set_id_iff)
  show "distinct (map ma_miner_hotkey (miners s))" using checks(4) by (simp add: comp_def)
qed

lemma ppm_range:
  assumes "0 \<le> q" and "q \<le> (1 :: rat)"
  shows "0 \<le> \<lfloor>q * 1000000\<rfloor>" and "\<lfloor>q * 1000000\<rfloor> \<le> 1000000"
  using assms by (simp_all add: floor_le_iff)

lemma report_validate_Inr:
  assumes "report_validate L r = Inr t"
  shows "t = r" and "score_validate L (csr_availability r) = Inr (csr_availability r)"
    and "csr_scores r = derive_miner_scores L (csr_availability r)" and "\<forall>x\<in>set (csr_scores r). row_validate L x = Inr x"
    and "report_fields r" and "csr_digest r = sha_json L (JObj (report_unsigned r))"
    and "csr_input_snapshot r = score_digest (csr_availability r)"
    and "csr_policy_digest r = sha_json L (scoring_policy_document (csr_policy r))"
    and "csr_vector_digest r = vector_digest L (csr_scores r)"
proof -
  obtain s xs where checks: "report_fields r" "score_validate L (csr_availability r) = Inr s"
      "mapM (row_validate L) (csr_scores r) = Inr xs" "csr_scores r = derive_miner_scores L (csr_availability r)"
      "csr_digest r = sha_json L (JObj (report_unsigned r))" "t = r" "csr_input_snapshot r = score_digest (csr_availability r)"
      "csr_policy_digest r = sha_json L (scoring_policy_document (csr_policy r))"
      "csr_vector_digest r = vector_digest L (csr_scores r)"
    using assms unfolding report_validate_def Let_def by (elim res_bindE reject_ifE) simp
  show "t = r" "csr_scores r = derive_miner_scores L (csr_availability r)" "report_fields r"
    "csr_digest r = sha_json L (JObj (report_unsigned r))" "csr_input_snapshot r = score_digest (csr_availability r)"
    "csr_policy_digest r = sha_json L (scoring_policy_document (csr_policy r))"
    "csr_vector_digest r = vector_digest L (csr_scores r)"
    by (rule checks)+
  show "score_validate L (csr_availability r) = Inr (csr_availability r)"
    using checks(2) score_validate_same by blast
  show "\<forall>x\<in>set (csr_scores r). row_validate L x = Inr x"
    by (rule mapM_same(2) [OF checks(3)]) (auto simp: row_validate_def)
qed

lemma score_row_simps [simp]:
  "msr_uid (score_row L a) = ma_miner_uid a" "msr_hotkey (score_row L a) = ma_miner_hotkey a"
  "msr_status (score_row L a) = (if ma_fraudulent_attestations a > 0 then MinerIneligible else MinerEligible)"
  "msr_ppm (score_row L a) = (if ma_fraudulent_attestations a > 0 then 0
     else \<lfloor>of_int (ma_numerator a) / of_int (ma_denominator a) * (1000000 :: rat)\<rfloor>)"
  by (simp_all add: score_row_def Let_def)

text \<open>
  C25: Every row of a validated central score report is derived from the availability sealed
  inside it, one for each scored miner and no other: a miner with attributable fraud is
  ineligible with score zero, any other has the floor of its mean availability in parts per
  million, and rows come in strictly increasing order of uid and hotkey.
\<close>

theorem score_report_rows_exact:
  assumes "report_validate L r = Inr t"
  shows "csr_scores r = map (score_row L) (miners (csr_availability r))
    \<and> sorted_wrt (<) (map (\<lambda>x. (msr_uid x, msr_hotkey x)) (csr_scores r))
    \<and> (\<forall>a\<in>set (miners (csr_availability r)).
         let q = (of_int (ma_numerator a) / of_int (ma_denominator a) :: rat); x = score_row L a
         in if ma_fraudulent_attestations a > 0 then msr_status x = MinerIneligible \<and> msr_ppm x = 0
            else msr_status x = MinerEligible \<and> 0 \<le> msr_ppm x \<and> msr_ppm x \<le> 1000000
                 \<and> of_int (msr_ppm x) \<le> q * 1000000 \<and> q * 1000000 < of_int (msr_ppm x) + 1)"
proof -
  note R = report_validate_Inr [OF assms]
  note S = score_validate_miners [OF R(2)]
  have "let q = (of_int (ma_numerator a) / of_int (ma_denominator a) :: rat); x = score_row L a
         in if ma_fraudulent_attestations a > 0 then msr_status x = MinerIneligible \<and> msr_ppm x = 0
            else msr_status x = MinerEligible \<and> 0 \<le> msr_ppm x \<and> msr_ppm x \<le> 1000000
                 \<and> of_int (msr_ppm x) \<le> q * 1000000 \<and> q * 1000000 < of_int (msr_ppm x) + 1"
    if "a \<in> set (miners (csr_availability r))" for a
    using ppm_range [OF miner_validate_ratio, of a a] S(2) that
      floor_correct [of "of_int (ma_numerator a) / of_int (ma_denominator a) * (1000000 :: rat)"] by (simp add: Let_def)
  then show ?thesis using R(3) S(3) by (simp add: derive_miner_scores_def comp_def)
qed

lemma score_row_valid:
  assumes "\<And>d. digest_text (sha_json L d)" and "miner_validate a = Inr a"
  shows "row_validate L (score_row L a) = Inr (score_row L a)"
proof -
  have "in_range 0 65535 (ma_miner_uid a) \<and> hotkey_text (ma_miner_hotkey a) \<and> 1 \<le> eligible_endpoint_epochs a
      \<and> 0 \<le> ma_numerator a \<and> 1 \<le> ma_denominator a \<and> 0 \<le> ma_fraudulent_attestations a"
    using assms(2) by (simp add: miner_validate_def)
  then show ?thesis
    using ppm_range [OF miner_validate_ratio [OF assms(2)]] assms(1)
    by (simp add: row_validate_def score_row_def Let_def row_unsigned_def)
qed

text \<open>
  The central report can always be built: over a valid availability score of at most 4096
  miners and a valid scoring policy of the same epoch length, with a well-formed authority,
  height and block hash, \<^verbatim>\<open>build_canonical_score_report\<close> returns a report that passes its
  own validator and has one row for each scored miner.
\<close>

theorem score_report_builds:
  assumes "\<And>d. digest_text (sha_json L d)"
    and "score_validate L score = Inr score" and "scoring_policy_validate policy = Inr policy"
    and "as_epoch_seconds score = sp_epoch_seconds policy" and "length (miners score) \<le> 4096"
    and "digest_text authority" and "in_range 0 max_epoch height" and "digest_text block_hash"
  shows "\<exists>r. build_canonical_score_report L score policy authority height block_hash = Inr r
    \<and> report_validate L r = Inr r \<and> csr_scores r = map (score_row L) (miners score)"
proof -
  note S = score_validate_miners [OF assms(2)]
  have rows: "mapM (row_validate L) (map (score_row L) (miners score)) = Inr (map (score_row L) (miners score))"
    using S(2) score_row_valid [OF assms(1)] by (intro mapM_id) auto
  let ?n = "eligible_number (map (score_row L) (miners score))"
  have "0 \<le> ?n" by (simp add: eligible_number_def)
  moreover have "?n \<le> int (length (miners score))"
    unfolding eligible_number_def of_nat_le_iff by (rule order.trans [OF length_filter_le]) simp
  moreover have "int (length (miners score)) \<le> 4096" using assms(5) by simp
  ultimately show ?thesis
    using assms rows S(5)
    by (simp add: build_canonical_score_report_def Let_def report_validate_def report_fields_def
        derive_miner_scores_def vector_digest_def report_unsigned_def)
qed

end
