(* ===== verification/RelayWeights.thy ===== *)
theory RelayWeights
  imports ScoreReports
begin

text \<open>
  The integer weights of a relayed checkpoint: the score entries of a
  \<^verbatim>\<open>CentralScoreCheckpoint\<close> and the largest-remainder distribution of
  \<^verbatim>\<open>score_checkpoint_relay._normalize_score_vector\<close> over sixteen-bit weights.
\<close>

abbreviation relay_error :: "string \<Rightarrow> exn" where
  "relay_error \<equiv> CheckpointRelayError"

section \<open>Score entries\<close>

record CheckpointScoreEntry =
  ce_uid :: int
  ce_hotkey :: string
  ce_status :: eligibility
  ce_ppm :: int
  ce_record_digest :: string

definition score_entry_document :: "CheckpointScoreEntry \<Rightarrow> json" where
  "score_entry_document e = JObj
     [(''miner_uid'', JInt (ce_uid e)), (''miner_hotkey'', JStr (ce_hotkey e)),
      (''eligibility_status'', JStr (eligibility_text (ce_status e))),
      (''canonical_score_ppm'', JInt (ce_ppm e)), (''record_digest_sha256'', JStr (ce_record_digest e))]"

definition entry_validate :: "CheckpointScoreEntry \<Rightarrow> CheckpointScoreEntry res" where
  "entry_validate e =
     reject_if (\<not> (in_range 0 65535 (ce_uid e) \<and> hotkey_text (ce_hotkey e) \<and> in_range 0 1000000 (ce_ppm e)
                   \<and> digest_text (ce_record_digest e))) strict_error
     (reject_if (ce_status e = MinerIneligible \<and> ce_ppm e \<noteq> 0) (ValueError ''ineligible_score_nonzero'') (Inr e))"

abbreviation ce_key :: "CheckpointScoreEntry \<Rightarrow> int \<times> string" where
  "ce_key e \<equiv> (ce_uid e, ce_hotkey e)"

section \<open>Integer weights\<close>

record RelayWeightEntry =
  we_uid :: int
  we_hotkey :: string
  we_status :: eligibility
  we_ppm :: int
  we_weight :: int

definition weight_document :: "RelayWeightEntry \<Rightarrow> json" where
  "weight_document w = JObj
     [(''miner_uid'', JInt (we_uid w)), (''miner_hotkey'', JStr (we_hotkey w)),
      (''source_eligibility_status'', JStr (eligibility_text (we_status w))),
      (''source_canonical_score_ppm'', JInt (we_ppm w)), (''weight_u16'', JInt (we_weight w))]"

definition weight_validate :: "RelayWeightEntry \<Rightarrow> RelayWeightEntry res" where
  "weight_validate w =
     reject_if (\<not> (in_range 0 65535 (we_uid w) \<and> hotkey_text (we_hotkey w) \<and> in_range 0 1000000 (we_ppm w)
                   \<and> in_range 0 65535 (we_weight w))) strict_error
     (reject_if ((we_status w = MinerIneligible \<or> we_ppm w = 0) \<and> we_weight w \<noteq> 0)
       (ValueError ''zero_source_weight_nonzero'') (Inr w))"

abbreviation we_key :: "RelayWeightEntry \<Rightarrow> int \<times> string" where
  "we_key w \<equiv> (we_uid w, we_hotkey w)"

text \<open>
  \<^verbatim>\<open>_normalize_score_vector\<close>: the floors of the proportional shares, then one more unit for
  the largest remainders in the order of remainder, uid and hotkey.
\<close>

definition share_floor :: "int \<Rightarrow> CheckpointScoreEntry \<Rightarrow> int" where
  "share_floor tot e = ce_ppm e * 65535 div tot"

definition share_rest :: "int \<Rightarrow> CheckpointScoreEntry \<Rightarrow> int" where
  "share_rest tot e = ce_ppm e * 65535 mod tot"

definition bumped :: "CheckpointScoreEntry list \<Rightarrow> int \<Rightarrow> (int \<times> int \<times> string) list" where
  "bumped positive tot =
     (let remaining = 65535 - sum_list (map (share_floor tot) positive);
          remainders = map (\<lambda>e. (share_rest tot e, ce_uid e, ce_hotkey e)) positive
      in take (nat remaining) (sort_key (\<lambda>(r, uid, hotkey). (- r, uid, hotkey)) remainders))"

text \<open>\<^verbatim>\<open>floors[(uid, hotkey)] += 1\<close>.\<close>

definition bump :: "int \<times> int \<times> string \<Rightarrow> (int \<times> string \<rightharpoonup> int) \<Rightarrow> (int \<times> string \<rightharpoonup> int)" where
  "bump b m = m(snd b \<mapsto> the (m (snd b)) + 1)"

definition share_table :: "CheckpointScoreEntry list \<Rightarrow> int \<Rightarrow> int \<times> string \<rightharpoonup> int" where
  "share_table positive tot =
     fold bump (bumped positive tot)
       (dict_of (map (\<lambda>e. (ce_key e, share_floor tot e)) positive))"

definition normalize_score_vector :: "CheckpointScoreEntry list \<Rightarrow> RelayWeightEntry list res" where
  "normalize_score_vector score_vector =
     (let positive = filter (\<lambda>e. ce_ppm e > 0) score_vector; tot = sum_list (map ce_ppm positive)
      in reject_if (tot \<le> 0) (relay_error ''normalization_empty'')
         (mapM (\<lambda>e. weight_validate
            \<lparr>we_uid = ce_uid e, we_hotkey = ce_hotkey e, we_status = ce_status e, we_ppm = ce_ppm e,
             we_weight = (case share_table positive tot (ce_key e) of None \<Rightarrow> 0 | Some w \<Rightarrow> w)\<rparr>) score_vector))"

section \<open>Largest remainders\<close>

lemma fold_bump:
  assumes "distinct (map snd bs)" and "snd ` set bs \<subseteq> dom m"
  shows "fold bump bs m k = (if k \<in> snd ` set bs then Some (the (m k) + 1) else m k)"
  using assms
proof (induction bs arbitrary: m)
  case (Cons b bs)
  have "snd ` set bs \<subseteq> dom (bump b m)" using Cons.prems(2) by (auto simp: bump_def)
  then have "fold bump bs (bump b m) k = (if k \<in> snd ` set bs then Some (the (bump b m k) + 1) else bump b m k)"
    using Cons.IH [of "bump b m"] Cons.prems(1) by simp
  moreover have "bump b m x = (if x = snd b then Some (the (m x) + 1) else m x)" for x by (simp add: bump_def)
  ultimately show ?case using Cons.prems by auto
qed simp

lemma take_sorted_closed:
  assumes "x \<in> set (take n (sort_key f xs))" and "y \<in> set xs" and "f y < f x"
  shows "y \<in> set (take n (sort_key f xs))"
proof (rule ccontr)
  let ?s = "sort_key f xs"
  assume "y \<notin> set (take n ?s)"
  moreover have "y \<in> set ?s" using assms(2) by simp
  ultimately have "y \<in> set (drop n ?s)" by (metis Un_iff append_take_drop_id set_append)
  moreover have "sorted (map f (take n ?s @ drop n ?s))" by simp
  ultimately have "f x \<le> f y" using assms(1) unfolding map_append sorted_append by auto
  with assms(3) show False by simp
qed

text \<open>What the distribution computes for one entry of a vector of distinct miners.\<close>

definition positive_scores :: "CheckpointScoreEntry list \<Rightarrow> CheckpointScoreEntry list" where
  "positive_scores v = filter (\<lambda>e. ce_ppm e > 0) v"

definition score_total :: "CheckpointScoreEntry list \<Rightarrow> int" where
  "score_total v = sum_list (map ce_ppm (positive_scores v))"

definition relay_share :: "CheckpointScoreEntry list \<Rightarrow> CheckpointScoreEntry \<Rightarrow> int" where
  "relay_share v e =
     (if ce_ppm e > 0
      then share_floor (score_total v) e
           + (if ce_key e \<in> snd ` set (bumped (positive_scores v) (score_total v)) then 1 else 0)
      else 0)"

lemma bumped_keys:
  "snd ` set (bumped ps t) \<subseteq> ce_key ` set ps"
  "distinct (map ce_key ps) \<Longrightarrow> distinct (map snd (bumped ps t))"
proof -
  let ?rs = "map (\<lambda>e. (share_rest t e, ce_uid e, ce_hotkey e)) ps"
  let ?f = "\<lambda>(r, uid, hotkey). (- r, uid, hotkey)"
  have "set (bumped ps t) \<subseteq> set ?rs" unfolding bumped_def Let_def by (auto dest: in_set_takeD)
  then show "snd ` set (bumped ps t) \<subseteq> ce_key ` set ps" by force
  assume "distinct (map ce_key ps)"
  then have "distinct (map snd (sort_key ?f ?rs))" by (simp only: distinct_map_sort_key) (simp add: comp_def)
  then show "distinct (map snd (bumped ps t))"
    unfolding bumped_def Let_def take_map [symmetric] by (rule distinct_take)
qed

lemma share_lookup:
  assumes "distinct (map ce_key v)" and "e \<in> set v"
  shows "(case share_table (positive_scores v) (score_total v) (ce_key e) of None \<Rightarrow> 0 | Some w \<Rightarrow> w) = relay_share v e"
proof -
  let ?ps = "positive_scores v" and ?t = "score_total v"
  let ?m = "map (\<lambda>e. (ce_key e, share_floor ?t e)) ?ps"
  have d: "distinct (map ce_key ?ps)" using assms(1) by (simp add: positive_scores_def distinct_map_filter)
  then have dm: "distinct (map fst ?m)" by (simp add: comp_def)
  have dom: "dom (dict_of ?m) = ce_key ` set ?ps" unfolding dict_of_distinct [OF dm] dom_map_of_conv_image_fst by force
  have look: "share_table ?ps ?t k = (if k \<in> snd ` set (bumped ?ps ?t) then Some (the (dict_of ?m k) + 1) else dict_of ?m k)" for k
    unfolding share_table_def by (rule fold_bump [OF bumped_keys(2) [OF d]]) (unfold dom, rule bumped_keys(1))
  show ?thesis
  proof (cases "ce_ppm e > 0")
    case True
    then have "e \<in> set ?ps" using assms(2) by (simp add: positive_scores_def)
    then have "dict_of ?m (ce_key e) = Some (share_floor ?t e)" 
      unfolding dict_of_distinct [OF dm] using dm by (intro map_of_is_SomeI) auto
    then show ?thesis by (simp add: look relay_share_def True)
  next
    case False
    have "ce_key e \<notin> ce_key ` set ?ps"
    proof
      assume "ce_key e \<in> ce_key ` set ?ps"
      then obtain d where "d \<in> set v" "ce_ppm d > 0" "ce_key d = ce_key e" by (auto simp: positive_scores_def)
      then show False using assms False by (metis (no_types, lifting) distinct_map inj_onD)
    qed
    then have "ce_key e \<notin> snd ` set (bumped ?ps ?t)" "dict_of ?m (ce_key e) = None"
      using bumped_keys(1) dom by blast+
    then show ?thesis by (simp add: look relay_share_def False)
  qed
qed

lemma share_split: "0 < t \<Longrightarrow> share_floor t e * t + share_rest t e = ce_ppm e * 65535"
  by (simp add: share_floor_def share_rest_def)

text \<open>The floors leave fewer units than there are positive entries.\<close>

lemma remaining_units:
  assumes "t = sum_list (map ce_ppm ps)" and "0 < t"
  shows "0 \<le> 65535 - sum_list (map (share_floor t) ps)"
    and "65535 - sum_list (map (share_floor t) ps) \<le> int (length ps)"
proof -
  let ?R = "65535 - sum_list (map (share_floor t) ps)"
  have "sum_list (map (share_floor t) ps) * t + sum_list (map (share_rest t) ps) = sum_list (map ce_ppm ps) * 65535"
    using share_split [OF assms(2)] by (induction ps) (auto simp: algebra_simps)
  then have R: "?R * t = sum_list (map (share_rest t) ps)" using assms(1) by (simp add: algebra_simps)
  have "0 \<le> sum_list (map (share_rest t) ps)" by (rule sum_list_nonneg) (auto simp: share_rest_def assms(2))
  then have "0 \<le> ?R * t" using R by simp
  then show "0 \<le> ?R" using assms(2) by (simp add: zero_le_mult_iff)
  have "share_rest t e \<le> t" for e using assms(2) by (simp add: share_rest_def less_imp_le)
  then have "sum_list (map (share_rest t) ps) \<le> sum_list (map (\<lambda>_. t) ps)" by (intro sum_list_mono)
  then have "sum_list (map (share_rest t) ps) \<le> int (length ps) * t" by (simp add: sum_list_triv)
  then have "?R * t \<le> int (length ps) * t" using R by simp
  then show "?R \<le> int (length ps)" using assms(2) by simp
qed

lemma sum_list_indicator:
  assumes "distinct (map f xs)" and "distinct bs" and "set bs \<subseteq> f ` set xs"
  shows "sum_list (map (\<lambda>x. if f x \<in> set bs then 1 else 0) xs) = int (length bs)"
proof -
  have "sum_list (map (\<lambda>x. if f x \<in> set bs then 1 else (0 :: int)) xs) = int (length (filter (\<lambda>x. f x \<in> set bs) xs))"
    by (induction xs) auto
  also have "length (filter (\<lambda>x. f x \<in> set bs) xs) = card (f ` set (filter (\<lambda>x. f x \<in> set bs) xs))"
    using assms(1) by (metis distinct_card distinct_map_filter length_map set_map)
  also have "f ` set (filter (\<lambda>x. f x \<in> set bs) xs) = set bs" using assms(3) by auto
  also have "card (set bs) = length bs" by (rule distinct_card [OF assms(2)])
  finally show ?thesis .
qed

lemma sum_list_filter_zero:
  "(\<And>x. x \<in> set xs \<Longrightarrow> \<not> p x \<Longrightarrow> f x = (0 :: int)) \<Longrightarrow> sum_list (map f (filter p xs)) = sum_list (map f xs)"
  by (induction xs) auto

lemma relay_share_total:
  assumes "distinct (map ce_key v)" and "0 < score_total v"
  shows "sum_list (map (relay_share v) v) = 65535"
proof -
  let ?ps = "positive_scores v" and ?t = "score_total v"
  let ?bs = "map snd (bumped ?ps ?t)"
  have d: "distinct (map ce_key ?ps)" using assms(1) by (simp add: positive_scores_def distinct_map_filter)
  note R = remaining_units [OF score_total_def assms(2)]
  have len: "int (length ?bs) = 65535 - sum_list (map (share_floor ?t) ?ps)"
    using R by (simp add: bumped_def Let_def)
  have "sum_list (map (relay_share v) v) = sum_list (map (relay_share v) ?ps)"
    unfolding positive_scores_def by (rule sum_list_filter_zero [symmetric]) (simp add: relay_share_def)
  also have "\<dots> = sum_list (map (\<lambda>e. share_floor ?t e + (if ce_key e \<in> set ?bs then 1 else 0)) ?ps)"
    by (rule arg_cong [where f = sum_list], rule map_cong) (auto simp: relay_share_def positive_scores_def)
  also have "\<dots> = sum_list (map (share_floor ?t) ?ps) + sum_list (map (\<lambda>e. if ce_key e \<in> set ?bs then 1 else 0) ?ps)"
    by (rule sum_list_addf)
  also have "\<dots> = 65535"
    using sum_list_indicator [OF d bumped_keys(2) [OF d]] bumped_keys(1) [of ?ps ?t] len by simp
  finally show ?thesis .
qed

lemma relay_share_nonneg: "0 < score_total v \<Longrightarrow> 0 \<le> relay_share v e"
  by (simp add: relay_share_def share_floor_def pos_imp_zdiv_nonneg_iff)

lemma relay_share_le:
  assumes "distinct (map ce_key v)" and "0 < score_total v" and "e \<in> set v"
  shows "relay_share v e \<le> 65535"
proof -
  have "relay_share v e \<le> sum_list (map (relay_share v) v)"
    using assms(3) relay_share_nonneg [OF assms(2)] by (intro member_le_sum_list) auto
  then show ?thesis by (simp add: relay_share_total [OF assms(1,2)])
qed

text \<open>A higher score never gets a smaller weight.\<close>

lemma relay_share_mono:
  assumes "0 < score_total v" and "d \<in> set v" and "e \<in> set v" and "ce_ppm d < ce_ppm e" and "distinct (map ce_key v)"
  shows "relay_share v d \<le> relay_share v e"
proof (cases "ce_ppm d > 0")
  case True
  let ?ps = "positive_scores v" and ?t = "score_total v"
  let ?f = "\<lambda>(r, uid, hotkey). (- r, uid, hotkey)"
  let ?B = "snd ` set (bumped ?ps ?t)"
  have ps: "d \<in> set ?ps" "e \<in> set ?ps" using assms True by (auto simp: positive_scores_def)
  have "ce_ppm d * 65535 \<le> ce_ppm e * 65535" using assms(4) by simp
  then have le: "share_floor ?t d \<le> share_floor ?t e" unfolding share_floor_def by (rule zdiv_mono1 [OF _ assms(1)])
  moreover have "ce_key e \<in> ?B" if same: "share_floor ?t d = share_floor ?t e" and taken: "ce_key d \<in> ?B"
  proof -
    have "share_rest ?t d < share_rest ?t e"
      using share_split [OF assms(1), of d] share_split [OF assms(1), of e] assms(4) unfolding same by linarith
    let ?rs = "map (\<lambda>e. (share_rest ?t e, ce_uid e, ce_hotkey e)) ?ps"
    let ?n = "nat (65535 - sum_list (map (share_floor ?t) ?ps))"
    have B: "bumped ?ps ?t = take ?n (sort_key ?f ?rs)" by (simp add: bumped_def Let_def)
    obtain r where r: "(r, ce_key d) \<in> set (bumped ?ps ?t)" using taken by auto
    then have "(r, ce_key d) \<in> set ?rs" unfolding B by (auto dest: in_set_takeD)
    then obtain d' where "d' \<in> set v" "r = share_rest ?t d'" "ce_key d' = ce_key d" by (auto simp: positive_scores_def)
    then have "r = share_rest ?t d" using assms(2,5) by (metis (no_types, lifting) distinct_map inj_onD)
    then have lt: "?f (share_rest ?t e, ce_uid e, ce_hotkey e) < ?f (r, ce_key d)"
      using \<open>share_rest ?t d < share_rest ?t e\<close> by (simp add: less_prod_def)
    have "(share_rest ?t e, ce_uid e, ce_hotkey e) \<in> set ?rs" using ps(2) by simp
    then have "(share_rest ?t e, ce_uid e, ce_hotkey e) \<in> set (bumped ?ps ?t)"
      using take_sorted_closed [OF r [unfolded B] _ lt] unfolding B by simp
    then show ?thesis by force
  qed
  ultimately show ?thesis
    using True assms(4) unfolding relay_share_def by (cases "share_floor ?t d = share_floor ?t e") simp_all
next
  case False
  then show ?thesis using relay_share_nonneg [OF assms(1)] by (simp add: relay_share_def)
qed

lemma score_total_pos:
  assumes "\<exists>e\<in>set v. 0 < ce_ppm e"
  shows "0 < score_total v"
proof -
  obtain e where e: "e \<in> set (positive_scores v)" using assms by (auto simp: positive_scores_def)
  then have "ce_ppm e \<le> score_total v"
    unfolding score_total_def by (auto simp: positive_scores_def intro!: member_le_sum_list)
  then show ?thesis using e by (simp add: positive_scores_def)
qed

lemma relay_normalize_exact:
  assumes "\<forall>e\<in>set v. entry_validate e = Inr e" and "distinct (map ce_key v)" and "\<exists>e\<in>set v. 0 < ce_ppm e"
  shows "normalize_score_vector v = Inr (map (\<lambda>e. \<lparr>we_uid = ce_uid e, we_hotkey = ce_hotkey e, we_status = ce_status e,
      we_ppm = ce_ppm e, we_weight = relay_share v e\<rparr>) v)"
proof -
  have t: "0 < score_total v" by (rule score_total_pos [OF assms(3)])
  have "weight_validate \<lparr>we_uid = ce_uid e, we_hotkey = ce_hotkey e, we_status = ce_status e, we_ppm = ce_ppm e,
      we_weight = relay_share v e\<rparr> = Inr \<lparr>we_uid = ce_uid e, we_hotkey = ce_hotkey e, we_status = ce_status e,
      we_ppm = ce_ppm e, we_weight = relay_share v e\<rparr>" if "e \<in> set v" for e
    using assms(1) that relay_share_le [OF assms(2) t that] relay_share_nonneg [OF t, of e]
    by (auto simp: weight_validate_def entry_validate_def relay_share_def reject_if_def split: if_splits)
  then show ?thesis
    using t by (simp add: normalize_score_vector_def Let_def positive_scores_def [symmetric] score_total_def [symmetric]
        share_lookup [OF assms(2)] mapM_total)
qed

lemma weight_validate_same: "weight_validate w = Inr u \<Longrightarrow> u = w"
  by (auto simp: weight_validate_def)

lemma normalize_valid: "normalize_score_vector v = Inr ws \<Longrightarrow> mapM weight_validate ws = Inr ws"
  unfolding normalize_score_vector_def Let_def
  by (intro mapM_id) (auto elim!: mapM_in dest: weight_validate_same)

text \<open>
  C12: Exactness of the integer weights. For a vector of valid entries of distinct miners with
  a positive score the normalisation succeeds; the weights are in the order of the entries
  and add up to 65535 exactly; each is the floor of the proportional share or one more, zero
  for a zero score; and a miner with a higher score never gets a smaller weight.
\<close>

theorem relay_weights_exact:
  assumes "\<forall>e\<in>set v. entry_validate e = Inr e" and "distinct (map ce_key v)" and "\<exists>e\<in>set v. 0 < ce_ppm e"
  shows "\<exists>ws. normalize_score_vector v = Inr ws \<and> map we_key ws = map ce_key v
     \<and> sum_list (map we_weight ws) = 65535
     \<and> (\<forall>i<length v. we_weight (ws ! i) \<in> {ce_ppm (v ! i) * 65535 div sum_list (map ce_ppm v),
                                          ce_ppm (v ! i) * 65535 div sum_list (map ce_ppm v) + 1}
          \<and> (ce_ppm (v ! i) = 0 \<longrightarrow> we_weight (ws ! i) = 0))
     \<and> (\<forall>i<length v. \<forall>j<length v. ce_ppm (v ! i) < ce_ppm (v ! j) \<longrightarrow> we_weight (ws ! i) \<le> we_weight (ws ! j))"
proof -
  let ?ws = "map (\<lambda>e. \<lparr>we_uid = ce_uid e, we_hotkey = ce_hotkey e, we_status = ce_status e,
      we_ppm = ce_ppm e, we_weight = relay_share v e\<rparr>) v"
  have ok: "0 \<le> ce_ppm e" if "e \<in> set v" for e using assms(1) that by (auto simp: entry_validate_def)
  have tot: "score_total v = sum_list (map ce_ppm v)"
    unfolding score_total_def positive_scores_def by (rule sum_list_filter_zero) (use ok in force)
  have t: "0 < score_total v" by (rule score_total_pos [OF assms(3)])
  have "sum_list (map we_weight ?ws) = 65535"
    using relay_share_total [OF assms(2) t] by (simp add: comp_def)
  moreover have "relay_share v e \<in> {ce_ppm e * 65535 div sum_list (map ce_ppm v), ce_ppm e * 65535 div sum_list (map ce_ppm v) + 1}"
    "ce_ppm e = 0 \<longrightarrow> relay_share v e = 0" if "e \<in> set v" for e
    using ok [OF that] by (auto simp: relay_share_def share_floor_def tot)
  moreover have "relay_share v (v ! i) \<le> relay_share v (v ! j)" if "i < length v" "j < length v" "ce_ppm (v ! i) < ce_ppm (v ! j)" for i j
    using relay_share_mono [OF t _ _ that(3) assms(2)] that by simp
  ultimately show ?thesis
    using relay_normalize_exact [OF assms] by (intro exI [of _ ?ws]) (simp add: comp_def)
qed

end
