(* ===== verification/CheckpointRelay.thy ===== *)
theory CheckpointRelay
  imports RelayWeights
begin

text \<open>
  The signed score checkpoints of \<^verbatim>\<open>score_checkpoint_relay.py\<close>: checkpoint, trust policy,
  signature envelopes, the append-only chain state, the finalized view of the relaying
  validator, their verification, and the sealed verification report and relay plan.
  Ed25519 verification is the parameter \<open>V\<close>, as in theory \<^verbatim>\<open>ManifestChain\<close>.
\<close>

abbreviation checkpoint_purpose :: string where
  "checkpoint_purpose \<equiv> ''central_score_checkpoint_weight_relay_v1''"

abbreviation verification_purpose :: string where
  "verification_purpose \<equiv> ''external_validator_checkpoint_verification_v1''"

section \<open>Checkpoints\<close>

record CentralScoreCheckpoint =
  ck_authority :: string
  ck_scoring_policy :: string
  ck_trust_policy :: string
  ck_height :: int
  ck_block_hash :: string
  ck_epoch :: int
  ck_input_snapshot :: string
  ck_report_digest :: string
  ck_report_vector :: string
  ck_vector :: "CheckpointScoreEntry list"
  ck_vector_digest :: string
  ck_sequence :: int
  ck_issued :: int
  ck_evaluation :: int
  ck_expires :: int
  ck_previous :: "string option"
  ck_digest :: string

definition checkpoint_unsigned :: "CentralScoreCheckpoint \<Rightarrow> (string \<times> json) list" where
  "checkpoint_unsigned c =
     [(''schema'', JStr ''miss.computer/misscomputer-subnet/central-score-checkpoint''), (''schema_version'', JInt 1),
      (''purpose'', JStr checkpoint_purpose), (''network'', JStr ''finney''), (''netuid'', JInt 24),
      (''central_authority_fingerprint_sha256'', JStr (ck_authority c)),
      (''central_scoring_policy_digest_sha256'', JStr (ck_scoring_policy c)),
      (''trust_policy_digest_sha256'', JStr (ck_trust_policy c)), (''finalized_height'', JInt (ck_height c)),
      (''finalized_block_hash'', JStr (ck_block_hash c)), (''finalized_epoch'', JInt (ck_epoch c)),
      (''input_snapshot_digest_sha256'', JStr (ck_input_snapshot c)),
      (''canonical_score_report_digest_sha256'', JStr (ck_report_digest c)),
      (''report_score_vector_digest_sha256'', JStr (ck_report_vector c)),
      (''score_vector'', JList (map score_entry_document (ck_vector c))),
      (''score_vector_digest_sha256'', JStr (ck_vector_digest c)), (''sequence'', JInt (ck_sequence c)),
      (''issued_at_epoch'', JInt (ck_issued c)), (''evaluation_epoch'', JInt (ck_evaluation c)),
      (''expires_at_epoch'', JInt (ck_expires c)),
      (''previous_checkpoint_digest_sha256'', jstr_opt (ck_previous c))]"

definition checkpoint_document :: "CentralScoreCheckpoint \<Rightarrow> json" where
  "checkpoint_document c = JObj (checkpoint_unsigned c @ [(''checkpoint_digest_sha256'', JStr (ck_digest c))])"

definition checkpoint_fields :: "CentralScoreCheckpoint \<Rightarrow> bool" where
  "checkpoint_fields c \<longleftrightarrow>
     digest_text (ck_authority c) \<and> digest_text (ck_scoring_policy c) \<and> digest_text (ck_trust_policy c)
     \<and> in_range 0 max_epoch (ck_height c) \<and> digest_text (ck_block_hash c) \<and> in_range 0 max_epoch (ck_epoch c)
     \<and> digest_text (ck_input_snapshot c) \<and> digest_text (ck_report_digest c) \<and> digest_text (ck_report_vector c)
     \<and> 1 \<le> length (ck_vector c) \<and> length (ck_vector c) \<le> 4096 \<and> digest_text (ck_vector_digest c)
     \<and> in_range 1 max_epoch (ck_sequence c) \<and> in_range 0 max_epoch (ck_issued c)
     \<and> in_range 0 max_epoch (ck_evaluation c) \<and> in_range 0 max_epoch (ck_expires c)
     \<and> opt_ok digest_text (ck_previous c) \<and> digest_text (ck_digest c)"

definition checkpoint_validate :: "pylib \<Rightarrow> CentralScoreCheckpoint \<Rightarrow> CentralScoreCheckpoint res" where
  "checkpoint_validate L c =
     reject_if (\<not> checkpoint_fields c) strict_error
     (res_bind (mapM entry_validate (ck_vector c)) (\<lambda>_.
     reject_if (\<not> (ck_issued c \<le> ck_evaluation c \<and> ck_evaluation c < ck_expires c))
       (ValueError ''checkpoint_time_window_invalid'')
     (reject_if ((ck_sequence c = 1) \<noteq> (ck_previous c = None)) (ValueError ''checkpoint_previous_link_invalid'')
     (reject_if (map ce_key (ck_vector c) \<noteq> sorted_set (map ce_key (ck_vector c)))
       (ValueError ''checkpoint_score_vector_not_canonical'')
     (reject_if (\<not> distinct (map ce_uid (ck_vector c))) (ValueError ''checkpoint_score_vector_uid_duplicate'')
     (reject_if (\<not> distinct (map ce_hotkey (ck_vector c))) (ValueError ''checkpoint_score_vector_hotkey_duplicate'')
     (reject_if (ck_vector_digest c \<noteq> sha_json L (JList (map score_entry_document (ck_vector c))))
       (ValueError ''score_vector_digest_sha256_mismatch'')
     (verify_model_digest L ''checkpoint_digest_sha256'' (JObj (checkpoint_unsigned c)) (ck_digest c) c))))))))"

section \<open>Trust policy and envelopes\<close>

definition checkpoint_role :: "string \<Rightarrow> bool" where
  "checkpoint_role s \<longleftrightarrow> s \<in> {''checkpoint_auditor'', ''checkpoint_issuer'', ''checkpoint_security''}"

record TrustedCheckpointKey =
  tk_id :: string
  tk_public_key :: string
  tk_public_sha256 :: string
  tk_roles :: "string list"
  tk_purposes :: "string list"
  tk_from :: int
  tk_until :: int
  tk_revoked :: "int option"

definition key_document :: "TrustedCheckpointKey \<Rightarrow> json" where
  "key_document k = JObj
     [(''key_id'', JStr (tk_id k)), (''algorithm'', JStr ''ed25519''), (''public_key_base64'', JStr (tk_public_key k)),
      (''public_key_sha256'', JStr (tk_public_sha256 k)), (''roles'', JList (map JStr (tk_roles k))),
      (''purposes'', JList (map JStr (tk_purposes k))), (''valid_from_epoch'', JInt (tk_from k)),
      (''valid_until_epoch'', JInt (tk_until k)), (''revoked_at_epoch'', jint_opt (tk_revoked k))]"

definition checkpoint_key_validate :: "pylib \<Rightarrow> TrustedCheckpointKey \<Rightarrow> TrustedCheckpointKey res" where
  "checkpoint_key_validate L k =
     reject_if (\<not> (key_id_text (tk_id k) \<and> length (tk_public_key k) = 44 \<and> digest_text (tk_public_sha256 k)
         \<and> 1 \<le> length (tk_roles k) \<and> length (tk_roles k) \<le> 3 \<and> list_all checkpoint_role (tk_roles k)
         \<and> length (tk_purposes k) = 1 \<and> list_all (\<lambda>p. p = checkpoint_purpose) (tk_purposes k)
         \<and> in_range 0 max_epoch (tk_from k) \<and> in_range 0 max_epoch (tk_until k)
         \<and> opt_ok (in_range 0 max_epoch) (tk_revoked k))) strict_error
     (res_bind (decode_ed25519_public_key_base64 (tk_public_key k)) (\<lambda>public_bytes.
     reject_if (sha256_hex L public_bytes \<noteq> tk_public_sha256 k) (ValueError ''public_key_digest_mismatch'')
     (reject_if (tk_roles k \<noteq> sorted_set (tk_roles k)) (ValueError ''key_roles_not_canonical'')
     (reject_if (tk_purposes k \<noteq> [checkpoint_purpose]) (ValueError ''key_purpose_invalid'')
     (reject_if (tk_until k \<le> tk_from k) (ValueError ''key_validity_window_invalid'')
     (reject_if (\<not> opt_ok (in_range (tk_from k) (tk_until k)) (tk_revoked k)) (ValueError ''key_revocation_epoch_invalid'')
     (Inr k)))))))"

record CheckpointTrustPolicy =
  cp_authority :: string
  cp_scoring_policy :: string
  cp_threshold :: int
  cp_required_roles :: "string list"
  cp_keys :: "TrustedCheckpointKey list"
  cp_from :: int
  cp_until :: int
  cp_max_age :: int
  cp_max_skew :: int
  cp_max_lifetime :: int
  cp_max_sequence_gap :: int
  cp_max_height_gap :: int
  cp_digest :: string

definition checkpoint_policy_unsigned :: "CheckpointTrustPolicy \<Rightarrow> json" where
  "checkpoint_policy_unsigned p = JObj
     [(''schema'', JStr ''miss.computer/misscomputer-subnet/score-checkpoint-trust-policy''), (''schema_version'', JInt 1),
      (''policy_id'', JStr ''miss-computer-central-score-checkpoint-trust-v1''), (''purpose'', JStr checkpoint_purpose),
      (''network'', JStr ''finney''), (''netuid'', JInt 24),
      (''central_authority_fingerprint_sha256'', JStr (cp_authority p)),
      (''central_scoring_policy_digest_sha256'', JStr (cp_scoring_policy p)), (''threshold'', JInt (cp_threshold p)),
      (''required_roles'', JList (map JStr (cp_required_roles p))), (''trusted_keys'', JList (map key_document (cp_keys p))),
      (''valid_from_epoch'', JInt (cp_from p)), (''valid_until_epoch'', JInt (cp_until p)),
      (''max_checkpoint_age_seconds'', JInt (cp_max_age p)), (''max_future_skew_seconds'', JInt (cp_max_skew p)),
      (''max_checkpoint_lifetime_seconds'', JInt (cp_max_lifetime p)),
      (''max_sequence_gap'', JInt (cp_max_sequence_gap p)), (''max_finalized_height_gap'', JInt (cp_max_height_gap p))]"

definition checkpoint_policy_fields :: "CheckpointTrustPolicy \<Rightarrow> bool" where
  "checkpoint_policy_fields p \<longleftrightarrow>
     digest_text (cp_authority p) \<and> digest_text (cp_scoring_policy p) \<and> in_range 1 16 (cp_threshold p)
     \<and> 1 \<le> length (cp_required_roles p) \<and> length (cp_required_roles p) \<le> 3
     \<and> list_all checkpoint_role (cp_required_roles p) \<and> 1 \<le> length (cp_keys p) \<and> length (cp_keys p) \<le> 16
     \<and> in_range 0 max_epoch (cp_from p) \<and> in_range 0 max_epoch (cp_until p) \<and> in_range 1 86400 (cp_max_age p)
     \<and> in_range 0 300 (cp_max_skew p) \<and> in_range 1 86400 (cp_max_lifetime p)
     \<and> in_range 1 64 (cp_max_sequence_gap p) \<and> in_range 1 1000000 (cp_max_height_gap p) \<and> digest_text (cp_digest p)"

definition checkpoint_policy_validate :: "pylib \<Rightarrow> CheckpointTrustPolicy \<Rightarrow> CheckpointTrustPolicy res" where
  "checkpoint_policy_validate L p =
     reject_if (\<not> checkpoint_policy_fields p) strict_error
     (res_bind (mapM (checkpoint_key_validate L) (cp_keys p)) (\<lambda>_.
     reject_if (cp_until p \<le> cp_from p) (ValueError ''trust_policy_validity_window_invalid'')
     (reject_if (cp_required_roles p \<noteq> sorted_set (cp_required_roles p)) (ValueError ''required_roles_not_canonical'')
     (reject_if (map tk_id (cp_keys p) \<noteq> sorted_set (map tk_id (cp_keys p))) (ValueError ''trusted_keys_not_canonical'')
     (reject_if (\<not> distinct (map tk_public_sha256 (cp_keys p))) (ValueError ''trusted_public_key_duplicate'')
     (reject_if (cp_threshold p > int (length (cp_keys p))) (ValueError ''threshold_exceeds_key_count'')
     (reject_if (\<not> set (cp_required_roles p) \<subseteq> (\<Union>k\<in>set (cp_keys p). set (tk_roles k)))
       (ValueError ''required_role_uncovered'')
     (verify_model_digest L ''trust_policy_digest_sha256'' (checkpoint_policy_unsigned p) (cp_digest p) p))))))))"

definition build_checkpoint_trust_policy :: "pylib \<Rightarrow> CheckpointTrustPolicy \<Rightarrow> CheckpointTrustPolicy res" where
  "build_checkpoint_trust_policy L draft =
     res_bind (mapM (checkpoint_key_validate L) (cp_keys draft)) (\<lambda>keys.
     let p = draft\<lparr>cp_keys := sort_key tk_id keys, cp_required_roles := sort (cp_required_roles draft)\<rparr>
     in checkpoint_policy_validate L (p\<lparr>cp_digest := sha_json L (checkpoint_policy_unsigned p)\<rparr>))"

record CheckpointSignatureEnvelope =
  se_signer :: string
  se_checkpoint_digest :: string
  se_message_digest :: string
  se_signature :: string

definition checkpoint_envelope_document :: "CheckpointSignatureEnvelope \<Rightarrow> json" where
  "checkpoint_envelope_document e = JObj
     [(''schema'', JStr ''miss.computer/misscomputer-subnet/score-checkpoint-signature-envelope''),
      (''schema_version'', JInt 1), (''purpose'', JStr checkpoint_purpose), (''algorithm'', JStr ''ed25519''),
      (''signer_key_id'', JStr (se_signer e)), (''checkpoint_digest_sha256'', JStr (se_checkpoint_digest e)),
      (''signed_message_digest_sha256'', JStr (se_message_digest e)), (''signature_base64'', JStr (se_signature e))]"

definition checkpoint_envelope_validate :: "CheckpointSignatureEnvelope \<Rightarrow> CheckpointSignatureEnvelope res" where
  "checkpoint_envelope_validate e =
     reject_if (\<not> (key_id_text (se_signer e) \<and> digest_text (se_checkpoint_digest e) \<and> digest_text (se_message_digest e)
                   \<and> length (se_signature e) = 88)) strict_error
     (res_bind (decode_base64 64 (se_signature e)) (\<lambda>_. Inr e))"

section \<open>Chain state\<close>

record CheckpointChainState =
  ccs_authority :: string
  ccs_scoring_policy :: string
  ccs_trust_policy :: string
  ccs_count :: int
  ccs_sequence :: int
  ccs_height :: "int option"
  ccs_block_hash :: "string option"
  ccs_epoch :: "int option"
  ccs_issued :: "int option"
  ccs_evaluation :: "int option"
  ccs_input_snapshot :: "string option"
  ccs_report_digest :: "string option"
  ccs_report_vector :: "string option"
  ccs_vector_digest :: "string option"
  ccs_checkpoint :: "string option"
  ccs_digest :: string

definition checkpoint_state_unsigned :: "CheckpointChainState \<Rightarrow> (string \<times> json) list" where
  "checkpoint_state_unsigned s =
     [(''schema'', JStr ''miss.computer/misscomputer-subnet/score-checkpoint-chain-state''), (''schema_version'', JInt 1),
      (''purpose'', JStr checkpoint_purpose), (''network'', JStr ''finney''), (''netuid'', JInt 24),
      (''central_authority_fingerprint_sha256'', JStr (ccs_authority s)),
      (''central_scoring_policy_digest_sha256'', JStr (ccs_scoring_policy s)),
      (''trust_policy_digest_sha256'', JStr (ccs_trust_policy s)),
      (''accepted_checkpoint_count'', JInt (ccs_count s)), (''last_sequence'', JInt (ccs_sequence s)),
      (''last_finalized_height'', jint_opt (ccs_height s)), (''last_finalized_block_hash'', jstr_opt (ccs_block_hash s)),
      (''last_finalized_epoch'', jint_opt (ccs_epoch s)), (''last_issued_at_epoch'', jint_opt (ccs_issued s)),
      (''last_evaluation_epoch'', jint_opt (ccs_evaluation s)),
      (''last_input_snapshot_digest_sha256'', jstr_opt (ccs_input_snapshot s)),
      (''last_canonical_score_report_digest_sha256'', jstr_opt (ccs_report_digest s)),
      (''last_report_score_vector_digest_sha256'', jstr_opt (ccs_report_vector s)),
      (''last_score_vector_digest_sha256'', jstr_opt (ccs_vector_digest s)),
      (''last_checkpoint_digest_sha256'', jstr_opt (ccs_checkpoint s))]"

definition checkpoint_state_document :: "CheckpointChainState \<Rightarrow> json" where
  "checkpoint_state_document s =
     JObj (checkpoint_state_unsigned s @ [(''state_digest_sha256'', JStr (ccs_digest s))])"

definition checkpoint_state_fields :: "CheckpointChainState \<Rightarrow> bool" where
  "checkpoint_state_fields s \<longleftrightarrow>
     digest_text (ccs_authority s) \<and> digest_text (ccs_scoring_policy s) \<and> digest_text (ccs_trust_policy s)
     \<and> in_range 0 max_epoch (ccs_count s) \<and> in_range 0 max_epoch (ccs_sequence s)
     \<and> opt_ok (in_range 0 max_epoch) (ccs_height s) \<and> opt_ok digest_text (ccs_block_hash s)
     \<and> opt_ok (in_range 0 max_epoch) (ccs_epoch s) \<and> opt_ok (in_range 0 max_epoch) (ccs_issued s)
     \<and> opt_ok (in_range 0 max_epoch) (ccs_evaluation s) \<and> opt_ok digest_text (ccs_input_snapshot s)
     \<and> opt_ok digest_text (ccs_report_digest s) \<and> opt_ok digest_text (ccs_report_vector s)
     \<and> opt_ok digest_text (ccs_vector_digest s) \<and> opt_ok digest_text (ccs_checkpoint s) \<and> digest_text (ccs_digest s)"

definition checkpoint_tail_missing :: "CheckpointChainState \<Rightarrow> bool list" where
  "checkpoint_tail_missing s =
     [ccs_height s = None, ccs_block_hash s = None, ccs_epoch s = None, ccs_issued s = None, ccs_evaluation s = None,
      ccs_input_snapshot s = None, ccs_report_digest s = None, ccs_report_vector s = None,
      ccs_vector_digest s = None, ccs_checkpoint s = None]"

definition checkpoint_state_validate :: "pylib \<Rightarrow> CheckpointChainState \<Rightarrow> CheckpointChainState res" where
  "checkpoint_state_validate L s =
     reject_if (\<not> checkpoint_state_fields s) strict_error
     (reject_if (ccs_count s = 0 \<and> (ccs_sequence s \<noteq> 0 \<or> False \<in> set (checkpoint_tail_missing s)))
       (ValueError ''genesis_chain_state_invalid'')
     (reject_if (ccs_count s \<noteq> 0 \<and> (ccs_sequence s = 0 \<or> ccs_count s > ccs_sequence s
                    \<or> True \<in> set (checkpoint_tail_missing s)))
       (ValueError ''nonempty_chain_state_invalid'')
     (verify_model_digest L ''state_digest_sha256'' (JObj (checkpoint_state_unsigned s)) (ccs_digest s) s)))"

definition seal_checkpoint_state :: "pylib \<Rightarrow> CheckpointChainState \<Rightarrow> CheckpointChainState res" where
  "seal_checkpoint_state L s =
     checkpoint_state_validate L (s\<lparr>ccs_digest := sha_json L (JObj (checkpoint_state_unsigned s))\<rparr>)"

definition build_initial_checkpoint_chain_state :: "pylib \<Rightarrow> CheckpointTrustPolicy \<Rightarrow> CheckpointChainState res" where
  "build_initial_checkpoint_chain_state L trust_policy =
     res_bind (checkpoint_policy_validate L trust_policy) (\<lambda>p.
     seal_checkpoint_state L
       \<lparr>ccs_authority = cp_authority p, ccs_scoring_policy = cp_scoring_policy p, ccs_trust_policy = cp_digest p,
        ccs_count = 0, ccs_sequence = 0, ccs_height = None, ccs_block_hash = None, ccs_epoch = None,
        ccs_issued = None, ccs_evaluation = None, ccs_input_snapshot = None, ccs_report_digest = None,
        ccs_report_vector = None, ccs_vector_digest = None, ccs_checkpoint = None, ccs_digest = ''''\<rparr>)"

section \<open>Chain view of the relaying validator\<close>

record MetagraphMinerMapping =
  mm_uid :: int
  mm_hotkey :: string

definition mapping_document :: "MetagraphMinerMapping \<Rightarrow> json" where
  "mapping_document m = JObj [(''uid'', JInt (mm_uid m)), (''hotkey'', JStr (mm_hotkey m))]"

definition mapping_validate :: "MetagraphMinerMapping \<Rightarrow> MetagraphMinerMapping res" where
  "mapping_validate m = reject_if (\<not> (in_range 0 65535 (mm_uid m) \<and> hotkey_text (mm_hotkey m))) strict_error (Inr m)"

abbreviation mm_key :: "MetagraphMinerMapping \<Rightarrow> int \<times> string" where
  "mm_key m \<equiv> (mm_uid m, mm_hotkey m)"

record ExternalValidatorIdentity =
  vi_uid :: int
  vi_hotkey :: string
  vi_active :: bool

definition identity_document :: "ExternalValidatorIdentity \<Rightarrow> json" where
  "identity_document v = JObj
     [(''uid'', JInt (vi_uid v)), (''hotkey'', JStr (vi_hotkey v)), (''active'', JBool (vi_active v)),
      (''validator_permit'', JBool True)]"

definition identity_validate :: "ExternalValidatorIdentity \<Rightarrow> ExternalValidatorIdentity res" where
  "identity_validate v = reject_if (\<not> (in_range 0 65535 (vi_uid v) \<and> hotkey_text (vi_hotkey v))) strict_error (Inr v)"

record RelayFinalizedMetagraphSnapshot =
  rm_network :: string
  rm_netuid :: int
  rm_height :: int
  rm_block_hash :: string
  rm_epoch :: int
  rm_validator :: ExternalValidatorIdentity
  rm_mappings :: "MetagraphMinerMapping list"
  rm_mapping_digest :: string
  rm_digest :: string

definition relay_metagraph_unsigned :: "RelayFinalizedMetagraphSnapshot \<Rightarrow> (string \<times> json) list" where
  "relay_metagraph_unsigned m =
     [(''schema'', JStr ''miss.computer/misscomputer-subnet/relay-finalized-metagraph-snapshot''),
      (''schema_version'', JInt 1), (''purpose'', JStr verification_purpose), (''network'', JStr (rm_network m)),
      (''netuid'', JInt (rm_netuid m)), (''finalized'', JBool True), (''finalized_height'', JInt (rm_height m)),
      (''finalized_block_hash'', JStr (rm_block_hash m)), (''finalized_epoch'', JInt (rm_epoch m)),
      (''validator'', identity_document (rm_validator m)),
      (''miner_mappings'', JList (map mapping_document (rm_mappings m))),
      (''miner_mapping_digest_sha256'', JStr (rm_mapping_digest m))]"

definition relay_metagraph_document :: "RelayFinalizedMetagraphSnapshot \<Rightarrow> json" where
  "relay_metagraph_document m =
     JObj (relay_metagraph_unsigned m @ [(''metagraph_snapshot_digest_sha256'', JStr (rm_digest m))])"

definition relay_metagraph_validate ::
  "pylib \<Rightarrow> RelayFinalizedMetagraphSnapshot \<Rightarrow> RelayFinalizedMetagraphSnapshot res" where
  "relay_metagraph_validate L m =
     reject_if (\<not> (rm_network m \<in> {''finney'', ''test''} \<and> rm_netuid m \<in> {24, 581}
         \<and> in_range 0 max_epoch (rm_height m) \<and> digest_text (rm_block_hash m) \<and> in_range 0 max_epoch (rm_epoch m)
         \<and> 1 \<le> length (rm_mappings m) \<and> length (rm_mappings m) \<le> 4096
         \<and> digest_text (rm_mapping_digest m) \<and> digest_text (rm_digest m))) strict_error
     (res_bind (identity_validate (rm_validator m)) (\<lambda>_.
     res_bind (mapM mapping_validate (rm_mappings m)) (\<lambda>_.
     reject_if (\<not> static_subnet (rm_network m) (rm_netuid m)) (ValueError ''finalized_metagraph_subnet_invalid'')
     (reject_if (rm_network m = ''finney'' \<and> \<not> vi_active (rm_validator m)) (ValueError ''validator_inactive'')
     (reject_if (map mm_key (rm_mappings m) \<noteq> sorted_set (map mm_key (rm_mappings m)))
       (ValueError ''metagraph_mappings_not_canonical'')
     (reject_if (\<not> distinct (map mm_uid (rm_mappings m))) (ValueError ''metagraph_uid_duplicate'')
     (reject_if (\<not> distinct (map mm_hotkey (rm_mappings m))) (ValueError ''metagraph_hotkey_duplicate'')
     (reject_if (vi_uid (rm_validator m) \<in> mm_uid ` set (rm_mappings m)
                 \<or> vi_hotkey (rm_validator m) \<in> mm_hotkey ` set (rm_mappings m))
       (ValueError ''validator_identity_overlaps_miner'')
     (reject_if (rm_mapping_digest m \<noteq> sha_json L (JList (map mapping_document (rm_mappings m))))
       (ValueError ''miner_mapping_digest_mismatch'')
     (verify_model_digest L ''metagraph_snapshot_digest_sha256'' (JObj (relay_metagraph_unsigned m)) (rm_digest m) m))))))))))"

definition build_relay_finalized_metagraph_snapshot ::
  "pylib \<Rightarrow> int \<Rightarrow> string \<Rightarrow> int \<Rightarrow> ExternalValidatorIdentity \<Rightarrow> MetagraphMinerMapping list \<Rightarrow> string \<Rightarrow> int
   \<Rightarrow> RelayFinalizedMetagraphSnapshot res" where
  "build_relay_finalized_metagraph_snapshot L height block_hash epoch validator mappings network netuid =
     res_bind (identity_validate validator) (\<lambda>v.
     res_bind (mapM mapping_validate mappings) (\<lambda>checked.
     let ms = sort_key mm_key checked;
         m = \<lparr>rm_network = network, rm_netuid = netuid, rm_height = height, rm_block_hash = block_hash, rm_epoch = epoch,
              rm_validator = v, rm_mappings = ms, rm_mapping_digest = sha_json L (JList (map mapping_document ms)),
              rm_digest = ''''\<rparr>
     in relay_metagraph_validate L (m\<lparr>rm_digest := sha_json L (JObj (relay_metagraph_unsigned m))\<rparr>)))"

section \<open>The verification input\<close>

record ExternalValidatorVerificationInput =
  in_evaluation :: int
  in_trust_policy :: string
  in_checkpoint :: CentralScoreCheckpoint
  in_signatures :: "CheckpointSignatureEnvelope list"
  in_report :: CanonicalScoreReport
  in_state :: CheckpointChainState
  in_validator :: ExternalValidatorIdentity
  in_metagraph :: RelayFinalizedMetagraphSnapshot
  in_digest :: string

definition input_unsigned :: "ExternalValidatorVerificationInput \<Rightarrow> (string \<times> json) list" where
  "input_unsigned i =
     [(''schema'', JStr ''miss.computer/misscomputer-subnet/external-validator-verification-input''),
      (''schema_version'', JInt 1), (''purpose'', JStr verification_purpose),
      (''evaluation_epoch'', JInt (in_evaluation i)), (''trust_policy_digest_sha256'', JStr (in_trust_policy i)),
      (''checkpoint'', checkpoint_document (in_checkpoint i)),
      (''signatures'', JList (map checkpoint_envelope_document (in_signatures i))),
      (''canonical_score_report'', report_document (in_report i)),
      (''prior_chain_state'', checkpoint_state_document (in_state i)),
      (''validator'', identity_document (in_validator i)),
      (''finalized_metagraph'', relay_metagraph_document (in_metagraph i))]"

definition input_validate :: "pylib \<Rightarrow> ExternalValidatorVerificationInput \<Rightarrow> ExternalValidatorVerificationInput res" where
  "input_validate L i =
     reject_if (\<not> (in_range 0 max_epoch (in_evaluation i) \<and> digest_text (in_trust_policy i)
         \<and> 1 \<le> length (in_signatures i) \<and> length (in_signatures i) \<le> 16 \<and> digest_text (in_digest i))) strict_error
     (res_bind (checkpoint_validate L (in_checkpoint i)) (\<lambda>_.
     res_bind (mapM checkpoint_envelope_validate (in_signatures i)) (\<lambda>_.
     res_bind (report_validate L (in_report i)) (\<lambda>_.
     res_bind (checkpoint_state_validate L (in_state i)) (\<lambda>_.
     res_bind (identity_validate (in_validator i)) (\<lambda>_.
     res_bind (relay_metagraph_validate L (in_metagraph i)) (\<lambda>_.
     reject_if (map se_signer (in_signatures i) \<noteq> sorted_set (map se_signer (in_signatures i)))
       (ValueError ''signature_envelopes_not_canonical'')
     (verify_model_digest L ''input_digest_sha256'' (JObj (input_unsigned i)) (in_digest i) i))))))))"

definition build_external_validator_verification_input ::
  "pylib \<Rightarrow> int \<Rightarrow> CheckpointTrustPolicy \<Rightarrow> CentralScoreCheckpoint \<Rightarrow> CheckpointSignatureEnvelope list
   \<Rightarrow> CanonicalScoreReport \<Rightarrow> CheckpointChainState \<Rightarrow> ExternalValidatorIdentity \<Rightarrow> RelayFinalizedMetagraphSnapshot
   \<Rightarrow> ExternalValidatorVerificationInput res" where
  "build_external_validator_verification_input L evaluation trust_policy checkpoint signatures report state validator metagraph =
     res_bind (checkpoint_policy_validate L trust_policy) (\<lambda>p.
     res_bind (checkpoint_validate L checkpoint) (\<lambda>c.
     res_bind (mapM checkpoint_envelope_validate signatures) (\<lambda>es.
     res_bind (report_validate L report) (\<lambda>r.
     res_bind (checkpoint_state_validate L state) (\<lambda>s.
     res_bind (identity_validate validator) (\<lambda>v.
     res_bind (relay_metagraph_validate L metagraph) (\<lambda>m.
     let i = \<lparr>in_evaluation = evaluation, in_trust_policy = cp_digest p, in_checkpoint = c,
              in_signatures = sort_key se_signer es, in_report = r, in_state = s, in_validator = v,
              in_metagraph = m, in_digest = ''''\<rparr>
     in input_validate L (i\<lparr>in_digest := sha_json L (JObj (input_unsigned i))\<rparr>))))))))"

section \<open>Verification\<close>

text \<open>Network and subnet are the same literals in checkpoint, policy, report and state.\<close>

definition verify_trust_and_freshness ::
  "ExternalValidatorVerificationInput \<Rightarrow> CheckpointTrustPolicy \<Rightarrow> unit res" where
  "verify_trust_and_freshness i p =
     (let c = in_checkpoint i; now = in_evaluation i
      in reject_if (in_trust_policy i \<noteq> cp_digest p) (relay_error ''trust_policy_mismatch'')
         (reject_if (ck_trust_policy c \<noteq> cp_digest p) (relay_error ''trust_policy_mismatch'')
         (reject_if (ck_authority c \<noteq> cp_authority p) (relay_error ''authority_mismatch'')
         (reject_if (ck_scoring_policy c \<noteq> cp_scoring_policy p) (relay_error ''policy_mismatch'')
         (reject_if (now < cp_from p) (relay_error ''trust_policy_not_yet_valid'')
         (reject_if (now \<ge> cp_until p) (relay_error ''trust_policy_expired'')
         (reject_if (ck_issued c < cp_from p \<or> ck_expires c > cp_until p) (relay_error ''trust_policy_mismatch'')
         (reject_if (ck_expires c - ck_issued c > cp_max_lifetime p) (relay_error ''checkpoint_lifetime_invalid'')
         (reject_if (ck_evaluation c > now + cp_max_skew p) (relay_error ''checkpoint_future'')
         (reject_if (now \<ge> ck_expires c) (relay_error ''checkpoint_expired'')
         (reject_if (now > ck_evaluation c \<and> now - ck_evaluation c > cp_max_age p) (relay_error ''checkpoint_stale'')
         (Inr ()))))))))))))"

definition report_entry :: "MinerScoreRecord \<Rightarrow> CheckpointScoreEntry" where
  "report_entry r = \<lparr>ce_uid = msr_uid r, ce_hotkey = msr_hotkey r, ce_status = msr_status r, ce_ppm = msr_ppm r,
     ce_record_digest = msr_digest r\<rparr>"

definition verify_report_binding :: "pylib \<Rightarrow> ExternalValidatorVerificationInput \<Rightarrow> unit res" where
  "verify_report_binding L i =
     (let c = in_checkpoint i; r = in_report i; expected_vector = map report_entry (csr_scores r)
      in reject_if (csr_digest r \<noteq> ck_report_digest c) (relay_error ''report_binding_mismatch'')
         (reject_if (csr_input_snapshot r \<noteq> ck_input_snapshot c) (relay_error ''input_snapshot_mismatch'')
         (reject_if (csr_vector_digest r \<noteq> ck_report_vector c) (relay_error ''score_vector_mismatch'')
         (reject_if (csr_height r \<noteq> ck_height c \<or> csr_block_hash r \<noteq> ck_block_hash c \<or> csr_authority r \<noteq> ck_authority c
                     \<or> csr_policy_digest r \<noteq> ck_scoring_policy c)
           (relay_error ''report_binding_mismatch'')
         (reject_if (ck_vector c \<noteq> expected_vector) (relay_error ''score_vector_mismatch'')
         (reject_if (ck_vector_digest c \<noteq> sha_json L (JList (map score_entry_document expected_vector)))
           (relay_error ''score_vector_mismatch'')
         (Inr ())))))))"

definition checkpoint_public_keys :: "CheckpointTrustPolicy \<Rightarrow> (string \<times> string) list res" where
  "checkpoint_public_keys p =
     (case mapM (\<lambda>k. res_bind (decode_ed25519_public_key_base64 (tk_public_key k)) (\<lambda>b. Inr (tk_id k, b))) (cp_keys p) of
        Inl e \<Rightarrow> Inl (relay_error ''signer_key_invalid'')
      | Inr kvs \<Rightarrow> Inr kvs)"

definition checkpoint_signature_message :: "pylib \<Rightarrow> CentralScoreCheckpoint \<Rightarrow> string res" where
  "checkpoint_signature_message L checkpoint =
     res_bind (checkpoint_validate L checkpoint) (\<lambda>c.
     Inr (''miss.computer/misscomputer-subnet/central-score-checkpoint/v1/ed25519'' @ [CHR 0x00]
          @ dumps L (checkpoint_document c)))"

text \<open>The body of the loop over the envelopes.\<close>

definition verify_checkpoint_envelope ::
  "pylib \<Rightarrow> ed25519 \<Rightarrow> CentralScoreCheckpoint \<Rightarrow> int \<Rightarrow> string \<Rightarrow> (string \<times> string) list \<Rightarrow> CheckpointTrustPolicy
   \<Rightarrow> TrustedCheckpointKey list \<Rightarrow> CheckpointSignatureEnvelope \<Rightarrow> TrustedCheckpointKey list res" where
  "verify_checkpoint_envelope L V c now message public_keys p verified e =
     (case dict_of (map (\<lambda>k. (tk_id k, k)) (cp_keys p)) (se_signer e) of
        None \<Rightarrow> Inl (relay_error ''signer_untrusted'')
      | Some key \<Rightarrow>
          reject_if (checkpoint_purpose \<notin> set (tk_purposes key)) (relay_error ''signer_purpose_mismatch'')
          (reject_if (se_checkpoint_digest e \<noteq> ck_digest c \<or> se_message_digest e \<noteq> sha256_hex L message)
            (relay_error ''signature_binding_mismatch'')
          (reject_if (ck_issued c < tk_from key) (relay_error ''signer_not_yet_valid'')
          (reject_if (ck_expires c > tk_until key \<or> now \<ge> tk_until key) (relay_error ''signer_expired'')
          (reject_if (\<not> opt_ok (\<lambda>r. now < r) (tk_revoked key)) (relay_error ''signer_revoked'')
          (case dict_of public_keys (tk_id key) of
             None \<Rightarrow> Inl (TypeError ''KeyError'')
           | Some public_bytes \<Rightarrow>
               res_bind (decode_base64 64 (se_signature e)) (\<lambda>signature_bytes.
               reject_if (\<not> V public_bytes signature_bytes message) (relay_error ''signature_invalid'')
               (Inr (verified @ [key])))))))))"

definition verify_checkpoint_signatures ::
  "pylib \<Rightarrow> ed25519 \<Rightarrow> ExternalValidatorVerificationInput \<Rightarrow> CheckpointTrustPolicy \<Rightarrow> (string \<times> string) list
   \<Rightarrow> (string list \<times> string list) res" where
  "verify_checkpoint_signatures L V i p public_keys =
     res_bind (checkpoint_signature_message L (in_checkpoint i)) (\<lambda>message.
     res_bind (foldM (verify_checkpoint_envelope L V (in_checkpoint i) (in_evaluation i) message public_keys p) []
                 (in_signatures i)) (\<lambda>verified.
     reject_if (int (length verified) < cp_threshold p) (relay_error ''threshold_not_met'')
     (reject_if (\<not> set (cp_required_roles p) \<subseteq> set (concat (map tk_roles verified))) (relay_error ''required_role_missing'')
     (Inr (sort (map tk_id verified), sorted_set (concat (map tk_roles verified)))))))"

text \<open>Two checkpoints of one height must carry the same view and the same scores.\<close>

definition diverges :: "CentralScoreCheckpoint \<Rightarrow> CheckpointChainState \<Rightarrow> bool" where
  "diverges c s \<longleftrightarrow>
     Some (ck_epoch c) \<noteq> ccs_epoch s \<or> Some (ck_input_snapshot c) \<noteq> ccs_input_snapshot s
     \<or> Some (ck_report_digest c) \<noteq> ccs_report_digest s \<or> Some (ck_report_vector c) \<noteq> ccs_report_vector s
     \<or> Some (ck_vector_digest c) \<noteq> ccs_vector_digest s"

definition checkpoint_link :: "CheckpointChainState \<Rightarrow> CentralScoreCheckpoint \<Rightarrow> CheckpointTrustPolicy \<Rightarrow> unit res" where
  "checkpoint_link s c p =
     (if ck_sequence c = ccs_sequence s
      then reject_if (Some (ck_digest c) = ccs_checkpoint s) (relay_error ''checkpoint_replay'')
           (reject_if (Some (ck_height c) = ccs_height s \<and> Some (ck_block_hash c) \<noteq> ccs_block_hash s)
             (relay_error ''same_height_fork'')
           (reject_if (Some (ck_height c) = ccs_height s \<and> diverges c s) (relay_error ''same_height_divergence'')
           (Inl (relay_error ''sequence_rollback''))))
      else reject_if (ck_sequence c < ccs_sequence s) (relay_error ''sequence_rollback'')
           (reject_if (ck_sequence c - ccs_sequence s > cp_max_sequence_gap p) (relay_error ''sequence_gap'')
           (reject_if (ck_previous c \<noteq> ccs_checkpoint s) (relay_error ''previous_link_mismatch'')
           (let last_height = the (ccs_height s)
            in reject_if (ck_height c < last_height) (relay_error ''finalized_height_rollback'')
               (reject_if (ck_epoch c < the (ccs_epoch s)) (relay_error ''finalized_epoch_rollback'')
               (reject_if (ck_height c - last_height > cp_max_height_gap p) (relay_error ''finalized_height_gap'')
               (reject_if (ck_issued c < the (ccs_issued s) \<or> ck_evaluation c < the (ccs_evaluation s))
                 (relay_error ''sequence_rollback'')
               (reject_if (ck_height c = last_height \<and> Some (ck_block_hash c) \<noteq> ccs_block_hash s)
                 (relay_error ''same_height_fork'')
               (reject_if (ck_height c = last_height \<and> diverges c s) (relay_error ''same_height_divergence'')
               (Inr ()))))))))))"

definition next_checkpoint_state :: "CheckpointChainState \<Rightarrow> CentralScoreCheckpoint \<Rightarrow> CheckpointChainState" where
  "next_checkpoint_state s c =
     s\<lparr>ccs_count := ccs_count s + 1, ccs_sequence := ck_sequence c, ccs_height := Some (ck_height c),
       ccs_block_hash := Some (ck_block_hash c), ccs_epoch := Some (ck_epoch c), ccs_issued := Some (ck_issued c),
       ccs_evaluation := Some (ck_evaluation c), ccs_input_snapshot := Some (ck_input_snapshot c),
       ccs_report_digest := Some (ck_report_digest c), ccs_report_vector := Some (ck_report_vector c),
       ccs_vector_digest := Some (ck_vector_digest c), ccs_checkpoint := Some (ck_digest c)\<rparr>"

definition advance_checkpoint_chain_state ::
  "pylib \<Rightarrow> CheckpointChainState \<Rightarrow> CentralScoreCheckpoint \<Rightarrow> CheckpointTrustPolicy \<Rightarrow> CheckpointChainState res" where
  "advance_checkpoint_chain_state L state checkpoint policy =
     res_bind (checkpoint_state_validate L state) (\<lambda>s.
     res_bind (checkpoint_validate L checkpoint) (\<lambda>c.
     res_bind (checkpoint_policy_validate L policy) (\<lambda>p.
     reject_if (ccs_authority s \<noteq> ck_authority c) (relay_error ''authority_mismatch'')
     (reject_if (ccs_scoring_policy s \<noteq> ck_scoring_policy c) (relay_error ''policy_mismatch'')
     (reject_if (ccs_trust_policy s \<noteq> ck_trust_policy c) (relay_error ''trust_policy_mismatch'')
     (res_bind (if ccs_count s = 0
                then reject_if (ck_sequence c \<noteq> 1) (relay_error ''sequence_gap'')
                     (reject_if (ck_previous c \<noteq> None) (relay_error ''previous_link_mismatch'') (Inr ()))
                else checkpoint_link s c p) (\<lambda>_.
      seal_checkpoint_state L (next_checkpoint_state s c))))))))"

definition verify_metagraph_binding :: "ExternalValidatorVerificationInput \<Rightarrow> unit res" where
  "verify_metagraph_binding i =
     (let c = in_checkpoint i; m = in_metagraph i;
          score_keys = map ce_key (ck_vector c); mapping_keys = map mm_key (rm_mappings m)
      in reject_if (in_validator i \<noteq> rm_validator m) (relay_error ''validator_identity_mismatch'')
         (reject_if (rm_network m \<noteq> ''finney'' \<or> rm_netuid m \<noteq> 24 \<or> rm_height m \<noteq> ck_height c
                     \<or> rm_block_hash m \<noteq> ck_block_hash c \<or> rm_epoch m \<noteq> ck_epoch c)
           (relay_error ''metagraph_binding_mismatch'')
         (reject_if (length score_keys \<noteq> length mapping_keys \<or> fst ` set score_keys \<noteq> fst ` set mapping_keys)
           (relay_error ''metagraph_coverage_mismatch'')
         (reject_if (score_keys \<noteq> mapping_keys) (relay_error ''metagraph_mapping_mismatch'')
         (Inr ())))))"


section \<open>The relay\<close>

record ExternalValidatorVerificationReport =
  vr_evaluation :: int
  vr_uid :: int
  vr_hotkey :: string
  vr_checkpoint :: string
  vr_score_report :: string
  vr_input_snapshot :: string
  vr_vector_digest :: string
  vr_metagraph :: string
  vr_trust_policy :: string
  vr_input :: string
  vr_prior_state :: string
  vr_next_state :: string
  vr_signers :: "string list"
  vr_roles :: "string list"
  vr_weight_vector :: string
  vr_digest :: string

definition verification_unsigned :: "ExternalValidatorVerificationReport \<Rightarrow> (string \<times> json) list" where
  "verification_unsigned r =
     [(''schema'', JStr ''miss.computer/misscomputer-subnet/external-validator-verification-report''),
      (''schema_version'', JInt 1), (''purpose'', JStr verification_purpose), (''status'', JStr ''verified''),
      (''reason_codes'', JList [JStr ''checkpoint_verified'']), (''evaluation_epoch'', JInt (vr_evaluation r)),
      (''validator_uid'', JInt (vr_uid r)), (''validator_hotkey'', JStr (vr_hotkey r)),
      (''checkpoint_digest_sha256'', JStr (vr_checkpoint r)),
      (''canonical_score_report_digest_sha256'', JStr (vr_score_report r)),
      (''input_snapshot_digest_sha256'', JStr (vr_input_snapshot r)),
      (''score_vector_digest_sha256'', JStr (vr_vector_digest r)),
      (''metagraph_snapshot_digest_sha256'', JStr (vr_metagraph r)),
      (''trust_policy_digest_sha256'', JStr (vr_trust_policy r)),
      (''verification_input_digest_sha256'', JStr (vr_input r)),
      (''prior_chain_state_digest_sha256'', JStr (vr_prior_state r)),
      (''next_chain_state_digest_sha256'', JStr (vr_next_state r)),
      (''verified_signer_key_ids'', JList (map JStr (vr_signers r))), (''verified_roles'', JList (map JStr (vr_roles r))),
      (''normalization_algorithm'', JStr ''largest_remainder_score_ppm_to_u16_v1''),
      (''normalized_weight_vector_digest_sha256'', JStr (vr_weight_vector r))]"

definition verification_validate ::
  "pylib \<Rightarrow> ExternalValidatorVerificationReport \<Rightarrow> ExternalValidatorVerificationReport res" where
  "verification_validate L r =
     reject_if (\<not> (in_range 0 max_epoch (vr_evaluation r) \<and> in_range 0 65535 (vr_uid r) \<and> hotkey_text (vr_hotkey r)
         \<and> digest_text (vr_checkpoint r) \<and> digest_text (vr_score_report r) \<and> digest_text (vr_input_snapshot r)
         \<and> digest_text (vr_vector_digest r) \<and> digest_text (vr_metagraph r) \<and> digest_text (vr_trust_policy r)
         \<and> digest_text (vr_input r) \<and> digest_text (vr_prior_state r) \<and> digest_text (vr_next_state r)
         \<and> 1 \<le> length (vr_signers r) \<and> length (vr_signers r) \<le> 16 \<and> list_all key_id_text (vr_signers r)
         \<and> 1 \<le> length (vr_roles r) \<and> length (vr_roles r) \<le> 3 \<and> list_all checkpoint_role (vr_roles r)
         \<and> digest_text (vr_weight_vector r) \<and> digest_text (vr_digest r))) strict_error
     (reject_if (vr_signers r \<noteq> sorted_set (vr_signers r)) (ValueError ''verified_signers_not_canonical'')
     (reject_if (vr_roles r \<noteq> sorted_set (vr_roles r)) (ValueError ''verified_roles_not_canonical'')
     (verify_model_digest L ''report_digest_sha256'' (JObj (verification_unsigned r)) (vr_digest r) r)))"

record ExternalValidatorRelayPlan =
  rp_uid :: int
  rp_hotkey :: string
  rp_height :: int
  rp_block_hash :: string
  rp_epoch :: int
  rp_expires :: int
  rp_checkpoint :: string
  rp_score_report :: string
  rp_input_snapshot :: string
  rp_vector_digest :: string
  rp_metagraph :: string
  rp_input :: string
  rp_verification :: string
  rp_next_state :: string
  rp_weights :: "RelayWeightEntry list"
  rp_weight_digest :: string
  rp_digest :: string

definition relay_plan_unsigned :: "ExternalValidatorRelayPlan \<Rightarrow> (string \<times> json) list" where
  "relay_plan_unsigned p =
     [(''schema'', JStr ''miss.computer/misscomputer-subnet/external-validator-score-relay-plan''),
      (''schema_version'', JInt 1), (''purpose'', JStr ''external_validator_weight_relay_v1''),
      (''network'', JStr ''finney''), (''netuid'', JInt 24), (''validator_uid'', JInt (rp_uid p)),
      (''validator_hotkey'', JStr (rp_hotkey p)), (''finalized_height'', JInt (rp_height p)),
      (''finalized_block_hash'', JStr (rp_block_hash p)), (''finalized_epoch'', JInt (rp_epoch p)),
      (''expires_at_epoch'', JInt (rp_expires p)), (''checkpoint_digest_sha256'', JStr (rp_checkpoint p)),
      (''canonical_score_report_digest_sha256'', JStr (rp_score_report p)),
      (''input_snapshot_digest_sha256'', JStr (rp_input_snapshot p)),
      (''score_vector_digest_sha256'', JStr (rp_vector_digest p)),
      (''metagraph_snapshot_digest_sha256'', JStr (rp_metagraph p)),
      (''verification_input_digest_sha256'', JStr (rp_input p)),
      (''verification_report_digest_sha256'', JStr (rp_verification p)),
      (''next_chain_state_digest_sha256'', JStr (rp_next_state p)),
      (''weight_domain'', JStr ''weight-plan.v1/u16-normalized''),
      (''normalization_algorithm'', JStr ''largest_remainder_score_ppm_to_u16_v1''), (''weight_total_u16'', JInt 65535),
      (''weights'', JList (map weight_document (rp_weights p))), (''weight_vector_digest_sha256'', JStr (rp_weight_digest p))]"

definition relay_plan_validate :: "pylib \<Rightarrow> ExternalValidatorRelayPlan \<Rightarrow> ExternalValidatorRelayPlan res" where
  "relay_plan_validate L p =
     reject_if (\<not> (in_range 0 65535 (rp_uid p) \<and> hotkey_text (rp_hotkey p) \<and> in_range 0 max_epoch (rp_height p)
         \<and> digest_text (rp_block_hash p) \<and> in_range 0 max_epoch (rp_epoch p) \<and> in_range 0 max_epoch (rp_expires p)
         \<and> digest_text (rp_checkpoint p) \<and> digest_text (rp_score_report p) \<and> digest_text (rp_input_snapshot p)
         \<and> digest_text (rp_vector_digest p) \<and> digest_text (rp_metagraph p) \<and> digest_text (rp_input p)
         \<and> digest_text (rp_verification p) \<and> digest_text (rp_next_state p)
         \<and> 1 \<le> length (rp_weights p) \<and> length (rp_weights p) \<le> 4096
         \<and> digest_text (rp_weight_digest p) \<and> digest_text (rp_digest p))) strict_error
     (res_bind (mapM weight_validate (rp_weights p)) (\<lambda>_.
     reject_if (map we_key (rp_weights p) \<noteq> sorted_set (map we_key (rp_weights p))) (ValueError ''relay_weights_not_canonical'')
     (reject_if (\<not> distinct (map we_uid (rp_weights p))) (ValueError ''relay_weight_uid_duplicate'')
     (reject_if (\<not> distinct (map we_hotkey (rp_weights p))) (ValueError ''relay_weight_hotkey_duplicate'')
     (reject_if (sum_list (map we_weight (rp_weights p)) \<noteq> 65535) (ValueError ''relay_weight_total_invalid'')
     (reject_if (rp_weight_digest p \<noteq> sha_json L (JList (map weight_document (rp_weights p))))
       (ValueError ''relay_weight_vector_digest_mismatch'')
     (verify_model_digest L ''plan_digest_sha256'' (JObj (relay_plan_unsigned p)) (rp_digest p) p)))))))"

record RelayVerificationResult =
  rr_verification :: ExternalValidatorVerificationReport
  rr_plan :: ExternalValidatorRelayPlan
  rr_state :: CheckpointChainState

definition relay_verification_draft ::
  "pylib \<Rightarrow> ExternalValidatorVerificationInput \<Rightarrow> CheckpointTrustPolicy \<Rightarrow> string list \<Rightarrow> string list
   \<Rightarrow> CheckpointChainState \<Rightarrow> RelayWeightEntry list \<Rightarrow> ExternalValidatorVerificationReport" where
  "relay_verification_draft L i p signers granted next_state ws =
     (let r = \<lparr>vr_evaluation = in_evaluation i, vr_uid = vi_uid (in_validator i), vr_hotkey = vi_hotkey (in_validator i),
          vr_checkpoint = ck_digest (in_checkpoint i), vr_score_report = ck_report_digest (in_checkpoint i),
          vr_input_snapshot = ck_input_snapshot (in_checkpoint i), vr_vector_digest = ck_vector_digest (in_checkpoint i),
          vr_metagraph = rm_digest (in_metagraph i), vr_trust_policy = cp_digest p, vr_input = in_digest i,
          vr_prior_state = ccs_digest (in_state i), vr_next_state = ccs_digest next_state, vr_signers = signers,
          vr_roles = granted, vr_weight_vector = sha_json L (JList (map weight_document ws)), vr_digest = ''''\<rparr>
      in r\<lparr>vr_digest := sha_json L (JObj (verification_unsigned r))\<rparr>)"

definition relay_plan_draft ::
  "pylib \<Rightarrow> ExternalValidatorVerificationInput \<Rightarrow> string \<Rightarrow> CheckpointChainState \<Rightarrow> RelayWeightEntry list
   \<Rightarrow> ExternalValidatorRelayPlan" where
  "relay_plan_draft L i verification_digest next_state ws =
     (let c = in_checkpoint i;
          p = \<lparr>rp_uid = vi_uid (in_validator i), rp_hotkey = vi_hotkey (in_validator i), rp_height = ck_height c,
          rp_block_hash = ck_block_hash c, rp_epoch = ck_epoch c, rp_expires = ck_expires c, rp_checkpoint = ck_digest c,
          rp_score_report = ck_report_digest c, rp_input_snapshot = ck_input_snapshot c,
          rp_vector_digest = ck_vector_digest c, rp_metagraph = rm_digest (in_metagraph i), rp_input = in_digest i,
          rp_verification = verification_digest, rp_next_state = ccs_digest next_state, rp_weights = ws,
          rp_weight_digest = sha_json L (JList (map weight_document ws)), rp_digest = ''''\<rparr>
      in p\<lparr>rp_digest := sha_json L (JObj (relay_plan_unsigned p))\<rparr>)"

definition verify_checkpoint_and_build_relay ::
  "pylib \<Rightarrow> ed25519 \<Rightarrow> ExternalValidatorVerificationInput \<Rightarrow> CheckpointTrustPolicy \<Rightarrow> RelayVerificationResult res" where
  "verify_checkpoint_and_build_relay L V verification_input approved_trust_policy =
     res_bind (checkpoint_public_keys approved_trust_policy) (\<lambda>public_keys.
     res_bind (input_validate L verification_input) (\<lambda>i.
     res_bind (checkpoint_policy_validate L approved_trust_policy) (\<lambda>p.
     res_bind (verify_trust_and_freshness i p) (\<lambda>_.
     res_bind (verify_report_binding L i) (\<lambda>_.
     res_bind (verify_checkpoint_signatures L V i p public_keys) (\<lambda>(signers, granted).
     res_bind (advance_checkpoint_chain_state L (in_state i) (in_checkpoint i) p) (\<lambda>next_state.
     res_bind (verify_metagraph_binding i) (\<lambda>_.
     res_bind (normalize_score_vector (ck_vector (in_checkpoint i))) (\<lambda>ws.
     res_bind (verification_validate L (relay_verification_draft L i p signers granted next_state ws)) (\<lambda>report.
     res_bind (relay_plan_validate L (relay_plan_draft L i (vr_digest report) next_state ws)) (\<lambda>plan.
     Inr \<lparr>rr_verification = report, rr_plan = plan, rr_state = next_state\<rparr>)))))))))))"

section \<open>Append-only chains\<close>

text \<open>
  What a publication channel promises: the first admission is a genesis document, every
  admission is remembered as the tip, and it follows the tip it found.
\<close>

inductive append_run :: "('s \<Rightarrow> 'm \<Rightarrow> 's \<Rightarrow> bool) \<Rightarrow> 's \<Rightarrow> 'm list \<Rightarrow> 's \<Rightarrow> bool" for step s where
  start: "append_run step s [] s"
| admit: "append_run step s ms t \<Longrightarrow> step t m u \<Longrightarrow> append_run step s (ms @ [m]) u"

locale append_chain =
  fixes step :: "'s \<Rightarrow> 'm \<Rightarrow> 's \<Rightarrow> bool"
    and fresh :: "'s \<Rightarrow> bool"
    and genesis :: "'m \<Rightarrow> bool"
    and tip :: "'s \<Rightarrow> 'm \<Rightarrow> bool"
    and after :: "'m \<Rightarrow> 'm \<Rightarrow> bool"
  assumes opens: "step s m t \<Longrightarrow> fresh s \<Longrightarrow> genesis m"
    and moves: "step s m t \<Longrightarrow> tip t m"
    and links: "step s m t \<Longrightarrow> tip s n \<Longrightarrow> after n m"
begin

lemma run_appends:
  assumes "append_run step s ms t" and "fresh s"
  shows "successively after ms \<and> (ms = [] \<longrightarrow> t = s) \<and> (ms \<noteq> [] \<longrightarrow> genesis (hd ms) \<and> tip t (last ms))"
  using assms
proof (induction rule: append_run.induct)
  case (admit ms t m u)
  then show ?case
    using opens [OF admit.hyps(2)] moves [OF admit.hyps(2)] links [OF admit.hyps(2)]
    by (cases "ms = []") (auto simp: successively_append_iff)
qed simp

end

section \<open>The checkpoint chain\<close>

lemma entry_validate_same: "entry_validate e = Inr d \<Longrightarrow> d = e"
  by (auto simp: entry_validate_def)

lemma checkpoint_validate_Inr:
  assumes "checkpoint_validate L c = Inr d"
  shows "d = c" and "checkpoint_fields c" and "\<forall>e\<in>set (ck_vector c). entry_validate e = Inr e"
    and "sorted_wrt (<) (map ce_key (ck_vector c))" and "distinct (map ce_uid (ck_vector c))"
    and "distinct (map ce_hotkey (ck_vector c))" and "ck_digest c = sha_json L (JObj (checkpoint_unsigned c))"
    and "ck_issued c \<le> ck_evaluation c" and "ck_evaluation c < ck_expires c"
proof -
  obtain xs where C: "checkpoint_fields c" "mapM entry_validate (ck_vector c) = Inr xs" "d = c"
      "map ce_key (ck_vector c) = sorted_set (map ce_key (ck_vector c))" "distinct (map ce_uid (ck_vector c))"
      "distinct (map ce_hotkey (ck_vector c))" "ck_digest c = sha_json L (JObj (checkpoint_unsigned c))"
      "ck_issued c \<le> ck_evaluation c" "ck_evaluation c < ck_expires c"
    using assms unfolding checkpoint_validate_def by (elim res_bindE reject_ifE) simp
  then show "d = c" "checkpoint_fields c" "distinct (map ce_uid (ck_vector c))" "distinct (map ce_hotkey (ck_vector c))"
    "ck_digest c = sha_json L (JObj (checkpoint_unsigned c))" "ck_issued c \<le> ck_evaluation c" "ck_evaluation c < ck_expires c"
    by simp_all
  show "\<forall>e\<in>set (ck_vector c). entry_validate e = Inr e" by (rule mapM_same(2) [OF C(2) entry_validate_same])
  show "sorted_wrt (<) (map ce_key (ck_vector c))" using C(4) by (simp only: sorted_set_id_iff)
qed

lemma checkpoint_policy_validate_same: "checkpoint_policy_validate L p = Inr q \<Longrightarrow> q = p"
  unfolding checkpoint_policy_validate_def by (elim res_bindE reject_ifE) simp

lemma checkpoint_state_validate_Inr:
  "checkpoint_state_validate L s = Inr t \<longleftrightarrow>
     t = s \<and> checkpoint_state_fields s
     \<and> (ccs_count s = 0 \<longrightarrow> ccs_sequence s = 0 \<and> False \<notin> set (checkpoint_tail_missing s))
     \<and> (ccs_count s \<noteq> 0 \<longrightarrow> ccs_sequence s \<noteq> 0 \<and> ccs_count s \<le> ccs_sequence s \<and> True \<notin> set (checkpoint_tail_missing s))
     \<and> ccs_digest s = sha_json L (JObj (checkpoint_state_unsigned s))"
  unfolding checkpoint_state_validate_def by auto

lemma seal_checkpoint_state_Inr:
  "seal_checkpoint_state L s = Inr t \<Longrightarrow>
     t = s\<lparr>ccs_digest := sha_json L (JObj (checkpoint_state_unsigned s))\<rparr> \<and> checkpoint_state_validate L t = Inr t"
  unfolding seal_checkpoint_state_def by (auto simp: checkpoint_state_validate_Inr)

definition same_scores :: "CentralScoreCheckpoint \<Rightarrow> CentralScoreCheckpoint \<Rightarrow> bool" where
  "same_scores c d \<longleftrightarrow> ck_block_hash c = ck_block_hash d \<and> ck_epoch c = ck_epoch d
     \<and> ck_input_snapshot c = ck_input_snapshot d \<and> ck_report_digest c = ck_report_digest d
     \<and> ck_report_vector c = ck_report_vector d \<and> ck_vector_digest c = ck_vector_digest d"

text \<open>What the next checkpoint may do.\<close>

definition checkpoint_after :: "CentralScoreCheckpoint \<Rightarrow> CentralScoreCheckpoint \<Rightarrow> bool" where
  "checkpoint_after c d \<longleftrightarrow>
     ck_sequence c < ck_sequence d \<and> ck_previous d = Some (ck_digest c) \<and> ck_height c \<le> ck_height d
     \<and> ck_epoch c \<le> ck_epoch d \<and> ck_issued c \<le> ck_issued d \<and> ck_evaluation c \<le> ck_evaluation d
     \<and> (ck_height c = ck_height d \<longrightarrow> same_scores c d)"

definition checkpoint_tip :: "CheckpointChainState \<Rightarrow> CentralScoreCheckpoint \<Rightarrow> bool" where
  "checkpoint_tip s c \<longleftrightarrow> 0 < ccs_count s \<and> ccs_sequence s = ck_sequence c \<and> ccs_height s = Some (ck_height c)
     \<and> ccs_block_hash s = Some (ck_block_hash c) \<and> ccs_epoch s = Some (ck_epoch c) \<and> ccs_issued s = Some (ck_issued c)
     \<and> ccs_evaluation s = Some (ck_evaluation c) \<and> ccs_input_snapshot s = Some (ck_input_snapshot c)
     \<and> ccs_report_digest s = Some (ck_report_digest c) \<and> ccs_report_vector s = Some (ck_report_vector c)
     \<and> ccs_vector_digest s = Some (ck_vector_digest c) \<and> ccs_checkpoint s = Some (ck_digest c)"

lemma checkpoint_link_Inr:
  "checkpoint_link s c p = Inr () \<longleftrightarrow>
     ccs_sequence s < ck_sequence c \<and> ck_sequence c - ccs_sequence s \<le> cp_max_sequence_gap p \<and> ck_previous c = ccs_checkpoint s
     \<and> the (ccs_height s) \<le> ck_height c \<and> the (ccs_epoch s) \<le> ck_epoch c
     \<and> ck_height c - the (ccs_height s) \<le> cp_max_height_gap p
     \<and> the (ccs_issued s) \<le> ck_issued c \<and> the (ccs_evaluation s) \<le> ck_evaluation c
     \<and> (ck_height c = the (ccs_height s) \<longrightarrow> Some (ck_block_hash c) = ccs_block_hash s \<and> \<not> diverges c s)"
  unfolding checkpoint_link_def Let_def by (auto simp: reject_if_def)

lemma advance_checkpoint_Inr:
  assumes "advance_checkpoint_chain_state L s c p = Inr t"
  shows "checkpoint_state_validate L s = Inr s" and "checkpoint_validate L c = Inr c"
    and "checkpoint_policy_validate L p = Inr p" and "checkpoint_state_validate L t = Inr t"
    and "ccs_authority s = ck_authority c" and "ccs_scoring_policy s = ck_scoring_policy c"
    and "ccs_trust_policy s = ck_trust_policy c"
    and "t = next_checkpoint_state s c\<lparr>ccs_digest := ccs_digest t\<rparr>"
    and "ccs_count s = 0 \<Longrightarrow> ck_sequence c = 1 \<and> ck_previous c = None"
    and "ccs_count s \<noteq> 0 \<Longrightarrow> checkpoint_link s c p = Inr ()"
proof -
  obtain s' c' p' where v: "checkpoint_state_validate L s = Inr s'" "checkpoint_validate L c = Inr c'"
      "checkpoint_policy_validate L p = Inr p'"
    using assms unfolding advance_checkpoint_chain_state_def by (elim res_bindE) blast
  then have same: "s' = s" "c' = c" "p' = p"
    using checkpoint_validate_Inr(1) checkpoint_policy_validate_same by (auto simp: checkpoint_state_validate_Inr)
  show "checkpoint_state_validate L s = Inr s" "checkpoint_validate L c = Inr c" "checkpoint_policy_validate L p = Inr p"
    using v same by simp_all
  have rest: "ccs_authority s = ck_authority c \<and> ccs_scoring_policy s = ck_scoring_policy c
      \<and> ccs_trust_policy s = ck_trust_policy c \<and> seal_checkpoint_state L (next_checkpoint_state s c) = Inr t
      \<and> (if ccs_count s = 0 then ck_sequence c = 1 \<and> ck_previous c = None else checkpoint_link s c p = Inr ())"
    using assms v unfolding advance_checkpoint_chain_state_def same by (auto split: if_splits)
  then show "ccs_authority s = ck_authority c" "ccs_scoring_policy s = ck_scoring_policy c"
    "ccs_trust_policy s = ck_trust_policy c" "ccs_count s = 0 \<Longrightarrow> ck_sequence c = 1 \<and> ck_previous c = None"
    "ccs_count s \<noteq> 0 \<Longrightarrow> checkpoint_link s c p = Inr ()"
    by simp_all
  show "checkpoint_state_validate L t = Inr t" "t = next_checkpoint_state s c\<lparr>ccs_digest := ccs_digest t\<rparr>"
    using rest seal_checkpoint_state_Inr by force+
qed

lemma advance_tip:
  assumes "advance_checkpoint_chain_state L s c p = Inr t"
  shows "checkpoint_tip t c"
proof -
  have "0 \<le> ccs_count s" using advance_checkpoint_Inr(1) [OF assms]
    by (simp add: checkpoint_state_validate_Inr checkpoint_state_fields_def)
  moreover obtain d where "t = next_checkpoint_state s c\<lparr>ccs_digest := d\<rparr>" using advance_checkpoint_Inr(8) [OF assms] by blast
  ultimately show ?thesis by (simp add: checkpoint_tip_def next_checkpoint_state_def)
qed

lemma advance_after:
  assumes "advance_checkpoint_chain_state L s d p = Inr t" and "checkpoint_tip s c"
  shows "checkpoint_after c d"
proof -
  have "checkpoint_link s d p = Inr ()" using advance_checkpoint_Inr(10) [OF assms(1)] assms(2) by (simp add: checkpoint_tip_def)
  then show ?thesis
    using assms(2) by (auto simp: checkpoint_link_Inr checkpoint_tip_def checkpoint_after_def same_scores_def diverges_def)
qed

definition relay_step :: "pylib \<Rightarrow> CheckpointTrustPolicy \<Rightarrow> CheckpointChainState \<Rightarrow> CentralScoreCheckpoint \<Rightarrow> CheckpointChainState \<Rightarrow> bool" where
  "relay_step L p s c t \<longleftrightarrow> advance_checkpoint_chain_state L s c p = Inr t"

interpretation relay_chain: append_chain "relay_step L p" "\<lambda>s. ccs_count s = 0"
  "\<lambda>c. ck_sequence c = 1 \<and> ck_previous c = None" checkpoint_tip checkpoint_after for L p
  by unfold_locales (auto simp: relay_step_def advance_checkpoint_Inr(9) advance_tip advance_after)

text \<open>The manifest chain keeps the same promise, apart from reprobes.\<close>

definition manifest_step ::
  "pylib \<Rightarrow> AssignmentManifestTrustPolicy \<Rightarrow> AssignmentManifestChainState \<Rightarrow> ManifestHeader \<Rightarrow> AssignmentManifestChainState \<Rightarrow> bool" where
  "manifest_step L p s m t \<longleftrightarrow> advance_manifest_header_chain_state L s m p = Inr (t, False)"

definition manifest_tip :: "AssignmentManifestChainState \<Rightarrow> ManifestHeader \<Rightarrow> bool" where
  "manifest_tip s m \<longleftrightarrow> 0 < accepted_manifest_count s \<and> last_sequence s = sequence m
     \<and> last_finalized_height s = Some (finalized_height m) \<and> last_finalized_block_hash s = Some (finalized_block_hash m)
     \<and> last_finalized_epoch s = Some (finalized_epoch m) \<and> last_issued_at_epoch s = Some (issued_at_epoch m)
     \<and> last_manifest_digest s = Some (manifest_digest m)"

interpretation manifest_chain: append_chain "manifest_step L p" "\<lambda>s. accepted_manifest_count s = 0"
  "\<lambda>m. sequence m = 1 \<and> previous_manifest_digest m = None" manifest_tip follows for L p
proof
  fix s m t n
  assume step: "manifest_step L p s m t"
  note A = advance_Inr [OF step [unfolded manifest_step_def], simplified]
  show "accepted_manifest_count s = 0 \<Longrightarrow> sequence m = 1 \<and> previous_manifest_digest m = None" using A by simp
  have "0 \<le> accepted_manifest_count s" using A by (simp add: chain_state_validate_Inr chain_state_fields_def)
  then show "manifest_tip t m" using A by (auto simp: manifest_tip_def chain_successor_simps)
  show "manifest_tip s n \<Longrightarrow> follows n m" using A by (auto simp: manifest_tip_def follows_def chain_link_Inr)
qed

lemma initial_checkpoint_count:
  "build_initial_checkpoint_chain_state L p = Inr s \<Longrightarrow> ccs_count s = 0"
  unfolding build_initial_checkpoint_chain_state_def by (auto dest!: seal_checkpoint_state_Inr)

lemma checkpoint_after_sorted:
  "successively checkpoint_after cs \<Longrightarrow> sorted_wrt (\<lambda>c d. ck_sequence c < ck_sequence d) cs"
proof -
  assume "successively checkpoint_after cs"
  then have "successively (\<lambda>c d. ck_sequence c < ck_sequence d) cs"
    by (rule successively_mono) (simp add: checkpoint_after_def)
  then show ?thesis by (subst (asm) successively_iff_sorted_wrt_strong) auto
qed

text \<open>
  C15: The checkpoints a relay accepts along any history form one hash chain from sequence
  one: each names the digest of its predecessor, sequence numbers strictly increase,
  heights, epochs and times never go back, and two neighbours of one height carry the same
  view and the same scores. A checkpoint whose sequence number is not above every accepted
  one is refused, whatever it says.
\<close>

theorem checkpoint_chain_append_only:
  assumes "build_initial_checkpoint_chain_state L p0 = Inr s" and "append_run (relay_step L p) s cs t"
  shows "successively checkpoint_after cs \<and> (cs \<noteq> [] \<longrightarrow> ck_sequence (hd cs) = 1 \<and> ck_previous (hd cs) = None)
    \<and> (\<forall>c\<in>set cs. \<forall>d p' u. advance_checkpoint_chain_state L t d p' = Inr u \<longrightarrow> ck_sequence c < ck_sequence d)"
proof -
  note run = relay_chain.run_appends [OF assms(2) initial_checkpoint_count [OF assms(1)]]
  have "ck_sequence c < ck_sequence d" if c: "c \<in> set cs" and adv: "advance_checkpoint_chain_state L t d p' = Inr u" for c d p' u
  proof -
    obtain bs l where bs: "cs = bs @ [l]" using c by (cases cs rule: rev_cases) auto
    have "ck_sequence c \<le> ck_sequence l"
      using checkpoint_after_sorted [OF conjunct1 [OF run]] c by (auto simp: bs sorted_wrt_append less_imp_le)
    moreover have "checkpoint_after l d" using advance_after [OF adv] run by (simp add: bs)
    ultimately show ?thesis by (simp add: checkpoint_after_def)
  qed
  then show ?thesis using run by blast
qed

section \<open>What a relayed plan rests on\<close>

text \<open>One envelope that counts: a trusted, valid, unrevoked key signed this checkpoint.\<close>

definition counted_checkpoint_signature ::
  "pylib \<Rightarrow> ed25519 \<Rightarrow> CentralScoreCheckpoint \<Rightarrow> int \<Rightarrow> string \<Rightarrow> CheckpointTrustPolicy
   \<Rightarrow> CheckpointSignatureEnvelope \<Rightarrow> TrustedCheckpointKey \<Rightarrow> bool" where
  "counted_checkpoint_signature L V c now message p e k \<longleftrightarrow>
     k \<in> set (cp_keys p) \<and> tk_id k = se_signer e \<and> se_checkpoint_digest e = ck_digest c
     \<and> se_message_digest e = sha256_hex L message \<and> tk_from k \<le> ck_issued c \<and> ck_expires c \<le> tk_until k
     \<and> now < tk_until k \<and> opt_ok (\<lambda>r. now < r) (tk_revoked k)
     \<and> (\<exists>sig pub. decode_base64 64 (se_signature e) = Inr sig
          \<and> decode_ed25519_public_key_base64 (tk_public_key k) = Inr pub \<and> V pub sig message)"

lemma checkpoint_key_same: "checkpoint_key_validate L k = Inr k' \<Longrightarrow> k' = k"
  unfolding checkpoint_key_validate_def by (elim res_bindE reject_ifE) simp

lemma checkpoint_policy_validate_Inr:
  assumes "checkpoint_policy_validate L p = Inr q"
  shows "checkpoint_policy_fields p" and "distinct (map tk_id (cp_keys p))"
    and "\<forall>k\<in>set (cp_keys p). checkpoint_key_validate L k = Inr k"
proof -
  obtain ks where C: "checkpoint_policy_fields p" "mapM (checkpoint_key_validate L) (cp_keys p) = Inr ks"
      "map tk_id (cp_keys p) = sorted_set (map tk_id (cp_keys p))"
    using assms unfolding checkpoint_policy_validate_def by (elim res_bindE reject_ifE) simp
  show "checkpoint_policy_fields p" by (rule C(1))
  show "distinct (map tk_id (cp_keys p))" using C(3) by (metis sorted_set_distinct)
  show "\<forall>k\<in>set (cp_keys p). checkpoint_key_validate L k = Inr k" by (rule mapM_same(2) [OF C(2) checkpoint_key_same])
qed

lemma checkpoint_public_keys_Some:
  assumes "checkpoint_public_keys p = Inr kvs" and "distinct (map tk_id (cp_keys p))"
    and "k \<in> set (cp_keys p)" and "dict_of kvs (tk_id k) = Some pub"
  shows "decode_ed25519_public_key_base64 (tk_public_key k) = Inr pub"
proof -
  have kvs: "mapM (\<lambda>k. res_bind (decode_ed25519_public_key_base64 (tk_public_key k)) (\<lambda>b. Inr (tk_id k, b))) (cp_keys p) = Inr kvs"
    using assms(1) by (auto simp: checkpoint_public_keys_def split: sum.splits)
  obtain k' where "k' \<in> set (cp_keys p)" "tk_id k' = tk_id k"
      "decode_ed25519_public_key_base64 (tk_public_key k') = Inr pub"
    using mapM_in [OF kvs dict_of_Some [OF assms(4)]] by auto
  then show ?thesis using assms(2,3) by (metis distinct_map inj_onD)
qed

lemma checkpoint_envelope_Inr:
  assumes "verify_checkpoint_envelope L V c now message public_keys p ks e = Inr ks'"
    and "checkpoint_public_keys p = Inr public_keys" and "distinct (map tk_id (cp_keys p))"
  obtains k where "ks' = ks @ [k]" and "counted_checkpoint_signature L V c now message p e k"
proof -
  obtain k where k: "dict_of (map (\<lambda>k. (tk_id k, k)) (cp_keys p)) (se_signer e) = Some k"
    using assms(1) unfolding verify_checkpoint_envelope_def by (auto split: option.splits)
  have in_keys: "k \<in> set (cp_keys p)" "tk_id k = se_signer e" using dict_of_Some [OF k] by auto
  obtain pub where pub: "dict_of public_keys (tk_id k) = Some pub"
    using assms(1) k unfolding verify_checkpoint_envelope_def
    by (cases "dict_of public_keys (tk_id k)") auto
  have dec: "decode_ed25519_public_key_base64 (tk_public_key k) = Inr pub"
    by (rule checkpoint_public_keys_Some [OF assms(2,3) in_keys(1) pub])
  have "ks' = ks @ [k] \<and> counted_checkpoint_signature L V c now message p e k"
    using assms(1) k pub dec in_keys unfolding verify_checkpoint_envelope_def counted_checkpoint_signature_def
    by (auto simp: not_less not_le)
  then show ?thesis using that by blast
qed

text \<open>The keys behind the accepted envelopes.\<close>

lemma checkpoint_signatures_Inr:
  assumes "checkpoint_policy_validate L p = Inr p" and "checkpoint_public_keys p = Inr public_keys"
    and "verify_checkpoint_signatures L V i p public_keys = Inr (signers, granted)"
    and "sorted_wrt (<) (map se_signer (in_signatures i))"
  obtains message ks where "checkpoint_signature_message L (in_checkpoint i) = Inr message"
    and "list_all2 (counted_checkpoint_signature L V (in_checkpoint i) (in_evaluation i) message p) (in_signatures i) ks"
    and "signers = map se_signer (in_signatures i)" and "granted = sorted_set (concat (map tk_roles ks))"
    and "set ks \<subseteq> set (cp_keys p)" and "cp_threshold p \<le> int (length signers)"
    and "set (cp_required_roles p) \<subseteq> set granted" and "map tk_id ks = signers"
proof -
  note keys = checkpoint_policy_validate_Inr(2) [OF assms(1)]
  obtain message ks where m: "checkpoint_signature_message L (in_checkpoint i) = Inr message"
    and fold: "foldM (verify_checkpoint_envelope L V (in_checkpoint i) (in_evaluation i) message public_keys p) []
                 (in_signatures i) = Inr ks"
    and thr: "cp_threshold p \<le> int (length ks)" and req: "set (cp_required_roles p) \<subseteq> set (concat (map tk_roles ks))"
    and res: "signers = sort (map tk_id ks)" "granted = sorted_set (concat (map tk_roles ks))"
    using assms(3) unfolding verify_checkpoint_signatures_def by (auto simp: not_less)
  have all: "list_all2 (counted_checkpoint_signature L V (in_checkpoint i) (in_evaluation i) message p) (in_signatures i) ks"
    using fold by (rule foldM_invariant)
      (auto elim!: checkpoint_envelope_Inr [OF _ assms(2) keys] intro: list_all2_appendI)
  then have ids: "map tk_id ks = map se_signer (in_signatures i)"
    by (induction rule: list_all2_induct) (auto simp: counted_checkpoint_signature_def)
  have sub: "set ks \<subseteq> set (cp_keys p)"
    using all by (induction rule: list_all2_induct) (auto simp: counted_checkpoint_signature_def)
  have "sorted (map se_signer (in_signatures i))" using assms(4) by (simp add: strict_sorted_iff)
  then have signers: "signers = map se_signer (in_signatures i)" by (simp add: res ids sorted_sort_id)
  have "cp_threshold p \<le> int (length signers)" using thr by (simp add: res)
  moreover have "set (cp_required_roles p) \<subseteq> set granted" using req by (simp add: res)
  moreover have "map tk_id ks = signers" by (simp only: ids signers)
  ultimately show thesis by (rule that [OF m all signers res(2) sub])
qed

lemma input_validate_Inr:
  assumes "input_validate L i = Inr j"
  shows "j = i" and "checkpoint_validate L (in_checkpoint i) = Inr (in_checkpoint i)"
    and "report_validate L (in_report i) = Inr (in_report i)"
    and "checkpoint_state_validate L (in_state i) = Inr (in_state i)"
    and "sorted_wrt (<) (map se_signer (in_signatures i))" and "in_range 0 max_epoch (in_evaluation i)"
    and "length (in_signatures i) \<le> 16" and "digest_text (in_digest i)" and "in_range 0 65535 (vi_uid (in_validator i))"
    and "hotkey_text (vi_hotkey (in_validator i))" and "digest_text (rm_digest (in_metagraph i))"
    and "relay_metagraph_validate L (in_metagraph i) = Inr (in_metagraph i)"
proof -
  obtain c r s m v where I: "j = i" "checkpoint_validate L (in_checkpoint i) = Inr c" "report_validate L (in_report i) = Inr r"
      "checkpoint_state_validate L (in_state i) = Inr s" "relay_metagraph_validate L (in_metagraph i) = Inr m"
      "identity_validate (in_validator i) = Inr v" "in_range 0 max_epoch (in_evaluation i)"
      "length (in_signatures i) \<le> 16" "digest_text (in_digest i)"
      "map se_signer (in_signatures i) = sorted_set (map se_signer (in_signatures i))"
    using assms unfolding input_validate_def by (elim res_bindE reject_ifE) simp
  show "j = i" "in_range 0 max_epoch (in_evaluation i)" "length (in_signatures i) \<le> 16" "digest_text (in_digest i)"
    by (rule I)+
  show "checkpoint_validate L (in_checkpoint i) = Inr (in_checkpoint i)" using I(2) checkpoint_validate_Inr(1) by metis
  show "report_validate L (in_report i) = Inr (in_report i)" using I(3) report_validate_Inr(1) by metis
  show "checkpoint_state_validate L (in_state i) = Inr (in_state i)" using I(4) by (simp add: checkpoint_state_validate_Inr)
  show "sorted_wrt (<) (map se_signer (in_signatures i))" using I(10) by (simp only: sorted_set_id_iff)
  show "in_range 0 65535 (vi_uid (in_validator i))" "hotkey_text (vi_hotkey (in_validator i))"
    using I(6) by (auto simp: identity_validate_def)
  have "m = in_metagraph i \<and> digest_text (rm_digest (in_metagraph i))"
    using I(5) unfolding relay_metagraph_validate_def by (elim res_bindE reject_ifE) simp
  then show "digest_text (rm_digest (in_metagraph i))" "relay_metagraph_validate L (in_metagraph i) = Inr (in_metagraph i)"
    using I(5) by simp_all
qed

lemma trust_and_freshness_Inr:
  "verify_trust_and_freshness i p = Inr () \<longleftrightarrow>
     in_trust_policy i = cp_digest p \<and> ck_trust_policy (in_checkpoint i) = cp_digest p
     \<and> ck_authority (in_checkpoint i) = cp_authority p \<and> ck_scoring_policy (in_checkpoint i) = cp_scoring_policy p
     \<and> cp_from p \<le> in_evaluation i \<and> in_evaluation i < cp_until p \<and> cp_from p \<le> ck_issued (in_checkpoint i)
     \<and> ck_expires (in_checkpoint i) \<le> cp_until p
     \<and> ck_expires (in_checkpoint i) - ck_issued (in_checkpoint i) \<le> cp_max_lifetime p
     \<and> ck_evaluation (in_checkpoint i) \<le> in_evaluation i + cp_max_skew p
     \<and> in_evaluation i < ck_expires (in_checkpoint i)
     \<and> in_evaluation i - ck_evaluation (in_checkpoint i) \<le> max 0 (cp_max_age p)"
  unfolding verify_trust_and_freshness_def Let_def by auto

lemma report_binding_Inr:
  "verify_report_binding L i = Inr () \<longleftrightarrow>
     csr_digest (in_report i) = ck_report_digest (in_checkpoint i)
     \<and> csr_input_snapshot (in_report i) = ck_input_snapshot (in_checkpoint i)
     \<and> csr_vector_digest (in_report i) = ck_report_vector (in_checkpoint i)
     \<and> csr_height (in_report i) = ck_height (in_checkpoint i) \<and> csr_block_hash (in_report i) = ck_block_hash (in_checkpoint i)
     \<and> csr_authority (in_report i) = ck_authority (in_checkpoint i)
     \<and> csr_policy_digest (in_report i) = ck_scoring_policy (in_checkpoint i)
     \<and> ck_vector (in_checkpoint i) = map report_entry (csr_scores (in_report i))
     \<and> ck_vector_digest (in_checkpoint i) = sha_json L (JList (map score_entry_document (map report_entry (csr_scores (in_report i)))))"
  unfolding verify_report_binding_def Let_def by auto

lemma metagraph_binding_Inr:
  "verify_metagraph_binding i = Inr () \<longleftrightarrow>
     in_validator i = rm_validator (in_metagraph i) \<and> rm_network (in_metagraph i) = ''finney'' \<and> rm_netuid (in_metagraph i) = 24
     \<and> rm_height (in_metagraph i) = ck_height (in_checkpoint i) \<and> rm_block_hash (in_metagraph i) = ck_block_hash (in_checkpoint i)
     \<and> rm_epoch (in_metagraph i) = ck_epoch (in_checkpoint i)
     \<and> map ce_key (ck_vector (in_checkpoint i)) = map mm_key (rm_mappings (in_metagraph i))"
proof -
  have "length xs = length ys \<and> fst ` set xs = fst ` set ys" if "xs = ys" for xs ys :: "(int \<times> string) list"
    using that by simp
  moreover have "length (map ce_key v) = length (map mm_key m)" if "map ce_key v = map mm_key m" for v m
    using that by (rule arg_cong)
  ultimately show ?thesis unfolding verify_metagraph_binding_def Let_def by (auto simp del: length_map set_map)
qed

lemma relay_Inr:
  assumes "verify_checkpoint_and_build_relay L V i p = Inr res"
  obtains public_keys signers granted ws where "checkpoint_public_keys p = Inr public_keys" and "input_validate L i = Inr i"
    and "checkpoint_policy_validate L p = Inr p" and "verify_trust_and_freshness i p = Inr ()"
    and "verify_report_binding L i = Inr ()"
    and "verify_checkpoint_signatures L V i p public_keys = Inr (signers, granted)"
    and "advance_checkpoint_chain_state L (in_state i) (in_checkpoint i) p = Inr (rr_state res)"
    and "verify_metagraph_binding i = Inr ()" and "normalize_score_vector (ck_vector (in_checkpoint i)) = Inr ws"
    and "rp_weights (rr_plan res) = ws" and "relay_plan_validate L (rr_plan res) = Inr (rr_plan res)"
    and "rp_expires (rr_plan res) = ck_expires (in_checkpoint i)" and "rp_hotkey (rr_plan res) = vi_hotkey (in_validator i)"
    and "vr_signers (rr_verification res) = signers" and "vr_roles (rr_verification res) = granted"
proof -
  obtain pk j q signers granted ns ws r pl where R: "checkpoint_public_keys p = Inr pk" "input_validate L i = Inr j"
    "checkpoint_policy_validate L p = Inr q" "verify_trust_and_freshness j q = Inr ()" "verify_report_binding L j = Inr ()"
    "verify_checkpoint_signatures L V j q pk = Inr (signers, granted)"
    "advance_checkpoint_chain_state L (in_state j) (in_checkpoint j) q = Inr ns" "verify_metagraph_binding j = Inr ()"
    "normalize_score_vector (ck_vector (in_checkpoint j)) = Inr ws"
    "verification_validate L (relay_verification_draft L j q signers granted ns ws) = Inr r"
    "relay_plan_validate L (relay_plan_draft L j (vr_digest r) ns ws) = Inr pl"
    "res = \<lparr>rr_verification = r, rr_plan = pl, rr_state = ns\<rparr>"
    using assms unfolding verify_checkpoint_and_build_relay_def by auto
  have same: "j = i" "q = p" using R(2,3) input_validate_Inr(1) checkpoint_policy_validate_same by blast+
  have r: "r = relay_verification_draft L i p signers granted ns ws"
    using R(10) unfolding same verification_validate_def by (elim reject_ifE) simp
  have pl: "pl = relay_plan_draft L i (vr_digest r) ns ws"
    using R(11) unfolding same relay_plan_validate_def by (elim res_bindE reject_ifE) simp
  show thesis
    using R that [of pk signers granted ws] unfolding same
    by (simp add: r pl relay_plan_draft_def relay_verification_draft_def Let_def)
qed

text \<open>
  C4: A relay plan is built only from a checkpoint that the trust policy authorises and that
  is fresh: every envelope was signed over this checkpoint by a distinct trusted key that is
  valid and not revoked, they reach the threshold and cover the required roles; the score
  vector is the one of the report bound to it, which follows from the availability inside;
  it covers exactly the miners of the finalized metagraph in its order; and the weights of
  the plan are its normalisation, with the exact total.
\<close>

theorem relay_plan_authorised:
  assumes "verify_checkpoint_and_build_relay L V i p = Inr res"
  shows "\<exists>message ks ws.
     checkpoint_signature_message L (in_checkpoint i) = Inr message
     \<and> list_all2 (counted_checkpoint_signature L V (in_checkpoint i) (in_evaluation i) message p) (in_signatures i) ks
     \<and> distinct (map tk_id ks) \<and> cp_threshold p \<le> int (length ks)
     \<and> set (cp_required_roles p) \<subseteq> \<Union> (set ` tk_roles ` set ks)
     \<and> in_evaluation i < ck_expires (in_checkpoint i)
     \<and> in_evaluation i - ck_evaluation (in_checkpoint i) \<le> cp_max_age p
     \<and> ck_vector (in_checkpoint i) = map (report_entry \<circ> score_row L) (miners (csr_availability (in_report i)))
     \<and> map ce_key (ck_vector (in_checkpoint i)) = map mm_key (rm_mappings (in_metagraph i))
     \<and> normalize_score_vector (ck_vector (in_checkpoint i)) = Inr ws \<and> rp_weights (rr_plan res) = ws
     \<and> sum_list (map we_weight ws) = 65535"
proof -
  obtain public_keys signers granted ws where R: "checkpoint_public_keys p = Inr public_keys" "input_validate L i = Inr i"
    "checkpoint_policy_validate L p = Inr p" "verify_trust_and_freshness i p = Inr ()" "verify_report_binding L i = Inr ()"
    "verify_checkpoint_signatures L V i p public_keys = Inr (signers, granted)" "verify_metagraph_binding i = Inr ()"
    "normalize_score_vector (ck_vector (in_checkpoint i)) = Inr ws" "rp_weights (rr_plan res) = ws"
    "relay_plan_validate L (rr_plan res) = Inr (rr_plan res)"
    using assms by (rule relay_Inr)
  note I = input_validate_Inr [OF R(2)]
  obtain message ks where S: "checkpoint_signature_message L (in_checkpoint i) = Inr message"
    "list_all2 (counted_checkpoint_signature L V (in_checkpoint i) (in_evaluation i) message p) (in_signatures i) ks"
    "signers = map se_signer (in_signatures i)" "granted = sorted_set (concat (map tk_roles ks))"
    "cp_threshold p \<le> int (length signers)" "set (cp_required_roles p) \<subseteq> set granted" "map tk_id ks = signers"
    by (rule checkpoint_signatures_Inr [OF R(3,1,6) I(5)])
  have "distinct (map tk_id ks)" using I(5) by (simp only: S(7,3) strict_sorted_iff)
  moreover have "length ks = length signers" using S(7) by (metis length_map)
  moreover have "csr_scores (in_report i) = map (score_row L) (miners (csr_availability (in_report i)))"
    using report_validate_Inr(3) [OF I(3)] by (simp add: derive_miner_scores_def)
  moreover have "sum_list (map we_weight ws) = 65535"
    using R(9,10) unfolding relay_plan_validate_def by (elim res_bindE reject_ifE) simp
  moreover have "0 \<le> cp_max_age p"
    using checkpoint_policy_validate_Inr(1) [OF R(3)] by (simp add: checkpoint_policy_fields_def)
  ultimately show ?thesis
    using R(4,5,7,8,9) S
    by (intro exI [of _ message] exI [of _ ks] exI [of _ ws])
      (auto simp: trust_and_freshness_Inr report_binding_Inr metagraph_binding_Inr)
qed

section \<open>The relay answers\<close>

lemma checkpoint_roles_few:
  assumes "list_all checkpoint_role rs" and "distinct rs"
  shows "length rs \<le> 3"
proof -
  have "set rs \<subseteq> set [''checkpoint_auditor'', ''checkpoint_issuer'', ''checkpoint_security'']"
    using assms(1) by (auto simp: list_all_iff checkpoint_role_def)
  then have "card (set rs) \<le> card (set [''checkpoint_auditor'', ''checkpoint_issuer'', ''checkpoint_security''])"
    by (rule card_mono [rotated]) simp
  also have "\<dots> \<le> 3" using card_length by (metis length_Cons list.size(3) numeral_3_eq_3)
  finally show ?thesis using assms(2) by (simp add: distinct_card)
qed

lemma checkpoint_key_fields:
  "checkpoint_key_validate L k = Inr k \<Longrightarrow> key_id_text (tk_id k) \<and> tk_roles k \<noteq> [] \<and> list_all checkpoint_role (tk_roles k)"
  unfolding checkpoint_key_validate_def by (elim res_bindE reject_ifE) auto

text \<open>The signers and roles a verification reports pass the report's own validator.\<close>

lemma verified_lists_ok:
  assumes "checkpoint_policy_validate L p = Inr p" and "set ks \<subseteq> set (cp_keys p)" and "ks \<noteq> []" and "length ks \<le> 16"
    and "map tk_id ks = signers" and "sorted_wrt (<) signers" and "granted = sorted_set (concat (map tk_roles ks))"
  shows "1 \<le> length signers \<and> length signers \<le> 16 \<and> list_all key_id_text signers \<and> signers = sorted_set signers
    \<and> 1 \<le> length granted \<and> length granted \<le> 3 \<and> list_all checkpoint_role granted \<and> granted = sorted_set granted"
proof -
  have keys: "\<forall>k\<in>set ks. key_id_text (tk_id k) \<and> tk_roles k \<noteq> [] \<and> list_all checkpoint_role (tk_roles k)"
    using checkpoint_policy_validate_Inr(3) [OF assms(1)] assms(2) checkpoint_key_fields by blast
  have len: "length signers = length ks" using assms(5) by (metis length_map)
  have roles: "list_all checkpoint_role granted" using keys by (auto simp: assms(7) list_all_iff)
  obtain k where "k \<in> set ks" using assms(3) by (cases ks) auto
  then have "set granted \<noteq> {}" using keys by (auto simp: assms(7))
  then have "1 \<le> length granted" by (cases granted) auto
  moreover have "length granted \<le> 3" by (rule checkpoint_roles_few [OF roles]) (simp add: assms(7))
  moreover have "granted = sorted_set granted" using sorted_set_strict unfolding assms(7) sorted_set_id_iff .
  moreover have "signers = sorted_set signers" using assms(6) by (simp only: sorted_set_id_iff)
  moreover have "list_all key_id_text signers" using keys by (auto simp: list_all_iff assms(5) [symmetric])
  moreover have "1 \<le> length signers" using assms(3) len by (cases ks) auto
  ultimately show ?thesis using roles len assms(4) by simp
qed

text \<open>The two documents a relay seals pass their own validators.\<close>

lemma verification_draft_valid:
  assumes "\<And>d. digest_text (sha_json L d)" and "input_validate L i = Inr i" and "checkpoint_policy_validate L p = Inr p"
    and "checkpoint_state_validate L ns = Inr ns"
    and "1 \<le> length signers \<and> length signers \<le> 16 \<and> list_all key_id_text signers \<and> signers = sorted_set signers
      \<and> 1 \<le> length granted \<and> length granted \<le> 3 \<and> list_all checkpoint_role granted \<and> granted = sorted_set granted"
  shows "verification_validate L (relay_verification_draft L i p signers granted ns ws)
    = Inr (relay_verification_draft L i p signers granted ns ws)"
proof -
  let ?c = "in_checkpoint i"
  note I = input_validate_Inr [OF assms(2)]
  have "digest_text (ccs_digest (in_state i))" "digest_text (ccs_digest ns)"
    using assms(1,4) I(4) by (simp_all add: checkpoint_state_validate_Inr checkpoint_state_fields_def)
  moreover have "digest_text (ck_digest ?c)" "digest_text (ck_report_digest ?c)" "digest_text (ck_input_snapshot ?c)"
    "digest_text (ck_vector_digest ?c)"
    using checkpoint_validate_Inr(2) [OF I(2)] by (simp_all add: checkpoint_fields_def)
  moreover have "digest_text (cp_digest p)"
    using checkpoint_policy_validate_Inr(1) [OF assms(3)] by (simp add: checkpoint_policy_fields_def)
  ultimately show ?thesis
    using assms(1,5) I(6,8,9,10,11)
    by (simp add: verification_validate_def relay_verification_draft_def Let_def verification_unsigned_def)
qed

lemma relay_plan_draft_valid:
  assumes "\<And>d. digest_text (sha_json L d)" and "input_validate L i = Inr i"
    and "checkpoint_state_validate L ns = Inr ns" and "digest_text d"
    and "\<exists>e\<in>set (ck_vector (in_checkpoint i)). 0 < ce_ppm e"
    and "normalize_score_vector (ck_vector (in_checkpoint i)) = Inr ws"
  shows "relay_plan_validate L (relay_plan_draft L i d ns ws) = Inr (relay_plan_draft L i d ns ws)"
proof -
  let ?c = "in_checkpoint i" and ?v = "ck_vector (in_checkpoint i)"
  note I = input_validate_Inr [OF assms(2)] and C = checkpoint_validate_Inr [OF input_validate_Inr(2) [OF assms(2)]]
  have keys: "distinct (map ce_key ?v)" using C(4) by (simp add: strict_sorted_iff)
  have ws: "ws = map (\<lambda>e. \<lparr>we_uid = ce_uid e, we_hotkey = ce_hotkey e, we_status = ce_status e, we_ppm = ce_ppm e,
      we_weight = relay_share ?v e\<rparr>) ?v"
    using relay_normalize_exact [OF C(3) keys assms(5)] assms(6) by simp
  have "map we_key ws = map ce_key ?v" "map we_uid ws = map ce_uid ?v" "map we_hotkey ws = map ce_hotkey ?v" "length ws = length ?v"
    by (simp_all add: ws comp_def)
  moreover have "sum_list (map we_weight ws) = 65535"
    using relay_share_total [OF keys score_total_pos [OF assms(5)]] by (simp add: ws comp_def)
  moreover have "map ce_key ?v = sorted_set (map ce_key ?v)" using C(4) by (simp only: sorted_set_id_iff)
  moreover have "digest_text (ccs_digest ns)"
    using assms(1,3) by (simp add: checkpoint_state_validate_Inr checkpoint_state_fields_def)
  moreover have "digest_text (ck_digest ?c)" "digest_text (ck_report_digest ?c)" "digest_text (ck_input_snapshot ?c)"
    "digest_text (ck_vector_digest ?c)" "digest_text (ck_block_hash ?c)" "in_range 0 max_epoch (ck_height ?c)"
    "in_range 0 max_epoch (ck_epoch ?c)" "in_range 0 max_epoch (ck_expires ?c)" "1 \<le> length ?v" "length ?v \<le> 4096"
    using C(2) by (simp_all add: checkpoint_fields_def)
  ultimately show ?thesis
    using assms(1,4) I(8-11) normalize_valid [OF assms(6)] C(5,6)
    by (simp add: relay_plan_validate_def relay_plan_draft_def Let_def relay_plan_unsigned_def)
qed

text \<open>
  C33: The relay answers: when each of the verification steps accepts and some miner has a
  positive score, the verification report and the plan are built and pass their own
  validators, and the next chain state is the advanced one; sealing never fails after the
  checks.
\<close>

theorem relay_builds:
  assumes "\<And>d. digest_text (sha_json L d)" and "checkpoint_public_keys p = Inr public_keys" and "input_validate L i = Inr i"
    and "checkpoint_policy_validate L p = Inr p" and "verify_trust_and_freshness i p = Inr ()"
    and "verify_report_binding L i = Inr ()"
    and "verify_checkpoint_signatures L V i p public_keys = Inr (signers, granted)"
    and "advance_checkpoint_chain_state L (in_state i) (in_checkpoint i) p = Inr ns"
    and "verify_metagraph_binding i = Inr ()" and "\<exists>e\<in>set (ck_vector (in_checkpoint i)). 0 < ce_ppm e"
  shows "\<exists>res. verify_checkpoint_and_build_relay L V i p = Inr res \<and> rr_state res = ns"
proof -
  let ?c = "in_checkpoint i" and ?v = "ck_vector (in_checkpoint i)"
  note I = input_validate_Inr [OF assms(3)] and C = checkpoint_validate_Inr [OF input_validate_Inr(2) [OF assms(3)]]
  have keys: "distinct (map ce_key ?v)" using C(4) by (simp add: strict_sorted_iff)
  obtain ws where N: "normalize_score_vector ?v = Inr ws" using relay_normalize_exact [OF C(3) keys assms(10)] by blast
  obtain message ks where S: "signers = map se_signer (in_signatures i)" "granted = sorted_set (concat (map tk_roles ks))"
    "set ks \<subseteq> set (cp_keys p)" "cp_threshold p \<le> int (length signers)" "map tk_id ks = signers"
    using checkpoint_signatures_Inr [OF assms(4,2,7) I(5)] by metis
  have len: "length ks = length signers" using S(5) by (metis length_map)
  have "ks \<noteq> []"
    using S(4) checkpoint_policy_validate_Inr(1) [OF assms(4)] len by (auto simp: checkpoint_policy_fields_def)
  moreover have "length ks \<le> 16" using I(7) len S(1) by simp
  ultimately have lists: "1 \<le> length signers \<and> length signers \<le> 16 \<and> list_all key_id_text signers \<and> signers = sorted_set signers
      \<and> 1 \<le> length granted \<and> length granted \<le> 3 \<and> list_all checkpoint_role granted \<and> granted = sorted_set granted"
    using S(3,5) I(5) by (intro verified_lists_ok [OF assms(4) _ _ _ _ _ S(2)]) (simp_all add: S(1))
  note state = advance_checkpoint_Inr(4) [OF assms(8)]
  note report = verification_draft_valid [OF assms(1,3,4) state lists, of ws]
  have "digest_text (vr_digest (relay_verification_draft L i p signers granted ns ws))"
    using assms(1) by (simp add: relay_verification_draft_def Let_def)
  note plan = relay_plan_draft_valid [OF assms(1,3) state this assms(10) N]
  show ?thesis
    using assms N report plan by (simp add: verify_checkpoint_and_build_relay_def)
qed

end
