(* ===== verification/RelayScenario.thy ===== *)
theory RelayScenario
  imports CheckpointRelay Scenario
begin

text \<open>
  The run of theory \<^verbatim>\<open>Scenario\<close> carried into the checkpoint relay: the central report over
  its window score, a trust policy with one key, two linked checkpoints, the finalized view
  of the relaying validator, and the relay plan. Every digest is sixty-four zeros and every
  signature verifies, as there.
\<close>

section \<open>The report\<close>

definition demo_scoring :: OrganicScoringPolicy where
  "demo_scoring = \<lparr>sp_epoch_seconds = 300, sp_probes_per_endpoint = 1, sp_min_attempts = 1\<rparr>"

lemma demo_scoring_valid: "scoring_policy_validate demo_scoring = Inr demo_scoring"
  by (simp add: scoring_policy_validate_def demo_scoring_def)

definition demo_score_row :: MinerScoreRecord where
  "demo_score_row = \<lparr>msr_uid = 5, msr_hotkey = ''miner'', msr_status = MinerEligible, msr_reasons = [''eligible''],
     msr_epochs = 1, msr_numerator = 1, msr_denominator = 1, msr_fraud = 0, msr_ppm = 1000000, msr_digest = zeros\<rparr>"

definition demo_report :: CanonicalScoreReport where
  "demo_report = \<lparr>csr_policy_digest = zeros, csr_policy = demo_scoring, csr_input_snapshot = zeros,
     csr_authority = ones, csr_height = 1010, csr_block_hash = ones, csr_availability = demo_score,
     csr_eligible_count = 1, csr_ineligible_count = 0, csr_scores = [demo_score_row],
     csr_vector_digest = zeros, csr_digest = zeros\<rparr>"

lemma demo_score_rows: "derive_miner_scores demo_lib demo_score = [demo_score_row]"
  by (simp add: derive_miner_scores_def demo_score_def score_row_def demo_score_row_def Let_def)

lemma demo_row_valid: "row_validate demo_lib demo_score_row = Inr demo_score_row"
  by (simp add: row_validate_def demo_score_row_def zeros_digest demo_texts)

lemma demo_report_valid: "report_validate demo_lib demo_report = Inr demo_report"
proof -
  have "eligible_number [demo_score_row] = 1" by (simp add: eligible_number_def demo_score_row_def)
  moreover have "as_epoch_seconds demo_score = 300" "score_digest demo_score = zeros" "sp_epoch_seconds demo_scoring = 300"
    by (simp_all add: demo_score_def demo_scoring_def)
  ultimately show ?thesis
    using demo_score_valid demo_scoring_valid demo_row_valid demo_score_rows
    by (simp add: report_validate_def report_fields_def demo_report_def zeros_digest vector_digest_def)
qed

section \<open>The checkpoint\<close>

definition demo_relay_key :: TrustedCheckpointKey where
  "demo_relay_key = \<lparr>tk_id = ''issuer'', tk_public_key = b64encode (replicate 32 (CHR ''k'')), tk_public_sha256 = zeros,
     tk_roles = [''checkpoint_issuer''], tk_purposes = [checkpoint_purpose], tk_from = 1600000000,
     tk_until = 1800000000, tk_revoked = None\<rparr>"

definition demo_relay_policy :: CheckpointTrustPolicy where
  "demo_relay_policy = \<lparr>cp_authority = ones, cp_scoring_policy = zeros, cp_threshold = 1,
     cp_required_roles = [''checkpoint_issuer''], cp_keys = [demo_relay_key], cp_from = 1600000000,
     cp_until = 1800000000, cp_max_age = 3600, cp_max_skew = 30, cp_max_lifetime = 7200,
     cp_max_sequence_gap = 4, cp_max_height_gap = 1000, cp_digest = zeros\<rparr>"

definition demo_checkpoint :: CentralScoreCheckpoint where
  "demo_checkpoint = \<lparr>ck_authority = ones, ck_scoring_policy = zeros, ck_trust_policy = zeros, ck_height = 1010,
     ck_block_hash = ones, ck_epoch = 2, ck_input_snapshot = zeros, ck_report_digest = zeros,
     ck_report_vector = zeros, ck_vector = [report_entry demo_score_row], ck_vector_digest = zeros, ck_sequence = 1,
     ck_issued = 1700000100, ck_evaluation = 1700000110, ck_expires = 1700003700, ck_previous = None, ck_digest = zeros\<rparr>"

definition demo_successor :: CentralScoreCheckpoint where
  "demo_successor = demo_checkpoint\<lparr>ck_sequence := 2, ck_previous := Some zeros, ck_height := 1110, ck_block_hash := zeros,
     ck_issued := 1700000400, ck_evaluation := 1700000410\<rparr>"

lemma demo_entry: "report_entry demo_score_row = \<lparr>ce_uid = 5, ce_hotkey = ''miner'', ce_status = MinerEligible,
    ce_ppm = 1000000, ce_record_digest = zeros\<rparr>"
  by (simp add: report_entry_def demo_score_row_def)

lemma demo_entry_valid: "entry_validate (report_entry demo_score_row) = Inr (report_entry demo_score_row)"
  by (simp add: demo_entry entry_validate_def zeros_digest demo_texts)

lemma demo_checkpoints_valid:
  "checkpoint_validate demo_lib demo_checkpoint = Inr demo_checkpoint"
  "checkpoint_validate demo_lib demo_successor = Inr demo_successor"
  using demo_entry_valid
  by (simp_all add: checkpoint_validate_def checkpoint_fields_def demo_checkpoint_def demo_successor_def zeros_digest sorted_set_def)

lemma demo_relay_key_valid: "checkpoint_key_validate demo_lib demo_relay_key = Inr demo_relay_key"
  by (simp add: checkpoint_key_validate_def demo_relay_key_def decode_ed25519_public_key_base64_def demo_key_bytes
      zeros_digest length_b64encode checkpoint_role_def demo_texts sorted_set_def)

lemma demo_relay_policy_valid: "checkpoint_policy_validate demo_lib demo_relay_policy = Inr demo_relay_policy"
proof -
  have "tk_id demo_relay_key = ''issuer''" "tk_roles demo_relay_key = [''checkpoint_issuer'']" by (simp_all add: demo_relay_key_def)
  then show ?thesis
    using demo_relay_key_valid
    by (simp add: checkpoint_policy_validate_def checkpoint_policy_fields_def demo_relay_policy_def zeros_digest
        checkpoint_role_def sorted_set_def)
qed

lemma demo_relay_policy_sel:
  "cp_authority demo_relay_policy = ones" "cp_scoring_policy demo_relay_policy = zeros" "cp_digest demo_relay_policy = zeros"
  "cp_max_sequence_gap demo_relay_policy = 4" "cp_max_height_gap demo_relay_policy = 1000" "cp_threshold demo_relay_policy = 1"
  "cp_required_roles demo_relay_policy = [''checkpoint_issuer'']" "cp_keys demo_relay_policy = [demo_relay_key]"
  by (simp_all add: demo_relay_policy_def)

definition demo_relay_genesis :: CheckpointChainState where
  "demo_relay_genesis = \<lparr>ccs_authority = ones, ccs_scoring_policy = zeros, ccs_trust_policy = zeros, ccs_count = 0,
     ccs_sequence = 0, ccs_height = None, ccs_block_hash = None, ccs_epoch = None, ccs_issued = None,
     ccs_evaluation = None, ccs_input_snapshot = None, ccs_report_digest = None, ccs_report_vector = None,
     ccs_vector_digest = None, ccs_checkpoint = None, ccs_digest = zeros\<rparr>"

lemma demo_relay_genesis_built: "build_initial_checkpoint_chain_state demo_lib demo_relay_policy = Inr demo_relay_genesis"
  by (simp add: build_initial_checkpoint_chain_state_def demo_relay_policy_valid demo_relay_policy_sel seal_checkpoint_state_def
      checkpoint_state_validate_def checkpoint_state_fields_def checkpoint_tail_missing_def zeros_digest demo_relay_genesis_def)

definition demo_relay_chain :: CheckpointChainState where
  "demo_relay_chain = next_checkpoint_state demo_relay_genesis demo_checkpoint"

definition demo_relay_chain_2 :: CheckpointChainState where
  "demo_relay_chain_2 = next_checkpoint_state demo_relay_chain demo_successor"

lemma demo_relay_states:
  "checkpoint_state_validate demo_lib demo_relay_genesis = Inr demo_relay_genesis"
  "seal_checkpoint_state demo_lib demo_relay_chain = Inr demo_relay_chain"
  "checkpoint_state_validate demo_lib demo_relay_chain = Inr demo_relay_chain"
  "seal_checkpoint_state demo_lib demo_relay_chain_2 = Inr demo_relay_chain_2"
  by (simp_all add: seal_checkpoint_state_def checkpoint_state_validate_def checkpoint_state_fields_def
      checkpoint_tail_missing_def zeros_digest demo_relay_genesis_def demo_relay_chain_def demo_relay_chain_2_def
      next_checkpoint_state_def demo_checkpoint_def demo_successor_def)

lemma demo_relay_advance:
  "advance_checkpoint_chain_state demo_lib demo_relay_genesis demo_checkpoint demo_relay_policy = Inr demo_relay_chain"
  using demo_relay_states(2)
  by (simp add: advance_checkpoint_chain_state_def demo_relay_states(1) demo_checkpoints_valid demo_relay_policy_valid demo_relay_chain_def)
    (simp add: demo_relay_genesis_def demo_checkpoint_def)

lemma demo_relay_advance_2:
  "advance_checkpoint_chain_state demo_lib demo_relay_chain demo_successor demo_relay_policy = Inr demo_relay_chain_2"
  using demo_relay_states(4)
  by (simp add: advance_checkpoint_chain_state_def demo_relay_states(3) demo_checkpoints_valid demo_relay_policy_valid demo_relay_chain_2_def)
    (simp add: checkpoint_link_Inr demo_relay_policy_sel,
      simp add: demo_relay_chain_def demo_relay_genesis_def next_checkpoint_state_def demo_checkpoint_def demo_successor_def)

lemma demo_relay_run:
  "append_run (relay_step demo_lib demo_relay_policy) demo_relay_genesis [demo_checkpoint, demo_successor] demo_relay_chain_2"
  using append_run.admit [OF append_run.admit [OF append_run.start], of _ demo_relay_genesis demo_checkpoint
      demo_relay_chain demo_successor demo_relay_chain_2] demo_relay_advance demo_relay_advance_2
  by (simp add: relay_step_def)

section \<open>The relay\<close>

definition demo_identity :: ExternalValidatorIdentity where
  "demo_identity = \<lparr>vi_uid = 1, vi_hotkey = ''validator'', vi_active = True\<rparr>"

definition demo_relay_view :: RelayFinalizedMetagraphSnapshot where
  "demo_relay_view = \<lparr>rm_network = ''finney'', rm_netuid = 24, rm_height = 1010, rm_block_hash = ones, rm_epoch = 2,
     rm_validator = demo_identity, rm_mappings = [\<lparr>mm_uid = 5, mm_hotkey = ''miner''\<rparr>], rm_mapping_digest = zeros,
     rm_digest = zeros\<rparr>"

definition demo_relay_envelope :: CheckpointSignatureEnvelope where
  "demo_relay_envelope = \<lparr>se_signer = ''issuer'', se_checkpoint_digest = zeros, se_message_digest = zeros,
     se_signature = b64encode (replicate 64 (CHR ''s''))\<rparr>"

definition demo_relay_input :: ExternalValidatorVerificationInput where
  "demo_relay_input = \<lparr>in_evaluation = 1700000200, in_trust_policy = zeros, in_checkpoint = demo_checkpoint,
     in_signatures = [demo_relay_envelope], in_report = demo_report, in_state = demo_relay_genesis,
     in_validator = demo_identity, in_metagraph = demo_relay_view, in_digest = zeros\<rparr>"

lemma demo_identity_valid: "identity_validate demo_identity = Inr demo_identity"
  by (simp add: identity_validate_def demo_identity_def demo_texts)

lemma demo_relay_view_valid: "relay_metagraph_validate demo_lib demo_relay_view = Inr demo_relay_view"
proof -
  have "mapping_validate \<lparr>mm_uid = 5, mm_hotkey = ''miner''\<rparr> = Inr \<lparr>mm_uid = 5, mm_hotkey = ''miner''\<rparr>"
    by (simp add: mapping_validate_def demo_texts)
  moreover have "vi_active demo_identity" "vi_uid demo_identity = 1" "vi_hotkey demo_identity = ''validator''"
    by (simp_all add: demo_identity_def)
  ultimately show ?thesis
    using demo_identity_valid
    by (simp add: relay_metagraph_validate_def demo_relay_view_def zeros_digest static_subnet_def sorted_set_def)
qed

lemma demo_relay_input_valid: "input_validate demo_lib demo_relay_input = Inr demo_relay_input"
proof -
  have "checkpoint_envelope_validate demo_relay_envelope = Inr demo_relay_envelope" "se_signer demo_relay_envelope = ''issuer''"
    by (simp_all add: checkpoint_envelope_validate_def demo_relay_envelope_def length_b64encode decode_base64_encode zeros_digest demo_texts)
  then show ?thesis
    using demo_checkpoints_valid(1) demo_report_valid demo_relay_states(1) demo_identity_valid demo_relay_view_valid
    by (simp add: input_validate_def demo_relay_input_def zeros_digest sorted_set_def)
qed

lemma demo_public_keys: "checkpoint_public_keys demo_relay_policy = Inr [(''issuer'', replicate 32 (CHR ''k''))]"
  by (simp add: checkpoint_public_keys_def demo_relay_policy_sel demo_relay_key_def decode_ed25519_public_key_base64_def demo_key_bytes)

lemma demo_fresh: "verify_trust_and_freshness demo_relay_input demo_relay_policy = Inr ()"
  by (simp add: trust_and_freshness_Inr demo_relay_input_def demo_relay_policy_def demo_checkpoint_def)

lemma demo_bound: "verify_report_binding demo_lib demo_relay_input = Inr ()"
  by (simp add: report_binding_Inr demo_relay_input_def demo_report_def demo_checkpoint_def)

lemma demo_relay_signed:
  "verify_checkpoint_signatures demo_lib demo_verify demo_relay_input demo_relay_policy [(''issuer'', replicate 32 (CHR ''k''))]
     = Inr ([''issuer''], [''checkpoint_issuer''])"
proof -
  have i: "in_checkpoint demo_relay_input = demo_checkpoint" "in_signatures demo_relay_input = [demo_relay_envelope]"
    "in_evaluation demo_relay_input = 1700000200" by (simp_all add: demo_relay_input_def)
  have c: "ck_digest demo_checkpoint = zeros" "ck_issued demo_checkpoint = 1700000100" "ck_expires demo_checkpoint = 1700003700"
    by (simp_all add: demo_checkpoint_def)
  show ?thesis
    by (simp add: verify_checkpoint_signatures_def checkpoint_signature_message_def demo_checkpoints_valid i c
      verify_checkpoint_envelope_def demo_relay_policy_sel dict_of_def)
     (simp add: demo_relay_key_def demo_relay_envelope_def decode_base64_encode sorted_set_def)
qed

lemma demo_covered: "verify_metagraph_binding demo_relay_input = Inr ()"
  by (simp add: metagraph_binding_Inr demo_relay_input_def demo_relay_view_def demo_checkpoint_def demo_entry)

section \<open>The properties on this run\<close>

theorem score_report_rows_exact_witness:
  "csr_scores demo_report = map (score_row demo_lib) (miners demo_score) \<and> msr_ppm (hd (csr_scores demo_report)) = 1000000"
proof -
  have "csr_availability demo_report = demo_score" "csr_scores demo_report = [demo_score_row]" "msr_ppm demo_score_row = 1000000"
    by (simp_all add: demo_report_def demo_score_row_def)
  then show ?thesis using score_report_rows_exact [OF demo_report_valid] by simp
qed

theorem score_report_builds_witness:
  "\<exists>r. build_canonical_score_report demo_lib demo_score demo_scoring ones 1010 ones = Inr r
     \<and> csr_scores r = [score_row demo_lib (hd (miners demo_score))]"
proof -
  have "digest_text (sha_json demo_lib d)" for d by (simp add: zeros_digest)
  moreover have "as_epoch_seconds demo_score = sp_epoch_seconds demo_scoring" "length (miners demo_score) \<le> 4096"
    by (simp_all add: demo_score_def demo_scoring_def)
  moreover have "map (score_row demo_lib) (miners demo_score) = [score_row demo_lib (hd (miners demo_score))]"
    by (simp add: demo_score_def)
  ultimately show ?thesis
    using score_report_builds [OF _ demo_score_valid demo_scoring_valid, of ones 1010 ones] by (auto simp: zeros_digest)
qed

theorem relay_weights_exact_witness:
  "\<exists>ws. normalize_score_vector
     [\<lparr>ce_uid = 3, ce_hotkey = ''a'', ce_status = MinerEligible, ce_ppm = 1000000, ce_record_digest = zeros\<rparr>,
      \<lparr>ce_uid = 5, ce_hotkey = ''b'', ce_status = MinerEligible, ce_ppm = 1000000, ce_record_digest = zeros\<rparr>]
     = Inr ws \<and> sum_list (map we_weight ws) = 65535"
proof -
  let ?v = "[\<lparr>ce_uid = 3, ce_hotkey = ''a'', ce_status = MinerEligible, ce_ppm = 1000000, ce_record_digest = zeros\<rparr>,
      \<lparr>ce_uid = 5, ce_hotkey = ''b'', ce_status = MinerEligible, ce_ppm = 1000000, ce_record_digest = zeros\<rparr>]"
  have "\<forall>e\<in>set ?v. entry_validate e = Inr e" by (simp add: entry_validate_def zeros_digest demo_texts)
  moreover have "distinct (map ce_key ?v)" "\<exists>e\<in>set ?v. 0 < ce_ppm e" by simp_all
  ultimately show ?thesis using relay_weights_exact [of ?v] by blast
qed

theorem checkpoint_chain_append_only_witness:
  "checkpoint_after demo_checkpoint demo_successor \<and> ck_sequence demo_checkpoint = 1"
  using checkpoint_chain_append_only [OF demo_relay_genesis_built demo_relay_run] by simp

theorem relay_builds_witness:
  "\<exists>res. verify_checkpoint_and_build_relay demo_lib demo_verify demo_relay_input demo_relay_policy = Inr res
     \<and> rr_state res = demo_relay_chain"
proof -
  have i: "in_state demo_relay_input = demo_relay_genesis" "in_checkpoint demo_relay_input = demo_checkpoint"
    by (simp_all add: demo_relay_input_def)
  have "\<exists>e\<in>set (ck_vector (in_checkpoint demo_relay_input)). 0 < ce_ppm e"
    unfolding i by (simp add: demo_checkpoint_def demo_entry)
  then show ?thesis
    using relay_builds [OF _ demo_public_keys demo_relay_input_valid demo_relay_policy_valid demo_fresh demo_bound
        demo_relay_signed demo_relay_advance [folded i] demo_covered]
    by (simp add: zeros_digest)
qed

text \<open>The run builds a plan; it authorises it with the one key, and gives the one miner everything.\<close>

lemma demo_relayed: "\<exists>res. verify_checkpoint_and_build_relay demo_lib demo_verify demo_relay_input demo_relay_policy = Inr res"
proof -
  have i: "in_state demo_relay_input = demo_relay_genesis" "in_checkpoint demo_relay_input = demo_checkpoint"
    by (simp_all add: demo_relay_input_def)
  have v: "\<forall>e\<in>set (ck_vector demo_checkpoint). entry_validate e = Inr e" "distinct (map ce_key (ck_vector demo_checkpoint))"
    and pos: "\<exists>e\<in>set (ck_vector demo_checkpoint). 0 < ce_ppm e"
    using demo_entry_valid by (simp_all add: demo_checkpoint_def demo_entry)
  obtain ws where N: "normalize_score_vector (ck_vector demo_checkpoint) = Inr ws" using relay_normalize_exact [OF v pos] by blast
  have d: "digest_text (sha_json demo_lib x)" for x by (simp add: zeros_digest)
  note S = demo_relay_states(3)
  have "verification_validate demo_lib (relay_verification_draft demo_lib demo_relay_input demo_relay_policy [''issuer'']
      [''checkpoint_issuer''] demo_relay_chain ws)
    = Inr (relay_verification_draft demo_lib demo_relay_input demo_relay_policy [''issuer''] [''checkpoint_issuer''] demo_relay_chain ws)"
    by (rule verification_draft_valid [OF d demo_relay_input_valid demo_relay_policy_valid S])
      (simp add: sorted_set_def checkpoint_role_def demo_texts)
  moreover have "relay_plan_validate demo_lib (relay_plan_draft demo_lib demo_relay_input zeros demo_relay_chain ws)
      = Inr (relay_plan_draft demo_lib demo_relay_input zeros demo_relay_chain ws)"
    by (rule relay_plan_draft_valid [OF d demo_relay_input_valid S]) (simp_all add: i pos N zeros_digest)
  moreover have "vr_digest (relay_verification_draft demo_lib demo_relay_input demo_relay_policy [''issuer''] [''checkpoint_issuer'']
      demo_relay_chain ws) = zeros" by (simp add: relay_verification_draft_def Let_def)
  ultimately show ?thesis
    using demo_public_keys demo_relay_input_valid demo_relay_policy_valid demo_fresh demo_bound demo_relay_signed
      demo_relay_advance demo_covered N
    by (simp add: verify_checkpoint_and_build_relay_def i)
qed

theorem relay_plan_authorised_witness:
  "\<exists>res. verify_checkpoint_and_build_relay demo_lib demo_verify demo_relay_input demo_relay_policy = Inr res
     \<and> sum_list (map we_weight (rp_weights (rr_plan res))) = 65535"
proof -
  obtain res where "verify_checkpoint_and_build_relay demo_lib demo_verify demo_relay_input demo_relay_policy = Inr res"
    using demo_relayed by blast
  then show ?thesis using relay_plan_authorised by blast
qed

end
