(* ===== verification/BridgeAuth.thy ===== *)
theory BridgeAuth
  imports CPython OrganicProbes
begin

text \<open>
  The authentication of \<^verbatim>\<open>auth.py\<close>: HMAC signatures of requests between the local
  services with their replay stores, the service key bindings of \<^verbatim>\<open>protocol.py\<close> that a
  hotkey signs, and the retry loop of the bridge client. The two SQLite stores are tables
  of nonces; a locale states what both promise and a run of requests is a fold over them.
\<close>

section \<open>Texts and numbers\<close>

text \<open>\<^verbatim>\<open>str.encode()\<close> for code points below 256.\<close>

definition utf8 :: "string \<Rightarrow> string" where
  "utf8 s = concat (map (\<lambda>c. if ord c < 128 then [c] else [char_of (192 + ord c div 64), char_of (128 + ord c mod 64)]) s)"

text \<open>\<^verbatim>\<open>int(text)\<close>: white space around, a sign, digits with single underscores between them, at most 4300 digits.\<close>

fun digit_groups :: "string \<Rightarrow> bool" where
  "digit_groups [] = False"
| "digit_groups [c] = Timestamps.is_digit c"
| "digit_groups (c # d # s) = (Timestamps.is_digit c \<and> (if d = CHR ''_'' then digit_groups s else digit_groups (d # s)))"

definition py_int :: "string \<Rightarrow> int option" where
  "py_int s =
     (let t = py_strip s;
          (neg, u) = (case t of c # r \<Rightarrow> if c = CHR ''-'' then (True, r) else if c = CHR ''+'' then (False, r) else (False, t)
                      | [] \<Rightarrow> (False, t));
          ds = filter Timestamps.is_digit u
      in if digit_groups u \<and> length ds \<le> 4300 then Some ((if neg then -1 else 1) * Timestamps.dec_value ds) else None)"

text \<open>\<^verbatim>\<open>hmac.new(key, message, sha256).hexdigest()\<close>: a key longer than a block is hashed first.\<close>

definition hmac_hexdigest :: "pylib \<Rightarrow> string \<Rightarrow> string \<Rightarrow> string" where
  "hmac_hexdigest L key message =
     hmac_sha256_hex L (if length key > 64 then unhex (sha256_hex L key) else key) message"

section \<open>Signing a bridge request\<close>

text \<open>\<^verbatim>\<open>str.upper\<close> on an HTTP method, which is an ASCII token.\<close>

definition upper_char :: "char \<Rightarrow> char" where
  "upper_char c = (if 97 \<le> ord c \<and> ord c \<le> 122 then char_of (ord c - 32) else c)"

definition bridge_payload :: "pylib \<Rightarrow> string \<Rightarrow> string \<Rightarrow> string \<Rightarrow> string \<Rightarrow> string \<Rightarrow> string" where
  "bridge_payload L timestamp nonce meth target body =
     utf8 (''miss-bridge/1'' @ [newline] @ timestamp @ [newline] @ nonce @ [newline] @ map upper_char meth
       @ [newline] @ target @ [newline] @ sha256_hex L body)"

text \<open>\<^verbatim>\<open>bytes.strip()\<close> removes ASCII white space only.\<close>

definition byte_space :: "char \<Rightarrow> bool" where
  "byte_space c \<longleftrightarrow> (9 \<le> ord c \<and> ord c \<le> 13) \<or> ord c = 32"

definition load_secret :: "string \<Rightarrow> string res" where
  "load_secret raw = (let value = rev (dropWhile byte_space (rev (dropWhile byte_space raw)))
     in reject_if (length value < 32) (ValueError ''bridge secret must contain at least 32 bytes'') (Inr value))"

definition bridge_headers ::
  "pylib \<Rightarrow> string \<Rightarrow> string \<Rightarrow> string \<Rightarrow> string \<Rightarrow> int \<Rightarrow> string \<Rightarrow> (string \<times> string) list res" where
  "bridge_headers L secret meth target body now_ns nonce =
     reject_if (length secret < 32) (ValueError ''bridge secret is too short'')
     (let timestamp = int_text now_ns
      in Inr [(''X-Miss-Bridge-Version'', ''1''), (''X-Miss-Bridge-Timestamp'', timestamp),
              (''X-Miss-Bridge-Nonce'', nonce),
              (''X-Miss-Bridge-Signature'', hmac_hexdigest L secret (bridge_payload L timestamp nonce meth target body))])"

section \<open>Replay stores\<close>

text \<open>
  A table of nonces with their expiry. The insertion of a nonce that is still there raises
  an integrity error and the transaction is rolled back, the purge included.
\<close>

type_synonym 'k nonces = "'k \<rightharpoonup> int"

definition purge :: "int \<Rightarrow> 'k nonces \<Rightarrow> 'k nonces" where
  "purge now_ns store = (\<lambda>k. case store k of None \<Rightarrow> None | Some e \<Rightarrow> if e \<le> now_ns then None else Some e)"

definition reserve :: "'k nonces \<Rightarrow> 'k \<Rightarrow> int \<Rightarrow> int \<Rightarrow> 'k nonces \<times> bool" where
  "reserve store nonce expires_at_ns now_ns =
     (if purge now_ns store nonce \<noteq> None then (store, False)
      else ((purge now_ns store)(nonce \<mapsto> expires_at_ns), True))"

text \<open>\<^verbatim>\<open>SQLiteNonceStore.check_and_store\<close>, keyed by hotkey and nonce.\<close>

definition check_and_store :: "(string \<times> int) nonces \<Rightarrow> int \<Rightarrow> string \<Rightarrow> int \<Rightarrow> int \<Rightarrow> (string \<times> int) nonces \<times> bool" where
  "check_and_store store retention_ns hotkey nonce_ns now_ns = reserve store (hotkey, nonce_ns) (now_ns + retention_ns) now_ns"

section \<open>Verifying a bridge request\<close>

text \<open>
  One call reads the clock twice: \<open>current\<close> for the age of the request, \<open>purged\<close> inside
  the replay store.
\<close>

definition header_get :: "(string \<times> string) list \<Rightarrow> string \<Rightarrow> string option" where
  "header_get headers key = dict_of (map (\<lambda>(k, v). (py_lower k, v)) headers) key"

definition text_or_empty :: "string option \<Rightarrow> string" where
  "text_or_empty v = (case v of None \<Rightarrow> [] | Some s \<Rightarrow> s)"

definition verify_bridge_headers ::
  "pylib \<Rightarrow> string \<Rightarrow> (string \<times> string) list \<Rightarrow> string \<Rightarrow> string \<Rightarrow> string \<Rightarrow> string nonces \<Rightarrow> int \<Rightarrow> int \<Rightarrow> int
   \<Rightarrow> string nonces \<times> unit res" where
  "verify_bridge_headers L secret headers meth target body store current purged max_age_ns =
     (let timestamp = text_or_empty (header_get headers ''x-miss-bridge-timestamp'');
          nonce = text_or_empty (header_get headers ''x-miss-bridge-nonce'');
          provided = text_or_empty (header_get headers ''x-miss-bridge-signature'')
      in if header_get headers ''x-miss-bridge-version'' \<noteq> Some ''1''
         then (store, Inl (ValueError ''unsupported bridge authentication version''))
         else if timestamp = [] \<or> nonce = [] \<or> provided = []
         then (store, Inl (ValueError ''missing bridge authentication headers''))
         else case py_int timestamp of
           None \<Rightarrow> (store, Inl (ValueError ''invalid bridge timestamp''))
         | Some timestamp_ns \<Rightarrow>
             if timestamp_ns < current - max_age_ns \<or> timestamp_ns > current + 2000000000
             then (store, Inl (ValueError ''stale bridge request''))
             else if \<not> is_ascii provided
             then (store, Inl (TypeError ''comparing strings with non-ASCII characters is not supported''))
             else if provided \<noteq> hmac_hexdigest L secret (bridge_payload L timestamp nonce meth target body)
             then (store, Inl (ValueError ''invalid bridge signature''))
             else case reserve store nonce (current + max_age_ns + 2000000000) purged of
               (store', False) \<Rightarrow> (store', Inl (ValueError ''replayed bridge request''))
             | (store', True) \<Rightarrow> (store', Inr ()))"

record bridge_call =
  bc_headers :: "(string \<times> string) list"
  bc_method :: string
  bc_target :: string
  bc_body :: string
  bc_now :: int
  bc_purged :: int

definition bridge_verify :: "pylib \<Rightarrow> string \<Rightarrow> int \<Rightarrow> string nonces \<Rightarrow> bridge_call \<Rightarrow> string nonces \<times> unit res" where
  "bridge_verify L secret max_age_ns store c =
     verify_bridge_headers L secret (bc_headers c) (bc_method c) (bc_target c) (bc_body c) store (bc_now c) (bc_purged c) max_age_ns"

section \<open>What a replay store promises\<close>

locale replay_guard =
  fixes claim :: "'s \<Rightarrow> 'a \<Rightarrow> 's \<times> bool"
    and key :: "'a \<Rightarrow> 'k"
    and expiry :: "'a \<Rightarrow> int"
    and clock :: "'a \<Rightarrow> int"
    and kept :: "'s \<Rightarrow> 'k \<Rightarrow> int \<Rightarrow> bool"
  assumes granted: "claim s a = (s', True) \<Longrightarrow> kept s' (key a) (expiry a)"
    and stays: "kept s k e \<Longrightarrow> clock a < e \<Longrightarrow> kept (fst (claim s a)) k e"
    and refused: "kept s (key a) e \<Longrightarrow> clock a < e \<Longrightarrow> \<not> snd (claim s a)"
begin

definition run :: "'s \<Rightarrow> 'a list \<Rightarrow> 's" where
  "run s as = foldl (\<lambda>t a. fst (claim t a)) s as"

lemma kept_run: "kept s k e \<Longrightarrow> list_all (\<lambda>a. clock a < e) as \<Longrightarrow> kept (run s as) k e"
  by (induction as arbitrary: s) (simp_all add: run_def stays)

lemma single_use:
  assumes "claim s a = (s', True)" and "list_all (\<lambda>c. clock c < expiry a) cs"
    and "clock b < expiry a" and "key b = key a"
  shows "\<not> snd (claim (run s' cs) b)"
  using refused [of _ b] kept_run [OF granted [OF assms(1)] assms(2)] assms(3,4) by simp

end

lemma reserve_cases:
  "reserve store k e now = (if purge now store k \<noteq> None then (store, False) else ((purge now store)(k \<mapsto> e), True))"
  by (simp add: reserve_def)

lemma purge_keeps: "store k = Some e \<Longrightarrow> now < e \<Longrightarrow> purge now store k = Some e"
  by (simp add: purge_def)

lemma reserve_granted: "reserve store k e now = (s', True) \<Longrightarrow> s' k = Some e"
  by (auto simp: reserve_def split: if_splits)

lemma reserve_stays: "store k = Some e \<Longrightarrow> now < e \<Longrightarrow> fst (reserve store k' e' now) k = Some e"
  by (auto simp: reserve_def purge_keeps)

lemma reserve_refused: "store k = Some e \<Longrightarrow> now < e \<Longrightarrow> \<not> snd (reserve store k e' now)"
  by (simp add: reserve_def purge_keeps)

interpretation btauth: replay_guard "\<lambda>s (hotkey, nonce, now). check_and_store s retention hotkey nonce now"
  "\<lambda>(hotkey, nonce, now). (hotkey, nonce)" "\<lambda>(hotkey, nonce, now). now + retention" "\<lambda>(hotkey, nonce, now). now"
  "\<lambda>s k e. s k = Some e" for retention
  by unfold_locales (auto simp: check_and_store_def reserve_granted reserve_stays reserve_refused split: prod.splits)

definition call_nonce :: "bridge_call \<Rightarrow> string" where
  "call_nonce c = text_or_empty (header_get (bc_headers c) ''x-miss-bridge-nonce'')"

definition accepted :: "'a \<times> unit res \<Rightarrow> 'a \<times> bool" where
  "accepted r = (fst r, snd r = Inr ())"

text \<open>
  The checks before the replay store is asked, as the error they raise. They read only the
  call; then the call reserves its nonce.
\<close>

definition bridge_refusal :: "pylib \<Rightarrow> string \<Rightarrow> int \<Rightarrow> bridge_call \<Rightarrow> exn option" where
  "bridge_refusal L secret m c =
     (let timestamp = text_or_empty (header_get (bc_headers c) ''x-miss-bridge-timestamp'');
          nonce = text_or_empty (header_get (bc_headers c) ''x-miss-bridge-nonce'');
          provided = text_or_empty (header_get (bc_headers c) ''x-miss-bridge-signature'')
      in if header_get (bc_headers c) ''x-miss-bridge-version'' \<noteq> Some ''1''
         then Some (ValueError ''unsupported bridge authentication version'')
         else if timestamp = [] \<or> nonce = [] \<or> provided = []
         then Some (ValueError ''missing bridge authentication headers'')
         else case py_int timestamp of
           None \<Rightarrow> Some (ValueError ''invalid bridge timestamp'')
         | Some t \<Rightarrow>
             if t < bc_now c - m \<or> t > bc_now c + 2000000000 then Some (ValueError ''stale bridge request'')
             else if \<not> is_ascii provided
             then Some (TypeError ''comparing strings with non-ASCII characters is not supported'')
             else if provided \<noteq> hmac_hexdigest L secret (bridge_payload L timestamp nonce (bc_method c) (bc_target c) (bc_body c))
             then Some (ValueError ''invalid bridge signature'')
             else None)"

lemma bridge_verify_split:
  "bridge_verify L secret m store c =
     (case bridge_refusal L secret m c of
        Some e \<Rightarrow> (store, Inl e)
      | None \<Rightarrow> (let b = reserve store (call_nonce c) (bc_now c + m + 2000000000) (bc_purged c)
                in (fst b, if snd b then Inr () else Inl (ValueError ''replayed bridge request''))))"
  by (simp add: bridge_verify_def verify_bridge_headers_def bridge_refusal_def call_nonce_def Let_def case_prod_beta
      split: option.split bool.split)

interpretation bridge: replay_guard "\<lambda>s c. accepted (bridge_verify L secret max_age_ns s c)" call_nonce
  "\<lambda>c. bc_now c + max_age_ns + 2000000000" bc_purged "\<lambda>s k e. s k = Some e" for L secret max_age_ns
proof
  fix s s' :: "string nonces" and c k e
  show "accepted (bridge_verify L secret max_age_ns s c) = (s', True) \<Longrightarrow>
      s' (call_nonce c) = Some (bc_now c + max_age_ns + 2000000000)"
    by (auto simp: bridge_verify_split accepted_def Let_def prod_eq_iff intro: reserve_granted split: option.splits if_splits)
  show "s k = Some e \<Longrightarrow> bc_purged c < e \<Longrightarrow> fst (accepted (bridge_verify L secret max_age_ns s c)) k = Some e"
    by (simp add: bridge_verify_split accepted_def Let_def reserve_stays split: option.split)
  show "s (call_nonce c) = Some e \<Longrightarrow> bc_purged c < e \<Longrightarrow> \<not> snd (accepted (bridge_verify L secret max_age_ns s c))"
    by (simp add: bridge_verify_split accepted_def Let_def reserve_refused split: option.split)
qed

definition bridge_run :: "pylib \<Rightarrow> string \<Rightarrow> int \<Rightarrow> string nonces \<Rightarrow> bridge_call list \<Rightarrow> string nonces" where
  "bridge_run L secret max_age_ns store calls = foldl (\<lambda>s c. fst (bridge_verify L secret max_age_ns s c)) store calls"

lemma bridge_run_alt: "bridge_run L secret m = bridge.run L secret m"
  by (intro ext, unfold bridge_run_def bridge.run_def) (simp add: accepted_def)

definition call_timestamp :: "bridge_call \<Rightarrow> int option" where
  "call_timestamp c = py_int (text_or_empty (header_get (bc_headers c) ''x-miss-bridge-timestamp''))"

lemma bridge_accepted_window:
  assumes "snd (bridge_verify L secret m store c) = Inr ()"
  obtains t where "call_timestamp c = Some t" and "bc_now c - m \<le> t" and "t \<le> bc_now c + 2000000000"
proof -
  have "bridge_refusal L secret m c = None" using assms by (auto simp: bridge_verify_split split: option.splits)
  then show thesis
    using that unfolding bridge_refusal_def call_timestamp_def Let_def by (auto split: if_splits option.splits)
qed

text \<open>A request that passed every check is, sent again, either stale or a replay.\<close>

lemma bridge_repeat:
  assumes "snd (bridge_verify L secret m s0 a) = Inr ()" and "bc_headers b = bc_headers a"
    and "bc_method b = bc_method a" and "bc_target b = bc_target a" and "bc_body b = bc_body a"
  shows "snd (bridge_verify L secret m s b) \<in> {Inr (), Inl (ValueError ''stale bridge request''), Inl (ValueError ''replayed bridge request'')}"
proof -
  have "bridge_refusal L secret m a = None" using assms(1) by (auto simp: bridge_verify_split split: option.splits)
  then have "bridge_refusal L secret m b \<in> {None, Some (ValueError ''stale bridge request'')}"
    using assms(2-5) unfolding bridge_refusal_def Let_def by (auto split: if_splits option.splits)
  then show ?thesis by (auto simp: bridge_verify_split Let_def split: if_splits)
qed

lemma bridge_refusal_keeps:
  assumes "snd (bridge_verify L secret m s c) \<noteq> Inr ()"
  shows "fst (bridge_verify L secret m s c) = s"
  using assms by (auto simp: bridge_verify_split reserve_def Let_def split: option.splits if_splits)

text \<open>
  C14: A bridge request that was accepted is not accepted again while its reservation stands.
  After any further verifications, with any clocks, the same headers, method, target and body
  are refused as stale or as a replay, and the refusal changes nothing, with one exception:
  some verification in between (or this one) read a clock for the replay store that had
  reached the expiry of the reservation, while the age test still admits the request. The
  age test admits it only up to that same expiry, so that the exception needs a store clock
  at or ahead of the clock of the age test; \<open>bridge_replay_boundary\<close> shows that it occurs.
\<close>

theorem bridge_request_single_use:
  assumes "bridge_verify L secret max_age_ns store a = (store', Inr ())"
    and "bc_headers b = bc_headers a" and "bc_method b = bc_method a" and "bc_target b = bc_target a"
    and "bc_body b = bc_body a"
  shows "bridge_verify L secret max_age_ns (bridge_run L secret max_age_ns store' cs) b
       \<in> Pair (bridge_run L secret max_age_ns store' cs)
           ` {Inl (ValueError ''stale bridge request''), Inl (ValueError ''replayed bridge request'')}
    \<or> (\<exists>c. c \<in> set (cs @ [b]) \<and> bc_now a + max_age_ns + 2000000000 \<le> bc_purged c
          \<and> bc_now b \<le> bc_now a + max_age_ns + 2000000000)"
proof -
  let ?s = "bridge_run L secret max_age_ns store' cs" and ?r = "bridge_verify L secret max_age_ns (bridge_run L secret max_age_ns store' cs) b"
  have first: "snd (bridge_verify L secret max_age_ns store a) = Inr ()" using assms(1) by simp
  have same: "call_timestamp b = call_timestamp a" "call_nonce b = call_nonce a"
    using assms(2) by (simp_all add: call_timestamp_def call_nonce_def)
  have window: "bc_now b \<le> bc_now a + max_age_ns + 2000000000" if again: "snd ?r = Inr ()"
  proof -
    obtain t where "call_timestamp a = Some t" "t \<le> bc_now a + 2000000000"
      by (rule bridge_accepted_window [OF first])
    moreover obtain u where "call_timestamp b = Some u" "bc_now b - max_age_ns \<le> u"
      by (rule bridge_accepted_window [OF again])
    ultimately show ?thesis using same(1) by simp
  qed
  have refused: "snd ?r \<noteq> Inr ()" if "\<forall>c\<in>set (cs @ [b]). bc_purged c < bc_now a + max_age_ns + 2000000000"
  proof -
    have "\<not> snd (accepted ?r)"
      unfolding bridge_run_alt
      by (rule bridge.single_use [where s = store]) (use assms(1) that same(2) in \<open>auto simp: accepted_def list_all_iff\<close>)
    then show ?thesis by (simp add: accepted_def)
  qed
  show ?thesis
  proof (cases "snd ?r = Inr ()")
    case True
    then have "\<exists>c. c \<in> set (cs @ [b]) \<and> bc_now a + max_age_ns + 2000000000 \<le> bc_purged c"
      using refused by (meson not_less)
    then show ?thesis using window [OF True] by blast
  next
    case False
    then have "fst ?r = ?s" by (rule bridge_refusal_keeps)
    moreover have "snd ?r \<in> {Inl (ValueError ''stale bridge request''), Inl (ValueError ''replayed bridge request'')}"
      using False bridge_repeat [OF first assms(2-5), of ?s] by blast
    ultimately have "?r \<in> Pair ?s ` {Inl (ValueError ''stale bridge request''), Inl (ValueError ''replayed bridge request'')}"
      by (metis image_eqI prod.collapse)
    then show ?thesis by blast
  qed
qed

text \<open>
  The durable btauth nonce store accepts a pair of hotkey and nonce at most once within
  its retention: until that has passed, and whatever else was stored in between, the pair is
  refused.
\<close>

theorem btauth_nonce_single_use:
  assumes "check_and_store store retention hotkey nonce t0 = (store', True)"
    and "list_all (\<lambda>(h, n, t). t < t0 + retention) (cs @ [(hotkey, nonce, t1)])"
  shows "\<not> snd (check_and_store (foldl (\<lambda>s (h, n, t). fst (check_and_store s retention h n t)) store' cs) retention hotkey nonce t1)"
  using btauth.single_use [of store retention "(hotkey, nonce, t0)" store' cs "(hotkey, nonce, t1)", unfolded btauth.run_def] assms
  by (simp add: split_beta')

section \<open>Requests of the bridge client are accepted\<close>

lemma digit_groups_digits: "ds \<noteq> [] \<Longrightarrow> list_all Timestamps.is_digit ds \<Longrightarrow> digit_groups ds"
proof (induction ds rule: digit_groups.induct)
  case (3 c d s)
  then have "d \<noteq> CHR ''_''" by (auto simp: Timestamps.is_digit_def)
  with 3 show ?case by simp
qed simp_all

lemma digits_graphic: "list_all Timestamps.is_digit s \<Longrightarrow> list_all graphic s"
  by (auto simp: list_all_iff Timestamps.is_digit_def graphic_def)

lemma py_int_int_text:
  assumes "0 \<le> n" and "n < 2 ^ 63"
  shows "py_int (int_text n) = Some n"
proof -
  obtain c ds where cs: "nat_digits (nat n) = c # ds" by (cases "nat_digits (nat n)") auto
  have digits: "list_all Timestamps.is_digit (c # ds)" unfolding cs [symmetric] by (rule nat_digits_digits)
  then have c: "c \<noteq> CHR ''-''" "c \<noteq> CHR ''+''" by (auto simp: Timestamps.is_digit_def)
  have t: "int_text n = c # ds" using assms(1) by (simp add: int_text_def cs)
  have "n < 10 ^ 19" using assms(2) by simp
  then have "length (c # ds) \<le> 19" using int_text_length [of n 19] assms(1) t by simp
  moreover have "Timestamps.dec_value (c # ds) = n"
    unfolding cs [symmetric] using assms(1) by (simp add: dec_value_nat_digits)
  moreover have "filter Timestamps.is_digit (c # ds) = c # ds"
    using digits by (intro filter_True) (simp add: list_all_iff)
  moreover have "digit_groups (c # ds)" using digits by (intro digit_groups_digits) simp_all
  moreover have "py_strip (c # ds) = c # ds" by (rule py_strip_graphic [OF digits_graphic [OF digits]])
  ultimately show ?thesis
    unfolding py_int_def Let_def t by (simp add: c del: filter.simps)
qed

lemma digest_solid: "digest_text d \<Longrightarrow> d \<noteq> []" "digest_text d \<Longrightarrow> is_ascii d"
  using digest_text_not_bad [of d 64] unfolding bad_text_def by blast+

lemma int_text_ne: "int_text n \<noteq> []"
  by (simp add: int_text_def)

context python_library
begin

lemma hmac_hex_digest: "digest_text (hmac_hexdigest L k m)"
  by (simp add: hmac_hexdigest_def hmac_sha256_hex_def Let_def sha256_digest)

lemma made_headers_pass:
  assumes "bridge_headers L secret meth target body now_ns nonce = Inr hs" and "0 \<le> now_ns" and "now_ns < 2 ^ 63"
    and "nonce \<noteq> []" and "now_ns - 2000000000 \<le> current" and "current \<le> now_ns + max_age_ns"
  shows "bridge_refusal L secret max_age_ns \<lparr>bc_headers = hs, bc_method = meth, bc_target = target, bc_body = body,
           bc_now = current, bc_purged = p\<rparr> = None"
    and "call_nonce \<lparr>bc_headers = hs, bc_method = meth, bc_target = target, bc_body = body, bc_now = current, bc_purged = p\<rparr> = nonce"
proof -
  let ?sig = "hmac_hexdigest L secret (bridge_payload L (int_text now_ns) nonce meth target body)"
  have hs: "hs = [(''X-Miss-Bridge-Version'', ''1''), (''X-Miss-Bridge-Timestamp'', int_text now_ns),
      (''X-Miss-Bridge-Nonce'', nonce), (''X-Miss-Bridge-Signature'', ?sig)]"
    using assms(1) by (simp add: bridge_headers_def Let_def)
  have "map (\<lambda>(k, v). (py_lower k, v)) hs = [(''x-miss-bridge-version'', ''1''),
      (''x-miss-bridge-timestamp'', int_text now_ns), (''x-miss-bridge-nonce'', nonce), (''x-miss-bridge-signature'', ?sig)]"
    by (simp add: hs py_lower_def lower_char_def char_of_def bit_Suc_0_iff)
  then have get: "header_get hs ''x-miss-bridge-version'' = Some ''1''"
    "header_get hs ''x-miss-bridge-timestamp'' = Some (int_text now_ns)"
    "header_get hs ''x-miss-bridge-nonce'' = Some nonce" "header_get hs ''x-miss-bridge-signature'' = Some ?sig"
    by (simp_all add: header_get_def dict_of_def)
  have sig: "digest_text ?sig" by (rule hmac_hex_digest)
  then have "?sig \<noteq> []" "is_ascii ?sig" by (simp_all add: digest_solid)
  then show "bridge_refusal L secret max_age_ns \<lparr>bc_headers = hs, bc_method = meth, bc_target = target, bc_body = body,
           bc_now = current, bc_purged = p\<rparr> = None"
    using assms(2-6) by (simp add: bridge_refusal_def get text_or_empty_def int_text_ne py_int_int_text Let_def)
  show "call_nonce \<lparr>bc_headers = hs, bc_method = meth, bc_target = target, bc_body = body, bc_now = current, bc_purged = p\<rparr> = nonce"
    by (simp add: call_nonce_def get text_or_empty_def)
qed

end

lemma fresh_headers_accepted:
  assumes "bridge_headers (cpython fromiso) secret meth target body now_ns nonce = Inr headers" and "nonce \<noteq> []"
    and "0 \<le> now_ns" and "now_ns < 2 ^ 63" and "now_ns - 2000000000 \<le> current" and "current \<le> now_ns + max_age_ns"
    and "store nonce = None"
  shows "verify_bridge_headers (cpython fromiso) secret headers meth target body store current purged max_age_ns
    = ((purge purged store)(nonce \<mapsto> current + max_age_ns + 2000000000), Inr ())"
proof -
  let ?c = "\<lparr>bc_headers = headers, bc_method = meth, bc_target = target, bc_body = body, bc_now = current, bc_purged = purged\<rparr>"
  note pass = python_library.made_headers_pass [OF cpython_library assms(1,3,4,2,5,6)]
  have "bridge_verify (cpython fromiso) secret max_age_ns store ?c
    = ((purge purged store)(nonce \<mapsto> current + max_age_ns + 2000000000), Inr ())"
    using assms(7) by (simp add: bridge_verify_split pass reserve_def purge_def)
  then show ?thesis by (simp add: bridge_verify_def)
qed

text \<open>
  The headers \<^verbatim>\<open>bridge_headers\<close> makes pass \<^verbatim>\<open>verify_bridge_headers\<close> under the same
  secret for the same method, target and body, at every time from two seconds before their
  time stamp until the maximum age after it, when the nonce was not used; the replay store
  then holds the nonce until two seconds after the latest time of acceptance.
\<close>

theorem bridge_headers_accepted:
  assumes "bridge_headers (cpython fromiso) secret meth target body now_ns nonce = Inr headers" and "nonce \<noteq> []"
    and "0 \<le> now_ns" and "now_ns < 2 ^ 63" and "now_ns - 2000000000 \<le> current" and "current \<le> now_ns + max_age_ns"
    and "store nonce = None"
  shows "verify_bridge_headers (cpython fromiso) secret headers meth target body store current purged max_age_ns
    = ((purge purged store)(nonce \<mapsto> current + max_age_ns + 2000000000), Inr ())"
  using assms by (rule fresh_headers_accepted)

definition demo_secret :: string where
  "demo_secret = replicate 32 (CHR ''k'')"

definition demo_bridge_headers :: "(string \<times> string) list" where
  "demo_bridge_headers =
     [(''X-Miss-Bridge-Version'', ''1''), (''X-Miss-Bridge-Timestamp'', int_text 1000000000000000000),
      (''X-Miss-Bridge-Nonce'', ''n1''),
      (''X-Miss-Bridge-Signature'', hmac_hexdigest (cpython (\<lambda>_. True)) demo_secret
         (bridge_payload (cpython (\<lambda>_. True)) (int_text 1000000000000000000) ''n1'' ''POST'' ''/v1/probe'' []))]"

lemma demo_bridge_headers_made:
  "bridge_headers (cpython (\<lambda>_. True)) demo_secret ''POST'' ''/v1/probe'' [] 1000000000000000000 ''n1'' = Inr demo_bridge_headers"
  by (simp add: bridge_headers_def demo_bridge_headers_def demo_secret_def Let_def)

theorem bridge_headers_accepted_witness:
  "verify_bridge_headers (cpython (\<lambda>_. True)) demo_secret demo_bridge_headers ''POST'' ''/v1/probe'' [] Map.empty
     1000000001000000000 1000000001000000500 10000000000
   = ([''n1'' \<mapsto> 1000000013000000000], Inr ())"
  using bridge_headers_accepted [OF demo_bridge_headers_made, of 1000000001000000000 10000000000 Map.empty 1000000001000000500]
  by (simp add: purge_def)

text \<open>
  The boundary of the window: a request stamped exactly two seconds ahead of the verifier's
  clock is accepted a second time exactly at the end of its life, because the store drops a
  nonce at its expiry while the age test still admits that instant.
\<close>

lemma bridge_replay_boundary:
  assumes "bridge_headers (cpython fromiso) secret meth target body now_ns nonce = Inr headers" and "nonce \<noteq> []"
    and "2000000000 \<le> now_ns" and "now_ns < 2 ^ 63" and "0 \<le> max_age_ns"
    and "store nonce = None"
  defines "c \<equiv> \<lparr>bc_headers = headers, bc_method = meth, bc_target = target, bc_body = body,
      bc_now = now_ns - 2000000000, bc_purged = now_ns - 2000000000\<rparr>"
  shows "snd (bridge_verify (cpython fromiso) secret max_age_ns store c) = Inr ()"
    and "snd (bridge_verify (cpython fromiso) secret max_age_ns (fst (bridge_verify (cpython fromiso) secret max_age_ns store c))
           (c\<lparr>bc_now := now_ns + max_age_ns, bc_purged := now_ns + max_age_ns\<rparr>)) = Inr ()"
proof -
  have n: "0 \<le> now_ns" using assms(3) by simp
  note pass = python_library.made_headers_pass [OF cpython_library assms(1) n assms(4,2)]
  have wide: "now_ns - 2000000000 \<le> now_ns + max_age_ns" using assms(5) by simp
  note passes = pass [OF order.refl wide] pass [OF wide order.refl]
  show "snd (bridge_verify (cpython fromiso) secret max_age_ns store c) = Inr ()"
    "snd (bridge_verify (cpython fromiso) secret max_age_ns (fst (bridge_verify (cpython fromiso) secret max_age_ns store c))
           (c\<lparr>bc_now := now_ns + max_age_ns, bc_purged := now_ns + max_age_ns\<rparr>)) = Inr ()"
    using assms(5,6) by (simp_all add: c_def bridge_verify_split passes reserve_def purge_def Let_def)
qed

lemma demo_call_accepted:
  "bridge_verify (cpython (\<lambda>_. True)) demo_secret 10000000000 Map.empty
     \<lparr>bc_headers = demo_bridge_headers, bc_method = ''POST'', bc_target = ''/v1/probe'', bc_body = [],
      bc_now = 1000000001000000000, bc_purged = 1000000001000000500\<rparr>
   = ([''n1'' \<mapsto> 1000000013000000000], Inr ())"
  using fresh_headers_accepted [OF demo_bridge_headers_made, of 1000000001000000000 10000000000 Map.empty 1000000001000000500]
  by (simp add: bridge_verify_def purge_def)

theorem bridge_request_single_use_witness:
  "bridge_verify (cpython (\<lambda>_. True)) demo_secret 10000000000
     (bridge_run (cpython (\<lambda>_. True)) demo_secret 10000000000 [''n1'' \<mapsto> 1000000013000000000] [])
     \<lparr>bc_headers = demo_bridge_headers, bc_method = ''POST'', bc_target = ''/v1/probe'', bc_body = [],
      bc_now = 1000000004000000000, bc_purged = 1000000004000000500\<rparr>
   \<in> Pair (bridge_run (cpython (\<lambda>_. True)) demo_secret 10000000000 [''n1'' \<mapsto> 1000000013000000000] [])
       ` {Inl (ValueError ''stale bridge request''), Inl (ValueError ''replayed bridge request'')}"
  using bridge_request_single_use [OF demo_call_accepted, of
      "\<lparr>bc_headers = demo_bridge_headers, bc_method = ''POST'', bc_target = ''/v1/probe'', bc_body = [],
      bc_now = 1000000004000000000, bc_purged = 1000000004000000500\<rparr>" "[]"] by simp

theorem btauth_nonce_single_use_witness:
  "\<not> snd (check_and_store (foldl (\<lambda>s (h, n, t). fst (check_and_store s 60 h n t)) [(''5F'', 7) \<mapsto> 160] [(''5G'', 8, 120)])
     60 ''5F'' 7 159)"
  by (rule btauth_nonce_single_use [of Map.empty 60 "''5F''" 7 100])
    (simp_all add: check_and_store_def reserve_def purge_def fun_eq_iff)

section \<open>Service key bindings\<close>

record ServiceKeyBinding =
  sb_role :: string
  sb_transport :: string
  sb_certificate :: "string option"
  sb_network :: string
  sb_netuid :: int
  sb_hotkey :: string
  sb_uid :: "int option"
  sb_public_key :: string
  sb_generation :: int
  sb_valid_from_block :: int
  sb_expires_at_block :: int
  sb_challenge :: string
  sb_signature :: string

definition non_empty_text :: "string \<Rightarrow> bool" where
  "non_empty_text s \<longleftrightarrow> 1 \<le> length s \<and> length s \<le> 2048"

definition binding_fields :: "ServiceKeyBinding \<Rightarrow> bool" where
  "binding_fields b \<longleftrightarrow>
     sb_role b \<in> {''validator'', ''miner''} \<and> sb_transport b \<in> {''local'', ''https'', ''http''}
     \<and> (\<forall>c\<in>set_option (sb_certificate b). digest_text c)
     \<and> non_empty_text (sb_network b) \<and> in_range 0 65535 (sb_netuid b) \<and> non_empty_text (sb_hotkey b)
     \<and> (\<forall>u\<in>set_option (sb_uid b). in_range 0 65535 u) \<and> digest_text (sb_public_key b) \<and> 1 \<le> sb_generation b
     \<and> 0 \<le> sb_valid_from_block b \<and> 1 \<le> sb_expires_at_block b \<and> non_empty_text (sb_challenge b)"

text \<open>\<^verbatim>\<open>ServiceKeyBinding.valid_window\<close>.\<close>

definition valid_window :: "ServiceKeyBinding \<Rightarrow> ServiceKeyBinding res" where
  "valid_window b =
     reject_if (sb_expires_at_block b \<le> sb_valid_from_block b)
       (ValueError ''service binding expiry must follow its start block'')
     (if sb_role b = ''validator''
      then reject_if (sb_transport b \<noteq> ''local'' \<or> sb_certificate b \<noteq> None)
             (ValueError ''validator service bindings must use pinless local transport'') (Inr b)
      else if sb_transport b = ''https''
      then reject_if (sb_certificate b = None)
             (ValueError ''HTTPS miner service bindings require a TLS certificate pin'') (Inr b)
      else if sb_transport b = ''http''
      then reject_if (sb_certificate b \<noteq> None)
             (ValueError ''HTTP miner service bindings must not carry a TLS certificate pin'') (Inr b)
      else Inl (ValueError ''miner service bindings must use HTTPS or explicit mock HTTP''))"

definition service_key_binding :: "ServiceKeyBinding \<Rightarrow> ServiceKeyBinding res" where
  "service_key_binding b = reject_if (\<not> binding_fields b) (ValueError ''validation error'') (valid_window b)"

text \<open>\<^verbatim>\<open>signing_payload\<close>: every member but the signature.\<close>

definition signing_payload :: "pylib \<Rightarrow> ServiceKeyBinding \<Rightarrow> string" where
  "signing_payload L b = dumps L (JObj
     [(''protocol'', JStr ''service-binding.v2''), (''role'', JStr (sb_role b)),
      (''transport'', JStr (sb_transport b)), (''transport_certificate_sha256'', jstr_opt (sb_certificate b)),
      (''network'', JStr (sb_network b)), (''netuid'', JInt (sb_netuid b)), (''hotkey'', JStr (sb_hotkey b)),
      (''uid'', jint_opt (sb_uid b)), (''service_public_key'', JStr (sb_public_key b)),
      (''generation'', JInt (sb_generation b)), (''valid_from_block'', JInt (sb_valid_from_block b)),
      (''expires_at_block'', JInt (sb_expires_at_block b)), (''challenge'', JStr (sb_challenge b))])"

text \<open>\<^verbatim>\<open>bytes.hex\<close> and \<^verbatim>\<open>bytes.fromhex\<close>, which skips ASCII white space between bytes.\<close>

definition bytes_hex :: "string \<Rightarrow> string" where
  "bytes_hex s = concat (map (\<lambda>c. [hex_digit (ord c div 16), hex_digit (ord c mod 16)]) s)"

fun from_hex :: "string \<Rightarrow> string option" where
  "from_hex [] = Some []"
| "from_hex [c] = (if byte_space c then Some [] else None)"
| "from_hex (c # d # s) =
     (if byte_space c then from_hex (d # s)
      else case (hex_value c, hex_value d) of
        (Some h, Some l) \<Rightarrow> map_option (\<lambda>t. char_of (16 * h + l) # t) (from_hex s)
      | _ \<Rightarrow> None)"

definition remove_prefix :: "string \<Rightarrow> string \<Rightarrow> string" where
  "remove_prefix p s = (if take (length p) s = p then drop (length p) s else s)"

text \<open>
  A signer is its address and its signing function (\<^verbatim>\<open>bt.resolve_signer\<close>); \<open>V\<close> is
  \<^verbatim>\<open>bt.sp_core.verify(message, signature, address)\<close>.
\<close>

record signer =
  ss58_address :: string
  sign_bytes :: "string \<Rightarrow> string"

definition sign_service_binding :: "pylib \<Rightarrow> ServiceKeyBinding \<Rightarrow> signer \<Rightarrow> ServiceKeyBinding res" where
  "sign_service_binding L binding signer =
     reject_if (ss58_address signer \<noteq> sb_hotkey binding)
       (ValueError ''service binding hotkey differs from the signing wallet'')
     (Inr (binding\<lparr>sb_signature := bytes_hex (sign_bytes signer (signing_payload L binding))\<rparr>))"

record expected_binding =
  exp_hotkey :: string
  exp_role :: string
  exp_network :: string
  exp_netuid :: int
  exp_challenge :: string
  exp_transport :: string
  exp_certificate :: "string option"

definition verify_service_binding ::
  "pylib \<Rightarrow> (string \<Rightarrow> string \<Rightarrow> string \<Rightarrow> bool) \<Rightarrow> ServiceKeyBinding \<Rightarrow> expected_binding \<Rightarrow> int \<Rightarrow> unit res" where
  "verify_service_binding L V binding e current_block =
     reject_if (sb_hotkey binding \<noteq> exp_hotkey e \<or> sb_role binding \<noteq> exp_role e \<or> sb_network binding \<noteq> exp_network e
         \<or> sb_netuid binding \<noteq> exp_netuid e \<or> sb_challenge binding \<noteq> exp_challenge e
         \<or> sb_transport binding \<noteq> exp_transport e \<or> sb_certificate binding \<noteq> exp_certificate e)
       (ValueError ''service binding identity, challenge, or transport mismatch'')
     (reject_if (current_block < sb_valid_from_block binding \<or> current_block \<ge> sb_expires_at_block binding)
       (ValueError ''service binding is not current'')
     (case from_hex (remove_prefix ''0x'' (sb_signature binding)) of
        None \<Rightarrow> Inl (ValueError ''service binding signature is malformed'')
      | Some signature \<Rightarrow>
          reject_if (\<not> V (signing_payload L binding) signature (sb_hotkey binding))
            (ValueError ''service binding hotkey signature is invalid'') (Inr ())))"

lemma hex_digit_solid: "\<not> byte_space (hex_digit n)" "hex_digit n \<noteq> CHR ''x''"
proof -
  have "n mod 16 \<in> set [0..<16]" by simp
  then have "\<not> byte_space (hex_digit n) \<and> hex_digit n \<noteq> CHR ''x''" by (auto simp: hex_digit_def byte_space_def upt_rec)
  then show "\<not> byte_space (hex_digit n)" "hex_digit n \<noteq> CHR ''x''" by simp_all
qed

lemma from_hex_bytes_hex: "from_hex (bytes_hex s) = Some s"
proof (induction s)
  case (Cons c s)
  have "ord c < 256" by simp
  then have "ord c div 16 < 16" using less_mult_imp_div_less [of "ord c" 16 16] by simp
  then have "16 * (ord c div 16 mod 16) + ord c mod 16 mod 16 = ord c" by simp
  with Cons show ?case by (simp add: bytes_hex_def hex_digit_solid hex_value_digit del: mod_mod_trivial)
qed (simp add: bytes_hex_def)

lemma bytes_hex_prefix: "remove_prefix ''0x'' (bytes_hex s) = bytes_hex s"
  by (cases s) (auto simp: remove_prefix_def bytes_hex_def hex_digit_solid)

lemma signing_payload_signature [simp]: "signing_payload L (b\<lparr>sb_signature := s\<rparr>) = signing_payload L b"
  by (simp add: signing_payload_def)

text \<open>
  \<^verbatim>\<open>verify_service_binding\<close> accepts a binding exactly when its hotkey, role, network,
  subnet, challenge and transport are the expected ones, the block lies in its half-open
  window, and its signature decodes and verifies under its hotkey over every other member.
\<close>

theorem service_binding_exact:
  "verify_service_binding L V b e block = Inr () \<longleftrightarrow>
     e = \<lparr>exp_hotkey = sb_hotkey b, exp_role = sb_role b, exp_network = sb_network b, exp_netuid = sb_netuid b,
          exp_challenge = sb_challenge b, exp_transport = sb_transport b, exp_certificate = sb_certificate b\<rparr>
     \<and> sb_valid_from_block b \<le> block \<and> block < sb_expires_at_block b
     \<and> (\<exists>signature. from_hex (remove_prefix ''0x'' (sb_signature b)) = Some signature
          \<and> V (signing_payload L b) signature (sb_hotkey b))"
  by (cases e) (auto simp: verify_service_binding_def split: option.splits)

text \<open>
  A binding that its hotkey signed verifies at every block of its window, for the verifier
  that expects it, and stays a valid binding.
\<close>

lemma signed_binding_verifies:
  assumes "sign_service_binding L b signer = Inr w" and "service_key_binding b = Inr b"
    and "\<And>m. V m (sign_bytes signer m) (ss58_address signer)"
    and "sb_valid_from_block b \<le> block" and "block < sb_expires_at_block b"
  shows "verify_service_binding L V w \<lparr>exp_hotkey = ss58_address signer, exp_role = sb_role b,
      exp_network = sb_network b, exp_netuid = sb_netuid b, exp_challenge = sb_challenge b,
      exp_transport = sb_transport b, exp_certificate = sb_certificate b\<rparr> block = Inr ()
    \<and> service_key_binding w = Inr w"
proof -
  have signed: "w = b\<lparr>sb_signature := bytes_hex (sign_bytes signer (signing_payload L b))\<rparr>"
    and key: "ss58_address signer = sb_hotkey b"
    using assms(1) by (auto simp: sign_service_binding_def)
  have "service_key_binding (b\<lparr>sb_signature := s\<rparr>) = Inr (b\<lparr>sb_signature := s\<rparr>)" for s
    using assms(2) by (auto simp: service_key_binding_def binding_fields_def valid_window_def split: if_splits)
  moreover have "V (signing_payload L b) (sign_bytes signer (signing_payload L b)) (sb_hotkey b)"
    using assms(3) key by metis
  ultimately show ?thesis
    using assms(4,5) by (simp add: verify_service_binding_def signed key bytes_hex_prefix from_hex_bytes_hex)
qed

section \<open>The bridge client\<close>

text \<open>
  What one HTTP attempt gives: a transport error or timeout, or a response with its status,
  its content and the value \<^verbatim>\<open>response.json()\<close> reads from it (\<^verbatim>\<open>None\<close> when that raises).
\<close>

datatype reply = NoReply | HttpReply int string "json option"

datatype bridge_exn = BridgeError string string bool int | BridgeRaised exn

datatype 'a outcome = Return 'a | Raise bridge_exn | Retry

definition bounded_error_text :: "json \<Rightarrow> string \<Rightarrow> nat \<Rightarrow> string" where
  "bounded_error_text v fallback limit =
     (case v of JStr s \<Rightarrow> if s = [] then fallback else take limit s | _ \<Rightarrow> fallback)"

definition response_error :: "int \<Rightarrow> json option \<Rightarrow> bridge_exn" where
  "response_error status payload =
     (let fallback_message = ''HTTP '' @ int_text status;
          plain = BridgeError ''bridge_error'' fallback_message False status
      in case payload of
           Some (JObj members) \<Rightarrow>
             (case jget members ''error'' of
                JObj detail \<Rightarrow> BridgeError (bounded_error_text (jget detail ''code'') ''bridge_error'' 128)
                    (bounded_error_text (jget detail ''message'') fallback_message 1024)
                    (jget detail ''retryable'' = JBool True) status
              | _ \<Rightarrow> plain)
         | _ \<Rightarrow> plain)"

text \<open>
  The body of the loop after the request was sent; \<open>response_model\<close> is the validation of
  the content the caller asked for, if any.
\<close>

definition reply_outcome :: "(string \<Rightarrow> json res) option \<Rightarrow> reply \<Rightarrow> json outcome" where
  "reply_outcome response_model r = (case r of
     NoReply \<Rightarrow> Retry
   | HttpReply status content payload \<Rightarrow>
       if length content > 1048576 then Raise (BridgeRaised (RuntimeError ''bridge response exceeds the one-MiB limit''))
       else if 200 \<le> status \<and> status \<le> 299
       then (case response_model of
               Some validate \<Rightarrow> (case validate content of Inl e \<Rightarrow> Raise (BridgeRaised e) | Inr v \<Rightarrow> Return v)
             | None \<Rightarrow> (case payload of
                   None \<Rightarrow> Raise (BridgeRaised (ValueError ''invalid JSON''))
                 | Some (JObj kvs) \<Rightarrow> Return (JObj kvs)
                 | Some _ \<Rightarrow> Raise (BridgeRaised (RuntimeError ''bridge returned a non-object JSON response''))))
       else (case response_error status payload of
               BridgeError code message retryable st \<Rightarrow>
                 if retryable then Retry else Raise (BridgeError code message retryable st)
             | e \<Rightarrow> Raise e))"

text \<open>
  \<^verbatim>\<open>BridgeClient.request\<close> with the rendered body: attempt \<open>i\<close> signs at clock and nonce \<open>stamp i\<close> and gets
  \<open>replies i\<close>. The result lists the headers of every request sent.
\<close>

fun request_loop ::
  "pylib \<Rightarrow> string \<Rightarrow> string \<Rightarrow> string \<Rightarrow> string \<Rightarrow> (string \<Rightarrow> json res) option \<Rightarrow> (nat \<Rightarrow> int \<times> string)
   \<Rightarrow> (nat \<Rightarrow> reply) \<Rightarrow> nat \<Rightarrow> nat \<Rightarrow> (string \<times> string) list list \<times> (bridge_exn + json)" where
  "request_loop L secret meth path body model stamp replies attempt 0 =
     ([], Inl (BridgeRaised (RuntimeError ''bridge request failed'')))"
| "request_loop L secret meth path body model stamp replies attempt (Suc left) =
     (case bridge_headers L secret meth path body (fst (stamp attempt)) (snd (stamp attempt)) of
        Inl e \<Rightarrow> ([], Inl (BridgeRaised e))
      | Inr hs \<Rightarrow>
          let headers = hs @ (if body = [] then [] else [(''Content-Type'', ''application/json'')])
          in case reply_outcome model (replies attempt) of
               Return v \<Rightarrow> ([headers], Inr v)
             | Raise e \<Rightarrow> ([headers], Inl e)
             | Retry \<Rightarrow>
                 (let (more, r) = request_loop L secret meth path body model stamp replies (Suc attempt) left
                  in (headers # more, r)))"

definition bridge_request ::
  "pylib \<Rightarrow> string \<Rightarrow> nat \<Rightarrow> string \<Rightarrow> string \<Rightarrow> string \<Rightarrow> (string \<Rightarrow> json res) option \<Rightarrow> (nat \<Rightarrow> int \<times> string)
   \<Rightarrow> (nat \<Rightarrow> reply) \<Rightarrow> (string \<times> string) list list \<times> (bridge_exn + json)" where
  "bridge_request L secret retries meth path body model stamp replies =
     request_loop L secret meth path body model stamp replies 0 (retries + 1)"

definition sent_headers ::
  "pylib \<Rightarrow> string \<Rightarrow> string \<Rightarrow> string \<Rightarrow> string \<Rightarrow> int \<times> string \<Rightarrow> (string \<times> string) list \<Rightarrow> bool" where
  "sent_headers L secret meth path body st headers \<longleftrightarrow>
     (\<exists>hs. bridge_headers L secret meth path body (fst st) (snd st) = Inr hs
        \<and> headers = hs @ (if body = [] then [] else [(''Content-Type'', ''application/json'')]))"

lemma request_loop_exhausted:
  "32 \<le> length secret \<Longrightarrow> \<forall>k. reply_outcome model (replies k) = Retry \<Longrightarrow>
     \<exists>sent. request_loop L secret meth path body model stamp replies i n
       = (sent, Inl (BridgeRaised (RuntimeError ''bridge request failed''))) \<and> length sent = n"
proof (induction n arbitrary: i)
  case (Suc n)
  obtain hs where "bridge_headers L secret meth path body (fst (stamp i)) (snd (stamp i)) = Inr hs"
    using Suc.prems(1) by (simp add: bridge_headers_def Let_def)
  moreover obtain more where "request_loop L secret meth path body model stamp replies (Suc i) n
      = (more, Inl (BridgeRaised (RuntimeError ''bridge request failed'')))" "length more = n"
    using Suc.IH [OF Suc.prems] by blast
  ultimately show ?case using Suc.prems(2) by simp
qed simp

lemma request_loop_bounded:
  "request_loop L secret meth path body model stamp replies i n = (sent, r) \<Longrightarrow>
     length sent \<le> n
     \<and> (\<forall>k < length sent - 1. reply_outcome model (replies (i + k)) = Retry)
     \<and> (\<forall>v. r = Inr v \<longrightarrow> sent \<noteq> [] \<and> reply_outcome model (replies (i + (length sent - 1))) = Return v)
     \<and> (\<forall>k < length sent. sent_headers L secret meth path body (stamp (i + k)) (sent ! k))"
proof (induction n arbitrary: i sent r)
  case (Suc n)
  show ?case
  proof (cases "bridge_headers L secret meth path body (fst (stamp i)) (snd (stamp i))")
    case (Inl e)
    then show ?thesis using Suc.prems by auto
  next
    case (Inr hs)
    let ?h = "hs @ (if body = [] then [] else [(''Content-Type'', ''application/json'')])"
    have h: "sent_headers L secret meth path body (stamp i) ?h" using Inr by (auto simp: sent_headers_def)
    show ?thesis
    proof (cases "reply_outcome model (replies i) = Retry")
      case True
      obtain more r' where m: "request_loop L secret meth path body model stamp replies (Suc i) n = (more, r')"
        by fastforce
      then have eq: "sent = ?h # more" "r = r'" using Suc.prems Inr True by (auto simp: Let_def)
      note ih = Suc.IH [OF m]
      have "reply_outcome model (replies (i + k)) = Retry" if "k < length more" for k
        using ih True that by (cases k) auto
      moreover have "sent_headers L secret meth path body (stamp (i + k)) ((?h # more) ! k)" if "k < Suc (length more)" for k
        using ih h that by (cases k) auto
      moreover have "reply_outcome model (replies (i + length more)) = Return v" if "r' = Inr v" for v
        using ih that by (cases more) auto
      ultimately show ?thesis using ih unfolding eq by simp
    next
      case False
      then have "sent = [?h]" "\<forall>v. r = Inr v \<longrightarrow> reply_outcome model (replies i) = Return v"
        using Suc.prems Inr by (auto simp: Let_def split: outcome.splits)
      then show ?thesis using h by simp
    qed
  qed
qed simp

text \<open>
  C40: The bridge client stops: it sends at most one request more than its retries, each
  signed with the clock and nonce of its own attempt; every reply before the last one
  allowed a retry, a result is the value of the last reply, and when every reply allows a
  retry it sends exactly that many requests and reports the failure.
\<close>

theorem bridge_client_bounded:
  assumes "bridge_request L secret retries meth path body model stamp replies = (sent, r)"
  shows "length sent \<le> retries + 1
    \<and> (\<forall>k < length sent - 1. reply_outcome model (replies k) = Retry)
    \<and> (\<forall>v. r = Inr v \<longrightarrow> sent \<noteq> [] \<and> reply_outcome model (replies (length sent - 1)) = Return v)
    \<and> (\<forall>k < length sent. sent_headers L secret meth path body (stamp k) (sent ! k))
    \<and> (32 \<le> length secret \<longrightarrow> (\<forall>k. reply_outcome model (replies k) = Retry)
         \<longrightarrow> length sent = retries + 1 \<and> r = Inl (BridgeRaised (RuntimeError ''bridge request failed'')))"
proof -
  note run = assms [unfolded bridge_request_def]
  have "length sent = retries + 1 \<and> r = Inl (BridgeRaised (RuntimeError ''bridge request failed''))"
    if "32 \<le> length secret" and "\<forall>k. reply_outcome model (replies k) = Retry"
    using request_loop_exhausted [OF that, of L meth path body stamp 0 "retries + 1"] unfolding run by blast
  then show ?thesis using request_loop_bounded [OF run, unfolded add_0] by blast
qed

theorem bridge_client_bounded_witness:
  "\<forall>fromiso. \<exists>sent. bridge_request (cpython fromiso) demo_secret 2 ''GET'' ''/v1/state'' [] None (\<lambda>i. (int i, ''nonce''))
     (\<lambda>_. NoReply) = (sent, Inl (BridgeRaised (RuntimeError ''bridge request failed''))) \<and> length sent = 3"
proof
  fix fromiso
  obtain sent r where run: "bridge_request (cpython fromiso) demo_secret 2 ''GET'' ''/v1/state'' [] None (\<lambda>i. (int i, ''nonce''))
      (\<lambda>_. NoReply) = (sent, r)" by fastforce
  have "32 \<le> length demo_secret" "\<forall>k :: nat. reply_outcome None NoReply = Retry"
    by (simp_all add: demo_secret_def reply_outcome_def)
  then have "length sent = 2 + 1 \<and> r = Inl (BridgeRaised (RuntimeError ''bridge request failed''))"
    using bridge_client_bounded [OF run] by blast
  with run show "\<exists>sent. bridge_request (cpython fromiso) demo_secret 2 ''GET'' ''/v1/state'' [] None (\<lambda>i. (int i, ''nonce''))
      (\<lambda>_. NoReply) = (sent, Inl (BridgeRaised (RuntimeError ''bridge request failed''))) \<and> length sent = 3"
    by (intro exI [of _ sent] conjI) (simp_all only: add.commute numeral_plus_numeral numeral_plus_one semiring_norm)
qed

end
