(* ===== verification/ChainQuorum.thy ===== *)
theory ChainQuorum
  imports ChainView ExecutionVectors Decimals
begin

text \<open>
  Redundant finalized reads: the adapter over one RPC endpoint (\<^verbatim>\<open>chain.py\<close>,
  \<^verbatim>\<open>BittensorChain\<close>), the agreement of several endpoints (\<^verbatim>\<open>chain_quorum.py\<close>,
  \<^verbatim>\<open>FinalizedRpcQuorum\<close>), the choice of independent endpoints, and the table of reads in
  flight that a close drains. The answers of the SDK client are parameters; opening and
  closing sockets is not modelled.
\<close>

section \<open>One RPC endpoint\<close>

text \<open>
  The SDK client is a parameter: its finalized head (absent when the client has no such
  call), the head's hash, the metagraph at a block, the weight mode and the weight rows. A
  read that raises gives the exception.
\<close>

record rpc_graph =
  g_block :: int
  g_tempo :: int
  g_neurons :: "NeuronRecord list"

datatype rows_reply = NotRows | Rows "(int \<times> (json \<times> json) list option) list"

record rpc_client =
  rc_head :: "(string res \<times> (string \<Rightarrow> int res)) option"
  rc_metagraph :: "int option \<Rightarrow> rpc_graph option res"
  rc_commit_reveal :: "int \<Rightarrow> bool res"
  rc_weights :: "int \<Rightarrow> rows_reply res"

record BittensorChain =
  bc_network :: string
  bc_netuid :: int
  bc_rpc_endpoint :: "string option"

definition finalized_block :: "rpc_client \<Rightarrow> int option res" where
  "finalized_block client = (case rc_head client of
     None \<Rightarrow> Inr None
   | Some (head, number) \<Rightarrow> res_bind head (\<lambda>h. res_bind (number h) (\<lambda>n. Inr (Some n))))"

definition read_metagraph :: "BittensorChain \<Rightarrow> rpc_client \<Rightarrow> int option \<Rightarrow> MetagraphSnapshot res" where
  "read_metagraph ch client block =
     res_bind (rc_metagraph client block) (\<lambda>graph.
       case graph of
         None \<Rightarrow> Inl (RuntimeError (''netuid '' @ int_text (bc_netuid ch) @ '' does not exist on '' @ bc_network ch))
       | Some g \<Rightarrow>
           reject_if (g_block g < 0 \<or> g_tempo g < 1) (RuntimeError ''metagraph returned an invalid block or tempo'')
           (reject_if (block \<noteq> None \<and> block \<noteq> Some (g_block g))
             (RuntimeError ''finalized metagraph read returned a different block'')
           (Inr \<lparr>ms_network = bc_network ch, ms_netuid = bc_netuid ch, ms_block = g_block g, ms_tempo = g_tempo g,
                 ms_neurons = g_neurons g, ms_finalized = (block \<noteq> None)\<rparr>)))"

definition chain_sync :: "BittensorChain \<Rightarrow> rpc_client \<Rightarrow> MetagraphSnapshot res" where
  "chain_sync ch client = res_bind (finalized_block client) (\<lambda>b. read_metagraph ch client b)"

definition latest_finalized_block :: "rpc_client \<Rightarrow> int res" where
  "latest_finalized_block client = res_bind (finalized_block client) (\<lambda>b.
     case b of None \<Rightarrow> Inl (RuntimeError ''RPC does not expose finalized-head reads'') | Some n \<Rightarrow> Inr n)"

definition sync_at_finalized :: "BittensorChain \<Rightarrow> rpc_client \<Rightarrow> int \<Rightarrow> MetagraphSnapshot res" where
  "sync_at_finalized ch client block =
     reject_if (block < 0) (RuntimeError ''finalized block is invalid'') (read_metagraph ch client (Some block))"

definition strip_0x :: "string \<Rightarrow> string" where
  "strip_0x s = (if take 2 s = ''0x'' then drop 2 s else s)"

definition finalized_view :: "BittensorChain \<Rightarrow> rpc_client \<Rightarrow> (MetagraphSnapshot \<times> string) res" where
  "finalized_view ch client = (case rc_head client of
     None \<Rightarrow> Inl (RuntimeError ''RPC does not expose finalized-head reads'')
   | Some (head, number) \<Rightarrow>
       res_bind head (\<lambda>block_hash. res_bind (number block_hash) (\<lambda>height.
         let normalized = map to_lower (strip_0x block_hash)
         in reject_if (\<not> digest_text normalized) (RuntimeError ''finalized block hash is invalid'')
            (res_bind (read_metagraph ch client (Some height)) (\<lambda>s. Inr (s, normalized))))))"

text \<open>
  \<^verbatim>\<open>_read_validator_weights\<close>: the loop over the raw row, the normalisation check, and the
  row in key order.
\<close>

definition row_tolerance :: rat where
  "row_tolerance = rnd (1 / 10 ^ 12)"

definition row_error :: "'a res" where
  "row_error = Inl (RuntimeError ''validator weight row contains an invalid value'')"

definition row_entry :: "(int \<times> rat) list \<Rightarrow> json \<times> json \<Rightarrow> (int \<times> rat) list res" where
  "row_entry row e = (case e of
     (JInt uid, raw) \<Rightarrow>
       (case (case raw of JInt n \<Rightarrow> float_of_int n | JFloat f \<Rightarrow> Inr f | _ \<Rightarrow> row_error) of
          Inl x \<Rightarrow> Inl x
        | Inr (Fin weight) \<Rightarrow>
            if \<not> (0 \<le> uid \<and> uid \<le> 65535) \<or> \<not> (0 < weight \<and> weight \<le> 1) then row_error
            else reject_if (uid \<in> fst ` set row) (RuntimeError ''validator weight row contains a duplicate UID'')
                   (Inr (row @ [(uid, weight)]))
        | Inr _ \<Rightarrow> row_error)
   | _ \<Rightarrow> row_error)"

definition raw_row :: "rows_reply \<Rightarrow> int \<Rightarrow> (json \<times> json) list res" where
  "raw_row reply validator_uid = (case reply of
     NotRows \<Rightarrow> Inl (RuntimeError ''weight row response is invalid'')
   | Rows per_uid \<Rightarrow>
       (case map_of per_uid validator_uid of
          None \<Rightarrow> Inr []
        | Some None \<Rightarrow> Inl (RuntimeError ''validator weight row is invalid'')
        | Some (Some row) \<Rightarrow> Inr row))"

definition read_validator_weights :: "rpc_client \<Rightarrow> int \<Rightarrow> int \<Rightarrow> (int \<times> rat) list res" where
  "read_validator_weights client block validator_uid =
     res_bind (rc_weights client block) (\<lambda>reply. res_bind (raw_row reply validator_uid) (\<lambda>raw.
       res_bind (foldM row_entry [] raw) (\<lambda>row.
         reject_if (row \<noteq> [] \<and> \<not> is_close (fsum (map snd row)) 1 row_tolerance)
           (RuntimeError ''validator weight row is not normalized'')
           (Inr (sort_key fst row)))))"

definition validator_weights :: "rpc_client \<Rightarrow> int \<Rightarrow> int \<Rightarrow> (int \<times> rat) list res" where
  "validator_weights client block validator_uid =
     reject_if (block < 0 \<or> \<not> (0 \<le> validator_uid \<and> validator_uid \<le> 65535))
       (RuntimeError ''weight-row identity is invalid'') (read_validator_weights client block validator_uid)"

section \<open>Agreement of several endpoints\<close>

text \<open>
  What the quorum sees of a chain. The protocol admits any object as an answer: a head and a
  weight mode are Python values, a view or a row that is not of the expected class is
  \<^verbatim>\<open>None\<close>.
\<close>

record chain_query =
  cq_head :: "json res"
  cq_sync :: "int \<Rightarrow> MetagraphSnapshot option res"
  cq_mode :: "int \<Rightarrow> json res"
  cq_row :: "int \<Rightarrow> int \<Rightarrow> (int \<times> rat) list option res"

definition query_of :: "BittensorChain \<Rightarrow> rpc_client \<Rightarrow> chain_query" where
  "query_of ch client =
     \<lparr>cq_head = res_bind (latest_finalized_block client) (\<lambda>n. Inr (JInt n)),
      cq_sync = (\<lambda>b. res_bind (sync_at_finalized ch client b) (\<lambda>s. Inr (Some s))),
      cq_mode = (\<lambda>b. res_bind (rc_commit_reveal client b) (\<lambda>v. Inr (JBool v))),
      cq_row = (\<lambda>b uid. res_bind (validator_weights client b uid) (\<lambda>r. Inr (Some r)))\<rparr>"

record RpcAgreementAlert =
  al_code :: string
  al_phase :: string
  al_rpc_count :: nat
  al_observed :: "int list"

record quorum =
  q_max_lag :: int
  q_last_agreed :: "int option"

text \<open>A failed read: the alert that was raised and the error's message.\<close>

type_synonym 'a agreement = "(RpcAgreementAlert \<times> string) + 'a"

definition quorum_fail :: "chain_query list \<Rightarrow> string \<Rightarrow> string \<Rightarrow> string \<Rightarrow> int list \<Rightarrow> RpcAgreementAlert \<times> string" where
  "quorum_fail cs code phase message observed =
     (\<lparr>al_code = code, al_phase = phase, al_rpc_count = length cs, al_observed = observed\<rparr>, message)"

definition new_quorum :: "chain_query list \<Rightarrow> int \<Rightarrow> quorum res" where
  "new_quorum cs max_finalized_lag =
     reject_if (length cs < 2) (ValueError ''finalized RPC agreement requires at least two RPCs'')
     (reject_if (\<not> (0 \<le> max_finalized_lag \<and> max_finalized_lag \<le> 1024)) (ValueError ''maximum finalized RPC lag is invalid'')
     (Inr \<lparr>q_max_lag = max_finalized_lag, q_last_agreed = None\<rparr>))"

definition is_int :: "json \<Rightarrow> bool" where
  "is_int v = (case v of JInt _ \<Rightarrow> True | _ \<Rightarrow> False)"

definition the_int :: "json \<Rightarrow> int" where
  "the_int v = (case v of JInt n \<Rightarrow> n | _ \<Rightarrow> 0)"

definition is_bool :: "json \<Rightarrow> bool" where
  "is_bool v = (case v of JBool _ \<Rightarrow> True | _ \<Rightarrow> False)"

abbreviation oks :: "('e + 'a) list \<Rightarrow> 'a list" where
  "oks rs \<equiv> map projr rs"

definition quorum_heads :: "quorum \<Rightarrow> chain_query list \<Rightarrow> int list agreement" where
  "quorum_heads q cs =
     (let raw = map cq_head cs; heights = map the_int (oks raw); common_block = Min (set heights)
      in reject_if (list_ex isl raw)
           (quorum_fail cs ''rpc_finalized_head_unavailable'' ''finalized_head'' ''a finalized RPC head is unavailable'' [])
         (reject_if (list_ex (\<lambda>v. \<not> is_int v) (oks raw))
           (quorum_fail cs ''rpc_finalized_head_invalid'' ''finalized_head'' ''a finalized RPC head is invalid'' [])
         (reject_if (list_ex (\<lambda>h. h < 0) heights)
           (quorum_fail cs ''rpc_finalized_head_invalid'' ''finalized_head'' ''a finalized RPC head is invalid'' heights)
         (reject_if (Max (set heights) - common_block > q_max_lag q)
           (quorum_fail cs ''rpc_finalized_lag_exceeded'' ''finalized_head'' ''finalized RPC lag exceeds the configured bound'' heights)
         (reject_if (case q_last_agreed q of None \<Rightarrow> False | Some l \<Rightarrow> common_block < l)
           (quorum_fail cs ''rpc_finalized_rollback'' ''finalized_head'' ''the agreed finalized height moved backwards'' heights)
         (Inr heights))))))"

definition quorum_views :: "chain_query list \<Rightarrow> int list \<Rightarrow> MetagraphSnapshot agreement" where
  "quorum_views cs heights =
     (let common_block = Min (set heights); raw = map (\<lambda>c. cq_sync c common_block) cs;
          snapshots = map the (oks raw)
      in reject_if (list_ex isl raw \<or> None \<in> set (oks raw))
           (quorum_fail cs ''rpc_snapshot_unavailable'' ''metagraph'' ''a finalized metagraph view is unavailable'' heights)
         (reject_if (list_ex (\<lambda>s. \<not> ms_finalized s \<or> ms_block s \<noteq> common_block) snapshots)
           (quorum_fail cs ''rpc_snapshot_not_finalized'' ''metagraph'' ''an RPC did not return the agreed finalized height'' heights)
         (reject_if (list_ex (\<lambda>s. identity_fingerprint s \<noteq> identity_fingerprint (hd snapshots)) (tl snapshots))
           (quorum_fail cs ''rpc_snapshot_disagreement'' ''metagraph'' ''finalized RPC metagraph views disagree'' heights)
         (Inr (hd snapshots)))))"

definition quorum_sync :: "quorum \<Rightarrow> chain_query list \<Rightarrow> quorum \<times> MetagraphSnapshot agreement" where
  "quorum_sync q cs =
     (case quorum_heads q cs of
        Inl e \<Rightarrow> (q, Inl e)
      | Inr heights \<Rightarrow>
          (case quorum_views cs heights of
             Inl e \<Rightarrow> (q, Inl e)
           | Inr s \<Rightarrow> (q\<lparr>q_last_agreed := Some (Min (set heights))\<rparr>, Inr s)))"

definition quorum_commit_reveal :: "chain_query list \<Rightarrow> int \<Rightarrow> bool agreement" where
  "quorum_commit_reveal cs block =
     (let raw = map (\<lambda>c. cq_mode c block) cs
      in reject_if (list_ex isl raw \<or> list_ex (\<lambda>v. \<not> is_bool v) (oks raw))
           (quorum_fail cs ''rpc_weight_mode_unavailable'' ''weight_mode'' ''a finalized weight-mode view is unavailable'' [block])
         (reject_if (card (set (oks raw)) \<noteq> 1)
           (quorum_fail cs ''rpc_weight_mode_disagreement'' ''weight_mode'' ''finalized RPC weight-mode views disagree'' [block])
         (Inr (hd (oks raw) = JBool True))))"

definition row_fingerprint :: "(int \<times> rat) list \<Rightarrow> (int \<times> string) list" where
  "row_fingerprint row = map (\<lambda>(uid, weight). (uid, float_hex weight)) row"

definition quorum_validator_weights :: "chain_query list \<Rightarrow> int \<Rightarrow> int \<Rightarrow> (int \<times> rat) list agreement" where
  "quorum_validator_weights cs block validator_uid =
     (let raw = map (\<lambda>c. cq_row c block validator_uid) cs; found = map the (oks raw)
      in reject_if (list_ex isl raw \<or> None \<in> set (oks raw))
           (quorum_fail cs ''rpc_weight_row_unavailable'' ''weight_row'' ''a finalized validator-weight view is unavailable'' [block])
         (reject_if (list_ex (\<lambda>row. row_fingerprint row \<noteq> row_fingerprint (hd found)) (tl found))
           (quorum_fail cs ''rpc_weight_row_disagreement'' ''weight_row'' ''finalized RPC validator-weight views disagree'' [block])
         (Inr (hd found))))"

section \<open>Independent endpoints\<close>

text \<open>\<^verbatim>\<open>SplitResult.hostname\<close>: lower case up to a zone.\<close>

definition url_hostname :: "string \<Rightarrow> string option" where
  "url_hostname netloc =
     (let host = fst (hostinfo netloc); (name, percent, zone) = py_partition CHR ''%'' host
      in if host = [] then None else Some (map to_lower name @ (if percent then CHR ''%'' # zone else [])))"

text \<open>
  \<^verbatim>\<open>ipaddress.ip_address(host).compressed\<close>: an IPv4 address is its own text, an IPv6
  address is eight groups with the longest run of zero groups abbreviated.
\<close>

definition hex_text_value :: "string \<Rightarrow> nat" where
  "hex_text_value s = foldl (\<lambda>n c. 16 * n + (if NetworkIdentity.is_digit c then ord c - 48 else ord (to_lower c) - 87)) 0 s"

definition tail_groups :: "string \<Rightarrow> nat list" where
  "tail_groups s = (let octets = map NetworkIdentity.dec_value (split_on CHR ''.'' s)
     in [256 * (octets ! 0) + octets ! 1, 256 * (octets ! 2) + octets ! 3])"

definition ipv6_groups :: "string \<Rightarrow> nat list" where
  "ipv6_groups addr =
     (let parts = split_on CHR '':'' addr;
          mixed = CHR ''.'' \<in> set (last parts);
          heads = (if mixed then butlast parts else parts);
          tl_groups = (if mixed then tail_groups (last parts) else []);
          n = length heads;
          skips = filter (\<lambda>i. heads ! i = []) [1..<(if mixed then n else n - 1)]
      in case skips of
           [] \<Rightarrow> map hex_text_value heads @ tl_groups
         | k # _ \<Rightarrow>
             (let front = map hex_text_value (filter (\<lambda>p. p \<noteq> []) (take k heads));
                  back = map hex_text_value (filter (\<lambda>p. p \<noteq> []) (drop (Suc k) heads)) @ tl_groups
              in front @ replicate (8 - length front - length back) 0 @ back))"

fun hex_min :: "nat \<Rightarrow> string" where
  "hex_min n = (if n < 16 then [hex_digit n] else hex_min (n div 16) @ [hex_digit n])"

declare hex_min.simps [simp del]

text \<open>The first longest run of zeros: its start and its length.\<close>

fun zero_run :: "nat list \<Rightarrow> nat \<Rightarrow> nat \<Rightarrow> nat \<times> nat \<Rightarrow> nat \<times> nat" where
  "zero_run [] i len best = best"
| "zero_run (g # gs) i len best =
     (if g = 0 then zero_run gs (Suc i) (Suc len) (if Suc len > snd best then (i - len, Suc len) else best)
      else zero_run gs (Suc i) 0 best)"

definition join_colon :: "string list \<Rightarrow> string" where
  "join_colon parts = (case parts of [] \<Rightarrow> [] | p # ps \<Rightarrow> p @ concat (map (\<lambda>q. CHR '':'' # q) ps))"

definition compress_hextets :: "nat list \<Rightarrow> string list" where
  "compress_hextets groups =
     (let hextets = map hex_min groups; (start, len) = zero_run groups 0 0 (0, 0)
      in if len > 1
         then (if start = 0 then [[]] else []) @ take start hextets @ [[]] @ drop (start + len) hextets
              @ (if start + len = length hextets then [[]] else [])
         else hextets)"

definition ip_compressed :: "string \<Rightarrow> string option" where
  "ip_compressed host =
     (if ipv4_ok host then Some host
      else if ipv6_ok host
      then (let (addr, percent, zone) = py_partition CHR ''%'' host
            in Some (join_colon (compress_hextets (ipv6_groups addr)) @ (if percent then CHR ''%'' # zone else [])))
      else None)"

definition strip_dots :: "string \<Rightarrow> string" where
  "strip_dots s = rev (dropWhile (\<lambda>c. c = CHR ''.'') (rev s))"

definition rpc_endpoint_identity :: "string \<Rightarrow> (string \<times> string \<times> nat) option" where
  "rpc_endpoint_identity endpoint =
     (if endpoint = [] \<or> endpoint \<noteq> py_strip endpoint \<or> \<not> list_all graphic endpoint then None
      else case split_endpoint endpoint of
        Inl _ \<Rightarrow> None
      | Inr (p, port) \<Rightarrow>
          (case url_hostname (u_netloc p) of
             None \<Rightarrow> None
           | Some hostname \<Rightarrow>
               if u_scheme p \<notin> {''ws'', ''wss''} \<or> CHR ''@'' \<in> set (u_netloc p) \<or> u_path p \<notin> {[], ''/''}
                  \<or> u_query p \<noteq> [] \<or> u_fragment p \<noteq> []
                  \<or> (case port of None \<Rightarrow> False | Some n \<Rightarrow> \<not> (1 \<le> n \<and> n \<le> 65535))
               then None
               else (let canonical = (case ip_compressed hostname of Some a \<Rightarrow> a
                                      | None \<Rightarrow> strip_dots (map to_lower hostname))
                     in if canonical = [] then None
                        else Some (u_scheme p, canonical,
                               case port of Some n \<Rightarrow> n | None \<Rightarrow> if u_scheme p = ''ws'' then 80 else 443))))"

datatype chain_source = Direct BittensorChain | Quorum "BittensorChain list" int

definition chain_at :: "string \<Rightarrow> int \<Rightarrow> string option \<Rightarrow> BittensorChain" where
  "chain_at network netuid endpoint = \<lparr>bc_network = network, bc_netuid = netuid, bc_rpc_endpoint = endpoint\<rparr>"

definition build_chain_query :: "string \<Rightarrow> int \<Rightarrow> string list \<Rightarrow> int \<Rightarrow> chain_source res" where
  "build_chain_query network netuid endpoints max_finalized_lag =
     (if endpoints = [] then Inr (Direct (chain_at network netuid None))
      else if length endpoints = 1 \<and> network = ''test''
      then reject_if (rpc_endpoint_identity (hd endpoints) = None) (ValueError ''RPC endpoint set is invalid'')
             (Inr (Direct (chain_at network netuid (Some (hd endpoints)))))
      else reject_if (length endpoints < 2) (ValueError ''configure at least two RPC endpoints or none'')
             (reject_if (None \<in> set (map rpc_endpoint_identity endpoints) \<or> \<not> distinct (map rpc_endpoint_identity endpoints))
               (ValueError ''RPC endpoint set is invalid'')
             (reject_if (\<not> (0 \<le> max_finalized_lag \<and> max_finalized_lag \<le> 1024)) (ValueError ''maximum finalized RPC lag is invalid'')
             (Inr (Quorum (map (\<lambda>e. chain_at network netuid (Some e)) endpoints) max_finalized_lag)))))"


section \<open>What an agreed view means\<close>

lemma isl_iff: "\<not> isl r \<longleftrightarrow> (\<exists>x. r = Inr x)"
  by (cases r) auto

lemma all_inr: "\<not> list_ex isl (map f xs) \<longleftrightarrow> (\<forall>x\<in>set xs. \<exists>y. f x = Inr y)"
  by (auto simp: list_ex_iff isl_iff)

lemma is_int_iff: "is_int v \<longleftrightarrow> (\<exists>n. v = JInt n)"
  by (cases v) (auto simp: is_int_def)

lemma int_answer: "\<not> isl r \<and> is_int (projr r) \<longleftrightarrow> r = Inr (JInt (the_int (projr r)))"
  by (cases r; cases "projr r") (auto simp: is_int_def the_int_def)

definition head_of :: "chain_query \<Rightarrow> int" where
  "head_of c = the_int (projr (cq_head c))"

lemma quorum_heads_Inr:
  "quorum_heads q cs = Inr hs \<longleftrightarrow>
     hs = map head_of cs \<and> (\<forall>c\<in>set cs. cq_head c = Inr (JInt (head_of c)) \<and> 0 \<le> head_of c)
     \<and> Max (set hs) - Min (set hs) \<le> q_max_lag q
     \<and> (\<forall>l. q_last_agreed q = Some l \<longrightarrow> l \<le> Min (set hs))"
proof -
  have heads: "\<not> list_ex isl (map cq_head cs) \<and> \<not> list_ex (\<lambda>v. \<not> is_int v) (oks (map cq_head cs))
      \<longleftrightarrow> (\<forall>c\<in>set cs. cq_head c = Inr (JInt (head_of c)))"
    unfolding list_ex_iff head_of_def using int_answer by (auto simp: ball_conj_distrib)
  have "map the_int (oks (map cq_head cs)) = map head_of cs" by (simp add: head_of_def)
  then show ?thesis
    using heads unfolding quorum_heads_def Let_def reject_if_Inr
    by (auto simp: list_ex_iff not_less split: option.splits)
qed

lemma quorum_views_Inr:
  assumes "cs \<noteq> []"
  shows "quorum_views cs hs = Inr s \<longleftrightarrow>
     cq_sync (hd cs) (Min (set hs)) = Inr (Some s)
     \<and> (\<forall>c\<in>set cs. \<exists>v. cq_sync c (Min (set hs)) = Inr (Some v) \<and> ms_finalized v \<and> ms_block v = Min (set hs)
          \<and> identity_fingerprint v = identity_fingerprint s)"
proof -
  obtain c ds where cs: "cs = c # ds" using assms by (cases cs) auto
  let ?b = "Min (set hs)"
  have some: "\<not> (list_ex isl (map (\<lambda>c. cq_sync c ?b) cs) \<or> None \<in> set (oks (map (\<lambda>c. cq_sync c ?b) cs)))
      \<longleftrightarrow> (\<forall>c\<in>set cs. \<exists>v. cq_sync c ?b = Inr (Some v))"
    by (auto simp: all_inr image_iff) (metis not_None_eq sum.sel(2))+
  show ?thesis
    unfolding quorum_views_def Let_def reject_if_Inr some
    by (auto simp: cs list_ex_iff) fastforce
qed

lemma quorum_sync_iff:
  assumes "cs \<noteq> []"
  shows "quorum_sync q cs = (q', Inr s) \<longleftrightarrow>
     q' = q\<lparr>q_last_agreed := Some (ms_block s)\<rparr>
     \<and> cq_sync (hd cs) (ms_block s) = Inr (Some s)
     \<and> (\<exists>c\<in>set cs. cq_head c = Inr (JInt (ms_block s)))
     \<and> (\<forall>c\<in>set cs. \<exists>h v. cq_head c = Inr (JInt h) \<and> 0 \<le> ms_block s \<and> ms_block s \<le> h \<and> h \<le> ms_block s + q_max_lag q
          \<and> cq_sync c (ms_block s) = Inr (Some v) \<and> ms_finalized v \<and> ms_block v = ms_block s
          \<and> identity_fingerprint v = identity_fingerprint s)
     \<and> (\<forall>l. q_last_agreed q = Some l \<longrightarrow> l \<le> ms_block s)" (is "?L \<longleftrightarrow> ?R")
proof
  assume ?L
  then obtain hs where h: "quorum_heads q cs = Inr hs" and v: "quorum_views cs hs = Inr s"
    and q': "q' = q\<lparr>q_last_agreed := Some (Min (set hs))\<rparr>"
    by (auto simp: quorum_sync_def split: sum.splits)
  note heads = h [unfolded quorum_heads_Inr] and views = v [unfolded quorum_views_Inr [OF assms]]
  have hs: "hs = map head_of cs" using heads by blast
  have b: "ms_block s = Min (set hs)" using views assms by (cases cs) auto
  have "Min (set hs) \<in> set hs" using hs assms by (intro Min_in) auto
  then obtain c where "c \<in> set cs" "Min (set hs) = head_of c" using hs by auto
  moreover have "Min (set hs) \<le> head_of c \<and> head_of c \<le> Min (set hs) + q_max_lag q" if "c \<in> set cs" for c
  proof -
    have "head_of c \<in> set hs" using that hs by simp
    then have "Min (set hs) \<le> head_of c" "head_of c \<le> Max (set hs)" by simp_all
    then show ?thesis using heads by linarith
  qed
  ultimately show ?R
    using heads views q' unfolding b by (auto simp: hs) 
next
  assume R: ?R
  let ?hs = "map head_of cs"
  have head: "cq_head c = Inr (JInt (head_of c)) \<and> ms_block s \<le> head_of c \<and> head_of c \<le> ms_block s + q_max_lag q"
    if "c \<in> set cs" for c
    using R that by (fastforce simp: head_of_def the_int_def)
  obtain c where c: "c \<in> set cs" "head_of c = ms_block s" using R by (fastforce simp: head_of_def the_int_def)
  have m: "Min (set ?hs) = ms_block s" using head c by (intro Min_eqI) (auto intro: rev_image_eqI [of c])
  have "Max (set ?hs) \<le> ms_block s + q_max_lag q" using head assms by (subst Max_le_iff) auto
  moreover have "0 \<le> ms_block s" using R c by blast
  ultimately have "quorum_heads q cs = Inr ?hs"
    unfolding quorum_heads_Inr using head R m by fastforce
  moreover have "quorum_views cs ?hs = Inr s"
    unfolding quorum_views_Inr [OF assms] m using R by blast
  ultimately show ?L using R m by (simp add: quorum_sync_def)
qed

text \<open>
  C13: Exact meaning of a successful quorum read. \<^verbatim>\<open>FinalizedRpcQuorum.sync\<close> returns a
  snapshot exactly when every endpoint reports a finalized head, the heads lie within the
  configured lag, the snapshot's block is the lowest of them and not below the last agreed
  one, and every endpoint serves a finalized view of that block with the fingerprint of the
  first one, which is returned; the agreed block is then remembered.
\<close>

theorem quorum_sync_exact:
  assumes "cs \<noteq> []"
  shows "quorum_sync q cs = (q', Inr s) \<longleftrightarrow>
     q' = q\<lparr>q_last_agreed := Some (ms_block s)\<rparr>
     \<and> cq_sync (hd cs) (ms_block s) = Inr (Some s)
     \<and> (\<exists>c\<in>set cs. cq_head c = Inr (JInt (ms_block s)))
     \<and> (\<forall>c\<in>set cs. \<exists>h v. cq_head c = Inr (JInt h) \<and> 0 \<le> ms_block s \<and> ms_block s \<le> h \<and> h \<le> ms_block s + q_max_lag q
          \<and> cq_sync c (ms_block s) = Inr (Some v) \<and> ms_finalized v \<and> ms_block v = ms_block s
          \<and> identity_fingerprint v = identity_fingerprint s)
     \<and> (\<forall>l. q_last_agreed q = Some l \<longrightarrow> l \<le> ms_block s)"
  by (rule quorum_sync_iff [OF assms])

text \<open>A failed read changes nothing.\<close>

lemma quorum_sync_failed: "quorum_sync q cs = (q', Inl e) \<Longrightarrow> q' = q"
  by (auto simp: quorum_sync_def split: sum.splits)

section \<open>Views that never go back\<close>

text \<open>
  The contract the quorum and the \<^verbatim>\<open>MetagraphState\<close> cell share: an accepted view is at
  least as high as the mark, becomes the mark, and a refusal leaves the mark alone.
\<close>

fun accepted_views :: "('s \<Rightarrow> 'i \<Rightarrow> 's \<times> 'v option) \<Rightarrow> 's \<Rightarrow> 'i list \<Rightarrow> 'v list" where
  "accepted_views step s [] = []"
| "accepted_views step s (i # is) =
     (case step s i of
        (s', None) \<Rightarrow> accepted_views step s' is
      | (s', Some v) \<Rightarrow> v # accepted_views step s' is)"

locale monotone_view =
  fixes step :: "'s \<Rightarrow> 'i \<Rightarrow> 's \<times> 'v option"
    and mark :: "'s \<Rightarrow> int option"
    and height :: "'v \<Rightarrow> int"
    and proper :: "'i \<Rightarrow> bool"
  assumes taken: "proper i \<Longrightarrow> step s i = (s', Some v) \<Longrightarrow> mark s' = Some (height v) \<and> (\<forall>l. mark s = Some l \<longrightarrow> l \<le> height v)"
    and kept: "proper i \<Longrightarrow> step s i = (s', None) \<Longrightarrow> mark s' = mark s"
begin

lemma views_above:
  "list_all proper is \<Longrightarrow> mark s = Some l \<Longrightarrow> v \<in> set (accepted_views step s is) \<Longrightarrow> l \<le> height v"
proof (induction "is" arbitrary: s l)
  case (Cons i "is")
  obtain s' r where st: "step s i = (s', r)" by fastforce
  show ?case
  proof (cases r)
    case None
    then show ?thesis using Cons st kept [of i s s'] by auto
  next
    case (Some w)
    then have "mark s' = Some (height w)" "l \<le> height w" using Cons.prems st taken [of i s s' w] by auto
    then show ?thesis using Cons.IH [of s' "height w"] Cons.prems st Some by fastforce
  qed
qed simp

lemma views_sorted: "list_all proper is \<Longrightarrow> sorted (map height (accepted_views step s is))"
proof (induction "is" arbitrary: s)
  case (Cons i "is")
  obtain s' r where st: "step s i = (s', r)" by fastforce
  show ?case
  proof (cases r)
    case (Some v)
    then have "mark s' = Some (height v)" using Cons.prems st taken [of i s s' v] by auto
    then show ?thesis using Cons st Some views_above [of "is" s' "height v"] by auto
  qed (use Cons st in auto)
qed simp

end

definition quorum_step :: "quorum \<Rightarrow> chain_query list \<Rightarrow> quorum \<times> MetagraphSnapshot option" where
  "quorum_step q cs = (case quorum_sync q cs of (q', Inl e) \<Rightarrow> (q', None) | (q', Inr s) \<Rightarrow> (q', Some s))"

definition cell_step :: "metagraph_state \<Rightarrow> MetagraphSnapshot \<Rightarrow> metagraph_state \<times> MetagraphSnapshot option" where
  "cell_step st s = (case metagraph_set st s of Inl e \<Rightarrow> (st, None) | Inr st' \<Rightarrow> (st', Some s))"

lemma quorum_agrees:
  assumes "quorum_sync q cs = (q', Inr s)" and "cs \<noteq> []"
  shows "q_last_agreed q' = Some (ms_block s)" and "\<And>l. q_last_agreed q = Some l \<Longrightarrow> l \<le> ms_block s"
  using assms by (simp_all add: quorum_sync_iff)

interpretation quorum_view: monotone_view quorum_step q_last_agreed ms_block "\<lambda>cs. cs \<noteq> []"
proof
  fix cs q q' s
  assume cs: "cs \<noteq> ([] :: chain_query list)"
  show "quorum_step q cs = (q', Some s) \<Longrightarrow> q_last_agreed q' = Some (ms_block s) \<and> (\<forall>l. q_last_agreed q = Some l \<longrightarrow> l \<le> ms_block s)"
    using quorum_agrees [OF _ cs] by (auto simp: quorum_step_def split: prod.splits sum.splits)
  show "quorum_step q cs = (q', None) \<Longrightarrow> q_last_agreed q' = q_last_agreed q"
    using quorum_sync_failed [of q cs] by (auto simp: quorum_step_def split: prod.splits sum.splits)
qed

interpretation cell_view: monotone_view cell_step "map_option ms_block" ms_block "\<lambda>_. True"
  by unfold_locales
    (auto simp: cell_step_def metagraph_set_def reject_if_def split: sum.splits option.splits if_splits)

text \<open>
  Whatever the endpoints answer over any sequence of reads, the blocks of the snapshots
  the quorum returns never decrease.
\<close>

theorem quorum_never_rolls_back:
  assumes "list_all (\<lambda>cs. cs \<noteq> []) rounds"
  shows "sorted (map ms_block (accepted_views quorum_step q rounds))"
  using assms by (rule quorum_view.views_sorted)

text \<open>The same holds of the snapshots the \<^verbatim>\<open>MetagraphState\<close> cell admits.\<close>

lemma metagraph_never_rolls_back:
  "sorted (map ms_block (accepted_views cell_step st snapshots))"
  by (rule cell_view.views_sorted) (simp add: list_all_iff)

section \<open>Adapters and rows\<close>

lemma read_metagraph_Inr:
  "read_metagraph ch client (Some b) = Inr s \<Longrightarrow>
     ms_block s = b \<and> ms_finalized s \<and> ms_network s = bc_network ch \<and> ms_netuid s = bc_netuid ch \<and> 0 \<le> b \<and> 1 \<le> ms_tempo s"
  by (auto simp: read_metagraph_def split: option.splits)

definition row_ok :: "(int \<times> rat) list \<Rightarrow> bool" where
  "row_ok row \<longleftrightarrow> sorted_wrt (<) (map fst row) \<and> (\<forall>(uid, w)\<in>set row. 0 \<le> uid \<and> uid \<le> 65535 \<and> 0 < w \<and> w \<le> 1)
     \<and> (row = [] \<or> is_close (fsum (map snd row)) 1 row_tolerance)"

lemma row_entry_Inr:
  "row_entry row e = Inr row' \<Longrightarrow> \<exists>uid w. row' = row @ [(uid, w)] \<and> uid \<notin> fst ` set row \<and> 0 \<le> uid \<and> uid \<le> 65535 \<and> 0 < w \<and> w \<le> 1"
  by (auto simp: row_entry_def row_error_def reject_if_def split: prod.splits json.splits sum.splits pyfloat.splits if_splits)

lemma read_rows_entries:
  assumes "foldM row_entry [] raw = Inr row"
  shows "distinct (map fst row) \<and> (\<forall>(uid, w)\<in>set row. 0 \<le> uid \<and> uid \<le> 65535 \<and> 0 < w \<and> w \<le> 1)"
  by (rule foldM_invariant [where I = "\<lambda>_ row. distinct (map fst row) \<and> (\<forall>(uid, w)\<in>set row. 0 \<le> uid \<and> uid \<le> 65535 \<and> 0 < w \<and> w \<le> 1)", OF assms])
    (auto dest!: row_entry_Inr)

lemma validator_weights_ok:
  assumes "validator_weights client block uid = Inr row"
  shows "row_ok row"
proof -
  obtain raw xs where raw: "foldM row_entry [] raw = Inr xs" and row: "row = sort_key fst xs"
    and close: "xs = [] \<or> is_close (fsum (map snd xs)) 1 row_tolerance"
    using assms by (auto simp: validator_weights_def read_validator_weights_def)
  note entries = read_rows_entries [OF raw]
  have "sum_list (map snd row) = sum_list (map snd xs)"
    unfolding row by (metis mset_map mset_sort sum_mset_sum_list)
  moreover have "sorted_wrt (<) (map fst row)"
    unfolding strict_sorted_iff row by (simp add: distinct_map_sort_key entries)
  ultimately show ?thesis using entries close by (auto simp: row_ok_def row fsum_def)
qed

text \<open>
  C26: A weight row the quorum returns was served by every endpoint with the same
  fingerprint, and over the adapters of \<^verbatim>\<open>BittensorChain\<close> it is well formed: strictly
  increasing uids in range, weights in the half-open unit interval, and a sum within the
  tolerance of one unless the row is empty.
\<close>

theorem quorum_row_agreed:
  assumes "quorum_validator_weights (map (case_prod query_of) endpoints) block uid = Inr row" and "endpoints \<noteq> []"
  shows "row_ok row \<and> (\<forall>(ch, client)\<in>set endpoints. \<exists>r. validator_weights client block uid = Inr r
      \<and> row_fingerprint r = row_fingerprint row)"
proof -
  let ?cs = "map (case_prod query_of) endpoints"
  let ?raw = "map (\<lambda>c. cq_row c block uid) ?cs"
  have raw: "?raw = map (\<lambda>e. res_bind (validator_weights (snd e) block uid) (\<lambda>r. Inr (Some r))) endpoints"
    by (simp add: query_of_def case_prod_beta)
  have checks: "\<not> list_ex isl ?raw" "row = hd (map the (oks ?raw))"
    "\<not> list_ex (\<lambda>r. row_fingerprint r \<noteq> row_fingerprint row) (tl (map the (oks ?raw)))"
    using assms(1) unfolding quorum_validator_weights_def Let_def by (auto simp del: map_map)
  have each: "\<exists>r. validator_weights (snd e) block uid = Inr r" if "e \<in> set endpoints" for e
    using checks(1) that unfolding raw all_inr by auto
  obtain e rest where e: "endpoints = e # rest" using assms(2) by (cases endpoints) auto
  have row: "validator_weights (snd e) block uid = Inr row"
    using each [of e] checks(2) unfolding raw by (auto simp: e)
  have "row_fingerprint r = row_fingerprint row" if "e' \<in> set endpoints" "validator_weights (snd e') block uid = Inr r" for e' r
    using checks(3) that row unfolding raw by (auto simp: e list_ex_iff)
  then show ?thesis using validator_weights_ok [OF row] each by fastforce
qed

text \<open>A quorum is built only over endpoints that no spelling makes the same.\<close>

lemma build_chain_query_Quorum:
  "build_chain_query network netuid endpoints lag = Inr (Quorum cs m) \<Longrightarrow>
     2 \<le> length cs \<and> distinct (map rpc_endpoint_identity endpoints) \<and> None \<notin> set (map rpc_endpoint_identity endpoints)
     \<and> cs = map (\<lambda>e. chain_at network netuid (Some e)) endpoints \<and> m = lag \<and> 0 \<le> m \<and> m \<le> 1024"
  by (auto simp: build_chain_query_def reject_if_def split: if_splits)


section \<open>Two honest endpoints\<close>

definition agreed_demo_view :: "int \<Rightarrow> rpc_graph" where
  "agreed_demo_view b = \<lparr>g_block = b, g_tempo = 360, g_neurons = []\<rparr>"

definition demo_client :: "int \<Rightarrow> rpc_client" where
  "demo_client head = \<lparr>rc_head = Some (Inr ''0xab'', \<lambda>_. Inr head),
     rc_metagraph = (\<lambda>b. case b of None \<Rightarrow> Inr (Some (agreed_demo_view head))
        | Some n \<Rightarrow> if n \<le> head then Inr (Some (agreed_demo_view n)) else Inl (RuntimeError ''unknown block'')),
     rc_commit_reveal = (\<lambda>_. Inr False),
     rc_weights = (\<lambda>_. Inr (Rows [(3, Some [(JInt 7, JFloat (Fin (1/2))), (JInt 5, JFloat (Fin (1/2)))])]))\<rparr>"

definition demo_endpoints :: "(BittensorChain \<times> rpc_client) list" where
  "demo_endpoints = [(chain_at ''finney'' 24 (Some ''wss://a.example''), demo_client 102),
     (chain_at ''finney'' 24 (Some ''wss://b.example''), demo_client 100)]"

definition demo_agreed :: MetagraphSnapshot where
  "demo_agreed = \<lparr>ms_network = ''finney'', ms_netuid = 24, ms_block = 100, ms_tempo = 360, ms_neurons = [], ms_finalized = True\<rparr>"

definition demo_quorum :: "int option \<Rightarrow> quorum" where
  "demo_quorum l = \<lparr>q_max_lag = 8, q_last_agreed = l\<rparr>"

lemmas demo_reads = demo_endpoints_def demo_client_def agreed_demo_view_def demo_agreed_def demo_quorum_def query_of_def
  chain_at_def latest_finalized_block_def finalized_block_def sync_at_finalized_def read_metagraph_def

theorem quorum_sync_exact_witness:
  "quorum_sync (demo_quorum (Some 90)) (map (case_prod query_of) demo_endpoints) = (demo_quorum (Some 100), Inr demo_agreed)"
  by (subst quorum_sync_exact) (simp_all add: demo_reads)

theorem quorum_never_rolls_back_witness:
  "sorted (map ms_block (accepted_views quorum_step (demo_quorum None)
     [map (case_prod query_of) demo_endpoints, map (case_prod query_of) demo_endpoints]))"
  by (rule quorum_never_rolls_back) (simp add: demo_endpoints_def)

lemma demo_row: "validator_weights (demo_client h) 100 3 = Inr [(5, 1/2), (7, 1/2)]"
proof -
  have "is_close (fsum [1/2, 1/2]) 1 row_tolerance" by code_simp
  then show ?thesis
    by (simp add: validator_weights_def read_validator_weights_def demo_client_def raw_row_def row_entry_def)
qed

theorem quorum_row_agreed_witness:
  "row_ok [(5, 1/2), (7, 1/2)] \<and> list_all (\<lambda>(ch, client). \<exists>r. validator_weights client 100 3 = Inr r
      \<and> row_fingerprint r = row_fingerprint [(5, 1/2), (7, 1/2)]) demo_endpoints"
proof -
  have "quorum_validator_weights (map (case_prod query_of) demo_endpoints) 100 3 = Inr [(5, 1/2), (7, 1/2)]"
    by (simp add: quorum_validator_weights_def demo_endpoints_def query_of_def demo_row)
  from quorum_row_agreed [OF this] show ?thesis unfolding list_all_iff by (simp add: demo_endpoints_def)
qed

section \<open>Reads in flight\<close>

text \<open>
  The table of admitted reads that a close cancels and drains: per task one ownership
  object, here its serial number, and the depth of its nested reads. A close in progress is
  \<open>rd_retiring\<close>; every operation runs under the lifecycle lock or without an await.
\<close>

record reads =
  rd_retiring :: bool
  rd_ops :: "nat \<rightharpoonup> nat \<times> nat"
  rd_next :: nat

definition admit_read :: "reads \<Rightarrow> nat \<Rightarrow> (reads \<times> (nat \<times> nat)) res" where
  "admit_read s task =
     reject_if (rd_retiring s) (RuntimeError ''redundant RPC set is retiring'')
     (case rd_ops s task of
        None \<Rightarrow> Inr (s\<lparr>rd_ops := (rd_ops s)(task \<mapsto> (rd_next s, 1)), rd_next := Suc (rd_next s)\<rparr>, (task, rd_next s))
      | Some (serial, depth) \<Rightarrow> Inr (s\<lparr>rd_ops := (rd_ops s)(task \<mapsto> (serial, Suc depth))\<rparr>, (task, serial)))"

text \<open>\<^verbatim>\<open>BittensorChain._admit_read\<close> also needs the client.\<close>

definition chain_admit_read :: "bool \<Rightarrow> reads \<Rightarrow> nat \<Rightarrow> (reads \<times> (nat \<times> nat)) res" where
  "chain_admit_read has_client s task =
     reject_if (rd_retiring s) (RuntimeError ''chain is retiring'')
     (reject_if (\<not> has_client) (RuntimeError ''chain is not open'') (admit_read s task))"

definition release_read :: "reads \<Rightarrow> nat \<times> nat \<Rightarrow> reads" where
  "release_read s ownership =
     (case rd_ops s (fst ownership) of
        None \<Rightarrow> s
      | Some (serial, depth) \<Rightarrow>
          if serial \<noteq> snd ownership then s
          else s\<lparr>rd_ops := (rd_ops s)(fst ownership := (if depth = 1 then None else Some (serial, depth - 1)))\<rparr>)"

text \<open>\<^verbatim>\<open>_drain_read_operations\<close> waits while this is not empty.\<close>

definition pending_reads :: "reads \<Rightarrow> nat option \<Rightarrow> nat set" where
  "pending_reads s caller = {t \<in> dom (rd_ops s). Some t \<noteq> caller}"

text \<open>Any interleaving of admissions, releases of what was admitted, and closes.\<close>

inductive read_step :: "reads \<times> (nat \<times> nat) multiset \<Rightarrow> reads \<times> (nat \<times> nat) multiset \<Rightarrow> bool" where
  admit: "admit_read s t = Inr (s', own) \<Longrightarrow> read_step (s, out) (s', add_mset own out)"
| release: "own \<in># out \<Longrightarrow> read_step (s, out) (release_read s own, out - {#own#})"
| close: "read_step (s, out) (s\<lparr>rd_retiring := b\<rparr>, out)"

inductive_cases read_stepE: "read_step p p'"

definition depth_of :: "reads \<Rightarrow> nat \<times> nat \<Rightarrow> nat" where
  "depth_of s own = (case rd_ops s (fst own) of None \<Rightarrow> 0 | Some (n, d) \<Rightarrow> if n = snd own then d else 0)"

definition reads_inv :: "reads \<times> (nat \<times> nat) multiset \<Rightarrow> bool" where
  "reads_inv p \<longleftrightarrow> count (snd p) = depth_of (fst p)
     \<and> (\<forall>t n d. rd_ops (fst p) t = Some (n, d) \<longrightarrow> 0 < d \<and> n < rd_next (fst p))"

lemma reads_inv_step: "read_step p p' \<Longrightarrow> reads_inv p \<Longrightarrow> reads_inv p'"
proof (induction rule: read_step.induct)
  case (admit s t s' own out)
  then show ?case
    by (auto simp: admit_read_def reads_inv_def depth_of_def fun_eq_iff less_Suc_eq split: option.splits if_splits)
next
  case (release own out s)
  have c: "count out = depth_of s" using release.prems by (simp add: reads_inv_def)
  then have "0 < depth_of s own" using release.hyps by (metis count_greater_zero_iff)
  then obtain d where d: "rd_ops s (fst own) = Some (snd own, d)" "0 < d"
    by (auto simp: depth_of_def split: option.splits if_splits)
  then show ?case
    using release.prems c by (cases own) (auto simp: reads_inv_def release_read_def depth_of_def fun_eq_iff intro: Suc_lessI)
next
  case (close s out b)
  then show ?case by (simp add: reads_inv_def depth_of_def fun_eq_iff)
qed

text \<open>
  C39: Along every interleaving of nested reads and closes, the table of reads in flight holds
  exactly the reads that were admitted and not released. A close stops waiting when nothing is
  pending, so it leaves no read of another task behind, and it waits for no task that has
  released its reads.
\<close>

theorem reads_drained:
  assumes "read_step\<^sup>*\<^sup>* (\<lparr>rd_retiring = False, rd_ops = Map.empty, rd_next = 0\<rparr>, {#}) (s, out)"
  shows "t \<in> pending_reads s caller \<longleftrightarrow> Some t \<noteq> caller \<and> (\<exists>n. (t, n) \<in># out)"
proof -
  have "reads_inv (s, out)"
    using assms
  proof (induction "(s, out)" arbitrary: s out rule: rtranclp_induct)
    case base
    show ?case by (simp add: reads_inv_def depth_of_def fun_eq_iff)
  next
    case (step p)
    then show ?case using reads_inv_step by (metis surj_pair)
  qed
  then have "(\<exists>n. (t, n) \<in># out) \<longleftrightarrow> t \<in> dom (rd_ops s)"
    unfolding count_greater_zero_iff [symmetric] by (fastforce simp: reads_inv_def depth_of_def split: option.splits)
  then show ?thesis by (auto simp: pending_reads_def)
qed

definition demo_reads_start :: reads where
  "demo_reads_start = \<lparr>rd_retiring = False, rd_ops = Map.empty, rd_next = 0\<rparr>"

lemma demo_nested_read:
  "read_step\<^sup>*\<^sup>* (demo_reads_start, {#})
     (\<lparr>rd_retiring = False, rd_ops = [5 \<mapsto> (0, 2)], rd_next = 1\<rparr>, {#(5, 0), (5, 0)#})"
proof -
  have "read_step (demo_reads_start, {#}) (\<lparr>rd_retiring = False, rd_ops = [5 \<mapsto> (0, 1)], rd_next = 1\<rparr>, {#(5, 0)#})"
    by (rule read_step.admit [where t = 5]) (simp add: admit_read_def demo_reads_start_def)
  moreover have "read_step (\<lparr>rd_retiring = False, rd_ops = [5 \<mapsto> (0, 1)], rd_next = 1\<rparr>, {#(5, 0)#})
      (\<lparr>rd_retiring = False, rd_ops = [5 \<mapsto> (0, 2)], rd_next = 1\<rparr>, {#(5, 0), (5, 0)#})"
    by (rule read_step.admit [where t = 5]) (simp add: admit_read_def numeral_2_eq_2)
  ultimately show ?thesis by (rule converse_rtranclp_into_rtranclp [OF _ r_into_rtranclp])
qed

theorem reads_drained_witness:
  "5 \<in> pending_reads \<lparr>rd_retiring = False, rd_ops = [5 \<mapsto> (0, 2)], rd_next = 1\<rparr> None \<longleftrightarrow>
     Some 5 \<noteq> (None :: nat option) \<and> (\<exists>n. (5, n) \<in># {#(5 :: nat, 0 :: nat), (5, 0)#})"
  by (rule reads_drained [OF demo_nested_read [unfolded demo_reads_start_def]])

end
