(* ===== verification/StaticPaths.thy ===== *)
theory StaticPaths
  imports OrganicProbes
begin

text \<open>
  The URL paths of a static site. Two modules carry the grammar: \<^verbatim>\<open>static_contracts.py\<close>
  answers with a truth value (the documents that miners and the scheduler exchange), and
  \<^verbatim>\<open>static_index.py\<close> raises a \<^verbatim>\<open>StaticPathError\<close> (the index a validator ingests). Both are
  here, with the content types by extension, and the lemmas that compare them.
\<close>

section \<open>Splitting\<close>

text \<open>\<^verbatim>\<open>str.split(c)\<close> for one character and the last part of \<^verbatim>\<open>str.rsplit(c, 1)\<close>.\<close>

fun split_on :: "char \<Rightarrow> string \<Rightarrow> string list" where
  "split_on d [] = [[]]"
| "split_on d (c # s) =
     (if c = d then [] # split_on d s else (c # hd (split_on d s)) # tl (split_on d s))"

fun join_with :: "char \<Rightarrow> string list \<Rightarrow> string" where
  "join_with d [] = []"
| "join_with d [s] = s"
| "join_with d (s # t # ss) = s @ d # join_with d (t # ss)"

definition last_part :: "char \<Rightarrow> string \<Rightarrow> string" where
  "last_part d s = rev (takeWhile (\<lambda>c. c \<noteq> d) (rev s))"

section \<open>Characters\<close>

text \<open>\<^verbatim>\<open>_LITERAL\<close> and \<^verbatim>\<open>_L\<close>: unreserved characters, sub-delimiters, colon and at sign.\<close>

definition path_literals :: string where
  "path_literals =
     ''ABCDEFGHIJKLMNOPQRSTUVWXYZabcdefghijklmnopqrstuvwxyz0123456789-._~!$&'()*+,;=:@''"

definition upper_hex :: "char \<Rightarrow> bool" where
  "upper_hex c \<longleftrightarrow> c \<in> set ''0123456789ABCDEF''"

text \<open>\<^verbatim>\<open>int(text, 16)\<close> of two upper-case hexadecimal digits.\<close>

definition upper_nibble :: "char \<Rightarrow> nat" where
  "upper_nibble c = (if ord c \<le> 57 then ord c - 48 else ord c - 55)"

definition decoded_byte :: "char \<Rightarrow> char \<Rightarrow> nat" where
  "decoded_byte a b = 16 * upper_nibble a + upper_nibble b"

section \<open>The grammar of the contracts\<close>

text \<open>
  The loop of \<^verbatim>\<open>_valid_request_segment\<close>: an escape needs two more characters, and may not
  encode a literal, a slash, a backslash, or a control character.
\<close>

fun valid_escapes :: "string \<Rightarrow> bool" where
  "valid_escapes [] = True"
| "valid_escapes (c # s) =
     (if ord c \<noteq> 0x25 then c \<in> set path_literals \<and> valid_escapes s
      else (case s of
              a # b # t \<Rightarrow>
                upper_hex a \<and> upper_hex b
                \<and> \<not> (char_of (decoded_byte a b) \<in> set path_literals
                     \<or> decoded_byte a b \<in> {0x2F, 0x5C, 0x7F} \<or> decoded_byte a b < 0x20)
                \<and> valid_escapes t
            | _ \<Rightarrow> False))"

definition valid_request_segment :: "string \<Rightarrow> bool" where
  "valid_request_segment segment \<longleftrightarrow>
     segment \<noteq> [] \<and> length segment \<le> 255 \<and> segment \<notin> {''.'', ''..''}
     \<and> is_ascii segment \<and> valid_escapes segment"

definition split_path :: "string \<Rightarrow> string list option" where
  "split_path raw =
     (if \<not> starts_with ''/'' raw \<or> length raw > 1024 \<or> count_list raw (CHR ''/'') > 32 then None
      else Some (split_on (CHR ''/'') (tl raw)))"

text \<open>\<^verbatim>\<open>segment.replace("%20", replacement)\<close>.\<close>

fun replace_space :: "string \<Rightarrow> string \<Rightarrow> string" where
  "replace_space r (c # s) =
     (if starts_with ''%20'' (c # s) then r @ replace_space r (drop 2 s) else c # replace_space r s)"
| "replace_space r [] = []"

definition valid_file_path :: "string \<Rightarrow> bool" where
  "valid_file_path path =
     (case split_path path of
        None \<Rightarrow> False
      | Some segments \<Rightarrow>
          list_all (\<lambda>s. valid_request_segment s \<and> CHR ''%'' \<notin> set (replace_space [] s)) segments)"

definition valid_request_path :: "string \<Rightarrow> bool" where
  "valid_request_path raw =
     (case split_path raw of
        None \<Rightarrow> False
      | Some segments \<Rightarrow>
          list_all (\<lambda>(index, s). (s = [] \<and> index = length segments - 1) \<or> valid_request_segment s)
            (enumerate 0 segments))"

section \<open>The grammar of the index\<close>

definition path_error :: "string \<Rightarrow> exn" where
  "path_error code = StaticPathError code"

definition segments_of :: "string \<Rightarrow> string list res" where
  "segments_of path =
     reject_if (\<not> starts_with ''/'' path \<or> \<not> is_ascii path) (path_error ''static_path_invalid'')
     (reject_if (length path > 1024 \<or> count_list path (CHR ''/'') > 32) (path_error ''static_path_limits_exceeded'')
     (let segments = split_on (CHR ''/'') (tl path)
      in res_bind (foldM (\<lambda>_ s.
           reject_if (length s > 255) (path_error ''static_path_limits_exceeded'')
           (reject_if (s \<in> {''.'', ''..''}) (path_error ''static_path_dot_segment'')
           (Inr ()))) () segments) (\<lambda>_. Inr segments)))"

definition validate_file_path :: "string \<Rightarrow> string res" where
  "validate_file_path path =
     res_bind (segments_of path) (\<lambda>segments.
     res_bind (foldM (\<lambda>_ s.
        reject_if (s = [] \<or> \<not> set (replace_space '' '' s) \<subseteq> set path_literals \<union> {CHR '' ''})
          (path_error ''static_file_path_invalid'') (Inr ())) () segments) (\<lambda>_. Inr path))"

fun scan_segment :: "string \<Rightarrow> unit res" where
  "scan_segment [] = Inr ()"
| "scan_segment (c # s) =
     (if c = CHR ''%'' then
        (case s of
           a # b # t \<Rightarrow>
             reject_if (\<not> (upper_hex a \<and> upper_hex b)) (path_error ''static_path_encoding_invalid'')
             (reject_if (char_of (decoded_byte a b) \<in> set path_literals \<union> {CHR ''/'', CHR 0x5C}
                         \<or> decoded_byte a b \<le> 0x1F \<or> decoded_byte a b = 0x7F)
                (path_error ''static_path_encoding_invalid'') (scan_segment t))
         | _ \<Rightarrow> Inl (path_error ''static_path_encoding_invalid''))
      else reject_if (c \<notin> set path_literals) (path_error ''static_path_invalid'') (scan_segment s))"

definition validate_request_path :: "string \<Rightarrow> string res" where
  "validate_request_path path =
     res_bind (segments_of path) (\<lambda>segments.
     res_bind (foldM (\<lambda>_ (position, s).
        reject_if (s = [] \<and> position \<noteq> length segments - 1) (path_error ''static_path_empty_segment'')
          (scan_segment s)) () (enumerate 0 segments)) (\<lambda>_. Inr path))"

section \<open>Content types\<close>

text \<open>\<^verbatim>\<open>CONTENT_TYPES\<close>; the two modules carry the same table.\<close>

abbreviation html_type :: string where
  "html_type \<equiv> ''text/html; charset=utf-8''"

definition content_types :: "(string \<times> string) list" where
  "content_types =
     [(''html'', html_type), (''htm'', html_type), (''css'', ''text/css; charset=utf-8''),
      (''js'', ''text/javascript; charset=utf-8''), (''mjs'', ''text/javascript; charset=utf-8''),
      (''json'', ''application/json''), (''map'', ''application/json''),
      (''webmanifest'', ''application/manifest+json''), (''txt'', ''text/plain; charset=utf-8''),
      (''csv'', ''text/csv; charset=utf-8''), (''md'', ''text/markdown; charset=utf-8''),
      (''xml'', ''application/xml''), (''svg'', ''image/svg+xml''), (''png'', ''image/png''),
      (''jpg'', ''image/jpeg''), (''jpeg'', ''image/jpeg''), (''gif'', ''image/gif''),
      (''webp'', ''image/webp''), (''avif'', ''image/avif''), (''ico'', ''image/x-icon''),
      (''woff'', ''font/woff''), (''woff2'', ''font/woff2''), (''ttf'', ''font/ttf''),
      (''otf'', ''font/otf''), (''wasm'', ''application/wasm''), (''pdf'', ''application/pdf''),
      (''mp4'', ''video/mp4''), (''webm'', ''video/webm''), (''mp3'', ''audio/mpeg'')]"

definition content_type_for_path :: "string \<Rightarrow> string" where
  "content_type_for_path path =
     (let name = last_part (CHR ''/'') path
      in if CHR ''.'' \<notin> set name then ''application/octet-stream''
         else (case map_of content_types (py_lower (last_part (CHR ''.'') name)) of
                 None \<Rightarrow> ''application/octet-stream'' | Some t \<Rightarrow> t))"

section \<open>Comparing the grammars\<close>

lemma foldM_unit_iff: "foldM (\<lambda>_. f) () xs = Inr () \<longleftrightarrow> (\<forall>x\<in>set xs. f x = Inr ())"
  by (induction xs) auto

lemma foldM_unit_cases: "foldM (\<lambda>_. f) () xs = Inr u \<longleftrightarrow> (\<forall>x\<in>set xs. f x = Inr ())"
  using foldM_unit_iff [of f xs] by simp

lemma split_on_nonempty [simp]: "split_on d s \<noteq> []"
  by (induction s) auto

lemma split_on_Cons: "c \<noteq> d \<Longrightarrow> split_on d (c # s) = (c # hd (split_on d s)) # tl (split_on d s)"
  by simp

lemma split_on_chars: "(\<Union>s\<in>set (split_on d x). set s) = set x - {d}"
proof (induction x)
  case (Cons c x)
  have "set (split_on d x) = insert (hd (split_on d x)) (set (tl (split_on d x)))"
    by (cases "split_on d x") (use split_on_nonempty [of d x] in auto)
  then show ?case using Cons by auto
qed simp

lemma split_on_member: "c \<noteq> d \<Longrightarrow> c \<in> set x \<longleftrightarrow> (\<exists>s\<in>set (split_on d x). c \<in> set s)"
  using split_on_chars [of d x] by blast

lemma join_split_on: "join_with d (split_on d x) = x"
proof (induction x)
  case (Cons c x)
  obtain s ss where s: "split_on d x = s # ss" using split_on_nonempty [of d x] by (cases "split_on d x") auto
  show ?case using Cons s by (cases ss) auto
qed simp

lemma split_on_append:
  "split_on d (x @ d # y) = split_on d x @ split_on d y"
  by (induction x) auto

lemma split_on_none: "d \<notin> set x \<Longrightarrow> split_on d x = [x]"
  by (induction x) auto

lemma literal_facts:
  "c \<in> set path_literals \<Longrightarrow> 33 \<le> ord c \<and> ord c \<le> 126 \<and> c \<noteq> CHR ''/'' \<and> c \<noteq> CHR ''%'' \<and> ord c \<noteq> 35 \<and> ord c \<noteq> 63"
  by (auto simp: path_literals_def)

lemma upper_hex_facts: "upper_hex c \<Longrightarrow> 33 \<le> ord c \<and> ord c \<le> 126 \<and> c \<noteq> CHR ''/'' \<and> ord c \<noteq> 35 \<and> ord c \<noteq> 63"
  by (auto simp: upper_hex_def)

lemma upper_nibble_less: "upper_hex c \<Longrightarrow> upper_nibble c < 16"
  by (auto simp: upper_hex_def upper_nibble_def)

lemma ord_percent: "ord c = 0x25 \<longleftrightarrow> c = CHR ''%''"
proof -
  have "ord (CHR ''%'') = (0x25::nat)" by simp
  then show ?thesis by (metis char_of_char)
qed

lemma decoded_char:
  assumes "upper_hex a" and "upper_hex b"
  shows "char_of (decoded_byte a b) = CHR ''/'' \<longleftrightarrow> decoded_byte a b = 0x2F"
    and "char_of (decoded_byte a b) = CHR 0x5C \<longleftrightarrow> decoded_byte a b = 0x5C"
proof -
  have "decoded_byte a b < 256"
    using upper_nibble_less [OF assms(1)] upper_nibble_less [OF assms(2)] by (simp add: decoded_byte_def)
  then have eq: "ord (char_of (decoded_byte a b)) = decoded_byte a b" by simp
  have codes: "ord (CHR ''/'') = (0x2F::nat)" "ord (CHR 0x5C) = (0x5C::nat)" by simp_all
  show "char_of (decoded_byte a b) = CHR ''/'' \<longleftrightarrow> decoded_byte a b = 0x2F"
    using eq codes by (metis char_of_char)
  show "char_of (decoded_byte a b) = CHR 0x5C \<longleftrightarrow> decoded_byte a b = 0x5C"
    using eq codes by (metis char_of_char)
qed

lemma scan_segment_iff: "scan_segment s = Inr u \<longleftrightarrow> valid_escapes s"
proof (induction s rule: valid_escapes.induct)
  case (2 c s)
  show ?case
  proof (cases "c = CHR ''%''")
    case False
    then show ?thesis using 2(1) by (simp add: ord_percent)
  next
    case True
    show ?thesis
    proof (cases s rule: remdups_adj.cases)
      case (3 a b t)
      have "upper_hex a \<Longrightarrow> upper_hex b \<Longrightarrow>
          (char_of (decoded_byte a b) \<in> set path_literals \<union> {CHR ''/'', CHR 0x5C}
             \<or> decoded_byte a b \<le> 0x1F \<or> decoded_byte a b = 0x7F)
          \<longleftrightarrow> (char_of (decoded_byte a b) \<in> set path_literals
             \<or> decoded_byte a b \<in> {0x2F, 0x5C, 0x7F} \<or> decoded_byte a b < 0x20)"
        using decoded_char [of a b] by auto
      then show ?thesis using 2(2) True 3 by (auto simp: ord_percent)
    qed (use True in auto)
  qed
qed simp

lemma valid_escapes_chars:
  "valid_escapes s \<Longrightarrow> c \<in> set s \<Longrightarrow> 33 \<le> ord c \<and> ord c \<le> 126 \<and> ord c \<noteq> 35 \<and> ord c \<noteq> 63"
proof (induction s rule: valid_escapes.induct)
  case (2 d s)
  show ?case
  proof (cases "d = CHR ''%''")
    case False
    then show ?thesis using 2 literal_facts [of d] by (auto simp: ord_percent)
  next
    case True
    then show ?thesis using 2 upper_hex_facts
      by (auto simp: ord_percent split: list.splits)
  qed
qed simp

lemma valid_escapes_ascii: "valid_escapes s \<Longrightarrow> is_ascii s"
  using valid_escapes_chars by (fastforce simp: is_ascii_def list_all_iff)

text \<open>What the index asks of the segments of any path.\<close>

lemma segments_of_Inr:
  "segments_of p = Inr ss \<longleftrightarrow>
     split_path p = Some ss \<and> is_ascii p \<and> (\<forall>s\<in>set ss. length s \<le> 255 \<and> s \<notin> {''.'', ''..''})"
proof -
  have "foldM (\<lambda>_ s. reject_if (length s > 255) (path_error ''static_path_limits_exceeded'')
           (reject_if (s \<in> {''.'', ''..''}) (path_error ''static_path_dot_segment'') (Inr ()))) () ts = Inr u
      \<longleftrightarrow> (\<forall>s\<in>set ts. length s \<le> 255 \<and> s \<notin> {''.'', ''..''})" for ts u
    by (simp add: foldM_unit_cases not_less)
  then show ?thesis
    by (simp only: segments_of_def split_path_def Let_def reject_if_Inr res_bind_Inr) auto
qed

lemma enumerate_all: "(\<forall>x\<in>set (enumerate 0 xs). P (fst x) (snd x)) \<longleftrightarrow> (\<forall>i<length xs. P i (xs ! i))"
  by (metis add_0 fst_conv in_set_enumerate_eq diff_zero le0 add.right_neutral snd_conv)

lemma split_path_Some: "split_path p = Some ss \<Longrightarrow> ss \<noteq> [] \<and> p = CHR ''/'' # join_with (CHR ''/'') ss"
  by (cases p) (auto simp: split_path_def starts_with_def join_split_on split: if_splits)

lemma split_path_ascii:
  assumes "split_path p = Some ss"
  shows "is_ascii p \<longleftrightarrow> (\<forall>s\<in>set ss. is_ascii s)"
proof -
  obtain q where q: "p = CHR ''/'' # q" and ss: "ss = split_on (CHR ''/'') q"
    using assms by (cases p) (auto simp: split_path_def starts_with_def split: if_splits)
  have "(\<forall>s\<in>set ss. is_ascii s) \<longleftrightarrow> (\<forall>c\<in>set q - {CHR ''/''}. ord c < (128::nat))"
    unfolding ss split_on_chars [symmetric] by (auto simp: is_ascii_def list_all_iff)
  then show ?thesis unfolding q by (auto simp: is_ascii_def list_all_iff)
qed

lemma valid_request_path_iff:
  "valid_request_path p \<longleftrightarrow> (\<exists>ss. split_path p = Some ss \<and>
     (\<forall>i<length ss. (ss ! i = [] \<and> i = length ss - 1) \<or> valid_request_segment (ss ! i)))"
  unfolding valid_request_path_def list_all_iff case_prod_beta
  using enumerate_all [of ss "\<lambda>i s. (s = [] \<and> i = length ss - 1) \<or> valid_request_segment s" for ss]
  by (simp split: option.splits)

lemma validate_request_path_iff:
  "validate_request_path p = Inr q \<longleftrightarrow> q = p \<and> (\<exists>ss. segments_of p = Inr ss \<and>
     (\<forall>i<length ss. (ss ! i = [] \<longrightarrow> i = length ss - 1) \<and> valid_escapes (ss ! i)))"
proof -
  have "foldM (\<lambda>_ (position, s).
        reject_if (s = [] \<and> position \<noteq> length ss - 1) (path_error ''static_path_empty_segment'')
          (scan_segment s)) () (enumerate 0 ss) = Inr u
      \<longleftrightarrow> (\<forall>i<length ss. (ss ! i = [] \<longrightarrow> i = length ss - 1) \<and> valid_escapes (ss ! i))" for ss u
    unfolding foldM_unit_cases case_prod_beta reject_if_Inr scan_segment_iff
    using enumerate_all [of ss "\<lambda>i s. (s = [] \<longrightarrow> i = length ss - 1) \<and> valid_escapes s"] by auto
  then show ?thesis by (auto simp: validate_request_path_def)
qed

lemma request_path_grammars_agree: "valid_request_path p \<longleftrightarrow> validate_request_path p = Inr p"
proof -
  have seg: "(ss ! i = [] \<and> i = length ss - 1) \<or> valid_request_segment (ss ! i) \<longleftrightarrow>
      (length (ss ! i) \<le> 255 \<and> ss ! i \<notin> {''.'', ''..''}) \<and> is_ascii (ss ! i)
      \<and> (ss ! i = [] \<longrightarrow> i = length ss - 1) \<and> valid_escapes (ss ! i)" for ss i
    by (auto simp: valid_request_segment_def)
  show ?thesis
    unfolding valid_request_path_iff validate_request_path_iff segments_of_Inr seg
    by (auto simp: split_path_ascii all_set_conv_all_nth)
qed

text \<open>File paths: the index replaces \<^verbatim>\<open>%20\<close> by a space before it looks, so that a space passes as well.\<close>

lemma space_not_literal: "CHR '' '' \<notin> set path_literals" "CHR ''%'' \<notin> set path_literals"
  by (simp_all add: path_literals_def)

lemma replace_space_escape:
  "replace_space r (CHR ''%'' # CHR ''2'' # CHR ''0'' # t) = r @ replace_space r t"
  by (simp add: starts_with_def)

lemma replace_space_other: "\<not> starts_with ''%20'' (c # s) \<Longrightarrow> replace_space r (c # s) = c # replace_space r s"
  by simp

lemma starts_with_escape: "starts_with ''%20'' s \<Longrightarrow> \<exists>t. s = CHR ''%'' # CHR ''2'' # CHR ''0'' # t"
  unfolding starts_with_def by (metis append_Cons append_Nil append_take_drop_id)

lemma escape_ok: "valid_escapes (CHR ''%'' # CHR ''2'' # CHR ''0'' # t) \<longleftrightarrow> valid_escapes t"
proof -
  have "char_of (32::nat) = CHR '' ''" using char_of_char [of "CHR '' ''"] by simp
  then show ?thesis
    by (simp add: upper_hex_def decoded_byte_def upper_nibble_def space_not_literal)
qed

lemma file_segment_agree:
  "valid_escapes s \<and> CHR ''%'' \<notin> set (replace_space [] s) \<longleftrightarrow>
     set (replace_space '' '' s) \<subseteq> set path_literals \<union> {CHR '' ''} \<and> CHR '' '' \<notin> set s"
proof (induction s rule: length_induct)
  case (1 s)
  show ?case
  proof (cases s)
    case (Cons c t)
    show ?thesis
    proof (cases "starts_with ''%20'' s")
      case True
      then obtain u where u: "s = CHR ''%'' # CHR ''2'' # CHR ''0'' # u" using starts_with_escape by blast
      show ?thesis using 1 [rule_format, of u] unfolding u escape_ok replace_space_escape by simp
    next
      case False
      then have r: "replace_space r s = c # replace_space r t" for r
        unfolding Cons by (rule replace_space_other)
      show ?thesis
      proof (cases "c = CHR ''%''")
        case True
        then show ?thesis unfolding r using space_not_literal by simp
      next
        case other: False
        then have e: "valid_escapes s \<longleftrightarrow> c \<in> set path_literals \<and> valid_escapes t"
          by (simp add: Cons ord_percent)
        show ?thesis using 1 [rule_format, of t] space_not_literal other unfolding e r unfolding Cons by auto
      qed
    qed
  qed simp
qed

lemma validate_file_path_iff:
  "validate_file_path p = Inr q \<longleftrightarrow> q = p \<and> (\<exists>ss. segments_of p = Inr ss \<and>
     (\<forall>s\<in>set ss. s \<noteq> [] \<and> set (replace_space '' '' s) \<subseteq> set path_literals \<union> {CHR '' ''}))"
  by (auto simp: validate_file_path_def foldM_unit_cases)

lemma split_path_space:
  assumes "split_path p = Some ss"
  shows "CHR '' '' \<notin> set p \<longleftrightarrow> (\<forall>s\<in>set ss. CHR '' '' \<notin> set s)"
proof -
  obtain q where q: "p = CHR ''/'' # q" and ss: "ss = split_on (CHR ''/'') q"
    using assms by (cases p) (auto simp: split_path_def starts_with_def split: if_splits)
  have "CHR '' '' \<in> set q \<longleftrightarrow> (\<exists>s\<in>set ss. CHR '' '' \<in> set s)"
    unfolding ss by (rule split_on_member) simp
  then show ?thesis unfolding q by auto
qed

lemma file_path_grammars:
  "valid_file_path p \<longleftrightarrow> validate_file_path p = Inr p \<and> CHR '' '' \<notin> set p"
proof (cases "split_path p")
  case None
  then show ?thesis by (simp add: valid_file_path_def validate_file_path_iff segments_of_Inr)
next
  case (Some ss)
  have seg: "valid_request_segment s \<and> CHR ''%'' \<notin> set (replace_space [] s) \<longleftrightarrow>
      s \<noteq> [] \<and> (length s \<le> 255 \<and> s \<notin> {''.'', ''..''}) \<and> is_ascii s
      \<and> set (replace_space '' '' s) \<subseteq> set path_literals \<union> {CHR '' ''} \<and> CHR '' '' \<notin> set s" for s
    using file_segment_agree [of s] by (auto simp: valid_request_segment_def)
  have "validate_file_path p = Inr p \<longleftrightarrow> is_ascii p \<and> (\<forall>s\<in>set ss. s \<noteq> [] \<and> (length s \<le> 255 \<and> s \<notin> {''.'', ''..''})
      \<and> set (replace_space '' '' s) \<subseteq> set path_literals \<union> {CHR '' ''})"
    unfolding validate_file_path_iff segments_of_Inr Some by blast
  then show ?thesis
    unfolding valid_file_path_def Some option.case list_all_iff seg split_path_space [OF Some]
      split_path_ascii [OF Some] by blast
qed

text \<open>A file path without a space is a request path that a probe may carry.\<close>

lemma file_path_requestable: "valid_file_path p \<Longrightarrow> valid_request_path p"
  by (simp add: valid_file_path_def valid_request_path_iff list_all_iff split: option.splits)

lemma request_path_probeable:
  assumes "valid_request_path p"
  shows "health_path p"
proof -
  obtain ss where ss: "split_path p = Some ss"
    and ok: "\<forall>i<length ss. (ss ! i = [] \<and> i = length ss - 1) \<or> valid_request_segment (ss ! i)"
    using assms by (auto simp: valid_request_path_iff)
  obtain q where q: "p = CHR ''/'' # q" and qs: "ss = split_on (CHR ''/'') q" and len: "length q < 1024"
    using ss by (cases p) (auto simp: split_path_def starts_with_def split: if_splits)
  have "path_char c" if c: "c \<in> set q" for c
  proof (cases "c = CHR ''/''")
    case False
    then obtain s where s: "s \<in> set ss" "c \<in> set s"
      using c split_on_member [of c "CHR ''/''" q] unfolding qs by blast
    then obtain i where "i < length ss" "ss ! i = s" by (meson in_set_conv_nth)
    then have "valid_escapes s" using ok s(2) by (auto simp: valid_request_segment_def)
    from valid_escapes_chars [OF this s(2)] show ?thesis by (simp add: path_char_def)
  qed (simp add: path_char_def)
  moreover have "hd q \<noteq> CHR ''/''" if q_ne: "q \<noteq> []"
  proof
    assume "hd q = CHR ''/''"
    then obtain r where "q = CHR ''/'' # r" using q_ne by (cases q) auto
    then have "ss = [] # split_on (CHR ''/'') r" by (simp add: qs)
    moreover have "split_on (CHR ''/'') r \<noteq> []" by simp
    ultimately show False using ok by (auto simp: valid_request_segment_def)
  qed
  ultimately show ?thesis unfolding q using len by (cases q) (simp_all add: list_all_iff)
qed

section \<open>Paths with a literal space\<close>

lemma valid_escapes_no_space: "valid_escapes s \<Longrightarrow> CHR '' '' \<notin> set s"
proof (induction s rule: valid_escapes.induct)
  case (2 c s)
  have space: "\<not> upper_hex (CHR '' '')" "ord (CHR '' '') \<noteq> 0x25" by (simp_all add: upper_hex_def)
  show ?case
  proof (cases "ord c = 0x25")
    case True
    then obtain a b t where s: "s = a # b # t" "upper_hex a" "upper_hex b" "valid_escapes t"
      using 2(3) by (auto split: list.splits)
    have "CHR '' '' \<notin> set t" using 2(2) True s by simp
    then show ?thesis using s space True by auto
  next
    case False
    then show ?thesis using 2 space_not_literal(1) by auto
  qed
qed simp

lemma request_path_no_space:
  assumes "valid_request_path p"
  shows "CHR '' '' \<notin> set p"
proof -
  obtain ss where ss: "split_path p = Some ss"
    "\<forall>i<length ss. (ss ! i = [] \<and> i = length ss - 1) \<or> valid_request_segment (ss ! i)"
    using assms unfolding valid_request_path_iff by blast
  have "CHR '' '' \<notin> set s" if s: "s \<in> set ss" for s
  proof -
    obtain i where "i < length ss" "ss ! i = s" using s by (auto simp: in_set_conv_nth)
    then have "s = [] \<or> valid_request_segment s" using ss(2) by blast
    then show ?thesis using valid_escapes_no_space by (auto simp: valid_request_segment_def)
  qed
  then show ?thesis using split_path_space [OF ss(1)] by blast
qed

lemma foldM_raises: "foldM f s xs = Inl e \<Longrightarrow> \<exists>u x. x \<in> set xs \<and> f u x = Inl e"
  by (induction xs arbitrary: s) (auto simp: res_bind_Inl, blast+)

lemma mapM_raises: "mapM f xs = Inl e \<Longrightarrow> \<exists>x\<in>set xs. f x = Inl e"
  by (induction xs) (auto simp: res_bind_Inl)

lemma scan_segment_raises: "scan_segment s = Inl e \<Longrightarrow> e \<in> range StaticPathError"
proof (induction s rule: scan_segment.induct)
  case (2 c s)
  show ?case
  proof (cases "c = CHR ''%''")
    case True
    consider "\<not> (\<exists>a b t. s = a # b # t)" | a b t where "s = a # b # t" by blast
    then show ?thesis
    proof cases
      case 1
      then show ?thesis using 2(3) True by (auto simp: path_error_def split: list.splits)
    next
      case s: (2 a b t)
      show ?thesis using 2(3) 2(1) [OF True s refl] True unfolding s
        by (auto simp: path_error_def reject_if_Inl split: if_splits)
    qed
  next
    case False
    then show ?thesis using 2(2,3) by (auto simp: path_error_def reject_if_Inl split: if_splits)
  qed
qed simp

lemma segments_of_raises: "segments_of p = Inl e \<Longrightarrow> e \<in> range StaticPathError"
  unfolding segments_of_def Let_def path_error_def reject_if_Inl res_bind_Inl
  by (auto dest!: foldM_raises simp: reject_if_Inl split: if_splits)

lemma request_path_raises: "validate_request_path p = Inl e \<Longrightarrow> e \<in> range StaticPathError"
  unfolding validate_request_path_def res_bind_Inl
  by (auto dest!: foldM_raises dest: segments_of_raises scan_segment_raises
      simp: reject_if_Inl path_error_def split: if_splits)

end
