(* ===== verification/StaticIndex.thy ===== *)
theory StaticIndex
  imports StaticPaths "HOL-Library.AList"
begin

text \<open>
  The validator's ingestion of a signed static-site index, \<^verbatim>\<open>static_index.py\<close>: the site
  manifest and the rules over all of its files, the signed release, the pinned trust policy,
  \<^verbatim>\<open>ingest_static_index\<close> with its abstention codes, the response table and the response
  that is expected for a request. The same manifest as the contract of
  \<^verbatim>\<open>static_contracts.py\<close> validates it is here too, and a lemma that the index accepts every
  manifest the contract accepts.

  What pydantic reports for a refused manifest (the list of its errors) is a parameter;
  \<^verbatim>\<open>_manifest_abstention\<close> reads it.
\<close>

section \<open>The site manifest\<close>

record StaticFile =
  sf_body_sha256 :: string
  sf_content_length :: int
  sf_content_type :: string
  sf_path :: string

text \<open>A fallback has one kind, so that it is its target.\<close>

record StaticSiteManifest =
  sm_fallback :: "string option"
  sm_files :: "StaticFile list"

definition static_file_document :: "StaticFile \<Rightarrow> json" where
  "static_file_document f = JObj
     [(''body_sha256'', JStr (sf_body_sha256 f)), (''content_length'', JInt (sf_content_length f)),
      (''content_type'', JStr (sf_content_type f)), (''path'', JStr (sf_path f))]"

definition fallback_document :: "string option \<Rightarrow> json" where
  "fallback_document t = (case t of None \<Rightarrow> JNull
     | Some target \<Rightarrow> JObj [(''kind'', JStr ''spa-html-v1''), (''target'', JStr target)])"

definition site_manifest_document :: "StaticSiteManifest \<Rightarrow> json" where
  "site_manifest_document m = JObj
     [(''fallback'', fallback_document (sm_fallback m)),
      (''files'', JList (map static_file_document (sm_files m))), (''handler'', JStr ''static-handler.v1''),
      (''schema'', JStr ''miss.computer/misscomputer-subnet/static-site-manifest''), (''schema_version'', JInt 1)]"

subsection \<open>As the contract has it\<close>

definition contract_file_fields :: "StaticFile \<Rightarrow> bool" where
  "contract_file_fields f \<longleftrightarrow>
     digest_text (sf_body_sha256 f) \<and> in_range 0 16777216 (sf_content_length f)
     \<and> length (sf_content_type f) \<le> 128 \<and> 2 \<le> length (sf_path f) \<and> length (sf_path f) \<le> 1024"

text \<open>\<^verbatim>\<open>"/".join(parts[:end]) for end in range(2, len(parts))\<close>.\<close>

definition folded_directories :: "string \<Rightarrow> string list" where
  "folded_directories key =
     (let parts = split_on (CHR ''/'') key
      in map (\<lambda>n. join_with (CHR ''/'') (take n parts)) [2..<length parts])"

text \<open>The loop over the files: the folded names and the folded directories.\<close>

definition site_step :: "string list \<times> string list \<Rightarrow> StaticFile \<Rightarrow> (string list \<times> string list) res" where
  "site_step s f =
     (let (folded, directories) = s; key = py_lower (sf_path f)
      in reject_if (\<not> valid_file_path (sf_path f)) (ValueError ''static_path_invalid'')
         (reject_if (sf_content_type f \<noteq> content_type_for_path (sf_path f)) (ValueError ''static_content_type_invalid'')
         (reject_if (key \<in> set folded) (ValueError ''static_case_fold_collision'')
         (Inr (key # folded, folded_directories key @ directories)))))"

definition site_rules :: "StaticSiteManifest \<Rightarrow> StaticSiteManifest res" where
  "site_rules m =
     (let paths = map sf_path (sm_files m);
          by_path = dict_of (map (\<lambda>f. (sf_path f, f)) (sm_files m))
      in reject_if (paths \<noteq> sorted_set paths) (ValueError ''static_paths_not_ascending'')
         (res_bind (foldM site_step ([], []) (sm_files m)) (\<lambda>(folded, directories).
         reject_if (set folded \<inter> set directories \<noteq> {}) (ValueError ''static_file_directory_collision'')
         (reject_if (sum_list (map sf_content_length (sm_files m)) > 268435456)
            (ValueError ''static_total_bytes_exceeded'')
         (reject_if (case by_path ''/index.html'' of None \<Rightarrow> True | Some f \<Rightarrow> sf_content_type f \<noteq> html_type)
            (ValueError ''static_index_missing'')
         (reject_if (case sm_fallback m of None \<Rightarrow> False
                     | Some target \<Rightarrow> (case by_path target of None \<Rightarrow> True | Some f \<Rightarrow> sf_content_type f \<noteq> html_type))
            (ValueError ''static_fallback_invalid'') (Inr m)))))))"

definition contract_manifest_validate :: "StaticSiteManifest \<Rightarrow> StaticSiteManifest res" where
  "contract_manifest_validate m =
     reject_if (\<not> (sm_files m \<noteq> [] \<and> length (sm_files m) \<le> 4096 \<and> list_all contract_file_fields (sm_files m)
                   \<and> opt_ok (\<lambda>t. 2 \<le> length t \<and> length t \<le> 1024) (sm_fallback m))) strict_error
     (site_rules m)"

subsection \<open>As the index has it\<close>

definition index_file_validate :: "StaticFile \<Rightarrow> StaticFile res" where
  "index_file_validate f = as_validation
     (reject_if (\<not> (digest_text (sf_body_sha256 f) \<and> in_range 0 16777216 (sf_content_length f)
                   \<and> length (sf_content_type f) \<le> 128)) strict_error
     (res_bind (validate_file_path (sf_path f)) (\<lambda>_.
     reject_if (sf_content_type f \<noteq> content_type_for_path (sf_path f)) (ValueError ''static_content_type_invalid'')
       (Inr f))))"

text \<open>\<^verbatim>\<open>_directories\<close>.\<close>

definition directories_of :: "string \<Rightarrow> string list" where
  "directories_of path =
     map (\<lambda>index. take (index + 1) path) (filter (\<lambda>index. path ! index = CHR ''/'' \<and> index > 0) [0..<length path])"

definition whole_manifest :: "StaticSiteManifest \<Rightarrow> StaticSiteManifest res" where
  "whole_manifest m =
     (let paths = map sf_path (sm_files m);
          directories = concat (map directories_of paths)
      in reject_if (list_ex (\<lambda>(left, right). left \<ge> right) (zip paths (tl paths)))
           (ValueError ''static_files_not_ascending'')
         (reject_if (\<not> distinct (map py_lower paths)) (ValueError ''static_path_case_collision'')
         (reject_if (list_ex (\<lambda>path. path @ ''/'' \<in> set directories) paths)
            (ValueError ''static_path_file_directory_collision'')
         (reject_if (sum_list (map sf_content_length (sm_files m)) > 268435456)
            (ValueError ''static_total_bytes_exceeded'')
         (reject_if (''/index.html'' \<notin> set paths) (ValueError ''static_root_response_missing'')
         (reject_if (case sm_fallback m of None \<Rightarrow> False
                     | Some target \<Rightarrow> (case first_match (\<lambda>f. sf_path f = target) (sm_files m) of
                         None \<Rightarrow> True | Some f \<Rightarrow> sf_content_type f \<noteq> html_type))
            (ValueError ''static_fallback_invalid'') (Inr m)))))))"

definition index_manifest_validate :: "StaticSiteManifest \<Rightarrow> StaticSiteManifest res" where
  "index_manifest_validate m = as_validation
     (reject_if (\<not> (sm_files m \<noteq> [] \<and> length (sm_files m) \<le> 4096)) strict_error
     (res_bind (mapM index_file_validate (sm_files m)) (\<lambda>_.
     res_bind (case sm_fallback m of None \<Rightarrow> Inr '''' | Some target \<Rightarrow> validate_file_path target) (\<lambda>_.
     whole_manifest m))))"

fun read_list :: "(json \<Rightarrow> 'a res) \<Rightarrow> json \<Rightarrow> 'a list res" where
  "read_list f (JList xs) = mapM f xs"
| "read_list f _ = Inl strict_error"

definition read_static_file :: "json \<Rightarrow> StaticFile res" where
  "read_static_file document =
     res_bind (exact_object strict_error [''body_sha256'', ''content_length'', ''content_type'', ''path''] document) (\<lambda>r.
     res_bind (read_str digest_text (jget r ''body_sha256'')) (\<lambda>body.
     res_bind (read_int 0 16777216 (jget r ''content_length'')) (\<lambda>size.
     res_bind (read_str (\<lambda>s. length s \<le> 128) (jget r ''content_type'')) (\<lambda>kind.
     res_bind (read_str (\<lambda>_. True) (jget r ''path'')) (\<lambda>path.
     index_file_validate \<lparr>sf_body_sha256 = body, sf_content_length = size, sf_content_type = kind, sf_path = path\<rparr>)))))"

definition read_fallback :: "json \<Rightarrow> string res" where
  "read_fallback document =
     res_bind (exact_object strict_error [''kind'', ''target''] document) (\<lambda>r.
     res_bind (read_const (JStr ''spa-html-v1'') (jget r ''kind'')) (\<lambda>_.
     read_str (\<lambda>_. True) (jget r ''target'')))"

definition read_site_manifest :: "json \<Rightarrow> StaticSiteManifest res" where
  "read_site_manifest document =
     res_bind (exact_object strict_error [''fallback'', ''files'', ''handler'', ''schema'', ''schema_version''] document) (\<lambda>r.
     res_bind (read_opt read_fallback (jget r ''fallback'')) (\<lambda>fallback.
     res_bind (read_list read_static_file (jget r ''files'')) (\<lambda>files.
     res_bind (read_const (JStr ''static-handler.v1'') (jget r ''handler'')) (\<lambda>_.
     res_bind (read_const (JStr ''miss.computer/misscomputer-subnet/static-site-manifest'') (jget r ''schema'')) (\<lambda>_.
     res_bind (read_const (JInt 1) (jget r ''schema_version'')) (\<lambda>_.
     index_manifest_validate \<lparr>sm_fallback = fallback, sm_files = files\<rparr>))))))"

text \<open>\<^verbatim>\<open>document_bytes\<close> and \<^verbatim>\<open>parse_canonical_document\<close> of a manifest.\<close>

definition site_manifest_bytes :: "pylib \<Rightarrow> StaticSiteManifest \<Rightarrow> string" where
  "site_manifest_bytes L m = dumps L (site_manifest_document m) @ [newline]"

definition parse_site_manifest :: "pylib \<Rightarrow> string \<Rightarrow> StaticSiteManifest res" where
  "parse_site_manifest L rendered =
     parse_model L read_site_manifest (\<lambda>m. Inr (site_manifest_bytes L m)) 67108864 rendered"

section \<open>Releases and the trust policy\<close>

record StaticSiteRelease =
  rl_issued_at :: string
  rl_policy_version :: string
  rl_server_digest :: string
  rl_signature :: string
  rl_signer_key_id :: string
  rl_site_digest :: string

definition release_unsigned :: "StaticSiteRelease \<Rightarrow> (string \<times> json) list" where
  "release_unsigned r =
     [(''issued_at'', JStr (rl_issued_at r)), (''producer_policy_version'', JStr (rl_policy_version r)),
      (''schema'', JStr ''miss.computer/misscomputer-subnet/static-site-release''), (''schema_version'', JInt 1),
      (''server_implementation_digest'', JStr (rl_server_digest r)),
      (''signer_key_id'', JStr (rl_signer_key_id r)), (''site_digest'', JStr (rl_site_digest r))]"

definition release_document :: "StaticSiteRelease \<Rightarrow> json" where
  "release_document r = JObj (release_unsigned r @ [(''signature'', JStr (rl_signature r))])"

definition policy_version_text :: "string \<Rightarrow> bool" where
  "policy_version_text = label_text ''._-'' 64"

definition release_validate :: "StaticSiteRelease \<Rightarrow> StaticSiteRelease res" where
  "release_validate r =
     reject_if (\<not> (go_utc_timestamp (rl_issued_at r) \<and> policy_version_text (rl_policy_version r)
                   \<and> sha_text (rl_server_digest r) \<and> hex_text 128 (rl_signature r)
                   \<and> key_id_text (rl_signer_key_id r) \<and> sha_text (rl_site_digest r))) strict_error (Inr r)"

definition read_release :: "json \<Rightarrow> StaticSiteRelease res" where
  "read_release document =
     res_bind (exact_object strict_error [''issued_at'', ''producer_policy_version'', ''schema'', ''schema_version'',
        ''server_implementation_digest'', ''signature'', ''signer_key_id'', ''site_digest''] document) (\<lambda>r.
     res_bind (read_str go_utc_timestamp (jget r ''issued_at'')) (\<lambda>issued.
     res_bind (read_str policy_version_text (jget r ''producer_policy_version'')) (\<lambda>version.
     res_bind (read_const (JStr ''miss.computer/misscomputer-subnet/static-site-release'') (jget r ''schema'')) (\<lambda>_.
     res_bind (read_const (JInt 1) (jget r ''schema_version'')) (\<lambda>_.
     res_bind (read_str sha_text (jget r ''server_implementation_digest'')) (\<lambda>server.
     res_bind (read_str (hex_text 128) (jget r ''signature'')) (\<lambda>sig.
     res_bind (read_str key_id_text (jget r ''signer_key_id'')) (\<lambda>signer.
     res_bind (read_str sha_text (jget r ''site_digest'')) (\<lambda>site.
     release_validate \<lparr>rl_issued_at = issued, rl_policy_version = version, rl_server_digest = server,
       rl_signature = sig, rl_signer_key_id = signer, rl_site_digest = site\<rparr>)))))))))"

definition parse_release :: "pylib \<Rightarrow> string \<Rightarrow> StaticSiteRelease res" where
  "parse_release L rendered =
     parse_model L read_release (model_bytes L release_validate release_document) 16384 rendered"

definition static_site_release_message :: "pylib \<Rightarrow> StaticSiteRelease \<Rightarrow> string res" where
  "static_site_release_message L r =
     res_bind (release_validate r) (\<lambda>v.
     Inr (''miss.computer/misscomputer-subnet/static-site-release/v1/ed25519'' @ [CHR 0x00]
          @ dumps L (JObj (release_unsigned v))))"

record StaticReleaseKey =
  rk_key_id :: string
  rk_public_key_hex :: string
  rk_valid_from_epoch :: int
  rk_valid_until_epoch :: int

definition decode_ed25519_public_key_hex :: "string \<Rightarrow> string res" where
  "decode_ed25519_public_key_hex value =
     reject_if (\<not> digest_text value) (ValueError ''ed25519_public_key_encoding_invalid'')
     (validate_ed25519_public_key_bytes (unhex value))"

definition release_key_validate :: "StaticReleaseKey \<Rightarrow> StaticReleaseKey res" where
  "release_key_validate k =
     reject_if (\<not> (key_id_text (rk_key_id k) \<and> digest_text (rk_public_key_hex k)
                   \<and> in_range 0 max_epoch (rk_valid_from_epoch k) \<and> in_range 0 max_epoch (rk_valid_until_epoch k)))
       strict_error
     (res_bind (decode_ed25519_public_key_hex (rk_public_key_hex k)) (\<lambda>_.
     reject_if (rk_valid_until_epoch k \<le> rk_valid_from_epoch k) (ValueError ''key_validity_window_invalid'')
       (Inr k)))"

record StaticSiteReleaseTrustPolicy =
  rp_policy_id :: string
  rp_trusted_keys :: "StaticReleaseKey list"
  rp_digest :: string

definition release_key_document :: "StaticReleaseKey \<Rightarrow> json" where
  "release_key_document k = JObj
     [(''key_id'', JStr (rk_key_id k)), (''algorithm'', JStr ''ed25519''),
      (''public_key_hex'', JStr (rk_public_key_hex k)), (''valid_from_epoch'', JInt (rk_valid_from_epoch k)),
      (''valid_until_epoch'', JInt (rk_valid_until_epoch k))]"

definition release_policy_unsigned :: "StaticSiteReleaseTrustPolicy \<Rightarrow> (string \<times> json) list" where
  "release_policy_unsigned p =
     [(''schema'', JStr ''miss.computer/misscomputer-subnet/static-site-release-trust-policy''),
      (''schema_version'', JInt 1), (''policy_id'', JStr (rp_policy_id p)),
      (''trusted_keys'', JList (map release_key_document (rp_trusted_keys p)))]"

definition release_policy_validate :: "pylib \<Rightarrow> StaticSiteReleaseTrustPolicy \<Rightarrow> StaticSiteReleaseTrustPolicy res" where
  "release_policy_validate L p =
     reject_if (\<not> (key_id_text (rp_policy_id p) \<and> rp_trusted_keys p \<noteq> [] \<and> length (rp_trusted_keys p) \<le> 16
                   \<and> digest_text (rp_digest p))) strict_error
     (res_bind (mapM release_key_validate (rp_trusted_keys p)) (\<lambda>_.
     reject_if (\<not> distinct (map rk_key_id (rp_trusted_keys p))) (ValueError ''trusted_key_id_duplicate'')
     (reject_if (\<not> distinct (map rk_public_key_hex (rp_trusted_keys p))) (ValueError ''trusted_public_key_duplicate'')
     (verify_model_digest L ''digest_sha256'' (JObj (release_policy_unsigned p)) (rp_digest p) p))))"

definition build_release_policy :: "pylib \<Rightarrow> string \<Rightarrow> StaticReleaseKey list \<Rightarrow> StaticSiteReleaseTrustPolicy res" where
  "build_release_policy L policy_id keys =
     res_bind (mapM release_key_validate keys) (\<lambda>checked.
     let p = \<lparr>rp_policy_id = policy_id, rp_trusted_keys = checked, rp_digest = ''''\<rparr>
     in release_policy_validate L (p\<lparr>rp_digest := sha_json L (JObj (release_policy_unsigned p))\<rparr>))"

section \<open>Targets\<close>

record StaticEndpointTarget =
  se_endpoint_id :: string
  se_generation :: int
  se_miner_uid :: int
  se_miner_hotkey :: string
  se_service_key :: string
  se_ticket_digest :: string

record StaticDeploymentTarget =
  st_deployment_id :: string
  st_route_host :: string
  st_site_digest :: string
  st_release_digest :: string
  st_server_digest :: string
  st_endpoints :: "StaticEndpointTarget list"

definition endpoint_target_fields :: "StaticEndpointTarget \<Rightarrow> bool" where
  "endpoint_target_fields e \<longleftrightarrow>
     endpoint_text (se_endpoint_id e) \<and> in_range 1 max_epoch (se_generation e) \<and> in_range 0 65535 (se_miner_uid e)
     \<and> hotkey_text (se_miner_hotkey e) \<and> digest_text (se_service_key e) \<and> sha_text (se_ticket_digest e)"

definition target_validate :: "StaticDeploymentTarget \<Rightarrow> StaticDeploymentTarget res" where
  "target_validate t =
     reject_if (\<not> (dns_label (st_deployment_id t) \<and> hostname_text (st_route_host t) \<and> sha_text (st_site_digest t)
                   \<and> sha_text (st_release_digest t) \<and> sha_text (st_server_digest t)
                   \<and> 1 \<le> length (st_endpoints t) \<and> length (st_endpoints t) \<le> 8
                   \<and> list_all endpoint_target_fields (st_endpoints t))) strict_error
     (reject_if (\<not> distinct (map se_endpoint_id (st_endpoints t))) (ValueError ''static_target_endpoint_duplicate'')
     (Inr t))"

section \<open>The verified index and its responses\<close>

datatype abstention_code =
    HandlerUnsupported | IndexInvalid | IndexLimitsExceeded | IndexNotCanonical | IndexOversized
  | IndexUnavailable | ProducerPolicyUnsupported | ReleaseBindingMismatch | ReleaseDigestMismatch
  | ReleaseInvalid | ReleaseRevoked | ReleaseUnavailable | ServerImplementationMismatch
  | ReleaseSignatureInvalid | SignerOutsideValidity | SignerUntrusted | SiteDigestMismatch

record StaticIndexAbstention =
  ia_deployment_id :: string
  ia_site_digest :: string
  ia_code :: abstention_code

definition record_code :: "abstention_code \<Rightarrow> string" where
  "record_code code =
     (if code \<in> {IndexUnavailable, ReleaseUnavailable} then ''static_index_unavailable''
      else if code = ReleaseRevoked then ''static_release_revoked''
      else ''static_index_invalid'')"

text \<open>A \<^verbatim>\<open>dict\<close> of routes in order of insertion.\<close>

record VerifiedStaticIndex =
  vi_target :: StaticDeploymentTarget
  vi_manifest :: StaticSiteManifest
  vi_release :: StaticSiteRelease
  vi_policy_digest :: string
  vi_routes :: "(string \<times> StaticFile) list"

datatype index_state = IndexVerified VerifiedStaticIndex | IndexAbstained StaticIndexAbstention

definition index_prefix :: "string \<Rightarrow> string" where
  "index_prefix path = take (length path - 10) path"

definition routes_of :: "StaticSiteManifest \<Rightarrow> (string \<times> StaticFile) list" where
  "routes_of m =
     foldl (\<lambda>table f. if last_part (CHR ''/'') (sf_path f) = ''index.html''
                      then AList.update (index_prefix (sf_path f)) f table else table)
       (foldl (\<lambda>table f. AList.update (sf_path f) f table) [] (sm_files m)) (sm_files m)"

datatype response_kind = DirectoryIndex | FileResponse | NavigationFallback | NotFoundResponse

record ExpectedStaticResponse =
  er_path :: string
  er_method :: string
  er_kind :: response_kind
  er_status :: int
  er_content_type :: string
  er_content_length :: int
  er_body_sha256 :: string
  er_header_sha256 :: string

text \<open>\<^verbatim>\<open>response_header_sha256\<close> of \<^verbatim>\<open>organic_contracts.py\<close>: a stable sort by lower-case name.\<close>

definition response_header_digest :: "pylib \<Rightarrow> (string \<times> string) list \<Rightarrow> string" where
  "response_header_digest L headers =
     sha_json L (JList (map (\<lambda>(name, value). JList [JStr name, JStr value])
       (sort_key fst (map (\<lambda>(name, value). (py_lower name, value)) headers))))"

definition normative_headers :: "string \<Rightarrow> int \<Rightarrow> (string \<times> string) list" where
  "normative_headers content_type content_length =
     [(''cache-control'', ''private, no-store''), (''content-length'', int_digits content_length),
      (''content-type'', content_type), (''x-content-type-options'', ''nosniff'')]"

definition expected_response ::
    "pylib \<Rightarrow> string \<Rightarrow> string \<Rightarrow> response_kind \<Rightarrow> int \<Rightarrow> string \<Rightarrow> int \<Rightarrow> string \<Rightarrow> ExpectedStaticResponse" where
  "expected_response L path verb kind status content_type content_length body =
     \<lparr>er_path = path, er_method = verb, er_kind = kind, er_status = status, er_content_type = content_type,
      er_content_length = content_length, er_body_sha256 = (if verb = ''GET'' then body else sha256_hex L ''''),
      er_header_sha256 = response_header_digest L (normative_headers content_type content_length)\<rparr>"

definition not_found_body :: string where
  "not_found_body = ''Not Found'' @ [newline]"

definition expected_static_response ::
    "pylib \<Rightarrow> VerifiedStaticIndex \<Rightarrow> string \<Rightarrow> string \<Rightarrow> ExpectedStaticResponse res" where
  "expected_static_response L index verb path =
     res_bind (validate_request_path path) (\<lambda>_.
     case map_of (vi_routes index) path of
       Some f \<Rightarrow> Inr (expected_response L path verb (if sf_path f = path then FileResponse else DirectoryIndex) 200
                    (sf_content_type f) (sf_content_length f) (sf_body_sha256 f))
     | None \<Rightarrow>
         (case (if CHR ''.'' \<notin> set (last_part (CHR ''/'') path) then sm_fallback (vi_manifest index) else None) of
            Some target \<Rightarrow>
              (case map_of (vi_routes index) target of
                 None \<Rightarrow> Inl (KeyError target)
               | Some f \<Rightarrow> Inr (expected_response L path verb NavigationFallback 200
                              (sf_content_type f) (sf_content_length f) (sf_body_sha256 f)))
          | None \<Rightarrow> Inr (expected_response L path verb NotFoundResponse 404 ''text/plain; charset=utf-8''
                        (int (length not_found_body)) (sha256_hex L not_found_body))))"

text \<open>\<^verbatim>\<open>VerifiedStaticIndex.responses\<close>.\<close>

definition index_responses :: "pylib \<Rightarrow> VerifiedStaticIndex \<Rightarrow> ExpectedStaticResponse list res" where
  "index_responses L index = mapM (expected_static_response L index ''GET'') (sort (map fst (vi_routes index)))"

section \<open>Ingestion\<close>

record pydantic_error =
  pe_type :: string
  pe_loc :: "json list"
  pe_msg :: string

fun error_abstention :: "pydantic_error list \<Rightarrow> abstention_code" where
  "error_abstention [] = IndexInvalid"
| "error_abstention (e # es) =
     (if pe_type e \<in> {''too_long'', ''less_than_equal'', ''string_too_long''}
         \<or> list_ex (\<lambda>code. contains code (pe_msg e)) [''static_total_bytes_exceeded'', ''static_path_limits_exceeded'']
      then IndexLimitsExceeded
      else if pe_loc e = [JStr ''handler''] then HandlerUnsupported
      else error_abstention es)"

definition manifest_abstention :: "string \<Rightarrow> pydantic_error list \<Rightarrow> abstention_code" where
  "manifest_abstention message errors =
     (if message = ''document_not_canonical'' then IndexNotCanonical else error_abstention errors)"

definition verify_release ::
    "pylib \<Rightarrow> ed25519 \<Rightarrow> StaticSiteRelease \<Rightarrow> StaticSiteReleaseTrustPolicy \<Rightarrow> abstention_code option res" where
  "verify_release L V release policy =
     (case first_match (\<lambda>k. rk_key_id k = rl_signer_key_id release) (rp_trusted_keys policy) of
        None \<Rightarrow> Inr (Some SignerUntrusted)
      | Some key \<Rightarrow>
          res_bind (timestamp_epoch_seconds (rl_issued_at release)) (\<lambda>issued.
          if \<not> (rk_valid_from_epoch key \<le> issued \<and> issued < rk_valid_until_epoch key)
          then Inr (Some SignerOutsideValidity)
          else (case (decode_ed25519_public_key_hex (rk_public_key_hex key), static_site_release_message L release) of
                  (Inr public_bytes, Inr message) \<Rightarrow>
                    if V public_bytes (unhex (rl_signature release)) message then Inr None
                    else Inr (Some ReleaseSignatureInvalid)
                | _ \<Rightarrow> Inr (Some ReleaseSignatureInvalid))))"

definition stored_digest :: "pylib \<Rightarrow> string \<Rightarrow> string" where
  "stored_digest L rendered = ''sha256:'' @ sha256_hex L rendered"

definition ingest_static_index ::
    "pylib \<Rightarrow> ed25519 \<Rightarrow> (string \<Rightarrow> pydantic_error list) \<Rightarrow> StaticDeploymentTarget \<Rightarrow> string option \<Rightarrow> string option
     \<Rightarrow> StaticSiteReleaseTrustPolicy \<Rightarrow> string \<Rightarrow> index_state res" where
  "ingest_static_index L V errors_of target manifest_bytes release_bytes policy pinned =
     res_bind (target_validate target) (\<lambda>t.
     res_bind (release_policy_validate L policy) (\<lambda>p.
     let abstain = (\<lambda>code. Inr (IndexAbstained \<lparr>ia_deployment_id = st_deployment_id t,
                       ia_site_digest = st_site_digest t, ia_code = code\<rparr>))
     in (case manifest_bytes of None \<Rightarrow> abstain IndexUnavailable | Some mb \<Rightarrow>
        (case release_bytes of None \<Rightarrow> abstain ReleaseUnavailable | Some rb \<Rightarrow>
         if length mb > 1048576 then abstain IndexOversized
         else if stored_digest L mb \<noteq> st_site_digest t then abstain SiteDigestMismatch
         else if stored_digest L rb \<noteq> st_release_digest t then abstain ReleaseDigestMismatch
         else (case parse_site_manifest L mb of
            Inl (ValueError message) \<Rightarrow> abstain (manifest_abstention message (errors_of mb))
          | Inl e \<Rightarrow> Inl e
          | Inr m \<Rightarrow>
              (case parse_release L rb of
                 Inl (ValueError _) \<Rightarrow> abstain ReleaseInvalid
               | Inl e \<Rightarrow> Inl e
               | Inr r \<Rightarrow>
                   if rl_site_digest r \<noteq> st_site_digest t then abstain ReleaseBindingMismatch
                   else res_bind (verify_release L V r p) (\<lambda>failure.
                     case failure of
                       Some code \<Rightarrow> abstain code
                     | None \<Rightarrow>
                         if rl_policy_version r \<noteq> ''static-producer-policy.v3'' then abstain ProducerPolicyUnsupported
                         else if \<not> (rl_server_digest r = st_server_digest t \<and> st_server_digest t = pinned)
                         then abstain ServerImplementationMismatch
                         else Inr (IndexVerified \<lparr>vi_target = t, vi_manifest = m, vi_release = r,
                                vi_policy_digest = rp_digest p, vi_routes = routes_of m\<rparr>))))))))"

section \<open>The two validations of a manifest\<close>

lemma ascending_iff: "\<not> list_ex (\<lambda>(left, right). left \<ge> right) (zip xs (tl xs)) \<longleftrightarrow> sorted_wrt (<) xs"
  for xs :: "'a::linorder list"
proof (induction xs rule: induct_list012)
  case (3 x y zs)
  then show ?case by (fastforce simp: not_le)
qed auto

lemma index_file_validate_Inr:
  "index_file_validate f = Inr g \<longleftrightarrow> g = f \<and> digest_text (sf_body_sha256 f) \<and> in_range 0 16777216 (sf_content_length f)
     \<and> length (sf_content_type f) \<le> 128 \<and> validate_file_path (sf_path f) = Inr (sf_path f)
     \<and> sf_content_type f = content_type_for_path (sf_path f)"
  by (auto simp: index_file_validate_def validate_file_path_iff)

text \<open>The invariant of a manifest that the index accepts.\<close>

definition site_ok :: "StaticSiteManifest \<Rightarrow> bool" where
  "site_ok m \<longleftrightarrow>
     (let paths = map sf_path (sm_files m)
      in length paths \<le> 4096 \<and> (\<forall>f\<in>set (sm_files m). index_file_validate f = Inr f)
         \<and> sorted_wrt (<) paths \<and> distinct (map py_lower paths)
         \<and> (\<forall>p\<in>set paths. \<forall>q\<in>set paths. p @ ''/'' \<notin> set (directories_of q))
         \<and> sum_list (map sf_content_length (sm_files m)) \<le> 268435456 \<and> ''/index.html'' \<in> set paths
         \<and> opt_ok (\<lambda>t. \<exists>f\<in>set (sm_files m). sf_path f = t \<and> sf_content_type f = html_type) (sm_fallback m))"

lemma sorted_wrt_distinct: "sorted_wrt (<) xs \<Longrightarrow> distinct xs" for xs :: "'a::linorder list"
  by (simp add: strict_sorted_iff)

lemma first_match_member:
  assumes "distinct (map g xs)"
  shows "first_match (\<lambda>f. g f = t) xs = Some f \<longleftrightarrow> f \<in> set xs \<and> g f = t"
  unfolding first_match_dict [OF assms] using assms
  by (auto simp: dict_of_distinct comp_def)

lemma fallback_found:
  assumes "distinct (map sf_path fs)"
  shows "\<not> (case fallback of None \<Rightarrow> False | Some target \<Rightarrow>
             (case first_match (\<lambda>f. sf_path f = target) fs of None \<Rightarrow> True | Some f \<Rightarrow> sf_content_type f \<noteq> html_type))
         \<longleftrightarrow> opt_ok (\<lambda>t. \<exists>f\<in>set fs. sf_path f = t \<and> sf_content_type f = html_type) fallback"
proof (cases fallback)
  case (Some t)
  show ?thesis unfolding Some
    using first_match_member [OF assms, of t] by (cases "first_match (\<lambda>f. sf_path f = t) fs") (auto, metis)
qed simp

lemma index_manifest_validate_Inr: "index_manifest_validate m = Inr n \<longleftrightarrow> n = m \<and> site_ok m"
proof
  assume ok: "index_manifest_validate m = Inr n"
  then have files: "\<forall>f\<in>set (sm_files m). index_file_validate f = Inr f" and w: "whole_manifest m = Inr n"
    and len: "length (sm_files m) \<le> 4096"
    using mapM_same_iff [of index_file_validate "sm_files m", OF index_file_validate_Inr [THEN iffD1, THEN conjunct1]]
    by (auto simp: index_manifest_validate_def)
  have sorted: "sorted_wrt (<) (map sf_path (sm_files m))"
    using w ascending_iff unfolding whole_manifest_def Let_def reject_if_Inr by blast
  note fb = fallback_found [OF sorted_wrt_distinct [OF sorted], of "sm_fallback m"]
  from w show "n = m \<and> site_ok m"
    unfolding whole_manifest_def Let_def reject_if_Inr fb site_ok_def using files len sorted
    by (auto simp: list_ex_iff not_less)
next
  assume ok: "n = m \<and> site_ok m"
  then have files: "\<forall>f\<in>set (sm_files m). index_file_validate f = Inr f" and len: "length (sm_files m) \<le> 4096"
    and sorted: "sorted_wrt (<) (map sf_path (sm_files m))" and ne: "sm_files m \<noteq> []"
    by (auto simp: site_ok_def Let_def)
  note fb = fallback_found [OF sorted_wrt_distinct [OF sorted], of "sm_fallback m"]
  have "whole_manifest m = Inr m"
    unfolding whole_manifest_def Let_def reject_if_Inr fb ascending_iff using ok
    by (auto simp: site_ok_def Let_def list_ex_iff not_less)
  moreover have "\<exists>x. (case sm_fallback m of None \<Rightarrow> Inr [] | Some t \<Rightarrow> validate_file_path t) = Inr x"
    using ok files by (cases "sm_fallback m") (auto simp: site_ok_def Let_def index_file_validate_Inr)
  ultimately show "index_manifest_validate m = Inr n"
    using mapM_id [OF files] len ne ok by (auto simp: index_manifest_validate_def)
qed

text \<open>A file and a directory of one name: the folded comparison finds it whenever the exact one does.\<close>

lemma lower_slash [simp]: "lower_char (CHR ''/'') = CHR ''/''"
  by (simp add: lower_char_def)

lemma directories_of_member:
  assumes "p @ ''/'' \<in> set (directories_of q)"
  obtains r where "q = p @ CHR ''/'' # r" and "p \<noteq> []"
proof -
  from assms obtain i where i: "i < length q" "q ! i = CHR ''/''" "0 < i" and t: "p @ ''/'' = take (Suc i) q"
    by (auto simp: directories_of_def)
  have "take (Suc i) q = take i q @ [CHR ''/'']" using i by (simp add: take_Suc_conv_app_nth)
  with t have p: "p = take i q" by simp
  have "q = take i q @ CHR ''/'' # drop (Suc i) q" using i by (metis id_take_nth_drop)
  then show thesis using that [of "drop (Suc i) q"] p i by auto
qed

lemma folded_directories_member:
  assumes "q = p @ CHR ''/'' # r" and "starts_with ''/'' p" and "p \<noteq> []"
  shows "p \<in> set (folded_directories q)"
proof -
  let ?n = "length (split_on (CHR ''/'') p)"
  have parts: "split_on (CHR ''/'') q = split_on (CHR ''/'') p @ split_on (CHR ''/'') r"
    unfolding assms(1) by (rule split_on_append)
  obtain s where "p = CHR ''/'' # s" using assms(2,3) by (cases p) (auto simp: starts_with_def)
  then have "2 \<le> ?n" using split_on_nonempty [of "CHR ''/''" s]
    by (cases "split_on (CHR ''/'') s") auto
  moreover have "?n < length (split_on (CHR ''/'') q)" unfolding parts by simp
  moreover have "join_with (CHR ''/'') (take ?n (split_on (CHR ''/'') q)) = p"
    unfolding parts by (simp add: join_split_on)
  ultimately show ?thesis unfolding folded_directories_def Let_def by force
qed

definition site_summary :: "StaticFile list \<Rightarrow> string list \<times> string list \<Rightarrow> bool" where
  "site_summary fs s \<longleftrightarrow>
     (\<forall>f\<in>set fs. valid_file_path (sf_path f) \<and> sf_content_type f = content_type_for_path (sf_path f))
     \<and> distinct (map (\<lambda>f. py_lower (sf_path f)) fs) \<and> set (fst s) = (\<lambda>f. py_lower (sf_path f)) ` set fs
     \<and> set (snd s) = (\<Union>f\<in>set fs. set (folded_directories (py_lower (sf_path f))))"

lemma site_fold: "foldM site_step ([], []) fs = Inr s \<Longrightarrow> site_summary fs s"
  by (erule foldM_invariant [where I = site_summary])
    (auto simp: site_summary_def site_step_def case_prod_beta Let_def)

lemma valid_file_path_starts: "valid_file_path p \<Longrightarrow> starts_with ''/'' p"
  by (auto simp: valid_file_path_def split_path_def split: option.splits if_splits)

lemma py_lower_append: "py_lower (p @ CHR ''/'' # r) = py_lower p @ CHR ''/'' # py_lower r"
  by (simp add: py_lower_def)

lemma py_lower_starts: "starts_with ''/'' p \<Longrightarrow> starts_with ''/'' (py_lower p)"
  by (cases p) (auto simp: starts_with_def py_lower_def)

lemma contract_manifest_ok:
  assumes "contract_manifest_validate m = Inr n"
  shows "n = m \<and> site_ok m \<and> (\<forall>f\<in>set (sm_files m). CHR '' '' \<notin> set (sf_path f))"
proof -
  have fields: "\<forall>f\<in>set (sm_files m). contract_file_fields f" and len: "length (sm_files m) \<le> 4096"
    and rules: "site_rules m = Inr n"
    using assms by (auto simp: contract_manifest_validate_def list_all_iff)
  have sorted: "sorted_wrt (<) (map sf_path (sm_files m))"
    using rules sorted_set_id_iff unfolding site_rules_def Let_def reject_if_Inr by blast
  obtain fo di where fold: "foldM site_step ([], []) (sm_files m) = Inr (fo, di)" and disj: "set fo \<inter> set di = {}"
    and size: "sum_list (map sf_content_length (sm_files m)) \<le> 268435456"
    and root: "\<not> (case dict_of (map (\<lambda>f. (sf_path f, f)) (sm_files m)) ''/index.html'' of None \<Rightarrow> True
                  | Some f \<Rightarrow> sf_content_type f \<noteq> html_type)"
    and fb: "\<not> (case sm_fallback m of None \<Rightarrow> False | Some target \<Rightarrow>
               (case dict_of (map (\<lambda>f. (sf_path f, f)) (sm_files m)) target of None \<Rightarrow> True
                | Some f \<Rightarrow> sf_content_type f \<noteq> html_type))" and n: "n = m"
    using rules by (auto simp: site_rules_def Let_def not_less)
  have s: "site_summary (sm_files m) (fo, di)" by (rule site_fold [OF fold])
  have clash: "p @ ''/'' \<notin> set (directories_of q)"
    if "p \<in> sf_path ` set (sm_files m)" and "q \<in> sf_path ` set (sm_files m)" for p q
  proof
    assume "p @ ''/'' \<in> set (directories_of q)"
    then obtain r where r: "q = p @ CHR ''/'' # r" and "p \<noteq> []" by (rule directories_of_member)
    moreover have "starts_with ''/'' p" using that(1) s valid_file_path_starts by (auto simp: site_summary_def)
    ultimately have "py_lower p \<in> set (folded_directories (py_lower q))"
      using folded_directories_member [of "py_lower q" "py_lower p" "py_lower r"] py_lower_append py_lower_starts
      by (simp add: py_lower_def)
    then have "py_lower p \<in> set fo \<inter> set di" using that s by (auto simp: site_summary_def)
    then show False using disj by simp
  qed
  have files: "index_file_validate f = Inr f" "CHR '' '' \<notin> set (sf_path f)" if "f \<in> set (sm_files m)" for f
    using that s fields file_path_grammars [of "sf_path f"]
    by (auto simp: index_file_validate_Inr site_summary_def contract_file_fields_def)
  have index: "''/index.html'' \<in> sf_path ` set (sm_files m)"
    using root dict_of_None [of "map (\<lambda>f. (sf_path f, f)) (sm_files m)" "''/index.html''"]
    by (auto simp: image_image split: option.splits)
  have target: "opt_ok (\<lambda>t. \<exists>f\<in>set (sm_files m). sf_path f = t \<and> sf_content_type f = html_type) (sm_fallback m)"
    using fb by (cases "sm_fallback m") (auto dest!: dict_of_Some split: option.splits)
  have "distinct (map py_lower (map sf_path (sm_files m)))" using s by (simp add: site_summary_def comp_def)
  then show ?thesis
    using files index target size len sorted clash n by (auto simp: site_ok_def Let_def)
qed

section \<open>Routes and responses\<close>

lemma foldl_update_distinct:
  "distinct (map fst t) \<Longrightarrow> distinct (map fst (foldl (\<lambda>t f. if P f then AList.update (g f) f t else t) t fs))"
  by (induction fs arbitrary: t) (auto intro: distinct_update)

lemma foldl_update_map_of:
  assumes "distinct (map g (filter P fs))"
  shows "map_of (foldl (\<lambda>t f. if P f then AList.update (g f) f t else t) t fs) p
     = (case first_match (\<lambda>f. P f \<and> g f = p) fs of Some f \<Rightarrow> Some f | None \<Rightarrow> map_of t p)"
  using assms
proof (induction fs arbitrary: t)
  case (Cons f fs)
  show ?case
  proof (cases "P f \<and> g f = p")
    case True
    then have "first_match (\<lambda>f. P f \<and> g f = p) fs = None"
      using Cons.prems by (auto simp: first_match_def find_None_iff) (metis (mono_tags, lifting) imageI mem_Collect_eq)
    then show ?thesis using Cons True by (simp add: first_match_def update_conv')
  next
    case False
    then show ?thesis using Cons by (auto simp: first_match_def update_conv' split: option.splits)
  qed
qed (simp add: first_match_def)

lemma first_match_filter: "first_match (\<lambda>f. P f \<and> Q f) fs = first_match Q (filter P fs)"
  by (induction fs) (auto simp: first_match_def)

lemma last_part_append: "d \<notin> set x \<Longrightarrow> last_part d (p @ d # x) = x"
  by (simp add: last_part_def takeWhile_append)

lemma last_part_split: "d \<in> set s \<Longrightarrow> \<exists>p. s = p @ d # last_part d s"
proof -
  assume "d \<in> set s"
  then have ne: "dropWhile (\<lambda>c. c \<noteq> d) (rev s) \<noteq> []" by (auto simp: dropWhile_eq_Nil_conv)
  then have hd: "hd (dropWhile (\<lambda>c. c \<noteq> d) (rev s)) = d" using hd_dropWhile by blast
  obtain q where "dropWhile (\<lambda>c. c \<noteq> d) (rev s) = d # q" using ne hd by (cases "dropWhile (\<lambda>c. c \<noteq> d) (rev s)") auto
  then have "rev s = takeWhile (\<lambda>c. c \<noteq> d) (rev s) @ d # q" by (metis takeWhile_dropWhile_id)
  then have "s = rev q @ d # last_part d s"
    unfolding last_part_def by (metis append.assoc append_Cons append_Nil rev.simps(2) rev_append rev_rev_ident)
  then show ?thesis by blast
qed

abbreviation is_index_document :: "StaticFile \<Rightarrow> bool" where
  "is_index_document f \<equiv> last_part (CHR ''/'') (sf_path f) = ''index.html''"

text \<open>A file path starts with a slash, and its last segment is not empty.\<close>

lemma file_path_shape:
  assumes "validate_file_path p = Inr p"
  shows "\<exists>q. p = CHR ''/'' # q" and "last p \<noteq> CHR ''/''"
proof -
  obtain ss where split: "split_path p = Some ss" and ne: "\<forall>s\<in>set ss. s \<noteq> []"
    using assms by (auto simp: validate_file_path_iff segments_of_Inr)
  then obtain q where q: "p = CHR ''/'' # q" and ss: "ss = split_on (CHR ''/'') q"
    by (cases p) (auto simp: split_path_def starts_with_def split: if_splits)
  show "\<exists>q. p = CHR ''/'' # q" using q by blast
  show "last p \<noteq> CHR ''/''"
  proof
    assume l: "last p = CHR ''/''"
    show False
    proof (cases q rule: rev_cases)
      case Nil
      then show False using ne ss by simp
    next
      case (snoc r c)
      then have "q = r @ CHR ''/'' # []" using l q by simp
      then have "[] \<in> set ss" unfolding ss by (simp only: split_on_append) simp
      then show False using ne by blast
    qed
  qed
qed

lemma index_document_path:
  assumes "validate_file_path (sf_path f) = Inr (sf_path f)" and "is_index_document f"
  shows "sf_path f = index_prefix (sf_path f) @ ''index.html''" and "last (index_prefix (sf_path f)) = CHR ''/''"
    and "index_prefix (sf_path f) \<noteq> []"
proof -
  obtain p where p: "sf_path f = p @ CHR ''/'' # ''index.html''"
    using last_part_split [of "CHR ''/''" "sf_path f"] assms file_path_shape(1) [OF assms(1)] by force
  then have i: "index_prefix (sf_path f) = p @ ''/''" by (simp add: index_prefix_def)
  show "sf_path f = index_prefix (sf_path f) @ ''index.html''" "last (index_prefix (sf_path f)) = CHR ''/''"
    "index_prefix (sf_path f) \<noteq> []"
    unfolding i by (simp_all add: p)
qed

lemma routes_map_of:
  assumes "site_ok m"
  shows "map_of (routes_of m) p = Some f \<longleftrightarrow>
    f \<in> set (sm_files m) \<and> (sf_path f = p \<or> is_index_document f \<and> index_prefix (sf_path f) = p)"
proof -
  let ?fs = "sm_files m"
  have valid: "validate_file_path (sf_path f) = Inr (sf_path f)" if "f \<in> set ?fs" for f
    using assms that by (auto simp: site_ok_def Let_def index_file_validate_Inr)
  have d: "distinct (map sf_path ?fs)"
    using assms sorted_wrt_distinct unfolding site_ok_def Let_def by blast
  have d': "distinct (map (\<lambda>f. index_prefix (sf_path f)) (filter is_index_document ?fs))"
  proof -
    have "inj_on (\<lambda>f. index_prefix (sf_path f)) (set (filter is_index_document ?fs))"
    proof (rule inj_onI)
      fix f g assume fg: "f \<in> set (filter is_index_document ?fs)" "g \<in> set (filter is_index_document ?fs)"
        and eq: "index_prefix (sf_path f) = index_prefix (sf_path g)"
      have "sf_path h = index_prefix (sf_path h) @ ''index.html''" if "h \<in> set (filter is_index_document ?fs)" for h
        using that by (intro index_document_path(1) valid) auto
      from this [OF fg(1)] this [OF fg(2)] eq have "sf_path f = sf_path g" by metis
      then show "f = g" using fg d by (auto simp: distinct_map dest: inj_onD)
    qed
    then show ?thesis using d by (simp add: distinct_map)
  qed
  have apart: "index_prefix (sf_path g) \<noteq> sf_path f" if "f \<in> set ?fs" "g \<in> set ?fs" "is_index_document g" for f g
    using index_document_path(2) [OF valid [OF that(2)] that(3)] file_path_shape(2) [OF valid [OF that(1)]] by metis
  have one: "map_of (foldl (\<lambda>t f. AList.update (sf_path f) f t) [] ?fs) q = first_match (\<lambda>f. sf_path f = q) ?fs" for q
    using foldl_update_map_of [where P = "\<lambda>_. True" and g = sf_path and fs = "?fs" and t = "[]" and p = q] d
    by (simp split: option.splits)
  have m1: "first_match (\<lambda>f. sf_path f = p) ?fs = Some f \<longleftrightarrow> f \<in> set ?fs \<and> sf_path f = p" for f
    by (rule first_match_member [OF d])
  have m2: "first_match (\<lambda>f. is_index_document f \<and> index_prefix (sf_path f) = p) ?fs
      = first_match (\<lambda>f. index_prefix (sf_path f) = p) (filter is_index_document ?fs)"
    by (rule first_match_filter)
  have m3: "first_match (\<lambda>f. index_prefix (sf_path f) = p) (filter is_index_document ?fs) = Some f
      \<longleftrightarrow> f \<in> set ?fs \<and> is_index_document f \<and> index_prefix (sf_path f) = p" for f
    using first_match_member [OF d', of p f] by auto
  show ?thesis
    unfolding routes_of_def foldl_update_map_of [OF d'] one m2
  proof (cases "first_match (\<lambda>f. index_prefix (sf_path f) = p) (filter is_index_document ?fs)")
    case None
    then have "\<not> (f \<in> set ?fs \<and> is_index_document f \<and> index_prefix (sf_path f) = p)" using m3 [of f] by simp
    then show "(case first_match (\<lambda>f. index_prefix (sf_path f) = p) (filter is_index_document ?fs) of
        None \<Rightarrow> first_match (\<lambda>f. sf_path f = p) ?fs | Some f \<Rightarrow> Some f) = Some f \<longleftrightarrow>
        f \<in> set ?fs \<and> (sf_path f = p \<or> is_index_document f \<and> index_prefix (sf_path f) = p)"
      unfolding None using m1 [of f] by auto
  next
    case (Some a)
    have a: "a \<in> set ?fs" "is_index_document a" "index_prefix (sf_path a) = p" using m3 [of a] Some by auto
    have "a = f \<longleftrightarrow> f \<in> set ?fs \<and> is_index_document f \<and> index_prefix (sf_path f) = p" using m3 [of f] Some by simp
    moreover have "\<not> (f \<in> set ?fs \<and> sf_path f = p)" using apart [of f a] a by blast
    ultimately show "(case first_match (\<lambda>f. index_prefix (sf_path f) = p) (filter is_index_document ?fs) of
        None \<Rightarrow> first_match (\<lambda>f. sf_path f = p) ?fs | Some f \<Rightarrow> Some f) = Some f \<longleftrightarrow>
        f \<in> set ?fs \<and> (sf_path f = p \<or> is_index_document f \<and> index_prefix (sf_path f) = p)"
      unfolding Some by auto
  qed
qed

lemma routes_distinct: "distinct (map fst (routes_of m))"
  unfolding routes_of_def
  by (intro foldl_update_distinct foldl_update_distinct [where P = "\<lambda>_. True", simplified]) simp

text \<open>Every route is a request path, except where a file path holds a literal space.\<close>

lemma index_prefix_requestable:
  assumes "valid_request_path (p @ ''/'' @ x)" and "CHR ''/'' \<notin> set x"
  shows "valid_request_path (p @ ''/'')"
proof (cases p)
  case Nil
  show ?thesis unfolding Nil by (simp add: valid_request_path_iff split_path_def starts_with_def)
next
  case (Cons c q)
  obtain ss where ss: "split_path (p @ ''/'' @ x) = Some ss"
    and ok: "\<forall>i<length ss. (ss ! i = [] \<and> i = length ss - 1) \<or> valid_request_segment (ss ! i)"
    using assms(1) by (auto simp: valid_request_path_iff)
  have c: "c = CHR ''/''" and s: "ss = split_on (CHR ''/'') q @ [x]"
    using ss Cons split_on_append [of "CHR ''/''" q x] assms(2)
    by (auto simp: split_path_def starts_with_def split_on_none split: if_splits)
  have "split_path (p @ ''/'') = Some (split_on (CHR ''/'') q @ [[]])"
    using ss Cons split_on_append [of "CHR ''/''" q "[]"]
    by (auto simp: split_path_def starts_with_def split: if_splits)
  moreover have "(split_on (CHR ''/'') q @ [[]]) ! i = [] \<and> i = length (split_on (CHR ''/'') q @ [[]]) - 1
      \<or> valid_request_segment ((split_on (CHR ''/'') q @ [[]]) ! i)"
    if "i < length (split_on (CHR ''/'') q @ [[]])" for i
    using ok [rule_format, of i] that unfolding s by (auto simp: nth_append split: if_splits)
  ultimately show ?thesis unfolding valid_request_path_iff by blast
qed

lemma route_requestable:
  assumes "site_ok m" and "map_of (routes_of m) p = Some f" and "CHR '' '' \<notin> set p"
  shows "valid_request_path p"
proof -
  have f: "f \<in> set (sm_files m)" and r: "sf_path f = p \<or> is_index_document f \<and> index_prefix (sf_path f) = p"
    using assms(1,2) routes_map_of by blast+
  have v: "validate_file_path (sf_path f) = Inr (sf_path f)"
    using assms(1) f by (auto simp: site_ok_def Let_def index_file_validate_Inr)
  from r show ?thesis
  proof
    assume "sf_path f = p"
    then show ?thesis using v assms(3) file_path_grammars file_path_requestable by blast
  next
    assume i: "is_index_document f \<and> index_prefix (sf_path f) = p"
    note shape = index_document_path [OF v conjunct1 [OF i]]
    obtain q where q: "p = q @ ''/''" using shape(2,3) i by (metis append_butlast_last_id)
    have path: "sf_path f = q @ ''/'' @ ''index.html''" using shape(1) i q by simp
    then have "CHR '' '' \<notin> set (sf_path f)" using assms(3) q by simp
    then have "valid_request_path (sf_path f)" using v file_path_grammars file_path_requestable by blast
    then show ?thesis unfolding q path by (rule index_prefix_requestable) simp
  qed
qed

text \<open>Outside the table the answer is the fallback or the fixed 404: the code always has one.\<close>

definition index_ok :: "VerifiedStaticIndex \<Rightarrow> bool" where
  "index_ok index \<longleftrightarrow>
     site_ok (vi_manifest index) \<and> vi_routes index = routes_of (vi_manifest index)
     \<and> target_validate (vi_target index) = Inr (vi_target index)"

lemma fallback_route:
  assumes "index_ok index" and "sm_fallback (vi_manifest index) = Some t"
  obtains f where "map_of (vi_routes index) t = Some f" and "f \<in> set (sm_files (vi_manifest index))"
    and "sf_path f = t" and "sf_content_type f = html_type"
proof -
  obtain f where f: "f \<in> set (sm_files (vi_manifest index))" "sf_path f = t" "sf_content_type f = html_type"
    using assms by (auto simp: index_ok_def site_ok_def Let_def)
  have "map_of (routes_of (vi_manifest index)) t = Some f"
    using assms(1) f routes_map_of unfolding index_ok_def by blast
  then show thesis using that [of f] f assms(1) by (simp add: index_ok_def)
qed

lemma expected_total:
  assumes "index_ok index" and "valid_request_path p"
  shows "\<exists>r. expected_static_response L index verb p = Inr r"
proof -
  have v: "validate_request_path p = Inr p" using assms(2) request_path_grammars_agree by simp
  show ?thesis
  proof (cases "map_of (vi_routes index) p")
    case None
    show ?thesis
    proof (cases "sm_fallback (vi_manifest index)")
      case (Some t)
      obtain f where "map_of (vi_routes index) t = Some f" by (rule fallback_route [OF assms(1) Some])
      then show ?thesis using None v Some by (simp add: expected_static_response_def)
    qed (use None v in \<open>simp add: expected_static_response_def\<close>)
  qed (use v in \<open>simp add: expected_static_response_def\<close>)
qed

section \<open>What ingestion establishes\<close>

lemma parse_model_read: "parse_model L mv cz k r = Inr x \<Longrightarrow> \<exists>d. loads L r = Inr d \<and> mv d = Inr x"
  by (auto simp: parse_model_def split: sum.splits)

lemma read_site_manifest_ok: "read_site_manifest d = Inr m \<Longrightarrow> site_ok m"
  unfolding read_site_manifest_def by (elim res_bindE) (simp add: index_manifest_validate_Inr)

lemma parse_site_manifest_Inr:
  "parse_site_manifest L r = Inr m \<Longrightarrow> site_ok m \<and> site_manifest_bytes L m = r"
  using parse_model_read [of L read_site_manifest _ _ r m] parse_model_Inr [of L read_site_manifest _ _ r m]
    read_site_manifest_ok [of _ m] unfolding parse_site_manifest_def by (metis sum.inject(2))

lemma release_validate_same: "release_validate r = Inr s \<Longrightarrow> s = r"
  by (simp add: release_validate_def)

lemma release_policy_validate_same: "release_policy_validate L p = Inr q \<Longrightarrow> q = p"
  by (auto simp: release_policy_validate_def)

lemma target_validate_same: "target_validate t = Inr s \<Longrightarrow> s = t"
  by (simp add: target_validate_def)

lemma verify_release_None:
  assumes "verify_release L V r p = Inr None"
  obtains k issued key message where "k \<in> set (rp_trusted_keys p)" and "rk_key_id k = rl_signer_key_id r"
    and "timestamp_epoch_seconds (rl_issued_at r) = Inr issued"
    and "rk_valid_from_epoch k \<le> issued" and "issued < rk_valid_until_epoch k"
    and "decode_ed25519_public_key_hex (rk_public_key_hex k) = Inr key"
    and "static_site_release_message L r = Inr message" and "V key (unhex (rl_signature r)) message"
proof -
  obtain k where k: "first_match (\<lambda>k. rk_key_id k = rl_signer_key_id r) (rp_trusted_keys p) = Some k"
    using assms by (auto simp: verify_release_def split: option.splits)
  then have "k \<in> set (rp_trusted_keys p)" "rk_key_id k = rl_signer_key_id r"
    by (auto simp: first_match_def find_Some_iff)
  with assms that k show thesis by (auto simp: verify_release_def split: if_splits sum.splits)
qed

text \<open>What the validator holds when it accepts an index for a target.\<close>

definition authenticated ::
    "pylib \<Rightarrow> ed25519 \<Rightarrow> StaticDeploymentTarget \<Rightarrow> string \<Rightarrow> string \<Rightarrow> StaticSiteReleaseTrustPolicy \<Rightarrow> string
     \<Rightarrow> VerifiedStaticIndex \<Rightarrow> bool" where
  "authenticated L V t mb rb p pinned index \<longleftrightarrow>
     stored_digest L mb = st_site_digest t \<and> stored_digest L rb = st_release_digest t
     \<and> site_manifest_bytes L (vi_manifest index) = mb \<and> length mb \<le> 1048576
     \<and> model_bytes L release_validate release_document (vi_release index) = Inr rb
     \<and> rl_site_digest (vi_release index) = st_site_digest t
     \<and> rl_policy_version (vi_release index) = ''static-producer-policy.v3''
     \<and> rl_server_digest (vi_release index) = pinned \<and> st_server_digest t = pinned
     \<and> (\<exists>k issued key message. k \<in> set (rp_trusted_keys p) \<and> rk_key_id k = rl_signer_key_id (vi_release index)
          \<and> timestamp_epoch_seconds (rl_issued_at (vi_release index)) = Inr issued
          \<and> rk_valid_from_epoch k \<le> issued \<and> issued < rk_valid_until_epoch k
          \<and> decode_ed25519_public_key_hex (rk_public_key_hex k) = Inr key
          \<and> static_site_release_message L (vi_release index) = Inr message
          \<and> V key (unhex (rl_signature (vi_release index))) message)
     \<and> vi_target index = t \<and> vi_policy_digest index = rp_digest p"

lemma ingest_verified:
  assumes "ingest_static_index L V errors_of t mbs rbs p pinned = Inr (IndexVerified index)"
  obtains mb rb where "mbs = Some mb" and "rbs = Some rb" and "authenticated L V t mb rb p pinned index"
    and "index_ok index"
proof -
  have t: "target_validate t = Inr t" and p: "release_policy_validate L p = Inr p"
    using assms target_validate_same release_policy_validate_same by (fastforce simp: ingest_static_index_def)+
  obtain mb rb where b: "mbs = Some mb" "rbs = Some rb"
    using assms t p by (auto simp: ingest_static_index_def Let_def split: option.splits)
  obtain m r where m: "parse_site_manifest L mb = Inr m" and r: "parse_release L rb = Inr r"
    using assms t p b by (auto simp: ingest_static_index_def Let_def split: if_splits sum.splits exn.splits)
  have rest: "length mb \<le> 1048576" "stored_digest L mb = st_site_digest t" "stored_digest L rb = st_release_digest t"
    "rl_site_digest r = st_site_digest t" "verify_release L V r p = Inr None"
    "rl_policy_version r = ''static-producer-policy.v3''" "rl_server_digest r = st_server_digest t" "st_server_digest t = pinned"
    "index = \<lparr>vi_target = t, vi_manifest = m, vi_release = r, vi_policy_digest = rp_digest p, vi_routes = routes_of m\<rparr>"
    using assms t p b m r by (auto simp: ingest_static_index_def Let_def split: if_splits option.splits)
  have "model_bytes L release_validate release_document r = Inr rb"
    using parse_model_Inr [OF r [unfolded parse_release_def]] by (rule conjunct1)
  moreover note parse_site_manifest_Inr [OF m]
  moreover from verify_release_None [OF rest(5)] have
    "\<exists>k issued key message. k \<in> set (rp_trusted_keys p) \<and> rk_key_id k = rl_signer_key_id r
          \<and> timestamp_epoch_seconds (rl_issued_at r) = Inr issued
          \<and> rk_valid_from_epoch k \<le> issued \<and> issued < rk_valid_until_epoch k
          \<and> decode_ed25519_public_key_hex (rk_public_key_hex k) = Inr key
          \<and> static_site_release_message L r = Inr message \<and> V key (unhex (rl_signature r)) message"
    by metis
  ultimately show thesis using rest t by (intro that [OF b]) (auto simp: authenticated_def index_ok_def)
qed

text \<open>The responses of an accepted index, by the file that serves a path.\<close>

definition serves :: "StaticFile \<Rightarrow> string \<Rightarrow> bool" where
  "serves f p \<longleftrightarrow> sf_path f = p \<or> is_index_document f \<and> index_prefix (sf_path f) = p"

definition response_of :: "pylib \<Rightarrow> string \<Rightarrow> StaticFile \<Rightarrow> ExpectedStaticResponse \<Rightarrow> bool" where
  "response_of L verb f r \<longleftrightarrow>
     er_status r = 200 \<and> er_content_type r = sf_content_type f \<and> er_content_length r = sf_content_length f
     \<and> er_body_sha256 r = (if verb = ''GET'' then sf_body_sha256 f else sha256_hex L '''')
     \<and> er_header_sha256 r = response_header_digest L (normative_headers (sf_content_type f) (sf_content_length f))"

definition missing_response :: "pylib \<Rightarrow> string \<Rightarrow> ExpectedStaticResponse \<Rightarrow> bool" where
  "missing_response L verb r \<longleftrightarrow>
     er_status r = 404 \<and> er_kind r = NotFoundResponse \<and> er_content_length r = 10
     \<and> er_body_sha256 r = sha256_hex L (if verb = ''GET'' then not_found_body else '''')"

lemma expected_cases:
  assumes "index_ok index" and "expected_static_response L index verb p = Inr r"
  shows "(\<forall>f\<in>set (sm_files (vi_manifest index)). serves f p \<longrightarrow> response_of L verb f r)
    \<and> ((\<forall>f\<in>set (sm_files (vi_manifest index)). \<not> serves f p) \<longrightarrow>
        (case sm_fallback (vi_manifest index) of
           None \<Rightarrow> missing_response L verb r
         | Some t \<Rightarrow> if CHR ''.'' \<in> set (last_part (CHR ''/'') p) then missing_response L verb r
                    else \<exists>f\<in>set (sm_files (vi_manifest index)). sf_path f = t \<and> response_of L verb f r
                           \<and> er_content_type r = html_type))"
proof -
  let ?fs = "sm_files (vi_manifest index)"
  have routes: "map_of (vi_routes index) q = Some f \<longleftrightarrow> f \<in> set ?fs \<and> serves f q" for f q
    using assms(1) routes_map_of [of "vi_manifest index" q f] by (simp add: index_ok_def serves_def)
  show ?thesis
  proof (cases "map_of (vi_routes index) p")
    case (Some f)
    then have "f \<in> set ?fs" "serves f p" using routes [of p f] by blast+
    moreover have "g = f" if "g \<in> set ?fs" "serves g p" for g using routes [of p g] Some that by simp
    moreover have "response_of L verb f r"
      using assms(2) Some by (auto simp: expected_static_response_def expected_response_def response_of_def)
    ultimately show ?thesis by (intro conjI ballI impI) blast+
  next
    case None
    then have none: "\<forall>f\<in>set ?fs. \<not> serves f p" using routes [of p] by (metis option.distinct(1))
    have ten: "int (length not_found_body) = 10" by (simp add: not_found_body_def)
    show ?thesis
    proof (cases "sm_fallback (vi_manifest index)")
      case fb: None
      then have r: "r = expected_response L p verb NotFoundResponse 404 ''text/plain; charset=utf-8''
          (int (length not_found_body)) (sha256_hex L not_found_body)"
        using assms(2) None by (auto simp: expected_static_response_def split: if_splits)
      show ?thesis using none fb unfolding r by (auto simp: expected_response_def missing_response_def ten)
    next
      case (Some t)
      obtain f where f: "map_of (vi_routes index) t = Some f" "f \<in> set ?fs" "sf_path f = t" "sf_content_type f = html_type"
        by (rule fallback_route [OF assms(1) Some])
      then show ?thesis using assms(2) None none ten Some
        by (auto simp: expected_static_response_def expected_response_def missing_response_def response_of_def
            split: if_splits)
    qed
  qed
qed

section \<open>Theorems\<close>

text \<open>
  C32: the two modules that carry the URL grammar of a static site agree on request paths,
  and on file paths they agree except for a literal space, which the index accepts and the
  contract (like the index's own description) does not.
\<close>

theorem static_path_grammars:
  "(valid_request_path p \<longleftrightarrow> validate_request_path p = Inr p)
   \<and> (valid_file_path p \<longleftrightarrow> validate_file_path p = Inr p \<and> CHR '' '' \<notin> set p)"
  by (simp only: request_path_grammars_agree file_path_grammars simp_thms)

text \<open>
  C31: a site manifest that satisfies the published contract is accepted by the validator's
  own, separately written validation, and every route it gives rise to (each file, and the
  directory of each index document) is a path that a probe may request.
\<close>

theorem contract_site_ingestible:
  assumes "contract_manifest_validate m = Inr n"
  shows "index_manifest_validate m = Inr m
    \<and> list_all (\<lambda>(p, f). valid_request_path p \<and> health_path p) (routes_of m)"
proof -
  have m: "site_ok m" "\<forall>f\<in>set (sm_files m). CHR '' '' \<notin> set (sf_path f)"
    using contract_manifest_ok [OF assms] by blast+
  have "valid_request_path p" if "(p, f) \<in> set (routes_of m)" for p f
  proof -
    have mo: "map_of (routes_of m) p = Some f" using that routes_distinct by simp
    then have "f \<in> set (sm_files m)" "sf_path f = p \<or> is_index_document f \<and> index_prefix (sf_path f) = p"
      using routes_map_of [OF m(1)] by blast+
    then have "CHR '' '' \<notin> set p" using m(2) by (auto simp: index_prefix_def dest: in_set_takeD)
    then show ?thesis by (rule route_requestable [OF m(1) mo])
  qed
  then show ?thesis
    using request_path_probeable m(1) by (auto simp: list_all_iff index_manifest_validate_Inr)
qed

text \<open>
  C18: an index that the validator accepts is the one the assignment manifest bound: the bytes
  of the manifest and of the release hash to the digests of the target and are their
  canonical renderings, the release names the site and the pinned server implementation, and
  a key of the pinned policy signed it, whose validity window contains the time of issue that
  the release itself states (the current time plays no part).
\<close>

theorem static_index_authentic:
  assumes "ingest_static_index L V errors_of t mbs rbs p pinned = Inr (IndexVerified index)"
  shows "\<exists>mb rb. mbs = Some mb \<and> rbs = Some rb \<and> authenticated L V t mb rb p pinned index"
  using assms by (rule ingest_verified) blast

text \<open>
  For an accepted index every valid request path has exactly one expected response: the
  file of that path, or the index document of that directory; outside the table the
  fallback document for a name without a dot, and otherwise the fixed 404.
\<close>

theorem static_response_table:
  assumes "ingest_static_index L V errors_of t mbs rbs p pinned = Inr (IndexVerified index)"
    and "valid_request_path path"
  shows "\<exists>r. expected_static_response L index verb path = Inr r
    \<and> (\<forall>f\<in>set (sm_files (vi_manifest index)). serves f path \<longrightarrow> response_of L verb f r)
    \<and> ((\<forall>f\<in>set (sm_files (vi_manifest index)). \<not> serves f path) \<longrightarrow>
        (case sm_fallback (vi_manifest index) of
           None \<Rightarrow> missing_response L verb r
         | Some t \<Rightarrow> if CHR ''.'' \<in> set (last_part (CHR ''/'') path) then missing_response L verb r
                    else \<exists>f\<in>set (sm_files (vi_manifest index)). sf_path f = t \<and> response_of L verb f r
                           \<and> er_content_type r = html_type))"
proof -
  have ok: "index_ok index" using assms(1) by (rule ingest_verified)
  obtain r where r: "expected_static_response L index verb path = Inr r"
    using expected_total [OF ok assms(2)] by blast
  then show ?thesis using expected_cases [OF ok r] by blast
qed

end
