(* ===== verification/StaticProbes.thy ===== *)
theory StaticProbes
  imports StaticIndex
begin

text \<open>
  Targeted probes of static endpoint incarnations, \<^verbatim>\<open>static_probe.py\<close>: judging one observed
  response against the response the index expects (with the attribution of a failure to the
  miner or to the path), the sealed observation and its validator, the public-framing
  transport profile, the admission crawl under its budget, and the hidden probes of an epoch.
\<close>

section \<open>Vocabulary\<close>

datatype static_failure =
    SfAttestationFraud | SfAttestationInvalid | SfAttestationMissing | SfBodyMismatch | SfCacheReplay
  | SfConnectionFailed | SfContentAltered | SfEdgeGenerated | SfForbiddenHeader | SfHeaderMismatch
  | SfResponseOversized | SfStatusMismatch | SfTimeout | SfTlsCertificateInvalid | SfTlsHandshakeFailed
  | SfTlsPinMismatch | SfTransportError

fun static_failure_text :: "static_failure \<Rightarrow> string" where
  "static_failure_text SfAttestationFraud = ''attestation_fraud''"
| "static_failure_text SfAttestationInvalid = ''attestation_invalid''"
| "static_failure_text SfAttestationMissing = ''attestation_missing''"
| "static_failure_text SfBodyMismatch = ''body_mismatch''"
| "static_failure_text SfCacheReplay = ''cache_replay''"
| "static_failure_text SfConnectionFailed = ''connection_failed''"
| "static_failure_text SfContentAltered = ''content_altered_in_transit''"
| "static_failure_text SfEdgeGenerated = ''edge_generated''"
| "static_failure_text SfForbiddenHeader = ''forbidden_header''"
| "static_failure_text SfHeaderMismatch = ''header_mismatch''"
| "static_failure_text SfResponseOversized = ''response_oversized''"
| "static_failure_text SfStatusMismatch = ''status_mismatch''"
| "static_failure_text SfTimeout = ''timeout''"
| "static_failure_text SfTlsCertificateInvalid = ''tls_certificate_invalid''"
| "static_failure_text SfTlsHandshakeFailed = ''tls_handshake_failed''"
| "static_failure_text SfTlsPinMismatch = ''tls_pin_mismatch''"
| "static_failure_text SfTransportError = ''transport_error''"

text \<open>\<^verbatim>\<open>_ATTRIBUTION\<close>: six codes speak against the miner.\<close>

fun static_code_attribution :: "static_failure \<Rightarrow> attribution" where
  "static_code_attribution SfAttestationFraud = Miner"
| "static_code_attribution SfAttestationInvalid = Miner"
| "static_code_attribution SfAttestationMissing = Miner"
| "static_code_attribution SfBodyMismatch = Miner"
| "static_code_attribution SfHeaderMismatch = Miner"
| "static_code_attribution SfStatusMismatch = Miner"
| "static_code_attribution _ = Path"

definition static_failure_attribution :: "static_failure option \<Rightarrow> attribution" where
  "static_failure_attribution code = (case code of None \<Rightarrow> NoParty | Some c \<Rightarrow> static_code_attribution c)"

definition content_faults :: "static_failure set" where
  "content_faults = {SfBodyMismatch, SfHeaderMismatch, SfStatusMismatch}"

datatype static_attestation = SaFraudulent | SaNotPresented | SaRejected | SaReplayed | SaVerified

fun static_attestation_text :: "static_attestation \<Rightarrow> string" where
  "static_attestation_text SaFraudulent = ''fraudulent''"
| "static_attestation_text SaNotPresented = ''not_presented''"
| "static_attestation_text SaRejected = ''rejected''"
| "static_attestation_text SaReplayed = ''replayed''"
| "static_attestation_text SaVerified = ''verified''"

datatype probe_kind = AdmissionProbe | HiddenProbe

fun probe_kind_text :: "probe_kind \<Rightarrow> string" where
  "probe_kind_text AdmissionProbe = ''admission''"
| "probe_kind_text HiddenProbe = ''hidden''"

fun response_kind_text :: "response_kind \<Rightarrow> string" where
  "response_kind_text DirectoryIndex = ''directory_index''"
| "response_kind_text FileResponse = ''file''"
| "response_kind_text NavigationFallback = ''navigation_fallback''"
| "response_kind_text NotFoundResponse = ''not_found''"

section \<open>Headers and framing\<close>

definition observed_header_digest :: "pylib \<Rightarrow> (string \<times> string) list \<Rightarrow> string" where
  "observed_header_digest L headers = response_header_digest L
     (map (\<lambda>(name, value). (py_lower name, value))
        (filter (\<lambda>(name, _). py_lower name \<in> {''allow'', ''cache-control'', ''content-length'', ''content-type'',
           ''x-content-type-options''}) headers))"

definition forbidden_names :: "string list" where
  "forbidden_names =
     [''accept-ranges'', ''content-disposition'', ''content-encoding'', ''content-range'', ''etag'',
      ''last-modified'', ''location'', ''refresh'', ''set-cookie'', ''transfer-encoding'', ''vary'']"

definition has_forbidden_header :: "(string \<times> string) list \<Rightarrow> bool" where
  "has_forbidden_header headers =
     list_ex (\<lambda>(name, _). py_lower name \<in> set forbidden_names
       \<or> starts_with ''x-miss-'' (py_lower name)
         \<and> py_lower name \<notin> {''x-miss-probe-attestation'', ''x-miss-edge-upstream''}) headers"

definition known_version :: "string \<Rightarrow> bool" where
  "known_version v \<longleftrightarrow> v \<in> {''HTTP/1.1'', ''HTTP/2'', ''HTTP/3''}"

text \<open>The bounds on a header list that is recorded or judged.\<close>

definition bounded_headers :: "(string \<times> string) list \<Rightarrow> bool" where
  "bounded_headers headers \<longleftrightarrow>
     length headers \<le> 128 \<and> sum_list (map (\<lambda>(name, value). length name + length value) headers) \<le> 16384
     \<and> list_all (\<lambda>(name, value). is_ascii name \<and> is_ascii value \<and> length name \<le> 128 \<and> length value \<le> 8192) headers"

definition public_framing_valid ::
    "(string \<times> string) list \<Rightarrow> string \<Rightarrow> string \<Rightarrow> string \<Rightarrow> int \<Rightarrow> bool" where
  "public_framing_valid headers http_version verb content_type content_length =
     (let lengths = header_values headers ''content-length'';
          codings = header_values headers ''transfer-encoding''
      in if \<not> known_version http_version then False
         else if \<not> bounded_headers headers then False
         else if list_ex (\<lambda>(name, value). name \<noteq> ''content-length'' \<and> header_values headers name \<noteq> [value])
                   (normative_headers content_type content_length) then False
         else if header_values headers ''allow'' \<noteq> []
                 \<or> has_forbidden_header (filter (\<lambda>(name, _). py_lower name \<noteq> ''transfer-encoding'') headers) then False
         else if length lengths > 1 \<or> length codings > 1 then False
         else if lengths \<noteq> [] \<and> (hd lengths \<noteq> int_digits content_length \<or> codings \<noteq> []) then False
         else if codings \<noteq> [] \<and> (http_version \<noteq> ''HTTP/1.1'' \<or> codings \<noteq> [''chunked'']) then False
         else if http_version = ''HTTP/1.1'' \<and> verb = ''GET'' \<and> lengths = [] \<and> codings = [] then False
         else True)"

text \<open>The pinned transport policy; its other fields are literals.\<close>

record StaticPublicTransportPolicy =
  pt_manifest_policy_digest :: string
  pt_policy_digest :: string

definition transport_policy_unsigned :: "StaticPublicTransportPolicy \<Rightarrow> (string \<times> json) list" where
  "transport_policy_unsigned p =
     [(''schema'', JStr ''miss.computer/misscomputer-subnet/static-public-transport-policy''),
      (''schema_version'', JInt 1), (''profile'', JStr ''public-framing-v1''), (''network'', JStr ''test''),
      (''netuid'', JInt 581), (''route_host_suffix'', JStr ''on.miss.computer''),
      (''manifest_trust_policy_digest_sha256'', JStr (pt_manifest_policy_digest p))]"

definition transport_policy_validate :: "pylib \<Rightarrow> StaticPublicTransportPolicy \<Rightarrow> StaticPublicTransportPolicy res" where
  "transport_policy_validate L p =
     reject_if (\<not> (digest_text (pt_manifest_policy_digest p) \<and> digest_text (pt_policy_digest p))) strict_error
     (verify_model_digest L ''policy_digest_sha256'' (JObj (transport_policy_unsigned p)) (pt_policy_digest p) p)"

section \<open>Observations\<close>

record StaticProbeObservation =
  so_schema_version :: int
  so_probe_kind :: probe_kind
  so_validator_hotkey :: string
  so_deployment_id :: string
  so_site_digest :: string
  so_release_digest :: string
  so_policy_digest :: string
  so_endpoint_id :: string
  so_generation :: int
  so_miner_uid :: int
  so_miner_hotkey :: string
  so_probe_nonce :: string
  so_issued_at :: string
  so_request_method :: string
  so_request_path :: string
  so_expected_kind :: response_kind
  so_expected_status :: int
  so_expected_length :: int
  so_expected_body :: string
  so_expected_header :: string
  so_latency_millis :: int
  so_outcome :: probe_outcome
  so_failure :: "static_failure option"
  so_attribution :: attribution
  so_quarantine :: bool
  so_upstream_marker :: bool
  so_status :: "int option"
  so_bytes :: int
  so_body :: "string option"
  so_header :: "string option"
  so_tls_leaf :: "string option"
  so_attestation_status :: static_attestation
  so_attestation :: "MinerProbeAttestationV2 option"
  so_profile :: "string option"
  so_transport_digest :: "string option"
  so_http_version :: "string option"
  so_headers :: "(string \<times> string) list option"
  so_digest :: string

definition headers_document :: "(string \<times> string) list option \<Rightarrow> json" where
  "headers_document hs = (case hs of None \<Rightarrow> JNull
     | Some xs \<Rightarrow> JList (map (\<lambda>(name, value). JList [JStr name, JStr value]) xs))"

text \<open>\<^verbatim>\<open>serialize_versioned\<close>: a version 1 document has no transport members.\<close>

definition static_observation_unsigned :: "StaticProbeObservation \<Rightarrow> (string \<times> json) list" where
  "static_observation_unsigned ob =
     [(''schema'', JStr ''miss.computer/misscomputer-subnet/static-probe-observation''),
      (''schema_version'', JInt (so_schema_version ob)), (''probe_kind'', JStr (probe_kind_text (so_probe_kind ob))),
      (''validator_hotkey'', JStr (so_validator_hotkey ob)), (''deployment_id'', JStr (so_deployment_id ob)),
      (''site_digest'', JStr (so_site_digest ob)), (''release_digest'', JStr (so_release_digest ob)),
      (''release_trust_policy_digest_sha256'', JStr (so_policy_digest ob)),
      (''endpoint_id'', JStr (so_endpoint_id ob)), (''generation'', JInt (so_generation ob)),
      (''miner_uid'', JInt (so_miner_uid ob)), (''miner_hotkey'', JStr (so_miner_hotkey ob)),
      (''probe_nonce'', JStr (so_probe_nonce ob)), (''issued_at'', JStr (so_issued_at ob)),
      (''request_method'', JStr (so_request_method ob)), (''request_path'', JStr (so_request_path ob)),
      (''expected_kind'', JStr (response_kind_text (so_expected_kind ob))),
      (''expected_status'', JInt (so_expected_status ob)), (''expected_content_length'', JInt (so_expected_length ob)),
      (''expected_body_sha256'', JStr (so_expected_body ob)), (''expected_header_sha256'', JStr (so_expected_header ob)),
      (''latency_millis'', JInt (so_latency_millis ob)), (''outcome'', JStr (outcome_text (so_outcome ob))),
      (''failure_code'', jstr_opt (map_option static_failure_text (so_failure ob))),
      (''attribution'', JStr (attribution_text (so_attribution ob))),
      (''quarantine_candidate'', JBool (so_quarantine ob)), (''upstream_marker'', JBool (so_upstream_marker ob)),
      (''response_status'', jint_opt (so_status ob)), (''response_bytes'', JInt (so_bytes ob)),
      (''response_body_sha256'', jstr_opt (so_body ob)), (''response_header_sha256'', jstr_opt (so_header ob)),
      (''tls_leaf_certificate_sha256'', jstr_opt (so_tls_leaf ob)),
      (''attestation_status'', JStr (static_attestation_text (so_attestation_status ob))),
      (''attestation'', (case so_attestation ob of None \<Rightarrow> JNull | Some a \<Rightarrow> attestation_document a))]
     @ (if so_schema_version ob = 1 then []
        else [(''transport_profile'', jstr_opt (so_profile ob)),
              (''transport_policy_digest_sha256'', jstr_opt (so_transport_digest ob)),
              (''delivered_http_version'', jstr_opt (so_http_version ob)),
              (''delivered_headers'', headers_document (so_headers ob))])"

definition static_observation_document :: "StaticProbeObservation \<Rightarrow> json" where
  "static_observation_document ob =
     JObj (static_observation_unsigned ob @ [(''observation_digest_sha256'', JStr (so_digest ob))])"

text \<open>The annotations of the fields: who was asked what, what was expected, what came back.\<close>

definition static_request_fields :: "StaticProbeObservation \<Rightarrow> bool" where
  "static_request_fields ob \<longleftrightarrow>
     so_schema_version ob \<in> {1, 2} \<and> hotkey_text (so_validator_hotkey ob) \<and> dns_label (so_deployment_id ob)
     \<and> sha_text (so_site_digest ob) \<and> sha_text (so_release_digest ob) \<and> digest_text (so_policy_digest ob)
     \<and> endpoint_text (so_endpoint_id ob) \<and> in_range 1 max_epoch (so_generation ob) \<and> in_range 0 65535 (so_miner_uid ob)
     \<and> hotkey_text (so_miner_hotkey ob) \<and> digest_text (so_probe_nonce ob) \<and> seconds_timestamp (so_issued_at ob)
     \<and> http_method (so_request_method ob) \<and> health_path (so_request_path ob)
     \<and> in_range 100 599 (so_expected_status ob) \<and> in_range 0 16777216 (so_expected_length ob)
     \<and> digest_text (so_expected_body ob) \<and> digest_text (so_expected_header ob)"

definition static_result_fields :: "StaticProbeObservation \<Rightarrow> bool" where
  "static_result_fields ob \<longleftrightarrow>
     in_range 0 3600000 (so_latency_millis ob) \<and> opt_ok (in_range 100 599) (so_status ob)
     \<and> in_range 0 16777217 (so_bytes ob) \<and> opt_ok digest_text (so_body ob) \<and> opt_ok digest_text (so_header ob)
     \<and> opt_ok digest_text (so_tls_leaf ob) \<and> opt_ok (\<lambda>p. p = ''public-framing-v1'') (so_profile ob)
     \<and> opt_ok digest_text (so_transport_digest ob) \<and> opt_ok known_version (so_http_version ob)
     \<and> digest_text (so_digest ob)"

definition framing_proved :: "StaticProbeObservation \<Rightarrow> bool" where
  "framing_proved ob =
     (case (so_attestation ob, so_headers ob, so_http_version ob) of
        (Some a, Some headers, Some version) \<Rightarrow>
          at_response_header a = so_expected_header ob
          \<and> so_bytes ob = (if so_request_method ob = ''GET'' then so_expected_length ob else 0)
          \<and> length (header_values headers ''content-type'') = 1
          \<and> public_framing_valid headers version (so_request_method ob)
              (hd (header_values headers ''content-type'')) (so_expected_length ob)
      | _ \<Rightarrow> False)"

definition fault_unproved :: "StaticProbeObservation \<Rightarrow> bool" where
  "fault_unproved ob \<longleftrightarrow>
     so_attestation_status ob \<noteq> SaVerified
     \<or> (case so_attestation ob of None \<Rightarrow> True | Some a \<Rightarrow> at_response_header a \<noteq> so_expected_header ob)
     \<or> so_failure ob = Some SfHeaderMismatch
     \<or> (so_failure ob = Some SfStatusMismatch \<and> so_status ob = Some (so_expected_status ob))
     \<or> (so_failure ob = Some SfBodyMismatch
         \<and> (so_status ob \<noteq> Some (so_expected_status ob) \<or> so_body ob = Some (so_expected_body ob)))"

definition attestation_unbound :: "StaticProbeObservation \<Rightarrow> bool" where
  "attestation_unbound ob =
     (case so_attestation ob of None \<Rightarrow> False | Some a \<Rightarrow>
        at_endpoint_id a \<noteq> so_endpoint_id ob \<or> at_probe_nonce a \<noteq> so_probe_nonce ob
        \<or> Some (at_response_status a) \<noteq> so_status ob \<or> Some (at_response_body a) \<noteq> so_body ob
        \<or> (so_schema_version ob = 1 \<and> Some (at_response_header a) \<noteq> so_header ob))"

definition static_observation_validate :: "pylib \<Rightarrow> StaticProbeObservation \<Rightarrow> StaticProbeObservation res" where
  "static_observation_validate L ob =
     reject_if (\<not> (static_request_fields ob \<and> static_result_fields ob)) strict_error
     (res_bind (case so_attestation ob of None \<Rightarrow> Inr () | Some a \<Rightarrow> res_bind (attestation_validate a) (\<lambda>_. Inr ())) (\<lambda>_.
     reject_if (if so_schema_version ob = 1
                then so_profile ob \<noteq> None \<or> so_transport_digest ob \<noteq> None \<or> so_http_version ob \<noteq> None
                     \<or> so_headers ob \<noteq> None
                else so_profile ob \<noteq> Some ''public-framing-v1'' \<or> so_transport_digest ob = None)
       (ValueError ''observation_profile_invalid'')
     (reject_if (so_schema_version ob = 2 \<and> (case so_headers ob of None \<Rightarrow> False | Some headers \<Rightarrow>
                   so_http_version ob = None \<or> so_header ob \<noteq> Some (observed_header_digest L headers)))
       (ValueError ''observation_delivered_headers_invalid'')
     (reject_if ((so_outcome ob = Success) \<noteq> (so_failure ob = None)) (ValueError ''observation_outcome_invalid'')
     (reject_if (so_attribution ob \<noteq> static_failure_attribution (so_failure ob))
       (ValueError ''observation_attribution_invalid'')
     (reject_if (so_quarantine ob \<noteq> (case so_failure ob of None \<Rightarrow> False | Some c \<Rightarrow> c \<in> content_faults))
       (ValueError ''observation_quarantine_invalid'')
     (reject_if (so_outcome ob = Success
                 \<and> (\<not> so_upstream_marker ob \<or> so_status ob \<noteq> Some (so_expected_status ob)
                    \<or> so_body ob \<noteq> Some (so_expected_body ob)
                    \<or> (so_schema_version ob = 1 \<and> so_header ob \<noteq> Some (so_expected_header ob))
                    \<or> so_attestation_status ob \<noteq> SaVerified))
       (ValueError ''observation_success_invalid'')
     (reject_if ((so_attestation_status ob \<in> {SaFraudulent, SaReplayed, SaVerified}) \<noteq> (so_attestation ob \<noteq> None))
       (ValueError ''observation_attestation_invalid'')
     (reject_if ((so_attestation_status ob = SaFraudulent) \<noteq> (so_failure ob = Some SfAttestationFraud))
       (ValueError ''observation_fraud_invalid'')
     (reject_if (so_attestation_status ob = SaVerified \<and> attestation_unbound ob)
       (ValueError ''observation_attestation_binding_invalid'')
     (reject_if (so_schema_version ob = 2 \<and> so_outcome ob = Success \<and> \<not> framing_proved ob)
       (ValueError ''observation_public_framing_invalid'')
     (reject_if (so_schema_version ob = 2 \<and> so_quarantine ob \<and> fault_unproved ob)
       (ValueError ''observation_content_fault_unproved'')
     (reject_if (so_attribution ob = Miner \<and> \<not> so_upstream_marker ob) (ValueError ''observation_attribution_invalid'')
     (verify_model_digest L ''observation_digest_sha256'' (JObj (static_observation_unsigned ob)) (so_digest ob) ob))))))))))))))"

definition seal_static :: "pylib \<Rightarrow> StaticProbeObservation \<Rightarrow> StaticProbeObservation res" where
  "seal_static L ob =
     static_observation_validate L (ob\<lparr>so_digest := sha_json L (JObj (static_observation_unsigned ob))\<rparr>)"

section \<open>Judging a response\<close>

definition find_static_endpoint :: "VerifiedStaticIndex \<Rightarrow> string \<Rightarrow> StaticEndpointTarget res" where
  "find_static_endpoint index endpoint =
     (case first_match (\<lambda>e. se_endpoint_id e = endpoint) (st_endpoints (vi_target index)) of
        Some e \<Rightarrow> Inr e | None \<Rightarrow> Inl (ValueError ''endpoint_unpublished''))"

definition blank_static ::
    "VerifiedStaticIndex \<Rightarrow> StaticEndpointTarget \<Rightarrow> OrganicProbeAuthorization \<Rightarrow> ExpectedStaticResponse \<Rightarrow> probe_kind
     \<Rightarrow> StaticPublicTransportPolicy option \<Rightarrow> probe_result \<Rightarrow> StaticProbeObservation" where
  "blank_static index endpoint request expected kind policy result =
     \<lparr>so_schema_version = (if policy = None then 1 else 2), so_probe_kind = kind,
      so_validator_hotkey = au_validator_hotkey request, so_deployment_id = st_deployment_id (vi_target index),
      so_site_digest = st_site_digest (vi_target index), so_release_digest = st_release_digest (vi_target index),
      so_policy_digest = vi_policy_digest index, so_endpoint_id = se_endpoint_id endpoint,
      so_generation = se_generation endpoint, so_miner_uid = se_miner_uid endpoint,
      so_miner_hotkey = se_miner_hotkey endpoint, so_probe_nonce = au_nonce request,
      so_issued_at = au_issued_at request, so_request_method = au_method request, so_request_path = au_path request,
      so_expected_kind = er_kind expected, so_expected_status = er_status expected,
      so_expected_length = er_content_length expected, so_expected_body = er_body_sha256 expected,
      so_expected_header = er_header_sha256 expected,
      so_latency_millis = min (max (result_latency result) 0) 3600000, so_outcome = Failure, so_failure = None,
      so_attribution = NoParty, so_quarantine = False, so_upstream_marker = False, so_status = None, so_bytes = 0,
      so_body = None, so_header = None, so_tls_leaf = result_tls result, so_attestation_status = SaNotPresented,
      so_attestation = None, so_profile = map_option (\<lambda>_. ''public-framing-v1'') policy,
      so_transport_digest = map_option pt_policy_digest policy, so_http_version = None, so_headers = None,
      so_digest = ''''\<rparr>"

definition fail_static :: "pylib \<Rightarrow> StaticProbeObservation \<Rightarrow> static_failure \<Rightarrow> StaticProbeObservation res" where
  "fail_static L ob code =
     seal_static L (ob\<lparr>so_failure := Some code, so_attribution := static_failure_attribution (Some code),
                       so_quarantine := (code \<in> content_faults)\<rparr>)"

definition pass_static :: "pylib \<Rightarrow> StaticProbeObservation \<Rightarrow> StaticProbeObservation res" where
  "pass_static L ob = seal_static L (ob\<lparr>so_outcome := Success\<rparr>)"

definition foreign_attestation ::
    "MinerProbeAttestationV2 \<Rightarrow> StaticEndpointTarget \<Rightarrow> string \<Rightarrow> string \<Rightarrow> string \<Rightarrow> string \<Rightarrow> bool" where
  "foreign_attestation a endpoint site validator verb path \<longleftrightarrow>
     at_endpoint_id a \<noteq> se_endpoint_id endpoint \<or> at_generation a \<noteq> se_generation endpoint
     \<or> at_ticket_digest a \<noteq> se_ticket_digest endpoint \<or> at_artifact_digest a \<noteq> site
     \<or> at_validator_hotkey a \<noteq> validator \<or> at_request_method a \<noteq> verb \<or> at_request_path a \<noteq> path"

text \<open>\<^verbatim>\<open>ATTESTATION_CLOCK_SKEW_NANOS\<close> and \<^verbatim>\<open>PROBE_AUTHORIZATION_VALIDITY_NANOS\<close>.\<close>

definition outside_window :: "int \<Rightarrow> int \<Rightarrow> bool" where
  "outside_window issued observed \<longleftrightarrow>
     \<not> (issued - 2000000000 \<le> observed \<and> observed \<le> issued + 30000000000 + 2000000000)"

text \<open>The response against the expectation, on each of the two transports.\<close>

definition judge_framed ::
    "pylib \<Rightarrow> StaticProbeObservation \<Rightarrow> ExpectedStaticResponse \<Rightarrow> OrganicProbeAuthorization \<Rightarrow> ProbeResponse
     \<Rightarrow> MinerProbeAttestationV2 \<Rightarrow> StaticProbeObservation res" where
  "judge_framed L ob expected request result a =
     (if at_response_header a \<noteq> er_header_sha256 expected then fail_static L ob SfContentAltered
      else if pr_status result \<noteq> er_status expected then fail_static L ob SfStatusMismatch
      else if sha256_hex L (pr_body result) \<noteq> er_body_sha256 expected then fail_static L ob SfBodyMismatch
      else if int (length (pr_body result)) \<noteq> (if au_method request = ''GET'' then er_content_length expected else 0)
      then fail_static L ob SfContentAltered
      else if \<not> public_framing_valid (pr_headers result) (case pr_http_version result of None \<Rightarrow> '''' | Some v \<Rightarrow> v)
                 (au_method request) (er_content_type expected) (er_content_length expected)
      then fail_static L ob SfContentAltered
      else pass_static L ob)"

definition judge_direct ::
    "pylib \<Rightarrow> StaticProbeObservation \<Rightarrow> ExpectedStaticResponse \<Rightarrow> ProbeResponse \<Rightarrow> StaticProbeObservation res" where
  "judge_direct L ob expected result =
     (if pr_status result \<noteq> er_status expected then fail_static L ob SfStatusMismatch
      else if sha256_hex L (pr_body result) \<noteq> er_body_sha256 expected then fail_static L ob SfBodyMismatch
      else if observed_header_digest L (pr_headers result) \<noteq> er_header_sha256 expected
      then fail_static L ob SfHeaderMismatch
      else if has_forbidden_header (pr_headers result) then fail_static L ob SfForbiddenHeader
      else pass_static L ob)"

text \<open>From a parsed and verified attestation to the verdict.\<close>

definition judge_static_attestation ::
    "pylib \<Rightarrow> VerifiedStaticIndex \<Rightarrow> StaticEndpointTarget \<Rightarrow> OrganicProbeAuthorization \<Rightarrow> ExpectedStaticResponse
     \<Rightarrow> StaticPublicTransportPolicy option \<Rightarrow> StaticProbeObservation \<Rightarrow> ProbeResponse \<Rightarrow> MinerProbeAttestationV2
     \<Rightarrow> StaticProbeObservation res" where
  "judge_static_attestation L index endpoint request expected policy ob result a =
     (if at_probe_nonce a \<noteq> au_nonce request
      then fail_static L (ob\<lparr>so_attestation_status := SaReplayed, so_attestation := Some a\<rparr>) SfCacheReplay
      else if foreign_attestation a endpoint (st_site_digest (vi_target index)) (au_validator_hotkey request)
                (au_method request) (au_path request)
      then fail_static L (ob\<lparr>so_attestation_status := SaFraudulent, so_attestation := Some a\<rparr>) SfAttestationFraud
      else
        res_bind (rfc3339nano_instant (au_issued_at request)) (\<lambda>issued.
        res_bind (rfc3339nano_instant (observed_at a)) (\<lambda>observed.
        if outside_window issued observed
        then fail_static L (ob\<lparr>so_attestation_status := SaRejected\<rparr>) SfAttestationInvalid
        else if at_response_status a \<noteq> pr_status result
                \<or> at_response_body a \<noteq> sha256_hex L (pr_body result)
                \<or> (policy = None \<and> at_response_header a \<noteq> observed_header_digest L (pr_headers result))
        then fail_static L (ob\<lparr>so_attestation_status := SaRejected\<rparr>) SfContentAltered
        else
          let ob' = ob\<lparr>so_attestation_status := SaVerified, so_attestation := Some a\<rparr>
          in if policy = None then judge_direct L ob' expected result
             else judge_framed L ob' expected request result a)))"

text \<open>The members that a response fills in.\<close>

definition observe_response ::
    "pylib \<Rightarrow> StaticPublicTransportPolicy option \<Rightarrow> ProbeResponse \<Rightarrow> StaticProbeObservation \<Rightarrow> StaticProbeObservation" where
  "observe_response L policy result ob =
     ob\<lparr>so_status := Some (pr_status result), so_bytes := min (int (length (pr_body result))) 16777217,
        so_body := Some (sha256_hex L (pr_body result)),
        so_header := Some (observed_header_digest L (pr_headers result)),
        so_http_version := (if policy = None then None
          else (case pr_http_version result of None \<Rightarrow> None | Some v \<Rightarrow> if known_version v then Some v else None)),
        so_headers := (if policy \<noteq> None \<and> bounded_headers (pr_headers result) then Some (pr_headers result) else None)\<rparr>"

definition judge_static_response ::
    "pylib \<Rightarrow> ed25519 \<Rightarrow> VerifiedStaticIndex \<Rightarrow> StaticEndpointTarget \<Rightarrow> OrganicProbeAuthorization
     \<Rightarrow> ExpectedStaticResponse \<Rightarrow> string list \<Rightarrow> StaticPublicTransportPolicy option \<Rightarrow> StaticProbeObservation
     \<Rightarrow> ProbeResponse \<Rightarrow> StaticProbeObservation res" where
  "judge_static_response L V index endpoint request expected pins policy ob result =
     (if \<not> in_range 100 599 (pr_status result) then fail_static L ob SfTransportError
      else
        let o1 = observe_response L policy result ob
        in if pins \<noteq> [] \<and> (case pr_tls_leaf result of None \<Rightarrow> True | Some c \<Rightarrow> c \<notin> set pins)
           then fail_static L o1 SfTlsPinMismatch
           else if header_values (pr_headers result) ''x-miss-edge-upstream'' \<noteq> [''replica'']
           then fail_static L o1 SfEdgeGenerated
           else
             let o2 = o1\<lparr>so_upstream_marker := True\<rparr>;
                 presented = header_values (pr_headers result) ''x-miss-probe-attestation''
             in if presented = [] then fail_static L o2 SfAttestationMissing
                else (case (if length presented \<noteq> 1 then Inl (ValueError ''attestation_header_repeated'')
                            else parse_attestation_v2_header L (hd presented)) of
                        Inl _ \<Rightarrow> fail_static L (o2\<lparr>so_attestation_status := SaRejected\<rparr>) SfAttestationInvalid
                      | Inr a \<Rightarrow>
                          if \<not> verify_miner_probe_attestation_v2 L V a (se_service_key endpoint)
                          then fail_static L (o2\<lparr>so_attestation_status := SaRejected\<rparr>) SfAttestationInvalid
                          else judge_static_attestation L index endpoint request expected policy o2 result a))"

text \<open>A transport timeout is reported as a plain transport error, every other code as itself.\<close>

fun static_transport_code :: "transport_code \<Rightarrow> static_failure" where
  "static_transport_code TcConnectionFailed = SfConnectionFailed"
| "static_transport_code TcResponseOversized = SfResponseOversized"
| "static_transport_code TcTimeout = SfTransportError"
| "static_transport_code TcCertificateInvalid = SfTlsCertificateInvalid"
| "static_transport_code TcHandshakeFailed = SfTlsHandshakeFailed"
| "static_transport_code TcTransportError = SfTransportError"

definition ends_with :: "string \<Rightarrow> string \<Rightarrow> bool" where
  "ends_with suffix s \<longleftrightarrow> starts_with (rev suffix) (rev s)"

definition evaluate_static_probe ::
    "pylib \<Rightarrow> ed25519 \<Rightarrow> VerifiedStaticIndex \<Rightarrow> OrganicProbeAuthorization \<Rightarrow> probe_result \<Rightarrow> probe_kind \<Rightarrow> int
     \<Rightarrow> string list \<Rightarrow> StaticPublicTransportPolicy option \<Rightarrow> StaticProbeObservation res" where
  "evaluate_static_probe L V index authorization result kind timeout_millis pins policy =
     res_bind (authorization_validate authorization) (\<lambda>request.
     res_bind (find_static_endpoint index (au_endpoint_id request)) (\<lambda>endpoint.
     reject_if (au_generation request \<noteq> se_generation endpoint) (ValueError ''authorization_request_mismatch'')
     (res_bind (expected_static_response L index (au_method request) (au_path request)) (\<lambda>expected.
     reject_if (policy \<noteq> None \<and> \<not> ends_with ''.on.miss.computer'' (st_route_host (vi_target index)))
       (ValueError ''public_transport_route_out_of_scope'')
     (let ob = blank_static index endpoint request expected kind policy result
      in if result_latency result > timeout_millis then fail_static L ob SfTimeout
         else (case result of
                 TransportFailure f \<Rightarrow>
                   fail_static L (ob\<lparr>so_status := tf_response_status f\<rparr>) (static_transport_code (tf_code f))
               | Response response \<Rightarrow>
                   judge_static_response L V index endpoint request expected pins policy ob response))))))"

section \<open>Sealed observations\<close>

definition profile_ok :: "pylib \<Rightarrow> StaticProbeObservation \<Rightarrow> bool" where
  "profile_ok L ob \<longleftrightarrow>
     (if so_schema_version ob = 1
      then so_profile ob = None \<and> so_transport_digest ob = None \<and> so_http_version ob = None \<and> so_headers ob = None
      else so_profile ob = Some ''public-framing-v1'' \<and> so_transport_digest ob \<noteq> None)
     \<and> (so_schema_version ob = 2 \<longrightarrow> opt_ok (\<lambda>headers.
          so_http_version ob \<noteq> None \<and> so_header ob = Some (observed_header_digest L headers)) (so_headers ob))"

text \<open>The invariant of a sealed observation.\<close>

definition static_ok :: "pylib \<Rightarrow> StaticProbeObservation \<Rightarrow> bool" where
  "static_ok L ob \<longleftrightarrow>
     static_request_fields ob \<and> static_result_fields ob
     \<and> opt_ok (\<lambda>a. attestation_validate a = Inr a) (so_attestation ob) \<and> profile_ok L ob
     \<and> (so_outcome ob = Success) = (so_failure ob = None)
     \<and> so_attribution ob = static_failure_attribution (so_failure ob)
     \<and> so_quarantine ob = (case so_failure ob of None \<Rightarrow> False | Some c \<Rightarrow> c \<in> content_faults)
     \<and> (so_outcome ob = Success \<longrightarrow> so_upstream_marker ob \<and> so_status ob = Some (so_expected_status ob)
          \<and> so_body ob = Some (so_expected_body ob)
          \<and> (so_schema_version ob = 1 \<longrightarrow> so_header ob = Some (so_expected_header ob))
          \<and> so_attestation_status ob = SaVerified)
     \<and> (so_attestation_status ob \<in> {SaFraudulent, SaReplayed, SaVerified}) = (so_attestation ob \<noteq> None)
     \<and> (so_attestation_status ob = SaFraudulent) = (so_failure ob = Some SfAttestationFraud)
     \<and> (so_attestation_status ob = SaVerified \<longrightarrow> \<not> attestation_unbound ob)
     \<and> (so_schema_version ob = 2 \<and> so_outcome ob = Success \<longrightarrow> framing_proved ob)
     \<and> (so_schema_version ob = 2 \<and> so_quarantine ob \<longrightarrow> \<not> fault_unproved ob)
     \<and> (so_attribution ob = Miner \<longrightarrow> so_upstream_marker ob)"

lemma static_observation_validate_Inr:
  "static_observation_validate L ob = Inr p \<longleftrightarrow>
     p = ob \<and> static_ok L ob \<and> so_digest ob = sha_json L (JObj (static_observation_unsigned ob))"
proof -
  have att: "(case so_attestation ob of None \<Rightarrow> Inr () | Some a \<Rightarrow> res_bind (attestation_validate a) (\<lambda>_. Inr ())) = Inr u
        \<longleftrightarrow> opt_ok (\<lambda>a. attestation_validate a = Inr a) (so_attestation ob)" for u
    using attestation_validate_same by (auto split: option.splits)
  have prof: "profile_ok L ob \<longleftrightarrow>
      \<not> (if so_schema_version ob = 1
         then so_profile ob \<noteq> None \<or> so_transport_digest ob \<noteq> None \<or> so_http_version ob \<noteq> None \<or> so_headers ob \<noteq> None
         else so_profile ob \<noteq> Some ''public-framing-v1'' \<or> so_transport_digest ob = None)
      \<and> \<not> (so_schema_version ob = 2 \<and> (case so_headers ob of None \<Rightarrow> False | Some headers \<Rightarrow>
                   so_http_version ob = None \<or> so_header ob \<noteq> Some (observed_header_digest L headers)))"
    by (cases "so_headers ob") (auto simp: profile_ok_def)
  show ?thesis
    unfolding static_observation_validate_def static_ok_def res_bind_Inr att reject_if_Inr prof verify_model_digest_Inr
    by (rule iffI; elim conjE exE; intro conjI impI exI; (assumption | blast | simp))
qed

lemma unsigned_digest [simp]:
  "static_observation_unsigned (ob\<lparr>so_digest := d\<rparr>) = static_observation_unsigned ob"
  by (simp add: static_observation_unsigned_def)

lemma seal_static_Inr:
  "seal_static L ob = Inr p \<longleftrightarrow>
     p = ob\<lparr>so_digest := sha_json L (JObj (static_observation_unsigned ob))\<rparr> \<and> static_ok L p"
  by (auto simp: seal_static_def static_observation_validate_Inr)

lemma fail_static_frame:
  assumes "fail_static L ob c = Inr p"
  obtains d where "p = ob\<lparr>so_failure := Some c, so_attribution := static_code_attribution c,
      so_quarantine := (c \<in> content_faults), so_digest := d\<rparr>"
  using assms by (auto simp: fail_static_def seal_static_Inr static_failure_attribution_def)

lemma pass_static_frame:
  assumes "pass_static L ob = Inr p"
  obtains d where "p = ob\<lparr>so_outcome := Success, so_digest := d\<rparr>"
  using assms by (auto simp: pass_static_def seal_static_Inr)

lemma fail_sealed_static: "fail_static L ob c = Inr p \<Longrightarrow> static_observation_validate L p = Inr p"
  and pass_sealed_static: "pass_static L ob = Inr p \<Longrightarrow> static_observation_validate L p = Inr p"
  by (auto simp: fail_static_def pass_static_def seal_static_def dest: static_observation_validate_Inr [THEN iffD1])

text \<open>What a failure code needs, so that the record it is written into can be sealed.\<close>

definition measured :: "StaticProbeObservation \<Rightarrow> bool" where
  "measured ob \<longleftrightarrow>
     in_range 0 3600000 (so_latency_millis ob) \<and> opt_ok (in_range 100 599) (so_status ob)
     \<and> in_range 0 16777217 (so_bytes ob) \<and> opt_ok digest_text (so_body ob) \<and> opt_ok digest_text (so_header ob)
     \<and> opt_ok digest_text (so_tls_leaf ob) \<and> opt_ok (\<lambda>p. p = ''public-framing-v1'') (so_profile ob)
     \<and> opt_ok digest_text (so_transport_digest ob) \<and> opt_ok known_version (so_http_version ob)"

definition open_static :: "pylib \<Rightarrow> StaticProbeObservation \<Rightarrow> bool" where
  "open_static L ob \<longleftrightarrow>
     static_request_fields ob \<and> measured ob \<and> profile_ok L ob \<and> so_outcome ob = Failure \<and> so_failure ob = None
     \<and> so_attribution ob = NoParty \<and> \<not> so_quarantine ob
     \<and> so_attestation_status ob = SaNotPresented \<and> so_attestation ob = None"

lemma request_fields_update [simp]:
  "static_request_fields (ob\<lparr>so_failure := a\<rparr>) = static_request_fields ob"
  "static_request_fields (ob\<lparr>so_attribution := b\<rparr>) = static_request_fields ob"
  "static_request_fields (ob\<lparr>so_quarantine := c\<rparr>) = static_request_fields ob"
  "static_request_fields (ob\<lparr>so_digest := d\<rparr>) = static_request_fields ob"
  "static_request_fields (ob\<lparr>so_outcome := e\<rparr>) = static_request_fields ob"
  "static_request_fields (ob\<lparr>so_attestation_status := f\<rparr>) = static_request_fields ob"
  "static_request_fields (ob\<lparr>so_attestation := g\<rparr>) = static_request_fields ob"
  "static_request_fields (ob\<lparr>so_upstream_marker := h\<rparr>) = static_request_fields ob"
  "static_request_fields (ob\<lparr>so_status := i\<rparr>) = static_request_fields ob"
  "static_request_fields (observe_response L policy result ob) = static_request_fields ob"
  by (simp_all add: static_request_fields_def observe_response_def)

lemma profile_ok_update [simp]:
  "profile_ok L (ob\<lparr>so_failure := a\<rparr>) = profile_ok L ob"
  "profile_ok L (ob\<lparr>so_attribution := b\<rparr>) = profile_ok L ob"
  "profile_ok L (ob\<lparr>so_quarantine := c\<rparr>) = profile_ok L ob"
  "profile_ok L (ob\<lparr>so_digest := d\<rparr>) = profile_ok L ob"
  "profile_ok L (ob\<lparr>so_outcome := e\<rparr>) = profile_ok L ob"
  "profile_ok L (ob\<lparr>so_attestation_status := f\<rparr>) = profile_ok L ob"
  "profile_ok L (ob\<lparr>so_attestation := g\<rparr>) = profile_ok L ob"
  "profile_ok L (ob\<lparr>so_upstream_marker := h\<rparr>) = profile_ok L ob"
  "profile_ok L (ob\<lparr>so_status := i\<rparr>) = profile_ok L ob"
  by (simp_all add: profile_ok_def)

lemma result_fields_measured [simp]:
  "static_result_fields (ob\<lparr>so_digest := d\<rparr>) \<longleftrightarrow> measured ob \<and> digest_text d"
  by (simp add: static_result_fields_def measured_def)

lemma measured_update [simp]:
  "measured (ob\<lparr>so_failure := a\<rparr>) = measured ob"
  "measured (ob\<lparr>so_attribution := b\<rparr>) = measured ob"
  "measured (ob\<lparr>so_quarantine := c\<rparr>) = measured ob"
  "measured (ob\<lparr>so_outcome := e\<rparr>) = measured ob"
  "measured (ob\<lparr>so_attestation_status := f\<rparr>) = measured ob"
  "measured (ob\<lparr>so_attestation := g\<rparr>) = measured ob"
  "measured (ob\<lparr>so_upstream_marker := h\<rparr>) = measured ob"
  by (simp_all add: measured_def)

lemma unbound_update [simp]:
  "attestation_unbound (ob\<lparr>so_failure := a\<rparr>) = attestation_unbound ob"
  "attestation_unbound (ob\<lparr>so_attribution := b\<rparr>) = attestation_unbound ob"
  "attestation_unbound (ob\<lparr>so_quarantine := c\<rparr>) = attestation_unbound ob"
  "attestation_unbound (ob\<lparr>so_digest := d\<rparr>) = attestation_unbound ob"
  "attestation_unbound (ob\<lparr>so_outcome := e\<rparr>) = attestation_unbound ob"
  by (simp_all add: attestation_unbound_def cong: option.case_cong)

lemma fault_update [simp]:
  "fault_unproved (ob\<lparr>so_attribution := b\<rparr>) = fault_unproved ob"
  "fault_unproved (ob\<lparr>so_quarantine := c\<rparr>) = fault_unproved ob"
  "fault_unproved (ob\<lparr>so_digest := d\<rparr>) = fault_unproved ob"
  by (simp_all add: fault_unproved_def cong: option.case_cong)

lemma fail_static_total:
  assumes sha: "\<forall>s. digest_text (sha256_hex L s)" and fields: "static_request_fields ob" "measured ob" "profile_ok L ob"
    and "so_outcome ob = Failure" and "opt_ok (\<lambda>a. attestation_validate a = Inr a) (so_attestation ob)"
    and "(so_attestation_status ob \<in> {SaFraudulent, SaReplayed, SaVerified}) = (so_attestation ob \<noteq> None)"
    and "(so_attestation_status ob = SaFraudulent) = (c = SfAttestationFraud)"
    and "so_attestation_status ob = SaVerified \<longrightarrow> \<not> attestation_unbound ob"
    and "so_schema_version ob = 2 \<and> c \<in> content_faults \<longrightarrow> \<not> fault_unproved (ob\<lparr>so_failure := Some c\<rparr>)"
    and "static_code_attribution c = Miner \<longrightarrow> so_upstream_marker ob"
  shows "\<exists>p. fail_static L ob c = Inr p"
proof -
  let ?o = "ob\<lparr>so_failure := Some c, so_attribution := static_failure_attribution (Some c),
                so_quarantine := (c \<in> content_faults)\<rparr>"
  let ?p = "?o\<lparr>so_digest := sha_json L (JObj (static_observation_unsigned ?o))\<rparr>"
  have "digest_text (sha_json L j)" for j using sha by (simp add: sha_json_def)
  then have "static_ok L ?p"
    using assms by (simp add: static_ok_def static_failure_attribution_def)
  then show ?thesis unfolding fail_static_def seal_static_Inr by blast
qed

lemma fail_open_static:
  assumes "open_static L ob" and sha: "\<forall>s. digest_text (sha256_hex L s)"
    and "c \<notin> content_faults" and "c \<noteq> SfAttestationFraud" and "static_code_attribution c = Miner \<longrightarrow> so_upstream_marker ob"
  shows "\<exists>p. fail_static L ob c = Inr p"
    and "\<exists>p. fail_static L (ob\<lparr>so_attestation_status := SaRejected\<rparr>) c = Inr p"
  by (rule fail_static_total [OF sha]; use assms in \<open>simp add: open_static_def\<close>)+

lemma fail_attested:
  assumes "open_static L ob" and sha: "\<forall>s. digest_text (sha256_hex L s)" and "attestation_validate a = Inr a"
    and "so_upstream_marker ob"
  shows "\<exists>p. fail_static L (ob\<lparr>so_attestation_status := SaReplayed, so_attestation := Some a\<rparr>) SfCacheReplay = Inr p"
    and "\<exists>p. fail_static L (ob\<lparr>so_attestation_status := SaFraudulent, so_attestation := Some a\<rparr>) SfAttestationFraud = Inr p"
  by (rule fail_static_total [OF sha]; use assms in \<open>simp add: open_static_def content_faults_def\<close>)+

section \<open>Judging always ends\<close>

text \<open>What the code relies on when it judges a response to a request.\<close>

definition static_context ::
    "pylib \<Rightarrow> VerifiedStaticIndex \<Rightarrow> StaticPublicTransportPolicy option \<Rightarrow> OrganicProbeAuthorization
     \<Rightarrow> StaticEndpointTarget \<Rightarrow> ExpectedStaticResponse \<Rightarrow> bool" where
  "static_context L index policy request endpoint expected \<longleftrightarrow>
     index_ok index \<and> digest_text (vi_policy_digest index) \<and> authorization_validate request = Inr request
     \<and> find_static_endpoint index (au_endpoint_id request) = Inr endpoint
     \<and> au_generation request = se_generation endpoint
     \<and> expected_static_response L index (au_method request) (au_path request) = Inr expected
     \<and> opt_ok (\<lambda>p. digest_text (pt_policy_digest p) \<and> ends_with ''.on.miss.computer'' (st_route_host (vi_target index)))
         policy"

text \<open>A response on the public-framing profile whose protocol the code does not know.\<close>

definition version_unknown :: "StaticPublicTransportPolicy option \<Rightarrow> ProbeResponse \<Rightarrow> bool" where
  "version_unknown policy result \<longleftrightarrow>
     policy \<noteq> None \<and> bounded_headers (pr_headers result)
     \<and> (case pr_http_version result of None \<Rightarrow> True | Some v \<Rightarrow> \<not> known_version v)"

lemma find_static_endpoint_Inr:
  "find_static_endpoint index e = Inr t \<Longrightarrow> t \<in> set (st_endpoints (vi_target index)) \<and> se_endpoint_id t = e"
  by (auto simp: find_static_endpoint_def first_match_def find_Some_iff split: option.splits)

lemma expected_fields:
  assumes "index_ok index" and "\<forall>s. digest_text (sha256_hex L s)"
    and "expected_static_response L index verb p = Inr r"
  shows "in_range 100 599 (er_status r)" and "in_range 0 16777216 (er_content_length r)"
    and "digest_text (er_body_sha256 r)" and "digest_text (er_header_sha256 r)"
proof -
  have sizes: "in_range 0 16777216 (sf_content_length f) \<and> digest_text (sf_body_sha256 f)"
    if "map_of (vi_routes index) q = Some f" for q f
  proof -
    have "f \<in> set (sm_files (vi_manifest index))"
      using that assms(1) routes_map_of [of "vi_manifest index" q f] by (simp add: index_ok_def)
    moreover have "\<forall>f\<in>set (sm_files (vi_manifest index)). index_file_validate f = Inr f"
      using assms(1) by (simp add: index_ok_def site_ok_def Let_def)
    ultimately show ?thesis using index_file_validate_Inr by blast
  qed
  obtain k st ct cl b where r: "r = expected_response L p verb k st ct cl b" and "in_range 100 599 st"
    and "in_range 0 16777216 cl" and "digest_text b"
    using assms(2,3) sizes
    by (fastforce simp: expected_static_response_def not_found_body_def split: option.splits)
  then show "in_range 100 599 (er_status r)" "in_range 0 16777216 (er_content_length r)"
    "digest_text (er_body_sha256 r)" "digest_text (er_header_sha256 r)"
    using assms(2) by (simp_all add: expected_response_def response_header_digest_def sha_json_def)
qed

lemma blank_open_static:
  assumes ctx: "static_context L index policy request endpoint expected"
    and sha: "\<forall>s. digest_text (sha256_hex L s)" and tls: "opt_ok digest_text (result_tls result)"
  shows "open_static L (blank_static index endpoint request expected kind policy result)"
proof -
  have t: "target_validate (vi_target index) = Inr (vi_target index)" "endpoint \<in> set (st_endpoints (vi_target index))"
    "se_endpoint_id endpoint = au_endpoint_id request" "index_ok index"
    using ctx find_static_endpoint_Inr by (auto simp: static_context_def index_ok_def)
  have e: "endpoint_target_fields endpoint" using t by (auto simp: target_validate_def list_all_iff)
  note x = expected_fields [OF t(4) sha, of "au_method request" "au_path request" expected]
  show ?thesis
    using ctx t e x tls sha
    by (cases policy) (auto simp: open_static_def blank_static_def static_request_fields_def measured_def profile_ok_def
        static_context_def target_validate_def endpoint_target_fields_def authorization_validate_def)
qed

lemma observe_open:
  assumes "open_static L ob" and "\<forall>s. digest_text (sha256_hex L s)" and "in_range 100 599 (pr_status result)"
    and "\<not> version_unknown policy result" and "(policy = None) = (so_schema_version ob = 1)"
  shows "open_static L (observe_response L policy result ob)"
proof -
  have "digest_text (observed_header_digest L h)" for h
    using assms(2) by (simp add: observed_header_digest_def response_header_digest_def sha_json_def)
  moreover have "profile_ok L (observe_response L policy result ob)"
    using assms(1,4,5) by (auto simp: open_static_def profile_ok_def observe_response_def version_unknown_def
        split: option.splits if_splits)
  ultimately have "measured (observe_response L policy result ob)" "profile_ok L (observe_response L policy result ob)"
    using assms(1,2,3) by (auto simp: open_static_def observe_response_def measured_def split: option.splits)
  then show ?thesis
    using assms(1) by (simp add: open_static_def) (simp add: observe_response_def)
qed

lemma response_method: "http_method m \<Longrightarrow> m \<noteq> ''GET'' \<Longrightarrow> m = ''HEAD''"
  by (simp add: http_method_def)

lemma judge_direct_total:
  assumes o': "open_static L ob" and sha: "\<forall>s. digest_text (sha256_hex L s)" and a: "attestation_validate a = Inr a"
    and up: "so_upstream_marker ob" and v1: "so_schema_version ob = 1"
    and bound: "\<not> attestation_unbound (ob\<lparr>so_attestation := Some a\<rparr>)"
    and seen: "so_status ob = Some (pr_status result)" "so_body ob = Some (sha256_hex L (pr_body result))"
      "so_header ob = Some (observed_header_digest L (pr_headers result))"
    and want: "so_expected_status ob = er_status expected" "so_expected_body ob = er_body_sha256 expected"
      "so_expected_header ob = er_header_sha256 expected"
  shows "\<exists>p. judge_direct L (ob\<lparr>so_attestation_status := SaVerified, so_attestation := Some a\<rparr>) expected result = Inr p"
proof -
  let ?o = "ob\<lparr>so_attestation_status := SaVerified, so_attestation := Some a\<rparr>"
  have b: "\<not> attestation_unbound ?o" using bound by (simp add: attestation_unbound_def)
  have fail: "\<exists>p. fail_static L ?o c = Inr p" if "c \<noteq> SfAttestationFraud" for c
    by (rule fail_static_total [OF sha]) (use o' a up v1 b that in \<open>simp_all add: open_static_def\<close>)
  have "\<exists>p. pass_static L ?o = Inr p"
    if "pr_status result = er_status expected" "sha256_hex L (pr_body result) = er_body_sha256 expected"
      "observed_header_digest L (pr_headers result) = er_header_sha256 expected"
    unfolding pass_static_def seal_static_Inr
    using o' a up v1 b seen want that sha
    by (simp add: static_ok_def open_static_def static_failure_attribution_def sha_json_def)
  then show ?thesis using fail by (auto simp: judge_direct_def)
qed

lemma public_framing_facts:
  assumes "public_framing_valid hs v m ct cl"
  shows "known_version v" and "bounded_headers hs" and "header_values hs ''content-type'' = [ct]"
proof -
  have "known_version v \<and> bounded_headers hs
      \<and> \<not> list_ex (\<lambda>(name, value). name \<noteq> ''content-length'' \<and> header_values hs name \<noteq> [value]) (normative_headers ct cl)"
    using assms unfolding public_framing_valid_def Let_def by meson
  then show "known_version v" "bounded_headers hs" "header_values hs ''content-type'' = [ct]"
    by (simp_all add: normative_headers_def)
qed

lemma judge_framed_total:
  assumes o': "open_static L ob" and sha: "\<forall>s. digest_text (sha256_hex L s)" and a: "attestation_validate a = Inr a"
    and up: "so_upstream_marker ob" and v2: "so_schema_version ob = 2"
    and bound: "\<not> attestation_unbound (ob\<lparr>so_attestation := Some a\<rparr>)"
    and seen: "so_status ob = Some (pr_status result)" "so_body ob = Some (sha256_hex L (pr_body result))"
      "so_bytes ob = min (int (length (pr_body result))) 16777217"
      "so_headers ob = (if bounded_headers (pr_headers result) then Some (pr_headers result) else None)"
      "so_http_version ob = (case pr_http_version result of None \<Rightarrow> None | Some v \<Rightarrow> if known_version v then Some v else None)"
    and want: "so_expected_status ob = er_status expected" "so_expected_body ob = er_body_sha256 expected"
      "so_expected_header ob = er_header_sha256 expected" "so_expected_length ob = er_content_length expected"
      "er_content_length expected \<le> 16777216" "so_request_method ob = au_method request"
  shows "\<exists>p. judge_framed L (ob\<lparr>so_attestation_status := SaVerified, so_attestation := Some a\<rparr>) expected request result a
    = Inr p"
proof -
  let ?o = "ob\<lparr>so_attestation_status := SaVerified, so_attestation := Some a\<rparr>"
  have b: "\<not> attestation_unbound ?o" using bound by (simp add: attestation_unbound_def)
  have path: "\<exists>p. fail_static L ?o SfContentAltered = Inr p"
    by (rule fail_static_total [OF sha]) (use o' a up b in \<open>simp_all add: open_static_def content_faults_def\<close>)
  have status: "\<exists>p. fail_static L ?o SfStatusMismatch = Inr p"
    if "at_response_header a = er_header_sha256 expected" "pr_status result \<noteq> er_status expected"
    by (rule fail_static_total [OF sha])
      (use o' a up b that seen want in \<open>simp_all add: open_static_def fault_unproved_def\<close>)
  have body: "\<exists>p. fail_static L ?o SfBodyMismatch = Inr p"
    if "at_response_header a = er_header_sha256 expected" "pr_status result = er_status expected"
      "sha256_hex L (pr_body result) \<noteq> er_body_sha256 expected"
    by (rule fail_static_total [OF sha])
      (use o' a up b that seen want in \<open>simp_all add: open_static_def fault_unproved_def\<close>)
  have pass: "\<exists>p. pass_static L ?o = Inr p"
    if h: "at_response_header a = er_header_sha256 expected" "pr_status result = er_status expected"
      "sha256_hex L (pr_body result) = er_body_sha256 expected"
      "int (length (pr_body result)) = (if au_method request = ''GET'' then er_content_length expected else 0)"
      "public_framing_valid (pr_headers result) (case pr_http_version result of None \<Rightarrow> '''' | Some v \<Rightarrow> v)
         (au_method request) (er_content_type expected) (er_content_length expected)"
  proof -
    note facts = public_framing_facts [OF h(5)]
    obtain v where v: "pr_http_version result = Some v" "known_version v"
      using facts(1) by (cases "pr_http_version result") (auto simp: known_version_def)
    have bytes: "so_bytes ob = (if so_request_method ob = ''GET'' then so_expected_length ob else 0)"
      using seen want h(4) by (auto split: if_splits)
    have "framing_proved (?o\<lparr>so_outcome := Success, so_digest := d\<rparr>)" for d
      using h bytes v facts seen want by (simp add: framing_proved_def)
    then show ?thesis
      unfolding pass_static_def seal_static_Inr using o' a up v2 b seen want h sha
      by (simp add: static_ok_def open_static_def static_failure_attribution_def sha_json_def)
  qed
  show ?thesis using path status body pass by (auto simp: judge_framed_def)
qed

text \<open>The document that the response filled in, with the members that the verdict reads.\<close>

definition filled ::
    "pylib \<Rightarrow> VerifiedStaticIndex \<Rightarrow> StaticPublicTransportPolicy option \<Rightarrow> OrganicProbeAuthorization
     \<Rightarrow> StaticEndpointTarget \<Rightarrow> ExpectedStaticResponse \<Rightarrow> probe_kind \<Rightarrow> ProbeResponse \<Rightarrow> StaticProbeObservation" where
  "filled L index policy request endpoint expected kind result =
     observe_response L policy result
       (blank_static index endpoint request expected kind policy (Response result))\<lparr>so_upstream_marker := True\<rparr>"

lemma filled_simps [simp]:
  "so_upstream_marker (filled L index policy request endpoint expected kind result)"
  "so_schema_version (filled L index policy request endpoint expected kind result) = (if policy = None then 1 else 2)"
  "so_endpoint_id (filled L index policy request endpoint expected kind result) = se_endpoint_id endpoint"
  "so_probe_nonce (filled L index policy request endpoint expected kind result) = au_nonce request"
  "so_request_method (filled L index policy request endpoint expected kind result) = au_method request"
  "so_status (filled L index policy request endpoint expected kind result) = Some (pr_status result)"
  "so_body (filled L index policy request endpoint expected kind result) = Some (sha256_hex L (pr_body result))"
  "so_header (filled L index policy request endpoint expected kind result)
     = Some (observed_header_digest L (pr_headers result))"
  "so_bytes (filled L index policy request endpoint expected kind result) = min (int (length (pr_body result))) 16777217"
  "so_expected_status (filled L index policy request endpoint expected kind result) = er_status expected"
  "so_expected_body (filled L index policy request endpoint expected kind result) = er_body_sha256 expected"
  "so_expected_header (filled L index policy request endpoint expected kind result) = er_header_sha256 expected"
  "so_expected_length (filled L index policy request endpoint expected kind result) = er_content_length expected"
  "so_outcome (filled L index policy request endpoint expected kind result) = Failure"
  "so_failure (filled L index policy request endpoint expected kind result) = None"
  "so_quarantine (filled L index policy request endpoint expected kind result) = False"
  "so_attestation_status (filled L index policy request endpoint expected kind result) = SaNotPresented"
  "so_attestation (filled L index policy request endpoint expected kind result) = None"
  by (simp_all add: filled_def observe_response_def blank_static_def)

lemma filled_framed:
  assumes "policy \<noteq> None"
  shows "so_headers (filled L index policy request endpoint expected kind result)
      = (if bounded_headers (pr_headers result) then Some (pr_headers result) else None)"
    and "so_http_version (filled L index policy request endpoint expected kind result)
      = (case pr_http_version result of None \<Rightarrow> None | Some v \<Rightarrow> if known_version v then Some v else None)"
  using assms by (auto simp: filled_def observe_response_def)

lemma open_static_marker: "open_static L ob \<Longrightarrow> open_static L (ob\<lparr>so_upstream_marker := u\<rparr>)"
  by (simp add: open_static_def)

lemma filled_open:
  assumes ctx: "static_context L index policy request endpoint expected"
    and sha: "\<forall>s. digest_text (sha256_hex L s)" and tls: "opt_ok digest_text (pr_tls_leaf result)"
    and st: "in_range 100 599 (pr_status result)" and known: "\<not> version_unknown policy result"
  shows "open_static L (observe_response L policy result
       (blank_static index endpoint request expected kind policy (Response result)))"
    and "open_static L (filled L index policy request endpoint expected kind result)"
proof -
  have "open_static L (blank_static index endpoint request expected kind policy (Response result))"
    by (rule blank_open_static [OF ctx sha]) (simp add: tls)
  then show o1: "open_static L (observe_response L policy result
       (blank_static index endpoint request expected kind policy (Response result)))"
    by (rule observe_open [OF _ sha st known]) (simp add: blank_static_def)
  show "open_static L (filled L index policy request endpoint expected kind result)"
    unfolding filled_def by (rule open_static_marker [OF o1])
qed

lemma judge_static_attestation_total:
  assumes ctx: "static_context L index policy request endpoint expected"
    and sha: "\<forall>s. digest_text (sha256_hex L s)" and tls: "opt_ok digest_text (pr_tls_leaf result)"
    and st: "in_range 100 599 (pr_status result)" and known: "\<not> version_unknown policy result"
    and a: "attestation_validate a = Inr a"
  shows "\<exists>p. judge_static_attestation L index endpoint request expected policy
      (filled L index policy request endpoint expected kind result) result a = Inr p"
proof -
  let ?o = "filled L index policy request endpoint expected kind result"
  have o': "open_static L ?o" by (rule filled_open(2) [OF ctx sha tls st known])
  obtain issued observed where times: "rfc3339nano_instant (au_issued_at request) = Inr issued"
    "rfc3339nano_instant (observed_at a) = Inr observed"
    using ctx a by (auto simp: static_context_def authorization_validate_def seconds_timestamp_def
        attestation_validate_def attestation_fields_def go_timestamp_def elim!: isl_Inr)
  have rej: "\<exists>p. fail_static L (?o\<lparr>so_attestation_status := SaRejected\<rparr>) c = Inr p"
    if "c \<in> {SfAttestationInvalid, SfContentAltered}" for c
    using fail_open_static(2) [OF o' sha, of c] that by (auto simp: content_faults_def)
  have "er_content_length expected \<le> 16777216"
    using expected_fields(2) [OF _ sha, of index "au_method request" "au_path request" expected] ctx
    by (simp add: static_context_def)
  then have judged: "\<exists>p. (if policy = None
        then judge_direct L (?o\<lparr>so_attestation_status := SaVerified, so_attestation := Some a\<rparr>) expected result
        else judge_framed L (?o\<lparr>so_attestation_status := SaVerified, so_attestation := Some a\<rparr>) expected request result a)
      = Inr p"
    if "at_probe_nonce a = au_nonce request" "at_endpoint_id a = se_endpoint_id endpoint"
      "at_response_status a = pr_status result" "at_response_body a = sha256_hex L (pr_body result)"
      "policy = None \<longrightarrow> at_response_header a = observed_header_digest L (pr_headers result)"
  proof (cases "policy = None")
    case True
    then show ?thesis
      using judge_direct_total [OF o' sha a, of result expected] that by (simp add: attestation_unbound_def)
  next
    case False
    then show ?thesis
      using judge_framed_total [OF o' sha a, of result expected request] that filled_framed [OF False]
        \<open>er_content_length expected \<le> 16777216\<close> by (auto simp: attestation_unbound_def)
  qed
  show ?thesis
    unfolding judge_static_attestation_def times Let_def
    using fail_attested [OF o' sha a] rej judged by (auto simp: foreign_attestation_def)
qed

lemma judge_static_response_total:
  assumes ctx: "static_context L index policy request endpoint expected"
    and sha: "\<forall>s. digest_text (sha256_hex L s)" and tls: "opt_ok digest_text (pr_tls_leaf result)"
    and known: "in_range 100 599 (pr_status result) \<longrightarrow> \<not> version_unknown policy result"
  shows "\<exists>p. judge_static_response L V index endpoint request expected pins policy
      (blank_static index endpoint request expected kind policy (Response result)) result = Inr p"
proof (cases "in_range 100 599 (pr_status result)")
  case False
  have "open_static L (blank_static index endpoint request expected kind policy (Response result))"
    by (rule blank_open_static [OF ctx sha]) (simp add: tls)
  from fail_open_static(1) [OF this sha, of SfTransportError] False show ?thesis
    by (auto simp: judge_static_response_def content_faults_def)
next
  case True
  note o = filled_open [OF ctx sha tls True known [rule_format, OF True], of kind]
  let ?o1 = "observe_response L policy result (blank_static index endpoint request expected kind policy (Response result))"
  let ?o2 = "filled L index policy request endpoint expected kind result"
  have one: "\<exists>p. fail_static L ?o1 SfTlsPinMismatch = Inr p" "\<exists>p. fail_static L ?o1 SfEdgeGenerated = Inr p"
    using fail_open_static(1) [OF o(1) sha] by (simp_all add: content_faults_def)
  have two: "\<exists>p. fail_static L ?o2 SfAttestationMissing = Inr p"
    "\<exists>p. fail_static L (?o2\<lparr>so_attestation_status := SaRejected\<rparr>) SfAttestationInvalid = Inr p"
    using fail_open_static [OF o(2) sha] by (simp_all add: content_faults_def)
  have three: "\<exists>p. judge_static_attestation L index endpoint request expected policy ?o2 result a = Inr p"
    if "parse_attestation_v2_header L s = Inr a" for s a
    by (rule judge_static_attestation_total [OF ctx sha tls True known [rule_format, OF True] parse_attestation_valid [OF that]])
  show ?thesis
    unfolding judge_static_response_def filled_def [symmetric] Let_def
    using True one two three by (auto split: sum.splits)
qed

lemma evaluate_in_static_context:
  assumes "static_context L index policy request endpoint expected"
  shows "evaluate_static_probe L V index request result kind timeout pins policy =
     (let ob = blank_static index endpoint request expected kind policy result
      in if result_latency result > timeout then fail_static L ob SfTimeout
         else (case result of
                 TransportFailure f \<Rightarrow>
                   fail_static L (ob\<lparr>so_status := tf_response_status f\<rparr>) (static_transport_code (tf_code f))
               | Response response \<Rightarrow>
                   judge_static_response L V index endpoint request expected pins policy ob response))"
  using assms by (cases policy) (auto simp: evaluate_static_probe_def static_context_def Let_def split: probe_result.split)

lemma judge_static_sealed:
  "judge_direct L ob expected result = Inr p \<Longrightarrow> static_observation_validate L p = Inr p"
  "judge_framed L ob expected request result a = Inr p \<Longrightarrow> static_observation_validate L p = Inr p"
  by (auto simp: judge_direct_def judge_framed_def fail_sealed_static pass_sealed_static split: if_splits)

lemma judge_attestation_sealed_static:
  assumes "judge_static_attestation L index endpoint request expected policy ob result a = Inr p"
  shows "static_observation_validate L p = Inr p"
  using assms unfolding judge_static_attestation_def Let_def
  by (auto simp: fail_sealed_static judge_static_sealed split: if_splits)

lemma evaluate_static_sealed:
  assumes "static_context L index policy request endpoint expected"
    and "evaluate_static_probe L V index request result kind timeout pins policy = Inr p"
  shows "static_observation_validate L p = Inr p"
  using assms(2) unfolding evaluate_in_static_context [OF assms(1)] judge_static_response_def Let_def
  by (auto simp: fail_sealed_static judge_attestation_sealed_static split: if_splits probe_result.splits sum.splits)

text \<open>The delivered protocol and headers never change on the way to a verdict.\<close>

abbreviation delivered :: "StaticProbeObservation \<Rightarrow> int \<times> string option \<times> (string \<times> string) list option" where
  "delivered ob \<equiv> (so_schema_version ob, so_http_version ob, so_headers ob)"

lemma fail_delivered: "fail_static L ob c = Inr p \<Longrightarrow> delivered p = delivered ob"
  and pass_delivered: "pass_static L ob = Inr p \<Longrightarrow> delivered p = delivered ob"
  by (auto elim!: fail_static_frame pass_static_frame)

lemma judge_delivered:
  assumes "judge_static_attestation L index endpoint request expected policy ob result a = Inr p"
  shows "delivered p = delivered ob"
  using assms unfolding judge_static_attestation_def judge_direct_def judge_framed_def Let_def
  by (auto dest!: fail_delivered pass_delivered split: if_splits)

lemma unknown_version_raises:
  assumes "version_unknown policy result" and "in_range 100 599 (pr_status result)"
  shows "judge_static_response L V index endpoint request expected pins policy
      (blank_static index endpoint request expected kind policy (Response result)) result \<noteq> Inr p"
proof
  let ?o1 = "observe_response L policy result (blank_static index endpoint request expected kind policy (Response result))"
  assume j: "judge_static_response L V index endpoint request expected pins policy
      (blank_static index endpoint request expected kind policy (Response result)) result = Inr p"
  have d: "delivered ?o1 = (2, None, Some (pr_headers result))"
    using assms(1) by (auto simp: version_unknown_def observe_response_def blank_static_def split: option.splits)
  have "static_observation_validate L p = Inr p"
    using j unfolding judge_static_response_def Let_def
    by (auto simp: fail_sealed_static judge_attestation_sealed_static split: if_splits sum.splits)
  then have "profile_ok L p" by (simp add: static_observation_validate_Inr static_ok_def)
  moreover have "delivered p = delivered ?o1"
    using j assms(2) unfolding judge_static_response_def Let_def
    by (auto dest!: fail_delivered judge_delivered split: if_splits sum.splits)
  ultimately show False using d by (simp add: profile_ok_def)
qed

section \<open>What a verdict means\<close>

text \<open>The edge forwarded the response of a replica, and it carries one attestation that the miner's key signed.\<close>

definition signed_reply ::
    "pylib \<Rightarrow> ed25519 \<Rightarrow> StaticEndpointTarget \<Rightarrow> ProbeResponse \<Rightarrow> MinerProbeAttestationV2 \<Rightarrow> bool" where
  "signed_reply L V endpoint response a \<longleftrightarrow>
     in_range 100 599 (pr_status response)
     \<and> header_values (pr_headers response) ''x-miss-edge-upstream'' = [''replica'']
     \<and> (\<exists>h. header_values (pr_headers response) ''x-miss-probe-attestation'' = [h]
           \<and> parse_attestation_v2_header L h = Inr a)
     \<and> verify_miner_probe_attestation_v2 L V a (se_service_key endpoint)"

lemma unattested_verdict:
  assumes "fail_static L ob c = Inr p" and "so_attestation_status ob \<in> {SaNotPresented, SaRejected}"
    and "so_outcome ob = Failure" and "c \<notin> content_faults"
  shows "so_attestation_status p \<in> {SaNotPresented, SaRejected} \<and> so_outcome p = Failure \<and> \<not> so_quarantine p"
  using assms by (auto elim!: fail_static_frame)

text \<open>A verdict on a response is a failure before the attestation counts, or rests on a signed attestation.\<close>

lemma judge_response_cases:
  assumes j: "judge_static_response L V index endpoint request expected pins policy b result = Inr p"
    and st: "in_range 100 599 (pr_status result)" and b: "so_attestation_status b = SaNotPresented" "so_outcome b = Failure"
  shows "(\<exists>ob c. fail_static L ob c = Inr p \<and> c \<notin> content_faults
            \<and> so_attestation_status ob \<in> {SaNotPresented, SaRejected} \<and> so_outcome ob = Failure)
    \<or> (\<exists>a. signed_reply L V endpoint result a \<and> judge_static_attestation L index endpoint request expected policy
            (observe_response L policy result b\<lparr>so_upstream_marker := True\<rparr>) result a = Inr p)"
    (is "?early \<or> ?late")
proof -
  let ?o = "observe_response L policy result b"
  let ?presented = "header_values (pr_headers result) ''x-miss-probe-attestation''"
  have o: "so_attestation_status ?o = SaNotPresented" "so_outcome ?o = Failure"
    using b by (simp_all add: observe_response_def)
  have early: "?early" if "fail_static L ob c = Inr p" "c \<notin> content_faults"
      "so_attestation_status ob \<in> {SaNotPresented, SaRejected}" "so_outcome ob = Failure" for ob c
    using that by blast
  define tls_bad where "tls_bad \<longleftrightarrow> pins \<noteq> [] \<and> (case pr_tls_leaf result of None \<Rightarrow> True | Some c \<Rightarrow> c \<notin> set pins)"
  note J = j [unfolded judge_static_response_def Let_def tls_bad_def [symmetric]]
  show ?thesis
  proof (cases "tls_bad \<or> header_values (pr_headers result) ''x-miss-edge-upstream'' \<noteq> [''replica''] \<or> ?presented = []")
    case True
    then consider "fail_static L ?o SfTlsPinMismatch = Inr p" | "fail_static L ?o SfEdgeGenerated = Inr p"
      | "fail_static L (?o\<lparr>so_upstream_marker := True\<rparr>) SfAttestationMissing = Inr p"
      using J st by (auto split: if_splits)
    then have ?early
    proof cases
      case 1
      then show ?thesis by (rule early) (simp_all add: content_faults_def o)
    next
      case 2
      then show ?thesis by (rule early) (simp_all add: content_faults_def o)
    next
      case 3
      then show ?thesis by (rule early) (simp_all add: content_faults_def o)
    qed
    then show ?thesis ..
  next
    case False
    let ?r = "if length ?presented \<noteq> 1 then Inl (ValueError ''attestation_header_repeated'')
        else parse_attestation_v2_header L (hd ?presented)"
    show ?thesis
    proof (cases ?r)
      case (Inl e)
      then have "fail_static L (?o\<lparr>so_upstream_marker := True, so_attestation_status := SaRejected\<rparr>) SfAttestationInvalid = Inr p"
        using J [unfolded Inl sum.case] st False by simp
      then have ?early by (rule early) (simp_all add: content_faults_def o)
      then show ?thesis ..
    next
      case (Inr a)
      show ?thesis
      proof (cases "verify_miner_probe_attestation_v2 L V a (se_service_key endpoint)")
        case True
        have one: "length ?presented = 1" using Inr by (simp split: if_splits)
        then obtain h where h: "?presented = [h]" by (auto simp: length_Suc_conv)
        have "parse_attestation_v2_header L h = Inr a" using Inr h by simp
        then have "signed_reply L V endpoint result a" using h st False True by (simp add: signed_reply_def)
        moreover have "judge_static_attestation L index endpoint request expected policy
            (?o\<lparr>so_upstream_marker := True\<rparr>) result a = Inr p" using J [unfolded Inr sum.case] st False True by simp
        ultimately show ?thesis by blast
      next
        case unsigned: False
        then have "fail_static L (?o\<lparr>so_upstream_marker := True, so_attestation_status := SaRejected\<rparr>) SfAttestationInvalid = Inr p"
          using J [unfolded Inr sum.case] st False by simp
        then have ?early by (rule early) (simp_all add: content_faults_def o)
      then show ?thesis ..
      qed
    qed
  qed
qed

text \<open>Every other verdict comes from the judgement of a signed attestation.\<close>

lemma attested_verdict:
  assumes ctx: "static_context L index policy request endpoint expected"
    and ev: "evaluate_static_probe L V index request result kind timeout pins policy = Inr p"
    and "so_attestation_status p \<in> {SaVerified, SaFraudulent, SaReplayed} \<or> so_outcome p = Success \<or> so_quarantine p"
  obtains response a where "result = Response response" and "signed_reply L V endpoint response a"
    and "judge_static_attestation L index endpoint request expected policy
           (filled L index policy request endpoint expected kind response) response a = Inr p"
proof -
  have code: "static_transport_code c \<notin> content_faults" for c by (cases c) (simp_all add: content_faults_def)
  have blank: "so_attestation_status (blank_static index endpoint request expected kind policy result) = SaNotPresented"
    "so_outcome (blank_static index endpoint request expected kind policy result) = Failure" for result
    by (simp_all add: blank_static_def)
  have obs: "so_attestation_status (observe_response L policy response ob) = so_attestation_status ob"
    "so_outcome (observe_response L policy response ob) = so_outcome ob" for response ob
    by (simp_all add: observe_response_def)
  have "\<exists>response a. result = Response response \<and> signed_reply L V endpoint response a
      \<and> judge_static_attestation L index endpoint request expected policy
           (filled L index policy request endpoint expected kind response) response a = Inr p"
  proof (rule ccontr)
    assume no: "\<not> ?thesis"
    have "so_attestation_status p \<in> {SaNotPresented, SaRejected} \<and> so_outcome p = Failure \<and> \<not> so_quarantine p"
    proof (cases result)
      case (TransportFailure f)
      then show ?thesis
        using ev code blank unfolding evaluate_in_static_context [OF ctx] Let_def
        by (auto dest!: unattested_verdict simp: content_faults_def split: if_splits)
    next
      case (Response response)
      let ?b = "blank_static index endpoint request expected kind policy (Response response)"
      show ?thesis
      proof (cases "result_latency result > timeout \<or> \<not> in_range 100 599 (pr_status response)")
        case True
        then show ?thesis
          using ev Response blank unfolding evaluate_in_static_context [OF ctx] Let_def judge_static_response_def
          by (auto dest!: unattested_verdict simp: content_faults_def split: if_splits)
      next
        case False
        have j: "judge_static_response L V index endpoint request expected pins policy ?b response = Inr p"
          using ev False Response unfolding evaluate_in_static_context [OF ctx] Let_def by simp
        have "\<exists>ob c. fail_static L ob c = Inr p \<and> c \<notin> content_faults
            \<and> so_attestation_status ob \<in> {SaNotPresented, SaRejected} \<and> so_outcome ob = Failure"
          using judge_response_cases [OF j _ blank] False no Response unfolding filled_def by blast
        then show ?thesis using unattested_verdict by blast
      qed
    qed
    then show False using assms(3) by auto
  qed
  then show thesis using that by blast
qed

text \<open>What a response has to prove: everything but its latency and its certificate.\<close>

definition static_proof ::
    "pylib \<Rightarrow> ed25519 \<Rightarrow> VerifiedStaticIndex \<Rightarrow> StaticEndpointTarget \<Rightarrow> OrganicProbeAuthorization \<Rightarrow> ExpectedStaticResponse
     \<Rightarrow> StaticPublicTransportPolicy option \<Rightarrow> ProbeResponse \<Rightarrow> MinerProbeAttestationV2 \<Rightarrow> bool" where
  "static_proof L V index endpoint request expected policy response a \<longleftrightarrow>
     signed_reply L V endpoint response a
     \<and> at_probe_nonce a = au_nonce request
     \<and> \<not> foreign_attestation a endpoint (st_site_digest (vi_target index)) (au_validator_hotkey request)
           (au_method request) (au_path request)
     \<and> (\<exists>issued observed. rfc3339nano_instant (au_issued_at request) = Inr issued
          \<and> rfc3339nano_instant (observed_at a) = Inr observed
          \<and> issued - 2000000000 \<le> observed \<and> observed \<le> issued + 32000000000)
     \<and> at_response_status a = pr_status response \<and> pr_status response = er_status expected
     \<and> at_response_body a = sha256_hex L (pr_body response) \<and> at_response_body a = er_body_sha256 expected
     \<and> at_response_header a = er_header_sha256 expected
     \<and> (if policy = None
         then at_response_header a = observed_header_digest L (pr_headers response)
              \<and> \<not> has_forbidden_header (pr_headers response)
         else int (length (pr_body response)) = (if au_method request = ''GET'' then er_content_length expected else 0)
              \<and> (\<exists>v. pr_http_version response = Some v \<and> public_framing_valid (pr_headers response) v
                   (au_method request) (er_content_type expected) (er_content_length expected)))"

abbreviation pinned_leaf :: "string list \<Rightarrow> ProbeResponse \<Rightarrow> bool" where
  "pinned_leaf pins response \<equiv> pins = [] \<or> (\<exists>c\<in>set pins. pr_tls_leaf response = Some c)"

lemma static_proof_passes:
  assumes ctx: "static_context L index policy request endpoint expected"
    and r: "pr_latency_millis response \<le> timeout" "pinned_leaf pins response"
    and proved: "static_proof L V index endpoint request expected policy response a"
  shows "\<exists>ob. evaluate_static_probe L V index request (Response response) kind timeout pins policy = pass_static L ob"
proof -
  have "evaluate_static_probe L V index request (Response response) kind timeout pins policy
      = judge_static_attestation L index endpoint request expected policy
          (filled L index policy request endpoint expected kind response) response a"
    using r proved unfolding evaluate_in_static_context [OF ctx] Let_def judge_static_response_def filled_def
    by (auto simp: signed_reply_def static_proof_def)
  also have "\<exists>ob. \<dots> = pass_static L ob"
    using proved unfolding judge_static_attestation_def judge_direct_def judge_framed_def Let_def
    by (auto simp: outside_window_def static_proof_def split: if_splits)
  finally show ?thesis .
qed

lemma static_success_has_proof:
  assumes ctx: "static_context L index policy request endpoint expected"
    and ev: "evaluate_static_probe L V index request result kind timeout pins policy = Inr p"
    and ok: "so_outcome p = Success"
  shows "\<exists>response a. result = Response response \<and> pr_latency_millis response \<le> timeout \<and> pinned_leaf pins response
    \<and> static_proof L V index endpoint request expected policy response a"
proof -
  obtain response a where r: "result = Response response" "signed_reply L V endpoint response a"
    and j: "judge_static_attestation L index endpoint request expected policy
           (filled L index policy request endpoint expected kind response) response a = Inr p"
    by (rule attested_verdict [OF ctx ev]) (use ok in blast)+
  have fails: "so_outcome ob = Failure \<Longrightarrow> fail_static L ob c \<noteq> Inr p" for ob c
    using ok by (auto elim!: fail_static_frame)
  have early: "pr_latency_millis response \<le> timeout" "pinned_leaf pins response"
    using ev fails r(2) unfolding r(1) evaluate_in_static_context [OF ctx] Let_def judge_static_response_def
    by (auto simp: signed_reply_def observe_response_def blank_static_def split: if_splits option.splits)
  have version: "public_framing_valid h (case x of None \<Rightarrow> '''' | Some v \<Rightarrow> v) m t n
      \<Longrightarrow> \<exists>v. x = Some v \<and> public_framing_valid h v m t n" for h x m t n
    by (cases x) (auto dest: public_framing_facts(1) simp: known_version_def)
  have "static_proof L V index endpoint request expected policy response a"
    using j r fails version
    unfolding judge_static_attestation_def judge_direct_def judge_framed_def Let_def outside_window_def static_proof_def
    by (auto split: if_splits)
  then show ?thesis using r early by blast
qed

section \<open>Theorems\<close>

text \<open>
  C30: judging a response to an authorized request of a published incarnation ends in a sealed
  observation that satisfies every rule of its own validator, whatever the transport
  returned, with one exception: on the public-framing profile a response with recordable
  headers and a protocol other than HTTP/1.1, HTTP/2 or HTTP/3 makes the evaluator raise,
  where the rest of the code means to record a path failure.
\<close>

theorem static_judgement_total:
  assumes ctx: "static_context L index policy request endpoint expected"
    and sha: "\<forall>s. digest_text (sha256_hex L s)" and tls: "opt_ok digest_text (result_tls result)"
    and st: "case result of TransportFailure f \<Rightarrow> opt_ok (in_range 100 599) (tf_response_status f) | _ \<Rightarrow> True"
  shows "(\<exists>p. evaluate_static_probe L V index request result kind timeout pins policy = Inr p
            \<and> static_observation_validate L p = Inr p)
    \<longleftrightarrow> \<not> (\<exists>response. result = Response response \<and> pr_latency_millis response \<le> timeout
            \<and> in_range 100 599 (pr_status response) \<and> version_unknown policy response)"
proof -
  note o' = blank_open_static [OF ctx sha tls, of kind]
  let ?o = "blank_static index endpoint request expected kind policy result"
  have sealed: "static_observation_validate L p = Inr p"
    if "evaluate_static_probe L V index request result kind timeout pins policy = Inr p" for p
    by (rule evaluate_static_sealed [OF ctx that])
  show ?thesis
  proof (cases "result_latency result > timeout")
    case True
    then have "\<exists>p. evaluate_static_probe L V index request result kind timeout pins policy = Inr p"
      using fail_open_static(1) [OF o' sha, of SfTimeout]
      by (simp add: evaluate_in_static_context [OF ctx] Let_def content_faults_def)
    moreover have "\<not> (\<exists>response. result = Response response \<and> pr_latency_millis response \<le> timeout
            \<and> in_range 100 599 (pr_status response) \<and> version_unknown policy response)" using True by auto
    ultimately show ?thesis using sealed by blast
  next
    case False
    show ?thesis
    proof (cases result)
      case (TransportFailure f)
      have "open_static L (?o\<lparr>so_status := tf_response_status f\<rparr>)"
        using o' st TransportFailure by (simp add: open_static_def measured_def)
      moreover have "static_transport_code (tf_code f) \<notin> content_faults \<union> {SfAttestationFraud}"
        "static_code_attribution (static_transport_code (tf_code f)) = Path"
        by (cases "tf_code f"; simp add: content_faults_def)+
      ultimately have "\<exists>p. evaluate_static_probe L V index request result kind timeout pins policy = Inr p"
        using False TransportFailure fail_open_static(1) [OF _ sha]
        by (simp add: evaluate_in_static_context [OF ctx] Let_def)
      then show ?thesis using sealed TransportFailure by blast
    next
      case (Response response)
      have ev: "evaluate_static_probe L V index request result kind timeout pins policy
          = judge_static_response L V index endpoint request expected pins policy ?o response"
        using False Response by (simp add: evaluate_in_static_context [OF ctx] Let_def)
      have lat: "pr_latency_millis response \<le> timeout" and leaf: "opt_ok digest_text (pr_tls_leaf response)"
        using False Response tls by simp_all
      show ?thesis
      proof (cases "in_range 100 599 (pr_status response) \<and> version_unknown policy response")
        case True
        have "judge_static_response L V index endpoint request expected pins policy ?o response \<noteq> Inr p" for p
          unfolding Response by (rule unknown_version_raises) (use True in simp_all)
        then have "evaluate_static_probe L V index request result kind timeout pins policy \<noteq> Inr p" for p
          by (simp only: ev not_False_eq_True)
        then show ?thesis using True lat Response by blast
      next
        case ok: False
        then have "\<exists>p. judge_static_response L V index endpoint request expected pins policy ?o response = Inr p"
          unfolding Response by (intro judge_static_response_total [OF ctx sha leaf]) blast
        then have "\<exists>p. evaluate_static_probe L V index request result kind timeout pins policy = Inr p"
          by (simp only: ev)
        then show ?thesis using sealed ok Response by blast
      qed
    qed
  qed
qed

text \<open>
  C19: a probe passes exactly on proof. The response came in time, over a pinned certificate where
  certificates are pinned, and the edge marked it as a replica's; the miner's service key
  signed the one attestation it carries, for this nonce, incarnation, site and request, inside
  the time window of the request; the attested status and body are the observed ones and the
  ones the signed index expects, and the attested header digest is the expected one. On a
  direct transport the digest of the observed normative headers is that same digest and no
  forbidden header is present. On public framing the observed headers may differ from the
  attested ones: there the body has the expected length and the delivered protocol and
  headers are well-formed framing of the expected representation.
\<close>

theorem static_success_proved:
  assumes ctx: "static_context L index policy request endpoint expected"
    and ev: "evaluate_static_probe L V index request result kind timeout pins policy = Inr p"
  shows "so_outcome p = Success \<longleftrightarrow>
    (\<exists>response a. result = Response response \<and> pr_latency_millis response \<le> timeout
       \<and> (pins = [] \<or> (\<exists>c\<in>set pins. pr_tls_leaf response = Some c))
       \<and> static_proof L V index endpoint request expected policy response a)"
proof
  assume "so_outcome p = Success"
  then show "\<exists>response a. result = Response response \<and> pr_latency_millis response \<le> timeout
       \<and> pinned_leaf pins response \<and> static_proof L V index endpoint request expected policy response a"
    by (rule static_success_has_proof [OF ctx ev])
next
  assume "\<exists>response a. result = Response response \<and> pr_latency_millis response \<le> timeout
       \<and> pinned_leaf pins response \<and> static_proof L V index endpoint request expected policy response a"
  then obtain ob where "evaluate_static_probe L V index request result kind timeout pins policy = pass_static L ob"
    using static_proof_passes [OF ctx] by blast
  then have "pass_static L ob = Inr p" using ev by simp
  then show "so_outcome p = Success" by (rule pass_static_frame) simp
qed

text \<open>
  C17: blame rests on the miner's own signature. A content fault (the observation that leads to
  quarantine) is attributed to the miner only with an attestation that its service key signed
  for this very request, whose status and body are the observed ones while the observation
  differs from what the signed index expects; fraud is recorded only for an attestation that
  the key signed for this nonce and that names another incarnation, site or request. A signed
  statement about another nonce is a path fault.
\<close>

theorem static_blame_proved:
  assumes ctx: "static_context L index policy request endpoint expected"
    and ev: "evaluate_static_probe L V index request result kind timeout pins policy = Inr p"
  shows "(so_quarantine p \<longrightarrow> (\<exists>response a. result = Response response \<and> signed_reply L V endpoint response a
          \<and> at_probe_nonce a = au_nonce request
          \<and> \<not> foreign_attestation a endpoint (st_site_digest (vi_target index)) (au_validator_hotkey request)
                 (au_method request) (au_path request)
          \<and> at_response_status a = pr_status response \<and> at_response_body a = sha256_hex L (pr_body response)
          \<and> (pr_status response \<noteq> er_status expected \<or> sha256_hex L (pr_body response) \<noteq> er_body_sha256 expected
             \<or> policy = None \<and> at_response_header a \<noteq> er_header_sha256 expected)
          \<and> so_attribution p = Miner))
    \<and> (so_attestation_status p = SaFraudulent \<longrightarrow>
         (\<exists>response a. result = Response response \<and> signed_reply L V endpoint response a
          \<and> so_attestation p = Some a \<and> at_probe_nonce a = au_nonce request
          \<and> foreign_attestation a endpoint (st_site_digest (vi_target index)) (au_validator_hotkey request)
                 (au_method request) (au_path request)))
    \<and> (so_attestation_status p = SaReplayed \<longrightarrow> so_attribution p = Path \<and> \<not> so_quarantine p)"
proof (intro conjI impI)
  assume q: "so_quarantine p"
  obtain response a where r: "result = Response response" "signed_reply L V endpoint response a"
    and j: "judge_static_attestation L index endpoint request expected policy
           (filled L index policy request endpoint expected kind response) response a = Inr p"
    by (rule attested_verdict [OF ctx ev]) (use q in blast)+
  have fails: "c \<notin> content_faults \<Longrightarrow> fail_static L ob c \<noteq> Inr p" for ob c
    using q by (auto elim!: fail_static_frame)
  have passes: "\<not> so_quarantine ob \<Longrightarrow> pass_static L ob \<noteq> Inr p" for ob
    using q by (auto elim!: pass_static_frame)
  have miner: "fail_static L ob c = Inr p \<Longrightarrow> so_attribution p = Miner" for ob c
    using q by (auto elim!: fail_static_frame simp: content_faults_def)
  show "\<exists>response a. result = Response response \<and> signed_reply L V endpoint response a
          \<and> at_probe_nonce a = au_nonce request
          \<and> \<not> foreign_attestation a endpoint (st_site_digest (vi_target index)) (au_validator_hotkey request)
                 (au_method request) (au_path request)
          \<and> at_response_status a = pr_status response \<and> at_response_body a = sha256_hex L (pr_body response)
          \<and> (pr_status response \<noteq> er_status expected \<or> sha256_hex L (pr_body response) \<noteq> er_body_sha256 expected
             \<or> policy = None \<and> at_response_header a \<noteq> er_header_sha256 expected)
          \<and> so_attribution p = Miner"
    using j r fails passes miner
    unfolding judge_static_attestation_def judge_direct_def judge_framed_def Let_def
    by (auto split: if_splits simp: content_faults_def)
next
  assume f: "so_attestation_status p = SaFraudulent"
  obtain response a where r: "result = Response response" "signed_reply L V endpoint response a"
    and j: "judge_static_attestation L index endpoint request expected policy
           (filled L index policy request endpoint expected kind response) response a = Inr p"
    by (rule attested_verdict [OF ctx ev]) (use f in blast)+
  have fails: "so_attestation_status ob \<noteq> SaFraudulent \<Longrightarrow> fail_static L ob c \<noteq> Inr p"
    and passes: "so_attestation_status ob \<noteq> SaFraudulent \<Longrightarrow> pass_static L ob \<noteq> Inr p" for ob c
    using f by (auto elim!: fail_static_frame pass_static_frame)
  have att: "fail_static L ob c = Inr p \<Longrightarrow> so_attestation p = so_attestation ob" for ob c
    by (auto elim!: fail_static_frame)
  show "\<exists>response a. result = Response response \<and> signed_reply L V endpoint response a
          \<and> so_attestation p = Some a \<and> at_probe_nonce a = au_nonce request
          \<and> foreign_attestation a endpoint (st_site_digest (vi_target index)) (au_validator_hotkey request)
                 (au_method request) (au_path request)"
    using j r fails passes att
    unfolding judge_static_attestation_def judge_direct_def judge_framed_def Let_def
    by (auto split: if_splits)
next
  assume f: "so_attestation_status p = SaReplayed"
  obtain response a where r: "result = Response response" "signed_reply L V endpoint response a"
    and j: "judge_static_attestation L index endpoint request expected policy
           (filled L index policy request endpoint expected kind response) response a = Inr p"
    by (rule attested_verdict [OF ctx ev]) (use f in blast)+
  have fails: "so_attestation_status ob \<noteq> SaReplayed \<Longrightarrow> fail_static L ob c \<noteq> Inr p"
    and passes: "so_attestation_status ob \<noteq> SaReplayed \<Longrightarrow> pass_static L ob \<noteq> Inr p" for ob c
    using f by (auto elim!: fail_static_frame pass_static_frame)
  have replay: "\<exists>ob. fail_static L ob SfCacheReplay = Inr p"
    using j fails passes
    unfolding judge_static_attestation_def judge_direct_def judge_framed_def Let_def
    by (auto split: if_splits)
  then show "so_attribution p = Path" by (auto elim!: fail_static_frame)
  from replay show "\<not> so_quarantine p" by (auto elim!: fail_static_frame simp: content_faults_def)
qed

end
