(* ===== verification/StaticCrawl.thy ===== *)
theory StaticCrawl
  imports StaticProbes
begin

text \<open>
  The plans of \<^verbatim>\<open>static_probe.py\<close>: the admission crawl of one incarnation (every route, a
  HEAD of the root and two synthetic paths, in a seed-derived order, all of it or nothing)
  and the hidden probes of an epoch. The digest of an HMAC is kept as its hexadecimal text;
  the search for a synthetic path that is not a route need not end, so that it is a partial
  function into \<open>option\<close>.
\<close>

section \<open>Planned probes and budgets\<close>

record PlannedStaticProbe =
  ps_kind :: probe_kind
  ps_deployment_id :: string
  ps_site_digest :: string
  ps_endpoint_id :: string
  ps_generation :: int
  ps_method :: string
  ps_path :: string
  ps_expected_kind :: response_kind
  ps_expected_length :: int
  ps_index :: int
  ps_fire_at :: "int option"
  ps_nonce :: string

definition planned_static_validate :: "PlannedStaticProbe \<Rightarrow> PlannedStaticProbe res" where
  "planned_static_validate p =
     reject_if (\<not> (dns_label (ps_deployment_id p) \<and> sha_text (ps_site_digest p) \<and> endpoint_text (ps_endpoint_id p)
                   \<and> in_range 1 max_epoch (ps_generation p) \<and> http_method (ps_method p) \<and> health_path (ps_path p)
                   \<and> in_range 0 16777216 (ps_expected_length p) \<and> in_range 0 8195 (ps_index p)
                   \<and> opt_ok (in_range 0 253402300799999) (ps_fire_at p) \<and> digest_text (ps_nonce p)))
       strict_error (Inr p)"

record StaticCrawlBudget =
  cb_max_requests :: int
  cb_max_total_bytes :: int
  cb_max_response_bytes :: int
  cb_request_timeout_millis :: int
  cb_max_duration_millis :: int
  cb_max_concurrent :: int

definition budget_validate :: "StaticCrawlBudget \<Rightarrow> StaticCrawlBudget res" where
  "budget_validate b =
     reject_if (\<not> (in_range 1 8195 (cb_max_requests b) \<and> in_range 1 536870912 (cb_max_total_bytes b)
                   \<and> in_range 1 16777216 (cb_max_response_bytes b) \<and> in_range 100 30000 (cb_request_timeout_millis b)
                   \<and> in_range 1000 900000 (cb_max_duration_millis b) \<and> in_range 1 3 (cb_max_concurrent b)))
       strict_error (Inr b)"

definition route_bytes :: "VerifiedStaticIndex \<Rightarrow> int" where
  "route_bytes index = sum_list (map (\<lambda>(p, f). sf_content_length f) (vi_routes index))"

definition default_static_crawl_budget :: "VerifiedStaticIndex \<Rightarrow> StaticCrawlBudget res" where
  "default_static_crawl_budget index = budget_validate
     \<lparr>cb_max_requests = int (length (vi_routes index)) + 3,
      cb_max_total_bytes = min (route_bytes index + 65536) 536870912, cb_max_response_bytes = 16777216,
      cb_request_timeout_millis = 30000, cb_max_duration_millis = 900000, cb_max_concurrent = 3\<rparr>"

record StaticCrawlRefusal =
  cr_deployment_id :: string
  cr_endpoint_id :: string
  cr_required_requests :: int
  cr_required_bytes :: int

datatype crawl_plan = CrawlPlanned "PlannedStaticProbe list" | CrawlRefused StaticCrawlRefusal

section \<open>Seed-derived values\<close>

definition static_hmac :: "pylib \<Rightarrow> string \<Rightarrow> string \<Rightarrow> (string \<times> json) list \<Rightarrow> string" where
  "static_hmac L seed domain members =
     hmac_sha256_hex L seed (domain @ [CHR 0x00] @ dumps L (JObj members))"

abbreviation admission_domain :: string where
  "admission_domain \<equiv> ''miss.computer/misscomputer-subnet/static-admission-crawl/v1''"

abbreviation hidden_domain :: string where
  "hidden_domain \<equiv> ''miss.computer/misscomputer-subnet/static-hidden-probe/v1''"

definition is_route :: "VerifiedStaticIndex \<Rightarrow> string \<Rightarrow> bool" where
  "is_route index path \<longleftrightarrow> path \<in> fst ` set (vi_routes index)"

text \<open>\<^verbatim>\<open>_synthetic_path\<close>: sixteen bytes of the token as thirty-two digits.\<close>

definition synthetic_text :: "string \<Rightarrow> string \<Rightarrow> string" where
  "synthetic_text token suffix = CHR ''/'' # take 32 token @ suffix"

definition synthetic_path :: "VerifiedStaticIndex \<Rightarrow> string \<Rightarrow> string \<Rightarrow> string option" where
  "synthetic_path index token suffix =
     (if is_route index (synthetic_text token suffix) then None else Some (synthetic_text token suffix))"

definition crawl_token :: "pylib \<Rightarrow> string \<Rightarrow> (string \<times> json) list \<Rightarrow> string \<Rightarrow> int \<Rightarrow> string" where
  "crawl_token L seed base suffix attempt =
     static_hmac L seed admission_domain (base @ [(''attempt'', JInt attempt), (''synthetic'', JStr suffix)])"

partial_function (option) synthetic_search ::
    "pylib \<Rightarrow> string \<Rightarrow> (string \<times> json) list \<Rightarrow> VerifiedStaticIndex \<Rightarrow> string \<Rightarrow> int \<Rightarrow> string option" where
  "synthetic_search L seed base index suffix attempt =
     (case synthetic_path index (crawl_token L seed base suffix attempt) suffix of
        Some path \<Rightarrow> Some path
      | None \<Rightarrow> synthetic_search L seed base index suffix (attempt + 1))"

section \<open>The admission crawl\<close>

definition planned_static ::
    "pylib \<Rightarrow> VerifiedStaticIndex \<Rightarrow> StaticEndpointTarget \<Rightarrow> probe_kind \<Rightarrow> string \<Rightarrow> string \<Rightarrow> int \<Rightarrow> int option \<Rightarrow> string
     \<Rightarrow> PlannedStaticProbe res" where
  "planned_static L index endpoint kind verb path position fire_at nonce =
     res_bind (expected_static_response L index verb path) (\<lambda>expected.
     planned_static_validate
       \<lparr>ps_kind = kind, ps_deployment_id = st_deployment_id (vi_target index),
        ps_site_digest = st_site_digest (vi_target index), ps_endpoint_id = se_endpoint_id endpoint,
        ps_generation = se_generation endpoint, ps_method = verb, ps_path = path, ps_expected_kind = er_kind expected,
        ps_expected_length = er_content_length expected, ps_index = position, ps_fire_at = fire_at, ps_nonce = nonce\<rparr>)"

definition crawl_base ::
    "VerifiedStaticIndex \<Rightarrow> StaticEndpointTarget \<Rightarrow> string \<Rightarrow> int \<Rightarrow> (string \<times> json) list" where
  "crawl_base index endpoint validator crawl_id =
     [(''crawl_id'', JInt crawl_id), (''endpoint_id'', JStr (se_endpoint_id endpoint)),
      (''generation'', JInt (se_generation endpoint)), (''site_digest'', JStr (st_site_digest (vi_target index))),
      (''validator_hotkey'', JStr validator)]"

definition crawl_requests :: "VerifiedStaticIndex \<Rightarrow> string \<Rightarrow> string \<Rightarrow> (string \<times> string) list" where
  "crawl_requests index absent plain =
     map (\<lambda>p. (''GET'', p)) (sort (map fst (vi_routes index)))
     @ [(''HEAD'', ''/''), (''GET'', absent), (''GET'', plain)]"

definition request_size :: "pylib \<Rightarrow> VerifiedStaticIndex \<Rightarrow> string \<times> string \<Rightarrow> int res" where
  "request_size L index r =
     (if fst r = ''GET''
      then res_bind (expected_static_response L index (fst r) (snd r)) (\<lambda>e. Inr (er_content_length e))
      else Inr 0)"

definition over_budget :: "StaticCrawlBudget \<Rightarrow> int list \<Rightarrow> bool" where
  "over_budget budget sizes \<longleftrightarrow>
     int (length sizes) > cb_max_requests budget \<or> sum_list sizes > cb_max_total_bytes budget
     \<or> Max (set sizes) > cb_max_response_bytes budget"

definition crawl_of_requests ::
    "pylib \<Rightarrow> VerifiedStaticIndex \<Rightarrow> StaticEndpointTarget \<Rightarrow> StaticCrawlBudget \<Rightarrow> string \<Rightarrow> (string \<times> json) list
     \<Rightarrow> (string \<times> string) list \<Rightarrow> crawl_plan res" where
  "crawl_of_requests L index endpoint budget seed base requests =
     res_bind (mapM (request_size L index) requests) (\<lambda>sizes.
     if over_budget budget sizes
     then Inr (CrawlRefused \<lparr>cr_deployment_id = st_deployment_id (vi_target index),
            cr_endpoint_id = se_endpoint_id endpoint, cr_required_requests = int (length requests),
            cr_required_bytes = sum_list sizes\<rparr>)
     else
       let key = (\<lambda>(verb, path). static_hmac L seed admission_domain
                    (base @ [(''method'', JStr verb), (''path'', JStr path)]));
           keyed = sort (map (\<lambda>(verb, path). (unhex (key (verb, path)), verb, path)) requests)
       in res_bind (mapM (\<lambda>(position, _, verb, path).
              planned_static L index endpoint AdmissionProbe verb path (int position) None (key (verb, path)))
            (enumerate 0 keyed)) (\<lambda>probes. Inr (CrawlPlanned probes)))"

definition plan_static_admission_crawl ::
    "pylib \<Rightarrow> VerifiedStaticIndex \<Rightarrow> string \<Rightarrow> StaticCrawlBudget \<Rightarrow> string \<Rightarrow> string \<Rightarrow> int \<Rightarrow> crawl_plan res option" where
  "plan_static_admission_crawl L index eid budget seed validator crawl_id =
     (case reject_if (length seed \<noteq> 32) (ValueError ''probe_seed_invalid'')
             (res_bind (budget_validate budget) (\<lambda>_. find_static_endpoint index eid)) of
        Inl e \<Rightarrow> Some (Inl e)
      | Inr endpoint \<Rightarrow>
          let base = crawl_base index endpoint validator crawl_id
          in Option.bind (synthetic_search L seed base index ''.absent'' 0) (\<lambda>absent.
             Option.bind (synthetic_search L seed base index '''' 0) (\<lambda>plain.
             Some (crawl_of_requests L index endpoint budget seed base (crawl_requests index absent plain)))))"

section \<open>Hidden probes\<close>

definition hidden_choice :: "pylib \<Rightarrow> VerifiedStaticIndex \<Rightarrow> string \<Rightarrow> int \<Rightarrow> (string \<times> string) res" where
  "hidden_choice L index selector limit =
     (let bytes = unhex selector; lane = ord (hd bytes) mod 8;
          synthetic = (if lane = 0 then synthetic_path index (drop 32 selector) ''.absent''
                       else if lane = 1 then synthetic_path index (drop 32 selector) '''' else None);
          paths = sort (map fst (vi_routes index));
          chosen = paths ! nat (be_value (take 8 (drop 1 bytes)) mod int (length paths))
      in case synthetic of
           Some path \<Rightarrow>
             res_bind (expected_static_response L index ''GET'' path) (\<lambda>e.
             Inr (if er_content_length e \<le> limit then ''GET'' else ''HEAD'', path))
         | None \<Rightarrow>
             (case map_of (vi_routes index) chosen of
                None \<Rightarrow> Inl (KeyError chosen)
              | Some f \<Rightarrow> Inr (if sf_content_length f \<le> limit then ''GET'' else ''HEAD'', chosen)))"

definition hidden_context ::
    "VerifiedStaticIndex \<Rightarrow> StaticEndpointTarget \<Rightarrow> string \<Rightarrow> int \<Rightarrow> int \<Rightarrow> int \<Rightarrow> (string \<times> json) list" where
  "hidden_context index endpoint validator epoch_index epoch_seconds position =
     [(''endpoint_id'', JStr (se_endpoint_id endpoint)), (''epoch_index'', JInt epoch_index),
      (''epoch_seconds'', JInt epoch_seconds), (''generation'', JInt (se_generation endpoint)),
      (''probe_index'', JInt position), (''site_digest'', JStr (st_site_digest (vi_target index))),
      (''validator_hotkey'', JStr validator)]"

definition plan_static_one ::
    "pylib \<Rightarrow> string \<Rightarrow> string \<Rightarrow> int \<Rightarrow> int \<Rightarrow> int \<Rightarrow> int \<Rightarrow> int \<Rightarrow> int \<Rightarrow> PlannedStaticProbe list
     \<Rightarrow> VerifiedStaticIndex \<times> StaticEndpointTarget \<times> int \<Rightarrow> PlannedStaticProbe list res" where
  "plan_static_one L seed validator epoch_index epoch_seconds probes limit start_epoch end_epoch planned x =
     (let (index, endpoint, position) = x;
          epoch_millis = epoch_seconds * 1000; slot = epoch_millis div probes;
          base = hidden_context index endpoint validator epoch_index epoch_seconds position;
          timing = unhex (static_hmac L seed hidden_domain (base @ [(''purpose'', JStr ''time'')]));
          selector = static_hmac L seed hidden_domain (base @ [(''purpose'', JStr ''request'')]);
          nonce = static_hmac L seed hidden_domain (base @ [(''purpose'', JStr ''nonce'')]);
          fire_at = epoch_index * epoch_millis + position * slot + be_value (take 8 timing) mod slot
      in if \<not> (start_epoch * 1000 \<le> fire_at \<and> fire_at < end_epoch * 1000) then Inr planned
         else res_bind (hidden_choice L index selector limit) (\<lambda>(verb, path).
              res_bind (planned_static L index endpoint HiddenProbe verb path position (Some fire_at) nonce) (\<lambda>p.
              Inr (planned @ [p]))))"

definition static_plan_order :: "PlannedStaticProbe \<Rightarrow> int \<times> string \<times> int" where
  "static_plan_order p =
     ((case ps_fire_at p of None \<Rightarrow> 0 | Some t \<Rightarrow> t), ps_endpoint_id p, ps_index p)"

definition plan_static_hidden_probes ::
    "pylib \<Rightarrow> string \<Rightarrow> string \<Rightarrow> VerifiedStaticIndex list \<Rightarrow> int \<Rightarrow> int \<Rightarrow> int \<Rightarrow> int \<Rightarrow> int \<Rightarrow> int
     \<Rightarrow> PlannedStaticProbe list res" where
  "plan_static_hidden_probes L seed validator indexes epoch_index start_epoch end_epoch epoch_seconds probes limit =
     reject_if (length seed \<noteq> 32) (ValueError ''probe_seed_invalid'')
     (reject_if (\<not> in_range 60 3600 epoch_seconds \<or> \<not> in_range 1 16 probes) (ValueError ''probe_schedule_invalid'')
     (reject_if (epoch_index < 0) (ValueError ''epoch_index_invalid'')
     (reject_if (\<not> in_range 1 1048576 limit) (ValueError ''probe_ceiling_invalid'')
     (res_bind (foldM (plan_static_one L seed validator epoch_index epoch_seconds probes limit start_epoch end_epoch) []
        (concat (map (\<lambda>index. concat (map (\<lambda>e. map (\<lambda>i. (index, e, i)) [0..probes - 1])
           (st_endpoints (vi_target index)))) indexes)))
       (\<lambda>planned. Inr (sort_key static_plan_order planned))))))"

record StaticProbeCoverage =
  pc_deployment_id :: string
  pc_site_digest :: string
  pc_ceiling_bytes :: int
  pc_routes_total :: int
  pc_routes_probed :: int
  pc_bytes_total :: int
  pc_bytes_get_eligible :: int

definition static_probe_coverage ::
    "VerifiedStaticIndex \<Rightarrow> PlannedStaticProbe list \<Rightarrow> int \<Rightarrow> StaticProbeCoverage res" where
  "static_probe_coverage index planned limit =
     (let sizes = map (\<lambda>(p, f). sf_content_length f) (vi_routes index);
          probed = remdups (map ps_path (filter (\<lambda>p. ps_site_digest p = st_site_digest (vi_target index)
                     \<and> is_route index (ps_path p)) planned))
      in reject_if (\<not> (in_range 1 1048576 limit \<and> sizes \<noteq> [])) strict_error
         (Inr \<lparr>pc_deployment_id = st_deployment_id (vi_target index), pc_site_digest = st_site_digest (vi_target index),
            pc_ceiling_bytes = limit, pc_routes_total = int (length sizes), pc_routes_probed = int (length probed),
            pc_bytes_total = sum_list sizes,
            pc_bytes_get_eligible = sum_list (filter (\<lambda>n. n \<le> limit) sizes)\<rparr>))"

section \<open>The search for a synthetic path\<close>

definition synthetic_at :: "pylib \<Rightarrow> string \<Rightarrow> (string \<times> json) list \<Rightarrow> string \<Rightarrow> int \<Rightarrow> string" where
  "synthetic_at L seed base suffix attempt = synthetic_text (crawl_token L seed base suffix attempt) suffix"

text \<open>The loop ends as soon as one derived path is not a route, and never returns a route.\<close>

lemma synthetic_search_ends:
  assumes "\<not> is_route index (synthetic_at L seed base suffix (attempt + int n))"
  shows "\<exists>k\<ge>attempt. synthetic_search L seed base index suffix attempt = Some (synthetic_at L seed base suffix k)
    \<and> \<not> is_route index (synthetic_at L seed base suffix k)"
  using assms
proof (induction n arbitrary: attempt)
  case 0
  then show ?case
    by (intro exI [of _ attempt]) (subst synthetic_search.simps, simp add: synthetic_path_def synthetic_at_def)
next
  case (Suc n)
  show ?case
  proof (cases "is_route index (synthetic_at L seed base suffix attempt)")
    case True
    have "synthetic_search L seed base index suffix attempt = synthetic_search L seed base index suffix (attempt + 1)"
      using True by (subst synthetic_search.simps) (simp add: synthetic_path_def synthetic_at_def)
    moreover have "\<not> is_route index (synthetic_at L seed base suffix (attempt + 1 + int n))"
      using Suc.prems by (simp add: ac_simps)
    ultimately obtain k where "attempt + 1 \<le> k"
      "synthetic_search L seed base index suffix attempt = Some (synthetic_at L seed base suffix k)"
      "\<not> is_route index (synthetic_at L seed base suffix k)" using Suc.IH [of "attempt + 1"] by auto
    then show ?thesis by (intro exI [of _ k]) simp
  next
    case False
    then show ?thesis
      by (intro exI [of _ attempt]) (subst synthetic_search.simps, simp add: synthetic_path_def synthetic_at_def)
  qed
qed

text \<open>A derivation without collisions leaves the table after at most as many attempts as it has routes.\<close>

lemma synthetic_leaves_table:
  assumes "distinct (map (\<lambda>n. synthetic_at L seed base suffix (int n)) [0..<Suc (length (vi_routes index))])"
  shows "\<exists>n\<le>length (vi_routes index). \<not> is_route index (synthetic_at L seed base suffix (int n))"
proof (rule ccontr)
  let ?f = "\<lambda>n. synthetic_at L seed base suffix (int n)"
  assume "\<not> ?thesis"
  then have "?f ` set [0..<Suc (length (vi_routes index))] \<subseteq> fst ` set (vi_routes index)"
    by (auto simp: is_route_def)
  then have "card (?f ` set [0..<Suc (length (vi_routes index))]) \<le> length (vi_routes index)"
    by (metis List.finite_set card_length card_mono finite_imageI length_map list.set_map order_trans)
  moreover have "card (?f ` set [0..<Suc (length (vi_routes index))]) = Suc (length (vi_routes index))"
    using distinct_card [OF assms] by simp
  ultimately show False by simp
qed

section \<open>The crawl is complete\<close>

lemma crawl_requests_mset:
  "mset (crawl_requests index a b)
    = image_mset (Pair ''GET'') (mset (map fst (vi_routes index))) + {#(''HEAD'', ''/''), (''GET'', a), (''GET'', b)#}"
  by (simp add: crawl_requests_def)

lemma hmac_digest: "\<forall>s. digest_text (sha256_hex L s) \<Longrightarrow> digest_text (static_hmac L seed d m)"
  by (simp add: static_hmac_def hmac_sha256_hex_def Let_def)

lemma lower_hex_literal: "lower_hex c \<Longrightarrow> c \<in> set path_literals"
  by (auto simp: lower_hex_def path_literals_def)

lemma literal_segment:
  assumes "set s \<subseteq> set path_literals" and "s \<noteq> []" and "length s \<le> 255" and "s \<notin> {''.'', ''..''}"
  shows "valid_request_segment s"
proof -
  have "valid_escapes s" using assms(1)
  proof (induction s)
    case (Cons c s)
    then show ?case using literal_facts [of c] by (auto simp: ord_percent)
  qed simp
  then show ?thesis using assms valid_escapes_ascii by (simp add: valid_request_segment_def)
qed

lemma synthetic_valid:
  assumes "digest_text t" and "suffix \<in> {''.absent'', ''''}"
  shows "valid_request_path (synthetic_text t suffix)"
proof -
  let ?s = "take 32 t @ suffix"
  have t: "list_all lower_hex (take 32 t)" "length (take 32 t) = 32"
    using assms(1) by (auto simp: digest_text_def list_all_iff dest: in_set_takeD)
  have "set (take 32 t) \<subseteq> set path_literals"
    using t(1) lower_hex_literal unfolding list_all_iff by blast
  moreover have "set suffix \<subseteq> set path_literals"
    using assms(2) unfolding path_literals_def by (elim insertE emptyE) simp_all
  ultimately have lit: "set ?s \<subseteq> set path_literals" by simp
  then have slash: "CHR ''/'' \<notin> set ?s" using literal_facts [of "CHR ''/''"] by (meson subsetD)
  have len: "length ?s \<le> 39" "32 \<le> length ?s" using t(2) assms(2) by auto
  have "count_list (CHR ''/'' # ?s) (CHR ''/'') = 1"
    using slash by (simp add: count_list_0_iff [THEN iffD2])
  then have "split_path (CHR ''/'' # ?s) = Some [?s]"
    using len split_on_none [OF slash] by (simp add: split_path_def starts_with_def)
  moreover have "?s \<notin> {''.'', ''..''}" using len(2) by (auto dest: arg_cong [where f = length])
  then have "valid_request_segment ?s" using lit len by (intro literal_segment) auto
  ultimately show ?thesis by (simp add: synthetic_text_def valid_request_path_iff)
qed

definition crawlable :: "VerifiedStaticIndex \<Rightarrow> bool" where
  "crawlable index \<longleftrightarrow> index_ok index \<and> list_all (\<lambda>f. CHR '' '' \<notin> set (sf_path f)) (sm_files (vi_manifest index))"

lemma crawlable_route:
  assumes "crawlable index" and "is_route index p"
  shows "valid_request_path p"
proof -
  obtain f where "(p, f) \<in> set (vi_routes index)" using assms(2) by (auto simp: is_route_def)
  then have mo: "map_of (routes_of (vi_manifest index)) p = Some f"
    using assms(1) routes_distinct by (auto simp: crawlable_def index_ok_def)
  moreover have ok: "site_ok (vi_manifest index)" using assms(1) by (simp add: crawlable_def index_ok_def)
  ultimately have "f \<in> set (sm_files (vi_manifest index))" "sf_path f = p \<or> index_prefix (sf_path f) = p"
    using routes_map_of by blast+
  then have "CHR '' '' \<notin> set p"
    using assms(1) by (auto simp: crawlable_def list_all_iff index_prefix_def dest: in_set_takeD)
  then show ?thesis by (rule route_requestable [OF ok mo])
qed

lemma root_path: "valid_request_path ''/''"
  by (simp add: valid_request_path_iff split_path_def starts_with_def)

text \<open>Every request of the crawl set is well formed.\<close>

lemma crawl_request_valid:
  assumes "crawlable index" and "\<forall>s. digest_text (sha256_hex L s)"
    and "r \<in> set (crawl_requests index (synthetic_at L seed base ''.absent'' i) (synthetic_at L seed base '''' j))"
  shows "http_method (fst r) \<and> valid_request_path (snd r)"
proof -
  consider p where "r = (''GET'', p)" "is_route index p" | "r = (''HEAD'', ''/'')"
    | "r = (''GET'', synthetic_at L seed base ''.absent'' i)" | "r = (''GET'', synthetic_at L seed base '''' j)"
    using assms(3) by (auto simp: crawl_requests_def is_route_def)
  then show ?thesis
    using crawlable_route [OF assms(1)] synthetic_valid [OF hmac_digest [OF assms(2)]] root_path
    by cases (simp_all add: http_method_def synthetic_at_def crawl_token_def)
qed

lemma planned_static_total:
  assumes ok: "index_ok index" and sha: "\<forall>s. digest_text (sha256_hex L s)"
    and ep: "endpoint \<in> set (st_endpoints (vi_target index))" and m: "http_method verb" and p: "valid_request_path path"
    and n: "digest_text nonce" and i: "in_range 0 8195 position" and f: "opt_ok (in_range 0 253402300799999) fire_at"
  shows "\<exists>q. planned_static L index endpoint kind verb path position fire_at nonce = Inr q
    \<and> ps_method q = verb \<and> ps_path q = path \<and> ps_endpoint_id q = se_endpoint_id endpoint
    \<and> ps_generation q = se_generation endpoint \<and> ps_nonce q = nonce \<and> ps_index q = position"
proof -
  obtain e where e: "expected_static_response L index verb path = Inr e" using expected_total [OF ok p] by blast
  have t: "target_validate (vi_target index) = Inr (vi_target index)" using ok by (simp add: index_ok_def)
  have "endpoint_target_fields endpoint" using t ep by (auto simp: target_validate_def list_all_iff)
  then show ?thesis
    using e t m n i f expected_fields(2) [OF ok sha e] request_path_probeable [OF p]
    by (simp add: planned_static_def planned_static_validate_def endpoint_target_fields_def target_validate_def)
qed

lemma request_sizes_total:
  assumes "index_ok index" and "\<forall>r\<in>set rs. valid_request_path (snd r)"
  shows "\<exists>sizes. mapM (request_size L index) rs = Inr sizes \<and> length sizes = length rs"
  using assms
proof (induction rs)
  case (Cons r rs)
  obtain e where "expected_static_response L index (fst r) (snd r) = Inr e"
    using expected_total [OF Cons.prems(1), of "snd r" L "fst r"] Cons.prems(2) by auto
  then have "\<exists>n. request_size L index r = Inr n" by (auto simp: request_size_def)
  then show ?case using Cons by auto
qed simp

lemma mapM_exists:
  assumes "\<And>x. x \<in> set xs \<Longrightarrow> \<exists>y. f x = Inr y \<and> P x y"
  shows "\<exists>ys. mapM f xs = Inr ys \<and> list_all2 P xs ys"
  using assms
proof (induction xs)
  case (Cons x xs)
  from Cons.prems [of x] obtain y where "f x = Inr y" "P x y" by auto
  moreover obtain ys where "mapM f xs = Inr ys" "list_all2 P xs ys" using Cons.IH Cons.prems by auto
  ultimately show ?case by auto
qed simp

lemma list_all2_map_eq: "list_all2 (\<lambda>x y. g y = h x) xs ys \<Longrightarrow> map g ys = map h xs"
  by (induction rule: list_all2_induct) auto

text \<open>Within the budget the plan is a permutation of the crawl set, in the order of the derived keys.\<close>

lemma crawl_of_requests_planned:
  assumes ok: "index_ok index" and sha: "\<forall>s. digest_text (sha256_hex L s)"
    and ep: "endpoint \<in> set (st_endpoints (vi_target index))"
    and rs: "\<forall>r\<in>set rs. http_method (fst r) \<and> valid_request_path (snd r)"
    and sizes: "mapM (request_size L index) rs = Inr sizes" and fits: "\<not> over_budget budget sizes"
    and budget: "cb_max_requests budget \<le> 8195"
  shows "\<exists>ps. crawl_of_requests L index endpoint budget seed base rs = Inr (CrawlPlanned ps)
    \<and> mset (map (\<lambda>p. (ps_method p, ps_path p)) ps) = mset rs
    \<and> list_all (\<lambda>p. ps_endpoint_id p = se_endpoint_id endpoint \<and> ps_generation p = se_generation endpoint) ps
    \<and> map ps_index ps = map int [0..<length ps]"
proof -
  define key where "key = (\<lambda>(verb, path). static_hmac L seed admission_domain
                    (base @ [(''method'', JStr verb), (''path'', JStr path)]))"
  define keyed where "keyed = sort (map (\<lambda>(verb, path). (unhex (key (verb, path)), verb, path)) rs)"
  have len: "length keyed = length rs" and ms: "mset (map snd keyed) = mset rs"
    unfolding keyed_def by (simp_all add: mset_map [symmetric] comp_def case_prod_beta del: mset_map)
      (simp add: image_mset.compositionality comp_def)
  have "int (length rs) \<le> 8195"
    using fits budget mapM_length [OF sizes] by (simp add: over_budget_def)
  then have pos: "in_range 0 8195 (int i)" if "i < length rs" for i using that by linarith
  let ?plan = "\<lambda>(position, _, verb, path).
      planned_static L index endpoint AdmissionProbe verb path (int position) None (key (verb, path))"
  let ?good = "\<lambda>x q. ps_method q = fst (snd (snd x)) \<and> ps_path q = snd (snd (snd x))
      \<and> ps_endpoint_id q = se_endpoint_id endpoint \<and> ps_generation q = se_generation endpoint
      \<and> ps_index q = int (fst x)"
  have "\<exists>q. ?plan x = Inr q \<and> ?good x q" if x: "x \<in> set (enumerate 0 keyed)" for x
  proof -
    obtain i k verb path where eq: "x = (i, k, verb, path)" by (cases x) auto
    have i: "i < length rs" and "keyed ! i = (k, verb, path)"
      using x unfolding eq by (simp_all add: in_set_enumerate_eq len)
    then have "(k, verb, path) \<in> set keyed" using nth_mem [of i keyed] len by simp
    then have "(verb, path) \<in> set rs" unfolding keyed_def by auto
    then have v: "http_method verb" "valid_request_path path" using rs by auto
    have n: "digest_text (key (verb, path))" unfolding key_def by (simp add: hmac_digest [OF sha])
    show ?thesis
      using planned_static_total [OF ok sha ep v n pos [OF i], of None AdmissionProbe] unfolding eq by auto
  qed
  from mapM_exists [of "enumerate 0 keyed" ?plan ?good, OF this] obtain ps where
    ps: "mapM ?plan (enumerate 0 keyed) = Inr ps" and good: "list_all2 ?good (enumerate 0 keyed) ps" by blast
  have "map (\<lambda>p. (ps_method p, ps_path p)) ps = map (\<lambda>x. snd (snd x)) (enumerate 0 keyed)"
    by (rule list_all2_map_eq [OF list_all2_mono [OF good]]) auto
  also have "\<dots> = map snd keyed" using map_map [of snd snd "enumerate 0 keyed"] by (simp add: comp_def)
  finally have reqs: "mset (map (\<lambda>p. (ps_method p, ps_path p)) ps) = mset rs" using ms by simp
  have idx: "map ps_index ps = map (\<lambda>x. int (fst x)) (enumerate 0 keyed)"
    by (rule list_all2_map_eq [OF list_all2_mono [OF good]]) auto
  have "map (\<lambda>x. int (fst x)) (enumerate 0 keyed) = map int [0..<length ps]"
    using list_all2_lengthD [OF good] map_map [of int fst "enumerate 0 keyed"] by (simp add: comp_def)
  moreover have "list_all (\<lambda>p. ps_endpoint_id p = se_endpoint_id endpoint \<and> ps_generation p = se_generation endpoint) ps"
    using good unfolding list_all_iff by (auto simp: list_all2_conv_all_nth in_set_conv_nth)
  moreover have "crawl_of_requests L index endpoint budget seed base rs = Inr (CrawlPlanned ps)"
    using sizes fits ps unfolding crawl_of_requests_def key_def [symmetric] Let_def keyed_def [symmetric] by simp
  ultimately show ?thesis using reqs idx by auto
qed


section \<open>The default budget\<close>

text \<open>The size of the document served for a path without a dot that is not a route.\<close>

definition unmatched_size :: "VerifiedStaticIndex \<Rightarrow> int" where
  "unmatched_size index =
     (case sm_fallback (vi_manifest index) of None \<Rightarrow> 10
      | Some t \<Rightarrow> (case map_of (vi_routes index) t of None \<Rightarrow> 10 | Some f \<Rightarrow> sf_content_length f))"

lemma synthetic_last_part:
  assumes "digest_text t" and "suffix \<in> {''.absent'', ''''}"
  shows "last_part (CHR ''/'') (synthetic_text t suffix) = take 32 t @ suffix"
    and "CHR ''.'' \<in> set (take 32 t @ suffix) \<longleftrightarrow> suffix = ''.absent''"
proof -
  have t: "\<forall>c\<in>set (take 32 t). lower_hex c"
    using assms(1) by (auto simp: digest_text_def list_all_iff dest: in_set_takeD)
  have s: "CHR ''/'' \<notin> set (take 32 t @ suffix)" "CHR ''.'' \<notin> set (take 32 t)"
  proof -
    have "\<not> lower_hex (CHR ''/'')" "\<not> lower_hex (CHR ''.'')" by (simp_all add: lower_hex_def)
    then have n: "CHR ''/'' \<notin> set (take 32 t)" "CHR ''.'' \<notin> set (take 32 t)" using t by blast+
    moreover have "CHR ''/'' \<notin> set suffix" using assms(2) by (elim insertE emptyE) simp_all
    ultimately show "CHR ''/'' \<notin> set (take 32 t @ suffix)" by simp
    show "CHR ''.'' \<notin> set (take 32 t)" by (rule n(2))
  qed
  have "takeWhile (\<lambda>c. c \<noteq> CHR ''/'') (rev (take 32 t @ suffix) @ ''/'') = rev (take 32 t @ suffix)"
  proof -
    have "\<forall>c\<in>set (rev (take 32 t @ suffix)). c \<noteq> CHR ''/''" using s(1) by (metis set_rev)
    then show ?thesis by (subst takeWhile_append2) simp_all
  qed
  then show "last_part (CHR ''/'') (synthetic_text t suffix) = take 32 t @ suffix"
    by (simp add: last_part_def synthetic_text_def del: rev_append)
  show "CHR ''.'' \<in> set (take 32 t @ suffix) \<longleftrightarrow> suffix = ''.absent''" using s(2) assms(2) by auto
qed

lemma route_size:
  assumes "crawlable index" and "(p, f) \<in> set (vi_routes index)"
  shows "request_size L index (''GET'', p) = Inr (sf_content_length f)"
proof -
  have "valid_request_path p" using crawlable_route [OF assms(1)] assms(2) by (force simp: is_route_def)
  moreover have "map_of (vi_routes index) p = Some f"
    using assms routes_distinct by (auto simp: crawlable_def index_ok_def)
  ultimately show ?thesis
    using request_path_grammars_agree [of p] by (simp add: request_size_def expected_static_response_def expected_response_def)
qed

lemma synthetic_size:
  assumes ok: "index_ok index" and t: "digest_text t" and s: "suffix \<in> {''.absent'', ''''}"
    and n: "\<not> is_route index (synthetic_text t suffix)"
  shows "request_size L index (''GET'', synthetic_text t suffix)
    = Inr (if suffix = ''.absent'' then 10 else unmatched_size index)"
proof -
  let ?p = "synthetic_text t suffix"
  have v: "validate_request_path ?p = Inr ?p"
    using synthetic_valid [OF t s] request_path_grammars_agree [of ?p] by simp
  have none: "map_of (vi_routes index) ?p = None" using n by (simp add: is_route_def map_of_eq_None_iff)
  have ten: "int (length not_found_body) = 10" by (simp add: not_found_body_def)
  note dot = synthetic_last_part [OF t s]
  show ?thesis
  proof (cases "sm_fallback (vi_manifest index)")
    case None
    then show ?thesis
      using v none ten by (simp add: request_size_def expected_static_response_def expected_response_def unmatched_size_def)
  next
    case (Some d)
    obtain f where "map_of (vi_routes index) d = Some f" by (rule fallback_route [OF ok Some])
    then show ?thesis
      using v none ten Some dot
      by (simp add: request_size_def expected_static_response_def expected_response_def unmatched_size_def)
  qed
qed

lemma sum_list_sort: "sum_list (map g (sort xs)) = sum_list (map g xs)"
  for g :: "'a::linorder \<Rightarrow> 'b::comm_monoid_add"
  by (metis mset_map mset_sort sum_mset_sum_list)

lemma mapM_append:
  assumes "mapM f xs = Inr us" and "mapM f ys = Inr vs"
  shows "mapM f (xs @ ys) = Inr (us @ vs)"
  using assms by (simp add: mapM_Inr_iff list_all2_appendI)

lemma crawl_total:
  assumes ok: "crawlable index" and sha: "\<forall>s. digest_text (sha256_hex L s)"
    and a: "\<not> is_route index (synthetic_at L seed base ''.absent'' i)"
    and b: "\<not> is_route index (synthetic_at L seed base '''' j)"
    and m: "mapM (request_size L index)
      (crawl_requests index (synthetic_at L seed base ''.absent'' i) (synthetic_at L seed base '''' j)) = Inr sizes"
  shows "sum_list sizes = route_bytes index + 10 + unmatched_size index"
proof -
  let ?size = "\<lambda>p. case map_of (vi_routes index) p of None \<Rightarrow> 0 | Some f \<Rightarrow> sf_content_length f"
  let ?a = "synthetic_at L seed base ''.absent'' i" and ?b = "synthetic_at L seed base '''' j"
  have io: "index_ok index" using ok by (simp add: crawlable_def)
  have dist: "distinct (map fst (vi_routes index))" using io routes_distinct by (simp add: index_ok_def)
  have "mapM (request_size L index) (map (\<lambda>p. (''GET'', p)) (sort (map fst (vi_routes index))))
      = Inr (map (\<lambda>r. ?size (snd r)) (map (\<lambda>p. (''GET'', p)) (sort (map fst (vi_routes index)))))"
  proof (rule mapM_total)
    fix r :: "string \<times> string"
    assume "r \<in> set (map (\<lambda>p. (''GET'', p)) (sort (map fst (vi_routes index))))"
    then obtain p f where "r = (''GET'', p)" "(p, f) \<in> set (vi_routes index)" by auto
    then show "request_size L index r = Inr (?size (snd r))" using route_size [OF ok] dist by simp
  qed
  moreover have "mapM (request_size L index) [(''HEAD'', ''/''), (''GET'', ?a), (''GET'', ?b)]
      = Inr [0, 10, unmatched_size index]"
    using synthetic_size [OF io hmac_digest [OF sha] _ a [unfolded synthetic_at_def crawl_token_def], of L]
      synthetic_size [OF io hmac_digest [OF sha] _ b [unfolded synthetic_at_def crawl_token_def], of L]
    by (simp add: synthetic_at_def crawl_token_def) (simp add: request_size_def)
  from mapM_append [OF calculation this] have "sizes = map ?size (sort (map fst (vi_routes index))) @ [0, 10, unmatched_size index]"
    using m unfolding crawl_requests_def by (simp add: comp_def)
  then have "sum_list sizes = sum_list (map (?size \<circ> fst) (vi_routes index)) + 10 + unmatched_size index"
    by (simp add: sum_list_sort)
  moreover have "map (?size \<circ> fst) (vi_routes index) = map (\<lambda>(p, f). sf_content_length f) (vi_routes index)"
    using dist by (auto intro!: map_cong)
  ultimately show ?thesis by (simp add: route_bytes_def)
qed

lemma synthetic_search_result:
  assumes "synthetic_search L seed base index suffix attempt = Some p"
  shows "\<exists>k. p = synthetic_at L seed base suffix k \<and> \<not> is_route index p"
  using assms
proof (rule synthetic_search.raw_induct
    [of "\<lambda>L seed base index suffix attempt p. \<exists>k. p = synthetic_at L seed base suffix k \<and> \<not> is_route index p", rotated])
  fix search L seed base index suffix attempt p
  assume hyp: "\<And>L seed base index suffix attempt p. search L seed base index suffix attempt = Some p
      \<Longrightarrow> \<exists>k. p = synthetic_at L seed base suffix k \<and> \<not> is_route index p"
    and step: "(case synthetic_path index (crawl_token L seed base suffix attempt) suffix of
        None \<Rightarrow> search L seed base index suffix (attempt + 1) | Some path \<Rightarrow> Some path) = Some p"
  show "\<exists>k. p = synthetic_at L seed base suffix k \<and> \<not> is_route index p"
    using step hyp [of L seed base index suffix "attempt + 1" p]
    by (auto simp: synthetic_path_def synthetic_at_def split: if_splits)
qed

lemma request_size_bound:
  assumes "index_ok index" and "\<forall>s. digest_text (sha256_hex L s)" and "request_size L index r = Inr n"
  shows "n \<le> 16777216"
  using assms(3) expected_fields(2) [OF assms(1,2)]
  by (cases "expected_static_response L index (fst r) (snd r)") (auto simp: request_size_def split: if_splits)

lemma default_over_budget:
  assumes b: "default_static_crawl_budget index = Inr budget"
    and l: "int (length sizes) = int (length (vi_routes index)) + 3"
    and m: "\<forall>n\<in>set sizes. n \<le> 16777216" and s: "sum_list sizes = route_bytes index + 10 + unmatched_size index"
  shows "over_budget budget sizes \<longleftrightarrow>
    65526 < unmatched_size index \<or> 536870912 < route_bytes index + 10 + unmatched_size index"
proof -
  have budget: "cb_max_requests budget = int (length (vi_routes index)) + 3"
    "cb_max_total_bytes budget = min (route_bytes index + 65536) 536870912" "cb_max_response_bytes budget = 16777216"
    using b by (auto simp: default_static_crawl_budget_def budget_validate_def split: if_splits)
  have "sizes \<noteq> []" using l by auto
  then have "Max (set sizes) \<le> 16777216" using m by simp
  then show ?thesis using budget l s unfolding over_budget_def by (simp add: min_def) arith
qed

section \<open>Hidden probes stay in their slices\<close>

lemma hidden_choice_get:
  assumes "hidden_choice L index selector limit = Inr (''GET'', path)"
    and "expected_static_response L index ''GET'' path = Inr e"
  shows "er_content_length e \<le> limit"
  using assms
  by (auto simp: hidden_choice_def Let_def expected_static_response_def expected_response_def
      split: option.splits if_splits sum.splits)

definition hidden_fits ::
    "VerifiedStaticIndex list \<Rightarrow> int \<Rightarrow> int \<Rightarrow> int \<Rightarrow> int \<Rightarrow> int \<Rightarrow> int \<Rightarrow> PlannedStaticProbe \<Rightarrow> bool" where
  "hidden_fits indexes epoch_index start_epoch end_epoch epoch_seconds probes limit p \<longleftrightarrow>
     (\<exists>index endpoint t. index \<in> set indexes \<and> endpoint \<in> set (st_endpoints (vi_target index))
        \<and> ps_kind p = HiddenProbe \<and> ps_endpoint_id p = se_endpoint_id endpoint
        \<and> ps_generation p = se_generation endpoint \<and> ps_site_digest p = st_site_digest (vi_target index)
        \<and> in_range 0 (probes - 1) (ps_index p) \<and> ps_fire_at p = Some t
        \<and> start_epoch * 1000 \<le> t \<and> t < end_epoch * 1000
        \<and> epoch_index * (epoch_seconds * 1000) + ps_index p * (epoch_seconds * 1000 div probes) \<le> t
        \<and> t < epoch_index * (epoch_seconds * 1000) + (ps_index p + 1) * (epoch_seconds * 1000 div probes)
        \<and> ps_method p \<in> {''GET'', ''HEAD''} \<and> (ps_method p = ''GET'' \<longrightarrow> ps_expected_length p \<le> limit))"

lemma planned_static_Inr:
  assumes "planned_static L index endpoint kind verb path position fire_at nonce = Inr p"
  shows "\<exists>e. expected_static_response L index verb path = Inr e \<and> http_method verb
    \<and> ps_kind p = kind \<and> ps_endpoint_id p = se_endpoint_id endpoint \<and> ps_generation p = se_generation endpoint
    \<and> ps_site_digest p = st_site_digest (vi_target index) \<and> ps_index p = position \<and> ps_fire_at p = fire_at
    \<and> ps_method p = verb \<and> ps_path p = path \<and> ps_expected_length p = er_content_length e"
  using assms by (auto simp: planned_static_def planned_static_validate_def)

lemma hidden_step_fits:
  assumes step: "plan_static_one L seed validator epoch_index epoch_seconds probes limit start_epoch end_epoch planned
      (index, endpoint, i) = Inr planned'"
    and mem: "index \<in> set indexes" "endpoint \<in> set (st_endpoints (vi_target index))" "in_range 0 (probes - 1) i"
    and slot: "0 < epoch_seconds * 1000 div probes" and p: "p \<in> set planned'" "p \<notin> set planned"
  shows "hidden_fits indexes epoch_index start_epoch end_epoch epoch_seconds probes limit p"
proof -
  let ?slot = "epoch_seconds * 1000 div probes"
  obtain r verb path nonce selector where t: "start_epoch * 1000 \<le> epoch_index * (epoch_seconds * 1000) + i * ?slot + r mod ?slot"
      "epoch_index * (epoch_seconds * 1000) + i * ?slot + r mod ?slot < end_epoch * 1000"
    and choice: "hidden_choice L index selector limit = Inr (verb, path)"
    and plan: "planned_static L index endpoint HiddenProbe verb path i
      (Some (epoch_index * (epoch_seconds * 1000) + i * ?slot + r mod ?slot)) nonce = Inr p"
    using step p by (auto simp: plan_static_one_def Let_def case_prod_beta split: if_splits)
  from planned_static_Inr [OF plan] obtain e where e: "expected_static_response L index verb path = Inr e"
    "http_method verb" "ps_kind p = HiddenProbe" "ps_endpoint_id p = se_endpoint_id endpoint"
    "ps_generation p = se_generation endpoint" "ps_site_digest p = st_site_digest (vi_target index)" "ps_index p = i"
    "ps_fire_at p = Some (epoch_index * (epoch_seconds * 1000) + i * ?slot + r mod ?slot)"
    "ps_method p = verb" "ps_expected_length p = er_content_length e" by blast
  have "0 \<le> r mod ?slot" "r mod ?slot < ?slot" using slot by simp_all
  then have "epoch_index * (epoch_seconds * 1000) + i * ?slot + r mod ?slot
      < epoch_index * (epoch_seconds * 1000) + (i + 1) * ?slot" by (simp add: distrib_right)
  moreover have "ps_method p = ''GET'' \<longrightarrow> ps_expected_length p \<le> limit"
    using hidden_choice_get [of L index selector limit path e] choice e by auto
  ultimately show ?thesis
    using e t mem \<open>0 \<le> r mod ?slot\<close> unfolding hidden_fits_def
    by (intro exI [of _ index] exI [of _ endpoint]) (auto simp: http_method_def)
qed

lemma synthetic_search_None:
  assumes "synthetic_search L seed base index suffix 0 = None"
  shows "\<exists>i j. i < j \<and> j \<le> length (vi_routes index)
    \<and> synthetic_at L seed base suffix (int i) = synthetic_at L seed base suffix (int j)"
proof -
  let ?f = "\<lambda>n. synthetic_at L seed base suffix (int n)" and ?n = "length (vi_routes index)"
  have "is_route index (?f n)" for n
    using synthetic_search_ends [of index L seed base suffix 0 n] assms by auto
  then have "\<not> distinct (map ?f [0..<Suc ?n])" using synthetic_leaves_table by blast
  then obtain i j where "i < Suc ?n" "j < Suc ?n" "i \<noteq> j" "?f i = ?f j"
    by (auto simp: distinct_conv_nth simp del: upt_Suc)
  then show ?thesis
    by (cases "i < j") (metis less_Suc_eq_le, metis less_Suc_eq_le linorder_neqE_nat)
qed

text \<open>A crawl over requests that are all well formed is planned or refused, by the budget alone.\<close>

definition crawl_outcome ::
    "pylib \<Rightarrow> VerifiedStaticIndex \<Rightarrow> StaticEndpointTarget \<Rightarrow> StaticCrawlBudget \<Rightarrow> string \<Rightarrow> string \<Rightarrow> crawl_plan \<Rightarrow> bool" where
  "crawl_outcome L index endpoint budget a b plan \<longleftrightarrow>
     (\<exists>sizes. mapM (request_size L index) (crawl_requests index a b) = Inr sizes
       \<and> (case plan of
            CrawlRefused r \<Rightarrow> over_budget budget sizes \<and> cr_required_bytes r = sum_list sizes
          | CrawlPlanned ps \<Rightarrow> \<not> over_budget budget sizes
              \<and> mset (map (\<lambda>p. (ps_method p, ps_path p)) ps)
                  = image_mset (Pair ''GET'') (mset (map fst (vi_routes index)))
                    + {#(''HEAD'', ''/''), (''GET'', a), (''GET'', b)#}
              \<and> list_all (\<lambda>p. ps_endpoint_id p = se_endpoint_id endpoint
                               \<and> ps_generation p = se_generation endpoint) ps
              \<and> map ps_index ps = map int [0..<length ps]))"

lemma crawl_of_requests_outcome:
  assumes ok: "index_ok index" and sha: "\<forall>s. digest_text (sha256_hex L s)"
    and ep: "endpoint \<in> set (st_endpoints (vi_target index))" and max: "cb_max_requests budget \<le> 8195"
    and rs: "\<forall>r\<in>set (crawl_requests index a b). http_method (fst r) \<and> valid_request_path (snd r)"
  shows "\<exists>plan. crawl_of_requests L index endpoint budget seed base (crawl_requests index a b) = Inr plan
    \<and> crawl_outcome L index endpoint budget a b plan"
proof -
  let ?rs = "crawl_requests index a b"
  obtain sizes where sizes: "mapM (request_size L index) ?rs = Inr sizes"
    using request_sizes_total [OF ok, of ?rs L] rs by blast
  show ?thesis
  proof (cases "over_budget budget sizes")
    case True
    then show ?thesis using sizes by (simp add: crawl_of_requests_def crawl_outcome_def)
  next
    case False
    from crawl_of_requests_planned [OF ok sha ep rs sizes False max, of seed base]
    show ?thesis using sizes False by (auto simp: crawl_outcome_def crawl_requests_mset)
  qed
qed

text \<open>A file path with a literal space is a route that cannot be requested: the sizes cannot be computed.\<close>

lemma request_size_raises:
  assumes "index_ok index" and "request_size L index r = Inl e"
  shows "e \<in> range StaticPathError \<and> \<not> valid_request_path (snd r)"
proof -
  have e: "expected_static_response L index (fst r) (snd r) = Inl e"
    using assms(2) by (auto simp: request_size_def res_bind_Inl split: if_splits)
  then have bad: "\<not> valid_request_path (snd r)"
    using expected_total [OF assms(1), of "snd r" L "fst r"] by auto
  then have "validate_request_path (snd r) \<noteq> Inr (snd r)" by (simp add: request_path_grammars_agree)
  then obtain d where "validate_request_path (snd r) = Inl d"
    by (cases "validate_request_path (snd r)") (auto simp: validate_request_path_def)
  then show ?thesis using e bad request_path_raises by (auto simp: expected_static_response_def)
qed

lemma crawl_of_spaced_site:
  assumes ok: "index_ok index" and f: "f \<in> set (sm_files (vi_manifest index))" and space: "CHR '' '' \<in> set (sf_path f)"
  shows "\<exists>e. crawl_of_requests L index endpoint budget seed base (crawl_requests index a b) = Inl e
    \<and> e \<in> range StaticPathError"
proof -
  let ?rs = "crawl_requests index a b"
  have "map_of (vi_routes index) (sf_path f) = Some f"
    using ok f routes_map_of [of "vi_manifest index" "sf_path f" f] by (simp add: index_ok_def)
  then have r: "(''GET'', sf_path f) \<in> set ?rs" by (force simp: crawl_requests_def dest: map_of_SomeD)
  have "\<not> valid_request_path (sf_path f)" using request_path_no_space space by blast
  then have "validate_request_path (sf_path f) \<noteq> Inr q" for q
    using request_path_grammars_agree [of "sf_path f"] by (auto simp: validate_request_path_def)
  then have none: "request_size L index (''GET'', sf_path f) \<noteq> Inr n" for n
    by (auto simp: request_size_def expected_static_response_def)
  obtain e where e: "mapM (request_size L index) ?rs = Inl e"
  proof (cases "mapM (request_size L index) ?rs")
    case (Inr sizes)
    obtain i where i: "i < length ?rs" "?rs ! i = (''GET'', sf_path f)" using r by (auto simp: in_set_conv_nth)
    have all: "list_all2 (\<lambda>x y. request_size L index x = Inr y) ?rs sizes" using Inr by (simp only: mapM_Inr_iff)
    have "request_size L index (?rs ! i) = Inr (sizes ! i)" by (rule list_all2_nthD [OF all i(1)])
    then have "request_size L index (''GET'', sf_path f) = Inr (sizes ! i)" by (simp only: i(2))
    then show ?thesis using none by blast
  qed blast
  from mapM_raises [OF this] obtain r where "request_size L index r = Inl e" by blast
  from request_size_raises [OF ok this] have "e \<in> range StaticPathError" by simp
  then show ?thesis using e by (simp add: crawl_of_requests_def)
qed

section \<open>Theorems\<close>

text \<open>
  C20: an admission crawl is complete, refused, or impossible. For an accepted index, a published
  incarnation, a 32-byte seed and a valid budget, planning has three outcomes. It does not
  return only if the derivation of synthetic paths has a collision: two of the first attempts,
  no more than the number of routes, give the same path. It raises only a path error, and only
  on a site with a file path that holds a literal space, which ingestion accepts. Otherwise,
  on every other site, it refuses exactly when the crawl set exceeds the budget, and plans
  every route with GET, HEAD of the root and two GETs of paths that are not routes, each
  exactly once, in numbered order.
\<close>

theorem admission_crawl_complete:
  assumes ingested: "ingest_static_index L V errors_of t mbs rbs policy pinned = Inr (IndexVerified index)"
    and sha: "\<forall>s. digest_text (sha256_hex L s)" and seed: "length seed = 32"
    and budget: "budget_validate budget = Inr budget"
    and ep: "find_static_endpoint index eid = Inr endpoint"
  shows "case plan_static_admission_crawl L index eid budget seed validator crawl_id of
      None \<Rightarrow> \<exists>suffix i j. suffix \<in> {''.absent'', ''''} \<and> i < j \<and> j \<le> length (vi_routes index)
        \<and> synthetic_at L seed (crawl_base index endpoint validator crawl_id) suffix (int i)
          = synthetic_at L seed (crawl_base index endpoint validator crawl_id) suffix (int j)
    | Some (Inl e) \<Rightarrow> e \<in> range StaticPathError
        \<and> list_ex (\<lambda>f. CHR '' '' \<in> set (sf_path f)) (sm_files (vi_manifest index))
    | Some (Inr plan) \<Rightarrow> \<not> list_ex (\<lambda>f. CHR '' '' \<in> set (sf_path f)) (sm_files (vi_manifest index))
        \<and> (\<exists>a b sizes. \<not> is_route index a \<and> \<not> is_route index b
           \<and> mapM (request_size L index) (crawl_requests index a b) = Inr sizes
           \<and> (case plan of
                CrawlRefused r \<Rightarrow> over_budget budget sizes \<and> cr_required_bytes r = sum_list sizes
              | CrawlPlanned ps \<Rightarrow> \<not> over_budget budget sizes
                  \<and> mset (map (\<lambda>p. (ps_method p, ps_path p)) ps)
                      = image_mset (Pair ''GET'') (mset (map fst (vi_routes index)))
                        + {#(''HEAD'', ''/''), (''GET'', a), (''GET'', b)#}
                  \<and> list_all (\<lambda>p. ps_endpoint_id p = eid \<and> ps_generation p = se_generation endpoint) ps
                  \<and> map ps_index ps = map int [0..<length ps]))"
proof -
  let ?base = "crawl_base index endpoint validator crawl_id" and ?fs = "sm_files (vi_manifest index)"
  let ?run = "plan_static_admission_crawl L index eid budget seed validator crawl_id"
  have io: "index_ok index" using ingested by (rule ingest_verified)
  have e: "endpoint \<in> set (st_endpoints (vi_target index))" "se_endpoint_id endpoint = eid"
    using find_static_endpoint_Inr [OF ep] by simp_all
  have max: "cb_max_requests budget \<le> 8195" using budget by (simp add: budget_validate_def)
  have run: "?run = Option.bind (synthetic_search L seed ?base index ''.absent'' 0) (\<lambda>absent.
      Option.bind (synthetic_search L seed ?base index '''' 0) (\<lambda>plain.
      Some (crawl_of_requests L index endpoint budget seed ?base (crawl_requests index absent plain))))"
    using seed budget ep by (simp add: plan_static_admission_crawl_def Let_def)
  show ?thesis
  proof (cases "\<exists>suffix\<in>{''.absent'', ''''}. synthetic_search L seed ?base index suffix 0 = None")
    case True
    then have "?run = None" unfolding run by (auto split: Option.bind_split)
    moreover obtain suffix where "suffix \<in> {''.absent'', ''''}" "synthetic_search L seed ?base index suffix 0 = None"
      using True by blast
    ultimately show ?thesis using synthetic_search_None [of L seed ?base index suffix] by simp blast
  next
    case False
    then obtain a b where ab: "synthetic_search L seed ?base index ''.absent'' 0 = Some a"
      "synthetic_search L seed ?base index '''' 0 = Some b" by auto
    obtain k l where a: "a = synthetic_at L seed ?base ''.absent'' k" "\<not> is_route index a"
      and b: "b = synthetic_at L seed ?base '''' l" "\<not> is_route index b"
      using synthetic_search_result [OF ab(1)] synthetic_search_result [OF ab(2)] by blast
    have crawl: "?run = Some (crawl_of_requests L index endpoint budget seed ?base (crawl_requests index a b))"
      unfolding run using ab by simp
    show ?thesis
    proof (cases "list_ex (\<lambda>f. CHR '' '' \<in> set (sf_path f)) ?fs")
      case True
      then obtain f where "f \<in> set ?fs" "CHR '' '' \<in> set (sf_path f)" by (auto simp: list_ex_iff)
      from crawl_of_spaced_site [OF io this] obtain err where
        "crawl_of_requests L index endpoint budget seed ?base (crawl_requests index a b) = Inl err"
        "err \<in> range StaticPathError" by blast
      then show ?thesis unfolding crawl using True by simp
    next
      case no_space: False
      then have "crawlable index" using io by (simp add: crawlable_def list_all_iff list_ex_iff)
      then have "\<forall>r\<in>set (crawl_requests index a b). http_method (fst r) \<and> valid_request_path (snd r)"
        using crawl_request_valid [OF _ sha] unfolding a b by blast
      from crawl_of_requests_outcome [OF io sha e(1) max this, of seed ?base] obtain plan where
        "crawl_of_requests L index endpoint budget seed ?base (crawl_requests index a b) = Inr plan"
        "crawl_outcome L index endpoint budget a b plan" by blast
      then show ?thesis unfolding crawl using no_space a(2) b(2) e(2) by (auto simp: crawl_outcome_def)
    qed
  qed
qed

text \<open>
  C29: under the default budget of a site the admission crawl is refused exactly when the document
  served for a path that is not a route is larger than 65526 bytes, or everything together
  exceeds 512 MiB: the default allows for the sum of the routes and 64 KiB, but the crawl
  also fetches the fallback document once more, so that a site with a fallback document
  over that size is never admitted under it.
\<close>

theorem default_crawl_budget_exact:
  assumes ok: "crawlable index" and sha: "\<forall>s. digest_text (sha256_hex L s)"
    and budget: "default_static_crawl_budget index = Inr budget"
    and plan: "plan_static_admission_crawl L index eid budget seed validator crawl_id = Some (Inr plan)"
  shows "(\<exists>r. plan = CrawlRefused r) \<longleftrightarrow>
    65526 < unmatched_size index \<or> 536870912 < route_bytes index + 10 + unmatched_size index"
proof -
  obtain endpoint where ep: "reject_if (length seed \<noteq> 32) (ValueError ''probe_seed_invalid'')
      (res_bind (budget_validate budget) (\<lambda>_. find_static_endpoint index eid)) = Inr endpoint"
    using plan by (auto simp: plan_static_admission_crawl_def split: sum.splits)
  let ?base = "crawl_base index endpoint validator crawl_id"
  obtain a b where ab: "synthetic_search L seed ?base index ''.absent'' 0 = Some a"
      "synthetic_search L seed ?base index '''' 0 = Some b"
    and crawl: "crawl_of_requests L index endpoint budget seed ?base (crawl_requests index a b) = Inr plan"
    using plan ep by (auto simp: plan_static_admission_crawl_def Let_def bind_eq_Some_conv)
  obtain k l where a: "a = synthetic_at L seed ?base ''.absent'' k" "\<not> is_route index a"
    and b: "b = synthetic_at L seed ?base '''' l" "\<not> is_route index b"
    using synthetic_search_result [OF ab(1)] synthetic_search_result [OF ab(2)] by blast
  obtain sizes where m: "mapM (request_size L index) (crawl_requests index a b) = Inr sizes"
    using crawl by (auto simp: crawl_of_requests_def)
  have io: "index_ok index" using ok by (simp add: crawlable_def)
  have "sum_list sizes = route_bytes index + 10 + unmatched_size index"
    using crawl_total [OF ok sha a(2) [unfolded a(1)] b(2) [unfolded b(1)]] m unfolding a(1) b(1) by blast
  moreover have "\<forall>n\<in>set sizes. n \<le> 16777216"
    using mapM_in [OF m] request_size_bound [OF io sha] by metis
  moreover have "int (length sizes) = int (length (vi_routes index)) + 3"
    using mapM_length [OF m] by (simp add: crawl_requests_def)
  ultimately have "over_budget budget sizes \<longleftrightarrow>
      65526 < unmatched_size index \<or> 536870912 < route_bytes index + 10 + unmatched_size index"
    by (intro default_over_budget [OF budget])
  moreover have "(\<exists>r. plan = CrawlRefused r) \<longleftrightarrow> over_budget budget sizes"
    using crawl m by (auto simp: crawl_of_requests_def Let_def split: if_splits)
  ultimately show ?thesis by simp
qed

text \<open>
  The hidden probes of an epoch are spread and bounded: every planned probe goes to a published
  incarnation of a verified index, fires inside its own slice of the epoch and inside the
  horizon, downloads a body only when the expected length is within the ceiling, and the
  plan is in firing order.
\<close>

theorem hidden_probes_scheduled:
  assumes "plan_static_hidden_probes L seed validator indexes epoch_index start_epoch end_epoch epoch_seconds probes limit
      = Inr planned"
  shows "list_all (hidden_fits indexes epoch_index start_epoch end_epoch epoch_seconds probes limit) planned
    \<and> sorted (map static_plan_order planned)"
proof -
  let ?step = "plan_static_one L seed validator epoch_index epoch_seconds probes limit start_epoch end_epoch"
  let ?xs = "concat (map (\<lambda>index. concat (map (\<lambda>e. map (\<lambda>i. (index, e, i)) [0..probes - 1])
           (st_endpoints (vi_target index)))) indexes)"
  obtain ps where ps: "foldM ?step [] ?xs = Inr ps" "planned = sort_key static_plan_order ps"
    and range: "in_range 60 3600 epoch_seconds" "in_range 1 16 probes"
    using assms by (auto simp: plan_static_hidden_probes_def split: if_splits)
  have slot: "0 < epoch_seconds * 1000 div probes"
    using range by (simp add: pos_imp_zdiv_pos_iff)
  have "\<forall>p\<in>set ps. hidden_fits indexes epoch_index start_epoch end_epoch epoch_seconds probes limit p"
    using ps(1)
  proof (rule foldM_invariant [where I = "\<lambda>_ planned. \<forall>p\<in>set planned.
        hidden_fits indexes epoch_index start_epoch end_epoch epoch_seconds probes limit p"])
    fix ys y u u'
    assume inv: "\<forall>p\<in>set u. hidden_fits indexes epoch_index start_epoch end_epoch epoch_seconds probes limit p"
      and y: "y \<in> set ?xs" and step: "?step u y = Inr u'"
    obtain index endpoint i where "y = (index, endpoint, i)" "index \<in> set indexes"
      "endpoint \<in> set (st_endpoints (vi_target index))" "in_range 0 (probes - 1) i" using y by auto
    then show "\<forall>p\<in>set u'. hidden_fits indexes epoch_index start_epoch end_epoch epoch_seconds probes limit p"
      using inv step slot hidden_step_fits by blast
  qed simp
  then show ?thesis using ps(2) by (simp add: list_all_iff)
qed

end
