(* ===== verification/StaticScenario.thy ===== *)
theory StaticScenario
  imports Scenario StaticCrawl
begin

text \<open>
  A small published site and the run of its index, one probe of it and its admission crawl:
  one HTML document that is also the fallback, one incarnation of the miner of theory
  \<^verbatim>\<open>Scenario\<close>. Every digest is sixty-four zeros and every signature verifies, as there; the
  rendering of a document is a letter that tells manifests, releases and attestations apart.
\<close>

section \<open>The site and its index\<close>

definition demo_page :: StaticFile where
  "demo_page = \<lparr>sf_body_sha256 = zeros, sf_content_length = 2, sf_content_type = html_type, sf_path = ''/index.html''\<rparr>"

definition demo_site :: StaticSiteManifest where
  "demo_site = \<lparr>sm_fallback = Some ''/index.html'', sm_files = [demo_page]\<rparr>"

definition demo_release :: StaticSiteRelease where
  "demo_release = \<lparr>rl_issued_at = ''2023-11-14T22:10:50Z'', rl_policy_version = ''static-producer-policy.v3'',
     rl_server_digest = ''sha256:'' @ ones, rl_signature = zeros @ zeros, rl_signer_key_id = ''producer'',
     rl_site_digest = ''sha256:'' @ zeros\<rparr>"

definition demo_release_key :: StaticReleaseKey where
  "demo_release_key = \<lparr>rk_key_id = ''producer'', rk_public_key_hex = ones, rk_valid_from_epoch = 1600000000,
     rk_valid_until_epoch = 1800000000\<rparr>"

definition demo_release_policy :: StaticSiteReleaseTrustPolicy where
  "demo_release_policy = \<lparr>rp_policy_id = ''producers'', rp_trusted_keys = [demo_release_key], rp_digest = zeros\<rparr>"

definition demo_endpoint :: StaticEndpointTarget where
  "demo_endpoint = \<lparr>se_endpoint_id = endpoint_id demo_replica, se_generation = 1, se_miner_uid = 5,
     se_miner_hotkey = ''miner'', se_service_key = ones, se_ticket_digest = ''sha256:'' @ zeros\<rparr>"

definition demo_target :: StaticDeploymentTarget where
  "demo_target = \<lparr>st_deployment_id = ''web'', st_route_host = ''web.apps.example'', st_site_digest = ''sha256:'' @ zeros,
     st_release_digest = ''sha256:'' @ zeros, st_server_digest = ''sha256:'' @ ones, st_endpoints = [demo_endpoint]\<rparr>"

definition demo_index :: VerifiedStaticIndex where
  "demo_index = \<lparr>vi_target = demo_target, vi_manifest = demo_site, vi_release = demo_release, vi_policy_digest = zeros,
     vi_routes = [(''/index.html'', demo_page), (''/'', demo_page)]\<rparr>"

fun demo_render :: "json \<Rightarrow> string" where
  "demo_render (JObj ((k, _) # _)) = (if k = ''fallback'' then ''M'' else if k = ''issued_at'' then ''R'' else ''{}'')"
| "demo_render _ = ''{}''"

definition site_lib :: "MinerProbeAttestationV2 \<Rightarrow> pylib" where
  "site_lib a = \<lparr>sha256_hex = (\<lambda>_. zeros), dumps = demo_render,
     loads = (\<lambda>s. Inr (if s = [CHR ''M'', newline] then site_manifest_document demo_site
        else if s = [CHR ''R'', newline] then release_document demo_release else attestation_document a)),
     iso_utc = (\<lambda>_. True)\<rparr>"

lemma site_lib_simps [simp]:
  "sha256_hex (site_lib a) s = zeros" "sha_json (site_lib a) d = zeros" "dumps (site_lib a) = demo_render"
  by (simp_all add: site_lib_def sha_json_def)

lemma site_lib_loads [simp]:
  "loads (site_lib a) [CHR ''M'', newline] = Inr (site_manifest_document demo_site)"
  "loads (site_lib a) [CHR ''R'', newline] = Inr (release_document demo_release)"
  "loads (site_lib a) ''{}'' = Inr (attestation_document a)"
  by (simp_all add: site_lib_def)

lemma site_lib_sha: "\<forall>s. digest_text (sha256_hex (site_lib a) s)"
  by (simp add: zeros_digest)

lemma demo_paths:
  "valid_file_path ''/index.html''" "valid_request_path ''/health''" "content_type_for_path ''/index.html'' = html_type"
  "py_lower ''/index.html'' = ''/index.html''" "folded_directories ''/index.html'' = []"
  by code_simp+

lemma demo_page_fields: "contract_file_fields demo_page"
  by (simp add: contract_file_fields_def demo_page_def zeros_digest)

lemma demo_site_valid: "contract_manifest_validate demo_site = Inr demo_site"
proof -
  have "site_step ([], []) demo_page = Inr ([''/index.html''], [])"
    using demo_paths by (simp add: site_step_def demo_page_def)
  then have "site_rules demo_site = Inr demo_site"
    by (simp add: site_rules_def demo_site_def sorted_set_def dict_of_def) (simp add: demo_page_def)
  then show ?thesis using demo_page_fields by (simp add: contract_manifest_validate_def demo_site_def)
qed

lemma demo_site_ok: "site_ok demo_site"
  using contract_manifest_ok [OF demo_site_valid] by blast

lemma demo_routes: "routes_of demo_site = [(''/index.html'', demo_page), (''/'', demo_page)]"
  by (simp add: routes_of_def demo_site_def demo_page_def last_part_def index_prefix_def)

lemma demo_target_valid: "target_validate demo_target = Inr demo_target"
  by (simp add: target_validate_def demo_target_def demo_endpoint_def endpoint_target_fields_def demo_texts zeros_digest
      demo_replica_def endpoint_text_def)

lemma demo_index_ok: "index_ok demo_index"
  using demo_site_ok demo_routes demo_target_valid by (simp add: index_ok_def demo_index_def)

section \<open>Ingestion\<close>

lemma demo_release_valid: "release_validate demo_release = Inr demo_release"
proof -
  have "go_utc_timestamp ''2023-11-14T22:10:50Z''" by code_simp
  then show ?thesis
    by (simp add: release_validate_def demo_release_def policy_version_text_def demo_texts zeros_digest)
      (simp add: zeros_def lower_hex_def)
qed

lemma demo_ones_key: "decode_ed25519_public_key_hex ones = Inr (unhex ones)"
proof -
  have u: "unhex ones = replicate 32 (CHR 0x11)" by code_simp
  have "CHR 0x11 \<notin> set (map hd small_order_encodings)" unfolding small_order_heads by (simp add: char_of_def)
  moreover have "hd (take 31 (replicate 32 (CHR 0x11)) @ t) = CHR 0x11" for t by simp
  ultimately have "take 31 (replicate 32 (CHR 0x11)) @ t \<notin> set small_order_encodings" for t
    by (metis image_eqI list.set_map)
  then show ?thesis
    unfolding decode_ed25519_public_key_hex_def u
    by (simp only: zeros_digest validate_ed25519_public_key_bytes_def Let_def reject_if_False simp_thms)
qed

lemma demo_release_policy_valid: "release_policy_validate (site_lib a) demo_release_policy = Inr demo_release_policy"
proof -
  have "release_key_validate demo_release_key = Inr demo_release_key"
    using demo_ones_key by (simp add: release_key_validate_def demo_release_key_def demo_texts zeros_digest)
  then show ?thesis
    by (simp add: release_policy_validate_def demo_release_policy_def demo_texts zeros_digest)
qed

lemma demo_manifest_parsed: "parse_site_manifest (site_lib a) [CHR ''M'', newline] = Inr demo_site"
proof -
  have m: "index_manifest_validate demo_site = Inr demo_site" using demo_site_ok by (simp add: index_manifest_validate_Inr)
  have f: "index_file_validate demo_page = Inr demo_page"
    using demo_site_ok by (simp add: site_ok_def demo_site_def Let_def)
  have "read_static_file (static_file_document demo_page) = Inr demo_page"
    using f by (simp add: read_static_file_def static_file_document_def demo_page_def zeros_digest)
  then have "read_site_manifest (site_manifest_document demo_site) = Inr demo_site"
    using m by (simp add: read_opt_def read_site_manifest_def site_manifest_document_def demo_site_def fallback_document_def read_fallback_def)
  then show ?thesis
    by (simp add: parse_site_manifest_def parse_model_def is_ascii_def site_manifest_bytes_def)
      (simp add: site_manifest_document_def)
qed

lemma demo_release_parsed: "parse_release (site_lib a) [CHR ''R'', newline] = Inr demo_release"
proof -
  have "read_release (release_document demo_release) = Inr demo_release"
    using demo_release_valid
    by (simp add: read_release_def release_document_def release_unsigned_def release_validate_def demo_release_def
        insert_commute)
  then show ?thesis
    using demo_release_valid
    by (simp add: parse_release_def parse_model_def is_ascii_def model_bytes_def)
      (simp add: release_document_def release_unsigned_def)
qed

lemma demo_ingested:
  "ingest_static_index (site_lib a) demo_verify (\<lambda>_. []) demo_target (Some [CHR ''M'', newline]) (Some [CHR ''R'', newline])
     demo_release_policy (''sha256:'' @ ones) = Inr (IndexVerified demo_index)"
proof -
  have "verify_release (site_lib a) demo_verify demo_release demo_release_policy = Inr None"
  proof -
    have r: "rl_signer_key_id demo_release = ''producer''" "rl_issued_at demo_release = ''2023-11-14T22:10:50Z''"
      "rk_key_id demo_release_key = ''producer''" "rk_public_key_hex demo_release_key = ones"
      "rk_valid_from_epoch demo_release_key = 1600000000" "rk_valid_until_epoch demo_release_key = 1800000000"
      by (simp_all add: demo_release_def demo_release_key_def)
    show ?thesis
      by (simp add: verify_release_def demo_release_policy_def first_match_def static_site_release_message_def r
          demo_seconds demo_ones_key demo_release_valid)
  qed
  then show ?thesis
    using demo_routes
    by (simp add: ingest_static_index_def demo_target_valid demo_release_policy_valid demo_manifest_parsed
        demo_release_parsed stored_digest_def Let_def)
      (simp add: demo_target_def demo_release_def demo_index_def demo_release_policy_def)
qed

section \<open>Probes\<close>

definition site_attestation :: "int \<Rightarrow> MinerProbeAttestationV2" where
  "site_attestation status = demo_attestation\<lparr>at_artifact_digest := ''sha256:'' @ zeros, at_response_status := status\<rparr>"

definition site_response :: "int \<Rightarrow> ProbeResponse" where
  "site_response status = demo_response\<lparr>pr_status := status\<rparr>"

definition demo_expected :: ExpectedStaticResponse where
  "demo_expected = \<lparr>er_path = ''/health'', er_method = ''GET'', er_kind = NavigationFallback, er_status = 200,
     er_content_type = html_type, er_content_length = 2, er_body_sha256 = zeros, er_header_sha256 = zeros\<rparr>"

lemma demo_expectation: "expected_static_response (site_lib a) demo_index ''GET'' ''/health'' = Inr demo_expected"
proof -
  have "validate_request_path ''/health'' = Inr ''/health''" using demo_paths(2) request_path_grammars_agree by simp
  then show ?thesis
    by (simp add: expected_static_response_def demo_index_def last_part_def demo_site_def expected_response_def
        response_header_digest_def demo_page_def demo_expected_def)
qed

lemma demo_static_context: "static_context (site_lib a) demo_index None demo_request demo_endpoint demo_expected"
proof -
  have "find_static_endpoint demo_index (au_endpoint_id demo_request) = Inr demo_endpoint"
    by (simp add: find_static_endpoint_def demo_index_def demo_target_def first_match_def demo_endpoint_def demo_request_def)
  moreover have "au_generation demo_request = se_generation demo_endpoint" "au_method demo_request = ''GET''"
    "au_path demo_request = ''/health''" "vi_policy_digest demo_index = zeros"
    by (simp_all add: demo_request_def demo_endpoint_def demo_index_def)
  ultimately show ?thesis
    using demo_index_ok demo_expectation demo_request_valid by (simp add: static_context_def zeros_digest)
qed

lemma site_attestation_valid:
  "in_range 100 599 status \<Longrightarrow> attestation_validate (site_attestation status) = Inr (site_attestation status)"
proof -
  assume s: "in_range 100 599 status"
  have "attestation_fields (site_attestation status)"
    using s demo_attestation_valid by (auto simp: attestation_validate_def attestation_fields_def site_attestation_def
        demo_attestation_def zeros_digest sha_text_def starts_with_def split: if_splits)
  then show ?thesis
    using demo_attestation_valid by (auto simp: attestation_validate_def site_attestation_def split: if_splits)
qed

lemma site_header_parsed:
  assumes "in_range 100 599 status"
  shows "parse_attestation_v2_header (site_lib (site_attestation status)) (b64encode ''{}'') = Inr (site_attestation status)"
proof -
  have "b64encode ''{}'' \<noteq> []" by simp
  moreover have "demo_render (attestation_document (site_attestation status)) = ''{}''"
    by (simp add: attestation_document_def)
  ultimately show ?thesis
    using read_attestation_document [OF site_attestation_valid [OF assms]]
    by (simp add: parse_attestation_v2_header_def length_b64encode is_ascii_def del: b64encode.simps)
qed

lemma site_selectors:
  "pr_status (site_response s) = s" "pr_headers (site_response s) = pr_headers demo_response"
  "pr_latency_millis (site_response s) = 40" "pr_tls_leaf (site_response s) = None"
  "at_probe_nonce (site_attestation s) = au_nonce demo_request"
  "\<not> foreign_attestation (site_attestation s) demo_endpoint (st_site_digest (vi_target demo_index))
     (au_validator_hotkey demo_request) (au_method demo_request) (au_path demo_request)"
  "au_issued_at demo_request = ''2023-11-14T22:10:50Z''" "observed_at (site_attestation s) = ''2023-11-14T22:10:51Z''"
  "at_response_status (site_attestation s) = s" "at_response_body (site_attestation s) = zeros"
  "at_response_header (site_attestation s) = zeros"
  by (simp_all add: site_response_def demo_response_def site_attestation_def demo_attestation_def demo_request_def
      foreign_attestation_def demo_endpoint_def demo_index_def demo_target_def)

text \<open>The judgement of a response with the attested status, and the observation that it ends in.\<close>

lemma site_judged:
  assumes s: "status \<in> {200, 500}"
  shows "\<exists>ob. so_outcome ob = Failure \<and> evaluate_static_probe (site_lib (site_attestation status)) demo_verify demo_index
       demo_request (Response (site_response status)) HiddenProbe 5000 [] None
     = (if status = 200 then pass_static (site_lib (site_attestation status)) ob
        else fail_static (site_lib (site_attestation status)) ob SfStatusMismatch)"
proof -
  let ?L = "site_lib (site_attestation status)" and ?r = "site_response status"
  have hv: "header_values (pr_headers demo_response) ''x-miss-edge-upstream'' = [''replica'']"
    "header_values (pr_headers demo_response) ''x-miss-probe-attestation'' = [b64encode ''{}'']"
    "\<not> has_forbidden_header (pr_headers demo_response)" by code_simp+
  have d: "observed_header_digest (site_lib a) (pr_headers demo_response) = zeros" for a
    by (simp add: observed_header_digest_def response_header_digest_def)
  have e: "er_status demo_expected = 200" "er_body_sha256 demo_expected = zeros" "er_header_sha256 demo_expected = zeros"
    by (simp_all add: demo_expected_def)
  have range: "in_range 100 599 status" using s by auto
  let ?ob = "(observe_response ?L None ?r (blank_static demo_index demo_endpoint demo_request demo_expected HiddenProbe
      None (Response ?r)))\<lparr>so_upstream_marker := True, so_attestation_status := SaVerified,
      so_attestation := Some (site_attestation status)\<rparr>"
  have "so_outcome ?ob = Failure" by (simp add: observe_response_def blank_static_def)
  moreover have "evaluate_static_probe ?L demo_verify demo_index demo_request (Response ?r) HiddenProbe 5000 [] None
      = (if status = 200 then pass_static ?L ?ob else fail_static ?L ?ob SfStatusMismatch)"
    using s range
    unfolding evaluate_in_static_context [OF demo_static_context] Let_def judge_static_response_def
      judge_static_attestation_def judge_direct_def
    by (simp add: site_selectors hv d e site_header_parsed [OF range] verify_miner_probe_attestation_v2_def demo_instants
        outside_window_def del: b64encode.simps)
  ultimately show ?thesis by blast
qed

lemma site_evaluated:
  assumes s: "status \<in> {200, 500}"
  obtains p where "evaluate_static_probe (site_lib (site_attestation status)) demo_verify demo_index demo_request
      (Response (site_response status)) HiddenProbe 5000 [] None = Inr p"
    and "so_outcome p = (if status = 200 then Success else Failure)" and "so_quarantine p = (status = 500)"
proof -
  let ?L = "site_lib (site_attestation status)" and ?r = "site_response status"
  let ?run = "evaluate_static_probe ?L demo_verify demo_index demo_request (Response ?r) HiddenProbe 5000 [] None"
  have "\<exists>p. ?run = Inr p"
    using judge_static_response_total [OF demo_static_context site_lib_sha, of ?r]
    by (simp add: evaluate_in_static_context [OF demo_static_context] Let_def version_unknown_def site_selectors)
  then obtain p where p: "?run = Inr p" by blast
  obtain ob where ob: "so_outcome ob = Failure"
    "?run = (if status = 200 then pass_static ?L ob else fail_static ?L ob SfStatusMismatch)"
    using site_judged [OF s] by blast
  have "so_outcome p = (if status = 200 then Success else Failure)"
    using p ob by (auto elim!: pass_static_frame fail_static_frame split: if_splits)
  moreover have "static_observation_validate ?L p = Inr p"
    using p ob(2) by (auto simp: fail_sealed_static pass_sealed_static split: if_splits)
  then have "so_quarantine p = (case so_failure p of None \<Rightarrow> False | Some c \<Rightarrow> c \<in> content_faults)"
    and "(so_outcome p = Success) = (so_failure p = None)"
    by (auto simp: static_observation_validate_def split: if_splits)
  moreover have "so_failure p = Some SfStatusMismatch" if "status = 500"
  proof -
    have "fail_static ?L ob SfStatusMismatch = Inr p" using p ob(2) that by simp
    then show ?thesis by (elim fail_static_frame) simp
  qed
  ultimately have "so_quarantine p = (status = 500)" using s by (auto simp: content_faults_def)
  then show thesis using that p \<open>so_outcome p = _\<close> by blast
qed

section \<open>The admission crawl\<close>

definition demo_seed :: string where
  "demo_seed = replicate 32 (CHR ''s'')"

definition demo_budget :: StaticCrawlBudget where
  "demo_budget = \<lparr>cb_max_requests = 5, cb_max_total_bytes = 65540, cb_max_response_bytes = 16777216,
     cb_request_timeout_millis = 30000, cb_max_duration_millis = 900000, cb_max_concurrent = 3\<rparr>"

lemma demo_budget_valid: "budget_validate demo_budget = Inr demo_budget"
  by (simp add: budget_validate_def demo_budget_def)

lemma demo_default_budget: "default_static_crawl_budget demo_index = Inr demo_budget"
  by (simp add: default_static_crawl_budget_def budget_validate_def demo_index_def route_bytes_def demo_page_def demo_budget_def)

lemma demo_crawlable: "crawlable demo_index"
  using demo_index_ok by (simp add: crawlable_def) (simp add: demo_index_def demo_site_def demo_page_def)

lemma demo_found: "find_static_endpoint demo_index (se_endpoint_id demo_endpoint) = Inr demo_endpoint"
  by (simp add: find_static_endpoint_def demo_index_def demo_target_def first_match_def)

lemma demo_synthetic:
  "suffix \<in> {''.absent'', ''''} \<Longrightarrow> \<not> is_route demo_index (synthetic_at (site_lib a) seed base suffix i)"
  by (auto simp: is_route_def demo_index_def synthetic_at_def synthetic_text_def crawl_token_def static_hmac_def
      hmac_sha256_hex_def zeros_def Let_def)

lemma demo_crawl_planned:
  "\<exists>ps. plan_static_admission_crawl (site_lib a) demo_index (se_endpoint_id demo_endpoint) demo_budget demo_seed
     ''validator'' 1 = Some (Inr (CrawlPlanned ps))"
proof -
  let ?L = "site_lib a" and ?base = "crawl_base demo_index demo_endpoint ''validator'' 1"
  let ?a = "synthetic_at ?L demo_seed ?base ''.absent'' 0" and ?b = "synthetic_at ?L demo_seed ?base '''' 0"
  have n: "\<not> is_route demo_index ?a" "\<not> is_route demo_index ?b" by (simp_all add: demo_synthetic)
  have rs: "\<forall>r\<in>set (crawl_requests demo_index ?a ?b). http_method (fst r) \<and> valid_request_path (snd r)"
    using crawl_request_valid [OF demo_crawlable site_lib_sha] by blast
  obtain sizes where sizes: "mapM (request_size ?L demo_index) (crawl_requests demo_index ?a ?b) = Inr sizes"
    using request_sizes_total [OF demo_index_ok, of "crawl_requests demo_index ?a ?b" ?L] rs by blast
  have "\<forall>n\<in>set sizes. n \<le> 16777216"
    using mapM_in [OF sizes] request_size_bound [OF demo_index_ok site_lib_sha] by metis
  moreover have "int (length sizes) = int (length (vi_routes demo_index)) + 3"
    using mapM_length [OF sizes] by (simp add: crawl_requests_def)
  moreover note crawl_total [OF demo_crawlable site_lib_sha n sizes]
  moreover have "unmatched_size demo_index = 2" "route_bytes demo_index = 4"
    by (simp_all add: unmatched_size_def route_bytes_def demo_index_def demo_site_def demo_page_def)
  ultimately have "\<not> over_budget demo_budget sizes"
    using default_over_budget [OF demo_default_budget, of sizes] by simp
  moreover have "demo_endpoint \<in> set (st_endpoints (vi_target demo_index))" "cb_max_requests demo_budget \<le> 8195"
    by (simp_all add: demo_index_def demo_target_def demo_budget_def)
  ultimately obtain ps where
    "crawl_of_requests ?L demo_index demo_endpoint demo_budget demo_seed ?base (crawl_requests demo_index ?a ?b)
      = Inr (CrawlPlanned ps)"
    using crawl_of_requests_planned [OF demo_index_ok site_lib_sha _ rs sizes, of demo_endpoint demo_budget demo_seed ?base]
    by blast
  moreover have "synthetic_search ?L demo_seed ?base demo_index suffix 0 = Some (synthetic_at ?L demo_seed ?base suffix 0)"
    if "suffix \<in> {''.absent'', ''''}" for suffix
    using demo_synthetic [OF that] by (subst synthetic_search.simps) (simp add: synthetic_path_def synthetic_at_def)
  ultimately show ?thesis
    using demo_found demo_budget_valid by (simp add: plan_static_admission_crawl_def demo_seed_def Let_def)
qed

section \<open>Witnesses\<close>

theorem static_index_authentic_witness:
  "\<exists>mb rb. authenticated (site_lib (site_attestation 200)) demo_verify demo_target mb rb demo_release_policy
     (''sha256:'' @ ones) demo_index"
  using static_index_authentic [OF demo_ingested [of "site_attestation 200"]] by blast

theorem contract_site_ingestible_witness:
  "index_manifest_validate demo_site = Inr demo_site
   \<and> valid_request_path ''/index.html'' \<and> valid_request_path ''/''"
  using contract_site_ingestible [OF demo_site_valid] unfolding demo_routes by simp

theorem static_judgement_total_witness:
  "\<exists>p. evaluate_static_probe (site_lib (site_attestation 200)) demo_verify demo_index demo_request
       (Response (site_response 200)) HiddenProbe 5000 [] None = Inr p
     \<and> static_observation_validate (site_lib (site_attestation 200)) p = Inr p"
  using static_judgement_total [OF demo_static_context site_lib_sha, of "Response (site_response 200)"]
  by (simp add: version_unknown_def site_selectors)

theorem static_success_proved_witness:
  "\<exists>p response a. evaluate_static_probe (site_lib (site_attestation 200)) demo_verify demo_index demo_request
       (Response (site_response 200)) HiddenProbe 5000 [] None = Inr p
     \<and> so_outcome p = Success
     \<and> static_proof (site_lib (site_attestation 200)) demo_verify demo_index demo_endpoint demo_request demo_expected
         None response a"
proof -
  obtain p where p: "evaluate_static_probe (site_lib (site_attestation 200)) demo_verify demo_index demo_request
      (Response (site_response 200)) HiddenProbe 5000 [] None = Inr p" "so_outcome p = Success"
    by (rule site_evaluated [of 200]) simp_all
  then show ?thesis using static_success_proved [OF demo_static_context p(1)] by blast
qed

theorem static_blame_proved_witness:
  "\<exists>p response a. evaluate_static_probe (site_lib (site_attestation 500)) demo_verify demo_index demo_request
       (Response (site_response 500)) HiddenProbe 5000 [] None = Inr p
     \<and> so_quarantine p \<and> so_attribution p = Miner
     \<and> signed_reply (site_lib (site_attestation 500)) demo_verify demo_endpoint response a"
proof -
  obtain p where p: "evaluate_static_probe (site_lib (site_attestation 500)) demo_verify demo_index demo_request
      (Response (site_response 500)) HiddenProbe 5000 [] None = Inr p" "so_quarantine p"
    by (rule site_evaluated [of 500]) simp_all
  from static_blame_proved [OF demo_static_context p(1)] show ?thesis using p by blast
qed

theorem admission_crawl_complete_witness:
  "\<exists>ps a b. plan_static_admission_crawl (site_lib (site_attestation 200)) demo_index
        (se_endpoint_id demo_endpoint) demo_budget demo_seed ''validator'' 1 = Some (Inr (CrawlPlanned ps))
     \<and> \<not> is_route demo_index a \<and> \<not> is_route demo_index b
     \<and> mset (map (\<lambda>p. (ps_method p, ps_path p)) ps)
         = {#(''GET'', ''/index.html''), (''GET'', ''/''), (''HEAD'', ''/''), (''GET'', a), (''GET'', b)#}"
proof -
  obtain ps where ps: "plan_static_admission_crawl (site_lib (site_attestation 200)) demo_index
      (se_endpoint_id demo_endpoint) demo_budget demo_seed ''validator'' 1 = Some (Inr (CrawlPlanned ps))"
    using demo_crawl_planned by blast
  have table: "vi_routes demo_index = [(''/index.html'', demo_page), (''/'', demo_page)]" by (simp add: demo_index_def)
  have "length demo_seed = 32" by (simp add: demo_seed_def)
  note run = admission_crawl_complete [OF demo_ingested [of "site_attestation 200"] site_lib_sha this
      demo_budget_valid demo_found, where validator = "''validator''" and crawl_id = 1, unfolded ps]
  then obtain a b where "\<not> is_route demo_index a" "\<not> is_route demo_index b"
    "mset (map (\<lambda>p. (ps_method p, ps_path p)) ps) = image_mset (Pair ''GET'') (mset (map fst (vi_routes demo_index)))
      + {#(''HEAD'', ''/''), (''GET'', a), (''GET'', b)#}" by (simp only: option.case sum.case crawl_plan.case) blast
  then show ?thesis
    using ps by (intro exI [of _ ps] exI [of _ a] exI [of _ b]) (simp add: table)
qed

theorem default_crawl_budget_exact_witness:
  "\<exists>plan. plan_static_admission_crawl (site_lib (site_attestation 200)) demo_index (se_endpoint_id demo_endpoint)
       demo_budget demo_seed ''validator'' 1 = Some (Inr plan)
     \<and> default_static_crawl_budget demo_index = Inr demo_budget \<and> \<not> (\<exists>r. plan = CrawlRefused r)"
proof -
  obtain ps where ps: "plan_static_admission_crawl (site_lib (site_attestation 200)) demo_index
      (se_endpoint_id demo_endpoint) demo_budget demo_seed ''validator'' 1 = Some (Inr (CrawlPlanned ps))"
    using demo_crawl_planned by blast
  have "unmatched_size demo_index = 2" "route_bytes demo_index = 4"
    by (simp_all add: unmatched_size_def route_bytes_def demo_index_def demo_site_def demo_page_def)
  then show ?thesis
    using default_crawl_budget_exact [OF demo_crawlable site_lib_sha demo_default_budget ps] ps demo_default_budget by auto
qed

end
