(* ===== verification/Spec2Isabelle.thy ===== *)
theory Spec2Isabelle
  imports Runtime RelayScenario BridgeAuth ChainQuorum StaticScenario
begin

text \<open>
  \<^bold>\<open>What this is.\<close> A verification development for the validator side of the Miss Computer
  subnet (the Python package under \<^verbatim>\<open>src/src/misscomputer_subnet/\<close>): the path on which
  probe observations become scores, scores become a sealed weight decision or a signed
  central checkpoint, a decision becomes a weight plan, and a plan becomes exactly one
  submission to the chain; with the finalized chain reads and the request authentication
  this path rests on.

  \<^bold>\<open>Parts and theories.\<close> Each theory names its functions after the Python ones.

  \<^item> \<open>Prelude\<close>: results with Python exceptions (\<open>'a res\<close>, \<open>exn\<close>), the monadic
    combinators \<open>res_bind\<close>, \<open>reject_if\<close>, \<open>foldM\<close>, \<open>mapM\<close> with their inversion
    rules in the collection \<open>res_simps\<close>, \<open>sorted_set\<close>, digests.
  \<^item> \<open>PyFloat\<close>, \<open>Decimals\<close>: IEEE double values as rationals with rounding to nearest
    even, \<^verbatim>\<open>math.fsum\<close>, the error bounds the weight normalisation needs, and the decimal
    and hexadecimal texts of a double.
  \<^item> \<open>Json\<close>: untyped documents, the validators on them, and the record \<open>pylib\<close> of the
    library functions the code calls on documents (\<^verbatim>\<open>json.dumps\<close> with sorted keys,
    \<^verbatim>\<open>json.loads\<close>, SHA-256, \<^verbatim>\<open>datetime.fromisoformat\<close>). What the proofs need of them is
    the locale \<open>python_library\<close>.
  \<^item> \<open>Sha256\<close>, \<open>CPython\<close>: SHA-256 on 32-bit words, the JSON printer and the JSON
    scanner written out, and the proof that they satisfy \<open>python_library\<close>.
  \<^item> \<open>NetworkIdentity\<close>, \<open>ChainView\<close>: network names, neurons, finalized snapshots and
    their fingerprint (\<^verbatim>\<open>weight_plan.py\<close>, \<^verbatim>\<open>chain.py\<close>).
  \<^item> \<open>ChainQuorum\<close>: the reads of \<^verbatim>\<open>chain.BittensorChain\<close> over one RPC client, the
    agreement of several endpoints in \<^verbatim>\<open>chain_quorum.py\<close>, the choice of independent
    endpoints, and the table of reads in flight that a close drains. The locale
    \<open>monotone_view\<close> is the contract the quorum shares with \<^verbatim>\<open>MetagraphState\<close>.
  \<^item> \<open>WeightPlans\<close>: \<^verbatim>\<open>weight_plan.py\<close> up to the file layer: rows, normalisation, the
    expiry window, the plan document, its digest and its parser.
  \<^item> \<open>ExecutionVectors\<close>, \<open>AuditLedger\<close>, \<open>AuditStore\<close>, \<open>SendOnce\<close>, \<open>Executor\<close>,
    \<open>ExecutorSafety\<close>, \<open>ExecutorProgress\<close>: \<^verbatim>\<open>weight_executor.py\<close>. The vector is derived
    from the plan against the current chain view; the ledger is an append-only list of
    attempts (an inductive step relation \<open>ledger_step\<close> that the store's operations
    refine); a run is a function from its configuration, its inputs (\<open>run_inputs\<close>: what
    files, chain, clock, signer and submitter answer) and the ledger file to a trace of
    effects (\<open>Wrote\<close>, \<open>Sent\<close>) and a result.
  \<^item> \<open>Reconciliation\<close>: \<^verbatim>\<open>weight_reconciliation.py\<close>, the read-only audit of the ledger
    against the chain.
  \<^item> \<open>Contracts\<close>, \<open>Timestamps\<close>: digests, base64, identifiers and UTC timestamps
    (\<^verbatim>\<open>contract_codec.py\<close>, \<^verbatim>\<open>organic_contracts.py\<close>, \<^verbatim>\<open>protocol.py\<close>).
  \<^item> \<open>ManifestChain\<close>: \<^verbatim>\<open>assignment_probe.py\<close>: trust policy, threshold signatures and the
    hash chain of manifest headers.
  \<^item> \<open>OrganicManifests\<close>, \<open>OrganicProbes\<close>, \<open>OrganicScores\<close>, \<open>Decisions\<close>:
    \<^verbatim>\<open>organic_manifest.py\<close>, \<^verbatim>\<open>organic_probe.py\<close>, \<^verbatim>\<open>organic_scoring.py\<close>,
    \<^verbatim>\<open>validator_decision.py\<close>.
  \<^item> \<open>ScoreReports\<close>, \<open>RelayWeights\<close>, \<open>CheckpointRelay\<close>: the central score report of
    \<^verbatim>\<open>checkpoint_score_contracts.py\<close> over a window score, the integer weights by largest
    remainder, and \<^verbatim>\<open>score_checkpoint_relay.py\<close>: checkpoints, their trust policy and
    envelopes, the append-only chain state, the verification steps and the relay plan. The
    locale \<open>append_chain\<close> is what the manifest chain and the checkpoint chain promise.
  \<^item> \<open>BridgeAuth\<close>: \<^verbatim>\<open>auth.py\<close>: HMAC request headers, the two replay stores (the locale
    \<open>replay_guard\<close>), service key bindings and the retrying client.
  \<^item> \<open>StaticPaths\<close>, \<open>StaticIndex\<close>, \<open>StaticProbes\<close>, \<open>StaticCrawl\<close>: static sites. The URL
    grammars and the two validations of a site manifest (\<^verbatim>\<open>static_contracts.py\<close> and
    \<^verbatim>\<open>static_index.py\<close>), signed releases, ingestion and the table of expected responses
    (\<^verbatim>\<open>static_index.py\<close>), the judgement of a response and the sealed observation, the
    admission crawl and the hidden probes (\<^verbatim>\<open>static_probe.py\<close>).
  \<^item> \<open>Scenario\<close>, \<open>RelayScenario\<close>, \<open>StaticScenario\<close>: concrete runs through the pipeline, the
    relay and a static site, which the witnesses use. \<open>Runtime\<close>: the results that rest on the laws of the library,
    stated for the functions of \<open>CPython\<close>, with a plan built, stored and submitted on them.

  \<^bold>\<open>What is shown.\<close> Safety of the submission path: a dry run has no effect, a vector is
  submitted only with the operator's confirmations, on a view that passed the preflight and
  with a ledger that does not bar the plan, at most one vector is ever submitted for a plan, and
  a run that submitted says so. Progress: a run whose checks pass submits. Plans and
  vectors: built values are well formed, expire inside their epoch, weight exactly the
  scored targets, and building succeeds on every valid view. Evidence: fraud is only recorded
  with a signature that proves it, an epoch record is exactly what its observations give,
  does not depend on their order or on the miners' own counters, and replays; a window score
  is an exact mean; a decision submits exactly when its gates are open. Manifests: a sequence
  number is believed once, accepted manifests form a hash chain and are threshold-signed.
  Relay: a relay plan needs a fresh, threshold-signed checkpoint that follows from its report
  and covers the finalized metagraph; its weights add up exactly and keep the order of the
  scores; when the checks accept, the plan is built. Chain reads: an agreed view is exactly
  what every endpoint serves at the lowest finalized head, and never goes back. Bridge: an
  accepted request is not accepted again before the store's clock reaches its expiry, honest
  requests are accepted, the client stops.
  Static sites: the two grammars agree up to a literal space, what the contract accepts the
  index accepts, an accepted index is authentic, success and blame rest on the miner's
  signature, a crawl is complete or refused (or raises on a path with a space), and the default budget refuses exactly the sites
  with a large fallback document.

  \<^bold>\<open>Parameters.\<close> Ed25519 and sr25519 verification (third-party packages) are function
  arguments of the definitions that call them; nothing is assumed of them. The answers of
  the bittensor client, of HTTP and of files are inputs. \<^verbatim>\<open>datetime.fromisoformat\<close> is a
  parameter; the other library functions are parameters of the definitions and written out
  in \<open>CPython\<close>, where the laws the proofs use are proved.

  \<^bold>\<open>Bounds.\<close> Python integers are \<open>int\<close> and their ranges are checked where the code
  checks them; floats are doubles with the rounding written out. All loops of the modelled
  code but one run over given lists or a given number of attempts, so the model is
  structurally recursive and needs no fuel. The exception is the search for a synthetic crawl
  path (\<open>synthetic_search\<close>), a partial function into \<open>option\<close>: \<open>synthetic_search_ends\<close> shows
  that it returns as soon as a derived path is not a route, and \<open>synthetic_search_None\<close> that
  it fails to return only on a collision of derived paths. A quorum read is one atomic step:
  two reads that interleave between the rollback check and the write of the agreed height are
  not modelled, and the number of retries of the bridge client is a natural number. The JSON scanner of \<open>CPython\<close> takes twice the length of the
  text plus one as fuel, and \<open>scan_fuel_enough\<close> proves that this always suffices. JSON
  texts are sequences of code points below 256; the scanner's recursion limit and the limit
  on digits of an integer are not modelled.

  \<^bold>\<open>Not modelled.\<close> The atomic file installation of \<^verbatim>\<open>weight_plan.py\<close> (a write is an input
  that says how far it got), sockets, TLS and the bittensor SDK (their answers are inputs),
  the asyncio tasks that open and close connections, the byte parsers of the relay
  documents, the command lines, the miner and validator services, the epochs, evidence
  and revocation of static scores (\<^verbatim>\<open>static_scoring.py\<close>, \<^verbatim>\<open>static_evidence.py\<close>,
  \<^verbatim>\<open>static_revocation.py\<close>) and the network side of a crawl, release verification, the wallet process, and the Go programs.
\<close>

definition demo_config :: ExecutorConfig where
  "demo_config = \<lparr>ec_plan_path = ''plan.json'', ec_network = ''finney'', ec_netuid = 7,
     ec_validator_hotkey = ''validator'', ec_execute = False, ec_confirm_network = None,
     ec_confirm_netuid = None, ec_confirm_plan_digest = None, ec_audit_state_path = None,
     ec_submission_timeout_seconds = Fin 180, ec_confirm_execution_digest = None, ec_signer_uid = None\<rparr>"

theorem dry_run_no_effect_witness:
  "\<forall>L env disk. fst (run_weight_executor L demo_config env disk) = []"
  by (intro allI dry_run_no_effect) (simp add: demo_config_def)

theorem build_weight_plan_sound_witness:
  "plan_ok demo_lib demo_plan \<and> (\<exists>rs. rows_judged demo_view ''validator'' (plan_rows [demo_row]) rs
     \<and> (\<forall>r \<in> set rs. 0 < snd r \<longrightarrow> fst r \<in> wpe_hotkey ` set (wp_weights demo_plan)))"
  using build_weight_plan_sound [OF demo_plan_built] by blast

theorem build_weight_plan_total_witness:
  "\<exists>p. build_weight_plan demo_lib demo_view ''validator'' (plan_rows [demo_row]) 2 = Inr p"
proof (rule build_weight_plan_total [OF demo_view_ok _ _ _ _ demo_judged])
  show "validator_permitted demo_view ''validator''"
    by (simp add: validator_permitted_def demo_dict) (simp add: demo_view_def)
qed (simp_all add: demo_sorted_targets demo_normal zeros_digest, simp_all add: demo_view_def MAX_BLOCK_def MAX_VERSION_KEY_def)

theorem plan_expiry_window_witness:
  "wp_created_block demo_plan = 1010 \<and> wp_expires_at_block demo_plan \<le> 1010 + max 1 (360 div 4)"
  using plan_expiry_window [OF demo_plan_built] by (simp add: demo_view_def)

theorem parsed_plan_canonical_witness:
  "''{}'' @ [newline] = plan_canonical_bytes plan_lib demo_plan \<and> plan_ok plan_lib demo_plan"
  using parsed_plan_canonical [OF demo_plan_parsed] by blast

theorem derive_execution_vector_sound_witness:
  "\<exists>v. derive_execution_vector demo_lib demo_plan demo_view ''finney'' 24 ''validator'' = Inr v
     \<and> vector_ok demo_lib v \<and> ew_hotkey ` set (ev_weights v) \<inter> ow_hotkey ` set (ev_omitted v) = {}"
proof -
  obtain v where v: "derive_execution_vector demo_lib demo_plan demo_view ''finney'' 24 ''validator'' = Inr v"
    using demo_vector by blast
  have "list_all entry_ok (wp_weights demo_plan)" using demo_plan_wf unfolding plan_wf_def list_all_iff by blast
  from derive_execution_vector_sound [OF v this] show ?thesis using v by (intro exI [of _ v]) (simp only: simp_thms)
qed

theorem derive_execution_vector_total_witness:
  "\<exists>v. derive_execution_vector demo_lib demo_plan demo_view ''finney'' 24 ''validator'' = Inr v"
  by (rule derive_execution_vector_total [OF demo_plan_wf _ demo_preflight])
    (use demo_live demo_normal in \<open>simp_all add: demo_plan_def zeros_digest\<close>)

theorem derive_execution_vector_unchanged_witness:
  "\<exists>v. derive_execution_vector demo_lib demo_plan demo_view ''finney'' 24 ''validator'' = Inr v
     \<and> ev_omitted v = [] \<and> moved_count v = 0"
proof -
  obtain v where v: "derive_execution_vector demo_lib demo_plan demo_view ''finney'' 24 ''validator'' = Inr v"
    using demo_vector by blast
  have "fsum (map wpe_weight (wp_weights demo_plan)) = 1" by (simp add: demo_plan_def fsum_def)
  from derive_execution_vector_unchanged [OF v demo_plan_wf demo_live this] show ?thesis using v by blast
qed

theorem civil_day_counts_days_witness: "civil_day 2024 3 1 = civil_day 2024 2 29 + 1"
proof -
  have v: "valid_date (2024, 2, 29)" by code_simp
  have n: "next_date (2024, 2, 29) = (2024, 3, 1)" by code_simp
  show ?thesis using civil_day_counts_days [OF v] unfolding n by simp
qed

theorem manifest_chain_append_only_witness: "hash_linked [demo_header] \<and> remembers demo_chain [demo_header]"
  by (rule manifest_chain_append_only [OF demo_genesis_built demo_chain_run])

theorem manifest_chain_no_equivocation_witness: "manifest_digest demo_header = zeros"
  using manifest_chain_no_equivocation [OF demo_genesis_built demo_chain_run _ _ demo_reprobe, of demo_header]
  by (simp add: demo_header_def)

theorem manifest_signatures_sound_witness:
  "\<exists>k. counted_signature demo_lib demo_verify demo_header ''message'' demo_policy 1700000100 demo_envelope k"
  using manifest_signatures_sound [OF demo_policy_valid demo_signatures] by simp

theorem manifest_chain_accepts_witness:
  "\<exists>t. advance_manifest_header_chain_state demo_lib demo_genesis demo_header demo_policy = Inr (t, False)
    \<and> chain_successor demo_genesis demo_header t"
proof -
  have s: "chain_state_validate demo_lib demo_genesis = Inr demo_genesis"
    by (simp add: chain_state_validate_def chain_state_fields_def static_subnet_def chain_tail_missing_def
        demo_genesis_def zeros_digest)
  have "header_fields demo_header" by (simp add: header_fields_def demo_header_def zeros_digest)
  from manifest_chain_accepts [OF s demo_policy_valid this] show ?thesis
    by (auto simp: zeros_digest demo_header_def demo_genesis_def demo_policy_def)
qed

theorem manifest_identities_unique_witness: "distinct (map assignment_nonce (all_replicas demo_manifest))"
  using manifest_identities_unique [OF demo_identities] by blast

theorem manifest_horizon_witness: "organic_manifest_valid_at demo_manifest 1700000000"
  unfolding manifest_horizon by (simp add: demo_manifest_def demo_header_def demo_deployment_def demo_replica_def)

theorem organic_manifest_no_equivocation_witness:
  "sha_json demo_lib (JObj (manifest_unsigned demo_manifest)) = md_digest demo_manifest"
  using organic_manifest_no_equivocation [OF demo_genesis_built demo_organic_run _ demo_verified_again, of demo_manifest]
  by simp

theorem organic_manifest_verified_live_witness:
  "1700000100 - issued_at_epoch (header demo_manifest) \<le> max_manifest_age_seconds demo_policy
    \<and> 1700000100 < expires_at_epoch (header demo_manifest)"
  using organic_manifest_verified_live [OF demo_verified] by blast

theorem anchor_remembers_head_witness: "remembers (next_chain demo_verification) [header demo_manifest]"
  using anchor_remembers_head [OF demo_anchored] by blast

theorem probe_judgement_total_witness:
  "\<exists>p. evaluate_organic_probe demo_lib demo_verify demo_manifest demo_policy demo_request (Response demo_response) = Inr p
    \<and> observation_validate demo_lib p = Inr p"
  by (rule probe_judgement_total [OF demo_context]) (simp_all add: zeros_digest demo_response_def)

theorem probe_success_exact_witness: "\<exists>a. attested demo_lib demo_policy demo_response a"
  using probe_success_exact [OF demo_probe demo_context] by (auto simp: demo_observation_def)

theorem probe_fraud_attributable_witness:
  "\<exists>a. verify_miner_probe_attestation_v2 demo_lib demo_verify a (miner_service_public_key demo_replica)"
proof -
  obtain p where p: "evaluate_organic_probe demo_lib demo_verify demo_manifest demo_policy demo_stale_request
      (Response demo_response) = Inr p" "attestation_status p = FraudulentA"
    using demo_fraud by blast
  from probe_fraud_attributable [OF p(1) demo_stale_context p(2)] show ?thesis by blast
qed

theorem hidden_schedule_placed_witness:
  "\<exists>ps. plan_hidden_probes demo_lib (replicate 32 (CHR ''s'')) ''validator'' demo_manifest 5666666 300 1 = Inr ps
     \<and> ps \<noteq> [] \<and> (\<forall>p\<in>set ps. well_placed demo_manifest 5666666 300 1 p)"
  using hidden_schedule_placed [OF demo_schedule] demo_schedule by blast

theorem epoch_record_exact_witness: "row_exact [demo_observation] 1 demo_tally"
  using epoch_record_exact [OF demo_derive] by (simp add: demo_derived_def)

theorem common_mode_excludes_all_witness: "\<not> common_mode [demo_observation]"
  using common_mode_excludes_all [OF demo_derive] by (simp add: demo_derived_def)

theorem corroboration_never_scored_witness:
  "\<exists>d. derive_epoch [demo_observation]
      [\<lparr>sc_endpoint_id = endpoint_id demo_replica, window_start_epoch = 1699999860, window_digest = ones,
        requests = 9, origin = False\<rparr>] 300 5666666 1 = Inr d \<and> epoch_status d = Scored"
  using corroboration_never_scored [OF demo_derive] by (metis demo_derived_def derived_epoch.select_convs(1)
      derived_epoch.surjective derived_epoch.update_convs(5))

theorem scoring_order_independent_witness:
  "score_organic_epoch demo_lib demo_verify [demo_manifest] [demo_observation] ''validator'' 5666666 300 1 [] = Inr demo_epoch"
  by (rule scoring_order_independent [OF _ demo_scored]) simp

theorem sealed_epoch_replays_witness:
  "replay_organic_epoch_score demo_lib demo_verify demo_epoch [demo_manifest] = Inr demo_epoch"
  by (rule sealed_epoch_replays [OF demo_scored])

theorem window_availability_mean_witness:
  "{row_key e | e. e \<in> set (window_rows [demo_epoch]) \<and> disposition e = Eligible} = {(5, ''miner'')}"
proof -
  let ?K = "{row_key e | e. e \<in> set (window_rows [demo_epoch]) \<and> disposition e = Eligible}"
  have "finite ?K" by simp
  then have "set (sorted_list_of_set ?K) = ?K" by (rule set_sorted_list_of_set)
  moreover have "sorted_list_of_set ?K = [(5, ''miner'')]"
    using window_availability_mean [OF demo_aggregate] by (simp add: demo_score_def del: sorted_list_of_set_eq_Nil_iff)
  ultimately show ?thesis by (simp only: list.set)
qed

theorem replay_is_complete_audit_witness:
  "verify_against_manifest demo_lib demo_verify demo_observation (Some demo_manifest) = Inr ()"
  using replay_is_complete_audit [OF demo_replay] by (simp add: demo_epoch_sel)

theorem decision_submits_iff_gates_witness: "\<exists>m. submission_gates demo_lib demo_decision m"
  using decision_submits_iff_gates [OF demo_decision_valid] by (simp add: demo_decision_sel)

theorem decision_follows_from_evidence_witness: "decision_row_exact (window_rows [demo_epoch]) demo_row"
  using decision_follows_from_evidence [OF demo_decision_valid] by (simp add: demo_decision_sel)

theorem plan_only_from_open_decision_witness:
  "eligible_weight_targets demo_view ''validator'' = Inr {(5, ''miner'')} \<and> submit demo_decision"
  using plan_only_from_open_decision [OF demo_plan_from_decision] by (simp add: demo_decision_sel demo_row_def)

theorem submission_completes_witness:
  "\<exists>b c d w summary. run_weight_executor plan_lib sent_config sent_env None
      = ([Wrote b, Wrote c, Sent w, Wrote d], Completed summary) \<and> es_extrinsic_ref summary = Some ''0xab''"
proof -
  obtain v where v: "preflight_stage plan_lib sent_config sent_env = Inr (demo_plan, demo_view, v)"
    "send_check_stage plan_lib sent_config sent_env demo_plan demo_view v = Inr (demo_view, v)"
    by (rule sent_stages)
  from submission_completes [OF v(1) _ sent_opened _ v(2) sent_smooth sent_answered] show ?thesis
    by (fastforce simp: barred_def sent_room zeros_digest)
qed

theorem submission_authorised_witness:
  "\<exists>w. Sent w \<in> set (fst (run_weight_executor plan_lib sent_config sent_env None))
     \<and> authorised plan_lib sent_config sent_env w \<and> vector_ok plan_lib w"
proof -
  obtain b c d w summary where run: "run_weight_executor plan_lib sent_config sent_env None
      = ([Wrote b, Wrote c, Sent w, Wrote d], Completed summary)" by (rule sent_run)
  then have "Sent w \<in> set (fst (run_weight_executor plan_lib sent_config sent_env None))" by simp
  with submission_authorised [OF this] show ?thesis by blast
qed

theorem sent_run_reports_effect_witness:
  "\<exists>es w result. run_weight_executor plan_lib sent_config sent_env None = (es, result) \<and> Sent w \<in> set es
     \<and> (\<exists>summary. result = Completed summary \<and> es_mode summary = Execute)"
proof -
  obtain b c d w summary where run: "run_weight_executor plan_lib sent_config sent_env None
      = ([Wrote b, Wrote c, Sent w, Wrote d], Completed summary)" by (rule sent_run)
  have "safe_answer (in_submit sent_env)" using sent_ref by (simp add: sent_answered safe_answer_def sent_answer_def)
  from sent_run_reports_effect [OF run _ this, of w] run show ?thesis by auto
qed

end
